(* ===== verification/Prelude.thy ===== *)
theory Prelude
  imports Complex_Main "HOL-Library.Sublist"
begin

text \<open>
  Shared vocabulary of the development: the theorem collections that carry the component
  proofs, the list functions that stand for the queries of the repositories
  (\<open>.first()\<close>, primary-key lookup, attribute assignment on one row) with their laws,
  and facts on sums over tables.

  A table is the list of its rows in insertion order. A row is found by its key (the
  primary key column, a selector of the row's record).
\<close>

named_theorems wp \<open>weakest preconditions of the session monad\<close>
named_theorems row_simps \<open>laws of the generic table operations\<close>
named_theorems frame \<open>which tables an operation leaves alone\<close>

type_synonym uuid = nat

section \<open>Queries over tables\<close>

text \<open>\<open>session.scalars(stmt).first()\<close>: the first row of a result, or \<open>None\<close>.\<close>

definition first :: "'a list \<Rightarrow> 'a option" where
  "first xs = (case xs of [] \<Rightarrow> None | x # _ \<Rightarrow> Some x)"

lemma first_Nil [simp]: "first [] = None"
  by (simp add: first_def)

lemma first_Cons [simp]: "first (x # xs) = Some x"
  by (simp add: first_def)

lemma first_None_iff [simp]: "first xs = None \<longleftrightarrow> xs = []"
  by (cases xs) simp_all

lemma first_SomeD: "first xs = Some x \<Longrightarrow> x \<in> set xs"
  by (cases xs) simp_all

lemma first_filter_SomeD: "first (filter P xs) = Some x \<Longrightarrow> x \<in> set xs \<and> P x"
  by (auto dest!: first_SomeD)

lemma first_filter_NoneD: "first (filter P xs) = None \<Longrightarrow> x \<in> set xs \<Longrightarrow> \<not> P x"
  by (auto simp: filter_empty_conv)

text \<open>Primary-key lookup (\<open>Session.get\<close>) and assignment to the attributes of one row.\<close>

definition find_row :: "('r \<Rightarrow> uuid) \<Rightarrow> uuid \<Rightarrow> 'r list \<Rightarrow> 'r option" where
  "find_row key k rs = first (filter (\<lambda>r. key r = k) rs)"

definition upd_row :: "('r \<Rightarrow> uuid) \<Rightarrow> uuid \<Rightarrow> ('r \<Rightarrow> 'r) \<Rightarrow> 'r list \<Rightarrow> 'r list" where
  "upd_row key k f rs = map (\<lambda>r. if key r = k then f r else r) rs"

lemma find_row_Nil [simp]: "find_row key k [] = None"
  by (simp add: find_row_def)

lemma find_row_Cons:
  "find_row key k (r # rs) = (if key r = k then Some r else find_row key k rs)"
  by (simp add: find_row_def)

lemma find_row_SomeD: "find_row key k rs = Some r \<Longrightarrow> r \<in> set rs \<and> key r = k"
  unfolding find_row_def by (rule first_filter_SomeD)

lemma find_row_key: "find_row key k xs = Some r \<Longrightarrow> key r = k"
  by (auto dest: find_row_SomeD)

lemma find_row_append:
  "find_row key k (rs @ ss) =
     (case find_row key k rs of None \<Rightarrow> find_row key k ss | Some r \<Rightarrow> Some r)"
  by (induction rs) (simp_all add: find_row_Cons)

lemma find_row_None_iff: "find_row key k rs = None \<longleftrightarrow> k \<notin> key ` set rs"
  by (auto simp: find_row_def filter_empty_conv)

lemma find_row_unique:
  "distinct (map key rs) \<Longrightarrow> r \<in> set rs \<Longrightarrow> find_row key (key r) rs = Some r"
  by (induction rs) (auto simp: find_row_Cons)

lemma find_row_iff:
  "distinct (map key rs) \<Longrightarrow> find_row key k rs = Some r \<longleftrightarrow> r \<in> set rs \<and> key r = k"
  by (auto dest: find_row_SomeD find_row_unique)

lemma upd_row_Nil [simp]: "upd_row key k f [] = []"
  by (simp add: upd_row_def)

lemma length_upd_row [simp]: "length (upd_row key k f rs) = length rs"
  by (simp add: upd_row_def)

lemma upd_row_append [simp]: "upd_row key k f (rs @ ss) = upd_row key k f rs @ upd_row key k f ss"
  by (simp add: upd_row_def)

lemma upd_row_upd_row:
  "(\<And>r. key (f r) = key r) \<Longrightarrow> upd_row key k g (upd_row key k f rs) = upd_row key k (\<lambda>r. g (f r)) rs"
  by (simp add: upd_row_def)

lemma upd_row_comp:
  "(\<And>r. key (f r) = key r) \<Longrightarrow> upd_row key k g \<circ> upd_row key k f = upd_row key k (\<lambda>r. g (f r))"
  by (rule ext) (simp add: upd_row_upd_row)

lemma upd_row_absent: "k \<notin> key ` set rs \<Longrightarrow> upd_row key k f rs = rs"
  by (induction rs) (auto simp: upd_row_def)

lemma set_upd_row:
  "set (upd_row key k f rs) = f ` {r \<in> set rs. key r = k} \<union> {r \<in> set rs. key r \<noteq> k}"
  by (auto simp: upd_row_def image_iff)

lemma map_key_upd_row:
  "(\<And>r. key (f r) = key r) \<Longrightarrow> map key (upd_row key k f rs) = map key rs"
  by (induction rs) (auto simp: upd_row_def)

lemma keys_upd_row:
  "(\<And>r. key (f r) = key r) \<Longrightarrow> key ` set (upd_row key k f rs) = key ` set rs"
  using map_key_upd_row [of key f k rs] by (metis list.set_map)

lemma find_upd_row:
  assumes "\<And>r. key (f r) = key r"
  shows "find_row key j (upd_row key k f rs) =
           (if j = k then map_option f (find_row key j rs) else find_row key j rs)"
  using assms by (induction rs) (auto simp: upd_row_def find_row_Cons)

text \<open>
  A list aggregated over its rows (\<open>func.sum\<close>): what one attribute assignment does to
  the total, when keys are unique.
\<close>

lemma sum_list_upd_row:
  fixes g :: "'r \<Rightarrow> int"
  assumes "distinct (map key rs)" and "r \<in> set rs" and "key r = k"
  shows "sum_list (map g (upd_row key k f rs)) = sum_list (map g rs) - g r + g (f r)"
  using assms
proof (induction rs)
  case Nil
  then show ?case by simp
next
  case (Cons x rs)
  show ?case
  proof (cases "key x = k")
    case True
    with Cons.prems have "x = r" and "k \<notin> key ` set rs"
      by (auto simp: image_iff)
    then have "upd_row key k f rs = rs" by (simp add: upd_row_absent)
    with True \<open>x = r\<close> show ?thesis by (simp add: upd_row_def)
  next
    case False
    with Cons show ?thesis by (auto simp: upd_row_def)
  qed
qed

lemma sum_list_upd_row_same:
  fixes g :: "'r \<Rightarrow> int"
  assumes "\<And>r. r \<in> set rs \<Longrightarrow> key r = k \<Longrightarrow> g (f r) = g r"
  shows "sum_list (map g (upd_row key k f rs)) = sum_list (map g rs)"
  using assms by (induction rs) (auto simp: upd_row_def)

lemma sum_list_filter_if:
  fixes g :: "'r \<Rightarrow> int"
  shows "sum_list (map g (filter P rs)) = sum_list (map (\<lambda>r. if P r then g r else 0) rs)"
  by (induction rs) simp_all

lemma sum_list_nonneg_int:
  fixes g :: "'r \<Rightarrow> int"
  shows "(\<And>r. r \<in> set rs \<Longrightarrow> 0 \<le> g r) \<Longrightarrow> 0 \<le> sum_list (map g rs)"
  by (induction rs) (auto intro: add_nonneg_nonneg)

lemma sum_list_uminus:
  fixes g :: "'r \<Rightarrow> int"
  shows "sum_list (map (\<lambda>r. - g r) rs) = - sum_list (map g rs)"
  by (induction rs) simp_all

lemma sum_list_diff:
  fixes f g :: "'r \<Rightarrow> int"
  shows "sum_list (map (\<lambda>r. f r - g r) rs) = sum_list (map f rs) - sum_list (map g rs)"
  by (induction rs) simp_all

text \<open>A total split by a key (\<open>GROUP BY\<close>): the groups add up to the whole.\<close>

lemma sum_list_by_key:
  fixes g :: "'r \<Rightarrow> int"
  assumes "distinct ks" and "key ` set xs \<subseteq> set ks"
  shows "sum_list (map (\<lambda>k. sum_list (map g (filter (\<lambda>x. key x = k) xs))) ks) = sum_list (map g xs)"
  using assms(2)
proof (induction xs)
  case Nil
  then show ?case by simp
next
  case (Cons x xs)
  have none: "key x \<notin> set ks \<Longrightarrow> sum_list (map (\<lambda>k. if key x = k then g x else 0) ks) = 0" for ks
    by (induction ks) auto
  have pick: "sum_list (map (\<lambda>k. if key x = k then g x else 0) ks) = g x"
    if "distinct ks" "key x \<in> set ks" for ks
    using that by (induction ks) (auto simp: none)
  have "sum_list (map (\<lambda>k. sum_list (map g (filter (\<lambda>x. key x = k) (x # xs)))) ks) =
      sum_list (map (\<lambda>k. (if key x = k then g x else 0) +
        sum_list (map g (filter (\<lambda>x. key x = k) xs))) ks)"
    by (rule arg_cong [where f = sum_list]) (simp cong: map_cong)
  also have "\<dots> = g x + sum_list (map g xs)"
    using Cons pick [OF assms(1)] by (simp add: sum_list_addf)
  finally show ?case by simp
qed

section \<open>Rows by key, as an interface\<close>

text \<open>
  Every repository offers the same contract over its table: a row that was inserted is
  found under its key, an assignment changes that row and no other. A table is a field of
  the database record with its getter, its field update and its key. The contract is
  stated once, over any database type, and interpreted for each table of the model.
\<close>

locale keyed_table =
  fixes tab :: "'d \<Rightarrow> 'r list"
    and upd :: "('r list \<Rightarrow> 'r list) \<Rightarrow> 'd \<Rightarrow> 'd"
    and key :: "'r \<Rightarrow> uuid"
  assumes tab_upd: "tab (upd f d) = f (tab d)"
begin

lemma find_after_append:
  "key r \<notin> key ` set (tab d) \<Longrightarrow>
     find_row key (key r) (tab (upd (\<lambda>t. t @ [r]) d)) = Some r"
  by (simp add: tab_upd find_row_append find_row_Cons find_row_None_iff [THEN iffD2])

lemma find_other_after_append:
  "k \<noteq> key r \<Longrightarrow> find_row key k (tab (upd (\<lambda>t. t @ [r]) d)) = find_row key k (tab d)"
  by (simp add: tab_upd find_row_append find_row_Cons split: option.splits)

lemma find_after_assign:
  assumes "\<And>r. key (f r) = key r" and "find_row key k (tab d) = Some r"
  shows "find_row key k (tab (upd (upd_row key k f) d)) = Some (f r)"
  using assms by (simp add: tab_upd find_upd_row)

lemma find_other_after_assign:
  assumes "\<And>r. key (f r) = key r" and "j \<noteq> k"
  shows "find_row key j (tab (upd (upd_row key k f) d)) = find_row key j (tab d)"
  using assms by (simp add: tab_upd find_upd_row)

lemma keys_after_assign:
  assumes "\<And>r. key (f r) = key r"
  shows "map key (tab (upd (upd_row key k f) d)) = map key (tab d)"
  using assms by (simp add: tab_upd map_key_upd_row)

lemma distinct_after_append:
  "distinct (map key (tab d)) \<Longrightarrow> key r \<notin> key ` set (tab d) \<Longrightarrow>
     distinct (map key (tab (upd (\<lambda>t. t @ [r]) d)))"
  by (simp add: tab_upd)

end

end
