(* ===== verification/Enums.thy ===== *)
theory Enums
  imports Prelude
begin

text \<open>
  The controlled values of \<open>app/models/enums.py\<close>, one datatype per \<open>StrEnum\<close> with the
  source's members, and the string a member is stored and printed as (\<open>.value\<close>).
\<close>

datatype chama_status = CH_PENDING | CH_ACTIVE | CH_SUSPENDED | CH_DISSOLVED | CH_INACTIVE

datatype membership_status = MS_ACTIVE | MS_INACTIVE

datatype registration_fee_status = FEE_OWED | FEE_WAIVED | FEE_PAID

datatype registration_fee_payment_status = FP_CONFIRMED | FP_REVERSED

datatype loan_status =
    LN_DRAFT | LN_SUBMITTED | LN_APPROVED | LN_DISBURSED | LN_PARTIALLY_REPAID
  | LN_REPAID | LN_REJECTED | LN_CANCELLED

datatype loan_repayment_status = RP_CONFIRMED | RP_REVERSED

datatype payout_status =
    PO_REQUESTED | PO_APPROVED | PO_PROCESSING | PO_COMPLETED | PO_REJECTED | PO_FAILED | PO_REVERSED

datatype contribution_status = CN_PENDING | CN_CONFIRMED | CN_REVERSED

datatype share_status = SH_ACTIVE | SH_REVERSED

datatype role_name = CHAIRPERSON | TREASURER | SECRETARY | MEMBER | PLATFORM_ADMIN

datatype notification_channel = IN_APP

datatype ledger_account_type = ASSET | LIABILITY | EQUITY | REVENUE | EXPENSE

datatype provider_code = JENGA | DARAJA

datatype payment_environment = SANDBOX | PRODUCTION

datatype connection_status = PC_PENDING_VALIDATION | PC_ACTIVE | PC_DISABLED | PC_INVALID

datatype connection_audit_action =
    CA_CREATED | CA_CREDENTIALS_REPLACED | CA_VALIDATED | CA_TESTED | CA_ENABLED | CA_DISABLED
  | CA_DELETED

datatype intent_status = PI_PENDING | PI_PROCESSING | PI_SUCCEEDED | PI_FAILED

datatype attempt_status = PA_INITIATED | PA_SUCCEEDED | PA_FAILED | PA_TIMEOUT | PA_UNKNOWN

datatype provider_tx_status = PT_PENDING | PT_SUCCEEDED | PT_FAILED | PT_UNKNOWN

datatype event_status =
    EV_RECEIVED | EV_PROCESSED | EV_DEDUPLICATED | EV_REJECTED | EV_UNPROCESSABLE | EV_DISAGREEMENT

datatype transfer_source = SRC_CLIENT | SRC_PROVIDER_CALLBACK | SRC_STATUS_QUERY | SRC_SYSTEM

section \<open>Stored values\<close>

fun chama_status_value :: "chama_status \<Rightarrow> string" where
  "chama_status_value CH_PENDING = ''PENDING''"
| "chama_status_value CH_ACTIVE = ''ACTIVE''"
| "chama_status_value CH_SUSPENDED = ''SUSPENDED''"
| "chama_status_value CH_DISSOLVED = ''DISSOLVED''"
| "chama_status_value CH_INACTIVE = ''INACTIVE''"

fun membership_status_value :: "membership_status \<Rightarrow> string" where
  "membership_status_value MS_ACTIVE = ''ACTIVE''"
| "membership_status_value MS_INACTIVE = ''INACTIVE''"

fun loan_status_value :: "loan_status \<Rightarrow> string" where
  "loan_status_value LN_DRAFT = ''DRAFT''"
| "loan_status_value LN_SUBMITTED = ''SUBMITTED''"
| "loan_status_value LN_APPROVED = ''APPROVED''"
| "loan_status_value LN_DISBURSED = ''DISBURSED''"
| "loan_status_value LN_PARTIALLY_REPAID = ''PARTIALLY_REPAID''"
| "loan_status_value LN_REPAID = ''REPAID''"
| "loan_status_value LN_REJECTED = ''REJECTED''"
| "loan_status_value LN_CANCELLED = ''CANCELLED''"

fun payout_status_value :: "payout_status \<Rightarrow> string" where
  "payout_status_value PO_REQUESTED = ''REQUESTED''"
| "payout_status_value PO_APPROVED = ''APPROVED''"
| "payout_status_value PO_PROCESSING = ''PROCESSING''"
| "payout_status_value PO_COMPLETED = ''COMPLETED''"
| "payout_status_value PO_REJECTED = ''REJECTED''"
| "payout_status_value PO_FAILED = ''FAILED''"
| "payout_status_value PO_REVERSED = ''REVERSED''"

fun role_value :: "role_name \<Rightarrow> string" where
  "role_value CHAIRPERSON = ''CHAIRPERSON''"
| "role_value TREASURER = ''TREASURER''"
| "role_value SECRETARY = ''SECRETARY''"
| "role_value MEMBER = ''MEMBER''"
| "role_value PLATFORM_ADMIN = ''PLATFORM_ADMIN''"

fun intent_status_value :: "intent_status \<Rightarrow> string" where
  "intent_status_value PI_PENDING = ''PENDING''"
| "intent_status_value PI_PROCESSING = ''PROCESSING''"
| "intent_status_value PI_SUCCEEDED = ''SUCCEEDED''"
| "intent_status_value PI_FAILED = ''FAILED''"

fun provider_code_value :: "provider_code \<Rightarrow> string" where
  "provider_code_value JENGA = ''JENGA''"
| "provider_code_value DARAJA = ''DARAJA''"

fun environment_value :: "payment_environment \<Rightarrow> string" where
  "environment_value SANDBOX = ''SANDBOX''"
| "environment_value PRODUCTION = ''PRODUCTION''"

fun connection_status_value :: "connection_status \<Rightarrow> string" where
  "connection_status_value PC_PENDING_VALIDATION = ''PENDING_VALIDATION''"
| "connection_status_value PC_ACTIVE = ''ACTIVE''"
| "connection_status_value PC_DISABLED = ''DISABLED''"
| "connection_status_value PC_INVALID = ''INVALID''"

text \<open>Roles are stored and compared by value, so the values must tell them apart.\<close>

lemma role_value_inject: "role_value a = role_value b \<longleftrightarrow> a = b"
  by (cases a; cases b) simp_all

lemma loan_status_value_inject: "loan_status_value a = loan_status_value b \<longleftrightarrow> a = b"
  by (cases a; cases b) simp_all

lemma payout_status_value_inject: "payout_status_value a = payout_status_value b \<longleftrightarrow> a = b"
  by (cases a; cases b) simp_all

text \<open>\<open>f"...{uuid}..."\<close>: the canonical 8-4-4-4-12 form of a UUID.\<close>

definition hex_digit :: "nat \<Rightarrow> char" where
  "hex_digit n = (if n < 10 then char_of (48 + n) else char_of (87 + n))"

fun hex_digits :: "nat \<Rightarrow> nat \<Rightarrow> string" where
  "hex_digits 0 n = []"
| "hex_digits (Suc k) n = hex_digits k (n div 16) @ [hex_digit (n mod 16)]"

definition uuid_hex :: "uuid \<Rightarrow> string" where
  "uuid_hex u = hex_digits 32 u"

definition uuid_str :: "uuid \<Rightarrow> string" where
  "uuid_str u =
     (let h = uuid_hex u
      in take 8 h @ ''-'' @ take 4 (drop 8 h) @ ''-'' @ take 4 (drop 12 h) @ ''-'' @
         take 4 (drop 16 h) @ ''-'' @ drop 20 h)"

end
