(* ===== verification/Decimals.thy ===== *)
theory Decimals
  imports Prelude
begin

text \<open>
  Python's \<open>decimal.Decimal\<close> as the services use it. A finite decimal is its exact rational
  value; beside them are the infinities and NaN. Amounts that the database keeps
  in a \<open>Numeric(18, 2)\<close> column are whole numbers of cents (\<open>money\<close>), share units of a
  \<open>Numeric(18, 4)\<close> column whole ten-thousandths, interest rates of \<open>Numeric(6, 4)\<close> likewise.
  \<open>quantize\<close> rounds half away from zero (\<open>ROUND_HALF_UP\<close>) to a whole number of units in the
  last place, and fails with \<open>InvalidOperation\<close> when the result needs more digits than the
  context's precision of 28.
\<close>

type_synonym money = int

text \<open>\<open>Infinite True\<close> is \<open>-Infinity\<close>.\<close>

datatype decimal = Finite rat | Infinite bool | NaN

section \<open>Rounding\<close>

definition round_half_up :: "rat \<Rightarrow> int" where
  "round_half_up q = (if 0 \<le> q then \<lfloor>q + 1/2\<rfloor> else - \<lfloor>1/2 - q\<rfloor>)"

definition DECIMAL_PRECISION :: nat where
  "DECIMAL_PRECISION = 28"

definition quantize :: "nat \<Rightarrow> rat \<Rightarrow> int" where
  "quantize places q = round_half_up (q * 10 ^ places)"

definition quantize_checked :: "nat \<Rightarrow> rat \<Rightarrow> int option" where
  "quantize_checked places q =
     (if \<bar>quantize places q\<bar> < 10 ^ DECIMAL_PRECISION then Some (quantize places q) else None)"

lemma round_half_up_of_int [simp]: "round_half_up (of_int n) = n"
proof -
  have a: "\<lfloor>(of_int n :: rat) + 1/2\<rfloor> = n" by linarith
  have b: "\<lfloor>1/2 - (of_int n :: rat)\<rfloor> = - n" by linarith
  from a b show ?thesis by (simp add: round_half_up_def)
qed

lemma round_half_up_error: "\<bar>of_int (round_half_up q) - q\<bar> \<le> 1/2"
  unfolding round_half_up_def
  using floor_correct [of "q + 1/2"] floor_correct [of "1/2 - q"]
  by (cases "0 \<le> q") (simp_all only: if_True if_False of_int_minus of_int_add of_int_1, linarith+)

lemma round_half_up_zero [simp]: "round_half_up 0 = 0"
  using round_half_up_of_int [of 0] by simp

lemma round_half_up_minus: "round_half_up (- q) = - round_half_up q"
proof (cases "q = 0")
  case True
  then show ?thesis by simp
next
  case False
  then have "0 \<le> - q \<longleftrightarrow> \<not> 0 \<le> q" by linarith
  then show ?thesis by (simp add: round_half_up_def add.commute)
qed

lemma round_half_up_mono: "p \<le> q \<Longrightarrow> round_half_up p \<le> round_half_up q"
  unfolding round_half_up_def
  by (cases "0 \<le> p"; cases "0 \<le> q") (simp_all, linarith+)

lemma round_half_up_nonneg: "0 \<le> q \<Longrightarrow> 0 \<le> round_half_up q"
  by (simp add: round_half_up_def)

text \<open>A tie goes away from zero.\<close>

lemma round_half_up_tie: "0 \<le> n \<Longrightarrow> round_half_up (of_int n + 1/2) = n + 1"
  by (simp add: round_half_up_def)

lemma quantize_mono: "p \<le> q \<Longrightarrow> quantize k p \<le> quantize k q"
  unfolding quantize_def by (intro round_half_up_mono mult_right_mono) simp_all

lemma quantize_nonneg: "0 \<le> q \<Longrightarrow> 0 \<le> quantize k q"
  unfolding quantize_def by (intro round_half_up_nonneg) simp

section \<open>Amounts in cents\<close>

definition dec_of_money :: "money \<Rightarrow> rat" where
  "dec_of_money m = of_int m / 100"

lemma quantize_dec_of_money [simp]: "quantize 2 (dec_of_money m) = m"
  by (simp add: quantize_def dec_of_money_def power2_eq_square)

lemma dec_of_money_inject [simp]: "dec_of_money a = dec_of_money b \<longleftrightarrow> a = b"
  by (simp add: dec_of_money_def)

lemma dec_of_money_le [simp]: "dec_of_money a \<le> dec_of_money b \<longleftrightarrow> a \<le> b"
  by (simp add: dec_of_money_def divide_right_mono)

text \<open>A ten-thousandths column (share units, interest rates).\<close>

definition dec_of_e4 :: "int \<Rightarrow> rat" where
  "dec_of_e4 u = of_int u / 10000"

lemma dec_of_e4_nonneg [simp]: "0 \<le> dec_of_e4 u \<longleftrightarrow> 0 \<le> u"
  by (simp add: dec_of_e4_def zero_le_divide_iff)

lemma dec_of_money_nonneg [simp]: "0 \<le> dec_of_money u \<longleftrightarrow> 0 \<le> u"
  by (simp add: dec_of_money_def zero_le_divide_iff)

end
