(* ===== verification/Calendar.thy ===== *)
theory Calendar
  imports Prelude
begin

text \<open>
  Python's \<open>datetime\<close> as the services use it: the proleptic Gregorian calendar of the standard
  library, instants in microseconds, and the whole-month arithmetic of \<open>app/services/loan.py\<close>.
  A \<open>datetime\<close> holds its date and the microseconds since midnight; the order on values of the
  type is Python's order on naive datetimes.
\<close>

datatype datetime = DateTime (dt_year: int) (dt_month: int) (dt_day: int) (dt_micros: int)

section \<open>The order on datetimes\<close>

instantiation datetime :: linorder
begin

definition less_eq_datetime :: "datetime \<Rightarrow> datetime \<Rightarrow> bool" where
  "less_eq_datetime a b \<longleftrightarrow>
     dt_year a < dt_year b \<or> dt_year a = dt_year b \<and>
     (dt_month a < dt_month b \<or> dt_month a = dt_month b \<and>
     (dt_day a < dt_day b \<or> dt_day a = dt_day b \<and> dt_micros a \<le> dt_micros b))"

definition less_datetime :: "datetime \<Rightarrow> datetime \<Rightarrow> bool" where
  "less_datetime a b \<longleftrightarrow> a \<le> b \<and> \<not> b \<le> a"

instance
proof
  fix a b c :: datetime
  show "a < b \<longleftrightarrow> a \<le> b \<and> \<not> b \<le> a" by (rule less_datetime_def)
  show "a \<le> a" by (simp add: less_eq_datetime_def)
  show "a \<le> b \<Longrightarrow> b \<le> c \<Longrightarrow> a \<le> c" by (auto simp: less_eq_datetime_def)
  show "a \<le> b \<Longrightarrow> b \<le> a \<Longrightarrow> a = b" by (auto simp: less_eq_datetime_def datetime.expand)
  show "a \<le> b \<or> b \<le> a" by (auto simp: less_eq_datetime_def)
qed

end

section \<open>The Gregorian calendar\<close>

definition is_leap :: "int \<Rightarrow> bool" where
  "is_leap y \<longleftrightarrow> y mod 4 = 0 \<and> (y mod 100 \<noteq> 0 \<or> y mod 400 = 0)"

text \<open>\<open>calendar.monthrange(year, month)[1]\<close> for a month 1..12.\<close>

definition days_in_month :: "int \<Rightarrow> int \<Rightarrow> int" where
  "days_in_month y m =
     (if m = 2 then (if is_leap y then 29 else 28)
      else if m \<in> {4, 6, 9, 11} then 30 else 31)"

fun days_before_month :: "int \<Rightarrow> nat \<Rightarrow> int" where
  "days_before_month y 0 = 0"
| "days_before_month y (Suc n) = days_before_month y n + days_in_month y (int n + 1)"

definition days_before_year :: "int \<Rightarrow> int" where
  "days_before_year y = (y - 1) * 365 + (y - 1) div 4 - (y - 1) div 100 + (y - 1) div 400"

definition toordinal :: "datetime \<Rightarrow> int" where
  "toordinal d =
     days_before_year (dt_year d) + days_before_month (dt_year d) (nat (dt_month d - 1)) + dt_day d"

definition MICROS_PER_DAY :: int where
  "MICROS_PER_DAY = 86400000000"

text \<open>Microseconds since the start of year 1, of the datetime read as UTC.\<close>

definition instant :: "datetime \<Rightarrow> int" where
  "instant d = toordinal d * MICROS_PER_DAY + dt_micros d"

definition valid_datetime :: "datetime \<Rightarrow> bool" where
  "valid_datetime d \<longleftrightarrow>
     1 \<le> dt_year d \<and> dt_year d \<le> 9999 \<and> 1 \<le> dt_month d \<and> dt_month d \<le> 12 \<and>
     1 \<le> dt_day d \<and> dt_day d \<le> days_in_month (dt_year d) (dt_month d) \<and>
     0 \<le> dt_micros d \<and> dt_micros d < MICROS_PER_DAY"

lemma days_in_month_bounds: "28 \<le> days_in_month y m \<and> days_in_month y m \<le> 31"
  by (simp add: days_in_month_def)

section \<open>Month arithmetic\<close>

text \<open>
  \<open>_add_months\<close> of \<open>app/services/loan.py\<close>. Python's \<open>datetime.replace\<close> raises for a year
  above 9999; the result is \<open>None\<close> there.
\<close>

definition add_months :: "datetime \<Rightarrow> int \<Rightarrow> datetime option" where
  "add_months v months =
     (let month_index = dt_month v - 1 + months;
          year = dt_year v + month_index div 12;
          month = month_index mod 12 + 1;
          day = min (dt_day v) (days_in_month year month)
      in if 1 \<le> year \<and> year \<le> 9999
         then Some (DateTime year month day (dt_micros v)) else None)"

text \<open>\<open>_month_offset\<close> of \<open>app/services/analytics.py\<close>: the day is kept, so it is only used on
  the first of a month.\<close>

definition month_offset :: "datetime \<Rightarrow> int \<Rightarrow> datetime" where
  "month_offset v offset =
     (let month_index = dt_year v * 12 + dt_month v - 1 + offset
      in DateTime (month_index div 12) (month_index mod 12 + 1) (dt_day v) (dt_micros v))"

lemma add_months_valid:
  assumes "valid_datetime v" and "add_months v n = Some w"
  shows "valid_datetime w"
proof -
  let ?i = "dt_month v - 1 + n"
  have w: "w = DateTime (dt_year v + ?i div 12) (?i mod 12 + 1)
      (min (dt_day v) (days_in_month (dt_year v + ?i div 12) (?i mod 12 + 1))) (dt_micros v)"
    and y: "1 \<le> dt_year v + ?i div 12" "dt_year v + ?i div 12 \<le> 9999"
    using assms(2) by (auto simp: add_months_def Let_def split: if_splits)
  have m: "0 \<le> ?i mod 12" "?i mod 12 < 12" by simp_all
  have "28 \<le> days_in_month (dt_year v + ?i div 12) (?i mod 12 + 1)"
    by (simp only: days_in_month_bounds)
  then show ?thesis using assms(1) y m unfolding w valid_datetime_def by simp
qed

lemma add_months_month_count:
  assumes "add_months v n = Some w"
  shows "dt_year w * 12 + dt_month w = dt_year v * 12 + dt_month v + n"
proof -
  let ?i = "dt_month v - 1 + n"
  have "?i = 12 * (?i div 12) + ?i mod 12" by simp
  with assms show ?thesis by (auto simp: add_months_def Let_def split: if_splits)
qed

lemma add_months_day:
  assumes "add_months v n = Some w"
  shows "dt_day w = min (dt_day v) (days_in_month (dt_year w) (dt_month w)) \<and> dt_micros w = dt_micros v"
  using assms by (auto simp: add_months_def Let_def split: if_splits)

lemma add_months_later:
  assumes "valid_datetime v" and "0 < n" and "add_months v n = Some w"
  shows "v < w"
proof -
  have eq: "dt_year w * 12 + dt_month w = dt_year v * 12 + dt_month v + n"
    using assms(3) by (rule add_months_month_count)
  have "1 \<le> dt_month w" "dt_month w \<le> 12"
    using add_months_valid [OF assms(1,3)] by (simp_all add: valid_datetime_def)
  moreover have "1 \<le> dt_month v" "dt_month v \<le> 12"
    using assms(1) by (simp_all add: valid_datetime_def)
  ultimately have "dt_year v < dt_year w \<or> dt_year v = dt_year w \<and> dt_month v < dt_month w"
    using eq assms(2) by presburger
  then show ?thesis by (auto simp: less_datetime_def less_eq_datetime_def)
qed

end
