(* ===== verification/Models.thy ===== *)
theory Models
  imports Enums Decimals Calendar
begin

text \<open>
  The rows of the database (\<open>app/models/*.py\<close>), one record per mapped class with the source's
  columns, and the database: the record of all tables. Bookkeeping columns that the server
  fills in and no modelled query reads (\<open>updated_at\<close>, and \<open>created_at\<close> outside the ledger,
  notifications and audit events) are left out; the rows of a table are in insertion order.
  Selectors carry a prefix per class because record selectors share one name space.
\<close>

text \<open>JSON payloads of audit events and notifications.\<close>

datatype jvalue = JStr string | JMoney money | JId uuid | JInt int | JBool bool | JNull

type_synonym payload = "(string \<times> jvalue) list"

section \<open>People and groups\<close>

record user =
  us_id :: uuid
  us_email :: string
  us_password_hash :: string
  us_is_active :: bool
  us_must_change_password :: bool
  us_member_id :: "uuid option"

record member =
  mb_id :: uuid
  mb_first_name :: string
  mb_last_name :: string
  mb_phone_number :: string
  mb_government_id :: string

record chama =
  ch_id :: uuid
  ch_name :: string
  ch_description :: "string option"
  ch_registration_fee_amount :: money
  ch_status :: chama_status
  ch_created_by_user_id :: uuid

record membership_sequence =
  sq_chama_id :: uuid
  sq_next_number :: int

record membership =
  ms_id :: uuid
  ms_chama_id :: uuid
  ms_member_id :: uuid
  ms_membership_number :: int
  ms_status :: membership_status
  ms_joined_at :: datetime

record membership_role =
  mr_membership_id :: uuid
  mr_role :: role_name

record user_platform_role =
  pr_user_id :: uuid
  pr_role :: role_name
  pr_granted_by_user_id :: "uuid option"
  pr_granted_at :: int

record refresh_token =
  rt_id :: uuid
  rt_user_id :: uuid
  rt_token_hash :: string
  rt_expires_at :: int
  rt_revoked_at :: "int option"

section \<open>Money of the members\<close>

record registration_fee =
  rf_id :: uuid
  rf_membership_id :: uuid
  rf_amount :: money
  rf_status :: registration_fee_status

record registration_fee_payment =
  fp_id :: uuid
  fp_chama_id :: uuid
  fp_fee_id :: uuid
  fp_membership_id :: uuid
  fp_amount :: money
  fp_status :: registration_fee_payment_status
  fp_recorded_by_user_id :: uuid
  fp_note :: "string option"

record contribution =
  cn_id :: uuid
  cn_membership_id :: uuid
  cn_amount :: money
  cn_period :: string
  cn_status :: contribution_status
  cn_recorded_by_user_id :: uuid
  cn_payment_date :: "datetime option"
  cn_note :: "string option"
  cn_confirmed_at :: "datetime option"

record share =
  sh_id :: uuid
  sh_membership_id :: uuid
  sh_contribution_id :: uuid
  sh_units :: int
  sh_status :: share_status

record loan =
  ln_id :: uuid
  ln_chama_id :: uuid
  ln_membership_id :: uuid
  ln_principal :: money
  ln_interest_rate :: int
  ln_term_months :: int
  ln_status :: loan_status
  ln_approval_date :: "datetime option"
  ln_disbursement_date :: "datetime option"
  ln_maturity_date :: "datetime option"
  ln_approved_by_user_id :: "uuid option"
  ln_disbursed_by_user_id :: "uuid option"
  ln_recorded_by_user_id :: uuid
  ln_note :: "string option"

record loan_repayment =
  rp_id :: uuid
  rp_chama_id :: uuid
  rp_loan_id :: uuid
  rp_amount :: money
  rp_principal_portion :: money
  rp_interest_portion :: money
  rp_status :: loan_repayment_status
  rp_recorded_by_user_id :: uuid
  rp_note :: "string option"

record payout =
  po_id :: uuid
  po_chama_id :: uuid
  po_membership_id :: uuid
  po_amount :: money
  po_status :: payout_status
  po_requested_by_user_id :: uuid
  po_approved_by_user_id :: "uuid option"
  po_processed_by_user_id :: "uuid option"
  po_completed_by_user_id :: "uuid option"
  po_failure_reason :: "string option"
  po_note :: "string option"
  po_approved_at :: "datetime option"
  po_processed_at :: "datetime option"
  po_completed_at :: "datetime option"

section \<open>The ledger\<close>

record ledger_account =
  la_id :: uuid
  la_chama_id :: uuid
  la_code :: string
  la_name :: string
  la_account_type :: ledger_account_type
  la_description :: "string option"

record ledger_transaction =
  lt_id :: uuid
  lt_chama_id :: uuid
  lt_source_type :: string
  lt_source_id :: uuid
  lt_description :: "string option"
  lt_posted_by_user_id :: uuid
  lt_reverses_transaction_id :: "uuid option"
  lt_created_at :: int

record ledger_entry =
  le_id :: uuid
  le_chama_id :: uuid
  le_transaction_id :: uuid
  le_account_id :: uuid
  le_debit :: money
  le_credit :: money
  le_created_at :: int

section \<open>Audit trail and notifications\<close>

record audit_event =
  ae_id :: uuid
  ae_chama_id :: "uuid option"
  ae_actor_user_id :: "uuid option"
  ae_action :: string
  ae_resource_type :: string
  ae_resource_id :: "uuid option"
  ae_request_id :: "string option"
  ae_payload :: "payload option"
  ae_success :: bool

record notification =
  nt_id :: uuid
  nt_user_id :: uuid
  nt_channel :: notification_channel
  nt_action :: string
  nt_title :: string
  nt_body :: "string option"
  nt_chama_id :: "uuid option"
  nt_resource_type :: "string option"
  nt_resource_id :: "uuid option"
  nt_actor_user_id :: "uuid option"
  nt_payload :: "payload option"
  nt_is_read :: bool
  nt_read_at :: "int option"
  nt_created_at :: int

section \<open>Payments\<close>

record payment_connection =
  pc_id :: uuid
  pc_chama_id :: uuid
  pc_provider_code :: provider_code
  pc_environment :: payment_environment
  pc_status :: connection_status
  pc_encrypted_credentials :: string
  pc_encryption_key_version :: int
  pc_credential_version :: int
  pc_masked_account_identifier :: string
  pc_last_validated_at :: "int option"
  pc_last_validation_error_code :: "string option"
  pc_created_by_user_id :: uuid
  pc_updated_by_user_id :: uuid

record payment_connection_audit =
  cu_connection_id :: uuid
  cu_actor_user_id :: uuid
  cu_action :: connection_audit_action
  cu_previous_status :: "connection_status option"
  cu_new_status :: "connection_status option"
  cu_credential_version :: int

record payment_intent =
  pi_id :: uuid
  pi_chama_id :: uuid
  pi_membership_id :: uuid
  pi_contribution_id :: "uuid option"
  pi_requested_phone :: "string option"
  pi_amount :: money
  pi_currency :: string
  pi_purpose :: string
  pi_status :: intent_status
  pi_idempotency_key :: string
  pi_idempotency_payload_hash :: string
  pi_created_by_user_id :: uuid
  pi_last_transition_source :: transfer_source
  pi_last_transition_by_user_id :: "uuid option"

record payment_attempt =
  pa_id :: uuid
  pa_payment_intent_id :: uuid
  pa_connection_id :: uuid
  pa_attempt_number :: int
  pa_client_reference :: string
  pa_provider_request_id :: "string option"
  pa_provider_transaction_id :: "string option"
  pa_status :: attempt_status
  pa_retryable :: bool
  pa_failure_code :: "string option"
  pa_failure_message_safe :: "string option"
  pa_completed_at :: "int option"
  pa_last_transition_source :: transfer_source

record provider_transaction =
  pt_id :: uuid
  pt_payment_attempt_id :: uuid
  pt_connection_id :: uuid
  pt_provider_request_id :: "string option"
  pt_provider_transaction_id :: "string option"
  pt_provider_event_id :: "string option"
  pt_normalized_status :: provider_tx_status
  pt_raw_status :: "string option"
  pt_last_queried_at :: "int option"

record payment_event =
  pe_id :: uuid
  pe_connection_id :: uuid
  pe_provider_code :: provider_code
  pe_environment :: payment_environment
  pe_provider_event_id :: "string option"
  pe_payload_hash :: string
  pe_raw_payload :: string
  pe_status :: event_status
  pe_received_at :: int
  pe_processed_at :: "int option"
  pe_last_transition_source :: string

section \<open>The database\<close>

record db =
  users :: "user list"
  members :: "member list"
  chamas :: "chama list"
  sequences :: "membership_sequence list"
  memberships :: "membership list"
  roles :: "role_name list"
  membership_roles :: "membership_role list"
  platform_roles :: "user_platform_role list"
  refresh_tokens :: "refresh_token list"
  registration_fees :: "registration_fee list"
  fee_payments :: "registration_fee_payment list"
  contributions :: "contribution list"
  shares :: "share list"
  loans :: "loan list"
  repayments :: "loan_repayment list"
  payouts :: "payout list"
  ledger_accounts :: "ledger_account list"
  ledger_transactions :: "ledger_transaction list"
  ledger_entries :: "ledger_entry list"
  audit_events :: "audit_event list"
  notifications :: "notification list"
  connections :: "payment_connection list"
  connection_audits :: "payment_connection_audit list"
  intents :: "payment_intent list"
  attempts :: "payment_attempt list"
  provider_transactions :: "provider_transaction list"
  payment_events :: "payment_event list"

definition empty_db :: db where
  "empty_db =
     \<lparr>users = [], members = [], chamas = [], sequences = [], memberships = [], roles = [],
      membership_roles = [], platform_roles = [], refresh_tokens = [], registration_fees = [],
      fee_payments = [], contributions = [], shares = [], loans = [], repayments = [],
      payouts = [], ledger_accounts = [], ledger_transactions = [], ledger_entries = [],
      audit_events = [], notifications = [], connections = [], connection_audits = [],
      intents = [], attempts = [], provider_transactions = [], payment_events = []\<rparr>"

section \<open>The tables as keyed rows\<close>

interpretation t_users: keyed_table users users_update us_id
  by unfold_locales simp

interpretation t_chamas: keyed_table chamas chamas_update ch_id
  by unfold_locales simp

interpretation t_memberships: keyed_table memberships memberships_update ms_id
  by unfold_locales simp

interpretation t_fees: keyed_table registration_fees registration_fees_update rf_id
  by unfold_locales simp

interpretation t_fee_payments: keyed_table fee_payments fee_payments_update fp_id
  by unfold_locales simp

interpretation t_contributions: keyed_table contributions contributions_update cn_id
  by unfold_locales simp

interpretation t_loans: keyed_table loans loans_update ln_id
  by unfold_locales simp

interpretation t_repayments: keyed_table repayments repayments_update rp_id
  by unfold_locales simp

interpretation t_payouts: keyed_table payouts payouts_update po_id
  by unfold_locales simp

interpretation t_intents: keyed_table intents intents_update pi_id
  by unfold_locales simp

interpretation t_attempts: keyed_table attempts attempts_update pa_id
  by unfold_locales simp

interpretation t_connections: keyed_table connections connections_update pc_id
  by unfold_locales simp

end
