(* ===== verification/Session.thy ===== *)
theory Session
  imports Models
begin

text \<open>
  The SQLAlchemy session as explicit state, and the programs that run on it.

  A session has three views of the database. \<open>objs\<close> are the attribute values of the mapped
  objects, pending changes included; \<open>rows\<close> is what the statements of the open transaction
  see, that is, what has been flushed; \<open>durable\<close> is the history of committed databases, the
  latest first, so that a crash at any moment leaves exactly its head. The production
  session factory (\<open>app/db/session.py\<close>) turns autoflush off, the tests' one leaves it on, and
  several services depend on the difference: a query sees pending changes only when they
  were flushed before it, but the objects it returns are the session's own (the identity
  map), pending changes included. A program is a function from the session to an error or a
  result, with the new session.
\<close>

section \<open>State\<close>

record settings =
  cf_share_unit_price :: rat
  cf_refresh_token_expires_days :: int
  cf_jwt_expires_minutes :: int
  cf_payment_attempt_max_retries :: int
  cf_payment_webhook_max_body_bytes :: nat
  cf_public_base_url :: string
  cf_api_v1_prefix :: string

record sess =
  objs :: db
  rows :: db
  durable :: "db list"
  autoflush :: bool
  is_sqlite :: bool
  next_uuid :: uuid
  local_now :: datetime
  utc_now :: int
  req_id :: "string option"
  cfg :: settings

datatype err =
    NotFoundError string
  | ConflictError string
  | PermissionDeniedError string
  | StateError string
  | RateLimitError string
  | WebhookRejectedError string
  | PasswordPolicyViolation "string list"
  | Unauthorized string
  | PasswordChangeRequiredError string
  | ProviderTimeoutError string string
  | ProviderIntegrationError string string
  | UnknownProviderError string string
  | CredentialCipherError
  | IntegrityError string
  | InvalidOperation
  | DivisionByZero
  | ValueError
  | KeyError
  | AttributeError
  | TypeError
  | OverflowError
  | NotImplementedError string
  | AppError string

type_synonym 'a act = "sess \<Rightarrow> (err + 'a) \<times> sess"

section \<open>Programs\<close>

definition ret :: "'a \<Rightarrow> 'a act" where
  "ret x s = (Inr x, s)"

definition raise :: "err \<Rightarrow> 'a act" where
  "raise e s = (Inl e, s)"

definition bind :: "'a act \<Rightarrow> ('a \<Rightarrow> 'b act) \<Rightarrow> 'b act" where
  "bind m f s = (case m s of (Inl e, s') \<Rightarrow> (Inl e, s') | (Inr x, s') \<Rightarrow> f x s')"

text \<open>\<open>if c: raise e\<close> with nothing in the other branch.\<close>

definition ensure :: "bool \<Rightarrow> err \<Rightarrow> unit act" where
  "ensure c e = (if c then ret () else raise e)"

fun for_each :: "'a list \<Rightarrow> ('a \<Rightarrow> unit act) \<Rightarrow> unit act" where
  "for_each [] f = ret ()"
| "for_each (x # xs) f = bind (f x) (\<lambda>_. for_each xs f)"

text \<open>\<open>try: m except IntegrityError: h\<close>.\<close>

definition catch_integrity :: "'a act \<Rightarrow> 'a act \<Rightarrow> 'a act" where
  "catch_integrity m h s =
     (case m s of (Inl (IntegrityError c), s') \<Rightarrow> h s' | r \<Rightarrow> r)"

text \<open>\<open>try: m except Exception: h\<close>.\<close>

definition catch_all :: "'a act \<Rightarrow> 'a act \<Rightarrow> 'a act" where
  "catch_all m h s = (case m s of (Inl e, s') \<Rightarrow> h s' | r \<Rightarrow> r)"

text \<open>Reading the session's environment.\<close>

definition asks :: "(sess \<Rightarrow> 'a) \<Rightarrow> 'a act" where
  "asks f s = (Inr (f s), s)"

section \<open>Session operations\<close>

definition flush :: "unit act" where
  "flush s = (Inr (), s\<lparr>rows := objs s\<rparr>)"

definition commit :: "unit act" where
  "commit s = (Inr (), s\<lparr>rows := objs s, durable := objs s # durable s\<rparr>)"

definition rollback :: "unit act" where
  "rollback s = (Inr (), s\<lparr>objs := hd (durable s), rows := hd (durable s)\<rparr>)"

text \<open>What happens before a statement is emitted: autoflush.\<close>

definition sync :: "sess \<Rightarrow> sess" where
  "sync s = (if autoflush s then s\<lparr>rows := objs s\<rparr> else s)"

definition query :: "(db \<Rightarrow> db \<Rightarrow> 'a) \<Rightarrow> 'a act" where
  "query f s = (Inr (f (rows (sync s)) (objs (sync s))), sync s)"

text \<open>
  The entities of a \<open>select ... where\<close>: the condition is evaluated on the flushed rows, the
  objects returned are the session's. Objects are kept in the order of their rows, new ones
  at the end, so a row and its object share a position.
\<close>

definition entities :: "(db \<Rightarrow> 'r list) \<Rightarrow> ('r \<Rightarrow> bool) \<Rightarrow> db \<Rightarrow> db \<Rightarrow> 'r list" where
  "entities tab P rs os = map snd (filter (\<lambda>p. P (fst p)) (zip (tab rs) (tab os)))"

definition select_all :: "(db \<Rightarrow> 'r list) \<Rightarrow> ('r \<Rightarrow> bool) \<Rightarrow> 'r list act" where
  "select_all tab P = query (entities tab P)"

definition select_first :: "(db \<Rightarrow> 'r list) \<Rightarrow> ('r \<Rightarrow> bool) \<Rightarrow> 'r option act" where
  "select_first tab P = query (\<lambda>rs os. first (entities tab P rs os))"

text \<open>A scalar or aggregate, computed by the database from its rows.\<close>

definition scalar :: "(db \<Rightarrow> 'a) \<Rightarrow> 'a act" where
  "scalar f = query (\<lambda>rs os. f rs)"

text \<open>\<open>session.get(Model, key)\<close>: the identity map first, so the object.\<close>

definition get_by_key :: "(db \<Rightarrow> 'r list) \<Rightarrow> ('r \<Rightarrow> uuid) \<Rightarrow> uuid \<Rightarrow> 'r option act" where
  "get_by_key tab key k = asks (\<lambda>s. find_row key k (tab (objs s)))"

text \<open>\<open>session.add\<close> and attribute assignment change the objects only.\<close>

definition change :: "(db \<Rightarrow> db) \<Rightarrow> unit act" where
  "change f s = (Inr (), s\<lparr>objs := f (objs s)\<rparr>)"

text \<open>
  \<open>session.add(row); session.flush()\<close>: the constraints of the table are checked when the
  row is inserted; the first one it violates is the \<open>IntegrityError\<close> raised.
\<close>

definition insert_row ::
  "(db \<Rightarrow> 'r \<Rightarrow> string option) \<Rightarrow> ('r \<Rightarrow> db \<Rightarrow> db) \<Rightarrow> 'r \<Rightarrow> unit act" where
  "insert_row check add r =
     bind (asks (\<lambda>s. check (objs s) r)) (\<lambda>violation.
     case violation of
       Some c \<Rightarrow> raise (IntegrityError c)
     | None \<Rightarrow> bind (change (add r)) (\<lambda>_. flush))"

text \<open>\<open>uuid.uuid4()\<close>: a value never handed out before.\<close>

definition uuid4 :: "uuid act" where
  "uuid4 s = (Inr (next_uuid s), s\<lparr>next_uuid := Suc (next_uuid s)\<rparr>)"

text \<open>
  One HTTP request (\<open>get_db\<close>): the session is closed at the end, which drops whatever was
  not committed, whether the handler returned or raised.
\<close>

definition request :: "'a act \<Rightarrow> sess \<Rightarrow> (err + 'a) \<times> sess" where
  "request m s = (case m s of (r, s') \<Rightarrow> (r, snd (rollback s')))"

definition fresh_session :: "bool \<Rightarrow> bool \<Rightarrow> settings \<Rightarrow> datetime \<Rightarrow> int \<Rightarrow> uuid \<Rightarrow> db \<Rightarrow> sess" where
  "fresh_session af lite c now un u d =
     \<lparr>objs = d, rows = d, durable = [d], autoflush = af, is_sqlite = lite, next_uuid = u, local_now = now,
      utc_now = un, req_id = None, cfg = c\<rparr>"

text \<open>
  Updates of the session in one canonical order (objects, rows, history, ids), so that the
  simplifier meets equal states as equal terms.
\<close>

lemma sess_update_order [simp]:
  "objs_update f (rows_update g s) = rows_update g (objs_update f s)"
  "objs_update f (durable_update h s) = durable_update h (objs_update f s)"
  "objs_update f (next_uuid_update k s) = next_uuid_update k (objs_update f s)"
  "rows_update g (durable_update h s) = durable_update h (rows_update g s)"
  "rows_update g (next_uuid_update k s) = next_uuid_update k (rows_update g s)"
  "durable_update h (next_uuid_update k s) = next_uuid_update k (durable_update h s)"
  by simp_all

section \<open>Weakest preconditions\<close>

text \<open>
  \<open>wp m Q R s\<close>: run on \<open>s\<close>, the program ends in a state that satisfies \<open>Q\<close> with its result,
  or \<open>R\<close> with its error. Programs are total functions, so this is total correctness.
\<close>

definition wp :: "'a act \<Rightarrow> ('a \<Rightarrow> sess \<Rightarrow> bool) \<Rightarrow> (err \<Rightarrow> sess \<Rightarrow> bool) \<Rightarrow> sess \<Rightarrow> bool" where
  "wp m Q R s = (case m s of (Inl e, s') \<Rightarrow> R e s' | (Inr x, s') \<Rightarrow> Q x s')"

lemma wp_mono:
  "wp m Q R s \<Longrightarrow> (\<And>x t. Q x t \<Longrightarrow> Q' x t) \<Longrightarrow> (\<And>e t. R e t \<Longrightarrow> R' e t) \<Longrightarrow> wp m Q' R' s"
  by (auto simp: wp_def split: sum.splits prod.splits)

lemma wp_conj:
  "wp m Q R s \<Longrightarrow> wp m Q' R' s \<Longrightarrow> wp m (\<lambda>x t. Q x t \<and> Q' x t) (\<lambda>e t. R e t \<and> R' e t) s"
  by (auto simp: wp_def split: sum.splits prod.splits)

lemma wp_InrD: "wp m Q R s \<Longrightarrow> m s = (Inr x, t) \<Longrightarrow> Q x t"
  by (simp add: wp_def)

lemma wp_InlD: "wp m Q R s \<Longrightarrow> m s = (Inl e, t) \<Longrightarrow> R e t"
  by (simp add: wp_def)

lemma wpI:
  "(\<And>x t. m s = (Inr x, t) \<Longrightarrow> Q x t) \<Longrightarrow> (\<And>e t. m s = (Inl e, t) \<Longrightarrow> R e t) \<Longrightarrow> wp m Q R s"
  by (auto simp: wp_def split: sum.splits prod.splits)

lemma wp_final: "wp m Q R s \<Longrightarrow> m s = (r, t) \<Longrightarrow> case r of Inl e \<Rightarrow> R e t | Inr x \<Rightarrow> Q x t"
  by (simp add: wp_def)

lemma wp_state: "wp m (\<lambda>x. P) (\<lambda>e. P) s \<Longrightarrow> m s = (r, t) \<Longrightarrow> P t"
  by (cases r) (simp_all add: wp_def)

lemma wp_computes: "wp m (\<lambda>x t. x = a \<and> t = b) (\<lambda>e t. False) s \<Longrightarrow> m s = (Inr a, b)"
  by (cases "m s"; cases "fst (m s)") (auto simp: wp_def)

lemma wp_ret [wp]: "wp (ret x) Q R = Q x"
  by (rule ext) (simp add: wp_def ret_def)

lemma wp_raise [wp]: "wp (raise e) Q R = R e"
  by (rule ext) (simp add: wp_def raise_def)

lemma wp_bind [wp]: "wp (bind m f) Q R = wp m (\<lambda>x. wp (f x) Q R) R"
  by (rule ext) (auto simp: wp_def bind_def split: sum.splits prod.splits)

lemma wp_ensure [wp]: "wp (ensure c e) Q R s = (if c then Q () s else R e s)"
  by (simp add: ensure_def wp_ret wp_raise)

lemma wp_if [wp]: "wp (if c then m else n) Q R s = (if c then wp m Q R s else wp n Q R s)"
  by simp

lemma wp_asks [wp]: "wp (asks f) Q R s = Q (f s) s"
  by (simp add: wp_def asks_def)

lemma wp_flush [wp]: "wp flush Q R s = Q () (s\<lparr>rows := objs s\<rparr>)"
  by (simp add: wp_def flush_def)

lemma wp_commit [wp]: "wp commit Q R s = Q () (s\<lparr>rows := objs s, durable := objs s # durable s\<rparr>)"
  by (simp add: wp_def commit_def)

lemma wp_rollback [wp]:
  "wp rollback Q R s = Q () (s\<lparr>objs := hd (durable s), rows := hd (durable s)\<rparr>)"
  by (simp add: wp_def rollback_def)

lemma wp_query [wp]: "wp (query f) Q R s = Q (f (rows (sync s)) (objs (sync s))) (sync s)"
  by (simp add: wp_def query_def)

lemma wp_select_all [wp]:
  "wp (select_all tab P) Q R s = Q (entities tab P (rows (sync s)) (objs (sync s))) (sync s)"
  by (simp add: select_all_def wp_query)

lemma wp_select_first [wp]:
  "wp (select_first tab P) Q R s =
     Q (first (entities tab P (rows (sync s)) (objs (sync s)))) (sync s)"
  by (simp add: select_first_def wp_query)

lemma wp_scalar [wp]: "wp (scalar f) Q R s = Q (f (rows (sync s))) (sync s)"
  by (simp add: scalar_def wp_query)

lemma wp_get_by_key [wp]:
  "wp (get_by_key tab key k) Q R s = Q (find_row key k (tab (objs s))) s"
  by (simp add: get_by_key_def wp_asks)

lemma wp_change [wp]: "wp (change f) Q R s = Q () (s\<lparr>objs := f (objs s)\<rparr>)"
  by (simp add: wp_def change_def)

lemma wp_uuid4 [wp]: "wp uuid4 Q R s = Q (next_uuid s) (s\<lparr>next_uuid := Suc (next_uuid s)\<rparr>)"
  by (simp add: wp_def uuid4_def)

lemma wp_insert_row [wp]:
  "wp (insert_row check add r) Q R s =
     (case check (objs s) r of
        Some c \<Rightarrow> R (IntegrityError c) s
      | None \<Rightarrow> Q () (s\<lparr>objs := add r (objs s), rows := add r (objs s)\<rparr>))"
  by (simp add: insert_row_def wp split: option.split)

lemma wp_case_option [wp]:
  "wp (case x of None \<Rightarrow> m | Some y \<Rightarrow> f y) Q R s =
     (case x of None \<Rightarrow> wp m Q R s | Some y \<Rightarrow> wp (f y) Q R s)"
  by (simp split: option.split)

lemma wp_case_sum [wp]:
  "wp (case x of Inl e \<Rightarrow> m e | Inr y \<Rightarrow> f y) Q R s =
     (case x of Inl e \<Rightarrow> wp (m e) Q R s | Inr y \<Rightarrow> wp (f y) Q R s)"
  by (simp split: sum.split)

lemma wp_case_prod [wp]:
  "wp (case x of (a, b) \<Rightarrow> f a b) Q R s = (case x of (a, b) \<Rightarrow> wp (f a b) Q R s)"
  by (simp split: prod.split)

lemma wp_catch_integrity [wp]:
  "wp (catch_integrity m h) Q R s =
     wp m Q (\<lambda>e t. (case e of IntegrityError c \<Rightarrow> wp h Q R t | _ \<Rightarrow> R e t)) s"
  by (auto simp: wp_def catch_integrity_def split: sum.splits prod.splits err.splits)

lemma wp_catch_all [wp]: "wp (catch_all m h) Q R s = wp m Q (\<lambda>e. wp h Q R) s"
  by (auto simp: wp_def catch_all_def split: sum.splits prod.splits)

lemma wp_for_each_Nil [wp]: "wp (for_each [] f) Q R s = Q () s"
  by (simp add: wp_ret)

lemma wp_for_each_Cons [wp]:
  "wp (for_each (x # xs) f) Q R s = wp (f x) (\<lambda>_. wp (for_each xs f) Q R) R s"
  by (simp add: wp_bind)

text \<open>A loop keeps what its body keeps.\<close>

lemma wp_for_each_inv:
  assumes "I s" and "\<And>x t. x \<in> set xs \<Longrightarrow> I t \<Longrightarrow> wp (f x) (\<lambda>_. I) R t"
    and "\<And>t. I t \<Longrightarrow> Q () t"
  shows "wp (for_each xs f) Q R s"
  using assms
proof (induction xs arbitrary: s)
  case Nil
  then show ?case by (simp add: wp)
next
  case (Cons x xs)
  have rest: "wp (for_each xs f) Q R t" if "I t" for t
    by (rule Cons.IH [OF that]) (simp_all add: Cons.prems)
  have "wp (f x) (\<lambda>_. I) R s" using Cons.prems by simp
  then have "wp (f x) (\<lambda>_. wp (for_each xs f) Q R) R s"
    by (rule wp_mono) (simp_all add: rest)
  then show ?case by (simp add: wp_bind)
qed

section \<open>Laws of the session operations\<close>

lemma sync_simps [simp]:
  "objs (sync s) = objs s" "durable (sync s) = durable s" "autoflush (sync s) = autoflush s"
  "is_sqlite (sync s) = is_sqlite s"
  "next_uuid (sync s) = next_uuid s" "local_now (sync s) = local_now s"
  "utc_now (sync s) = utc_now s" "cfg (sync s) = cfg s" "req_id (sync s) = req_id s"
  by (simp_all add: sync_def)

lemma sync_idem [simp]: "sync (sync s) = sync s"
  by (simp add: sync_def)

lemma rows_sync: "rows (sync s) = (if autoflush s then objs s else rows s)"
  by (simp add: sync_def)

lemma sync_flushed: "rows s = objs s \<Longrightarrow> sync s = s"
  by (simp add: sync_def)

lemma sync_update_rows [simp]: "sync (s\<lparr>rows := objs s\<rparr>) = s\<lparr>rows := objs s\<rparr>"
  by (simp add: sync_def)

text \<open>The session after a handler's last commit of the database \<open>d\<close>.\<close>

definition saved :: "db \<Rightarrow> uuid \<Rightarrow> sess \<Rightarrow> sess" where
  "saved d u s = s\<lparr>objs := d, rows := d, durable := d # durable s, next_uuid := u\<rparr>"

lemma saved_simps [simp]:
  "objs (saved d u s) = d" "rows (saved d u s) = d" "durable (saved d u s) = d # durable s"
  "next_uuid (saved d u s) = u" "autoflush (saved d u s) = autoflush s"
  "local_now (saved d u s) = local_now s" "utc_now (saved d u s) = utc_now s"
  "cfg (saved d u s) = cfg s" "is_sqlite (saved d u s) = is_sqlite s"
  by (simp_all add: saved_def)

lemma saved_updates [simp]:
  "saved d u (objs_update f s) = saved d u s" "saved d u (rows_update g s) = saved d u s"
  "saved d u (next_uuid_update k s) = saved d u s"
  by (simp_all add: saved_def)

lemma saved_sync [simp]: "saved d u (sync s) = saved d u s"
  by (simp add: sync_def)

lemma sync_flushed_update [simp]:
  "sync (s\<lparr>objs := d, rows := d\<rparr>) = s\<lparr>objs := d, rows := d\<rparr>"
  "sync (s\<lparr>objs := d, rows := d, next_uuid := u\<rparr>) = s\<lparr>objs := d, rows := d, next_uuid := u\<rparr>"
  "sync (saved d u s) = saved d u s"
  by (simp_all add: sync_def saved_def)

lemma flushed_update_rows: "rows s = objs s \<Longrightarrow> s\<lparr>rows := objs s\<rparr> = s"
  by (metis sync_def sync_flushed sync_update_rows sess.surjective sess.update_convs(2))

text \<open>On flushed tables a query's condition is evaluated on the very objects it returns.\<close>

lemma entities_flushed: "tab rs = tab os \<Longrightarrow> entities tab P rs os = filter P (tab os)"
proof -
  have "map snd (filter (\<lambda>p. P (fst p)) (zip xs xs)) = filter P xs" for xs :: "'a list"
    by (induction xs) auto
  then show "tab rs = tab os \<Longrightarrow> entities tab P rs os = filter P (tab os)"
    by (simp add: entities_def)
qed

lemma entities_same [simp]: "entities tab P d d = filter P (tab d)"
  by (simp add: entities_flushed)

lemma entities_subset: "set (entities tab P rs os) \<subseteq> set (tab os)"
  by (auto simp: entities_def dest: set_zip_rightD)

lemma entities_first_SomeD: "first (entities tab P rs os) = Some r \<Longrightarrow> r \<in> set (tab os)"
  using entities_subset [of tab P rs os] by (auto dest: first_SomeD)

text \<open>A session at rest: nothing pending, nothing uncommitted.\<close>

definition clean :: "sess \<Rightarrow> bool" where
  "clean s \<longleftrightarrow> durable s \<noteq> [] \<and> rows s = objs s \<and> objs s = hd (durable s)"

lemma clean_fresh [simp]: "clean (fresh_session af lite c now un u d)"
  by (simp add: clean_def fresh_session_def)

lemma clean_sync: "clean s \<Longrightarrow> sync s = s"
  by (simp add: clean_def sync_flushed)

lemma clean_request: "durable (snd (m s)) \<noteq> [] \<Longrightarrow> clean (snd (request m s))"
  by (cases "m s") (simp add: request_def rollback_def clean_def)

lemma request_closed:
  assumes "m s = (r, t)"
  shows "objs (snd (request m s)) = hd (durable t)" and "durable (snd (request m s)) = durable t"
  using assms by (simp_all add: request_def rollback_def del: sess_update_order)

lemma clean_clocks [simp]: "clean (s\<lparr>local_now := l, utc_now := u\<rparr>) = clean s"
  by (simp add: clean_def del: sess_update_order)

lemma clean_sync_simps [simp]:
  assumes "clean s"
  shows "sync s = s" and "rows s = objs s" and "hd (durable s) = objs s"
  using assms by (simp_all add: clean_sync, simp_all add: clean_def)

lemma clean_saved [simp]: "clean (saved d u s)"
  by (simp add: clean_def)

lemma saved_saved: "saved d u (saved d' u' s) = s\<lparr>objs := d, rows := d, durable := d # d' # durable s, next_uuid := u\<rparr>"
  by (simp add: saved_def)

text \<open>The databases a run added to the history, the latest first.\<close>

definition committed :: "sess \<Rightarrow> sess \<Rightarrow> db list" where
  "committed s s' = take (length (durable s') - length (durable s)) (durable s')"

lemma committed_simps [simp]:
  "durable s' = durable s \<Longrightarrow> committed s s' = []"
  "durable s' = d # durable s \<Longrightarrow> committed s s' = [d]"
  "durable s' = d # d' # durable s \<Longrightarrow> committed s s' = [d, d']"
  by (simp_all add: committed_def)

end
