(* ===== verification/Access.thy ===== *)
theory Access
  imports Session
begin

text \<open>
  Authorization shared by the services (\<open>app/services/access.py\<close>): who may read a Chama, who
  may change it, and the role checks. Roles of a membership are the rows of
  \<open>membership_roles\<close> that name it.
\<close>

definition LEADERSHIP_ROLES :: "role_name list" where
  "LEADERSHIP_ROLES = [CHAIRPERSON, TREASURER, SECRETARY]"

fun join :: "string \<Rightarrow> string list \<Rightarrow> string" where
  "join sep [] = []"
| "join sep [x] = x"
| "join sep (x # y # zs) = x @ sep @ join sep (y # zs)"

section \<open>Reads\<close>

text \<open>\<open>Membership.has_role\<close>.\<close>

definition holds_role :: "db \<Rightarrow> uuid \<Rightarrow> role_name \<Rightarrow> bool" where
  "holds_role d mid role \<longleftrightarrow>
     list_ex (\<lambda>mr. mr_membership_id mr = mid \<and> role_value (mr_role mr) = role_value role)
       (membership_roles d)"

definition has_role :: "membership \<Rightarrow> role_name \<Rightarrow> bool act" where
  "has_role m role = asks (\<lambda>s. holds_role (rows s) (ms_id m) role)"

definition has_any_role :: "membership \<Rightarrow> role_name list \<Rightarrow> bool act" where
  "has_any_role m rs = asks (\<lambda>s. list_ex (holds_role (rows s) (ms_id m)) rs)"

definition get_chama_or_404 :: "uuid \<Rightarrow> chama act" where
  "get_chama_or_404 chama_id =
     bind (get_by_key chamas ch_id chama_id) (\<lambda>found.
     case found of
       None \<Rightarrow> raise (NotFoundError ''Chama not found'')
     | Some chama \<Rightarrow> ret chama)"

definition authorize_chama_access :: "user \<Rightarrow> uuid \<Rightarrow> membership act" where
  "authorize_chama_access actor chama_id =
     (case us_member_id actor of
        None \<Rightarrow> raise (PermissionDeniedError ''You are not an active member of this Chama'')
      | Some member_id \<Rightarrow>
          bind (select_first memberships
                  (\<lambda>m. ms_member_id m = member_id \<and> ms_chama_id m = chama_id \<and>
                       ms_status m = MS_ACTIVE)) (\<lambda>found.
          case found of
            None \<Rightarrow> raise (PermissionDeniedError ''You are not an active member of this Chama'')
          | Some m \<Rightarrow> ret m))"

definition authorize_chama_write :: "user \<Rightarrow> uuid \<Rightarrow> membership act" where
  "authorize_chama_write actor chama_id =
     bind (get_chama_or_404 chama_id) (\<lambda>chama.
     bind (authorize_chama_access actor chama_id) (\<lambda>m.
     bind (ensure (ch_status chama = CH_ACTIVE)
             (StateError ''This Chama is read-only until a platform administrator activates it''))
       (\<lambda>_. ret m)))"

definition require_roles :: "membership \<Rightarrow> role_name list \<Rightarrow> unit act" where
  "require_roles m rs =
     bind (has_any_role m rs) (\<lambda>ok.
     ensure ok (PermissionDeniedError
       (''This action requires one of the roles: '' @ join '', '' (map role_value rs))))"

definition require_role :: "membership \<Rightarrow> role_name \<Rightarrow> unit act" where
  "require_role m role =
     bind (has_role m role) (\<lambda>ok.
     ensure ok (PermissionDeniedError
       (''This action requires the '' @ role_value role @ '' role'')))"

definition require_own_or_leadership :: "membership \<Rightarrow> uuid \<Rightarrow> string \<Rightarrow> unit act" where
  "require_own_or_leadership caller target_membership_id resource =
     (if ms_id caller = target_membership_id then ret ()
      else bind (has_any_role caller LEADERSHIP_ROLES) (\<lambda>ok.
           ensure ok (PermissionDeniedError (''You may only view your own '' @ resource))))"

definition get_target_membership :: "uuid \<Rightarrow> uuid \<Rightarrow> membership act" where
  "get_target_membership chama_id membership_id =
     bind (get_by_key memberships ms_id membership_id) (\<lambda>found.
     case found of
       None \<Rightarrow> raise (NotFoundError ''Membership not found in this Chama'')
     | Some m \<Rightarrow>
         if ms_chama_id m \<noteq> chama_id
         then raise (NotFoundError ''Membership not found in this Chama'')
         else ret m)"

definition holds_platform_role :: "db \<Rightarrow> uuid \<Rightarrow> role_name \<Rightarrow> bool" where
  "holds_platform_role d uid role \<longleftrightarrow>
     list_ex (\<lambda>pr. pr_user_id pr = uid \<and> pr_role pr = role) (platform_roles d)"

definition is_platform_admin :: "user \<Rightarrow> bool act" where
  "is_platform_admin u =
     (if \<not> us_is_active u then ret False
      else scalar (\<lambda>d. holds_platform_role d (us_id u) PLATFORM_ADMIN))"

definition require_platform_admin :: "user \<Rightarrow> unit act" where
  "require_platform_admin u =
     bind (is_platform_admin u) (\<lambda>ok.
     ensure ok (PermissionDeniedError ''This action requires the PLATFORM_ADMIN role''))"

section \<open>What the checks guarantee\<close>

text \<open>
  The read-only checks leave the session as an autoflush would (\<open>sync\<close>); the pure
  predicates below say what they let pass.
\<close>

definition access_ok :: "user \<Rightarrow> uuid \<Rightarrow> db \<Rightarrow> membership \<Rightarrow> bool" where
  "access_ok actor cid d m \<longleftrightarrow>
     us_member_id actor = Some (ms_member_id m) \<and> ms_chama_id m = cid \<and>
     ms_status m = MS_ACTIVE \<and> m \<in> set (memberships d)"

definition write_ok :: "user \<Rightarrow> uuid \<Rightarrow> db \<Rightarrow> membership \<Rightarrow> bool" where
  "write_ok actor cid d m \<longleftrightarrow>
     access_ok actor cid d m \<and>
     (\<exists>chama. find_row ch_id cid (chamas d) = Some chama \<and> ch_status chama = CH_ACTIVE)"

lemma role_value_eq [simp]: "role_value a = role_value b \<longleftrightarrow> a = b"
  by (rule role_value_inject)

lemma wp_get_chama_or_404 [wp]:
  "wp (get_chama_or_404 cid) Q R s =
     (case find_row ch_id cid (chamas (objs s)) of
        None \<Rightarrow> R (NotFoundError ''Chama not found'') s | Some c \<Rightarrow> Q c s)"
  by (simp add: get_chama_or_404_def wp split: option.split)

lemma wp_has_role [wp]: "wp (has_role m r) Q R s = Q (holds_role (rows s) (ms_id m) r) s"
  by (simp add: has_role_def wp)

lemma wp_has_any_role [wp]:
  "wp (has_any_role m rs) Q R s = Q (list_ex (holds_role (rows s) (ms_id m)) rs) s"
  by (simp add: has_any_role_def wp)

lemma wp_require_role [wp]:
  "wp (require_role m r) Q R s =
     (if holds_role (rows s) (ms_id m) r then Q () s
      else R (PermissionDeniedError (''This action requires the '' @ role_value r @ '' role'')) s)"
  by (simp add: require_role_def wp)

lemma wp_require_roles [wp]:
  "wp (require_roles m rs) Q R s =
     (if list_ex (holds_role (rows s) (ms_id m)) rs then Q () s
      else R (PermissionDeniedError
        (''This action requires one of the roles: '' @ join '', '' (map role_value rs))) s)"
  by (simp add: require_roles_def wp)

lemma wp_require_own_or_leadership [wp]:
  "wp (require_own_or_leadership m t res) Q R s =
     (if ms_id m = t \<or> list_ex (holds_role (rows s) (ms_id m)) LEADERSHIP_ROLES then Q () s
      else R (PermissionDeniedError (''You may only view your own '' @ res)) s)"
  by (simp add: require_own_or_leadership_def wp)

text \<open>
  The access checks on a session whose memberships are flushed (no service changes a
  membership before it authorizes): they either let the actor's own active membership
  through or raise, and change nothing but the autoflush.
\<close>

lemma wp_authorize_chama_access:
  assumes flushed: "memberships (rows s) = memberships (objs s)"
    and ok: "\<And>m. access_ok actor cid (objs s) m \<Longrightarrow> Q m (sync s)"
    and no: "\<And>e t. (\<And>m. \<not> access_ok actor cid (objs s) m) \<Longrightarrow> t = s \<or> t = sync s \<Longrightarrow>
      R (PermissionDeniedError e) t"
  shows "wp (authorize_chama_access actor cid) Q R s"
proof (cases "us_member_id actor")
  case None
  then show ?thesis by (simp add: authorize_chama_access_def wp no access_ok_def)
next
  case (Some mid)
  let ?P = "\<lambda>m. ms_member_id m = mid \<and> ms_chama_id m = cid \<and> ms_status m = MS_ACTIVE"
  have ents: "entities memberships ?P (rows (sync s)) (objs s) = filter ?P (memberships (objs s))"
    by (rule entities_flushed) (simp add: sync_def flushed)
  show ?thesis
  proof (cases "first (filter ?P (memberships (objs s)))")
    case None
    then have "\<not> access_ok actor cid (objs s) m" for m
      using Some by (auto simp: access_ok_def filter_empty_conv)
    with None Some ents show ?thesis
      by (simp add: authorize_chama_access_def wp no)
  next
    case (Some m)
    then have "m \<in> set (memberships (objs s)) \<and> ?P m" by (rule first_filter_SomeD)
    then have "access_ok actor cid (objs s) m"
      using \<open>us_member_id actor = Some mid\<close> by (simp add: access_ok_def)
    with Some ents \<open>us_member_id actor = Some mid\<close> show ?thesis
      by (simp add: authorize_chama_access_def wp ok)
  qed
qed

lemma wp_authorize_chama_write:
  assumes flushed: "memberships (rows s) = memberships (objs s)"
    and ok: "\<And>m. write_ok actor cid (objs s) m \<Longrightarrow> Q m (sync s)"
    and no: "\<And>e t. (\<And>m. \<not> write_ok actor cid (objs s) m) \<Longrightarrow> t = s \<or> t = sync s \<Longrightarrow> R e t"
  shows "wp (authorize_chama_write actor cid) Q R s"
proof (cases "find_row ch_id cid (chamas (objs s))")
  case None
  then show ?thesis by (simp add: authorize_chama_write_def wp no write_ok_def)
next
  case (Some c)
  have "wp (authorize_chama_access actor cid)
     (\<lambda>m. wp (bind (ensure (ch_status c = CH_ACTIVE)
             (StateError ''This Chama is read-only until a platform administrator activates it''))
       (\<lambda>_. ret m)) Q R) R s"
    by (rule wp_authorize_chama_access [OF flushed])
       (auto simp: wp intro!: ok no simp: write_ok_def Some)
  with Some show ?thesis by (simp add: authorize_chama_write_def wp)
qed

text \<open>The opening of every handler that writes to, or reads from, a Chama.\<close>

lemma wp_chama_write:
  assumes "clean s"
    and "\<And>c m. find_row ch_id cid (chamas (objs s)) = Some c \<Longrightarrow> write_ok actor (ch_id c) (objs s) m \<Longrightarrow>
      wp (f c m) Q R s"
    and "\<And>e. R e s"
  shows "wp (bind (get_chama_or_404 cid) (\<lambda>c. bind (authorize_chama_write actor (ch_id c)) (f c))) Q R s"
proof (cases "find_row ch_id cid (chamas (objs s))")
  case None
  with assms(3) show ?thesis by (simp add: wp)
next
  case (Some c)
  then have c: "ch_id c = cid" by (auto dest: find_row_SomeD)
  with Some have "wp (authorize_chama_write actor (ch_id c)) (\<lambda>m. wp (f c m) Q R) R s"
    by (intro wp_authorize_chama_write) (use assms in auto)
  with Some show ?thesis by (simp add: wp_bind wp_get_chama_or_404)
qed

lemma wp_chama_read:
  assumes "clean s"
    and "\<And>c m. find_row ch_id cid (chamas (objs s)) = Some c \<Longrightarrow> access_ok actor (ch_id c) (objs s) m \<Longrightarrow>
      wp (f c m) Q R s"
    and "\<And>e. R e s"
  shows "wp (bind (get_chama_or_404 cid) (\<lambda>c. bind (authorize_chama_access actor (ch_id c)) (f c))) Q R s"
proof (cases "find_row ch_id cid (chamas (objs s))")
  case None
  with assms(3) show ?thesis by (simp add: wp)
next
  case (Some c)
  then have c: "ch_id c = cid" by (auto dest: find_row_SomeD)
  with Some have "wp (authorize_chama_access actor (ch_id c)) (\<lambda>m. wp (f c m) Q R) R s"
    by (intro wp_authorize_chama_access) (use assms in auto)
  with Some show ?thesis by (simp add: wp_bind wp_get_chama_or_404)
qed

lemma wp_get_target_membership [wp]:
  "wp (get_target_membership cid mid) Q R s =
     (case find_row ms_id mid (memberships (objs s)) of
        None \<Rightarrow> R (NotFoundError ''Membership not found in this Chama'') s
      | Some m \<Rightarrow> if ms_chama_id m \<noteq> cid
                  then R (NotFoundError ''Membership not found in this Chama'') s else Q m s)"
  by (simp add: get_target_membership_def wp split: option.split)

lemma wp_require_platform_admin [wp]:
  "wp (require_platform_admin u) Q R s =
     (if us_is_active u
      then if holds_platform_role (rows (sync s)) (us_id u) PLATFORM_ADMIN then Q () (sync s)
           else R (PermissionDeniedError ''This action requires the PLATFORM_ADMIN role'') (sync s)
      else R (PermissionDeniedError ''This action requires the PLATFORM_ADMIN role'') s)"
  by (simp add: require_platform_admin_def is_platform_admin_def wp)

end
