(* ===== verification/Audit_Trail.thy ===== *)
theory Audit_Trail
  imports Access
begin

text \<open>
  Business audit events and the in-app notifications derived from them
  (\<open>app/services/audit.py\<close>, \<open>app/services/notification.py\<close> and their repositories).
  \<open>record\<close> writes in the caller's transaction and flushes; \<open>record_commit\<close> commits. Both
  touch only the tables \<open>audit_events\<close> and \<open>notifications\<close>, which is what the financial
  services rely on: the interface \<open>audit_sink\<close> at the end states that contract.
\<close>

section \<open>Audit actions\<close>

definition AUTH_REGISTER :: string where "AUTH_REGISTER = ''auth.register''"
definition AUTH_LOGIN :: string where "AUTH_LOGIN = ''auth.login''"
definition AUTH_LOGIN_FAILED :: string where "AUTH_LOGIN_FAILED = ''auth.login_failed''"
definition AUTH_LOGOUT :: string where "AUTH_LOGOUT = ''auth.logout''"
definition AUTH_REFRESH :: string where "AUTH_REFRESH = ''auth.refresh''"
definition AUTH_MEMBER_LINK :: string where "AUTH_MEMBER_LINK = ''auth.member_link''"
definition CHAMA_CREATE :: string where "CHAMA_CREATE = ''chama.create''"
definition CHAMA_UPDATE :: string where "CHAMA_UPDATE = ''chama.update''"
definition CHAMA_STATUS_CHANGE :: string where "CHAMA_STATUS_CHANGE = ''chama.status_change''"
definition MEMBERSHIP_CREATE :: string where "MEMBERSHIP_CREATE = ''membership.create''"
definition MEMBERSHIP_STATUS_CHANGE :: string where "MEMBERSHIP_STATUS_CHANGE = ''membership.status_change''"
definition ROLE_ASSIGN :: string where "ROLE_ASSIGN = ''role.assign''"
definition ROLE_REMOVE :: string where "ROLE_REMOVE = ''role.remove''"
definition CONTRIBUTION_CREATE :: string where "CONTRIBUTION_CREATE = ''contribution.create''"
definition CONTRIBUTION_CONFIRM :: string where "CONTRIBUTION_CONFIRM = ''contribution.confirm''"
definition CONTRIBUTION_REVERSE :: string where "CONTRIBUTION_REVERSE = ''contribution.reverse''"
definition FEE_PAY :: string where "FEE_PAY = ''registration_fee.pay''"
definition FEE_PAY_REVERSAL :: string where "FEE_PAY_REVERSAL = ''registration_fee.pay_reversal''"
definition FEE_WAIVE :: string where "FEE_WAIVE = ''registration_fee.waive''"
definition LOAN_APPLY :: string where "LOAN_APPLY = ''loan.apply''"
definition LOAN_SUBMIT :: string where "LOAN_SUBMIT = ''loan.submit''"
definition LOAN_APPROVE :: string where "LOAN_APPROVE = ''loan.approve''"
definition LOAN_REJECT :: string where "LOAN_REJECT = ''loan.reject''"
definition LOAN_CANCEL :: string where "LOAN_CANCEL = ''loan.cancel''"
definition LOAN_DISBURSE :: string where "LOAN_DISBURSE = ''loan.disburse''"
definition LOAN_REPAYMENT :: string where "LOAN_REPAYMENT = ''loan.repayment''"
definition LOAN_REPAYMENT_REVERSAL :: string where "LOAN_REPAYMENT_REVERSAL = ''loan.repayment_reversal''"
definition PAYOUT_REQUEST :: string where "PAYOUT_REQUEST = ''payout.request''"
definition PAYOUT_APPROVE :: string where "PAYOUT_APPROVE = ''payout.approve''"
definition PAYOUT_REJECT :: string where "PAYOUT_REJECT = ''payout.reject''"
definition PAYOUT_PROCESS :: string where "PAYOUT_PROCESS = ''payout.process''"
definition PAYOUT_COMPLETE :: string where "PAYOUT_COMPLETE = ''payout.complete''"
definition PAYOUT_FAIL :: string where "PAYOUT_FAIL = ''payout.fail''"
definition PAYOUT_REVERSAL :: string where "PAYOUT_REVERSAL = ''payout.reversal''"
definition PAYMENT_CONNECTION_CREATED :: string where "PAYMENT_CONNECTION_CREATED = ''payment_connection.created''"
definition PAYMENT_CONNECTION_VALIDATED :: string where "PAYMENT_CONNECTION_VALIDATED = ''payment_connection.validated''"
definition PAYMENT_CONNECTION_ENABLED :: string where "PAYMENT_CONNECTION_ENABLED = ''payment_connection.enabled''"
definition PAYMENT_CONNECTION_DISABLED :: string where "PAYMENT_CONNECTION_DISABLED = ''payment_connection.disabled''"
definition PAYMENT_CONNECTION_CREDENTIALS_REPLACED :: string where "PAYMENT_CONNECTION_CREDENTIALS_REPLACED = ''payment_connection.credentials_replaced''"
definition PAYMENT_CONNECTION_DELETED :: string where "PAYMENT_CONNECTION_DELETED = ''payment_connection.deleted''"
definition C2B_REGISTRATION :: string where "C2B_REGISTRATION = ''c2b.registration''"
definition AUTH_PASSWORD_CHANGE :: string where "AUTH_PASSWORD_CHANGE = ''auth.password_change''"
definition AUTH_PASSWORD_CHANGE_REQUIRED :: string where "AUTH_PASSWORD_CHANGE_REQUIRED = ''auth.password_change_required''"
definition AUTH_ACCOUNT_DELETE :: string where "AUTH_ACCOUNT_DELETE = ''auth.account_delete''"
definition PLATFORM_CHAMA_STATUS_CHANGE :: string where "PLATFORM_CHAMA_STATUS_CHANGE = ''platform.chama_status_change''"
definition PLATFORM_ADMIN_GRANTED :: string where "PLATFORM_ADMIN_GRANTED = ''platform.admin_granted''"
definition PLATFORM_ADMIN_REVOKED :: string where "PLATFORM_ADMIN_REVOKED = ''platform.admin_revoked''"
definition PLATFORM_USER_PASSWORD_CHANGE_REQUIRED :: string where "PLATFORM_USER_PASSWORD_CHANGE_REQUIRED = ''platform.user_password_change_required''"
definition PLATFORM_USER_DEACTIVATED :: string where "PLATFORM_USER_DEACTIVATED = ''platform.user_deactivated''"
definition PLATFORM_USER_REACTIVATED :: string where "PLATFORM_USER_REACTIVATED = ''platform.user_reactivated''"

section \<open>Notifications\<close>

definition CHAMA_BROADCAST_ACTIONS :: "string list" where
  "CHAMA_BROADCAST_ACTIONS =
     [''chama.update'',
      ''membership.create'',
      ''role.assign'',
      ''role.remove'',
      ''payment_connection.created'',
      ''payment_connection.validated'',
      ''payment_connection.enabled'',
      ''payment_connection.disabled'',
      ''payment_connection.credentials_replaced'',
      ''payment_connection.deleted'',
      ''c2b.registration'']"

definition PLATFORM_ACTIONS :: "string list" where
  "PLATFORM_ACTIONS =
     [''chama.create'',
      ''chama.status_change'',
      ''platform.chama_status_change'',
      ''platform.admin_granted'',
      ''platform.admin_revoked'',
      ''auth.password_change_required'']"

definition TITLES :: "(string \<times> string) list" where
  "TITLES =
     [(''chama.create'', ''Chama created''),
      (''chama.update'', ''Chama details updated''),
      (''chama.status_change'', ''Chama status changed''),
      (''membership.create'', ''New membership registered''),
      (''membership.status_change'', ''Membership status changed''),
      (''role.assign'', ''Role assigned''),
      (''role.remove'', ''Role removed''),
      (''contribution.create'', ''Contribution recorded''),
      (''contribution.confirm'', ''Contribution confirmed''),
      (''contribution.reverse'', ''Contribution reversed''),
      (''registration_fee.pay'', ''Registration fee paid''),
      (''registration_fee.pay_reversal'', ''Registration fee payment reversed''),
      (''registration_fee.waive'', ''Registration fee waived''),
      (''loan.apply'', ''Loan application submitted''),
      (''loan.submit'', ''Loan submitted for approval''),
      (''loan.approve'', ''Loan approved''),
      (''loan.reject'', ''Loan rejected''),
      (''loan.cancel'', ''Loan cancelled''),
      (''loan.disburse'', ''Loan disbursed''),
      (''loan.repayment'', ''Loan repayment confirmed''),
      (''loan.repayment_reversal'', ''Loan repayment reversed''),
      (''payout.request'', ''Payout requested''),
      (''payout.approve'', ''Payout approved''),
      (''payout.reject'', ''Payout rejected''),
      (''payout.process'', ''Payout processing''),
      (''payout.complete'', ''Payout completed''),
      (''payout.fail'', ''Payout failed''),
      (''payout.reversal'', ''Payout reversed''),
      (''auth.password_change_required'', ''Password change required'')]"

definition title_of :: "string \<Rightarrow> string" where
  "title_of action = (case map_of TITLES action of None \<Rightarrow> action | Some t \<Rightarrow> t)"

text \<open>The recipients of a fan-out, as the queries compute them.\<close>

definition platform_admin_ids :: "db \<Rightarrow> uuid list" where
  "platform_admin_ids d =
     map pr_user_id (filter (\<lambda>pr. pr_role pr = PLATFORM_ADMIN) (platform_roles d))"

definition user_ids_for_member :: "uuid \<Rightarrow> db \<Rightarrow> uuid list" where
  "user_ids_for_member member_id d =
     map us_id (filter (\<lambda>u. us_member_id u = Some member_id \<and> us_is_active u) (users d))"

definition active_member_user_ids :: "uuid \<Rightarrow> db \<Rightarrow> uuid list" where
  "active_member_user_ids chama_id d =
     remdups (map us_id (filter (\<lambda>u. us_is_active u \<and>
        list_ex (\<lambda>m. us_member_id u = Some (ms_member_id m) \<and> ms_chama_id m = chama_id \<and>
                     ms_status m = MS_ACTIVE) (memberships d)) (users d)))"

definition fan_out_recipients :: "string \<Rightarrow> uuid option \<Rightarrow> uuid option \<Rightarrow> db \<Rightarrow> uuid list" where
  "fan_out_recipients action chama_id subject_member_id d =
     (case chama_id of
        None \<Rightarrow> platform_admin_ids d
      | Some cid \<Rightarrow>
          if action \<in> set PLATFORM_ACTIONS then platform_admin_ids d
          else if action \<in> set CHAMA_BROADCAST_ACTIONS then active_member_user_ids cid d
          else (case subject_member_id of
                  Some mid \<Rightarrow> user_ids_for_member mid d
                | None \<Rightarrow> active_member_user_ids cid d))"

definition no_check :: "db \<Rightarrow> 'r \<Rightarrow> string option" where
  "no_check d r = None"

definition notify ::
  "uuid \<Rightarrow> string \<Rightarrow> uuid option \<Rightarrow> uuid option \<Rightarrow> string option \<Rightarrow> uuid option \<Rightarrow>
   payload option \<Rightarrow> unit act" where
  "notify user_id action actor_user_id chama_id resource_type resource_id payload =
     bind uuid4 (\<lambda>i.
     bind (asks utc_now) (\<lambda>now.
     insert_row no_check (\<lambda>r d. d\<lparr>notifications := notifications d @ [r]\<rparr>)
       \<lparr>nt_id = i, nt_user_id = user_id, nt_channel = IN_APP, nt_action = action,
        nt_title = title_of action, nt_body = None, nt_chama_id = chama_id,
        nt_resource_type = resource_type, nt_resource_id = resource_id,
        nt_actor_user_id = actor_user_id, nt_payload = payload, nt_is_read = False,
        nt_read_at = None, nt_created_at = now\<rparr>))"

definition fan_out ::
  "string \<Rightarrow> uuid option \<Rightarrow> uuid option \<Rightarrow> uuid option \<Rightarrow> string \<Rightarrow> uuid option \<Rightarrow>
   payload option \<Rightarrow> unit act" where
  "fan_out action actor_id chama_id subject_member_id resource_type resource_id payload =
     bind (scalar (fan_out_recipients action chama_id subject_member_id)) (\<lambda>recipient_ids.
     for_each recipient_ids (\<lambda>user_id.
       if actor_id = Some user_id then ret ()
       else notify user_id action actor_id chama_id (Some resource_type) resource_id payload))"

section \<open>Recording an event\<close>

text \<open>
  \<open>_subject_member_id\<close>: the payload's \<open>member_id\<close> when it is a UUID.
\<close>

definition subject_member_id :: "payload option \<Rightarrow> uuid option" where
  "subject_member_id payload =
     (case payload of
        None \<Rightarrow> None
      | Some p \<Rightarrow> (case map_of p ''member_id'' of Some (JId u) \<Rightarrow> Some u | _ \<Rightarrow> None))"

definition fan_out_skipped :: "string \<Rightarrow> bool" where
  "fan_out_skipped action \<longleftrightarrow>
     list_ex (\<lambda>p. prefix p action) [''auth.login'', ''auth.logout'', ''auth.refresh'', ''auth.register'']"

definition audit_record ::
  "uuid option \<Rightarrow> uuid option \<Rightarrow> string \<Rightarrow> string \<Rightarrow> uuid option \<Rightarrow> payload option \<Rightarrow> bool \<Rightarrow> unit act"
where
  "audit_record actor_id chama_id action resource_type resource_id payload success =
     bind uuid4 (\<lambda>i.
     bind (asks req_id) (\<lambda>request_id.
     bind (insert_row no_check (\<lambda>r d. d\<lparr>audit_events := audit_events d @ [r]\<rparr>)
       \<lparr>ae_id = i, ae_chama_id = chama_id, ae_actor_user_id = actor_id, ae_action = action,
        ae_resource_type = resource_type, ae_resource_id = resource_id,
        ae_request_id = request_id, ae_payload = payload, ae_success = success\<rparr>) (\<lambda>_.
     bind flush (\<lambda>_.
     if success \<and> \<not> fan_out_skipped action
     then catch_all (fan_out action actor_id chama_id (subject_member_id payload)
                       resource_type resource_id payload) (ret ())
     else ret ()))))"

definition audit_record_commit ::
  "uuid option \<Rightarrow> uuid option \<Rightarrow> string \<Rightarrow> string \<Rightarrow> uuid option \<Rightarrow> payload option \<Rightarrow> bool \<Rightarrow> unit act"
where
  "audit_record_commit actor_id chama_id action resource_type resource_id payload success =
     bind (audit_record actor_id chama_id action resource_type resource_id payload success) (\<lambda>_.
     commit)"

text \<open>Pages of a query: \<open>.limit(l).offset(o)\<close>, the whole result when no limit is given.\<close>

definition page :: "nat option \<Rightarrow> nat \<Rightarrow> 'a list \<Rightarrow> 'a list" where
  "page limit offset xs = (case limit of None \<Rightarrow> xs | Some l \<Rightarrow> take l (drop offset xs))"

definition list_for_chama :: "user \<Rightarrow> uuid \<Rightarrow> nat option \<Rightarrow> nat \<Rightarrow> audit_event list act" where
  "list_for_chama actor chama_id limit offset =
     bind (get_chama_or_404 chama_id) (\<lambda>chama.
     bind (authorize_chama_access actor (ch_id chama)) (\<lambda>m.
     bind (require_roles m LEADERSHIP_ROLES) (\<lambda>_.
     bind (select_all audit_events (\<lambda>e. ae_chama_id e = Some (ch_id chama))) (\<lambda>es.
     ret (take (case limit of None \<Rightarrow> 200 | Some l \<Rightarrow> l) (drop offset (rev es)))))))"

section \<open>The contract of the audit trail\<close>

text \<open>The effect of logging on a session: the two tables of the trail, a flush, new ids.\<close>

definition logged :: "audit_event list \<Rightarrow> notification list \<Rightarrow> uuid \<Rightarrow> sess \<Rightarrow> sess" where
  "logged a n u s =
     s\<lparr>objs := (objs s)\<lparr>audit_events := a, notifications := n\<rparr>,
       rows := (objs s)\<lparr>audit_events := a, notifications := n\<rparr>, next_uuid := u\<rparr>"

text \<open>
  The interface the services use: logging always succeeds, appends to the trail, flushes,
  commits nothing and leaves every other table alone.
\<close>

locale audit_sink =
  fixes log :: "'e \<Rightarrow> unit act"
  assumes log_effect:
    "\<exists>new n u. log e s = (Inr (), logged (audit_events (objs s) @ new) n u s) \<and>
       new \<noteq> [] \<and> next_uuid s < u"
begin

lemma wp_log:
  assumes "\<And>new n u. new \<noteq> [] \<Longrightarrow> next_uuid s < u \<Longrightarrow>
    Q () (logged (audit_events (objs s) @ new) n u s)"
  shows "wp (log e) Q R s"
  using log_effect [of e s] assms by (auto simp: wp_def)

lemma log_never_raises: "fst (log e s) = Inr ()"
  using log_effect [of e s] by auto

lemma log_keeps:
  assumes "\<And>d a n. P (d\<lparr>audit_events := a, notifications := n\<rparr>) = P d"
  shows "P (objs (snd (log e s))) = P (objs s)"
  using log_effect [of e s] by (auto simp: logged_def assms)

lemma log_append_only:
  "\<exists>new. audit_events (objs (snd (log e s))) = audit_events (objs s) @ new"
  using log_effect [of e s] by (auto simp: logged_def)

lemma log_not_durable: "durable (snd (log e s)) = durable s"
  using log_effect [of e s] by (auto simp: logged_def)

end

lemma fan_out_effect:
  assumes "rows s = objs s"
  shows "\<exists>n u. for_each ids (\<lambda>user_id. if actor_id = Some user_id then ret ()
       else notify user_id action actor_id chama_id rt rid payload) s =
     (Inr (), s\<lparr>objs := (objs s)\<lparr>notifications := n\<rparr>,
        rows := (objs s)\<lparr>notifications := n\<rparr>, next_uuid := u\<rparr>) \<and> next_uuid s \<le> u"
  using assms
proof (induction ids arbitrary: s)
  case Nil
  then have "s = s\<lparr>objs := (objs s)\<lparr>notifications := notifications (objs s)\<rparr>,
      rows := (objs s)\<lparr>notifications := notifications (objs s)\<rparr>, next_uuid := next_uuid s\<rparr>"
    by simp
  then show ?case
    by (intro exI [of _ "notifications (objs s)"] exI [of _ "next_uuid s"]) (simp add: ret_def)
next
  case (Cons i ids)
  show ?case
  proof (cases "actor_id = Some i")
    case True
    with Cons.IH [OF Cons.prems] show ?thesis by (simp add: bind_def ret_def)
  next
    case False
    define r where "r = \<lparr>nt_id = next_uuid s, nt_user_id = i, nt_channel = IN_APP,
        nt_action = action, nt_title = title_of action, nt_body = None, nt_chama_id = chama_id,
        nt_resource_type = rt, nt_resource_id = rid, nt_actor_user_id = actor_id,
        nt_payload = payload, nt_is_read = False, nt_read_at = None, nt_created_at = utc_now s\<rparr>"
    define t where "t = s\<lparr>objs := (objs s)\<lparr>notifications := notifications (objs s) @ [r]\<rparr>,
        rows := (objs s)\<lparr>notifications := notifications (objs s) @ [r]\<rparr>,
        next_uuid := Suc (next_uuid s)\<rparr>"
    have step: "notify i action actor_id chama_id rt rid payload s = (Inr (), t)"
      by (simp add: notify_def bind_def uuid4_def asks_def insert_row_def no_check_def change_def
          flush_def t_def r_def)
    have "rows t = objs t" by (simp add: t_def)
    then obtain n u where rest:
      "for_each ids (\<lambda>user_id. if actor_id = Some user_id then ret ()
         else notify user_id action actor_id chama_id rt rid payload) t =
       (Inr (), t\<lparr>objs := (objs t)\<lparr>notifications := n\<rparr>,
          rows := (objs t)\<lparr>notifications := n\<rparr>, next_uuid := u\<rparr>)" "next_uuid t \<le> u"
      using Cons.IH by blast
    have "t\<lparr>objs := (objs t)\<lparr>notifications := n\<rparr>, rows := (objs t)\<lparr>notifications := n\<rparr>,
        next_uuid := u\<rparr> =
      s\<lparr>objs := (objs s)\<lparr>notifications := n\<rparr>, rows := (objs s)\<lparr>notifications := n\<rparr>,
        next_uuid := u\<rparr>" by (simp add: t_def)
    moreover have "next_uuid s \<le> u" using rest(2) by (simp add: t_def)
    ultimately show ?thesis using rest(1) step False by (simp add: bind_def) blast
  qed
qed

lemma audit_record_effect:
  "\<exists>new n u. audit_record a c k rt ri p b s =
     (Inr (), logged (audit_events (objs s) @ new) n u s) \<and> new \<noteq> [] \<and> next_uuid s < u"
proof -
  define ev where "ev = \<lparr>ae_id = next_uuid s, ae_chama_id = c, ae_actor_user_id = a, ae_action = k,
      ae_resource_type = rt, ae_resource_id = ri, ae_request_id = req_id s, ae_payload = p,
      ae_success = b\<rparr>"
  define t where "t = logged (audit_events (objs s) @ [ev]) (notifications (objs s)) (Suc (next_uuid s)) s"
  have eq: "audit_record a c k rt ri p b s =
    (if b \<and> \<not> fan_out_skipped k
     then catch_all (fan_out k a c (subject_member_id p) rt ri p) (ret ()) t else (Inr (), t))"
    by (simp add: audit_record_def bind_def uuid4_def asks_def insert_row_def no_check_def
        change_def flush_def t_def ev_def logged_def ret_def)
  have sync_t: "sync t = t" and rows_t: "rows t = objs t"
    by (simp_all add: sync_flushed t_def logged_def)
  show ?thesis
  proof (cases "b \<and> \<not> fan_out_skipped k")
    case False
    with eq have "audit_record a c k rt ri p b s = (Inr (), t)" by simp
    then show ?thesis unfolding t_def by (intro exI conjI) (assumption | simp)+
  next
    case True
    let ?ids = "fan_out_recipients k c (subject_member_id p) (rows t)"
    obtain n u where fe: "for_each ?ids (\<lambda>user_id. if a = Some user_id then ret ()
         else notify user_id k a c (Some rt) ri p) t =
       (Inr (), t\<lparr>objs := (objs t)\<lparr>notifications := n\<rparr>,
          rows := (objs t)\<lparr>notifications := n\<rparr>, next_uuid := u\<rparr>)"
      and u: "next_uuid t \<le> u"
      using fan_out_effect [OF rows_t] by blast
    have "audit_record a c k rt ri p b s =
      (Inr (), t\<lparr>objs := (objs t)\<lparr>notifications := n\<rparr>,
          rows := (objs t)\<lparr>notifications := n\<rparr>, next_uuid := u\<rparr>)"
      using eq True fe sync_t
      by (simp add: fan_out_def catch_all_def bind_def scalar_def query_def)
    also have "\<dots> = (Inr (), logged (audit_events (objs s) @ [ev]) n u s)"
      by (simp add: t_def logged_def)
    finally show ?thesis using u by (intro exI conjI) (assumption | simp add: t_def logged_def)+
  qed
qed

interpretation audit: audit_sink "\<lambda>(a, c, k, rt, ri, p, b). audit_record a c k rt ri p b"
  by unfold_locales (use audit_record_effect in \<open>auto split: prod.split\<close>)

lemma wp_audit_record:
  assumes "\<And>new n u. new \<noteq> [] \<Longrightarrow> next_uuid s < u \<Longrightarrow>
    Q () (logged (audit_events (objs s) @ new) n u s)"
  shows "wp (audit_record a c k rt ri p b) Q R s"
  using audit.wp_log [where e = "(a, c, k, rt, ri, p, b)"] assms by simp

lemma wp_audit_record_commit:
  assumes "\<And>new n u. new \<noteq> [] \<Longrightarrow> next_uuid s < u \<Longrightarrow>
    Q () ((logged (audit_events (objs s) @ new) n u s)
            \<lparr>durable := (objs s)\<lparr>audit_events := audit_events (objs s) @ new, notifications := n\<rparr>
                         # durable s\<rparr>)"
  shows "wp (audit_record_commit a c k rt ri p b) Q R s"
  unfolding audit_record_commit_def wp_bind
  by (rule wp_audit_record) (use assms in \<open>simp add: wp_commit logged_def\<close>)

text \<open>A database with a changed trail.\<close>

definition log_db :: "audit_event list \<Rightarrow> notification list \<Rightarrow> db \<Rightarrow> db" where
  "log_db a n d = d\<lparr>audit_events := a, notifications := n\<rparr>"

lemma log_db_simps [simp]:
  "chamas (log_db a n d) = chamas d" "memberships (log_db a n d) = memberships d"
  "membership_roles (log_db a n d) = membership_roles d" "users (log_db a n d) = users d"
  "platform_roles (log_db a n d) = platform_roles d" "contributions (log_db a n d) = contributions d"
  "shares (log_db a n d) = shares d" "loans (log_db a n d) = loans d"
  "repayments (log_db a n d) = repayments d" "payouts (log_db a n d) = payouts d"
  "registration_fees (log_db a n d) = registration_fees d" "fee_payments (log_db a n d) = fee_payments d"
  "ledger_accounts (log_db a n d) = ledger_accounts d"
  "ledger_transactions (log_db a n d) = ledger_transactions d"
  "ledger_entries (log_db a n d) = ledger_entries d"
  "audit_events (log_db a n d) = a" "notifications (log_db a n d) = n"
  "refresh_tokens (log_db a n d) = refresh_tokens d" "sequences (log_db a n d) = sequences d"
  "connections (log_db a n d) = connections d" "intents (log_db a n d) = intents d"
  "attempts (log_db a n d) = attempts d" "payment_events (log_db a n d) = payment_events d"
  "provider_transactions (log_db a n d) = provider_transactions d"
  by (simp_all add: log_db_def)

lemma wp_audit_then_commit:
  assumes "\<And>new n u. new \<noteq> [] \<Longrightarrow> next_uuid s < u \<Longrightarrow>
    P (saved (log_db (audit_events (objs s) @ new) n (objs s)) u s)"
  shows "wp (audit_record a c k rt ri p b) (\<lambda>_. wp commit (\<lambda>_. P) R) R' s"
  by (rule wp_audit_record) (use assms in \<open>simp add: wp_bind wp_commit logged_def saved_def log_db_def\<close>)

lemma wp_audit_commit:
  assumes "\<And>new n u. new \<noteq> [] \<Longrightarrow> next_uuid s < u \<Longrightarrow>
    Q () (saved (log_db (audit_events (objs s) @ new) n (objs s)) u s)"
  shows "wp (audit_record_commit a c k rt ri p b) Q R s"
  by (rule wp_audit_record_commit) (use assms in \<open>simp add: logged_def saved_def log_db_def\<close>)

end
