(* ===== verification/Ledger.thy ===== *)
theory Ledger
  imports Audit_Trail "HOL-Library.List_Lexorder" "HOL-Library.Product_Lexorder"
begin

text \<open>
  The immutable double-entry ledger: \<open>app/services/ledger.py\<close>, \<open>app/repositories/ledger.py\<close>,
  the constraints of \<open>app/models/ledger_*.py\<close> and the guard of \<open>app/db/ledger_guards.py\<close>.
  This theory holds the operations; their invariants are in \<open>Ledger_Facts\<close>.
\<close>

section \<open>Constants\<close>

definition REVERSAL_SOURCE_TYPE :: string where "REVERSAL_SOURCE_TYPE = ''LEDGER_REVERSAL''"
definition CONTRIBUTION_SOURCE_TYPE :: string where
  "CONTRIBUTION_SOURCE_TYPE = ''CONTRIBUTION_CONFIRMATION''"
definition LOAN_DISBURSEMENT_SOURCE_TYPE :: string where
  "LOAN_DISBURSEMENT_SOURCE_TYPE = ''LOAN_DISBURSEMENT''"
definition LOAN_REPAYMENT_SOURCE_TYPE :: string where
  "LOAN_REPAYMENT_SOURCE_TYPE = ''LOAN_REPAYMENT''"
definition PAYOUT_COMPLETION_SOURCE_TYPE :: string where
  "PAYOUT_COMPLETION_SOURCE_TYPE = ''PAYOUT_COMPLETION''"
definition REGISTRATION_FEE_PAYMENT_SOURCE_TYPE :: string where
  "REGISTRATION_FEE_PAYMENT_SOURCE_TYPE = ''REGISTRATION_FEE_PAYMENT''"

lemmas source_type_defs =
  REVERSAL_SOURCE_TYPE_def CONTRIBUTION_SOURCE_TYPE_def LOAN_DISBURSEMENT_SOURCE_TYPE_def
  LOAN_REPAYMENT_SOURCE_TYPE_def PAYOUT_COMPLETION_SOURCE_TYPE_def
  REGISTRATION_FEE_PAYMENT_SOURCE_TYPE_def

definition CASH_CODE :: string where "CASH_CODE = ''1000''"
definition SHARE_CAPITAL_CODE :: string where "SHARE_CAPITAL_CODE = ''3000''"
definition REGISTRATION_FEES_CODE :: string where "REGISTRATION_FEES_CODE = ''4000''"
definition LOANS_RECEIVABLE_CODE :: string where "LOANS_RECEIVABLE_CODE = ''1100''"
definition INTEREST_INCOME_CODE :: string where "INTEREST_INCOME_CODE = ''5000''"

lemmas account_code_defs =
  CASH_CODE_def SHARE_CAPITAL_CODE_def REGISTRATION_FEES_CODE_def LOANS_RECEIVABLE_CODE_def
  INTEREST_INCOME_CODE_def

definition CHART_ACCOUNTS :: "(string \<times> string \<times> ledger_account_type \<times> string) list" where
  "CHART_ACCOUNTS =
     [(CASH_CODE, ''Cash'', ASSET, ''Money held for the Chama''),
      (LOANS_RECEIVABLE_CODE, ''Loans Receivable'', ASSET,
         ''Outstanding loan principal owed by members (ADR-020)''),
      (SHARE_CAPITAL_CODE, ''Share Capital'', EQUITY,
         ''Member contributions recorded as share capital''),
      (REGISTRATION_FEES_CODE, ''Registration Fees'', REVENUE,
         ''Income from member registration fees''),
      (INTEREST_INCOME_CODE, ''Interest Income'', REVENUE,
         ''Service interest earned on member loans (ADR-020)'')]"

section \<open>Ledger lines\<close>

text \<open>
  What a caller may put in a line (the annotation says \<open>Decimal\<close>, the code checks): a
  \<open>Decimal\<close>, a \<open>bool\<close>, a \<open>float\<close>, or anything else, with what \<open>Decimal(value)\<close> makes
  of it (\<open>None\<close> when the conversion raises).
\<close>

datatype pynum = PyDecimal decimal | PyBool bool | PyFloat | PyOther "decimal option"

record raw_line =
  raw_account_id :: uuid
  raw_debit :: pynum
  raw_credit :: pynum

record ledger_line =
  ll_account_id :: uuid
  ll_debit :: money
  ll_credit :: money

definition debit_line :: "uuid \<Rightarrow> money \<Rightarrow> raw_line" where
  "debit_line a m = \<lparr>raw_account_id = a, raw_debit = PyDecimal (Finite (dec_of_money m)),
                     raw_credit = PyDecimal (Finite 0)\<rparr>"

definition credit_line :: "uuid \<Rightarrow> money \<Rightarrow> raw_line" where
  "credit_line a m = \<lparr>raw_account_id = a, raw_debit = PyDecimal (Finite 0),
                      raw_credit = PyDecimal (Finite (dec_of_money m))\<rparr>"

text \<open>\<open>_to_quantized\<close>.\<close>

definition to_quantized :: "pynum \<Rightarrow> string \<Rightarrow> err + money" where
  "to_quantized v label =
     (let finite_part = (\<lambda>amount. case amount of
            Finite q \<Rightarrow> (case quantize_checked 2 q of
                None \<Rightarrow> Inl InvalidOperation
              | Some m \<Rightarrow> Inr m)
          | _ \<Rightarrow> Inl (StateError (''Ledger '' @ label @ '' amount must be finite'')))
      in case v of
           PyBool b \<Rightarrow> Inl (StateError
             (''Ledger '' @ label @ '' amount must be an exact Decimal, not a float''))
         | PyFloat \<Rightarrow> Inl (StateError
             (''Ledger '' @ label @ '' amount must be an exact Decimal, not a float''))
         | PyDecimal d \<Rightarrow> finite_part d
         | PyOther None \<Rightarrow> Inl (StateError (''Ledger '' @ label @ '' amount is invalid''))
         | PyOther (Some d) \<Rightarrow> finite_part d)"

text \<open>\<open>_normalize_lines\<close>: quantize every amount first, then validate.\<close>

fun normalize_lines :: "raw_line list \<Rightarrow> err + ledger_line list" where
  "normalize_lines [] = Inr []"
| "normalize_lines (l # ls) =
     (case to_quantized (raw_debit l) ''debit'' of
        Inl e \<Rightarrow> Inl e
      | Inr debit \<Rightarrow>
          (case to_quantized (raw_credit l) ''credit'' of
             Inl e \<Rightarrow> Inl e
           | Inr credit \<Rightarrow>
               (case normalize_lines ls of
                  Inl e \<Rightarrow> Inl e
                | Inr rest \<Rightarrow>
                    Inr (\<lparr>ll_account_id = raw_account_id l, ll_debit = debit,
                          ll_credit = credit\<rparr> # rest))))"

section \<open>Repository\<close>

definition get_account_in_chama :: "uuid \<Rightarrow> uuid \<Rightarrow> ledger_account option act" where
  "get_account_in_chama chama_id account_id =
     select_first ledger_accounts (\<lambda>a. la_id a = account_id \<and> la_chama_id a = chama_id)"

definition list_accounts_in_chama :: "uuid \<Rightarrow> ledger_account list act" where
  "list_accounts_in_chama chama_id =
     bind (select_all ledger_accounts (\<lambda>a. la_chama_id a = chama_id)) (\<lambda>as.
     ret (sort_key (\<lambda>a. (map of_char (la_code a) :: nat list, la_id a)) as))"

text \<open>Debits minus credits of an account, from the posted entries.\<close>

definition account_balance :: "uuid \<Rightarrow> uuid \<Rightarrow> db \<Rightarrow> money" where
  "account_balance chama_id account_id d =
     sum_list (map (\<lambda>e. le_debit e - le_credit e)
       (filter (\<lambda>e. le_chama_id e = chama_id \<and> le_account_id e = account_id) (ledger_entries d)))"

text \<open>\<open>balances_in_chama\<close>: one pair per account that has entries in the Chama.\<close>

definition balances_in_chama :: "uuid \<Rightarrow> db \<Rightarrow> (uuid \<times> money) list" where
  "balances_in_chama chama_id d =
     map (\<lambda>a. (a, account_balance chama_id a d))
       (remdups (map le_account_id (filter (\<lambda>e. le_chama_id e = chama_id) (ledger_entries d))))"

definition get_by_source :: "string \<Rightarrow> uuid \<Rightarrow> ledger_transaction option act" where
  "get_by_source source_type source_id =
     select_first ledger_transactions
       (\<lambda>t. lt_source_type t = source_type \<and> lt_source_id t = source_id)"

definition get_tx_in_chama :: "uuid \<Rightarrow> uuid \<Rightarrow> ledger_transaction option act" where
  "get_tx_in_chama chama_id transaction_id =
     select_first ledger_transactions (\<lambda>t. lt_id t = transaction_id \<and> lt_chama_id t = chama_id)"

definition get_reversal_for :: "uuid \<Rightarrow> ledger_transaction option act" where
  "get_reversal_for transaction_id =
     select_first ledger_transactions (\<lambda>t. lt_reverses_transaction_id t = Some transaction_id)"

text \<open>The relationship \<open>transaction.entries\<close>.\<close>

definition entries_of :: "uuid \<Rightarrow> db \<Rightarrow> ledger_entry list" where
  "entries_of transaction_id d = filter (\<lambda>e. le_transaction_id e = transaction_id) (ledger_entries d)"

definition tx_entries :: "ledger_transaction \<Rightarrow> ledger_entry list act" where
  "tx_entries t = select_all ledger_entries (\<lambda>e. le_transaction_id e = lt_id t)"

text \<open>
  The constraints of \<open>ledger_transactions\<close> and \<open>ledger_entries\<close>. The foreign key
  \<open>posted_by_user_id\<close> holds of itself: the actor of a request is a row of \<open>users\<close>, which are never
  deleted. The keys of Chama and reversal may fail in the model; the source names only the latter.
\<close>

definition ledger_tx_check :: "db \<Rightarrow> ledger_transaction \<Rightarrow> string option" where
  "ledger_tx_check d t =
     (if \<not> list_ex (\<lambda>c. ch_id c = lt_chama_id t) (chamas d) then Some ''fk_ledger_transactions_chama''
      else if list_ex (\<lambda>u. lt_source_type u = lt_source_type t \<and> lt_source_id u = lt_source_id t)
                (ledger_transactions d)
      then Some ''uq_ledger_transactions_source''
      else (case lt_reverses_transaction_id t of
              None \<Rightarrow> None
            | Some r \<Rightarrow>
                if \<not> list_ex (\<lambda>u. lt_chama_id u = lt_chama_id t \<and> lt_id u = r) (ledger_transactions d)
                then Some ''fk_ledger_transactions_reversal_chama''
                else if list_ex (\<lambda>u. lt_reverses_transaction_id u = Some r) (ledger_transactions d)
                then Some ''uq_ledger_transactions_reversal''
                else None))"

definition ledger_entry_check :: "db \<Rightarrow> ledger_entry \<Rightarrow> string option" where
  "ledger_entry_check d e =
     (if \<not> (0 \<le> le_debit e \<and> 0 \<le> le_credit e) then Some ''ck_ledger_entries_non_negative''
      else if \<not> (0 < le_debit e \<and> le_credit e = 0 \<or> le_debit e = 0 \<and> 0 < le_credit e)
      then Some ''ck_ledger_entries_single_side''
      else if \<not> list_ex (\<lambda>t. lt_chama_id t = le_chama_id e \<and> lt_id t = le_transaction_id e)
                (ledger_transactions d)
      then Some ''fk_ledger_entries_transaction_chama''
      else if \<not> list_ex (\<lambda>a. la_chama_id a = le_chama_id e \<and> la_id a = le_account_id e)
                (ledger_accounts d)
      then Some ''fk_ledger_entries_account_chama''
      else None)"

definition create_entry :: "uuid \<Rightarrow> uuid \<Rightarrow> ledger_line \<Rightarrow> unit act" where
  "create_entry chama_id transaction_id l =
     bind uuid4 (\<lambda>i.
     bind (asks utc_now) (\<lambda>now.
     insert_row ledger_entry_check (\<lambda>r d. d\<lparr>ledger_entries := ledger_entries d @ [r]\<rparr>)
       \<lparr>le_id = i, le_chama_id = chama_id, le_transaction_id = transaction_id,
        le_account_id = ll_account_id l, le_debit = ll_debit l, le_credit = ll_credit l,
        le_created_at = now\<rparr>))"

definition create_transaction ::
  "uuid \<Rightarrow> string \<Rightarrow> uuid \<Rightarrow> string option \<Rightarrow> uuid \<Rightarrow> uuid option \<Rightarrow> ledger_line list \<Rightarrow>
   ledger_transaction act" where
  "create_transaction chama_id source_type source_id description posted_by reverses ls =
     bind uuid4 (\<lambda>i.
     bind (asks utc_now) (\<lambda>now.
     let t = \<lparr>lt_id = i, lt_chama_id = chama_id, lt_source_type = source_type,
              lt_source_id = source_id, lt_description = description,
              lt_posted_by_user_id = posted_by, lt_reverses_transaction_id = reverses,
              lt_created_at = now\<rparr>
     in bind (insert_row ledger_tx_check
               (\<lambda>r d. d\<lparr>ledger_transactions := ledger_transactions d @ [r]\<rparr>) t) (\<lambda>_.
        bind (for_each ls (create_entry chama_id i)) (\<lambda>_.
        bind flush (\<lambda>_. ret t)))))"

section \<open>Posting\<close>

definition line_key :: "ledger_line \<Rightarrow> uuid \<times> money \<times> money" where
  "line_key l = (ll_account_id l, ll_debit l, ll_credit l)"

definition entry_key :: "ledger_entry \<Rightarrow> uuid \<times> money \<times> money" where
  "entry_key e = (le_account_id e, le_debit e, le_credit e)"

definition resolve_idempotent_retry ::
  "ledger_transaction \<Rightarrow> uuid \<Rightarrow> string option \<Rightarrow> uuid option \<Rightarrow> ledger_line list \<Rightarrow>
   ledger_transaction act" where
  "resolve_idempotent_retry existing chama_id description reverses ls =
     bind (ensure (lt_chama_id existing = chama_id)
       (ConflictError ''This source reference was already posted to another Chama'')) (\<lambda>_.
     bind (ensure (lt_description existing = description)
       (ConflictError ''This source reference was already posted with a different description''))
       (\<lambda>_.
     bind (ensure (lt_reverses_transaction_id existing = reverses)
       (ConflictError
          ''This source reference was already posted with a different reversal reference'')) (\<lambda>_.
     bind (tx_entries existing) (\<lambda>es.
     bind (ensure (sort (map entry_key es) = sort (map line_key ls))
       (ConflictError ''This source reference was already posted with different ledger entries''))
       (\<lambda>_.
     ret existing)))))"

definition validate_reversal_reference :: "uuid \<Rightarrow> uuid \<Rightarrow> unit act" where
  "validate_reversal_reference chama_id reverses =
     bind (get_tx_in_chama chama_id reverses) (\<lambda>found.
     case found of
       None \<Rightarrow> raise (StateError ''Ledger transaction to reverse does not exist in this Chama'')
     | Some target \<Rightarrow>
         bind (ensure (lt_reverses_transaction_id target = None)
           (StateError ''A reversal transaction cannot be reversed'')) (\<lambda>_.
         bind (get_reversal_for (lt_id target)) (\<lambda>reversal.
         ensure (reversal = None)
           (ConflictError ''This ledger transaction has already been reversed''))))"

fun validate_each_line :: "uuid \<Rightarrow> ledger_line list \<Rightarrow> bool \<Rightarrow> bool \<Rightarrow> (bool \<times> bool) act" where
  "validate_each_line chama_id [] has_debit has_credit = ret (has_debit, has_credit)"
| "validate_each_line chama_id (l # ls) has_debit has_credit =
     bind (ensure (\<not> (ll_debit l < 0 \<or> ll_credit l < 0))
       (StateError ''Ledger amounts cannot be negative'')) (\<lambda>_.
     bind (ensure ((0 < ll_debit l) \<noteq> (0 < ll_credit l))
       (StateError ''Each entry must carry exactly one of debit or credit'')) (\<lambda>_.
     bind (get_account_in_chama chama_id (ll_account_id l)) (\<lambda>account.
     bind (ensure (account \<noteq> None)
       (StateError ''Ledger entry references an account that does not exist in this Chama'')) (\<lambda>_.
     if 0 < ll_debit l then validate_each_line chama_id ls True has_credit
     else validate_each_line chama_id ls has_debit True))))"

definition validate_lines :: "uuid \<Rightarrow> ledger_line list \<Rightarrow> unit act" where
  "validate_lines chama_id ls =
     bind (ensure (ls \<noteq> []) (StateError ''A ledger transaction must have at least one entry'')) (\<lambda>_.
     bind (validate_each_line chama_id ls False False) (\<lambda>(has_debit, has_credit).
     bind (ensure (has_debit \<and> has_credit)
       (StateError ''A ledger transaction must contain at least one debit and one credit'')) (\<lambda>_.
     ensure (sum_list (map (\<lambda>l. ll_debit l - ll_credit l) ls) = 0)
       (StateError ''A ledger transaction must balance (total debits equal total credits)''))))"

text \<open>
  \<open>post_transaction\<close>, in three steps: the insertion with the handler of the unique-source
  race, the checks on the normalized lines, and the whole.
\<close>

definition create_or_resolve ::
  "user \<Rightarrow> uuid \<Rightarrow> string \<Rightarrow> uuid \<Rightarrow> string option \<Rightarrow> uuid option \<Rightarrow> ledger_line list \<Rightarrow>
   ledger_transaction act" where
  "create_or_resolve actor chama_id source_type source_id description reverses ls =
     catch_integrity
       (bind (create_transaction chama_id source_type source_id description (us_id actor)
                reverses ls) (\<lambda>t.
        bind commit (\<lambda>_. ret t)))
       (bind rollback (\<lambda>_.
        bind (get_by_source source_type source_id) (\<lambda>raced.
        case raced of
          Some t \<Rightarrow> resolve_idempotent_retry t chama_id description reverses ls
        | None \<Rightarrow> raise (IntegrityError ''re-raised''))))"

definition post_lines ::
  "user \<Rightarrow> uuid \<Rightarrow> string \<Rightarrow> uuid \<Rightarrow> string option \<Rightarrow> uuid option \<Rightarrow> ledger_line list \<Rightarrow>
   ledger_transaction act" where
  "post_lines actor chama_id source_type source_id description reverses ls =
     bind (validate_lines chama_id ls) (\<lambda>_.
     bind (ensure (\<not> (source_type = REVERSAL_SOURCE_TYPE \<and> reverses = None))
       (StateError ''A ledger reversal must reference the transaction it reverses'')) (\<lambda>_.
     bind (ensure (\<not> (reverses \<noteq> None \<and> source_type \<noteq> REVERSAL_SOURCE_TYPE))
       (StateError ''A reversal reference requires the approved reversal source type'')) (\<lambda>_.
     bind (get_by_source source_type source_id) (\<lambda>existing.
     case existing of
       Some t \<Rightarrow> resolve_idempotent_retry t chama_id description reverses ls
     | None \<Rightarrow>
     bind (case reverses of None \<Rightarrow> ret ()
           | Some r \<Rightarrow> validate_reversal_reference chama_id r) (\<lambda>_.
     create_or_resolve actor chama_id source_type source_id description reverses ls)))))"

definition post_transaction ::
  "user \<Rightarrow> uuid \<Rightarrow> string \<Rightarrow> uuid \<Rightarrow> string option \<Rightarrow> raw_line list \<Rightarrow> uuid option \<Rightarrow> bool \<Rightarrow>
   ledger_transaction act" where
  "post_transaction actor chama_id source_type source_id description raw reverses require_membership =
     bind (get_chama_or_404 chama_id) (\<lambda>chama.
     bind (if require_membership
           then bind (authorize_chama_write actor (ch_id chama)) (\<lambda>_. ret ()) else ret ()) (\<lambda>_.
     case normalize_lines raw of
       Inl e \<Rightarrow> raise e
     | Inr ls \<Rightarrow>
         post_lines actor (ch_id chama) source_type source_id description reverses ls))"

definition reverse_transaction ::
  "user \<Rightarrow> uuid \<Rightarrow> uuid \<Rightarrow> string option \<Rightarrow> ledger_transaction act" where
  "reverse_transaction actor chama_id transaction_id description =
     bind (get_chama_or_404 chama_id) (\<lambda>chama.
     bind (authorize_chama_write actor (ch_id chama)) (\<lambda>_.
     bind (get_tx_in_chama (ch_id chama) transaction_id) (\<lambda>found.
     case found of
       None \<Rightarrow> raise (StateError ''Ledger transaction not found in this Chama'')
     | Some t \<Rightarrow>
         bind (ensure (lt_reverses_transaction_id t = None)
           (StateError ''A reversal transaction cannot be reversed'')) (\<lambda>_.
         bind (tx_entries t) (\<lambda>es.
         post_transaction actor (ch_id chama) REVERSAL_SOURCE_TYPE (lt_id t) description
           (map (\<lambda>e. \<lparr>raw_account_id = le_account_id e,
                      raw_debit = PyDecimal (Finite (dec_of_money (le_credit e))),
                      raw_credit = PyDecimal (Finite (dec_of_money (le_debit e)))\<rparr>) es)
           (Some (lt_id t)) True)))))"

definition ledger_account_check :: "db \<Rightarrow> ledger_account \<Rightarrow> string option" where
  "ledger_account_check d a =
     (if list_ex (\<lambda>b. la_chama_id b = la_chama_id a \<and> la_code b = la_code a) (ledger_accounts d)
      then Some ''uq_ledger_accounts_chama_code'' else None)"

text \<open>
  \<open>seed_default_chart_of_accounts\<close>: the accounts are added in one flush at the end; each
  lookup sees what was flushed before the call.
\<close>

definition seed_default_chart_of_accounts :: "uuid \<Rightarrow> unit act" where
  "seed_default_chart_of_accounts chama_id =
     bind (for_each CHART_ACCOUNTS (\<lambda>(code, name, account_type, description).
       bind (select_first ledger_accounts (\<lambda>a. la_chama_id a = chama_id \<and> la_code a = code))
         (\<lambda>existing.
       if existing \<noteq> None then ret ()
       else bind uuid4 (\<lambda>i.
            change (\<lambda>d. d\<lparr>ledger_accounts := ledger_accounts d @
              [\<lparr>la_id = i, la_chama_id = chama_id, la_code = code, la_name = name,
                la_account_type = account_type, la_description = Some description\<rparr>]\<rparr>)))))
       (\<lambda>_. flush)"

section \<open>Reading the ledger\<close>

text \<open>
  Keyset pagination, newest first. SQLite compares timestamps cut to the second,
  PostgreSQL as they are; instants are microseconds.
\<close>

definition ts_col :: "bool \<Rightarrow> int \<Rightarrow> int" where
  "ts_col sqlite t = (if sqlite then t div 1000000 else t)"

definition before_cursor :: "bool \<Rightarrow> int option \<Rightarrow> uuid \<Rightarrow> int \<Rightarrow> uuid \<Rightarrow> bool" where
  "before_cursor sqlite cursor_at cursor_id created i =
     (case cursor_at of
        None \<Rightarrow> True
      | Some c \<Rightarrow> ts_col sqlite created < ts_col sqlite c \<or>
                  ts_col sqlite created = ts_col sqlite c \<and> i < cursor_id)"

definition newest_first :: "('r \<Rightarrow> int \<times> uuid) \<Rightarrow> 'r list \<Rightarrow> 'r list" where
  "newest_first k xs = rev (sort_key k xs)"

definition keyset_page ::
  "bool \<Rightarrow> ('r \<Rightarrow> int \<times> uuid) \<Rightarrow> nat \<Rightarrow> int option \<Rightarrow> uuid \<Rightarrow> 'r list \<Rightarrow> 'r list" where
  "keyset_page sqlite k limit cursor_at cursor_id xs =
     take limit (newest_first k
       (filter (\<lambda>x. before_cursor sqlite cursor_at cursor_id (fst (k x)) (snd (k x))) xs))"

definition tx_sort_key :: "ledger_transaction \<Rightarrow> int \<times> uuid" where
  "tx_sort_key t = (lt_created_at t, lt_id t)"

definition entry_sort_key :: "ledger_entry \<Rightarrow> int \<times> uuid" where
  "entry_sort_key e = (le_created_at e, le_id e)"

definition authorize_ledger_read :: "user \<Rightarrow> uuid \<Rightarrow> chama act" where
  "authorize_ledger_read actor chama_id =
     bind (get_chama_or_404 chama_id) (\<lambda>chama.
     bind (authorize_chama_access actor (ch_id chama)) (\<lambda>m.
     bind (require_roles m LEADERSHIP_ROLES) (\<lambda>_. ret chama)))"

definition list_by_chama :: "user \<Rightarrow> uuid \<Rightarrow> ledger_transaction list act" where
  "list_by_chama actor chama_id =
     bind (authorize_ledger_read actor chama_id) (\<lambda>chama.
     bind (select_all ledger_transactions (\<lambda>t. lt_chama_id t = ch_id chama)) (\<lambda>ts.
     ret (sort_key tx_sort_key ts)))"

definition list_page ::
  "user \<Rightarrow> uuid \<Rightarrow> nat \<Rightarrow> int option \<Rightarrow> uuid \<Rightarrow> ledger_transaction list act" where
  "list_page actor chama_id limit before_created_at before_id =
     bind (authorize_ledger_read actor chama_id) (\<lambda>chama.
     bind (select_all ledger_transactions (\<lambda>t. lt_chama_id t = ch_id chama)) (\<lambda>ts.
     bind (asks is_sqlite) (\<lambda>sqlite.
     ret (keyset_page sqlite tx_sort_key limit before_created_at before_id ts))))"

definition list_accounts :: "user \<Rightarrow> uuid \<Rightarrow> (ledger_account \<times> money) list act" where
  "list_accounts actor chama_id =
     bind (authorize_ledger_read actor chama_id) (\<lambda>chama.
     bind (list_accounts_in_chama (ch_id chama)) (\<lambda>accounts.
     bind (scalar (balances_in_chama (ch_id chama))) (\<lambda>balances.
     ret (map (\<lambda>a. (a, case map_of balances (la_id a) of None \<Rightarrow> 0 | Some b \<Rightarrow> b)) accounts))))"

definition list_account_entries_page ::
  "user \<Rightarrow> uuid \<Rightarrow> uuid \<Rightarrow> nat \<Rightarrow> int option \<Rightarrow> uuid \<Rightarrow> ledger_entry list act" where
  "list_account_entries_page actor chama_id account_id limit before_created_at before_id =
     bind (authorize_ledger_read actor chama_id) (\<lambda>chama.
     bind (get_account_in_chama (ch_id chama) account_id) (\<lambda>account.
     bind (ensure (account \<noteq> None) (StateError ''Ledger account not found in this Chama'')) (\<lambda>_.
     bind (select_all ledger_entries
             (\<lambda>e. le_chama_id e = ch_id chama \<and> le_account_id e = account_id)) (\<lambda>es.
     bind (asks is_sqlite) (\<lambda>sqlite.
     ret (keyset_page sqlite entry_sort_key limit before_created_at before_id es))))))"

section \<open>The database guards\<close>

text \<open>
  \<open>chama_core_validate_ledger_transaction\<close> (PostgreSQL, deferred to commit): at least two
  entries, debits equal to credits.
\<close>

definition balance_guard :: "db \<Rightarrow> uuid \<Rightarrow> bool" where
  "balance_guard d transaction_id \<longleftrightarrow>
     (let es = entries_of transaction_id d
      in 2 \<le> length es \<and> sum_list (map le_debit es) = sum_list (map le_credit es))"

text \<open>
  The immutability triggers block every UPDATE and DELETE of the two tables: what a
  statement sequence may leave is the old rows with new ones appended.
\<close>

definition immutable_guard :: "db \<Rightarrow> db \<Rightarrow> bool" where
  "immutable_guard d d' \<longleftrightarrow>
     prefix (ledger_transactions d) (ledger_transactions d') \<and>
     prefix (ledger_entries d) (ledger_entries d')"

end
