(* ===== verification/Ledger_Facts.thy ===== *)
theory Ledger_Facts
  imports Ledger "HOL-Library.Multiset"
begin

text \<open>
  What the ledger guarantees. First the specification rule of \<open>post_transaction\<close> (new
  posting, idempotent retry, error), from which every client's proof starts; then the ledger
  invariant with its preservation, and what a reversal does to the balances.
\<close>

section \<open>Reading flushed tables\<close>

text \<open>
  The tables the ledger service reads have no pending change: no service writes to them
  except through the ledger service itself, which flushes.
\<close>

definition ledger_flushed :: "sess \<Rightarrow> bool" where
  "ledger_flushed s \<longleftrightarrow>
     ledger_accounts (rows s) = ledger_accounts (objs s) \<and>
     ledger_transactions (rows s) = ledger_transactions (objs s) \<and>
     ledger_entries (rows s) = ledger_entries (objs s) \<and>
     memberships (rows s) = memberships (objs s)"

lemma ledger_flushed_sync [simp]: "ledger_flushed s \<Longrightarrow> ledger_flushed (sync s)"
  by (simp add: ledger_flushed_def sync_def)

lemma ledger_flushed_rows [simp]:
  assumes "ledger_flushed s"
  shows "ledger_accounts (rows (sync s)) = ledger_accounts (objs s)"
    and "ledger_transactions (rows (sync s)) = ledger_transactions (objs s)"
    and "ledger_entries (rows (sync s)) = ledger_entries (objs s)"
    and "memberships (rows (sync s)) = memberships (objs s)"
  using assms by (simp_all add: ledger_flushed_def sync_def)

lemma ledger_flushed_entities [simp]:
  assumes "ledger_flushed s"
  shows "entities ledger_accounts P (rows (sync s)) (objs s) = filter P (ledger_accounts (objs s))"
    and "entities ledger_transactions P2 (rows (sync s)) (objs s) = filter P2 (ledger_transactions (objs s))"
    and "entities ledger_entries P3 (rows (sync s)) (objs s) = filter P3 (ledger_entries (objs s))"
  using assms by (simp_all add: entities_flushed)

section \<open>Which lines are accepted\<close>

definition account_in :: "db \<Rightarrow> uuid \<Rightarrow> uuid \<Rightarrow> bool" where
  "account_in d chama_id account_id \<longleftrightarrow>
     (\<exists>a \<in> set (ledger_accounts d). la_id a = account_id \<and> la_chama_id a = chama_id)"

definition single_sided :: "money \<Rightarrow> money \<Rightarrow> bool" where
  "single_sided debit credit \<longleftrightarrow> 0 \<le> debit \<and> 0 \<le> credit \<and> (0 < debit) \<noteq> (0 < credit)"

definition lines_ok :: "db \<Rightarrow> uuid \<Rightarrow> ledger_line list \<Rightarrow> bool" where
  "lines_ok d chama_id ls \<longleftrightarrow>
     (\<forall>l \<in> set ls. single_sided (ll_debit l) (ll_credit l) \<and> account_in d chama_id (ll_account_id l)) \<and>
     (\<exists>l \<in> set ls. 0 < ll_debit l) \<and> (\<exists>l \<in> set ls. 0 < ll_credit l) \<and>
     sum_list (map ll_debit ls) = sum_list (map ll_credit ls)"

lemma lines_ok_nonempty: "lines_ok d c ls \<Longrightarrow> ls \<noteq> []"
  by (auto simp: lines_ok_def)

lemma lines_ok_two: "lines_ok d c ls \<Longrightarrow> 2 \<le> length ls"
proof -
  assume ok: "lines_ok d c ls"
  then obtain l m where "l \<in> set ls" "m \<in> set ls" "0 < ll_debit l" "0 < ll_credit m"
    by (auto simp: lines_ok_def)
  moreover from this ok have "l \<noteq> m" by (auto simp: lines_ok_def single_sided_def)
  ultimately have "card {l, m} \<le> card (set ls)" by (intro card_mono) auto
  with \<open>l \<noteq> m\<close> have "2 \<le> card (set ls)" by simp
  then show ?thesis using card_length [of ls] by simp
qed

lemma wp_validate_each_line:
  assumes "ledger_flushed s"
    and "(\<forall>l \<in> set ls. single_sided (ll_debit l) (ll_credit l) \<and>
            account_in (objs s) cid (ll_account_id l)) \<Longrightarrow>
         Q (hd0 \<or> (\<exists>l \<in> set ls. 0 < ll_debit l), hc0 \<or> (\<exists>l \<in> set ls. 0 < ll_credit l))
           (if ls = [] then s else sync s)"
    and "\<And>e t. \<not> (\<forall>l \<in> set ls. single_sided (ll_debit l) (ll_credit l) \<and>
            account_in (objs s) cid (ll_account_id l)) \<Longrightarrow> t = s \<or> t = sync s \<Longrightarrow> R (StateError e) t"
  shows "wp (validate_each_line cid ls hd0 hc0) Q R s"
  using assms
proof (induction ls arbitrary: s hd0 hc0)
  case Nil
  then show ?case by (simp add: wp)
next
  case (Cons l ls)
  show ?case
  proof (cases "single_sided (ll_debit l) (ll_credit l) \<and> account_in (objs s) cid (ll_account_id l)")
    case True
    have acc: "first (filter (\<lambda>a. la_id a = ll_account_id l \<and> la_chama_id a = cid)
        (ledger_accounts (objs s))) \<noteq> None"
      using True by (auto simp: account_in_def filter_empty_conv)
    have rest: "wp (validate_each_line cid ls (hd0 \<or> 0 < ll_debit l) (hc0 \<or> 0 < ll_credit l)) Q R (sync s)"
      apply (rule Cons.IH)
        apply (simp add: Cons.prems(1))
       apply (insert True Cons.prems(2), simp add: disj_assoc split: if_splits)
      apply (insert Cons.prems(3), auto)
      done
    have "(0 < ll_credit l) = (\<not> 0 < ll_debit l)" "0 \<le> ll_debit l" "0 \<le> ll_credit l"
      using True by (auto simp: single_sided_def)
    with rest acc Cons.prems(1) show ?thesis
      by (cases "0 < ll_debit l")
         (auto simp: wp get_account_in_chama_def simp del: first_None_iff)
  next
    case False
    then have no: "t = s \<or> t = sync s \<Longrightarrow> R (StateError e) t" for e t
      by (intro Cons.prems(3)) auto
    show ?thesis using False Cons.prems(1)
      by (auto simp: wp get_account_in_chama_def single_sided_def account_in_def filter_empty_conv
          intro!: no)
  qed
qed

lemma wp_validate_lines:
  assumes "ledger_flushed s"
    and "lines_ok (objs s) cid ls \<Longrightarrow> Q () (sync s)"
    and "\<And>e t. \<not> lines_ok (objs s) cid ls \<Longrightarrow> t = s \<or> t = sync s \<Longrightarrow> R (StateError e) t"
  shows "wp (validate_lines cid ls) Q R s"
proof (cases "ls = []")
  case True
  then show ?thesis using assms(3) by (simp add: validate_lines_def wp lines_ok_def)
next
  case False
  have ok: "lines_ok (objs s) cid ls \<longleftrightarrow>
     (\<forall>l \<in> set ls. single_sided (ll_debit l) (ll_credit l) \<and> account_in (objs s) cid (ll_account_id l)) \<and>
     (\<exists>l \<in> set ls. 0 < ll_debit l) \<and> (\<exists>l \<in> set ls. 0 < ll_credit l) \<and>
     sum_list (map (\<lambda>l. ll_debit l - ll_credit l) ls) = 0"
    by (simp add: lines_ok_def sum_list_diff)
  show ?thesis
    unfolding validate_lines_def wp_bind wp_ensure
    apply (simp add: False)
    apply (rule wp_validate_each_line [OF assms(1)])
     apply (insert assms(2,3) False, auto simp: wp ok)
    done
qed

section \<open>What posting writes\<close>

primrec entries_from :: "uuid \<Rightarrow> uuid \<Rightarrow> int \<Rightarrow> uuid \<Rightarrow> ledger_line list \<Rightarrow> ledger_entry list" where
  "entries_from chama_id tid now n [] = []"
| "entries_from chama_id tid now n (l # ls) =
     \<lparr>le_id = n, le_chama_id = chama_id, le_transaction_id = tid, le_account_id = ll_account_id l,
      le_debit = ll_debit l, le_credit = ll_credit l, le_created_at = now\<rparr>
     # entries_from chama_id tid now (Suc n) ls"

lemma entries_from_keys [simp]:
  "map entry_key (entries_from c tid now n ls) = map line_key ls"
  by (induction ls arbitrary: n) (simp_all add: entry_key_def line_key_def)

lemma entries_from_set:
  "e \<in> set (entries_from c tid now n ls) \<Longrightarrow>
     le_chama_id e = c \<and> le_transaction_id e = tid \<and>
     (\<exists>l \<in> set ls. le_account_id e = ll_account_id l \<and> le_debit e = ll_debit l \<and> le_credit e = ll_credit l)"
  by (induction ls arbitrary: n) auto

lemma entries_from_ids: "map le_id (entries_from c tid now n ls) = [n..<n + length ls]"
  by (induction ls arbitrary: n) (simp_all add: upt_conv_Cons del: upt_Suc)

lemma entries_from_length [simp]: "length (entries_from c tid now n ls) = length ls"
  by (induction ls arbitrary: n) simp_all

lemma entries_from_sums [simp]:
  "map le_debit (entries_from c tid now n ls) = map ll_debit ls"
  "map le_credit (entries_from c tid now n ls) = map ll_credit ls"
  by (induction ls arbitrary: n) simp_all

definition new_tx ::
  "sess \<Rightarrow> user \<Rightarrow> uuid \<Rightarrow> string \<Rightarrow> uuid \<Rightarrow> string option \<Rightarrow> uuid option \<Rightarrow> ledger_transaction" where
  "new_tx s actor chama_id source_type source_id description reverses =
     \<lparr>lt_id = next_uuid s, lt_chama_id = chama_id, lt_source_type = source_type,
      lt_source_id = source_id, lt_description = description,
      lt_posted_by_user_id = us_id actor, lt_reverses_transaction_id = reverses,
      lt_created_at = utc_now s\<rparr>"

lemma new_tx_simps [simp]:
  "lt_id (new_tx s a c st si ds rv) = next_uuid s"
  "lt_chama_id (new_tx s a c st si ds rv) = c"
  "lt_source_type (new_tx s a c st si ds rv) = st"
  "lt_source_id (new_tx s a c st si ds rv) = si"
  "lt_description (new_tx s a c st si ds rv) = ds"
  "lt_posted_by_user_id (new_tx s a c st si ds rv) = us_id a"
  "lt_reverses_transaction_id (new_tx s a c st si ds rv) = rv"
  "lt_created_at (new_tx s a c st si ds rv) = utc_now s"
  by (simp_all add: new_tx_def)

lemma new_tx_updates [simp]:
  "new_tx (objs_update f s) = new_tx s" "new_tx (rows_update g s) = new_tx s"
  "new_tx (sync s) = new_tx s"
  by (intro ext, simp add: new_tx_def)+

definition add_posting :: "ledger_transaction \<Rightarrow> ledger_entry list \<Rightarrow> db \<Rightarrow> db" where
  "add_posting t es d =
     d\<lparr>ledger_transactions := ledger_transactions d @ [t], ledger_entries := ledger_entries d @ es\<rparr>"

text \<open>The session after a new posting: appended, flushed and committed.\<close>

definition posted :: "ledger_transaction \<Rightarrow> ledger_entry list \<Rightarrow> uuid \<Rightarrow> sess \<Rightarrow> sess" where
  "posted t es u s =
     s\<lparr>objs := add_posting t es (objs s), rows := add_posting t es (objs s),
       durable := add_posting t es (objs s) # durable s, next_uuid := u\<rparr>"

lemma wp_create_entries:
  assumes "rows s = objs s"
    and "\<exists>t \<in> set (ledger_transactions (objs s)). lt_chama_id t = cid \<and> lt_id t = tid"
    and "\<forall>l \<in> set ls. single_sided (ll_debit l) (ll_credit l) \<and> account_in (objs s) cid (ll_account_id l)"
    and "let d = (objs s)\<lparr>ledger_entries := ledger_entries (objs s) @
                    entries_from cid tid (utc_now s) (next_uuid s) ls\<rparr>
         in Q () (s\<lparr>objs := d, rows := d, next_uuid := next_uuid s + length ls\<rparr>)"
  shows "wp (for_each ls (create_entry cid tid)) Q R s"
  using assms
proof (induction ls arbitrary: s)
  case Nil
  then show ?case by (simp add: wp Let_def flushed_update_rows)
next
  case (Cons l ls)
  define e where "e = \<lparr>le_id = next_uuid s, le_chama_id = cid, le_transaction_id = tid,
      le_account_id = ll_account_id l, le_debit = ll_debit l, le_credit = ll_credit l,
      le_created_at = utc_now s\<rparr>"
  define d where "d = (objs s)\<lparr>ledger_entries := ledger_entries (objs s) @ [e]\<rparr>"
  define s' where "s' = s\<lparr>objs := d, rows := d, next_uuid := Suc (next_uuid s)\<rparr>"
  have ok: "ledger_entry_check (objs s) e = None"
    using Cons.prems(2,3)
    by (auto simp: ledger_entry_check_def e_def single_sided_def account_in_def list_ex_iff)
  have "wp (for_each ls (create_entry cid tid)) Q R s'"
    apply (rule Cons.IH)
       apply (simp add: s'_def)
      apply (insert Cons.prems(2), simp add: s'_def d_def)
     apply (insert Cons.prems(3), simp add: s'_def d_def account_in_def)
    apply (insert Cons.prems(4), simp add: s'_def d_def e_def Let_def)
    done
  then have "wp (create_entry cid tid l) (\<lambda>_. wp (for_each ls (create_entry cid tid)) Q R) R s"
    using ok unfolding create_entry_def [of cid tid l]
    by (simp add: wp e_def [symmetric] s'_def d_def)
  then show ?case by (simp add: wp_bind)
qed

section \<open>The specification of posting\<close>

definition source_free :: "db \<Rightarrow> string \<Rightarrow> uuid \<Rightarrow> bool" where
  "source_free d source_type source_id \<longleftrightarrow>
     (\<forall>t \<in> set (ledger_transactions d). \<not> (lt_source_type t = source_type \<and> lt_source_id t = source_id))"

text \<open>A reversal names a transaction of the Chama that is no reversal and has none.\<close>

definition reversal_ok :: "db \<Rightarrow> uuid \<Rightarrow> string \<Rightarrow> uuid option \<Rightarrow> bool" where
  "reversal_ok d chama_id source_type reverses \<longleftrightarrow>
     (case reverses of
        None \<Rightarrow> source_type \<noteq> REVERSAL_SOURCE_TYPE
      | Some r \<Rightarrow> source_type = REVERSAL_SOURCE_TYPE \<and>
          (\<exists>t \<in> set (ledger_transactions d). lt_id t = r \<and> lt_chama_id t = chama_id \<and>
             lt_reverses_transaction_id t = None) \<and>
          (\<forall>t \<in> set (ledger_transactions d). lt_reverses_transaction_id t \<noteq> Some r))"

lemma wp_create_transaction:
  assumes "ledger_flushed s" and "find_row ch_id cid (chamas (objs s)) \<noteq> None"
    and "lines_ok (objs s) cid ls" and "source_free (objs s) st si" and "reversal_ok (objs s) cid st rv"
    and "let t = new_tx s actor cid st si ds rv;
             d = add_posting t (entries_from cid (next_uuid s) (utc_now s) (Suc (next_uuid s)) ls) (objs s)
         in Q t (s\<lparr>objs := d, rows := d, next_uuid := Suc (next_uuid s + length ls)\<rparr>)"
  shows "wp (create_transaction cid st si ds (us_id actor) rv ls) Q R s"
proof -
  let ?t = "new_tx s actor cid st si ds rv"
  have chama: "list_ex (\<lambda>c. ch_id c = cid) (chamas (objs s))"
    using assms(2) by (auto simp: list_ex_iff dest: find_row_SomeD)
  have ok: "ledger_tx_check (objs s) ?t = None"
    using chama assms(4,5)
    by (auto simp: ledger_tx_check_def source_free_def reversal_ok_def list_ex_iff split: option.splits)
  show ?thesis
    apply (simp add: create_transaction_def wp Let_def new_tx_def [symmetric] ok)
    apply (rule wp_create_entries)
       apply simp
      apply simp
     apply (insert assms(3), simp add: lines_ok_def account_in_def)
    apply (insert assms(6), simp add: Let_def add_posting_def wp)
    done
qed

lemma wp_resolve_idempotent_retry:
  assumes "ledger_flushed s"
    and "lt_chama_id t = cid \<Longrightarrow> lt_description t = ds \<Longrightarrow> lt_reverses_transaction_id t = rv \<Longrightarrow>
         sort (map entry_key (entries_of (lt_id t) (objs s))) = sort (map line_key ls) \<Longrightarrow> Q t (sync s)"
    and "\<And>e u. u = s \<or> u = sync s \<Longrightarrow> R (ConflictError e) u"
  shows "wp (resolve_idempotent_retry t cid ds rv ls) Q R s"
  using assms(1) by (auto simp: resolve_idempotent_retry_def tx_entries_def wp entries_of_def
      intro!: assms(2,3))

lemma wp_validate_reversal_reference:
  assumes "ledger_flushed s"
    and "\<And>t. t \<in> set (ledger_transactions (objs s)) \<Longrightarrow> lt_id t = r \<Longrightarrow> lt_chama_id t = cid \<Longrightarrow>
         lt_reverses_transaction_id t = None \<Longrightarrow>
         (\<forall>u \<in> set (ledger_transactions (objs s)). lt_reverses_transaction_id u \<noteq> Some r) \<Longrightarrow> Q () (sync s)"
    and "\<And>e u. u = s \<or> u = sync s \<Longrightarrow> R e u"
  shows "wp (validate_reversal_reference cid r) Q R s"
  unfolding validate_reversal_reference_def wp_bind get_tx_in_chama_def wp_select_first
proof (cases "first (filter (\<lambda>t. lt_id t = r \<and> lt_chama_id t = cid) (ledger_transactions (objs s)))")
  case None
  then show "wp (case first (entities ledger_transactions (\<lambda>t. lt_id t = r \<and> lt_chama_id t = cid)
        (rows (sync s)) (objs (sync s))) of
      None \<Rightarrow> raise (StateError ''Ledger transaction to reverse does not exist in this Chama'')
    | Some target \<Rightarrow>
         bind (ensure (lt_reverses_transaction_id target = None)
           (StateError ''A reversal transaction cannot be reversed'')) (\<lambda>_.
         bind (get_reversal_for (lt_id target)) (\<lambda>reversal.
         ensure (reversal = None)
           (ConflictError ''This ledger transaction has already been reversed'')))) Q R (sync s)"
    using assms(1,3) by (simp add: wp)
next
  case (Some t)
  then have t: "t \<in> set (ledger_transactions (objs s))" "lt_id t = r" "lt_chama_id t = cid"
    by (auto dest: first_filter_SomeD)
  show "wp (case first (entities ledger_transactions (\<lambda>t. lt_id t = r \<and> lt_chama_id t = cid)
        (rows (sync s)) (objs (sync s))) of
      None \<Rightarrow> raise (StateError ''Ledger transaction to reverse does not exist in this Chama'')
    | Some target \<Rightarrow>
         bind (ensure (lt_reverses_transaction_id target = None)
           (StateError ''A reversal transaction cannot be reversed'')) (\<lambda>_.
         bind (get_reversal_for (lt_id target)) (\<lambda>reversal.
         ensure (reversal = None)
           (ConflictError ''This ledger transaction has already been reversed'')))) Q R (sync s)"
    using assms(1,3) Some t
    by (auto simp: wp get_reversal_for_def filter_empty_conv intro!: assms(2) [OF t])
qed

lemma sync_posting [simp]: "posted t es u (sync s) = posted t es u s"
  by (simp add: posted_def sync_def)

text \<open>
  The \<open>except\<close> branch needs another session that posts the same source in between; within one
  session the checks above it exclude every constraint violation.
\<close>

lemma wp_create_or_resolve:
  assumes "ledger_flushed s" and "find_row ch_id cid (chamas (objs s)) \<noteq> None"
    and "lines_ok (objs s) cid ls" and "source_free (objs s) st si" and "reversal_ok (objs s) cid st rv"
    and "Q (new_tx s actor cid st si ds rv)
        (posted (new_tx s actor cid st si ds rv)
          (entries_from cid (next_uuid s) (utc_now s) (Suc (next_uuid s)) ls)
          (Suc (next_uuid s + length ls)) s)"
  shows "wp (create_or_resolve actor cid st si ds rv ls) Q R s"
  unfolding create_or_resolve_def wp_catch_integrity wp_bind
  apply (rule wp_create_transaction [OF assms(1-5)])
  apply (insert assms(6), simp add: Let_def wp posted_def)
  done

lemma wp_post_lines:
  assumes flushed: "ledger_flushed s" and chama: "find_row ch_id cid (chamas (objs s)) \<noteq> None"
    and posts: "lines_ok (objs s) cid ls \<Longrightarrow>
      source_free (objs s) st si \<Longrightarrow> reversal_ok (objs s) cid st rv \<Longrightarrow>
      Q (new_tx s actor cid st si ds rv)
        (posted (new_tx s actor cid st si ds rv)
          (entries_from cid (next_uuid s) (utc_now s) (Suc (next_uuid s)) ls)
          (Suc (next_uuid s + length ls)) s)"
    and again: "\<And>t. lines_ok (objs s) cid ls \<Longrightarrow>
      t \<in> set (ledger_transactions (objs s)) \<Longrightarrow> lt_source_type t = st \<Longrightarrow> lt_source_id t = si \<Longrightarrow>
      lt_chama_id t = cid \<Longrightarrow> lt_description t = ds \<Longrightarrow> lt_reverses_transaction_id t = rv \<Longrightarrow>
      sort (map entry_key (entries_of (lt_id t) (objs s))) = sort (map line_key ls) \<Longrightarrow> Q t (sync s)"
    and fails: "\<And>e u. u = s \<or> u = sync s \<Longrightarrow> R e u"
  shows "wp (post_lines actor cid st si ds rv ls) Q R s"
proof -
  note fs = ledger_flushed_sync [OF flushed]
  have new: "wp (case rv of None \<Rightarrow> ret () | Some r \<Rightarrow> validate_reversal_reference cid r)
      (\<lambda>_. wp (create_or_resolve actor cid st si ds rv ls) Q R) R (sync s)"
    if ok: "lines_ok (objs s) cid ls" and free: "source_free (objs s) st si"
      and rvt: "(st = REVERSAL_SOURCE_TYPE) = (rv \<noteq> None)"
  proof -
    have go: "wp (create_or_resolve actor cid st si ds rv ls) Q R (sync s)"
      if rok: "reversal_ok (objs s) cid st rv"
      by (rule wp_create_or_resolve [OF fs]) (simp_all add: chama ok free rok posts)
    show ?thesis
    proof (cases rv)
      case None
      then show ?thesis using rvt go by (simp add: wp_ret reversal_ok_def)
    next
      case (Some r)
      then have st: "st = REVERSAL_SOURCE_TYPE" using rvt by simp
      show ?thesis unfolding Some option.case
        by (rule wp_validate_reversal_reference [OF fs], unfold sync_idem, rule go [unfolded Some])
           (auto simp: reversal_ok_def fails st Some)
    qed
  qed
  let ?P = "\<lambda>t. lt_source_type t = st \<and> lt_source_id t = si"
  show ?thesis unfolding post_lines_def wp_bind
  proof (rule wp_validate_lines [OF flushed])
    assume ok: "lines_ok (objs s) cid ls"
    show "wp (ensure (\<not> (st = REVERSAL_SOURCE_TYPE \<and> rv = None))
       (StateError ''A ledger reversal must reference the transaction it reverses''))
       (\<lambda>_. wp (ensure (\<not> (rv \<noteq> None \<and> st \<noteq> REVERSAL_SOURCE_TYPE))
       (StateError ''A reversal reference requires the approved reversal source type''))
       (\<lambda>_. wp (get_by_source st si) (\<lambda>existing. wp (
     case existing of
       Some t \<Rightarrow> resolve_idempotent_retry t cid ds rv ls
     | None \<Rightarrow>
     bind (case rv of None \<Rightarrow> ret ()
           | Some r \<Rightarrow> validate_reversal_reference cid r) (\<lambda>_.
     create_or_resolve actor cid st si ds rv ls)) Q R) R) R) R (sync s)"
    proof (cases "(st = REVERSAL_SOURCE_TYPE) = (rv \<noteq> None)")
      case False
      then show ?thesis by (auto simp: wp_ensure fails)
    next
      case True
      show ?thesis
      proof (cases "first (filter ?P (ledger_transactions (objs s)))")
        case None
        then have "source_free (objs s) st si" by (auto simp: source_free_def filter_empty_conv)
        from new [OF ok this True] True None show ?thesis
          by (auto simp: wp_ensure get_by_source_def wp_select_first fs flushed wp_bind)
      next
        case (Some t)
        then have t: "t \<in> set (ledger_transactions (objs s))" "lt_source_type t = st" "lt_source_id t = si"
          by (auto dest: first_filter_SomeD)
        have "wp (resolve_idempotent_retry t cid ds rv ls) Q R (sync s)"
          by (rule wp_resolve_idempotent_retry [OF fs]) (auto simp: fails intro!: again [OF ok t])
        with Some True show ?thesis
          by (auto simp: wp_ensure get_by_source_def wp_select_first fs flushed)
      qed
    qed
  qed (simp add: fails)
qed

text \<open>
  The rule every client uses. A call either appends one posting and commits it, or finds the
  identical posting already there, or raises and writes nothing.
\<close>

lemma wp_post_transaction:
  assumes flushed: "ledger_flushed s"
    and posts: "\<And>ls. normalize_lines raw = Inr ls \<Longrightarrow> lines_ok (objs s) cid ls \<Longrightarrow>
      (req \<Longrightarrow> \<exists>m. write_ok actor cid (objs s) m) \<Longrightarrow>
      source_free (objs s) st si \<Longrightarrow> reversal_ok (objs s) cid st rv \<Longrightarrow>
      Q (new_tx s actor cid st si ds rv)
        (posted (new_tx s actor cid st si ds rv)
          (entries_from cid (next_uuid s) (utc_now s) (Suc (next_uuid s)) ls)
          (Suc (next_uuid s + length ls)) s)"
    and again: "\<And>ls t. normalize_lines raw = Inr ls \<Longrightarrow> lines_ok (objs s) cid ls \<Longrightarrow>
      (req \<Longrightarrow> \<exists>m. write_ok actor cid (objs s) m) \<Longrightarrow>
      t \<in> set (ledger_transactions (objs s)) \<Longrightarrow> lt_source_type t = st \<Longrightarrow> lt_source_id t = si \<Longrightarrow>
      lt_chama_id t = cid \<Longrightarrow> lt_description t = ds \<Longrightarrow> lt_reverses_transaction_id t = rv \<Longrightarrow>
      sort (map entry_key (entries_of (lt_id t) (objs s))) = sort (map line_key ls) \<Longrightarrow> Q t (sync s)"
    and fails: "\<And>e u. u = s \<or> u = sync s \<Longrightarrow> R e u"
  shows "wp (post_transaction actor cid st si ds raw rv req) Q R s"
proof (cases "find_row ch_id cid (chamas (objs s))")
  case None
  then show ?thesis by (simp add: post_transaction_def wp fails)
next
  case (Some c)
  then have c: "ch_id c = cid" by (auto dest: find_row_SomeD)
  have body: "wp (case normalize_lines raw of Inl e \<Rightarrow> raise e
      | Inr ls \<Rightarrow> post_lines actor cid st si ds rv ls) Q R w"
    if w: "w = s \<or> w = sync s" and auth: "req \<Longrightarrow> \<exists>m. write_ok actor cid (objs s) m" for w
  proof (cases "normalize_lines raw")
    case (Inl e)
    then show ?thesis using w by (simp add: wp fails)
  next
    case (Inr ls)
    have fw: "ledger_flushed w" "sync w = sync s" "objs w = objs s" "utc_now w = utc_now s"
      "next_uuid w = next_uuid s" "new_tx w = new_tx s" "\<And>t es u. posted t es u w = posted t es u s"
      using w flushed by auto
    show ?thesis unfolding Inr sum.case
    proof (rule wp_post_lines [OF fw(1)], unfold fw(2-7))
      show "find_row ch_id cid (chamas (objs s)) \<noteq> None" using Some by simp
    next
      fix e u assume "u = w \<or> u = sync s"
      then show "R e u" using w fails by auto
    qed (auto intro: posts [OF Inr _ auth] again [OF Inr _ auth])
  qed
  show ?thesis
  proof (cases req)
    case False
    have "wp (case normalize_lines raw of Inl e \<Rightarrow> raise e
      | Inr ls \<Rightarrow> post_lines actor cid st si ds rv ls) Q R s"
      by (rule body) (simp_all add: False)
    then show ?thesis unfolding post_transaction_def wp_bind wp_get_chama_or_404 Some option.case c
      by (simp add: False wp_ret)
  next
    case True
    have mem: "memberships (rows s) = memberships (objs s)"
      using flushed by (simp add: ledger_flushed_def)
    have "wp (authorize_chama_write actor cid)
      (\<lambda>m. wp (case normalize_lines raw of Inl e \<Rightarrow> raise e
      | Inr ls \<Rightarrow> post_lines actor cid st si ds rv ls) Q R) R s"
      by (rule wp_authorize_chama_write [OF mem]) (auto intro!: body fails)
    then show ?thesis unfolding post_transaction_def wp_bind wp_get_chama_or_404 Some option.case c
      by (simp add: True wp_ret wp_bind)
  qed
qed

section \<open>The lines of the services\<close>

lemma to_quantized_zero [simp]: "to_quantized (PyDecimal (Finite 0)) lab = Inr 0"
  by (simp add: to_quantized_def quantize_checked_def quantize_def DECIMAL_PRECISION_def)

lemma to_quantized_money:
  "to_quantized (PyDecimal (Finite (dec_of_money m))) lab =
     (if \<bar>m\<bar> < 10 ^ DECIMAL_PRECISION then Inr m else Inl InvalidOperation)"
  by (simp add: to_quantized_def quantize_checked_def)

definition dl :: "uuid \<Rightarrow> money \<Rightarrow> ledger_line" where
  "dl a m = \<lparr>ll_account_id = a, ll_debit = m, ll_credit = 0\<rparr>"

definition cl :: "uuid \<Rightarrow> money \<Rightarrow> ledger_line" where
  "cl a m = \<lparr>ll_account_id = a, ll_debit = 0, ll_credit = m\<rparr>"

lemma dl_simps [simp]:
  "ll_account_id (dl a m) = a" "ll_debit (dl a m) = m" "ll_credit (dl a m) = 0"
  "ll_account_id (cl a m) = a" "ll_debit (cl a m) = 0" "ll_credit (cl a m) = m"
  by (simp_all add: dl_def cl_def)

lemma normalize_debit_line [simp]:
  "normalize_lines (debit_line a m # raw) = Inr ls \<longleftrightarrow>
     (\<exists>ls'. normalize_lines raw = Inr ls' \<and> ls = dl a m # ls' \<and> \<bar>m\<bar> < 10 ^ DECIMAL_PRECISION)"
  by (auto simp: debit_line_def dl_def to_quantized_money split: sum.splits if_splits)

lemma normalize_credit_line [simp]:
  "normalize_lines (credit_line a m # raw) = Inr ls \<longleftrightarrow>
     (\<exists>ls'. normalize_lines raw = Inr ls' \<and> ls = cl a m # ls' \<and> \<bar>m\<bar> < 10 ^ DECIMAL_PRECISION)"
  by (auto simp: credit_line_def cl_def to_quantized_money split: sum.splits if_splits)

declare normalize_lines.simps(2) [simp del]

section \<open>Balances\<close>

definition balance_delta :: "uuid \<Rightarrow> ledger_line list \<Rightarrow> money" where
  "balance_delta account_id ls =
     sum_list (map (\<lambda>l. if ll_account_id l = account_id then ll_debit l - ll_credit l else 0) ls)"

lemma balance_delta_simps [simp]:
  "balance_delta a [] = 0"
  "balance_delta a (dl b m # ls) = (if b = a then m else 0) + balance_delta a ls"
  "balance_delta a (cl b m # ls) = (if b = a then - m else 0) + balance_delta a ls"
  by (simp_all add: balance_delta_def)

lemma account_balance_append:
  "account_balance c a (d\<lparr>ledger_entries := es @ fs\<rparr>) =
     account_balance c a (d\<lparr>ledger_entries := es\<rparr>) + account_balance c a (d\<lparr>ledger_entries := fs\<rparr>)"
  by (simp add: account_balance_def)

lemma balance_of_entries_from:
  "sum_list (map (\<lambda>e. le_debit e - le_credit e)
     (filter (\<lambda>e. le_chama_id e = c \<and> le_account_id e = a) (entries_from c' tid now n ls))) =
   (if c' = c then balance_delta a ls else 0)"
  by (induction ls arbitrary: n) (auto simp: balance_delta_def)

lemma account_balance_posting [simp]:
  "account_balance c a (add_posting t (entries_from c' tid now n ls) d) =
     account_balance c a d + (if c' = c then balance_delta a ls else 0)"
  by (simp add: account_balance_def add_posting_def balance_of_entries_from)

section \<open>The ledger invariant\<close>

definition tx_wf :: "db \<Rightarrow> ledger_transaction \<Rightarrow> bool" where
  "tx_wf d t \<longleftrightarrow>
     balance_guard d (lt_id t) \<and>
     (\<forall>e \<in> set (entries_of (lt_id t) d). single_sided (le_debit e) (le_credit e) \<and>
        le_chama_id e = lt_chama_id t \<and> account_in d (lt_chama_id t) (le_account_id e))"

definition reversals_wf :: "ledger_transaction list \<Rightarrow> bool" where
  "reversals_wf ts \<longleftrightarrow>
     (\<forall>t \<in> set ts. (lt_source_type t = REVERSAL_SOURCE_TYPE) = (lt_reverses_transaction_id t \<noteq> None)) \<and>
     (\<forall>t \<in> set ts. \<forall>r. lt_reverses_transaction_id t = Some r \<longrightarrow>
        (\<exists>u \<in> set ts. lt_id u = r \<and> lt_chama_id u = lt_chama_id t \<and> lt_reverses_transaction_id u = None)) \<and>
     distinct (List.map_filter lt_reverses_transaction_id ts)"

definition ledger_inv :: "db \<Rightarrow> bool" where
  "ledger_inv d \<longleftrightarrow>
     distinct (map lt_id (ledger_transactions d)) \<and>
     distinct (map (\<lambda>t. (lt_source_type t, lt_source_id t)) (ledger_transactions d)) \<and>
     (\<forall>t \<in> set (ledger_transactions d). tx_wf d t) \<and>
     (\<forall>e \<in> set (ledger_entries d). \<exists>t \<in> set (ledger_transactions d). lt_id t = le_transaction_id e) \<and>
     reversals_wf (ledger_transactions d)"

text \<open>The ids in use are below the next one: \<open>uuid4\<close> does not repeat.\<close>

definition ledger_fresh :: "uuid \<Rightarrow> db \<Rightarrow> bool" where
  "ledger_fresh n d \<longleftrightarrow> (\<forall>t \<in> set (ledger_transactions d). lt_id t < n)"

lemma ledger_inv_empty [simp]: "ledger_inv empty_db"
  by (simp add: ledger_inv_def empty_db_def reversals_wf_def map_filter_def)

lemma map_filter_append: "List.map_filter f (xs @ ys) = List.map_filter f xs @ List.map_filter f ys"
  by (simp add: map_filter_def)

lemma set_map_filter_iff: "y \<in> set (List.map_filter f xs) \<longleftrightarrow> (\<exists>x \<in> set xs. f x = Some y)"
  by (force simp: map_filter_def)

lemma distinct_map_filterD:
  "distinct (List.map_filter f xs) \<Longrightarrow> x \<in> set xs \<Longrightarrow> y \<in> set xs \<Longrightarrow> f x = Some k \<Longrightarrow> f y = Some k \<Longrightarrow> x = y"
  by (induction xs) (auto simp: map_filter_simps set_map_filter_iff split: option.splits)

lemma reversals_wf_append:
  assumes "reversals_wf (ledger_transactions d)" and "reversal_ok d (lt_chama_id t) (lt_source_type t) (lt_reverses_transaction_id t)"
  shows "reversals_wf (ledger_transactions d @ [t])"
  using assms
  by (auto simp: reversals_wf_def reversal_ok_def map_filter_append set_map_filter_iff map_filter_def
      image_iff split: option.splits)

lemma add_posting_inv:
  assumes inv: "ledger_inv d" and fresh: "ledger_fresh n d" and ok: "lines_ok d c ls"
    and free: "source_free d st si" and rev: "reversal_ok d c st rv"
    and t: "lt_id t = n" "lt_chama_id t = c" "lt_source_type t = st" "lt_source_id t = si"
      "lt_reverses_transaction_id t = rv"
  shows "ledger_inv (add_posting t (entries_from c n now (Suc n) ls) d)"
proof -
  let ?es = "entries_from c n now (Suc n) ls" and ?d = "add_posting t (entries_from c n now (Suc n) ls) d"
  have old: "entries_of (lt_id u) ?d = entries_of (lt_id u) d" if "u \<in> set (ledger_transactions d)" for u
  proof -
    have "lt_id u \<noteq> n" using that fresh by (auto simp: ledger_fresh_def)
    then have "filter (\<lambda>e. le_transaction_id e = lt_id u) ?es = []"
      by (auto simp: filter_empty_conv dest: entries_from_set)
    then show ?thesis by (simp add: entries_of_def add_posting_def)
  qed
  have new: "entries_of n ?d = ?es"
  proof -
    have "\<forall>e \<in> set (ledger_entries d). le_transaction_id e \<noteq> n"
      using inv fresh unfolding ledger_inv_def ledger_fresh_def by (metis less_irrefl)
    then have "filter (\<lambda>e. le_transaction_id e = n) (ledger_entries d) = []"
      by (simp add: filter_empty_conv)
    moreover have "filter (\<lambda>e. le_transaction_id e = n) ?es = ?es"
      by (auto simp: filter_id_conv dest: entries_from_set)
    ultimately show ?thesis by (simp add: entries_of_def add_posting_def)
  qed
  have acc: "account_in ?d = account_in d" by (intro ext) (simp add: account_in_def add_posting_def)
  have txs: "ledger_transactions ?d = ledger_transactions d @ [t]"
    and ens: "ledger_entries ?d = ledger_entries d @ ?es" by (simp_all add: add_posting_def)
  have "tx_wf ?d u" if "u \<in> set (ledger_transactions d)" for u
    using that inv by (simp add: tx_wf_def balance_guard_def old acc ledger_inv_def)
  moreover have "tx_wf ?d t"
  proof -
    have "balance_guard ?d (lt_id t)"
      using ok lines_ok_two [OF ok] by (simp add: balance_guard_def t new lines_ok_def)
    moreover have "\<forall>e \<in> set ?es. single_sided (le_debit e) (le_credit e) \<and> le_chama_id e = c \<and>
        account_in d c (le_account_id e)"
      using ok by (force simp: lines_ok_def dest: entries_from_set)
    ultimately show ?thesis by (simp add: tx_wf_def t new acc)
  qed
  moreover have "reversals_wf (ledger_transactions d @ [t])"
    using inv rev by (intro reversals_wf_append) (simp_all add: ledger_inv_def t)
  moreover have "distinct (map lt_id (ledger_transactions d @ [t]))"
    using inv fresh by (auto simp: ledger_inv_def ledger_fresh_def t)
  moreover have "distinct (map (\<lambda>t. (lt_source_type t, lt_source_id t)) (ledger_transactions d @ [t]))"
    using inv free by (auto simp: ledger_inv_def source_free_def t)
  moreover have "\<forall>e \<in> set (ledger_entries ?d). \<exists>u \<in> set (ledger_transactions ?d). lt_id u = le_transaction_id e"
    using inv by (auto simp: ledger_inv_def txs ens t dest!: entries_from_set)
  ultimately show ?thesis unfolding ledger_inv_def txs by auto
qed

lemma add_posting_fresh: "ledger_fresh n d \<Longrightarrow> lt_id t = n \<Longrightarrow> n < m \<Longrightarrow> ledger_fresh m (add_posting t es d)"
  by (auto simp: ledger_fresh_def add_posting_def)

lemma new_posting_inv:
  assumes "ledger_inv (objs s)" "ledger_fresh (next_uuid s) (objs s)" "lines_ok (objs s) c ls"
    "source_free (objs s) st si" "reversal_ok (objs s) c st rv"
  shows "ledger_inv (add_posting (new_tx s actor c st si ds rv)
    (entries_from c (next_uuid s) (utc_now s) (Suc (next_uuid s)) ls) (objs s))"
  by (rule add_posting_inv [OF assms]) simp_all

section \<open>The trial balance\<close>

lemma entries_by_transaction:
  assumes "ledger_inv d"
  shows "sum_list (map (\<lambda>t. sum_list (map g (entries_of (lt_id t) d))) (ledger_transactions d)) =
           (sum_list (map g (ledger_entries d)) :: int)"
proof -
  have "le_transaction_id ` set (ledger_entries d) \<subseteq> set (map lt_id (ledger_transactions d))"
    using assms by (force simp: ledger_inv_def)
  with assms sum_list_by_key [of "map lt_id (ledger_transactions d)" le_transaction_id "ledger_entries d" g]
  show ?thesis by (simp add: ledger_inv_def entries_of_def o_def)
qed

lemma chama_entries_balance:
  assumes inv: "ledger_inv d"
  shows "sum_list (map (\<lambda>e. le_debit e - le_credit e) (filter (\<lambda>e. le_chama_id e = c) (ledger_entries d))) = 0"
proof -
  let ?g = "\<lambda>e. if le_chama_id e = c then le_debit e - le_credit e else 0"
  have zero: "sum_list (map ?g (entries_of (lt_id t) d)) = 0" if "t \<in> set (ledger_transactions d)" for t
  proof -
    have wf: "tx_wf d t" using inv that by (simp add: ledger_inv_def)
    then have "sum_list (map ?g (entries_of (lt_id t) d)) =
        sum_list (map (\<lambda>e. if lt_chama_id t = c then le_debit e - le_credit e else 0) (entries_of (lt_id t) d))"
      by (intro arg_cong [where f = sum_list] map_cong) (auto simp: tx_wf_def)
    also have "\<dots> = 0" using wf
      by (cases "lt_chama_id t = c") (simp_all add: tx_wf_def balance_guard_def Let_def sum_list_diff)
    finally show ?thesis .
  qed
  have "sum_list (map ?g (ledger_entries d)) =
      sum_list (map (\<lambda>t. sum_list (map ?g (entries_of (lt_id t) d))) (ledger_transactions d))"
    by (rule entries_by_transaction [OF inv, symmetric])
  also have "\<dots> = sum_list (map (\<lambda>t. 0) (ledger_transactions d))"
    by (intro arg_cong [where f = sum_list] map_cong) (auto simp: zero)
  finally show ?thesis by (simp add: sum_list_filter_if)
qed

lemma balances_add_up:
  "sum_list (map snd (balances_in_chama c d)) =
   sum_list (map (\<lambda>e. le_debit e - le_credit e) (filter (\<lambda>e. le_chama_id e = c) (ledger_entries d)))"
proof -
  let ?es = "filter (\<lambda>e. le_chama_id e = c) (ledger_entries d)"
  have "account_balance c a d =
      sum_list (map (\<lambda>e. le_debit e - le_credit e) (filter (\<lambda>e. le_account_id e = a) ?es))" for a
    by (simp add: account_balance_def conj_commute)
  then show ?thesis
    using sum_list_by_key [of "remdups (map le_account_id ?es)" le_account_id ?es]
    by (simp add: balances_in_chama_def o_def)
qed

section \<open>Ledger sessions\<close>

text \<open>
  What the services rely on between requests and keep: the ledger tables are flushed, every
  database of the history satisfies the ledger invariant, the committed ledger is the
  current one.
\<close>

definition same_ledger :: "db \<Rightarrow> db \<Rightarrow> bool" where
  "same_ledger d d' \<longleftrightarrow>
     ledger_accounts d = ledger_accounts d' \<and> ledger_transactions d = ledger_transactions d' \<and>
     ledger_entries d = ledger_entries d'"

lemma same_ledger_refl [simp]: "same_ledger d d"
  by (simp add: same_ledger_def)

lemma same_ledger_inv: "same_ledger d d' \<Longrightarrow> ledger_inv d \<longleftrightarrow> ledger_inv d'"
  by (simp add: same_ledger_def ledger_inv_def tx_wf_def balance_guard_def entries_of_def account_in_def)

lemma same_ledger_balance: "same_ledger d d' \<Longrightarrow> account_balance c a d = account_balance c a d'"
  by (simp add: same_ledger_def account_balance_def)

lemma same_ledger_fresh: "same_ledger d d' \<Longrightarrow> ledger_fresh n d \<longleftrightarrow> ledger_fresh n d'"
  by (simp add: same_ledger_def ledger_fresh_def)

definition ledger_ok :: "sess \<Rightarrow> bool" where
  "ledger_ok s \<longleftrightarrow>
     ledger_flushed s \<and> ledger_inv (objs s) \<and> ledger_fresh (next_uuid s) (objs s) \<and>
     (\<forall>d \<in> set (durable s). ledger_inv d)"

lemma ledger_ok_sync [simp]: "ledger_ok s \<Longrightarrow> ledger_ok (sync s)"
  by (simp add: ledger_ok_def)

lemma add_posting_simps [simp]:
  "ledger_accounts (add_posting t es d) = ledger_accounts d"
  "ledger_transactions (add_posting t es d) = ledger_transactions d @ [t]"
  "ledger_entries (add_posting t es d) = ledger_entries d @ es"
  "memberships (add_posting t es d) = memberships d" "chamas (add_posting t es d) = chamas d"
  "membership_roles (add_posting t es d) = membership_roles d"
  "contributions (add_posting t es d) = contributions d" "shares (add_posting t es d) = shares d"
  "loans (add_posting t es d) = loans d" "repayments (add_posting t es d) = repayments d"
  "payouts (add_posting t es d) = payouts d" "fee_payments (add_posting t es d) = fee_payments d"
  "registration_fees (add_posting t es d) = registration_fees d"
  by (simp_all add: add_posting_def)

lemma posted_simps [simp]:
  "objs (posted t es u s) = add_posting t es (objs s)"
  "rows (posted t es u s) = add_posting t es (objs s)"
  "durable (posted t es u s) = add_posting t es (objs s) # durable s"
  "next_uuid (posted t es u s) = u" "autoflush (posted t es u s) = autoflush s"
  "local_now (posted t es u s) = local_now s" "utc_now (posted t es u s) = utc_now s"
  "cfg (posted t es u s) = cfg s" "is_sqlite (posted t es u s) = is_sqlite s"
  by (simp_all add: posted_def)

lemma posted_saved: "posted t es u s = saved (add_posting t es (objs s)) u s"
  by (simp add: posted_def saved_def)

lemma clean_ledger_flushed [simp]: "clean s \<Longrightarrow> ledger_flushed s"
  by (simp add: ledger_flushed_def)

lemma ledger_ok_posted:
  assumes "ledger_ok s" "lines_ok (objs s) c ls" "source_free (objs s) st si" "reversal_ok (objs s) c st rv"
  shows "ledger_ok (posted (new_tx s actor c st si ds rv)
    (entries_from c (next_uuid s) (utc_now s) (Suc (next_uuid s)) ls) (Suc (next_uuid s + length ls)) s)"
  using assms new_posting_inv [of s c ls st si rv actor ds]
  by (auto simp: ledger_ok_def ledger_flushed_def intro!: add_posting_fresh)

lemma ledger_ok_empty [simp]: "ledger_ok (fresh_session af lite cf now un u empty_db)"
  by (simp add: ledger_ok_def fresh_session_def ledger_flushed_def ledger_fresh_def)
     (simp add: empty_db_def)

section \<open>Reversals\<close>

definition swap_key :: "ledger_entry \<Rightarrow> uuid \<times> money \<times> money" where
  "swap_key e = (le_account_id e, le_credit e, le_debit e)"

text \<open>What a transaction does to an account.\<close>

definition tx_effect :: "uuid \<Rightarrow> uuid \<Rightarrow> db \<Rightarrow> money" where
  "tx_effect transaction_id account_id d =
     sum_list (map (\<lambda>(a, debit, credit). if a = account_id then debit - credit else 0)
       (map entry_key (entries_of transaction_id d)))"

lemma normalize_swapped:
  "normalize_lines (map (\<lambda>e. \<lparr>raw_account_id = le_account_id e,
      raw_debit = PyDecimal (Finite (dec_of_money (le_credit e))),
      raw_credit = PyDecimal (Finite (dec_of_money (le_debit e)))\<rparr>) es) = Inr ls \<Longrightarrow>
   map line_key ls = map swap_key es"
  by (induction es arbitrary: ls)
     (auto simp: normalize_lines.simps to_quantized_money line_key_def swap_key_def split: sum.splits if_splits)

lemma balance_delta_keys:
  "balance_delta a ls = sum_list (map (\<lambda>(b, debit, credit). if b = a then debit - credit else 0) (map line_key ls))"
  by (simp add: balance_delta_def line_key_def o_def)

lemma sum_list_sort_eq:
  fixes f :: "'k::linorder \<Rightarrow> int"
  assumes "sort xs = sort ys"
  shows "sum_list (map f xs) = sum_list (map f ys)"
proof -
  have "mset xs = mset ys" using assms by (metis mset_sort)
  then have "mset (map f xs) = mset (map f ys)" by simp
  then show ?thesis by (metis sum_mset_sum_list)
qed

lemma swapped_effect:
  "sum_list (map (\<lambda>(a, debit, credit). if a = account_id then debit - credit else 0) (map swap_key es)) =
   - sum_list (map (\<lambda>(a, debit, credit). if a = account_id then debit - credit else (0::int)) (map entry_key es))"
  by (induction es) (simp_all add: swap_key_def entry_key_def)

lemma wp_reverse_transaction:
  assumes flushed: "ledger_flushed s"
    and posts: "\<And>t ls. t \<in> set (ledger_transactions (objs s)) \<Longrightarrow> lt_id t = tid \<Longrightarrow> lt_chama_id t = cid \<Longrightarrow>
      lt_reverses_transaction_id t = None \<Longrightarrow> \<exists>m. write_ok actor cid (objs s) m \<Longrightarrow>
      map line_key ls = map swap_key (entries_of tid (objs s)) \<Longrightarrow> lines_ok (objs s) cid ls \<Longrightarrow>
      source_free (objs s) REVERSAL_SOURCE_TYPE tid \<Longrightarrow>
      reversal_ok (objs s) cid REVERSAL_SOURCE_TYPE (Some tid) \<Longrightarrow>
      Q (new_tx s actor cid REVERSAL_SOURCE_TYPE tid ds (Some tid))
        (posted (new_tx s actor cid REVERSAL_SOURCE_TYPE tid ds (Some tid))
          (entries_from cid (next_uuid s) (utc_now s) (Suc (next_uuid s)) ls)
          (Suc (next_uuid s + length ls)) s)"
    and again: "\<And>t r. t \<in> set (ledger_transactions (objs s)) \<Longrightarrow> lt_id t = tid \<Longrightarrow> lt_chama_id t = cid \<Longrightarrow>
      lt_reverses_transaction_id t = None \<Longrightarrow> \<exists>m. write_ok actor cid (objs s) m \<Longrightarrow>
      r \<in> set (ledger_transactions (objs s)) \<Longrightarrow> lt_source_type r = REVERSAL_SOURCE_TYPE \<Longrightarrow>
      lt_source_id r = tid \<Longrightarrow> lt_chama_id r = cid \<Longrightarrow> lt_description r = ds \<Longrightarrow>
      lt_reverses_transaction_id r = Some tid \<Longrightarrow>
      sort (map entry_key (entries_of (lt_id r) (objs s))) = sort (map swap_key (entries_of tid (objs s))) \<Longrightarrow>
      Q r (sync s)"
    and fails: "\<And>e u. u = s \<or> u = sync s \<Longrightarrow> R e u"
  shows "wp (reverse_transaction actor cid tid ds) Q R s"
proof (cases "find_row ch_id cid (chamas (objs s))")
  case None
  then show ?thesis by (simp add: reverse_transaction_def wp fails)
next
  case (Some c)
  then have c: "ch_id c = cid" by (auto dest: find_row_SomeD)
  have mem: "memberships (rows s) = memberships (objs s)"
    using flushed by (simp add: ledger_flushed_def)
  note fs = ledger_flushed_sync [OF flushed]
  have main: "wp (post_transaction actor cid REVERSAL_SOURCE_TYPE tid ds
           (map (\<lambda>e. \<lparr>raw_account_id = le_account_id e,
                      raw_debit = PyDecimal (Finite (dec_of_money (le_credit e))),
                      raw_credit = PyDecimal (Finite (dec_of_money (le_debit e)))\<rparr>)
              (entries_of tid (objs s))) (Some tid) True) Q R (sync s)"
    if t: "t \<in> set (ledger_transactions (objs s))" "lt_id t = tid" "lt_chama_id t = cid"
      "lt_reverses_transaction_id t = None" for t
    apply (rule wp_post_transaction [OF fs])
      apply (simp_all add: fails)
     apply (rule posts [OF t])
         apply (simp_all add: normalize_swapped)
    apply (rule again [OF t], simp_all)
    done
  let ?P = "\<lambda>t. lt_id t = tid \<and> lt_chama_id t = cid"
  have body: "wp (bind (get_tx_in_chama cid tid) (\<lambda>found.
     case found of
       None \<Rightarrow> raise (StateError ''Ledger transaction not found in this Chama'')
     | Some t \<Rightarrow>
         bind (ensure (lt_reverses_transaction_id t = None)
           (StateError ''A reversal transaction cannot be reversed'')) (\<lambda>_.
         bind (tx_entries t) (\<lambda>es.
         post_transaction actor cid REVERSAL_SOURCE_TYPE (lt_id t) ds
           (map (\<lambda>e. \<lparr>raw_account_id = le_account_id e,
                      raw_debit = PyDecimal (Finite (dec_of_money (le_credit e))),
                      raw_credit = PyDecimal (Finite (dec_of_money (le_debit e)))\<rparr>) es)
           (Some (lt_id t)) True)))) Q R (sync s)"
  proof (cases "first (filter ?P (ledger_transactions (objs s)))")
    case None
    then show ?thesis by (simp add: wp get_tx_in_chama_def fs flushed fails)
  next
    case (Some t)
    then have t: "t \<in> set (ledger_transactions (objs s))" "lt_id t = tid" "lt_chama_id t = cid"
      by (auto dest: first_filter_SomeD)
    with Some main [OF t] show ?thesis
      by (auto simp: wp get_tx_in_chama_def fs flushed fails tx_entries_def entries_of_def)
  qed
  show ?thesis
    unfolding reverse_transaction_def wp_bind wp_get_chama_or_404 Some option.case c
    by (rule wp_authorize_chama_write [OF mem]) (use body [unfolded wp_bind] in \<open>auto simp: fails\<close>)
qed

declare entries_from.simps [simp del]

end
