(* ===== verification/Demo.thy ===== *)
theory Demo
  imports Ledger_Facts
begin

text \<open>
  A small concrete database, on which the witnesses of the properties run: one active Chama
  with its chart of accounts, a chairperson, a treasurer and two ordinary members. The ids
  from 1000 on are free.
\<close>

definition demo_user :: "uuid \<Rightarrow> uuid \<Rightarrow> user" where
  "demo_user uid mid =
     \<lparr>us_id = uid, us_email = ''u@chama'', us_password_hash = ''h'', us_is_active = True,
      us_must_change_password = False, us_member_id = Some mid\<rparr>"

definition demo_membership :: "uuid \<Rightarrow> uuid \<Rightarrow> int \<Rightarrow> membership" where
  "demo_membership i mid n =
     \<lparr>ms_id = i, ms_chama_id = 10, ms_member_id = mid, ms_membership_number = n,
      ms_status = MS_ACTIVE, ms_joined_at = DateTime 2025 1 10 0\<rparr>"

definition demo_member :: "uuid \<Rightarrow> member" where
  "demo_member i =
     \<lparr>mb_id = i, mb_first_name = ''A'', mb_last_name = ''B'', mb_phone_number = ''0700000000'',
      mb_government_id = ''1''\<rparr>"

definition demo_account :: "uuid \<Rightarrow> string \<Rightarrow> ledger_account_type \<Rightarrow> ledger_account" where
  "demo_account i code ty =
     \<lparr>la_id = i, la_chama_id = 10, la_code = code, la_name = code, la_account_type = ty,
      la_description = None\<rparr>"

definition demo_chama :: chama where
  "demo_chama =
     \<lparr>ch_id = 10, ch_name = ''Demo'', ch_description = None, ch_registration_fee_amount = 50000,
      ch_status = CH_ACTIVE, ch_created_by_user_id = 21\<rparr>"

definition demo_db :: db where
  "demo_db = empty_db
     \<lparr>users := [demo_user 21 31, demo_user 22 32, demo_user 23 33, demo_user 24 34],
      members := [demo_member 31, demo_member 32, demo_member 33, demo_member 34],
      chamas := [demo_chama],
      memberships := [demo_membership 41 31 1, demo_membership 42 32 2,
                      demo_membership 43 33 3, demo_membership 44 34 4],
      roles := [CHAIRPERSON, TREASURER, SECRETARY, PLATFORM_ADMIN],
      membership_roles := [\<lparr>mr_membership_id = 41, mr_role = CHAIRPERSON\<rparr>,
                           \<lparr>mr_membership_id = 42, mr_role = TREASURER\<rparr>],
      ledger_accounts := [demo_account 11 CASH_CODE ASSET,
                          demo_account 12 LOANS_RECEIVABLE_CODE ASSET,
                          demo_account 13 SHARE_CAPITAL_CODE EQUITY,
                          demo_account 14 REGISTRATION_FEES_CODE REVENUE,
                          demo_account 15 INTEREST_INCOME_CODE REVENUE]\<rparr>"

definition demo_settings :: settings where
  "demo_settings =
     \<lparr>cf_share_unit_price = 100, cf_refresh_token_expires_days = 7, cf_jwt_expires_minutes = 120,
      cf_payment_attempt_max_retries = 3, cf_payment_webhook_max_body_bytes = 65536,
      cf_public_base_url = ''https://example.org'', cf_api_v1_prefix = ''/api/v1''\<rparr>"

definition demo_session :: sess where
  "demo_session = fresh_session False False demo_settings (DateTime 2026 3 1 0) 1000000 1000 demo_db"

definition chair :: user where "chair = demo_user 21 31"
definition treasurer :: user where "treasurer = demo_user 22 32"
definition alice :: user where "alice = demo_user 23 33"
definition bob :: user where "bob = demo_user 24 34"

lemmas demo_defs =
  demo_user_def demo_membership_def demo_member_def demo_account_def demo_chama_def demo_db_def
  demo_settings_def demo_session_def chair_def treasurer_def alice_def bob_def

text \<open>The result and the session a program leaves, for the witnesses that chain requests.\<close>

definition after :: "'a act \<Rightarrow> sess \<Rightarrow> sess" where
  "after m s = snd (m s)"

definition returns :: "'a act \<Rightarrow> sess \<Rightarrow> bool" where
  "returns m s = (case fst (m s) of Inl _ \<Rightarrow> False | Inr _ \<Rightarrow> True)"

definition result_of :: "'a act \<Rightarrow> sess \<Rightarrow> 'a" where
  "result_of m s = (case fst (m s) of Inr x \<Rightarrow> x)"

lemma returnsD: "returns m s \<Longrightarrow> m s = (Inr (result_of m s), after m s)"
  by (cases "m s") (auto simp: returns_def result_of_def after_def split: sum.splits)

lemma returns_wp: "returns m s \<longleftrightarrow> wp m (\<lambda>_ _. True) (\<lambda>_ _. False) s"
  by (auto simp: returns_def wp_def split: sum.splits prod.splits)

text \<open>The tables of the demo database, for evaluation by the simplifier.\<close>

lemma demo_session_simps [simp]:
  "objs demo_session = demo_db" "rows demo_session = demo_db" "durable demo_session = [demo_db]"
  "autoflush demo_session = False" "is_sqlite demo_session = False" "next_uuid demo_session = 1000"
  "local_now demo_session = DateTime 2026 3 1 0" "utc_now demo_session = 1000000"
  "req_id demo_session = None" "cfg demo_session = demo_settings"
  by (simp_all add: demo_session_def fresh_session_def)

lemma demo_db_simps [simp]:
  "users demo_db = [demo_user 21 31, demo_user 22 32, demo_user 23 33, demo_user 24 34]"
  "chamas demo_db = [demo_chama]"
  "memberships demo_db = [demo_membership 41 31 1, demo_membership 42 32 2,
     demo_membership 43 33 3, demo_membership 44 34 4]"
  "membership_roles demo_db = [\<lparr>mr_membership_id = 41, mr_role = CHAIRPERSON\<rparr>,
     \<lparr>mr_membership_id = 42, mr_role = TREASURER\<rparr>]"
  "platform_roles demo_db = []" "refresh_tokens demo_db = []" "registration_fees demo_db = []"
  "fee_payments demo_db = []" "contributions demo_db = []" "shares demo_db = []"
  "loans demo_db = []" "repayments demo_db = []" "payouts demo_db = []"
  "ledger_accounts demo_db = [demo_account 11 CASH_CODE ASSET,
     demo_account 12 LOANS_RECEIVABLE_CODE ASSET, demo_account 13 SHARE_CAPITAL_CODE EQUITY,
     demo_account 14 REGISTRATION_FEES_CODE REVENUE, demo_account 15 INTEREST_INCOME_CODE REVENUE]"
  "ledger_transactions demo_db = []" "ledger_entries demo_db = []" "audit_events demo_db = []"
  "notifications demo_db = []" "connections demo_db = []" "intents demo_db = []"
  "attempts demo_db = []" "payment_events demo_db = []"
  by (simp_all add: demo_db_def empty_db_def)

lemma demo_row_simps [simp]:
  "ch_id demo_chama = 10" "ch_status demo_chama = CH_ACTIVE"
  "ms_id (demo_membership i mid n) = i" "ms_chama_id (demo_membership i mid n) = 10"
  "ms_member_id (demo_membership i mid n) = mid" "ms_status (demo_membership i mid n) = MS_ACTIVE"
  "ms_joined_at (demo_membership i mid n) = DateTime 2025 1 10 0"
  "us_id (demo_user uid mid) = uid" "us_member_id (demo_user uid mid) = Some mid"
  "us_is_active (demo_user uid mid) = True"
  "la_id (demo_account j code ty) = j" "la_chama_id (demo_account j code ty) = 10"
  "la_code (demo_account j code ty) = code"
  "chair = demo_user 21 31" "treasurer = demo_user 22 32" "alice = demo_user 23 33"
  "bob = demo_user 24 34"
  by (simp_all add: demo_chama_def demo_membership_def demo_user_def demo_account_def chair_def
      treasurer_def alice_def bob_def)

lemma demo_sync [simp]: "sync demo_session = demo_session"
  by (simp add: sync_def)

lemma ledger_ok_demo [simp]: "ledger_ok demo_session"
  by (simp add: ledger_ok_def ledger_flushed_def ledger_fresh_def ledger_inv_def reversals_wf_def
      map_filter_def)

text \<open>The definitions a run of the ledger service unfolds.\<close>

lemmas ledger_run =
  wp post_transaction_def reverse_transaction_def get_chama_or_404_def authorize_chama_write_def
  authorize_chama_access_def post_lines_def validate_lines_def get_account_in_chama_def
  find_row_Cons get_by_source_def get_tx_in_chama_def get_reversal_for_def
  resolve_idempotent_retry_def tx_entries_def validate_reversal_reference_def
  create_or_resolve_def create_transaction_def create_entry_def ledger_tx_check_def
  ledger_entry_check_def entities_def Let_def sync_def source_type_defs entries_from.simps

lemma normalize_two_lines:
  "a < 10 ^ 28 \<Longrightarrow> 0 \<le> a \<Longrightarrow>
     normalize_lines [debit_line x a, credit_line y a] = Inr [dl x a, cl y a]"
  by (simp add: DECIMAL_PRECISION_def del: normalize_lines.simps) (simp add: DECIMAL_PRECISION_def)

lemma normalize_swapped_two:
  assumes "0 \<le> m" and "m < 10 ^ 28"
  shows "normalize_lines [\<lparr>raw_account_id = a, raw_debit = PyDecimal (Finite (dec_of_money 0)),
      raw_credit = PyDecimal (Finite (dec_of_money m))\<rparr>,
     \<lparr>raw_account_id = b, raw_debit = PyDecimal (Finite (dec_of_money m)),
      raw_credit = PyDecimal (Finite (dec_of_money 0))\<rparr>] = Inr [cl a m, dl b m]"
    and "normalize_lines [\<lparr>raw_account_id = a, raw_debit = PyDecimal (Finite (dec_of_money m)),
      raw_credit = PyDecimal (Finite (dec_of_money 0))\<rparr>,
     \<lparr>raw_account_id = b, raw_debit = PyDecimal (Finite (dec_of_money 0)),
      raw_credit = PyDecimal (Finite (dec_of_money m))\<rparr>] = Inr [dl a m, cl b m]"
  using assms by (simp_all add: normalize_lines.simps to_quantized_money DECIMAL_PRECISION_def dl_def cl_def)

text \<open>A first posting: the treasurer books a contribution of 1,500.00.\<close>

definition demo_post :: "ledger_transaction act" where
  "demo_post = post_transaction treasurer 10 CONTRIBUTION_SOURCE_TYPE 77 (Some ''c'')
     [debit_line 11 150000, credit_line 13 150000] None True"

definition demo_tx :: ledger_transaction where
  "demo_tx = new_tx demo_session treasurer 10 CONTRIBUTION_SOURCE_TYPE 77 (Some ''c'') None"

lemma demo_tx_simps [simp]:
  "lt_id demo_tx = 1000" "lt_chama_id demo_tx = 10" "lt_source_type demo_tx = CONTRIBUTION_SOURCE_TYPE"
  "lt_source_id demo_tx = 77" "lt_description demo_tx = Some ''c''"
  "lt_reverses_transaction_id demo_tx = None" "lt_created_at demo_tx = 1000000"
  by (simp_all add: demo_tx_def)

definition demo_posted :: sess where
  "demo_posted = posted demo_tx (entries_from 10 1000 1000000 1001 [dl 11 150000, cl 13 150000])
     1003 demo_session"

lemma demo_post_runs: "demo_post demo_session = (Inr demo_tx, demo_posted)"
  by (rule wp_computes)
     (simp add: demo_post_def ledger_run normalize_two_lines demo_tx_def new_tx_def demo_posted_def
       posted_def add_posting_def del: normalize_lines.simps)

end

