(* ===== verification/Ledger_Props.thy ===== *)
theory Ledger_Props
  imports Demo
begin

text \<open>
  The properties of the ledger service. The hypothesis \<open>ledger_ok\<close> holds in the empty
  database and is what the first property shows every posting keeps.
\<close>

section \<open>The states of a posting\<close>

lemma wp_post_keeps:
  assumes "ledger_ok s"
  shows "wp (post_transaction actor cid st si ds raw rv req) (\<lambda>_ t. ledger_ok t \<and> immutable_guard (objs s) (objs t))
    (\<lambda>_ t. ledger_ok t \<and> immutable_guard (objs s) (objs t)) s"
  using assms
  by (intro wp_post_transaction)
     (auto simp: ledger_ok_posted immutable_guard_def, simp add: ledger_ok_def)

lemma wp_reverse_keeps:
  assumes "ledger_ok s"
  shows "wp (reverse_transaction actor cid tid ds) (\<lambda>_ t. ledger_ok t \<and> immutable_guard (objs s) (objs t))
    (\<lambda>_ t. ledger_ok t \<and> immutable_guard (objs s) (objs t)) s"
  using assms
  by (intro wp_reverse_transaction)
     (auto simp: ledger_ok_posted immutable_guard_def, simp add: ledger_ok_def)

text \<open>The entries of the transaction just posted.\<close>

lemma entries_of_posted:
  assumes "ledger_ok s"
  shows "entries_of (next_uuid s) (add_posting t (entries_from c (next_uuid s) now n ls) (objs s)) =
           entries_from c (next_uuid s) now n ls"
proof -
  have "\<forall>e \<in> set (ledger_entries (objs s)). le_transaction_id e \<noteq> next_uuid s"
    using assms unfolding ledger_ok_def ledger_inv_def ledger_fresh_def by (metis less_irrefl)
  then have "filter (\<lambda>e. le_transaction_id e = next_uuid s) (ledger_entries (objs s)) = []"
    by (simp add: filter_empty_conv)
  moreover have "filter (\<lambda>e. le_transaction_id e = next_uuid s) (entries_from c (next_uuid s) now n ls) =
      entries_from c (next_uuid s) now n ls"
    by (auto simp: filter_id_conv dest: entries_from_set)
  ultimately show ?thesis by (simp add: entries_of_def)
qed

lemma entries_of_older:
  assumes "ledger_ok s" and "t \<in> set (ledger_transactions (objs s))"
  shows "entries_of (lt_id t) (add_posting t' (entries_from c (next_uuid s) now n ls) (objs s)) =
           entries_of (lt_id t) (objs s)"
proof -
  have "lt_id t \<noteq> next_uuid s" using assms by (auto simp: ledger_ok_def ledger_fresh_def)
  then have "filter (\<lambda>e. le_transaction_id e = lt_id t) (entries_from c (next_uuid s) now n ls) = []"
    by (auto simp: filter_empty_conv dest: entries_from_set)
  then show ?thesis by (simp add: entries_of_def)
qed

lemma source_unique:
  assumes "ledger_inv d" and "t \<in> set (ledger_transactions d)" and "u \<in> set (ledger_transactions d)"
    and "lt_source_type t = lt_source_type u" and "lt_source_id t = lt_source_id u"
  shows "t = u"
  using assms by (auto simp: ledger_inv_def distinct_map dest: inj_onD)

lemma first_by_source:
  assumes "ledger_inv d" and "t \<in> set (ledger_transactions d)"
  shows "first (filter (\<lambda>u. lt_source_type u = lt_source_type t \<and> lt_source_id u = lt_source_id t)
    (ledger_transactions d)) = Some t"
proof (cases "first (filter (\<lambda>u. lt_source_type u = lt_source_type t \<and> lt_source_id u = lt_source_id t)
    (ledger_transactions d))")
  case None
  then show ?thesis using assms by (auto simp: filter_empty_conv)
next
  case (Some u)
  then have "u \<in> set (ledger_transactions d) \<and> lt_source_type u = lt_source_type t \<and> lt_source_id u = lt_source_id t"
    by (rule first_filter_SomeD)
  with assms source_unique show ?thesis unfolding Some by blast
qed

text \<open>A repeated source: the branch the retry takes, exactly.\<close>

lemma wp_post_existing:
  assumes ok: "ledger_ok s" and t: "t \<in> set (ledger_transactions (objs s))"
    and norm: "normalize_lines raw = Inr ls" and lines: "lines_ok (objs s) cid ls"
    and auth: "req \<Longrightarrow> \<exists>m. write_ok actor cid (objs s) m" and chama: "find_row ch_id cid (chamas (objs s)) \<noteq> None"
    and kind: "(lt_source_type t = REVERSAL_SOURCE_TYPE) = (rv \<noteq> None)"
    and then_: "wp (resolve_idempotent_retry t cid ds rv ls) Q R (sync s)"
  shows "wp (post_transaction actor cid (lt_source_type t) (lt_source_id t) ds raw rv req) Q R s"
proof -
  obtain c where c: "find_row ch_id cid (chamas (objs s)) = Some c" "ch_id c = cid"
    using chama by (auto dest: find_row_SomeD)
  have lines_step: "wp (post_lines actor cid (lt_source_type t) (lt_source_id t) ds rv ls) Q R w"
    if w: "w = s \<or> w = sync s" for w
  proof -
    have fw: "ledger_flushed w" "sync w = sync s" "objs w = objs s"
      using w ok by (auto simp: ledger_ok_def)
    have fs: "ledger_flushed (sync s)" using ok by (simp add: ledger_ok_def)
    show ?thesis unfolding post_lines_def wp_bind
      apply (rule wp_validate_lines [OF fw(1)])
       apply (unfold fw wp_bind wp_ensure get_by_source_def wp_select_first)
       apply (use kind fs first_by_source [OF _ t] ok then_ lines in \<open>auto simp: ledger_ok_def\<close>)
      done
  qed
  show ?thesis
  proof (cases req)
    case False
    with c norm lines_step show ?thesis
      by (simp add: post_transaction_def wp_bind wp_get_chama_or_404 wp_ret)
  next
    case True
    then obtain m where m: "write_ok actor cid (objs s) m" using auth by blast
    have mem: "memberships (rows s) = memberships (objs s)"
      using ok by (simp add: ledger_ok_def ledger_flushed_def)
    have "wp (authorize_chama_write actor cid)
      (\<lambda>_. wp (post_lines actor cid (lt_source_type t) (lt_source_id t) ds rv ls) Q R) R s"
      by (rule wp_authorize_chama_write [OF mem]) (use m lines_step in auto)
    with True c norm show ?thesis
      by (simp add: post_transaction_def wp_bind wp_get_chama_or_404 wp_ret)
  qed
qed

lemma wp_post_same:
  assumes ok: "ledger_ok s" and t: "t \<in> set (ledger_transactions (objs s))"
    and norm: "normalize_lines raw = Inr ls" and lines: "lines_ok (objs s) cid ls"
    and auth: "req \<Longrightarrow> \<exists>m. write_ok actor cid (objs s) m" and chama: "find_row ch_id cid (chamas (objs s)) \<noteq> None"
    and same: "lt_source_type t = st" "lt_source_id t = si" "lt_chama_id t = cid" "lt_description t = ds"
      "lt_reverses_transaction_id t = rv"
      "sort (map entry_key (entries_of (lt_id t) (objs s))) = sort (map line_key ls)"
  shows "wp (post_transaction actor cid st si ds raw rv req) (\<lambda>t' s'. t' = t \<and> s' = sync s) (\<lambda>_ _. False) s"
proof -
  have kind: "(lt_source_type t = REVERSAL_SOURCE_TYPE) = (rv \<noteq> None)"
    using ok t same(5) by (auto simp: ledger_ok_def ledger_inv_def reversals_wf_def)
  have "ledger_flushed (sync s)" using ok by (simp add: ledger_ok_def)
  then have "wp (resolve_idempotent_retry t cid ds rv ls) (\<lambda>t' s'. t' = t \<and> s' = sync s) (\<lambda>_ _. False) (sync s)"
    using same by (simp add: resolve_idempotent_retry_def tx_entries_def wp ledger_flushed_def
      entities_flushed entries_of_def [symmetric])
  then show ?thesis
    using wp_post_existing [OF ok t norm lines auth chama kind, where req = req and ds = ds] by (simp add: same)
qed

section \<open>Keyset pages\<close>

lemma newest_first_filter: "newest_first k (filter P xs) = filter P (newest_first k xs)"
  by (simp add: newest_first_def filter_sort [symmetric] rev_filter)

lemma newest_first_set [simp]: "set (newest_first k xs) = set xs"
  by (simp add: newest_first_def)

lemma newest_first_descending:
  assumes "distinct (map k xs)"
  shows "sorted_wrt (\<lambda>x y. k y < k x) (newest_first k xs)"
proof -
  have "mset (map k (sort_key k xs)) = mset (map k xs)" by simp
  then have "distinct (map k (sort_key k xs))" using assms mset_eq_imp_distinct_iff by metis
  moreover have "sorted (map k (sort_key k xs))" by simp
  ultimately have "sorted_wrt (<) (map k (sort_key k xs))" by (simp add: strict_sorted_iff)
  then show ?thesis by (simp add: newest_first_def sorted_wrt_rev sorted_wrt_map)
qed

lemma descending_after:
  assumes "sorted_wrt (\<lambda>x y. k y < (k x :: 'k::linorder)) xs" and "0 < n" and "n \<le> length xs"
  shows "filter (\<lambda>x. k x < k (xs ! (n - 1))) xs = drop n xs"
proof -
  have less: "i < j \<Longrightarrow> j < length xs \<Longrightarrow> k (xs ! j) < k (xs ! i)" for i j
    using assms(1) by (simp add: sorted_wrt_iff_nth_less)
  have le: "i < n \<Longrightarrow> k (xs ! (n - 1)) \<le> k (xs ! i)" for i
    using less [of i "n - 1"] assms(2,3) by (cases "i = n - 1") (auto simp: order.strict_implies_order)
  have front: "filter (\<lambda>x. k x < k (xs ! (n - 1))) (take n xs) = []"
    using assms(3) le by (fastforce simp: filter_empty_conv in_set_conv_nth not_less)
  have rest: "filter (\<lambda>x. k x < k (xs ! (n - 1))) (drop n xs) = drop n xs"
    using assms(2,3) less by (auto simp: filter_id_conv in_set_conv_nth)
  have "filter (\<lambda>x. k x < k (xs ! (n - 1))) (take n xs @ drop n xs) = drop n xs"
    unfolding filter_append front rest by simp
  then show ?thesis by simp
qed

text \<open>
  SQLite's \<open>CURRENT_TIMESTAMP\<close> has no fraction, so that comparing whole seconds decides as
  comparing the instants does.
\<close>

definition whole_seconds :: "bool \<Rightarrow> int list \<Rightarrow> bool" where
  "whole_seconds sqlite ts \<longleftrightarrow> (sqlite \<longrightarrow> (\<forall>t \<in> set ts. 1000000 dvd t))"

lemma before_cursor_key:
  assumes "whole_seconds sqlite [fst (k x), fst (k y)]"
  shows "before_cursor sqlite (Some (fst (k y))) (snd (k y)) (fst (k x)) (snd (k x)) \<longleftrightarrow> k x < k y"
proof -
  have "ts_col sqlite (fst (k x)) < ts_col sqlite (fst (k y)) \<longleftrightarrow> fst (k x) < fst (k y)"
    "ts_col sqlite (fst (k x)) = ts_col sqlite (fst (k y)) \<longleftrightarrow> fst (k x) = fst (k y)"
    using assms by (auto simp: ts_col_def whole_seconds_def elim!: dvdE)
  then show ?thesis by (cases "k x"; cases "k y") (auto simp: before_cursor_def)
qed

lemma keyset_page_next:
  assumes dist: "distinct (map k xs)" and ws: "whole_seconds sqlite (map (fst \<circ> k) xs)"
    and p: "p = keyset_page sqlite k n None i xs" "p \<noteq> []"
  shows "p @ keyset_page sqlite k l (Some (fst (k (last p)))) (snd (k (last p))) xs =
           take (length p + l) (newest_first k xs)"
proof -
  let ?N = "newest_first k xs"
  let ?m = "length p"
  have p': "p = take n ?N" using p by (simp add: keyset_page_def before_cursor_def)
  then have m: "p = take ?m ?N" "0 < ?m" "?m \<le> length ?N" using p(2) by (auto simp: min_def)
  have last: "last p = ?N ! (?m - 1)"
    using m by (metis last_conv_nth nth_take diff_less zero_less_one length_greater_0_conv)
  have mem: "last p \<in> set xs" using p(2) m(1) by (metis last_in_set in_set_takeD newest_first_set)
  have "filter (\<lambda>x. before_cursor sqlite (Some (fst (k (last p)))) (snd (k (last p))) (fst (k x)) (snd (k x))) ?N =
      filter (\<lambda>x. k x < k (last p)) ?N"
    by (intro filter_cong refl before_cursor_key) (use ws mem in \<open>auto simp: whole_seconds_def\<close>)
  also have "\<dots> = drop ?m ?N"
    unfolding last by (rule descending_after [OF newest_first_descending [OF dist] m(2,3)])
  finally have "keyset_page sqlite k l (Some (fst (k (last p)))) (snd (k (last p))) xs = take l (drop ?m ?N)"
    by (simp add: keyset_page_def newest_first_filter)
  then show ?thesis using m(1) by (metis take_add)
qed

lemma wp_list_page:
  assumes "ledger_flushed s"
  shows "wp (list_page actor cid limit at' i)
    (\<lambda>p t. p = keyset_page (is_sqlite s) tx_sort_key limit at' i
                (filter (\<lambda>t. lt_chama_id t = cid) (ledger_transactions (objs s))) \<and> t = sync s)
    (\<lambda>_ _. True) s"
proof (cases "find_row ch_id cid (chamas (objs s))")
  case None
  then show ?thesis by (simp add: list_page_def authorize_ledger_read_def wp)
next
  case (Some c)
  then have c: "ch_id c = cid" by (auto dest: find_row_SomeD)
  have mem: "memberships (rows s) = memberships (objs s)" using assms by (simp add: ledger_flushed_def)
  have "wp (bind (authorize_chama_access actor cid)
      (\<lambda>m. bind (require_roles m LEADERSHIP_ROLES) (\<lambda>_. ret c)))
     (\<lambda>c' t. c' = c \<and> t = sync s) (\<lambda>_ _. True) s"
    unfolding wp_bind by (rule wp_authorize_chama_access [OF mem]) (simp_all add: wp)
  then have read: "wp (authorize_ledger_read actor cid) (\<lambda>c' t. c' = c \<and> t = sync s) (\<lambda>_ _. True) s"
    by (simp add: authorize_ledger_read_def wp_bind [of "get_chama_or_404 cid"] wp_get_chama_or_404 Some c)
  show ?thesis unfolding list_page_def wp_bind
    by (rule wp_mono [OF read]) (auto simp: wp assms c)
qed

text \<open>The quantized lines of a call that got that far.\<close>

definition normalized :: "raw_line list \<Rightarrow> ledger_line list" where
  "normalized raw = (case normalize_lines raw of Inl _ \<Rightarrow> [] | Inr ls \<Rightarrow> ls)"

section \<open>The properties\<close>

text \<open>
  C1. Posting keeps the ledger invariant in memory and in every committed database
  (each transaction has at least two single-sided entries of one Chama on accounts of that
  Chama, debits equal credits, sources and reversals are unique), whatever the arguments
  and whether it returns or raises; and it only appends.
\<close>

theorem post_transaction_keeps_ledger:
  assumes "ledger_ok s" and "post_transaction actor cid st si ds raw rv req s = (r, s')"
  shows "ledger_ok s' \<and> immutable_guard (objs s) (objs s')"
  using wp_state [OF wp_post_keeps [OF assms(1)] assms(2)] .

text \<open>
  C2. What a call of \<open>post_transaction\<close> does: on success either one new posting whose entries
  are the normalized lines, in memory and at the head of the committed history, moving each
  balance by exactly its lines; or the posting was there already and nothing is written. On
  an error nothing is written.
\<close>

theorem post_transaction_effect:
  assumes "ledger_ok s" and "post_transaction actor cid st si ds raw rv req s = (r, s')"
  shows "case r of
      Inl e \<Rightarrow> objs s' = objs s \<and> durable s' = durable s
    | Inr t \<Rightarrow>
        lines_ok (objs s) cid (normalized raw) \<and> lt_source_type t = st \<and> lt_source_id t = si \<and>
        lt_chama_id t = cid \<and> t \<in> set (ledger_transactions (objs s')) \<and>
        sort (map entry_key (entries_of (lt_id t) (objs s'))) = sort (map line_key (normalized raw)) \<and>
        (if source_free (objs s) st si
         then ledger_transactions (objs s') = ledger_transactions (objs s) @ [t] \<and>
              durable s' = objs s' # durable s \<and>
              (\<forall>a. account_balance cid a (objs s') =
                     account_balance cid a (objs s) + balance_delta a (normalized raw))
         else objs s' = objs s \<and> durable s' = durable s)"
proof -
  have "wp (post_transaction actor cid st si ds raw rv req)
    (\<lambda>t s'. lines_ok (objs s) cid (normalized raw) \<and> lt_source_type t = st \<and> lt_source_id t = si \<and>
        lt_chama_id t = cid \<and> t \<in> set (ledger_transactions (objs s')) \<and>
        sort (map entry_key (entries_of (lt_id t) (objs s'))) = sort (map line_key (normalized raw)) \<and>
        (if source_free (objs s) st si
         then ledger_transactions (objs s') = ledger_transactions (objs s) @ [t] \<and>
              durable s' = objs s' # durable s \<and>
              (\<forall>a. account_balance cid a (objs s') =
                     account_balance cid a (objs s) + balance_delta a (normalized raw))
         else objs s' = objs s \<and> durable s' = durable s))
    (\<lambda>e s'. objs s' = objs s \<and> durable s' = durable s) s"
    using assms(1) by (intro wp_post_transaction)
      (auto simp: ledger_ok_def normalized_def source_free_def
        entries_of_posted [OF assms(1)])
  from wp_final [OF this assms(2)] show ?thesis by (simp split: sum.splits)
qed

lemma wp_post_again:
  assumes ok: "ledger_ok s"
  shows "wp (post_transaction actor cid st si ds raw rv req)
    (\<lambda>t s'. wp (post_transaction actor cid st si ds raw rv req)
       (\<lambda>t' s''. t' = t \<and> s'' = sync s') (\<lambda>_ _. False) s') (\<lambda>_ _. True) s"
proof (cases "find_row ch_id cid (chamas (objs s))")
  case None
  then show ?thesis by (simp add: post_transaction_def wp)
next
  case (Some c)
  have flushed: "ledger_flushed s" using ok by (simp add: ledger_ok_def)
  show ?thesis
  proof (rule wp_post_transaction [OF flushed], goal_cases)
    case (1 ls)
    have "ledger_ok (posted (new_tx s actor cid st si ds rv)
        (entries_from cid (next_uuid s) (utc_now s) (Suc (next_uuid s)) ls) (Suc (next_uuid s + length ls)) s)"
      by (rule ledger_ok_posted [OF ok 1(2,4,5)])
    then show ?case
      by (rule wp_post_same [where ls = ls])
         (use 1 in \<open>simp_all add: Some lines_ok_def account_in_def write_ok_def access_ok_def
            entries_of_posted [OF ok]\<close>)
  next
    case (2 ls t)
    have "ledger_ok (sync s)" using ok by simp
    then have "wp (post_transaction actor cid st si ds raw rv req)
        (\<lambda>t' s'. t' = t \<and> s' = sync (sync s)) (\<lambda>_ _. False) (sync s)"
      by (rule wp_post_same [where ls = ls]) (use 2 Some in simp_all)
    then show ?case .
  qed simp
qed

text \<open>
  Reposting is idempotent: after a successful posting the same call, in the session it
  left, returns the same transaction and writes nothing.
\<close>

lemma post_transaction_idempotent:
  assumes "ledger_ok s" and "post_transaction actor cid st si ds raw rv req s = (Inr t, s')"
  shows "post_transaction actor cid st si ds raw rv req s' = (Inr t, sync s')"
  using wp_computes [OF wp_InrD [OF wp_post_again [OF assms(1)] assms(2)]] .

text \<open>
  A source that was posted with another payload (another Chama, description, reversal
  reference or other lines) is refused with \<open>ConflictError\<close>, and nothing is written.
\<close>

lemma post_transaction_conflict:
  assumes ok: "ledger_ok s" and t: "t \<in> set (ledger_transactions (objs s))"
    and lines: "normalize_lines raw = Inr ls" "lines_ok (objs s) cid ls"
    and auth: "find_row ch_id cid (chamas (objs s)) \<noteq> None" "\<not> req \<or> write_ok actor cid (objs s) m"
    and kind: "(lt_source_type t = REVERSAL_SOURCE_TYPE) = (rv \<noteq> None)"
    and differs: "lt_chama_id t \<noteq> cid \<or> lt_description t \<noteq> ds \<or> lt_reverses_transaction_id t \<noteq> rv \<or>
      sort (map entry_key (entries_of (lt_id t) (objs s))) \<noteq> sort (map line_key ls)"
  shows "\<exists>msg. post_transaction actor cid (lt_source_type t) (lt_source_id t) ds raw rv req s =
           (Inl (ConflictError msg), sync s)"
proof -
  have "ledger_flushed (sync s)" using ok by (simp add: ledger_ok_def)
  then have "wp (resolve_idempotent_retry t cid ds rv ls) (\<lambda>_ _. False)
      (\<lambda>e s'. (\<exists>msg. e = ConflictError msg) \<and> s' = sync s) (sync s)"
    using differs by (auto simp: resolve_idempotent_retry_def tx_entries_def wp ledger_flushed_def
      entities_flushed entries_of_def [symmetric])
  then have "wp (post_transaction actor cid (lt_source_type t) (lt_source_id t) ds raw rv req) (\<lambda>_ _. False)
      (\<lambda>e s'. (\<exists>msg. e = ConflictError msg) \<and> s' = sync s) s"
    by (intro wp_post_existing [OF ok t lines _ auth(1) kind]) (use auth(2) in auto)
  then show ?thesis
    by (cases "post_transaction actor cid (lt_source_type t) (lt_source_id t) ds raw rv req s";
        cases "fst (post_transaction actor cid (lt_source_type t) (lt_source_id t) ds raw rv req s)")
       (auto simp: wp_def)
qed

text \<open>
  C3. A reversal cancels its transaction: it takes a posted transaction of the Chama that is no
  reversal itself, is filed under it, and together the two move no account.
\<close>

theorem reverse_transaction_cancels:
  assumes ok: "ledger_ok s" and run: "reverse_transaction actor cid tid ds s = (Inr r, s')"
  shows "lt_reverses_transaction_id r = Some tid \<and> lt_chama_id r = cid \<and>
    r \<in> set (ledger_transactions (objs s')) \<and>
    (\<exists>t \<in> set (ledger_transactions (objs s)). lt_id t = tid \<and> lt_chama_id t = cid \<and>
       lt_reverses_transaction_id t = None) \<and>
    tx_effect tid a (objs s') + tx_effect (lt_id r) a (objs s') = 0 \<and>
    (source_free (objs s) REVERSAL_SOURCE_TYPE tid \<longrightarrow>
       account_balance cid a (objs s') = account_balance cid a (objs s) - tx_effect tid a (objs s))"
proof -
  have flushed: "ledger_flushed s" using ok by (simp add: ledger_ok_def)
  have "wp (reverse_transaction actor cid tid ds) (\<lambda>r s'. lt_reverses_transaction_id r = Some tid \<and>
    lt_chama_id r = cid \<and> r \<in> set (ledger_transactions (objs s')) \<and>
    (\<exists>t \<in> set (ledger_transactions (objs s)). lt_id t = tid \<and> lt_chama_id t = cid \<and>
       lt_reverses_transaction_id t = None) \<and>
    tx_effect tid a (objs s') + tx_effect (lt_id r) a (objs s') = 0 \<and>
    (source_free (objs s) REVERSAL_SOURCE_TYPE tid \<longrightarrow>
       account_balance cid a (objs s') = account_balance cid a (objs s) - tx_effect tid a (objs s)))
    (\<lambda>_ _. True) s"
  proof (rule wp_reverse_transaction [OF flushed], goal_cases)
    case (1 t ls)
    have "balance_delta a ls = - tx_effect tid a (objs s)"
      by (simp add: balance_delta_keys 1(6) swapped_effect tx_effect_def del: map_map)
    with 1 show ?case
      using entries_of_posted [OF ok] entries_of_older [OF ok 1(1)]
      by (auto simp: tx_effect_def swapped_effect 1(6) simp del: map_map)
  next
    case (2 t r)
    have "tx_effect (lt_id r) a (objs s) = - tx_effect tid a (objs s)"
      using sum_list_sort_eq [OF 2(12), where f = "\<lambda>(b, debit, credit). if b = a then debit - credit else 0"]
      by (simp add: tx_effect_def swapped_effect del: map_map)
    with 2 show ?case by (auto simp: source_free_def)
  qed simp
  from wp_InrD [OF this run] show ?thesis .
qed

text \<open>
  C4. No second reversal: once a transaction has a reversal, another call writes nothing, and
  if it returns, it returns that reversal.
\<close>

theorem reversed_only_once:
  assumes ok: "ledger_ok s" and r: "r \<in> set (ledger_transactions (objs s))"
    and rev: "lt_reverses_transaction_id r = Some tid"
    and run: "reverse_transaction actor cid tid ds s = (x, s')"
  shows "objs s' = objs s \<and> durable s' = durable s \<and> (case x of Inl _ \<Rightarrow> True | Inr r' \<Rightarrow> r' = r)"
proof -
  have flushed: "ledger_flushed s" using ok by (simp add: ledger_ok_def)
  have one: "r' = r" if "r' \<in> set (ledger_transactions (objs s))" "lt_reverses_transaction_id r' = Some tid" for r'
    using that r rev ok
    by (auto simp: ledger_ok_def ledger_inv_def reversals_wf_def dest: distinct_map_filterD)
  have "wp (reverse_transaction actor cid tid ds) (\<lambda>x s'. objs s' = objs s \<and> durable s' = durable s \<and> x = r)
     (\<lambda>_ s'. objs s' = objs s \<and> durable s' = durable s) s"
  proof (rule wp_reverse_transaction [OF flushed], goal_cases)
    case (1 t ls)
    then show ?case using r rev by (simp add: reversal_ok_def)
  next
    case (2 t r')
    then show ?case using one by simp
  qed auto
  from wp_final [OF this run] show ?thesis by (simp split: sum.splits)
qed

text \<open>
  C5. The trial balance: the balances that \<open>balances_in_chama\<close> reports for a Chama add up to
  zero in every database that satisfies the ledger invariant.
\<close>

theorem trial_balance:
  assumes "ledger_inv d"
  shows "sum_list (map snd (balances_in_chama chama_id d)) = 0"
  by (simp add: balances_add_up chama_entries_balance [OF assms])

text \<open>
  Keyset pagination loses and repeats nothing: the page after a non-empty first page
  continues it, and together they are the newest transactions of the Chama in order.
\<close>

lemma list_page_continues:
  assumes ok: "ledger_ok s"
    and ws: "whole_seconds (is_sqlite s) (map lt_created_at (ledger_transactions (objs s)))"
    and p1: "list_page actor cid n None i s = (Inr p, s1)" "p \<noteq> []"
    and p2: "list_page actor cid l (Some (lt_created_at (last p))) (lt_id (last p)) s1 = (Inr p', s2)"
  shows "p @ p' = take (length p + l)
    (newest_first tx_sort_key (filter (\<lambda>t. lt_chama_id t = cid) (ledger_transactions (objs s))))"
proof -
  let ?xs = "filter (\<lambda>t. lt_chama_id t = cid) (ledger_transactions (objs s))"
  have flushed: "ledger_flushed s" using ok by (simp add: ledger_ok_def)
  from wp_InrD [OF wp_list_page [OF flushed] p1(1)]
  have p: "p = keyset_page (is_sqlite s) tx_sort_key n None i ?xs" and s1: "s1 = sync s" by simp_all
  from wp_InrD [OF wp_list_page p2] flushed s1
  have p': "p' = keyset_page (is_sqlite s) tx_sort_key l (Some (lt_created_at (last p))) (lt_id (last p)) ?xs"
    by simp
  have "distinct (map lt_id ?xs)" using ok by (simp add: ledger_ok_def ledger_inv_def distinct_map_filter)
  then have dist: "distinct (map tx_sort_key ?xs)"
    by (auto simp: distinct_map tx_sort_key_def inj_on_def)
  have ws': "whole_seconds (is_sqlite s) (map (fst \<circ> tx_sort_key) ?xs)"
    using ws by (auto simp: whole_seconds_def tx_sort_key_def)
  show ?thesis using keyset_page_next [OF dist ws' p p1(2), of l] by (simp add: p' tx_sort_key_def)
qed

section \<open>The properties on the demo database\<close>

lemma ledger_ok_demo_posted: "ledger_ok demo_posted"
proof -
  have "wp demo_post (\<lambda>_ t. ledger_ok t \<and> immutable_guard (objs demo_session) (objs t))
    (\<lambda>_ t. ledger_ok t \<and> immutable_guard (objs demo_session) (objs t)) demo_session"
    unfolding demo_post_def by (rule wp_post_keeps) simp
  from wp_InrD [OF this demo_post_runs] show ?thesis by simp
qed

lemma demo_posted_simps [simp]:
  "ledger_transactions (objs demo_posted) = [demo_tx]"
  "ledger_entries (objs demo_posted) = entries_from 10 1000 1000000 1001 [dl 11 150000, cl 13 150000]"
  "ledger_accounts (objs demo_posted) = ledger_accounts demo_db"
  "chamas (objs demo_posted) = [demo_chama]" "memberships (objs demo_posted) = memberships demo_db"
  "membership_roles (objs demo_posted) = membership_roles demo_db"
  "rows demo_posted = objs demo_posted" "sync demo_posted = demo_posted"
  "is_sqlite demo_posted = False" "next_uuid demo_posted = 1003" "utc_now demo_posted = 1000000"
  by (simp_all add: demo_posted_def sync_def)

lemma demo_lines: "lines_ok demo_db 10 [dl 11 150000, cl 13 150000]"
  by (simp add: lines_ok_def single_sided_def account_in_def)

theorem post_transaction_keeps_ledger_witness: "ledger_ok demo_posted"
  using post_transaction_keeps_ledger [OF ledger_ok_demo demo_post_runs [unfolded demo_post_def]] by simp

theorem post_transaction_effect_witness:
  "durable demo_posted = [objs demo_posted, demo_db] \<and> account_balance 10 11 (objs demo_posted) = 150000 \<and>
   account_balance 10 13 (objs demo_posted) = - 150000"
  using post_transaction_effect [OF ledger_ok_demo demo_post_runs [unfolded demo_post_def]]
  by (simp add: source_free_def normalized_def normalize_two_lines account_balance_def entries_from.simps
      del: normalize_lines.simps)

lemma post_transaction_idempotent_witness: "demo_post demo_posted = (Inr demo_tx, demo_posted)"
  using post_transaction_idempotent [OF ledger_ok_demo demo_post_runs [unfolded demo_post_def]]
  by (simp add: demo_post_def)

lemma post_transaction_conflict_witness:
  "\<exists>msg. post_transaction treasurer 10 CONTRIBUTION_SOURCE_TYPE 77 (Some ''c'')
     [debit_line 11 200000, credit_line 13 200000] None True demo_posted = (Inl (ConflictError msg), demo_posted)"
proof -
  have "write_ok treasurer 10 (objs demo_posted) (demo_membership 42 32 2)"
    by (simp add: write_ok_def access_ok_def find_row_Cons)
  then show ?thesis
    using post_transaction_conflict [OF ledger_ok_demo_posted, where t = demo_tx and cid = 10 and
        ls = "[dl 11 200000, cl 13 200000]" and raw = "[debit_line 11 200000, credit_line 13 200000]"
        and actor = treasurer and rv = None and req = True and m = "demo_membership 42 32 2" and ds = "Some ''c''"]
    by (simp add: normalize_two_lines lines_ok_def single_sided_def account_in_def find_row_Cons
        source_type_defs entries_of_def entry_key_def line_key_def entries_from.simps del: normalize_lines.simps)
qed

definition demo_reversal :: ledger_transaction where
  "demo_reversal = new_tx demo_posted treasurer 10 REVERSAL_SOURCE_TYPE 1000 (Some ''r'') (Some 1000)"

definition demo_reversed :: sess where
  "demo_reversed = posted demo_reversal (entries_from 10 1003 1000000 1004 [cl 11 150000, dl 13 150000])
     1006 demo_posted"

lemma demo_reversal_runs:
  "reverse_transaction treasurer 10 1000 (Some ''r'') demo_posted = (Inr demo_reversal, demo_reversed)"
  by (rule wp_computes)
     (simp add: ledger_run normalize_swapped_two demo_reversal_def new_tx_def demo_reversed_def
       posted_def add_posting_def del: normalize_lines.simps)

theorem reverse_transaction_cancels_witness:
  "tx_effect 1000 11 (objs demo_reversed) + tx_effect 1003 11 (objs demo_reversed) = 0 \<and>
   account_balance 10 11 (objs demo_reversed) = 0"
  using reverse_transaction_cancels [OF ledger_ok_demo_posted demo_reversal_runs, of 11]
  by (simp add: demo_reversal_def source_free_def source_type_defs tx_effect_def entries_of_def
      entry_key_def account_balance_def entries_from.simps)

lemma ledger_ok_demo_reversed: "ledger_ok demo_reversed"
  using wp_InrD [OF wp_reverse_keeps [OF ledger_ok_demo_posted] demo_reversal_runs] by simp

theorem reversed_only_once_witness:
  "objs (after (reverse_transaction treasurer 10 1000 None) demo_reversed) = objs demo_reversed"
proof -
  have mem: "demo_reversal \<in> set (ledger_transactions (objs demo_reversed))" by (simp add: demo_reversed_def)
  have rev: "lt_reverses_transaction_id demo_reversal = Some 1000" by (simp add: demo_reversal_def)
  obtain x s' where run: "reverse_transaction treasurer 10 1000 None demo_reversed = (x, s')"
    by (rule prod.exhaust)
  from reversed_only_once [OF ledger_ok_demo_reversed mem rev run] run show ?thesis
    unfolding after_def by simp
qed

theorem trial_balance_witness: "sum_list (map snd (balances_in_chama 10 (objs demo_posted))) = 0"
  using trial_balance [of "objs demo_posted" 10] ledger_ok_demo_posted by (simp add: ledger_ok_def)

lemma chair_page:
  "list_page chair 10 1 None i demo_posted = (Inr [demo_tx], demo_posted)"
  "list_page chair 10 1 (Some 1000000) 1000 demo_posted = (Inr [], demo_posted)"
  by (rule wp_computes,
      simp add: list_page_def authorize_ledger_read_def wp get_chama_or_404_def authorize_chama_access_def
        find_row_Cons entities_def keyset_page_def newest_first_def
        before_cursor_def ts_col_def tx_sort_key_def LEADERSHIP_ROLES_def holds_role_def)+

lemma list_page_continues_witness:
  "[demo_tx] @ [] = take 2 (newest_first tx_sort_key (ledger_transactions (objs demo_posted)))"
  using list_page_continues [OF ledger_ok_demo_posted _ chair_page(1), of 1 "[]" demo_posted]
    chair_page(2)
  by (simp add: whole_seconds_def numeral_2_eq_2)

end
