(* ===== verification/Finance.thy ===== *)
theory Finance
  imports Ledger_Facts
begin

text \<open>
  Figures derived on demand (\<open>app/services/finance.py\<close>): the Chama's available cash from the
  ledger, a member's share value from the active shares. \<open>lock_cash_account\<close> selects the
  cash account row for update; within one session the lock has no effect on the state, across
  sessions it serializes the callers, which is the sequential execution modelled here.
\<close>

definition find_account :: "uuid \<Rightarrow> string \<Rightarrow> db \<Rightarrow> uuid option" where
  "find_account chama_id code d =
     map_option la_id (first (filter (\<lambda>a. la_chama_id a = chama_id \<and> la_code a = code) (ledger_accounts d)))"

definition get_account_id :: "uuid \<Rightarrow> string \<Rightarrow> uuid act" where
  "get_account_id chama_id code =
     bind (select_first ledger_accounts (\<lambda>a. la_chama_id a = chama_id \<and> la_code a = code)) (\<lambda>account.
     case account of
       None \<Rightarrow> raise (StateError (''The default ledger account '' @ code @ '' is missing for this Chama''))
     | Some a \<Rightarrow> ret (la_id a))"

definition available_chama_cash :: "uuid \<Rightarrow> money act" where
  "available_chama_cash chama_id =
     bind (get_account_id chama_id CASH_CODE) (\<lambda>cash_account_id.
     bind (scalar (account_balance chama_id cash_account_id)) (\<lambda>balance.
     case quantize_checked 2 (dec_of_money balance) of
       None \<Rightarrow> raise InvalidOperation
     | Some cash \<Rightarrow> ret cash))"

definition lock_cash_account :: "uuid \<Rightarrow> uuid act" where
  "lock_cash_account chama_id =
     bind (select_first ledger_accounts (\<lambda>a. la_chama_id a = chama_id \<and> la_code a = CASH_CODE)) (\<lambda>account.
     case account of
       None \<Rightarrow> raise (StateError ''The default ledger account 1000 is missing for this Chama'')
     | Some a \<Rightarrow> ret (la_id a))"

definition active_units :: "uuid \<Rightarrow> db \<Rightarrow> int" where
  "active_units membership_id d =
     sum_list (map sh_units (filter (\<lambda>h. sh_membership_id h = membership_id \<and> sh_status h = SH_ACTIVE) (shares d)))"

definition member_share_value :: "uuid \<Rightarrow> money act" where
  "member_share_value membership_id =
     bind (scalar (active_units membership_id)) (\<lambda>units.
     bind (asks (cf_share_unit_price \<circ> cfg)) (\<lambda>unit_price.
     case quantize_checked 2 (dec_of_e4 units * unit_price) of
       None \<Rightarrow> raise InvalidOperation
     | Some value \<Rightarrow> ret value))"

section \<open>Their specifications\<close>

text \<open>The cash of a Chama, and the value of a member's shares, in a database.\<close>

definition cash_of :: "uuid \<Rightarrow> db \<Rightarrow> money" where
  "cash_of chama_id d =
     (case find_account chama_id CASH_CODE d of None \<Rightarrow> 0 | Some a \<Rightarrow> account_balance chama_id a d)"

definition share_value_of :: "rat \<Rightarrow> uuid \<Rightarrow> db \<Rightarrow> money" where
  "share_value_of unit_price membership_id d = quantize 2 (dec_of_e4 (active_units membership_id d) * unit_price)"

lemma find_account_first:
  "find_account c code d = Some a \<Longrightarrow>
     \<exists>x \<in> set (ledger_accounts d). la_id x = a \<and> la_chama_id x = c \<and> la_code x = code"
  by (auto simp: find_account_def dest!: first_filter_SomeD)

lemma wp_get_account_id:
  assumes "ledger_flushed s"
  shows "wp (get_account_id c code) Q R s =
    (case find_account c code (objs s) of
       None \<Rightarrow> R (StateError (''The default ledger account '' @ code @ '' is missing for this Chama'')) (sync s)
     | Some a \<Rightarrow> Q a (sync s))"
  using assms by (simp add: get_account_id_def wp find_account_def split: option.split)

lemma wp_lock_cash_account:
  assumes "ledger_flushed s"
  shows "wp (lock_cash_account c) Q R s =
    (case find_account c CASH_CODE (objs s) of
       None \<Rightarrow> R (StateError ''The default ledger account 1000 is missing for this Chama'') (sync s)
     | Some a \<Rightarrow> Q a (sync s))"
  using assms by (simp add: lock_cash_account_def wp find_account_def split: option.split)

lemma account_balance_rows:
  "ledger_flushed s \<Longrightarrow> account_balance c a (rows (sync s)) = account_balance c a (objs s)"
  by (simp add: account_balance_def)

lemma wp_available_chama_cash:
  assumes "ledger_flushed s"
  shows "wp (available_chama_cash c) Q R s =
    (case find_account c CASH_CODE (objs s) of
       None \<Rightarrow> R (StateError (''The default ledger account '' @ CASH_CODE @ '' is missing for this Chama'')) (sync s)
     | Some a \<Rightarrow> if \<bar>account_balance c a (objs s)\<bar> < 10 ^ DECIMAL_PRECISION
                  then Q (account_balance c a (objs s)) (sync s) else R InvalidOperation (sync s))"
  using assms
  by (simp add: available_chama_cash_def wp wp_get_account_id account_balance_rows quantize_checked_def
      split: option.split)

lemma wp_member_share_value:
  "wp (member_share_value m) Q R s =
    (if \<bar>share_value_of (cf_share_unit_price (cfg s)) m (rows (sync s))\<bar> < 10 ^ DECIMAL_PRECISION
     then Q (share_value_of (cf_share_unit_price (cfg s)) m (rows (sync s))) (sync s)
     else R InvalidOperation (sync s))"
  by (simp add: member_share_value_def wp share_value_of_def quantize_checked_def)

section \<open>Two-line postings\<close>

text \<open>
  From one database to another every account balance of the Chama is the same, except that the
  amount was debited to one account and credited to the other.
\<close>

definition transfer :: "uuid \<Rightarrow> uuid \<Rightarrow> uuid \<Rightarrow> money \<Rightarrow> db \<Rightarrow> db \<Rightarrow> bool" where
  "transfer chama_id debited credited amount d d' \<longleftrightarrow>
     (\<forall>a. account_balance chama_id a d' = account_balance chama_id a d +
        (if a = debited then amount else 0) - (if a = credited then amount else 0))"

lemma account_balance_log_db [simp]: "account_balance c a (log_db x n d) = account_balance c a d"
  by (simp add: account_balance_def)

lemma account_balance_same:
  "ledger_entries d' = ledger_entries d \<Longrightarrow> account_balance c a d' = account_balance c a d"
  by (simp add: account_balance_def)

lemma transfer_posting:
  assumes "ledger_entries d' = ledger_entries d"
  shows "transfer c a b m d (log_db x n (add_posting t (entries_from c i now j [dl a m, cl b m]) d'))"
    and "transfer c a b m d (add_posting t (entries_from c i now j [dl a m, cl b m]) d')"
  using account_balance_same [OF assms] by (auto simp: transfer_def)

text \<open>Money that leaves cash leaves the rest; nothing else of the Chama's money moves.\<close>

lemma transfer_total:
  "transfer c a b m d d' \<Longrightarrow> finite A \<Longrightarrow> a \<in> A \<Longrightarrow> b \<in> A \<Longrightarrow>
     (\<Sum>x \<in> A. account_balance c x d') = (\<Sum>x \<in> A. account_balance c x d)"
  by (simp add: transfer_def sum.distrib sum_subtractf)

section \<open>Post, record the event, commit\<close>

text \<open>
  How every service ends a financial operation: the posting commits the pending changes with
  itself; the audit event follows in a second commit.
\<close>

lemma wp_post_audit_commit:
  assumes flushed: "ledger_flushed s" and st: "st \<noteq> REVERSAL_SOURCE_TYPE"
    and posts: "\<And>ls a n u u'. normalize_lines raw = Inr ls \<Longrightarrow> lines_ok (objs s) cid ls \<Longrightarrow>
      source_free (objs s) st si \<Longrightarrow> next_uuid s < u' \<Longrightarrow> u' < u \<Longrightarrow>
      P (saved (log_db a n (add_posting (new_tx s actor cid st si ds None)
          (entries_from cid (next_uuid s) (utc_now s) (Suc (next_uuid s)) ls) (objs s))) u
        (saved (add_posting (new_tx s actor cid st si ds None)
          (entries_from cid (next_uuid s) (utc_now s) (Suc (next_uuid s)) ls) (objs s)) u' s))"
    and again: "\<And>ls t a n u. normalize_lines raw = Inr ls \<Longrightarrow> lines_ok (objs s) cid ls \<Longrightarrow>
      t \<in> set (ledger_transactions (objs s)) \<Longrightarrow> lt_source_type t = st \<Longrightarrow> lt_source_id t = si \<Longrightarrow>
      lt_chama_id t = cid \<Longrightarrow>
      sort (map entry_key (entries_of (lt_id t) (objs s))) = sort (map line_key ls) \<Longrightarrow> next_uuid s < u \<Longrightarrow>
      P (saved (log_db a n (objs s)) u s)"
    and fails: "\<And>e t. t = s \<or> t = sync s \<Longrightarrow> R e t"
  shows "wp (post_transaction actor cid st si ds raw None req)
    (\<lambda>_. wp (audit_record aa ac ak ar ai ap ab) (\<lambda>_. wp commit (\<lambda>_. P) R') R'') R s"
  apply (rule wp_post_transaction [OF flushed])
    apply (rule wp_audit_then_commit, simp add: posted_saved, rule posts, assumption+, simp, simp)
   apply (rule wp_audit_then_commit, simp, rule again, assumption+)
  apply (rule fails, assumption)
  done

text \<open>Changes of the other tables leave what a posting reads as it is.\<close>

lemma find_account_tables [simp]:
  "find_account c code (payouts_update fp d) = find_account c code d"
  "find_account c code (contributions_update fc d) = find_account c code d"
  "find_account c code (shares_update fs d) = find_account c code d"
  "find_account c code (fee_payments_update fy d) = find_account c code d"
  "find_account c code (registration_fees_update fr d) = find_account c code d"
  by (simp_all add: find_account_def)

lemma account_balance_tables [simp]:
  "account_balance c a (payouts_update fp d) = account_balance c a d"
  "account_balance c a (contributions_update fc d) = account_balance c a d"
  "account_balance c a (shares_update fs d) = account_balance c a d"
  "account_balance c a (fee_payments_update fy d) = account_balance c a d"
  "account_balance c a (registration_fees_update fr d) = account_balance c a d"
  by (simp_all add: account_balance_def)

lemma write_ok_tables [simp]:
  "write_ok u c (payouts_update fp d) m = write_ok u c d m"
  "write_ok u c (contributions_update fc d) m = write_ok u c d m"
  "write_ok u c (shares_update fs d) m = write_ok u c d m"
  "write_ok u c (fee_payments_update fy d) m = write_ok u c d m"
  "write_ok u c (registration_fees_update fr d) m = write_ok u c d m"
  by (simp_all add: write_ok_def access_ok_def)

lemma lines_ok_tables [simp]:
  "lines_ok (payouts_update fp d) c ls = lines_ok d c ls"
  "lines_ok (contributions_update fc d) c ls = lines_ok d c ls"
  "lines_ok (shares_update fs d) c ls = lines_ok d c ls"
  "lines_ok (fee_payments_update fy d) c ls = lines_ok d c ls"
  "lines_ok (registration_fees_update fr d) c ls = lines_ok d c ls"
  by (simp_all add: lines_ok_def account_in_def)

lemma source_free_tables [simp]:
  "source_free (payouts_update fp d) st i = source_free d st i"
  "source_free (contributions_update fc d) st i = source_free d st i"
  "source_free (shares_update fs d) st i = source_free d st i"
  "source_free (fee_payments_update fy d) st i = source_free d st i"
  "source_free (registration_fees_update fr d) st i = source_free d st i"
  by (simp_all add: source_free_def)

text \<open>
  A posting of one amount between two accounts of the default chart, as the services book it:
  the accounts are looked up by code, the debited one first.
\<close>

definition book ::
  "sess \<Rightarrow> user \<Rightarrow> uuid \<Rightarrow> string \<Rightarrow> uuid \<Rightarrow> string \<Rightarrow> uuid \<Rightarrow> uuid \<Rightarrow> money \<Rightarrow> db \<Rightarrow> db" where
  "book s actor chama_id source_type source_id description debited credited amount d =
     add_posting (new_tx s actor chama_id source_type source_id (Some description) None)
       (entries_from chama_id (next_uuid s) (utc_now s) (Suc (next_uuid s)) [dl debited amount, cl credited amount]) d"

lemma book_simps [simp]:
  "loans (book s u c st si ds a b m d) = loans d" "repayments (book s u c st si ds a b m d) = repayments d"
  "payouts (book s u c st si ds a b m d) = payouts d" "contributions (book s u c st si ds a b m d) = contributions d"
  "shares (book s u c st si ds a b m d) = shares d" "fee_payments (book s u c st si ds a b m d) = fee_payments d"
  "registration_fees (book s u c st si ds a b m d) = registration_fees d"
  "memberships (book s u c st si ds a b m d) = memberships d"
  "ledger_accounts (book s u c st si ds a b m d) = ledger_accounts d"
  by (simp_all add: book_def)

lemma source_free_book [simp]:
  "source_free (log_db x n d) st i = source_free d st i"
  "source_free (book s u c st si ds a b m d) st' si' \<longleftrightarrow> source_free d st' si' \<and> (st, si) \<noteq> (st', si')"
  by (auto simp: source_free_def book_def)

lemma transfer_book:
  assumes "ledger_entries d' = ledger_entries d"
  shows "transfer c a b m d (book s u c st si ds a b m d')"
    and "transfer c a b m d (log_db x n (book s u c st si ds a b m d'))"
  using transfer_posting [OF assms] by (simp_all add: book_def)

lemma account_balance_book:
  "account_balance c x (book s u c st si ds a b m d) =
     account_balance c x d + (if x = a then m else 0) - (if x = b then m else 0)"
  using transfer_book(1) [OF refl] unfolding transfer_def by blast

lemma lines_ok_book: "lines_ok d c [dl a m, cl b m] \<Longrightarrow> 0 < m"
  by (simp add: lines_ok_def single_sided_def)

lemma wp_book:
  assumes flushed: "ledger_flushed s" and st: "st \<noteq> REVERSAL_SOURCE_TYPE"
    and posts: "\<And>a b u. find_account cid code_a (objs s) = Some a \<Longrightarrow> find_account cid code_b (objs s) = Some b \<Longrightarrow>
      lines_ok (objs s) cid [dl a m, cl b m] \<Longrightarrow> source_free (objs s) st si \<Longrightarrow> next_uuid s < u \<Longrightarrow>
      T (saved (book s actor cid st si ds a b m (objs s)) u s)"
    and again: "\<And>t. t \<in> set (ledger_transactions (objs s)) \<Longrightarrow> lt_source_type t = st \<Longrightarrow> lt_source_id t = si \<Longrightarrow>
      T (sync s)"
    and fails: "\<And>e t. t = s \<or> t = sync s \<Longrightarrow> R e t"
  shows "wp (get_account_id cid code_a) (\<lambda>x. wp (get_account_id cid code_b) (\<lambda>y.
    wp (post_transaction actor cid st si (Some ds) [debit_line x m, credit_line y m] None req) (\<lambda>_. T) R) R) R s"
proof -
  note fs = ledger_flushed_sync [OF flushed]
  have post: "wp (post_transaction actor cid st si (Some ds) [debit_line a m, credit_line b m] None req) (\<lambda>_. T) R (sync s)"
    if acc: "find_account cid code_a (objs s) = Some a" "find_account cid code_b (objs s) = Some b" for a b
  proof (rule wp_post_transaction [OF fs], goal_cases)
    case (1 ls)
    have "ls = [dl a m, cl b m]"
      using normalize_debit_line normalize_credit_line 1(1)
      by (auto simp: normalize_lines.simps split: sum.splits if_splits)
    with 1 posts [OF acc] show ?case by (simp add: posted_saved book_def [symmetric] new_tx_def) (simp add: book_def new_tx_def)
  qed (use again fails in auto)
  show ?thesis
    by (simp add: wp_get_account_id flushed fs split: option.split) (use post fails in auto)
qed

section \<open>Undoing a posting\<close>

text \<open>
  How the services reverse a financial operation: the transaction posted for the source, if
  there is one, is reversed in the ledger.
\<close>

definition undo_posting :: "user \<Rightarrow> uuid \<Rightarrow> string \<Rightarrow> uuid \<Rightarrow> string \<Rightarrow> unit act" where
  "undo_posting actor chama_id source_type source_id description =
     bind (get_by_source source_type source_id) (\<lambda>posting.
     case posting of
       None \<Rightarrow> ret ()
     | Some t \<Rightarrow> bind (reverse_transaction actor chama_id (lt_id t) (Some description)) (\<lambda>_. ret ()))"

text \<open>
  Its effect on a session at rest: nothing, when there was no posting or it had been reversed;
  else the committed posting of the swapped lines.
\<close>

definition undone :: "sess \<Rightarrow> user \<Rightarrow> uuid \<Rightarrow> string \<Rightarrow> uuid \<Rightarrow> string \<Rightarrow> sess \<Rightarrow> bool" where
  "undone s actor chama_id source_type source_id description t \<longleftrightarrow>
     t = s \<and>
       (source_free (objs s) source_type source_id \<or>
        (\<exists>p \<in> set (ledger_transactions (objs s)). lt_source_type p = source_type \<and>
           lt_source_id p = source_id \<and> \<not> source_free (objs s) REVERSAL_SOURCE_TYPE (lt_id p))) \<or>
     (\<exists>p ls u. p \<in> set (ledger_transactions (objs s)) \<and> lt_source_type p = source_type \<and>
        lt_source_id p = source_id \<and>
        (\<exists>q \<in> set (ledger_transactions (objs s)). lt_id q = lt_id p \<and> lt_chama_id q = chama_id \<and>
           lt_reverses_transaction_id q = None) \<and>
        map line_key ls = map swap_key (entries_of (lt_id p) (objs s)) \<and> lines_ok (objs s) chama_id ls \<and>
        source_free (objs s) REVERSAL_SOURCE_TYPE (lt_id p) \<and>
        reversal_ok (objs s) chama_id REVERSAL_SOURCE_TYPE (Some (lt_id p)) \<and> next_uuid s < u \<and>
        t = saved (add_posting (new_tx s actor chama_id REVERSAL_SOURCE_TYPE (lt_id p)
              (Some description) (Some (lt_id p)))
              (entries_from chama_id (next_uuid s) (utc_now s) (Suc (next_uuid s)) ls) (objs s)) u s)"

lemma undone_clean: "undone s actor cid st si ds t \<Longrightarrow> clean s \<Longrightarrow> clean t"
  by (auto simp: undone_def)

lemma undone_source_free:
  "undone s actor cid st si ds t \<Longrightarrow> st' \<noteq> REVERSAL_SOURCE_TYPE \<Longrightarrow>
     source_free (objs t) st' i = source_free (objs s) st' i"
  by (auto simp: undone_def source_free_def)

lemma undone_keeps:
  assumes "undone s actor cid st si ds t"
  shows "loans (objs t) = loans (objs s)" "repayments (objs t) = repayments (objs s)"
    "payouts (objs t) = payouts (objs s)" "fee_payments (objs t) = fee_payments (objs s)"
    "registration_fees (objs t) = registration_fees (objs s)" "contributions (objs t) = contributions (objs s)"
    "shares (objs t) = shares (objs s)" "memberships (objs t) = memberships (objs s)"
    "ledger_accounts (objs t) = ledger_accounts (objs s)" "autoflush t = autoflush s" "local_now t = local_now s"
    "cfg t = cfg s" "utc_now t = utc_now s"
  using assms by (auto simp: undone_def)

text \<open>Ending twice a session at rest commits its database again.\<close>

lemma wp_commit_saved: "wp commit Q R (saved d u s) = Q () (saved d u (saved d u s))"
  by (simp add: wp_commit saved_def)

lemma wp_undo_posting:
  assumes clean: "clean s" and ok: "\<And>t. undone s actor cid st si ds t \<Longrightarrow> Q () t"
    and no: "\<And>e. R e s"
  shows "wp (undo_posting actor cid st si ds) Q R s"
proof (cases "first (filter (\<lambda>t. lt_source_type t = st \<and> lt_source_id t = si) (ledger_transactions (objs s)))")
  case None
  then have "undone s actor cid st si ds s"
    by (auto simp: undone_def source_free_def filter_empty_conv)
  with None ok show ?thesis by (simp add: undo_posting_def wp_bind get_by_source_def wp_select_first clean wp_ret)
next
  case (Some p)
  then have p: "p \<in> set (ledger_transactions (objs s))" "lt_source_type p = st" "lt_source_id p = si"
    by (auto dest: first_filter_SomeD)
  have "wp (reverse_transaction actor cid (lt_id p) (Some ds)) (\<lambda>_. Q ()) R s"
  proof (rule wp_reverse_transaction [OF clean_ledger_flushed [OF clean]], goal_cases)
    case (1 t ls)
    show ?case
      unfolding posted_saved
      by (rule ok, unfold undone_def, rule disjI2, intro exI [of _ p] exI [of _ ls] exI [of _ "Suc (next_uuid s + length ls)"])
         (use p 1 in auto)
  next
    case (2 t q)
    then have "\<not> source_free (objs s) REVERSAL_SOURCE_TYPE (lt_id p)" by (auto simp: source_free_def)
    then have "undone s actor cid st si ds s" using p by (auto simp: undone_def)
    then show ?case using ok by (simp add: clean)
  qed (auto simp: clean no)
  with Some show ?thesis by (simp add: undo_posting_def wp_bind get_by_source_def wp_select_first clean wp_ret)
qed

text \<open>
  Undoing what was booked: the transaction is found by its source, its two entries are swapped,
  and the amount goes back.
\<close>

lemma entries_of_book:
  assumes "ledger_inv d" and "ledger_fresh (next_uuid s) d" and "ledger_entries d' = ledger_entries d"
  shows "map entry_key (entries_of (next_uuid s) (book s actor cid st si ds a b m d')) = [(a, m, 0), (b, 0, m)]"
proof -
  have "\<forall>e \<in> set (ledger_entries d). le_transaction_id e \<noteq> next_uuid s"
    using assms(1,2) unfolding ledger_inv_def ledger_fresh_def by (metis less_irrefl)
  then have "filter (\<lambda>e. le_transaction_id e = next_uuid s) (ledger_entries d) = []"
    by (simp add: filter_empty_conv)
  then show ?thesis
    by (simp add: entries_of_def book_def add_posting_def assms(3) entries_from.simps entry_key_def)
qed

lemma undone_swaps:
  assumes undone: "undone t actor cid st si ds t'"
    and posted: "\<not> source_free (objs t) st si"
    and only: "\<And>p. p \<in> set (ledger_transactions (objs t)) \<Longrightarrow> lt_source_type p = st \<Longrightarrow> lt_source_id p = si \<Longrightarrow> lt_id p = i"
    and free: "source_free (objs t) REVERSAL_SOURCE_TYPE i"
    and keys: "map entry_key (entries_of i (objs t)) = [(a, m, 0), (b, 0, m)]"
  shows "transfer cid b a m (objs t) (objs t')"
proof -
  from undone obtain p ls u where p: "p \<in> set (ledger_transactions (objs t))" "lt_source_type p = st"
      "lt_source_id p = si" "map line_key ls = map swap_key (entries_of (lt_id p) (objs t))"
    and t': "t' = saved (add_posting (new_tx t actor cid REVERSAL_SOURCE_TYPE (lt_id p) (Some ds) (Some (lt_id p)))
      (entries_from cid (next_uuid t) (utc_now t) (Suc (next_uuid t)) ls) (objs t)) u t"
    using posted free only unfolding undone_def by (elim disjE conjE exE bexE) simp_all
  have "map line_key ls = map (\<lambda>(x, y, z). (x, z, y)) (map entry_key (entries_of i (objs t)))"
    using p(4) only [OF p(1-3)] by (simp add: swap_key_def entry_key_def)
  then have "map line_key ls = [(a, 0, m), (b, m, 0)]" unfolding keys by simp
  then show ?thesis by (auto simp: transfer_def t' balance_delta_keys simp del: map_map)
qed

lemma undone_book:
  assumes inv: "ledger_inv (objs s)" "ledger_fresh (next_uuid s) (objs s)"
    and free: "source_free (objs s) st si" "source_free (objs s) REVERSAL_SOURCE_TYPE (next_uuid s)"
    and st: "st \<noteq> REVERSAL_SOURCE_TYPE"
    and d: "ledger_entries d = ledger_entries (objs s)" "ledger_transactions d = ledger_transactions (objs s)"
    and t: "objs t = log_db x n (book s actor cid st si ds a b m d)"
    and undone: "undone t actor' cid st si ds' t'"
  shows "transfer cid b a m (objs t) (objs t')"
proof -
  have txs: "ledger_transactions (objs t) = ledger_transactions (objs s) @
      [new_tx s actor cid st si (Some ds) None]"
    by (simp add: t book_def d)
  have it: "lt_id p = next_uuid s"
    if "p \<in> set (ledger_transactions (objs t))" "lt_source_type p = st" "lt_source_id p = si" for p
  proof -
    have "p \<in> set (ledger_transactions (objs s)) \<or> p = new_tx s actor cid st si (Some ds) None"
      using that(1) unfolding txs by auto
    then have "p = new_tx s actor cid st si (Some ds) None"
      using that(2,3) free(1) unfolding source_free_def by blast
    then show ?thesis by simp
  qed
  have rfree: "source_free (objs t) REVERSAL_SOURCE_TYPE (next_uuid s)"
    using free(2) st by (auto simp: source_free_def txs)
  have posted: "\<not> source_free (objs t) st si" by (auto simp: source_free_def txs)
  have keys: "map entry_key (entries_of (next_uuid s) (objs t)) = [(a, m, 0), (b, 0, m)]"
    using entries_of_book [OF inv d(1)] by (simp add: t entries_of_def)
  show ?thesis by (rule undone_swaps [OF undone posted it rfree keys])
qed

end
