(* ===== verification/Loan.thy ===== *)
theory Loan
  imports Finance
begin

text \<open>
  Loans and their repayments (\<open>app/services/loan.py\<close>, \<open>app/repositories/loan.py\<close>,
  \<open>app/repositories/loan_repayment.py\<close>, the constraints of \<open>app/models/loan*.py\<close>): the
  lifecycle, the eligibility rules, flat interest, interest-first allocation of repayments, the
  ledger postings of disbursement and repayment. A service method that takes a mapped object
  takes its row here; assignments to its attributes go to the row of the same key.
\<close>

definition LOAN_INTEREST_RATE :: int where "LOAN_INTEREST_RATE = 500"
definition MIN_TERM_MONTHS :: int where "MIN_TERM_MONTHS = 3"
definition MAX_TERM_MONTHS :: int where "MAX_TERM_MONTHS = 12"
definition MIN_TENURE_DAYS :: int where "MIN_TENURE_DAYS = 30"

section \<open>Repositories and constraints\<close>

definition set_loan :: "uuid \<Rightarrow> (loan \<Rightarrow> loan) \<Rightarrow> unit act" where
  "set_loan i f = change (loans_update (upd_row ln_id i f))"

definition set_repayment :: "uuid \<Rightarrow> (loan_repayment \<Rightarrow> loan_repayment) \<Rightarrow> unit act" where
  "set_repayment i f = change (repayments_update (upd_row rp_id i f))"

definition get_loan_by_id :: "uuid \<Rightarrow> loan option act" where
  "get_loan_by_id loan_id = select_first loans (\<lambda>l. ln_id l = loan_id)"

definition confirmed_by_loan :: "uuid \<Rightarrow> loan_repayment list act" where
  "confirmed_by_loan loan_id =
     select_all repayments (\<lambda>r. rp_loan_id r = loan_id \<and> rp_status r = RP_CONFIRMED)"

definition loan_check :: "db \<Rightarrow> loan \<Rightarrow> string option" where
  "loan_check d l =
     (if \<not> 0 < ln_principal l then Some ''ck_loans_principal_positive''
      else if \<not> 0 \<le> ln_interest_rate l then Some ''ck_loans_interest_rate_non_negative''
      else if \<not> (3 \<le> ln_term_months l \<and> ln_term_months l \<le> 12) then Some ''ck_loans_term_months_range''
      else if \<not> list_ex (\<lambda>m. ms_chama_id m = ln_chama_id l \<and> ms_id m = ln_membership_id l) (memberships d)
      then Some ''fk_loans_membership_chama''
      else None)"

definition repayment_check :: "db \<Rightarrow> loan_repayment \<Rightarrow> string option" where
  "repayment_check d r =
     (if \<not> 0 < rp_amount r then Some ''ck_loan_repayments_amount_positive''
      else if \<not> (0 \<le> rp_principal_portion r \<and> 0 \<le> rp_interest_portion r)
      then Some ''ck_loan_repayments_portions_non_negative''
      else if \<not> rp_amount r = rp_principal_portion r + rp_interest_portion r
      then Some ''ck_loan_repayments_amount_split''
      else if \<not> list_ex (\<lambda>l. ln_chama_id l = rp_chama_id r \<and> ln_id l = rp_loan_id r) (loans d)
      then Some ''fk_loan_repayments_loan_chama''
      else None)"

definition create_repayment ::
  "uuid \<Rightarrow> uuid \<Rightarrow> money \<Rightarrow> money \<Rightarrow> money \<Rightarrow> uuid \<Rightarrow> string option \<Rightarrow> loan_repayment act" where
  "create_repayment chama_id loan_id amount principal_portion interest_portion recorded_by note =
     bind uuid4 (\<lambda>i.
     let r = \<lparr>rp_id = i, rp_chama_id = chama_id, rp_loan_id = loan_id, rp_amount = amount,
              rp_principal_portion = principal_portion, rp_interest_portion = interest_portion,
              rp_status = RP_CONFIRMED, rp_recorded_by_user_id = recorded_by, rp_note = note\<rparr>
     in bind (insert_row repayment_check (\<lambda>r d. d\<lparr>repayments := repayments d @ [r]\<rparr>) r) (\<lambda>_. ret r))"

section \<open>Derived values\<close>

text \<open>Principal in cents times a rate in ten-thousandths.\<close>

definition interest_of :: "loan \<Rightarrow> money" where
  "interest_of l = quantize 2 (dec_of_money (ln_principal l) * dec_of_e4 (ln_interest_rate l))"

definition interest_for :: "loan \<Rightarrow> money act" where
  "interest_for l =
     (case quantize_checked 2 (dec_of_money (ln_principal l) * dec_of_e4 (ln_interest_rate l)) of
        None \<Rightarrow> raise InvalidOperation | Some m \<Rightarrow> ret m)"

definition outstanding_for :: "loan \<Rightarrow> (money \<times> money) act" where
  "outstanding_for l =
     bind (confirmed_by_loan (ln_id l)) (\<lambda>rs.
     bind (interest_for l) (\<lambda>interest.
     ret (ln_principal l - sum_list (map rp_principal_portion rs),
          interest - sum_list (map rp_interest_portion rs))))"

definition status_from_outstanding :: "loan \<Rightarrow> money \<Rightarrow> money \<Rightarrow> loan_status act" where
  "status_from_outstanding l outstanding_principal outstanding_interest =
     (if outstanding_principal \<le> 0 \<and> outstanding_interest \<le> 0 then ret LN_REPAID
      else if outstanding_principal \<noteq> ln_principal l then ret LN_PARTIALLY_REPAID
      else bind (interest_for l) (\<lambda>interest.
           ret (if outstanding_interest = interest then LN_DISBURSED else LN_PARTIALLY_REPAID)))"

definition status_after_reversal :: "loan \<Rightarrow> loan_status act" where
  "status_after_reversal l =
     bind (confirmed_by_loan (ln_id l)) (\<lambda>confirmed.
     bind (interest_for l) (\<lambda>interest.
     status_from_outstanding l
       (ln_principal l - sum_list (map rp_principal_portion confirmed))
       (interest - sum_list (map rp_interest_portion confirmed))))"

definition is_overdue :: "loan \<Rightarrow> bool act" where
  "is_overdue l =
     asks (\<lambda>s. ln_status l \<in> set [LN_DISBURSED, LN_PARTIALLY_REPAID] \<and>
       (case ln_maturity_date l of None \<Rightarrow> False | Some m \<Rightarrow> instant m < utc_now s))"

record loan_view =
  lv_loan :: loan
  lv_total_interest :: money
  lv_total_expected_repayment :: money
  lv_outstanding_principal :: money
  lv_outstanding_interest :: money
  lv_status :: string
  lv_is_overdue :: bool

definition serialize_loan :: "loan \<Rightarrow> loan_view act" where
  "serialize_loan l =
     bind (outstanding_for l) (\<lambda>(principal, interest).
     bind (interest_for l) (\<lambda>total_interest.
     bind (is_overdue l) (\<lambda>overdue.
     ret \<lparr>lv_loan = l, lv_total_interest = total_interest,
          lv_total_expected_repayment = ln_principal l + total_interest,
          lv_outstanding_principal = principal, lv_outstanding_interest = interest,
          lv_status = loan_status_value (ln_status l), lv_is_overdue = overdue\<rparr>)))"

section \<open>Guards\<close>

definition check_principal_limit :: "uuid \<Rightarrow> uuid \<Rightarrow> money \<Rightarrow> unit act" where
  "check_principal_limit membership_id chama_id amount =
     bind (member_share_value membership_id) (\<lambda>share_value.
     bind (ensure (\<not> amount > share_value * 3)
       (StateError ''Loan principal cannot exceed three times the member's share value'')) (\<lambda>_.
     bind (available_chama_cash chama_id) (\<lambda>cash.
     ensure (\<not> amount > cash)
       (StateError ''Loan principal cannot exceed the Chama's available cash''))))"

definition transition :: "loan \<Rightarrow> loan_status list \<Rightarrow> loan_status \<Rightarrow> unit act" where
  "transition l allowed_from to_status =
     bind (ensure (ln_status l \<in> set allowed_from)
       (StateError (''A loan in status '' @ loan_status_value (ln_status l) @
          '' cannot transition to '' @ loan_status_value to_status))) (\<lambda>_.
     bind (set_loan (ln_id l) (ln_status_update (\<lambda>_. to_status))) (\<lambda>_. flush))"

definition forbid_self_action :: "loan \<Rightarrow> uuid \<Rightarrow> string \<Rightarrow> unit act" where
  "forbid_self_action l actor_membership_id verb =
     ensure (ln_membership_id l \<noteq> actor_membership_id)
       (StateError (''A member cannot '' @ verb @ '' their own loan application''))"

definition get_chama_loan :: "uuid \<Rightarrow> uuid \<Rightarrow> loan act" where
  "get_chama_loan chama_id loan_id =
     bind (get_loan_by_id loan_id) (\<lambda>found.
     case found of
       None \<Rightarrow> raise (NotFoundError ''Loan not found in this Chama'')
     | Some l \<Rightarrow> if ln_chama_id l \<noteq> chama_id
                 then raise (NotFoundError ''Loan not found in this Chama'') else ret l)"

text \<open>The object a handler returns, with the attributes it has by then.\<close>

definition reload_loan :: "uuid \<Rightarrow> loan act" where
  "reload_loan i =
     bind (get_by_key loans ln_id i) (\<lambda>found.
     case found of None \<Rightarrow> raise ValueError | Some l \<Rightarrow> ret l)"

section \<open>The lifecycle\<close>

definition loan_apply :: "user \<Rightarrow> uuid \<Rightarrow> money \<Rightarrow> int \<Rightarrow> string option \<Rightarrow> loan act" where
  "loan_apply actor chama_id amount term_months note =
     bind (get_chama_or_404 chama_id) (\<lambda>chama.
     bind (authorize_chama_write actor (ch_id chama)) (\<lambda>m.
     bind (asks utc_now) (\<lambda>now.
     bind (ensure (\<not> instant (ms_joined_at m) > now - MIN_TENURE_DAYS * MICROS_PER_DAY)
       (StateError ''A member must have been an active member for at least one month to apply'')) (\<lambda>_.
     bind (check_principal_limit (ms_id m) (ch_id chama) amount) (\<lambda>_.
     bind uuid4 (\<lambda>i.
     let l = \<lparr>ln_id = i, ln_chama_id = ch_id chama, ln_membership_id = ms_id m,
              ln_principal = amount, ln_interest_rate = LOAN_INTEREST_RATE,
              ln_term_months = term_months, ln_status = LN_DRAFT, ln_approval_date = None,
              ln_disbursement_date = None, ln_maturity_date = None, ln_approved_by_user_id = None,
              ln_disbursed_by_user_id = None, ln_recorded_by_user_id = us_id actor, ln_note = note\<rparr>
     in bind (insert_row loan_check (\<lambda>r d. d\<lparr>loans := loans d @ [r]\<rparr>) l) (\<lambda>_.
     bind (audit_record (Some (us_id actor)) (Some (ch_id chama)) LOAN_APPLY ''loan'' (Some i)
       (Some [(''principal'', JMoney amount), (''term_months'', JInt term_months)]) True) (\<lambda>_.
     bind commit (\<lambda>_. ret l)))))))))"

definition loan_submit :: "user \<Rightarrow> uuid \<Rightarrow> uuid \<Rightarrow> loan act" where
  "loan_submit actor chama_id loan_id =
     bind (get_chama_or_404 chama_id) (\<lambda>chama.
     bind (authorize_chama_write actor (ch_id chama)) (\<lambda>m.
     bind (get_chama_loan (ch_id chama) loan_id) (\<lambda>l.
     bind (ensure (ln_membership_id l = ms_id m)
       (StateError ''Only the applicant can submit their loan application'')) (\<lambda>_.
     bind (transition l [LN_DRAFT] LN_SUBMITTED) (\<lambda>_.
     bind (audit_record (Some (us_id actor)) (Some (ch_id chama)) LOAN_SUBMIT ''loan'' (Some (ln_id l))
       None True) (\<lambda>_.
     bind commit (\<lambda>_. reload_loan (ln_id l))))))))"

definition loan_approve :: "user \<Rightarrow> uuid \<Rightarrow> uuid \<Rightarrow> loan act" where
  "loan_approve actor chama_id loan_id =
     bind (get_chama_or_404 chama_id) (\<lambda>chama.
     bind (authorize_chama_write actor (ch_id chama)) (\<lambda>m.
     bind (require_role m CHAIRPERSON) (\<lambda>_.
     bind (get_chama_loan (ch_id chama) loan_id) (\<lambda>l.
     bind (forbid_self_action l (ms_id m) ''approve'') (\<lambda>_.
     bind (transition l [LN_SUBMITTED] LN_APPROVED) (\<lambda>_.
     bind (asks local_now) (\<lambda>now.
     bind (set_loan (ln_id l) (\<lambda>l. l\<lparr>ln_approval_date := Some now,
             ln_approved_by_user_id := Some (us_id actor)\<rparr>)) (\<lambda>_.
     bind (audit_record (Some (us_id actor)) (Some (ch_id chama)) LOAN_APPROVE ''loan'' (Some (ln_id l))
       None True) (\<lambda>_.
     bind commit (\<lambda>_. reload_loan (ln_id l)))))))))))"

definition loan_reject :: "user \<Rightarrow> uuid \<Rightarrow> uuid \<Rightarrow> string option \<Rightarrow> loan act" where
  "loan_reject actor chama_id loan_id note =
     bind (get_chama_or_404 chama_id) (\<lambda>chama.
     bind (authorize_chama_write actor (ch_id chama)) (\<lambda>m.
     bind (require_role m CHAIRPERSON) (\<lambda>_.
     bind (get_chama_loan (ch_id chama) loan_id) (\<lambda>l.
     bind (forbid_self_action l (ms_id m) ''reject'') (\<lambda>_.
     bind (transition l [LN_SUBMITTED] LN_REJECTED) (\<lambda>_.
     bind (audit_record (Some (us_id actor)) (Some (ch_id chama)) LOAN_REJECT ''loan'' (Some (ln_id l))
       (Some [(''note'', case note of None \<Rightarrow> JNull | Some t \<Rightarrow> JStr t)]) True) (\<lambda>_.
     bind commit (\<lambda>_. reload_loan (ln_id l)))))))))"

definition loan_cancel :: "user \<Rightarrow> uuid \<Rightarrow> uuid \<Rightarrow> loan act" where
  "loan_cancel actor chama_id loan_id =
     bind (get_chama_or_404 chama_id) (\<lambda>chama.
     bind (authorize_chama_write actor (ch_id chama)) (\<lambda>m.
     bind (require_role m CHAIRPERSON) (\<lambda>_.
     bind (get_chama_loan (ch_id chama) loan_id) (\<lambda>l.
     bind (transition l [LN_APPROVED] LN_CANCELLED) (\<lambda>_.
     bind (audit_record (Some (us_id actor)) (Some (ch_id chama)) LOAN_CANCEL ''loan'' (Some (ln_id l))
       None True) (\<lambda>_.
     bind commit (\<lambda>_. reload_loan (ln_id l))))))))"

text \<open>The descriptions of the postings.\<close>

definition disbursement_description :: "uuid \<Rightarrow> string" where
  "disbursement_description i = ''Loan '' @ uuid_str i @ '' disbursement''"

definition repayment_description :: "uuid \<Rightarrow> string" where
  "repayment_description i = ''Loan '' @ uuid_str i @ '' repayment''"

definition reversal_description :: "uuid \<Rightarrow> string" where
  "reversal_description i = ''Loan '' @ uuid_str i @ '' repayment reversal''"

text \<open>\<open>disburse\<close>: the financial effect on an approved loan, and the whole handler.\<close>

definition disburse_effect :: "user \<Rightarrow> uuid \<Rightarrow> loan \<Rightarrow> loan act" where
  "disburse_effect actor chama_id l =
     bind (lock_cash_account chama_id) (\<lambda>_.
     bind (transition l [LN_APPROVED] LN_DISBURSED) (\<lambda>_.
     bind (available_chama_cash chama_id) (\<lambda>cash.
     bind (ensure (\<not> ln_principal l > cash)
       (StateError ''Insufficient available Chama cash to disburse this loan'')) (\<lambda>_.
     bind (asks local_now) (\<lambda>now.
     bind (set_loan (ln_id l) (ln_disbursement_date_update (\<lambda>_. Some now))) (\<lambda>_.
     bind (case add_months now (ln_term_months l) of None \<Rightarrow> raise ValueError | Some d \<Rightarrow> ret d) (\<lambda>maturity.
     bind (set_loan (ln_id l) (\<lambda>l. l\<lparr>ln_maturity_date := Some maturity,
             ln_disbursed_by_user_id := Some (us_id actor)\<rparr>)) (\<lambda>_.
     bind (get_account_id chama_id LOANS_RECEIVABLE_CODE) (\<lambda>receivable.
     bind (get_account_id chama_id CASH_CODE) (\<lambda>cash_account.
     bind (post_transaction actor chama_id LOAN_DISBURSEMENT_SOURCE_TYPE (ln_id l)
             (Some (disbursement_description (ln_id l)))
             [debit_line receivable (ln_principal l), credit_line cash_account (ln_principal l)]
             None True) (\<lambda>_.
     bind (audit_record (Some (us_id actor)) (Some chama_id) LOAN_DISBURSE ''loan'' (Some (ln_id l))
       (Some [(''principal'', JMoney (ln_principal l))]) True) (\<lambda>_.
     bind commit (\<lambda>_. reload_loan (ln_id l))))))))))))))"

definition loan_disburse :: "user \<Rightarrow> uuid \<Rightarrow> uuid \<Rightarrow> loan act" where
  "loan_disburse actor chama_id loan_id =
     bind (get_chama_or_404 chama_id) (\<lambda>chama.
     bind (authorize_chama_write actor (ch_id chama)) (\<lambda>m.
     bind (require_role m CHAIRPERSON) (\<lambda>_.
     bind (get_chama_loan (ch_id chama) loan_id) (\<lambda>l.
     bind (get_by_source LOAN_DISBURSEMENT_SOURCE_TYPE (ln_id l)) (\<lambda>posting.
     if ln_status l = LN_DISBURSED
     then bind (ensure (posting \<noteq> None)
            (StateError ''Disbursed loan is missing its ledger transaction'')) (\<lambda>_. ret l)
     else disburse_effect actor (ch_id chama) l)))))"

section \<open>Repayments\<close>

text \<open>
  \<open>record_repayment\<close>: the ledger lines, the effect of an accepted repayment, and the whole
  handler.
\<close>

definition repayment_lines :: "uuid \<Rightarrow> money \<Rightarrow> money \<Rightarrow> money \<Rightarrow> raw_line list act" where
  "repayment_lines chama_id amount principal_portion interest_portion =
     bind (get_account_id chama_id CASH_CODE) (\<lambda>cash_account.
     bind (if principal_portion > 0
           then bind (get_account_id chama_id LOANS_RECEIVABLE_CODE) (\<lambda>a.
                ret [credit_line a principal_portion])
           else ret []) (\<lambda>principal_lines.
     bind (if interest_portion > 0
           then bind (get_account_id chama_id INTEREST_INCOME_CODE) (\<lambda>a.
                ret [credit_line a interest_portion])
           else ret []) (\<lambda>interest_lines.
     ret ([debit_line cash_account amount] @ principal_lines @ interest_lines))))"

definition repayment_effect ::
  "user \<Rightarrow> uuid \<Rightarrow> loan \<Rightarrow> money \<Rightarrow> string option \<Rightarrow> money \<Rightarrow> money \<Rightarrow> loan act" where
  "repayment_effect actor chama_id l amount note outstanding_principal outstanding_interest =
     (let interest_portion = min amount outstanding_interest;
          principal_portion = amount - interest_portion
      in
     bind (create_repayment chama_id (ln_id l) amount principal_portion interest_portion
             (us_id actor) note) (\<lambda>repayment.
     bind (status_from_outstanding l (outstanding_principal - principal_portion)
             (outstanding_interest - interest_portion)) (\<lambda>status.
     bind (set_loan (ln_id l) (ln_status_update (\<lambda>_. status))) (\<lambda>_.
     bind flush (\<lambda>_.
     bind (repayment_lines chama_id amount principal_portion interest_portion) (\<lambda>lines.
     bind (post_transaction actor chama_id LOAN_REPAYMENT_SOURCE_TYPE (rp_id repayment)
             (Some (repayment_description (ln_id l))) lines None True) (\<lambda>_.
     bind (audit_record (Some (us_id actor)) (Some chama_id) LOAN_REPAYMENT ''loan_repayment''
       (Some (rp_id repayment))
       (Some [(''loan_id'', JId (ln_id l)), (''principal_portion'', JMoney principal_portion),
              (''interest_portion'', JMoney interest_portion)]) True) (\<lambda>_.
     bind commit (\<lambda>_. reload_loan (ln_id l))))))))))"

definition record_repayment ::
  "user \<Rightarrow> uuid \<Rightarrow> uuid \<Rightarrow> money \<Rightarrow> string option \<Rightarrow> loan act" where
  "record_repayment actor chama_id loan_id amount note =
     bind (get_chama_or_404 chama_id) (\<lambda>chama.
     bind (authorize_chama_write actor (ch_id chama)) (\<lambda>m.
     bind (require_roles m [CHAIRPERSON, TREASURER]) (\<lambda>_.
     bind (get_chama_loan (ch_id chama) loan_id) (\<lambda>l.
     bind (ensure (ln_status l \<in> set [LN_DISBURSED, LN_PARTIALLY_REPAID])
       (StateError ''Only a disbursed loan can receive repayments'')) (\<lambda>_.
     bind (outstanding_for l) (\<lambda>(outstanding_principal, outstanding_interest).
     bind (ensure (\<not> amount > outstanding_principal + outstanding_interest)
       (StateError ''Repayment exceeds the loan's outstanding balance'')) (\<lambda>_.
     repayment_effect actor (ch_id chama) l amount note outstanding_principal outstanding_interest)))))))"

definition reversal_effect ::
  "user \<Rightarrow> uuid \<Rightarrow> loan \<Rightarrow> loan_repayment \<Rightarrow> string option \<Rightarrow> loan act" where
  "reversal_effect actor chama_id l r note =
     bind (undo_posting actor chama_id LOAN_REPAYMENT_SOURCE_TYPE (rp_id r) (reversal_description (ln_id l))) (\<lambda>_.
     bind (set_repayment (rp_id r) (rp_status_update (\<lambda>_. RP_REVERSED))) (\<lambda>_.
     bind (status_after_reversal l) (\<lambda>status.
     bind (set_loan (ln_id l) (ln_status_update (\<lambda>_. status))) (\<lambda>_.
     bind (audit_record (Some (us_id actor)) (Some chama_id) LOAN_REPAYMENT_REVERSAL
       ''loan_repayment'' (Some (rp_id r))
       (Some [(''loan_id'', JId (ln_id l)),
              (''note'', case note of None \<Rightarrow> JNull | Some t \<Rightarrow> JStr t)]) True) (\<lambda>_.
     bind commit (\<lambda>_. reload_loan (ln_id l)))))))"

definition reverse_repayment ::
  "user \<Rightarrow> uuid \<Rightarrow> uuid \<Rightarrow> uuid \<Rightarrow> string option \<Rightarrow> loan act" where
  "reverse_repayment actor chama_id loan_id repayment_id note =
     bind (get_chama_or_404 chama_id) (\<lambda>chama.
     bind (authorize_chama_write actor (ch_id chama)) (\<lambda>m.
     bind (require_role m CHAIRPERSON) (\<lambda>_.
     bind (get_chama_loan (ch_id chama) loan_id) (\<lambda>l.
     bind (get_by_key repayments rp_id repayment_id) (\<lambda>found.
     case found of
       None \<Rightarrow> raise (NotFoundError ''Repayment not found for this loan in this Chama'')
     | Some r \<Rightarrow>
     bind (ensure (\<not> (rp_loan_id r \<noteq> ln_id l \<or> rp_chama_id r \<noteq> ch_id chama))
       (NotFoundError ''Repayment not found for this loan in this Chama'')) (\<lambda>_.
     bind (ensure (rp_status r = RP_CONFIRMED)
       (StateError ''Only a confirmed repayment can be reversed'')) (\<lambda>_.
     reversal_effect actor (ch_id chama) l r note)))))))"

section \<open>Reads\<close>

definition loans_of_chama :: "uuid \<Rightarrow> nat option \<Rightarrow> nat \<Rightarrow> loan list act" where
  "loans_of_chama chama_id limit offset =
     bind (select_all loans (\<lambda>l. ln_chama_id l = chama_id)) (\<lambda>ls. ret (page limit offset ls))"

definition loans_of_membership :: "uuid \<Rightarrow> nat option \<Rightarrow> nat \<Rightarrow> loan list act" where
  "loans_of_membership membership_id limit offset =
     bind (select_all loans (\<lambda>l. ln_membership_id l = membership_id)) (\<lambda>ls. ret (page limit offset ls))"

definition list_loans :: "user \<Rightarrow> uuid \<Rightarrow> nat option \<Rightarrow> nat \<Rightarrow> loan list act" where
  "list_loans actor chama_id limit offset =
     bind (get_chama_or_404 chama_id) (\<lambda>chama.
     bind (authorize_chama_access actor (ch_id chama)) (\<lambda>m.
     bind (has_any_role m LEADERSHIP_ROLES) (\<lambda>leader.
     if \<not> leader then loans_of_membership (ms_id m) limit offset
     else loans_of_chama (ch_id chama) limit offset)))"

definition list_loans_by_membership ::
  "user \<Rightarrow> uuid \<Rightarrow> uuid \<Rightarrow> nat option \<Rightarrow> nat \<Rightarrow> loan list act" where
  "list_loans_by_membership actor chama_id membership_id limit offset =
     bind (get_chama_or_404 chama_id) (\<lambda>chama.
     bind (authorize_chama_access actor (ch_id chama)) (\<lambda>caller.
     bind (get_target_membership (ch_id chama) membership_id) (\<lambda>m.
     bind (require_own_or_leadership caller (ms_id m) ''loans'') (\<lambda>_.
     loans_of_membership (ms_id m) limit offset))))"

definition list_repayments ::
  "user \<Rightarrow> uuid \<Rightarrow> uuid \<Rightarrow> nat option \<Rightarrow> nat \<Rightarrow> loan_repayment list act" where
  "list_repayments actor chama_id loan_id limit offset =
     bind (get_chama_or_404 chama_id) (\<lambda>chama.
     bind (authorize_chama_access actor (ch_id chama)) (\<lambda>caller.
     bind (get_chama_loan (ch_id chama) loan_id) (\<lambda>l.
     bind (require_own_or_leadership caller (ln_membership_id l) ''loan repayments'') (\<lambda>_.
     bind (select_all repayments (\<lambda>r. rp_loan_id r = ln_id l)) (\<lambda>rs.
     ret (page limit offset rs))))))"

end
