(* ===== verification/Loan_Facts.thy ===== *)
theory Loan_Facts
  imports Loan
begin

lemma wp_get_chama_loan:
  assumes "loans (rows s) = loans (objs s)"
    and "\<And>l. find_row ln_id i (loans (objs s)) = Some l \<Longrightarrow> find_row ln_id (ln_id l) (loans (objs s)) = Some l \<Longrightarrow>
      ln_chama_id l = cid \<Longrightarrow> Q l (sync s)"
    and "\<And>e. R (NotFoundError e) (sync s)"
  shows "wp (get_chama_loan cid i) Q R s"
proof -
  have "loans (rows (sync s)) = loans (objs s)" using assms by (simp add: sync_def)
  then show ?thesis using assms(2,3)
    by (auto simp: get_chama_loan_def get_loan_by_id_def wp entities_flushed find_row_def [symmetric]
        split: option.split dest: find_row_SomeD)
qed

lemma wp_reload_loan [wp]:
  "wp (reload_loan i) Q R s =
     (case find_row ln_id i (loans (objs s)) of None \<Rightarrow> R ValueError s | Some l \<Rightarrow> Q l s)"
  by (simp add: reload_loan_def wp split: option.split)

lemma wp_transition [wp]:
  "wp (transition l from to') Q R s =
     (if ln_status l \<in> set from
      then Q () (s\<lparr>objs := loans_update (upd_row ln_id (ln_id l) (ln_status_update (\<lambda>_. to'))) (objs s),
                    rows := loans_update (upd_row ln_id (ln_id l) (ln_status_update (\<lambda>_. to'))) (objs s)\<rparr>)
      else R (StateError (''A loan in status '' @ loan_status_value (ln_status l) @
          '' cannot transition to '' @ loan_status_value to')) s)"
  by (simp add: transition_def set_loan_def wp)

lemma wp_forbid_self_action [wp]:
  "wp (forbid_self_action l m verb) Q R s =
     (if ln_membership_id l \<noteq> m then Q () s
      else R (StateError (''A member cannot '' @ verb @ '' their own loan application'')) s)"
  by (simp add: forbid_self_action_def wp)

lemma wp_set_loan [wp]:
  "wp (set_loan i f) Q R s = Q () (s\<lparr>objs := loans_update (upd_row ln_id i f) (objs s)\<rparr>)"
  by (simp add: set_loan_def wp)

section \<open>The simple transitions\<close>

text \<open>The database after a handler changed one loan and recorded its event.\<close>

definition loan_moved :: "uuid \<Rightarrow> (loan \<Rightarrow> loan) \<Rightarrow> audit_event list \<Rightarrow> notification list \<Rightarrow> db \<Rightarrow> db" where
  "loan_moved i f a n d = log_db a n (loans_update (upd_row ln_id i f) d)"

lemma wp_loan_submit:
  assumes clean: "clean s"
    and ok: "\<And>c l a n u m. find_row ch_id cid (chamas (objs s)) = Some c \<Longrightarrow>
      find_row ln_id lid (loans (objs s)) = Some l \<Longrightarrow> ln_chama_id l = ch_id c \<Longrightarrow>
      write_ok actor (ch_id c) (objs s) m \<Longrightarrow> ln_membership_id l = ms_id m \<Longrightarrow> ln_status l = LN_DRAFT \<Longrightarrow>
      next_uuid s < u \<Longrightarrow>
      Q (l\<lparr>ln_status := LN_SUBMITTED\<rparr>)
        (saved (loan_moved (ln_id l) (ln_status_update (\<lambda>_. LN_SUBMITTED)) a n (objs s)) u s)"
    and no: "\<And>e t. durable t = durable s \<Longrightarrow> R e t"
  shows "wp (loan_submit actor cid lid) Q R s"
  unfolding loan_submit_def
  by (rule wp_chama_write [OF clean])
     (auto simp: wp clean no find_upd_row loan_moved_def
       intro!: wp_get_chama_loan wp_audit_then_commit ok [unfolded loan_moved_def])

lemma wp_loan_approve:
  assumes clean: "clean s"
    and ok: "\<And>c l a n u m. find_row ch_id cid (chamas (objs s)) = Some c \<Longrightarrow>
      find_row ln_id lid (loans (objs s)) = Some l \<Longrightarrow> ln_chama_id l = ch_id c \<Longrightarrow>
      write_ok actor (ch_id c) (objs s) m \<Longrightarrow> holds_role (objs s) (ms_id m) CHAIRPERSON \<Longrightarrow>
      ln_membership_id l \<noteq> ms_id m \<Longrightarrow> ln_status l = LN_SUBMITTED \<Longrightarrow> next_uuid s < u \<Longrightarrow>
      Q (l\<lparr>ln_status := LN_APPROVED, ln_approval_date := Some (local_now s),
            ln_approved_by_user_id := Some (us_id actor)\<rparr>)
        (saved (loan_moved (ln_id l) (\<lambda>l. l\<lparr>ln_status := LN_APPROVED, ln_approval_date := Some (local_now s),
            ln_approved_by_user_id := Some (us_id actor)\<rparr>) a n (objs s)) u s)"
    and no: "\<And>e t. durable t = durable s \<Longrightarrow> R e t"
  shows "wp (loan_approve actor cid lid) Q R s"
  unfolding loan_approve_def
  by (rule wp_chama_write [OF clean])
     (auto simp: wp clean no find_upd_row loan_moved_def upd_row_comp
       intro!: wp_get_chama_loan wp_audit_then_commit ok [unfolded loan_moved_def])

lemma wp_loan_reject:
  assumes clean: "clean s"
    and ok: "\<And>c l a n u m. find_row ch_id cid (chamas (objs s)) = Some c \<Longrightarrow>
      find_row ln_id lid (loans (objs s)) = Some l \<Longrightarrow> ln_chama_id l = ch_id c \<Longrightarrow>
      write_ok actor (ch_id c) (objs s) m \<Longrightarrow> holds_role (objs s) (ms_id m) CHAIRPERSON \<Longrightarrow>
      ln_membership_id l \<noteq> ms_id m \<Longrightarrow> ln_status l = LN_SUBMITTED \<Longrightarrow> next_uuid s < u \<Longrightarrow>
      Q (l\<lparr>ln_status := LN_REJECTED\<rparr>)
        (saved (loan_moved (ln_id l) (ln_status_update (\<lambda>_. LN_REJECTED)) a n (objs s)) u s)"
    and no: "\<And>e t. durable t = durable s \<Longrightarrow> R e t"
  shows "wp (loan_reject actor cid lid note) Q R s"
  unfolding loan_reject_def
  by (rule wp_chama_write [OF clean])
     (auto simp: wp clean no find_upd_row loan_moved_def
       intro!: wp_get_chama_loan wp_audit_then_commit ok [unfolded loan_moved_def])

lemma wp_loan_cancel:
  assumes clean: "clean s"
    and ok: "\<And>c l a n u m. find_row ch_id cid (chamas (objs s)) = Some c \<Longrightarrow>
      find_row ln_id lid (loans (objs s)) = Some l \<Longrightarrow> ln_chama_id l = ch_id c \<Longrightarrow>
      write_ok actor (ch_id c) (objs s) m \<Longrightarrow> holds_role (objs s) (ms_id m) CHAIRPERSON \<Longrightarrow>
      ln_status l = LN_APPROVED \<Longrightarrow> next_uuid s < u \<Longrightarrow>
      Q (l\<lparr>ln_status := LN_CANCELLED\<rparr>)
        (saved (loan_moved (ln_id l) (ln_status_update (\<lambda>_. LN_CANCELLED)) a n (objs s)) u s)"
    and no: "\<And>e t. durable t = durable s \<Longrightarrow> R e t"
  shows "wp (loan_cancel actor cid lid) Q R s"
  unfolding loan_cancel_def
  by (rule wp_chama_write [OF clean])
     (auto simp: wp clean no find_upd_row loan_moved_def
       intro!: wp_get_chama_loan wp_audit_then_commit ok [unfolded loan_moved_def])

section \<open>Applications\<close>

lemma wp_check_principal_limit:
  assumes "clean s"
    and "p \<le> 3 * share_value_of (cf_share_unit_price (cfg s)) m (objs s) \<Longrightarrow> p \<le> cash_of c (objs s) \<Longrightarrow>
      find_account c CASH_CODE (objs s) \<noteq> None \<Longrightarrow> Q () s"
    and "\<And>e. R e s"
  shows "wp (check_principal_limit m c p) Q R s"
  using assms
  by (auto simp: check_principal_limit_def wp wp_member_share_value wp_available_chama_cash cash_of_def
      mult.commute split: option.splits)

definition new_loan :: "sess \<Rightarrow> user \<Rightarrow> uuid \<Rightarrow> uuid \<Rightarrow> money \<Rightarrow> int \<Rightarrow> string option \<Rightarrow> loan" where
  "new_loan s actor chama_id membership_id amount term_months note =
     \<lparr>ln_id = next_uuid s, ln_chama_id = chama_id, ln_membership_id = membership_id,
      ln_principal = amount, ln_interest_rate = LOAN_INTEREST_RATE,
      ln_term_months = term_months, ln_status = LN_DRAFT, ln_approval_date = None,
      ln_disbursement_date = None, ln_maturity_date = None, ln_approved_by_user_id = None,
      ln_disbursed_by_user_id = None, ln_recorded_by_user_id = us_id actor, ln_note = note\<rparr>"

lemma wp_loan_apply:
  assumes clean: "clean s"
    and ok: "\<And>c a n u m. find_row ch_id cid (chamas (objs s)) = Some c \<Longrightarrow> write_ok actor (ch_id c) (objs s) m \<Longrightarrow>
      \<not> utc_now s - 30 * MICROS_PER_DAY < instant (ms_joined_at m) \<Longrightarrow>
      amount \<le> 3 * share_value_of (cf_share_unit_price (cfg s)) (ms_id m) (objs s) \<Longrightarrow>
      amount \<le> cash_of (ch_id c) (objs s) \<Longrightarrow> 0 < amount \<Longrightarrow> 3 \<le> term \<Longrightarrow> term \<le> 12 \<Longrightarrow> next_uuid s < u \<Longrightarrow>
      Q (new_loan s actor (ch_id c) (ms_id m) amount term note)
        (saved (log_db a n ((objs s)\<lparr>loans := loans (objs s) @
           [new_loan s actor (ch_id c) (ms_id m) amount term note]\<rparr>)) u s)"
    and no: "\<And>e t. durable t = durable s \<Longrightarrow> R e t"
  shows "wp (loan_apply actor cid amount term note) Q R s"
  unfolding loan_apply_def
  by (rule wp_chama_write [OF clean])
     (auto simp: wp clean no Let_def MIN_TENURE_DAYS_def loan_check_def new_loan_def split: option.splits
       intro!: wp_check_principal_limit [OF clean] wp_audit_then_commit ok [unfolded new_loan_def])

section \<open>Disbursement\<close>

definition disbursed :: "sess \<Rightarrow> user \<Rightarrow> datetime \<Rightarrow> loan \<Rightarrow> loan" where
  "disbursed s actor maturity l =
     l\<lparr>ln_status := LN_DISBURSED, ln_disbursement_date := Some (local_now s),
       ln_maturity_date := Some maturity, ln_disbursed_by_user_id := Some (us_id actor)\<rparr>"

definition disbursement_tx :: "sess \<Rightarrow> user \<Rightarrow> uuid \<Rightarrow> loan \<Rightarrow> ledger_transaction" where
  "disbursement_tx s actor chama_id l =
     new_tx s actor chama_id LOAN_DISBURSEMENT_SOURCE_TYPE (ln_id l)
       (Some (disbursement_description (ln_id l))) None"

definition disbursement_lines :: "uuid \<Rightarrow> uuid \<Rightarrow> loan \<Rightarrow> ledger_line list" where
  "disbursement_lines receivable cash l = [dl receivable (ln_principal l), cl cash (ln_principal l)]"

lemma ledger_flushed_pending [simp]:
  "ledger_flushed s \<Longrightarrow> rows s = objs s \<Longrightarrow> ledger_flushed (s\<lparr>objs := loans_update f (objs s), rows := loans_update g (objs s)\<rparr>)"
  by (simp add: ledger_flushed_def)

lemma find_account_loans [simp]: "find_account c code (loans_update f d) = find_account c code d"
  by (simp add: find_account_def)

lemma account_balance_loans [simp]: "account_balance c a (loans_update f d) = account_balance c a d"
  by (simp add: account_balance_def)

lemma write_ok_loans [simp]: "write_ok u c (loans_update f d) = write_ok u c d"
  by (intro ext) (simp add: write_ok_def access_ok_def)

lemma lines_ok_loans [simp]: "lines_ok (loans_update f d) = lines_ok d"
  by (intro ext) (simp add: lines_ok_def account_in_def)

lemma source_free_loans [simp]: "source_free (loans_update f d) = source_free d"
  by (intro ext) (simp add: source_free_def)

lemma wp_disburse_effect:
  assumes clean: "clean s" and l: "find_row ln_id (ln_id l) (loans (objs s)) = Some l"
    and ok: "\<And>receivable cash maturity a n u u'.
      ln_status l = LN_APPROVED \<Longrightarrow>
      find_account cid LOANS_RECEIVABLE_CODE (objs s) = Some receivable \<Longrightarrow>
      find_account cid CASH_CODE (objs s) = Some cash \<Longrightarrow>
      ln_principal l \<le> account_balance cid cash (objs s) \<Longrightarrow>
      add_months (local_now s) (ln_term_months l) = Some maturity \<Longrightarrow>
      lines_ok (objs s) cid (disbursement_lines receivable cash l) \<Longrightarrow>
      source_free (objs s) LOAN_DISBURSEMENT_SOURCE_TYPE (ln_id l) \<Longrightarrow> next_uuid s < u \<Longrightarrow> u' \<le> u \<Longrightarrow>
      let d = add_posting (disbursement_tx s actor cid l)
                (entries_from cid (next_uuid s) (utc_now s) (Suc (next_uuid s))
                   (disbursement_lines receivable cash l))
                (loans_update (upd_row ln_id (ln_id l) (disbursed s actor maturity)) (objs s))
      in Q (disbursed s actor maturity l) (saved (log_db a n d) u (saved d u' s))"
    and resumed: "\<And>t maturity a n u. ln_status l = LN_APPROVED \<Longrightarrow>
      t \<in> set (ledger_transactions (objs s)) \<Longrightarrow> lt_source_type t = LOAN_DISBURSEMENT_SOURCE_TYPE \<Longrightarrow>
      lt_source_id t = ln_id l \<Longrightarrow> next_uuid s < u \<Longrightarrow>
      Q (disbursed s actor maturity l)
        (saved (loan_moved (ln_id l) (disbursed s actor maturity) a n (objs s)) u s)"
    and no: "\<And>e t. durable t = durable s \<Longrightarrow> R e t"
  shows "wp (disburse_effect actor cid l) Q R s"
proof (cases "find_account cid CASH_CODE (objs s)")
  case None
  then show ?thesis
    by (simp add: disburse_effect_def wp_bind wp_lock_cash_account clean no)
next
  case cash: (Some cash)
  show ?thesis
  proof (cases "ln_status l = LN_APPROVED \<and> ln_principal l \<le> account_balance cid cash (objs s) \<and>
      \<bar>account_balance cid cash (objs s)\<bar> < 10 ^ DECIMAL_PRECISION")
    case False
    then show ?thesis
      by (auto simp: disburse_effect_def wp wp_lock_cash_account wp_available_chama_cash cash clean no)
  next
    case True
    show ?thesis
    proof (cases "add_months (local_now s) (ln_term_months l)")
      case None
      with True show ?thesis
        by (simp add: disburse_effect_def wp wp_lock_cash_account wp_available_chama_cash cash clean no)
    next
      case maturity: (Some maturity)
      let ?D = "loans_update (upd_row ln_id (ln_id l) (disbursed s actor maturity)) (objs s)"
      let ?s = "s\<lparr>objs := ?D, rows := loans_update (upd_row ln_id (ln_id l) (ln_status_update (\<lambda>_. LN_DISBURSED))) (objs s)\<rparr>"
      have fl: "ledger_flushed ?s" by (simp add: clean)
      have chain: "wp (disburse_effect actor cid l) Q R s =
        wp (bind (get_account_id cid LOANS_RECEIVABLE_CODE) (\<lambda>receivable.
     bind (get_account_id cid CASH_CODE) (\<lambda>cash_account.
     bind (post_transaction actor cid LOAN_DISBURSEMENT_SOURCE_TYPE (ln_id l)
             (Some (disbursement_description (ln_id l)))
             [debit_line receivable (ln_principal l), credit_line cash_account (ln_principal l)]
             None True) (\<lambda>_.
     bind (audit_record (Some (us_id actor)) (Some cid) LOAN_DISBURSE ''loan'' (Some (ln_id l))
       (Some [(''principal'', JMoney (ln_principal l))]) True) (\<lambda>_.
     bind commit (\<lambda>_. reload_loan (ln_id l))))))) Q R ?s"
        using True maturity
        by (simp add: disburse_effect_def wp_bind wp_lock_cash_account wp_available_chama_cash cash clean
            wp_transition wp_ensure wp_asks wp_set_loan wp_ret upd_row_comp disbursed_def [abs_def])
      show ?thesis
      proof (cases "find_account cid LOANS_RECEIVABLE_CODE (objs s)")
        case None
        then show ?thesis unfolding chain by (simp add: wp_bind wp_get_account_id fl no)
      next
        case receivable: (Some receivable)
        have found: "find_row ln_id (ln_id l) (upd_row ln_id (ln_id l) (disbursed s actor maturity) (loans (objs s))) =
            Some (disbursed s actor maturity l)" by (simp add: find_upd_row l disbursed_def)
        show ?thesis unfolding chain wp_bind wp_get_account_id [OF fl]
          apply (simp add: receivable wp_get_account_id fl cash)
          apply (rule wp_post_audit_commit)
              apply (simp add: fl)
             apply (simp add: source_type_defs)
            apply (clarsimp simp: wp_reload_loan found)
            apply (rule ok [unfolded Let_def disbursement_lines_def disbursement_tx_def])
                    apply (use True cash receivable maturity in simp_all)
           apply (clarsimp simp: wp_reload_loan found)
           apply (rule resumed [unfolded loan_moved_def])
               apply (use True maturity in simp_all)
          apply (auto intro: no)
          done
      qed
    qed
  qed
qed

lemma wp_loan_disburse:
  assumes clean: "clean s"
    and again: "\<And>c l. find_row ch_id cid (chamas (objs s)) = Some c \<Longrightarrow>
      find_row ln_id lid (loans (objs s)) = Some l \<Longrightarrow> ln_chama_id l = ch_id c \<Longrightarrow>
      ln_status l = LN_DISBURSED \<Longrightarrow> \<not> source_free (objs s) LOAN_DISBURSEMENT_SOURCE_TYPE (ln_id l) \<Longrightarrow> Q l s"
    and ok: "\<And>c l m receivable cash maturity a n u u'. find_row ch_id cid (chamas (objs s)) = Some c \<Longrightarrow>
      find_row ln_id lid (loans (objs s)) = Some l \<Longrightarrow> ln_chama_id l = ch_id c \<Longrightarrow>
      write_ok actor (ch_id c) (objs s) m \<Longrightarrow> holds_role (objs s) (ms_id m) CHAIRPERSON \<Longrightarrow>
      ln_status l = LN_APPROVED \<Longrightarrow>
      find_account (ch_id c) LOANS_RECEIVABLE_CODE (objs s) = Some receivable \<Longrightarrow>
      find_account (ch_id c) CASH_CODE (objs s) = Some cash \<Longrightarrow>
      ln_principal l \<le> account_balance (ch_id c) cash (objs s) \<Longrightarrow>
      add_months (local_now s) (ln_term_months l) = Some maturity \<Longrightarrow>
      lines_ok (objs s) (ch_id c) (disbursement_lines receivable cash l) \<Longrightarrow>
      source_free (objs s) LOAN_DISBURSEMENT_SOURCE_TYPE (ln_id l) \<Longrightarrow> next_uuid s < u \<Longrightarrow> u' \<le> u \<Longrightarrow>
      let d = add_posting (disbursement_tx s actor (ch_id c) l)
                (entries_from (ch_id c) (next_uuid s) (utc_now s) (Suc (next_uuid s))
                   (disbursement_lines receivable cash l))
                (loans_update (upd_row ln_id (ln_id l) (disbursed s actor maturity)) (objs s))
      in Q (disbursed s actor maturity l) (saved (log_db a n d) u (saved d u' s))"
    and resumed: "\<And>c l t maturity a n u. find_row ch_id cid (chamas (objs s)) = Some c \<Longrightarrow>
      find_row ln_id lid (loans (objs s)) = Some l \<Longrightarrow> ln_chama_id l = ch_id c \<Longrightarrow>
      ln_status l = LN_APPROVED \<Longrightarrow>
      t \<in> set (ledger_transactions (objs s)) \<Longrightarrow> lt_source_type t = LOAN_DISBURSEMENT_SOURCE_TYPE \<Longrightarrow>
      lt_source_id t = ln_id l \<Longrightarrow> next_uuid s < u \<Longrightarrow>
      Q (disbursed s actor maturity l)
        (saved (loan_moved (ln_id l) (disbursed s actor maturity) a n (objs s)) u s)"
    and no: "\<And>e t. durable t = durable s \<Longrightarrow> R e t"
  shows "wp (loan_disburse actor cid lid) Q R s"
  unfolding loan_disburse_def
  by (rule wp_chama_write [OF clean])
     (auto simp: wp clean get_by_source_def filter_empty_conv
       intro!: wp_get_chama_loan wp_disburse_effect no again ok resumed simp: source_free_def)

section \<open>Repayments\<close>

definition paid_principal :: "uuid \<Rightarrow> db \<Rightarrow> money" where
  "paid_principal loan_id d =
     sum_list (map rp_principal_portion (filter (\<lambda>r. rp_loan_id r = loan_id \<and> rp_status r = RP_CONFIRMED) (repayments d)))"

definition paid_interest :: "uuid \<Rightarrow> db \<Rightarrow> money" where
  "paid_interest loan_id d =
     sum_list (map rp_interest_portion (filter (\<lambda>r. rp_loan_id r = loan_id \<and> rp_status r = RP_CONFIRMED) (repayments d)))"

definition outstanding_principal :: "loan \<Rightarrow> db \<Rightarrow> money" where
  "outstanding_principal l d = ln_principal l - paid_principal (ln_id l) d"

definition outstanding_interest :: "loan \<Rightarrow> db \<Rightarrow> money" where
  "outstanding_interest l d = interest_of l - paid_interest (ln_id l) d"

definition status_of :: "loan \<Rightarrow> money \<Rightarrow> money \<Rightarrow> loan_status" where
  "status_of l op oi =
     (if op \<le> 0 \<and> oi \<le> 0 then LN_REPAID
      else if op = ln_principal l \<and> oi = interest_of l then LN_DISBURSED else LN_PARTIALLY_REPAID)"

definition interest_fits :: "loan \<Rightarrow> bool" where
  "interest_fits l \<longleftrightarrow> \<bar>interest_of l\<bar> < 10 ^ DECIMAL_PRECISION"

lemma wp_interest_for [wp]:
  "wp (interest_for l) Q R s = (if interest_fits l then Q (interest_of l) s else R InvalidOperation s)"
  by (simp add: interest_for_def quantize_checked_def interest_of_def interest_fits_def wp)

lemma wp_outstanding_for:
  assumes "clean s"
  shows "wp (outstanding_for l) Q R s =
    (if interest_fits l then Q (outstanding_principal l (objs s), outstanding_interest l (objs s)) s
     else R InvalidOperation s)"
  using assms
  by (simp add: outstanding_for_def confirmed_by_loan_def wp outstanding_principal_def outstanding_interest_def
      paid_principal_def paid_interest_def)

lemma wp_status_from_outstanding:
  assumes "interest_fits l"
  shows "wp (status_from_outstanding l op oi) Q R s = Q (status_of l op oi) s"
  using assms by (simp add: status_from_outstanding_def status_of_def wp)

definition new_repayment ::
  "sess \<Rightarrow> user \<Rightarrow> loan \<Rightarrow> money \<Rightarrow> money \<Rightarrow> string option \<Rightarrow> loan_repayment" where
  "new_repayment s actor l amount interest_portion note =
     \<lparr>rp_id = next_uuid s, rp_chama_id = ln_chama_id l, rp_loan_id = ln_id l, rp_amount = amount,
      rp_principal_portion = amount - interest_portion, rp_interest_portion = interest_portion,
      rp_status = RP_CONFIRMED, rp_recorded_by_user_id = us_id actor, rp_note = note\<rparr>"

text \<open>The lines of a repayment: cash in, the portions that are positive out.\<close>

definition split_lines :: "uuid \<Rightarrow> uuid \<Rightarrow> uuid \<Rightarrow> money \<Rightarrow> money \<Rightarrow> ledger_line list" where
  "split_lines cash receivable income amount interest_portion =
     dl cash amount #
     (if 0 < amount - interest_portion then [cl receivable (amount - interest_portion)] else []) @
     (if 0 < interest_portion then [cl income interest_portion] else [])"

text \<open>The database after the repayment was added and the status recomputed.\<close>

definition repaid_db :: "loan \<Rightarrow> loan_repayment \<Rightarrow> loan_status \<Rightarrow> db \<Rightarrow> db" where
  "repaid_db l r status d =
     loans_update (upd_row ln_id (ln_id l) (ln_status_update (\<lambda>_. status)))
       (d\<lparr>repayments := repayments d @ [r]\<rparr>)"

lemma repaid_db_simps [simp]:
  "loans (repaid_db l r st d) = upd_row ln_id (ln_id l) (ln_status_update (\<lambda>_. st)) (loans d)"
  "repayments (repaid_db l r st d) = repayments d @ [r]"
  "ledger_accounts (repaid_db l r st d) = ledger_accounts d"
  "ledger_transactions (repaid_db l r st d) = ledger_transactions d"
  "ledger_entries (repaid_db l r st d) = ledger_entries d"
  "memberships (repaid_db l r st d) = memberships d" "chamas (repaid_db l r st d) = chamas d"
  "payouts (repaid_db l r st d) = payouts d" "contributions (repaid_db l r st d) = contributions d"
  "fee_payments (repaid_db l r st d) = fee_payments d"
  by (simp_all add: repaid_db_def)

definition raw_split_lines :: "uuid \<Rightarrow> uuid \<Rightarrow> uuid \<Rightarrow> money \<Rightarrow> money \<Rightarrow> raw_line list" where
  "raw_split_lines cash receivable income amount interest_portion =
     debit_line cash amount #
     (if 0 < amount - interest_portion then [credit_line receivable (amount - interest_portion)] else []) @
     (if 0 < interest_portion then [credit_line income interest_portion] else [])"

lemma normalize_raw_split:
  "normalize_lines (raw_split_lines cash receivable income amount ip) = Inr ls \<Longrightarrow>
     ls = split_lines cash receivable income amount ip"
  by (auto simp: raw_split_lines_def split_lines_def split: if_splits)

definition split_accounts :: "db \<Rightarrow> uuid \<Rightarrow> money \<Rightarrow> money \<Rightarrow> uuid \<Rightarrow> uuid \<Rightarrow> uuid \<Rightarrow> bool" where
  "split_accounts d chama_id amount interest_portion cash receivable income \<longleftrightarrow>
     find_account chama_id CASH_CODE d = Some cash \<and>
     (0 < amount - interest_portion \<longrightarrow> find_account chama_id LOANS_RECEIVABLE_CODE d = Some receivable) \<and>
     (0 < interest_portion \<longrightarrow> find_account chama_id INTEREST_INCOME_CODE d = Some income)"

lemma wp_repayment_lines:
  assumes flushed: "ledger_flushed s"
    and ok: "\<And>cash receivable income. split_accounts (objs s) cid amount ip cash receivable income \<Longrightarrow>
      Q (raw_split_lines cash receivable income amount ip) (sync s)"
    and no: "\<And>e. R e (sync s)"
  shows "wp (repayment_lines cid amount (amount - ip) ip) Q R s"
proof (cases "find_account cid CASH_CODE (objs s)")
  case None
  then show ?thesis using no by (simp add: repayment_lines_def wp wp_get_account_id flushed)
next
  case (Some cash)
  note ok' = ok [unfolded split_accounts_def raw_split_lines_def]
  show ?thesis
    using no ok' [of cash] Some
    by (cases "0 < amount - ip"; cases "0 < ip";
        cases "find_account cid LOANS_RECEIVABLE_CODE (objs s)";
        cases "find_account cid INTEREST_INCOME_CODE (objs s)")
       (simp_all add: repayment_lines_def wp wp_get_account_id flushed)
qed

lemma ledger_flushed_repaid [simp]:
  "ledger_flushed s \<Longrightarrow> rows s = objs s \<Longrightarrow>
     ledger_flushed (s\<lparr>objs := repaid_db l r st (objs s), rows := repaid_db l r st (objs s), next_uuid := u\<rparr>)"
  by (simp add: ledger_flushed_def)

lemma repaid_db_same [simp]:
  "find_account c code (repaid_db l r st d) = find_account c code d"
  "account_balance c a (repaid_db l r st d) = account_balance c a d"
  "lines_ok (repaid_db l r st d) = lines_ok d" "source_free (repaid_db l r st d) = source_free d"
  by (simp_all add: find_account_def account_balance_def)
     (intro ext, simp add: lines_ok_def account_in_def source_free_def)+

lemma split_accounts_repaid [simp]: "split_accounts (repaid_db l r st d) = split_accounts d"
  by (intro ext) (simp add: split_accounts_def)

definition repayment_tx :: "sess \<Rightarrow> user \<Rightarrow> uuid \<Rightarrow> loan \<Rightarrow> ledger_transaction" where
  "repayment_tx s actor chama_id l =
     new_tx (s\<lparr>next_uuid := Suc (next_uuid s)\<rparr>) actor chama_id LOAN_REPAYMENT_SOURCE_TYPE (next_uuid s)
       (Some (repayment_description (ln_id l))) None"

lemma wp_repayment_effect:
  assumes clean: "clean s" and l: "find_row ln_id (ln_id l) (loans (objs s)) = Some l" and fits: "interest_fits l"
    and ok: "\<And>cash receivable income a n u u'. let ip = min amount oi; r = new_repayment s actor l amount ip note;
        st = status_of l (op - (amount - ip)) (oi - ip);
        ls = split_lines cash receivable income amount ip;
        d = add_posting (repayment_tx s actor (ln_chama_id l) l)
              (entries_from (ln_chama_id l) (Suc (next_uuid s)) (utc_now s) (Suc (Suc (next_uuid s))) ls)
              (repaid_db l r st (objs s))
      in split_accounts (objs s) (ln_chama_id l) amount ip cash receivable income \<longrightarrow> 0 < amount \<longrightarrow> 0 \<le> ip \<longrightarrow>
         ip \<le> amount \<longrightarrow> lines_ok (objs s) (ln_chama_id l) ls \<longrightarrow>
         source_free (objs s) LOAN_REPAYMENT_SOURCE_TYPE (next_uuid s) \<longrightarrow> Suc (next_uuid s) < u' \<longrightarrow> u' < u \<longrightarrow>
         Q (l\<lparr>ln_status := st\<rparr>) (saved (log_db a n d) u (saved d u' s))"
    and again: "\<And>t a n u. let ip = min amount oi; r = new_repayment s actor l amount ip note;
        st = status_of l (op - (amount - ip)) (oi - ip)
      in 0 < amount \<longrightarrow> 0 \<le> ip \<longrightarrow>
         t \<in> set (ledger_transactions (objs s)) \<longrightarrow> lt_source_type t = LOAN_REPAYMENT_SOURCE_TYPE \<longrightarrow>
         lt_source_id t = next_uuid s \<longrightarrow>
         Q (l\<lparr>ln_status := st\<rparr>) (saved (log_db a n (repaid_db l r st (objs s))) u s)"
    and no: "\<And>e t. durable t = durable s \<Longrightarrow> R e t"
  shows "wp (repayment_effect actor (ln_chama_id l) l amount note op oi) Q R s"
proof -
  let ?ip = "min amount oi"
  let ?r = "new_repayment s actor l amount ?ip note"
  let ?st = "status_of l (op - (amount - ?ip)) (oi - ?ip)"
  let ?s = "s\<lparr>objs := repaid_db l ?r ?st (objs s), rows := repaid_db l ?r ?st (objs s), next_uuid := Suc (next_uuid s)\<rparr>"
  have fl: "ledger_flushed ?s" by (simp add: clean)
  have found: "find_row ln_id (ln_id l) (upd_row ln_id (ln_id l) (ln_status_update (\<lambda>_. st)) (loans (objs s))) =
      Some (l\<lparr>ln_status := st\<rparr>)" for st by (simp add: find_upd_row l)
  have tail: "wp (repayment_lines (ln_chama_id l) amount (amount - ?ip) ?ip)
     (\<lambda>lines. wp (post_transaction actor (ln_chama_id l) LOAN_REPAYMENT_SOURCE_TYPE (next_uuid s)
             (Some (repayment_description (ln_id l))) lines None True) (\<lambda>_.
       wp (audit_record (Some (us_id actor)) (Some (ln_chama_id l)) LOAN_REPAYMENT ''loan_repayment''
       (Some (next_uuid s))
       (Some [(''loan_id'', JId (ln_id l)), (''principal_portion'', JMoney (amount - ?ip)),
              (''interest_portion'', JMoney ?ip)]) True) (\<lambda>_.
       wp commit (\<lambda>_. wp (reload_loan (ln_id l)) Q R) R) R) R) R ?s"
    if check: "repayment_check (objs s) ?r = None"
  proof (rule wp_repayment_lines [OF fl])
    fix cash receivable income
    assume acc: "split_accounts (objs ?s) (ln_chama_id l) amount ?ip cash receivable income"
    have r: "0 < amount" "0 \<le> ?ip" "?ip \<le> amount"
      using check by (auto simp: repayment_check_def new_repayment_def split: if_splits)
    show "wp (post_transaction actor (ln_chama_id l) LOAN_REPAYMENT_SOURCE_TYPE (next_uuid s)
             (Some (repayment_description (ln_id l))) (raw_split_lines cash receivable income amount ?ip) None True) (\<lambda>_.
       wp (audit_record (Some (us_id actor)) (Some (ln_chama_id l)) LOAN_REPAYMENT ''loan_repayment''
       (Some (next_uuid s))
       (Some [(''loan_id'', JId (ln_id l)), (''principal_portion'', JMoney (amount - ?ip)),
              (''interest_portion'', JMoney ?ip)]) True) (\<lambda>_.
       wp commit (\<lambda>_. wp (reload_loan (ln_id l)) Q R) R) R) R (sync ?s)"
    proof (rule wp_post_audit_commit, goal_cases)
      case (3 ls a n u u')
      have ls: "ls = split_lines cash receivable income amount ?ip"
        by (rule normalize_raw_split [OF 3(1)])
      show ?case
        using 3 acc r ok [of cash receivable income u' u a n, unfolded Let_def]
        by (simp add: ls found wp_reload_loan repayment_tx_def new_tx_def)
    next
      case (4 ls t a n u)
      then show ?case using r again [of t a n u, unfolded Let_def] by (simp add: found wp_reload_loan)
    qed (auto simp: clean source_type_defs intro: no)
  qed (simp add: no)
  show ?thesis
    using tail
    by (auto simp: repayment_effect_def create_repayment_def wp Let_def no fits wp_status_from_outstanding
        new_repayment_def [symmetric] repaid_db_def split: option.split)
qed

definition repayable :: "loan_status \<Rightarrow> bool" where
  "repayable st \<longleftrightarrow> st = LN_DISBURSED \<or> st = LN_PARTIALLY_REPAID"

lemma wp_record_repayment:
  assumes clean: "clean s"
    and ok: "\<And>c l m cash receivable income a n u u'. let oi = outstanding_interest l (objs s);
        op = outstanding_principal l (objs s);
        ip = min amount oi; r = new_repayment s actor l amount ip note;
        st = status_of l (op - (amount - ip)) (oi - ip);
        ls = split_lines cash receivable income amount ip;
        d = add_posting (repayment_tx s actor (ln_chama_id l) l)
              (entries_from (ln_chama_id l) (Suc (next_uuid s)) (utc_now s) (Suc (Suc (next_uuid s))) ls)
              (repaid_db l r st (objs s))
      in find_row ch_id cid (chamas (objs s)) = Some c \<longrightarrow> find_row ln_id lid (loans (objs s)) = Some l \<longrightarrow>
         ln_chama_id l = ch_id c \<longrightarrow> write_ok actor (ch_id c) (objs s) m \<longrightarrow>
         repayable (ln_status l) \<longrightarrow> amount \<le> op + oi \<longrightarrow>
         split_accounts (objs s) (ln_chama_id l) amount ip cash receivable income \<longrightarrow> 0 < amount \<longrightarrow> 0 \<le> ip \<longrightarrow>
         ip \<le> amount \<longrightarrow> lines_ok (objs s) (ln_chama_id l) ls \<longrightarrow>
         source_free (objs s) LOAN_REPAYMENT_SOURCE_TYPE (next_uuid s) \<longrightarrow> Suc (next_uuid s) < u' \<longrightarrow> u' < u \<longrightarrow>
         Q (l\<lparr>ln_status := st\<rparr>) (saved (log_db a n d) u (saved d u' s))"
    and again: "\<And>l t a n u. let oi = outstanding_interest l (objs s);
        op = outstanding_principal l (objs s);
        ip = min amount oi; r = new_repayment s actor l amount ip note;
        st = status_of l (op - (amount - ip)) (oi - ip)
      in find_row ln_id lid (loans (objs s)) = Some l \<longrightarrow> repayable (ln_status l) \<longrightarrow>
         amount \<le> op + oi \<longrightarrow> 0 < amount \<longrightarrow> 0 \<le> ip \<longrightarrow>
         t \<in> set (ledger_transactions (objs s)) \<longrightarrow> lt_source_type t = LOAN_REPAYMENT_SOURCE_TYPE \<longrightarrow>
         lt_source_id t = next_uuid s \<longrightarrow>
         Q (l\<lparr>ln_status := st\<rparr>) (saved (log_db a n (repaid_db l r st (objs s))) u s)"
    and no: "\<And>e t. durable t = durable s \<Longrightarrow> R e t"
  shows "wp (record_repayment actor cid lid amount note) Q R s"
proof -
  have eff: "wp (repayment_effect actor (ch_id c) l amount note (outstanding_principal l (objs s))
      (outstanding_interest l (objs s))) Q R s"
    if "find_row ch_id cid (chamas (objs s)) = Some c" "find_row ln_id lid (loans (objs s)) = Some l"
      "find_row ln_id (ln_id l) (loans (objs s)) = Some l" "ln_chama_id l = ch_id c"
      "write_ok actor (ch_id c) (objs s) m" "repayable (ln_status l)"
      "amount \<le> outstanding_principal l (objs s) + outstanding_interest l (objs s)" "interest_fits l" for c l m
    unfolding that(4) [symmetric]
    apply (rule wp_repayment_effect [OF clean that(3,8) _ _ no])
      apply (use ok [where c = c and l = l and m = m] that in \<open>simp add: Let_def\<close>)
     apply (use again [where l = l] that in \<open>simp add: Let_def\<close>)
    apply assumption
    done
  show ?thesis
    unfolding record_repayment_def
    by (rule wp_chama_write [OF clean])
       (auto simp: wp clean wp_outstanding_for repayable_def intro!: wp_get_chama_loan eff no)
qed

section \<open>Reversing a repayment\<close>

definition reversed_db :: "loan \<Rightarrow> uuid \<Rightarrow> loan_status \<Rightarrow> db \<Rightarrow> db" where
  "reversed_db l rid status d =
     loans_update (upd_row ln_id (ln_id l) (ln_status_update (\<lambda>_. status)))
       (repayments_update (upd_row rp_id rid (rp_status_update (\<lambda>_. RP_REVERSED))) d)"

lemma reversed_db_simps [simp]:
  "loans (reversed_db l i st d) = upd_row ln_id (ln_id l) (ln_status_update (\<lambda>_. st)) (loans d)"
  "repayments (reversed_db l i st d) = upd_row rp_id i (rp_status_update (\<lambda>_. RP_REVERSED)) (repayments d)"
  "ledger_accounts (reversed_db l i st d) = ledger_accounts d"
  "ledger_transactions (reversed_db l i st d) = ledger_transactions d"
  "ledger_entries (reversed_db l i st d) = ledger_entries d"
  "memberships (reversed_db l i st d) = memberships d" "chamas (reversed_db l i st d) = chamas d"
  by (simp_all add: reversed_db_def)

text \<open>
  The status the handler stores: \<open>_status_after_reversal\<close> queries the confirmed repayments
  before the reversed one is flushed, so only an autoflushing session leaves it out.
\<close>

definition status_after :: "bool \<Rightarrow> loan \<Rightarrow> uuid \<Rightarrow> db \<Rightarrow> loan_status" where
  "status_after af l rid d =
     (let seen = (if af then repayments_update (upd_row rp_id rid (rp_status_update (\<lambda>_. RP_REVERSED))) d else d)
      in status_of l (outstanding_principal l seen) (outstanding_interest l seen))"

text \<open>What the reversal of the posting did before the handler touches the repayment.\<close>

definition reversal_step ::
  "sess \<Rightarrow> user \<Rightarrow> uuid \<Rightarrow> loan \<Rightarrow> loan_repayment \<Rightarrow> db \<Rightarrow> sess \<Rightarrow> bool" where
  "reversal_step s actor chama_id l r d t \<longleftrightarrow> d = objs t \<and>
     undone s actor chama_id LOAN_REPAYMENT_SOURCE_TYPE (rp_id r) (reversal_description (ln_id l)) t"

lemma entities_map:
  "tab os = map g (tab rs) \<Longrightarrow> entities tab P rs os = map g (filter P (tab rs))"
proof -
  have "map snd (filter (\<lambda>p. P (fst p)) (zip xs (map g xs))) = map g (filter P xs)" for xs
    by (induction xs) auto
  then show "tab os = map g (tab rs) \<Longrightarrow> entities tab P rs os = map g (filter P (tab rs))"
    by (simp add: entities_def)
qed

lemma wp_status_after_reversal:
  assumes clean: "clean s" and fits: "interest_fits l"
  shows "wp (status_after_reversal l) Q R
      (s\<lparr>objs := repayments_update (upd_row rp_id i (rp_status_update (\<lambda>_. RP_REVERSED))) (objs s)\<rparr>) =
    Q (status_after (autoflush s) l i (objs s))
      (sync (s\<lparr>objs := repayments_update (upd_row rp_id i (rp_status_update (\<lambda>_. RP_REVERSED))) (objs s)\<rparr>))"
proof -
  let ?d = "repayments_update (upd_row rp_id i (rp_status_update (\<lambda>_. RP_REVERSED))) (objs s)"
  have e: "entities repayments P (objs s) ?d =
      map (\<lambda>r. if rp_id r = i then r\<lparr>rp_status := RP_REVERSED\<rparr> else r) (filter P (repayments (objs s)))" for P
    by (rule entities_map) (simp add: upd_row_def)
  have c: "map rp_principal_portion (map (\<lambda>r. if rp_id r = i then r\<lparr>rp_status := RP_REVERSED\<rparr> else r) xs) =
      map rp_principal_portion xs"
    "map rp_interest_portion (map (\<lambda>r. if rp_id r = i then r\<lparr>rp_status := RP_REVERSED\<rparr> else r) xs) =
      map rp_interest_portion xs" for xs by (induction xs) auto
  show ?thesis
    by (simp add: status_after_reversal_def confirmed_by_loan_def wp wp_status_from_outstanding fits
        rows_sync clean e status_after_def outstanding_principal_def outstanding_interest_def
        paid_principal_def paid_interest_def c Let_def del: map_map)
qed

lemma wp_reversal_finish:
  assumes clean: "clean t" and l: "find_row ln_id (ln_id l) (loans (objs t)) = Some l" and fits: "interest_fits l"
    and ok: "\<And>a n u. let st = status_after (autoflush t) l (rp_id r) (objs t)
      in next_uuid t < u \<longrightarrow> Q (l\<lparr>ln_status := st\<rparr>) (saved (log_db a n (reversed_db l (rp_id r) st (objs t))) u t)"
  shows "wp (set_repayment (rp_id r) (rp_status_update (\<lambda>_. RP_REVERSED)))
    (\<lambda>_. wp (status_after_reversal l) (\<lambda>status.
       wp (set_loan (ln_id l) (ln_status_update (\<lambda>_. status))) (\<lambda>_.
       wp (audit_record aa ac ak ar ai ap ab) (\<lambda>_. wp commit (\<lambda>_. wp (reload_loan (ln_id l)) Q R) R) R) R) R) R t"
proof -
  have found: "find_row ln_id (ln_id l) (upd_row ln_id (ln_id l) (ln_status_update (\<lambda>_. st)) (loans (objs t))) =
      Some (l\<lparr>ln_status := st\<rparr>)" for st by (simp add: find_upd_row l)
  show ?thesis
    by (simp add: set_repayment_def wp_change wp_status_after_reversal clean fits wp_set_loan)
       (rule wp_audit_then_commit, use ok in \<open>simp add: Let_def reversed_db_def wp_reload_loan found\<close>)
qed

lemma wp_reversal_effect:
  assumes clean: "clean s" and l: "find_row ln_id (ln_id l) (loans (objs s)) = Some l" and fits: "interest_fits l"
    and ok: "\<And>d t a n u. let st = status_after (autoflush s) l (rp_id r) d
      in reversal_step s actor cid l r d t \<longrightarrow> next_uuid t < u \<longrightarrow>
         Q (l\<lparr>ln_status := st\<rparr>) (saved (log_db a n (reversed_db l (rp_id r) st d)) u t)"
    and no: "\<And>e t. durable t = durable s \<Longrightarrow> R e t"
  shows "wp (reversal_effect actor cid l r note) Q R s"
  unfolding reversal_effect_def wp_bind
proof (rule wp_undo_posting [OF clean], goal_cases)
  case (1 t)
  note t = undone_clean [OF 1 clean] undone_keeps [OF 1]
  then show ?case
    by (intro wp_reversal_finish [OF t(1) _ fits])
       (use ok [of "objs t" t] 1 l in \<open>simp_all add: Let_def reversal_step_def\<close>)
qed (simp add: no)

lemma wp_reverse_repayment:
  assumes clean: "clean s"
    and fits: "\<And>l. find_row ln_id lid (loans (objs s)) = Some l \<Longrightarrow> interest_fits l"
    and ok: "\<And>c l r m d t a n u. let st = status_after (autoflush s) l (rp_id r) d
      in find_row ch_id cid (chamas (objs s)) = Some c \<longrightarrow> find_row ln_id lid (loans (objs s)) = Some l \<longrightarrow>
         ln_chama_id l = ch_id c \<longrightarrow> write_ok actor (ch_id c) (objs s) m \<longrightarrow>
         holds_role (objs s) (ms_id m) CHAIRPERSON \<longrightarrow>
         find_row rp_id rid (repayments (objs s)) = Some r \<longrightarrow> rp_loan_id r = ln_id l \<longrightarrow>
         rp_chama_id r = ch_id c \<longrightarrow> rp_status r = RP_CONFIRMED \<longrightarrow>
         reversal_step s actor (ch_id c) l r d t \<longrightarrow> next_uuid t < u \<longrightarrow>
         Q (l\<lparr>ln_status := st\<rparr>) (saved (log_db a n (reversed_db l (rp_id r) st d)) u t)"
    and no: "\<And>e t. durable t = durable s \<Longrightarrow> R e t"
  shows "wp (reverse_repayment actor cid lid rid note) Q R s"
proof -
  have eff: "wp (reversal_effect actor (ch_id c) l r note) Q R s"
    if "find_row ch_id cid (chamas (objs s)) = Some c" "find_row ln_id lid (loans (objs s)) = Some l"
      "find_row ln_id (ln_id l) (loans (objs s)) = Some l" "ln_chama_id l = ch_id c"
      "write_ok actor (ch_id c) (objs s) m" "holds_role (objs s) (ms_id m) CHAIRPERSON"
      "find_row rp_id rid (repayments (objs s)) = Some r" "rp_loan_id r = ln_id l"
      "rp_chama_id r = ch_id c" "rp_status r = RP_CONFIRMED" for c l r m
    apply (rule wp_reversal_effect [OF clean that(3) fits [OF that(2)] _ no])
     apply (use ok [where c = c and l = l and m = m and r = r] that in \<open>simp add: Let_def\<close>)
    apply assumption
    done
  show ?thesis
    unfolding reverse_repayment_def
    by (rule wp_chama_write [OF clean])
       (auto simp: wp clean intro!: wp_get_chama_loan eff no split: option.split)
qed

end
