(* ===== verification/Lifecycle.thy ===== *)
theory Lifecycle
  imports Audit_Trail
begin

text \<open>
  The lifecycles of the status columns, as an interface: a row carries a key and a status, an
  operation may move the status of rows along the edges of a machine, and some statuses are
  final. A service that shows of each of its operations that every database it commits is
  \<open>follows\<close> the one before gets that final statuses last, over any sequence of them.
\<close>

locale status_machine =
  fixes edge :: "'st \<Rightarrow> 'st \<Rightarrow> bool"
    and final :: "'st \<Rightarrow> bool"
  assumes final_stuck: "final a \<Longrightarrow> \<not> edge a b"
begin

lemma final_lasts: "edge\<^sup>*\<^sup>* a b \<Longrightarrow> final a \<Longrightarrow> b = a"
  by (induction rule: converse_rtranclp_induct) (auto dest: final_stuck)

lemma never_back: "edge\<^sup>*\<^sup>* a b \<Longrightarrow> final a \<Longrightarrow> b \<noteq> a \<Longrightarrow> False"
  using final_lasts by blast

end

locale status_table = status_machine edge final
  for edge :: "'st \<Rightarrow> 'st \<Rightarrow> bool" and final :: "'st \<Rightarrow> bool" +
  fixes tab :: "db \<Rightarrow> 'r list"
    and key :: "'r \<Rightarrow> uuid"
    and status :: "'r \<Rightarrow> 'st"
    and same :: "'r \<Rightarrow> 'r \<Rightarrow> bool"
  assumes same_refl: "same r r"
    and same_trans: "same p q \<Longrightarrow> same q r \<Longrightarrow> same p r"
begin

text \<open>
  Every row is still there, with the same terms, its status moved along the edges.
\<close>

definition follows :: "db \<Rightarrow> db \<Rightarrow> bool" where
  "follows d d' \<longleftrightarrow>
     (\<forall>k r. find_row key k (tab d) = Some r \<longrightarrow>
        (\<exists>r'. find_row key k (tab d') = Some r' \<and> same r r' \<and> edge\<^sup>*\<^sup>* (status r) (status r')))"

lemma follows_refl: "tab d' = tab d \<Longrightarrow> follows d d'"
  by (simp add: follows_def same_refl)

lemma follows_same: "tab e = tab d \<Longrightarrow> follows e d' = follows d d'"
  by (simp add: follows_def)

lemma follows_trans: "follows d d' \<Longrightarrow> follows d' d'' \<Longrightarrow> follows d d''"
  unfolding follows_def by (meson rtranclp_trans same_trans)

lemma follows_update:
  assumes "tab d' = upd_row key k f (tab d)" and "\<And>r. key (f r) = key r"
    and "find_row key k (tab d) = Some r0" and "same r0 (f r0)" and "edge\<^sup>*\<^sup>* (status r0) (status (f r0))"
  shows "follows d d'"
  using assms by (auto simp: follows_def find_upd_row same_refl)

lemma follows_append:
  "tab d' = tab d @ rs \<Longrightarrow> follows d d'"
  by (auto simp: follows_def find_row_append same_refl)

lemma final_row_lasts:
  assumes "follows d d'" and "find_row key k (tab d) = Some r" and "final (status r)"
  shows "\<exists>r'. find_row key k (tab d') = Some r' \<and> same r r' \<and> status r' = status r"
  using assms final_lasts unfolding follows_def by blast

end

text \<open>
  What a program did to the history: it grew by databases that satisfy a predicate, or not at
  all. A request that grows the history so leaves a session at rest in such a database or where
  it was.
\<close>

definition grows :: "(db \<Rightarrow> bool) \<Rightarrow> sess \<Rightarrow> sess \<Rightarrow> bool" where
  "grows P s t \<longleftrightarrow> (\<exists>ds. durable t = ds @ durable s \<and> (\<forall>d \<in> set ds. P d))"

lemma grows_same [simp]: "durable t = durable s \<Longrightarrow> grows P s t"
  by (simp add: grows_def)

lemma grows_saved: "P d \<Longrightarrow> grows P s (saved d u s)"
  unfolding grows_def by (intro exI [of _ "[d]"]) simp

lemma grows_saved2: "P d \<Longrightarrow> P d' \<Longrightarrow> grows P s (saved d u (saved d' u' s))"
  unfolding grows_def by (intro exI [of _ "[d, d']"]) simp

lemma grows_saved_on: "grows P s t \<Longrightarrow> P d \<Longrightarrow> grows P s (saved d u t)"
  by (auto simp: grows_def)

lemma grows_Cons: "durable t' = d # durable t \<Longrightarrow> grows P s t \<Longrightarrow> P d \<Longrightarrow> grows P s t'"
  unfolding grows_def by (elim exE, rule_tac x = "d # ds" in exI) auto

lemma grows_from: "grows P t t' \<Longrightarrow> durable t = durable s \<Longrightarrow> grows P s t'"
  by (simp add: grows_def)

lemma grows_conj: "grows P s t \<Longrightarrow> grows Q s t \<Longrightarrow> grows (\<lambda>d. P d \<and> Q d) s t"
  by (auto simp: grows_def)

lemma grows_mono: "grows P s t \<Longrightarrow> (\<And>d. P d \<Longrightarrow> Q d) \<Longrightarrow> grows Q s t"
  by (auto simp: grows_def)

lemma request_grows:
  assumes clean: "clean s" and run: "wp m (\<lambda>_ t. grows P s t) (\<lambda>_ t. grows P s t) s"
  shows "clean (snd (request m s))"
    and "objs (snd (request m s)) = objs s \<or> P (objs (snd (request m s)))"
proof -
  obtain r t where m: "m s = (r, t)" by (rule prod.exhaust)
  then have "grows P s t" using wp_state [OF run] by blast
  then obtain ds where ds: "durable t = ds @ durable s" "\<forall>d \<in> set ds. P d"
    by (auto simp: grows_def)
  have start: "durable s \<noteq> []" "hd (durable s) = objs s" using clean unfolding clean_def by metis+
  show "clean (snd (request m s))"
    using ds(1) start(1) by (intro clean_request) (simp add: m)
  have "hd (durable t) = objs s \<or> P (hd (durable t))"
    using ds start by (cases ds) auto
  then show "objs (snd (request m s)) = objs s \<or> P (objs (snd (request m s)))"
    unfolding request_closed [where m = m, OF m] .
qed

section \<open>Services and the requests they serve\<close>

text \<open>
  The sessions that any sequence of a service's requests reaches, by any users, in any Chama and
  at any time: each request is served from the last committed database and closes its session.
  Between requests the clocks move.
\<close>

inductive served :: "(user \<Rightarrow> uuid \<Rightarrow> 'op \<Rightarrow> 'a act) \<Rightarrow> ('op \<Rightarrow> bool) \<Rightarrow> sess \<Rightarrow> sess \<Rightarrow> bool"
  for run valid s where
  start: "served run valid s s"
| serve: "served run valid s t \<Longrightarrow> valid op \<Longrightarrow> served run valid s (snd (request (run actor cid op) t))"
| tick: "served run valid s t \<Longrightarrow> served run valid s (t\<lparr>local_now := local, utc_now := utc\<rparr>)"

text \<open>
  The contract of a service: from a session at rest in a good database, each request commits
  only good databases, related to the one before. It then holds of every session reached.
\<close>

locale service =
  fixes run :: "user \<Rightarrow> uuid \<Rightarrow> 'op \<Rightarrow> 'a act"
    and valid :: "'op \<Rightarrow> bool"
    and inv :: "db \<Rightarrow> bool"
    and rel :: "db \<Rightarrow> db \<Rightarrow> bool"
  assumes rel_refl: "rel d d"
    and rel_trans: "rel d d' \<Longrightarrow> rel d' d'' \<Longrightarrow> rel d d''"
    and keeps: "clean s \<Longrightarrow> inv (objs s) \<Longrightarrow> valid op \<Longrightarrow>
      wp (run actor cid op) (\<lambda>_ t. grows (\<lambda>d. rel (objs s) d \<and> inv d) s t)
        (\<lambda>_ t. grows (\<lambda>d. rel (objs s) d \<and> inv d) s t) s"
begin

lemma served_good:
  "served run valid s t \<Longrightarrow> clean s \<Longrightarrow> inv (objs s) \<Longrightarrow> clean t \<and> inv (objs t) \<and> rel (objs s) (objs t)"
proof (induction rule: served.induct)
  case start
  then show ?case by (simp add: rel_refl)
next
  case (serve t op actor cid)
  then have t: "clean t" "inv (objs t)" "rel (objs s) (objs t)" by blast+
  note next' = request_grows [OF t(1) keeps [OF t(1,2) serve.hyps(2), of actor cid]]
  from next'(2) have "inv (objs (snd (request (run actor cid op) t))) \<and> rel (objs s) (objs (snd (request (run actor cid op) t)))"
  proof
    assume same: "objs (snd (request (run actor cid op) t)) = objs t"
    show ?thesis unfolding same using t by blast
  next
    assume "rel (objs t) (objs (snd (request (run actor cid op) t))) \<and> inv (objs (snd (request (run actor cid op) t)))"
    then show ?thesis using rel_trans [OF t(3)] by blast
  qed
  with next'(1) show ?case by blast
next
  case (tick t utc local)
  then show ?case by simp
qed

lemma served_inv: "served run valid s t \<Longrightarrow> clean s \<Longrightarrow> inv (objs s) \<Longrightarrow> inv (objs t)"
  using served_good by blast

lemma served_rel: "served run valid s t \<Longrightarrow> clean s \<Longrightarrow> inv (objs s) \<Longrightarrow> rel (objs s) (objs t)"
  using served_good by blast

end

end
