(* ===== verification/Loan_Life.thy ===== *)
theory Loan_Life
  imports Loan_Facts Lifecycle
begin

text \<open>
  The properties of the loan service: eligibility, the lifecycle, disbursement, the allocation
  of repayments and what reversing a repayment does to the status.
\<close>

section \<open>The lifecycle\<close>

definition funded :: "loan_status \<Rightarrow> bool" where
  "funded st \<longleftrightarrow> st = LN_DISBURSED \<or> st = LN_PARTIALLY_REPAID \<or> st = LN_REPAID"

definition loan_edge :: "loan_status \<Rightarrow> loan_status \<Rightarrow> bool" where
  "loan_edge a b \<longleftrightarrow>
     a = LN_DRAFT \<and> b = LN_SUBMITTED \<or>
     a = LN_SUBMITTED \<and> (b = LN_APPROVED \<or> b = LN_REJECTED) \<or>
     a = LN_APPROVED \<and> (b = LN_DISBURSED \<or> b = LN_CANCELLED) \<or>
     funded a \<and> funded b"

definition loan_final :: "loan_status \<Rightarrow> bool" where
  "loan_final st \<longleftrightarrow> st = LN_REJECTED \<or> st = LN_CANCELLED"

text \<open>The terms of a loan that nothing changes.\<close>

definition same_terms :: "loan \<Rightarrow> loan \<Rightarrow> bool" where
  "same_terms l l' \<longleftrightarrow>
     ln_id l' = ln_id l \<and> ln_chama_id l' = ln_chama_id l \<and> ln_membership_id l' = ln_membership_id l \<and>
     ln_principal l' = ln_principal l \<and> ln_interest_rate l' = ln_interest_rate l \<and>
     ln_term_months l' = ln_term_months l"

interpretation loan_life: status_table loan_edge loan_final loans ln_id ln_status same_terms
  by unfold_locales (auto simp: loan_edge_def loan_final_def funded_def same_terms_def)

text \<open>The requests on loans, with the amounts the request schema lets through.\<close>

datatype loan_op =
    Apply money int "string option"
  | Submit uuid
  | Approve uuid
  | Reject uuid "string option"
  | Cancel uuid
  | Disburse uuid
  | Repay uuid money "string option"
  | Reverse_Repayment uuid uuid "string option"

fun run_loan_op :: "user \<Rightarrow> uuid \<Rightarrow> loan_op \<Rightarrow> loan act" where
  "run_loan_op actor cid (Apply amount term note) = loan_apply actor cid amount term note"
| "run_loan_op actor cid (Submit lid) = loan_submit actor cid lid"
| "run_loan_op actor cid (Approve lid) = loan_approve actor cid lid"
| "run_loan_op actor cid (Reject lid note) = loan_reject actor cid lid note"
| "run_loan_op actor cid (Cancel lid) = loan_cancel actor cid lid"
| "run_loan_op actor cid (Disburse lid) = loan_disburse actor cid lid"
| "run_loan_op actor cid (Repay lid amount note) = record_repayment actor cid lid amount note"
| "run_loan_op actor cid (Reverse_Repayment lid rid note) = reverse_repayment actor cid lid rid note"

fun valid_loan_op :: "loan_op \<Rightarrow> bool" where
  "valid_loan_op (Apply amount term note) = (0 < amount \<and> amount < 10 ^ 18)"
| "valid_loan_op _ = True"

definition loans_inv :: "db \<Rightarrow> bool" where
  "loans_inv d \<longleftrightarrow>
     (\<forall>k l. find_row ln_id k (loans d) = Some l \<longrightarrow> interest_fits l) \<and>
     (\<forall>r \<in> set (repayments d). \<exists>l. find_row ln_id (rp_loan_id r) (loans d) = Some l \<and> funded (ln_status l))"

text \<open>What a run does to the history: each new database follows the one it started from.\<close>

abbreviation loan_step :: "sess \<Rightarrow> sess \<Rightarrow> bool" where
  "loan_step s \<equiv> grows (\<lambda>d. loan_life.follows (objs s) d \<and> loans_inv d) s"

lemmas loan_step_saved = grows_saved [of "\<lambda>d. loan_life.follows (objs s) d \<and> loans_inv d" for s, OF conjI]
lemmas loan_step_saved2 =
  grows_saved2 [of "\<lambda>d. loan_life.follows (objs s) d \<and> loans_inv d" for s, OF conjI conjI]

lemma interest_fits_cong:
  "ln_principal l' = ln_principal l \<Longrightarrow> ln_interest_rate l' = ln_interest_rate l \<Longrightarrow>
     interest_fits l' = interest_fits l"
  by (simp add: interest_fits_def interest_of_def)

text \<open>One loan moved along an edge, everything else of the loan tables as it was.\<close>

lemma moved_follows:
  assumes "find_row ln_id (ln_id l) (loans d) = Some l" and "loans d' = upd_row ln_id (ln_id l) f (loans d)"
    and "\<And>r. same_terms r (f r)" and "loan_edge (ln_status l) (ln_status (f l))"
  shows "loan_life.follows d d'"
proof (rule loan_life.follows_update [OF assms(2) _ assms(1)])
  show "\<And>r. ln_id (f r) = ln_id r" "same_terms l (f l)" using assms(3) by (simp_all add: same_terms_def)
  show "loan_edge\<^sup>*\<^sup>* (ln_status l) (ln_status (f l))" using assms(4) by blast
qed

lemma moved_inv:
  assumes inv: "loans_inv d" and l: "find_row ln_id (ln_id l) (loans d) = Some l"
    and d': "loans d' = upd_row ln_id (ln_id l) f (loans d)" and f: "\<And>r. same_terms r (f r)"
    and reps: "\<And>r. r \<in> set (repayments d') \<Longrightarrow>
      (\<exists>q \<in> set (repayments d). rp_loan_id q = rp_loan_id r) \<or> rp_loan_id r = ln_id l"
    and st: "funded (ln_status l) \<Longrightarrow> funded (ln_status (f l))"
    and new: "repayments d' = repayments d \<or> funded (ln_status (f l))"
  shows "loans_inv d'"
proof -
  have key: "\<And>r. ln_id (f r) = ln_id r" using f by (simp add: same_terms_def)
  note find = find_upd_row [where key = ln_id and f = f, OF key]
  have fits: "interest_fits (f r) = interest_fits r" for r
    using f [of r] by (intro interest_fits_cong) (simp_all add: same_terms_def)
  have "interest_fits m" if "find_row ln_id k (loans d') = Some m" for k m
    using that inv by (auto simp: d' find loans_inv_def fits split: if_splits)
  moreover have "\<exists>m. find_row ln_id (rp_loan_id r) (loans d') = Some m \<and> funded (ln_status m)"
    if "r \<in> set (repayments d')" for r
  proof (cases "rp_loan_id r = ln_id l")
    case True
    have "funded (ln_status (f l))"
    proof (cases "repayments d' = repayments d")
      case same: True
      then have "\<exists>m. find_row ln_id (ln_id l) (loans d) = Some m \<and> funded (ln_status m)"
        using inv that True by (force simp: loans_inv_def)
      then show ?thesis using l st by simp
    next
      case False
      then show ?thesis using new by simp
    qed
    then show ?thesis by (simp add: d' find True l)
  next
    case False
    then have "\<exists>q \<in> set (repayments d). rp_loan_id q = rp_loan_id r" using reps [OF that] by blast
    then have "\<exists>m. find_row ln_id (rp_loan_id r) (loans d) = Some m \<and> funded (ln_status m)"
      using inv unfolding loans_inv_def by metis
    then show ?thesis using False by (simp add: d' find)
  qed
  ultimately show ?thesis by (simp add: loans_inv_def)
qed

lemma status_of_funded [simp]: "funded (status_of l op oi)"
  by (simp add: status_of_def funded_def)

lemma status_after_funded [simp]: "funded (status_after af l rid d)"
  by (simp add: status_after_def Let_def)

lemma loans_inv_fits: "loans_inv d \<Longrightarrow> find_row ln_id k (loans d) = Some l \<Longrightarrow> interest_fits l"
  by (simp add: loans_inv_def)

lemma repayable_funded: "repayable st \<Longrightarrow> funded st"
  by (auto simp: repayable_def funded_def)

lemma wp_simple_move:
  assumes "loans_inv (objs s)" and "find_row ln_id lid (loans (objs s)) = Some l"
    and "\<And>r. same_terms r (f r)" and "loan_edge (ln_status l) (ln_status (f l))"
    and "loans d' = upd_row ln_id (ln_id l) f (loans (objs s))" and "repayments d' = repayments (objs s)"
  shows "loan_life.follows (objs s) d' \<and> loans_inv d'"
proof -
  have l: "find_row ln_id (ln_id l) (loans (objs s)) = Some l"
    using assms(2) by (auto dest: find_row_SomeD)
  have "funded (ln_status l) \<Longrightarrow> funded (ln_status (f l))"
    using assms(4) by (auto simp: loan_edge_def funded_def)
  with assms show ?thesis
    by (intro conjI moved_follows [OF l] moved_inv [OF assms(1) l]) auto
qed

lemma loan_step_move:
  assumes "loans_inv (objs s)" and "find_row ln_id lid (loans (objs s)) = Some l"
    and "\<And>r. same_terms r (f r)" and "loan_edge (ln_status l) (ln_status (f l))"
  shows "loan_step s (saved (loan_moved (ln_id l) f a n (objs s)) u s)"
  using wp_simple_move [OF assms, of "loan_moved (ln_id l) f a n (objs s)"]
  by (intro loan_step_saved) (simp_all add: loan_moved_def)

lemma loan_step_posting:
  assumes "loans_inv (objs s)" and "find_row ln_id lid (loans (objs s)) = Some l"
    and "\<And>r. same_terms r (f r)" and "loan_edge (ln_status l) (ln_status (f l))"
    and d: "loans d = upd_row ln_id (ln_id l) f (loans (objs s))"
      "repayments d = repayments (objs s) \<or> repayments d = repayments (objs s) @ [r] \<and> rp_loan_id r = ln_id l \<and>
         funded (ln_status (f l))"
  shows "loan_step s (saved (log_db a n d) u (saved d u' s))" and "loan_step s (saved (log_db a n d) u s)"
proof -
  have l: "find_row ln_id (ln_id l) (loans (objs s)) = Some l"
    using assms(2) by (auto dest: find_row_SomeD)
  have "funded (ln_status l) \<Longrightarrow> funded (ln_status (f l))"
    using assms(4) by (auto simp: loan_edge_def funded_def)
  then have "loans_inv d'" if "loans d' = loans d" "repayments d' = repayments d" for d'
    using d that by (intro moved_inv [OF assms(1) l _ assms(3)]) auto
  moreover have "loan_life.follows (objs s) d'" if "loans d' = loans d" for d'
    by (rule moved_follows [OF l _ assms(3,4)]) (simp add: that d)
  ultimately show "loan_step s (saved (log_db a n d) u (saved d u' s))" "loan_step s (saved (log_db a n d) u s)"
    by (auto intro!: loan_step_saved2 loan_step_saved)
qed

lemma interest_fits_new:
  assumes "0 < p" and "p < 10 ^ 18" and "ln_principal l = p" and "ln_interest_rate l = LOAN_INTEREST_RATE"
  shows "interest_fits l"
proof -
  have q: "dec_of_money p * dec_of_e4 LOAN_INTEREST_RATE \<le> dec_of_money p"
    "0 \<le> dec_of_money p * dec_of_e4 LOAN_INTEREST_RATE"
    using assms(1) by (simp_all add: LOAN_INTEREST_RATE_def dec_of_e4_def)
  have "interest_of l \<le> p" using quantize_mono [OF q(1), of 2] by (simp add: interest_of_def assms(3,4))
  moreover have "0 \<le> interest_of l" using quantize_nonneg [OF q(2), of 2] by (simp add: interest_of_def assms(3,4))
  ultimately have "\<bar>interest_of l\<bar> < 10 ^ 18" using assms(2) by simp
  then show ?thesis by (simp add: interest_fits_def DECIMAL_PRECISION_def)
qed

lemma same_terms_simps [simp]:
  "same_terms l (l\<lparr>ln_status := st\<rparr>)" "same_terms l (disbursed s actor m l)"
  "same_terms l (l\<lparr>ln_status := st, ln_approval_date := ad, ln_approved_by_user_id := ab\<rparr>)"
  by (simp_all add: same_terms_def disbursed_def)

lemma disbursed_status [simp]: "ln_status (disbursed s actor m l) = LN_DISBURSED"
  by (simp add: disbursed_def)

lemma loan_edge_simps [simp]:
  "loan_edge LN_DRAFT LN_SUBMITTED" "loan_edge LN_SUBMITTED LN_APPROVED" "loan_edge LN_SUBMITTED LN_REJECTED"
  "loan_edge LN_APPROVED LN_DISBURSED" "loan_edge LN_APPROVED LN_CANCELLED"
  "funded a \<Longrightarrow> funded b \<Longrightarrow> loan_edge a b"
  by (simp_all add: loan_edge_def)

lemma loan_step_apply:
  assumes "loans_inv (objs s)" and "interest_fits l"
  shows "loan_step s (saved (log_db a n ((objs s)\<lparr>loans := loans (objs s) @ [l]\<rparr>)) u s)"
proof (rule loan_step_saved)
  show "loan_life.follows (objs s) (log_db a n ((objs s)\<lparr>loans := loans (objs s) @ [l]\<rparr>))"
    by (rule loan_life.follows_append [where rs = "[l]"]) simp
  have "find_row ln_id k (loans (objs s) @ [l]) = Some m \<Longrightarrow> interest_fits m" for k m
    using assms by (auto simp: loans_inv_def find_row_append find_row_Cons split: option.splits if_splits)
  moreover have "\<exists>m. find_row ln_id (rp_loan_id r) (loans (objs s) @ [l]) = Some m \<and> funded (ln_status m)"
    if "r \<in> set (repayments (objs s))" for r
    using assms(1) that by (force simp: loans_inv_def find_row_append)
  ultimately show "loans_inv (log_db a n ((objs s)\<lparr>loans := loans (objs s) @ [l]\<rparr>))"
    by (simp add: loans_inv_def)
qed

lemma loan_step_reversal:
  assumes inv: "loans_inv (objs s)" and l: "find_row ln_id lid (loans (objs s)) = Some l"
    and r: "find_row rp_id rid (repayments (objs s)) = Some r" "rp_loan_id r = ln_id l" and st: "funded st"
    and step: "reversal_step s actor cid l r d t"
  shows "loan_step s (saved (log_db a n (reversed_db l (rp_id r) st d)) u t)"
proof -
  have l': "find_row ln_id (ln_id l) (loans (objs s)) = Some l" using l by (auto dest: find_row_SomeD)
  have fund: "funded (ln_status l)" using inv r l' by (force simp: loans_inv_def dest: find_row_SomeD)
  have d: "loans d = loans (objs s)" "repayments d = repayments (objs s)"
    using step by (auto simp: reversal_step_def undone_def)
  let ?d = "log_db a n (reversed_db l (rp_id r) st d)"
  have "loan_life.follows (objs s) ?d"
    by (rule moved_follows [OF l', where f = "ln_status_update (\<lambda>_. st)"]) (simp_all add: d fund st)
  moreover have "loans_inv ?d"
    by (rule moved_inv [OF inv l', where f = "ln_status_update (\<lambda>_. st)"])
       (auto simp: d fund st set_upd_row)
  moreover have "loan_life.follows (objs s) d" "loans_inv d"
    using inv d by (simp_all add: loan_life.follows_refl loans_inv_def)
  ultimately show ?thesis using step
    by (auto simp: reversal_step_def undone_def intro: loan_step_saved loan_step_saved2)
qed

lemma loan_step_disburse:
  assumes "loans_inv (objs s)" and "find_row ln_id lid (loans (objs s)) = Some l" and "ln_status l = LN_APPROVED"
  shows "loan_step s (saved (log_db a n (add_posting t es
      (loans_update (upd_row ln_id (ln_id l) (disbursed v actor maturity)) (objs s)))) u (saved
      (add_posting t es (loans_update (upd_row ln_id (ln_id l) (disbursed v actor maturity)) (objs s))) u' s))"
  by (rule loan_step_posting [OF assms(1,2), where f = "disbursed v actor maturity"])
     (simp_all add: assms(3))

lemma loan_step_repay:
  assumes "loans_inv (objs s)" and "find_row ln_id lid (loans (objs s)) = Some l"
    and "repayable (ln_status l)" and "funded st" and "rp_loan_id r = ln_id l"
  shows "loan_step s (saved (log_db a n (add_posting t es (repaid_db l r st (objs s)))) u
      (saved (add_posting t es (repaid_db l r st (objs s))) u' s))"
    and "loan_step s (saved (log_db a n (repaid_db l r st (objs s))) u s)"
  by (rule loan_step_posting [OF assms(1,2), where f = "ln_status_update (\<lambda>_. st)" and r = r];
      simp add: repayable_funded [OF assms(3)] assms(4,5) repaid_db_def)+

lemma wp_loan_op:
  assumes clean: "clean s" and inv: "loans_inv (objs s)" and valid: "valid_loan_op op"
  shows "wp (run_loan_op actor cid op) (\<lambda>_ t. loan_step s t) (\<lambda>_ t. loan_step s t) s"
proof (cases op)
  case (Apply amount tm nt)
  have "interest_fits (new_loan s actor c m amount tm nt)" for c m
    using valid Apply by (intro interest_fits_new [of amount]) (simp_all add: new_loan_def)
  then show ?thesis using Apply by (auto intro!: wp_loan_apply [OF clean] loan_step_apply [OF inv])
next
  case (Submit lid)
  then show ?thesis by (auto intro!: wp_loan_submit [OF clean] loan_step_move [OF inv])
next
  case (Approve lid)
  then show ?thesis by (auto intro!: wp_loan_approve [OF clean] loan_step_move [OF inv])
next
  case (Reject lid nt)
  then show ?thesis by (auto intro!: wp_loan_reject [OF clean] loan_step_move [OF inv])
next
  case (Cancel lid)
  then show ?thesis by (auto intro!: wp_loan_cancel [OF clean] loan_step_move [OF inv])
next
  case (Disburse lid)
  then show ?thesis
    by (auto intro!: wp_loan_disburse [OF clean] loan_step_move [OF inv] loan_step_disburse [OF inv]
        simp: clean Let_def)
next
  case (Repay lid amount nt)
  then show ?thesis
    by (auto intro!: wp_record_repayment [OF clean] loan_step_repay [OF inv] simp: Let_def new_repayment_def)
next
  case (Reverse_Repayment lid rid nt)
  then show ?thesis
    by (auto intro!: wp_reverse_repayment [OF clean] intro: loan_step_reversal [OF inv _ _ _ status_after_funded] loans_inv_fits [OF inv] simp: Let_def)
qed

section \<open>The books of a loan\<close>

lemma outstanding_repaid [simp]:
  "outstanding_principal l (log_db x n d) = outstanding_principal l d"
  "outstanding_interest l (log_db x n d) = outstanding_interest l d"
  "outstanding_principal l (add_posting t es d) = outstanding_principal l d"
  "outstanding_interest l (add_posting t es d) = outstanding_interest l d"
  "rp_loan_id r = ln_id l \<Longrightarrow> rp_status r = RP_CONFIRMED \<Longrightarrow>
     outstanding_principal l (repaid_db k r st d) = outstanding_principal l d - rp_principal_portion r"
  "rp_loan_id r = ln_id l \<Longrightarrow> rp_status r = RP_CONFIRMED \<Longrightarrow>
     outstanding_interest l (repaid_db k r st d) = outstanding_interest l d - rp_interest_portion r"
  by (simp_all add: outstanding_principal_def outstanding_interest_def paid_principal_def paid_interest_def)

lemma outstanding_status [simp]:
  "outstanding_principal (l\<lparr>ln_status := st\<rparr>) d = outstanding_principal l d"
  "outstanding_interest (l\<lparr>ln_status := st\<rparr>) d = outstanding_interest l d"
  by (simp_all add: outstanding_principal_def outstanding_interest_def interest_of_def)

lemma new_repayment_simps [simp]:
  "rp_loan_id (new_repayment s actor l amount ip nt) = ln_id l"
  "rp_status (new_repayment s actor l amount ip nt) = RP_CONFIRMED"
  "rp_amount (new_repayment s actor l amount ip nt) = amount"
  "rp_principal_portion (new_repayment s actor l amount ip nt) = amount - ip"
  "rp_interest_portion (new_repayment s actor l amount ip nt) = ip"
  "rp_id (new_repayment s actor l amount ip nt) = next_uuid s"
  by (simp_all add: new_repayment_def)

text \<open>
  No loan is overpaid: neither its principal nor its interest. The portions of a repayment are
  never negative and add up to its amount.
\<close>

definition loan_books :: "db \<Rightarrow> bool" where
  "loan_books d \<longleftrightarrow>
     (\<forall>k l. find_row ln_id k (loans d) = Some l \<longrightarrow>
        0 \<le> outstanding_principal l d \<and> 0 \<le> outstanding_interest l d) \<and>
     (\<forall>r \<in> set (repayments d). 0 \<le> rp_principal_portion r \<and> 0 \<le> rp_interest_portion r \<and>
        rp_amount r = rp_principal_portion r + rp_interest_portion r)"

lemma outstanding_cong:
  "same_terms l l' \<Longrightarrow> repayments d' = repayments d \<Longrightarrow>
     outstanding_principal l' d' = outstanding_principal l d \<and> outstanding_interest l' d' = outstanding_interest l d"
  by (simp add: same_terms_def outstanding_principal_def outstanding_interest_def paid_principal_def
      paid_interest_def interest_of_def)

lemma books_change:
  assumes books: "loan_books d" and d': "loans d' = upd_row ln_id k f (loans d)" and f: "\<And>r. same_terms r (f r)"
    and out: "\<And>l. find_row ln_id (ln_id l) (loans d) = Some l \<Longrightarrow> 0 \<le> outstanding_principal l d \<Longrightarrow>
      0 \<le> outstanding_interest l d \<Longrightarrow> 0 \<le> outstanding_principal l d' \<and> 0 \<le> outstanding_interest l d'"
    and portions: "\<And>r. r \<in> set (repayments d') \<Longrightarrow> \<not> r \<in> set (repayments d) \<Longrightarrow> 0 \<le> rp_principal_portion r \<and>
      0 \<le> rp_interest_portion r \<and> rp_amount r = rp_principal_portion r + rp_interest_portion r"
  shows "loan_books d'"
proof -
  have key: "\<And>r. ln_id (f r) = ln_id r" using f by (simp add: same_terms_def)
  have "0 \<le> outstanding_principal m d' \<and> 0 \<le> outstanding_interest m d'"
    if found: "find_row ln_id i (loans d') = Some m" for i m
  proof -
    obtain l where l: "find_row ln_id i (loans d) = Some l" and m: "m = f l \<or> m = l"
      using found by (auto simp: d' find_upd_row key split: if_splits)
    then have "ln_id l = i" by (auto dest: find_row_SomeD)
    then have "0 \<le> outstanding_principal l d' \<and> 0 \<le> outstanding_interest l d'"
      using books l by (intro out) (auto simp: loan_books_def)
    then show ?thesis using m outstanding_cong [OF f refl, of l d'] by auto
  qed
  moreover have "\<forall>r \<in> set (repayments d'). 0 \<le> rp_principal_portion r \<and> 0 \<le> rp_interest_portion r \<and>
      rp_amount r = rp_principal_portion r + rp_interest_portion r"
    using books portions unfolding loan_books_def by blast
  ultimately show ?thesis by (simp add: loan_books_def)
qed

lemma books_same:
  assumes "loan_books d" and "loans d' = upd_row ln_id k f (loans d)" and "\<And>r. same_terms r (f r)"
    and "repayments d' = repayments d"
  shows "loan_books d'"
  using assms by (intro books_change [OF assms(1-3)]) (auto simp: outstanding_principal_def
      outstanding_interest_def paid_principal_def paid_interest_def)

lemma books_ledger:
  "loan_books d \<Longrightarrow> loans d' = loans d \<Longrightarrow> repayments d' = repayments d \<Longrightarrow> loan_books d'"
  by (simp add: loan_books_def outstanding_principal_def outstanding_interest_def paid_principal_def paid_interest_def)

lemma books_repaid:
  assumes books: "loan_books d" and l: "find_row ln_id (ln_id l) (loans d) = Some l" and ip: "0 \<le> ip" "ip \<le> amount"
    and enough: "ip = min amount (outstanding_interest l d)"
      "amount \<le> outstanding_principal l d + outstanding_interest l d"
  shows "loan_books (repaid_db l (new_repayment s actor l amount ip nt) st d)"
proof (rule books_change [OF books, where k = "ln_id l" and f = "ln_status_update (\<lambda>_. st)"])
  fix m assume m: "find_row ln_id (ln_id m) (loans d) = Some m" "0 \<le> outstanding_principal m d" "0 \<le> outstanding_interest m d"
  let ?d = "repaid_db l (new_repayment s actor l amount ip nt) st d"
  show "0 \<le> outstanding_principal m ?d \<and> 0 \<le> outstanding_interest m ?d"
  proof (cases "ln_id m = ln_id l")
    case True
    then have ml: "m = l" using m(1) l by (metis option.inject)
    show ?thesis
      using m(2,3) enough ip unfolding ml by (cases "amount \<le> outstanding_interest l d") simp_all
  next
    case False
    then have "outstanding_principal m ?d = outstanding_principal m d" "outstanding_interest m ?d = outstanding_interest m d"
      by (simp_all add: outstanding_principal_def outstanding_interest_def paid_principal_def paid_interest_def)
    then show ?thesis using m by simp
  qed
qed (use ip in \<open>auto simp: same_terms_def\<close>)

lemma books_reversed:
  assumes books: "loan_books d"
  shows "loan_books (reversed_db l rid st d)"
proof (rule books_change [OF books, where k = "ln_id l" and f = "ln_status_update (\<lambda>_. st)"])
  let ?rs = "repayments d" and ?g = "\<lambda>r. if rp_id r = rid then r\<lparr>rp_status := RP_REVERSED\<rparr> else r"
  have pos: "\<forall>r \<in> set ?rs. 0 \<le> rp_principal_portion r \<and> 0 \<le> rp_interest_portion r"
    using books by (simp add: loan_books_def)
  have less: "sum_list (map h (filter (\<lambda>r. rp_loan_id r = i \<and> rp_status r = RP_CONFIRMED) (map ?g rs))) \<le>
      sum_list (map h (filter (\<lambda>r. rp_loan_id r = i \<and> rp_status r = RP_CONFIRMED) rs))"
    if "\<forall>r \<in> set rs. 0 \<le> h r" "\<And>r. h (r\<lparr>rp_status := RP_REVERSED\<rparr>) = h r" for h :: "loan_repayment \<Rightarrow> int" and i rs
    using that by (induction rs) auto
  show "0 \<le> outstanding_principal m (reversed_db l rid st d) \<and> 0 \<le> outstanding_interest m (reversed_db l rid st d)"
    if "find_row ln_id (ln_id m) (loans d) = Some m" "0 \<le> outstanding_principal m d" "0 \<le> outstanding_interest m d" for m
    using that less [of ?rs rp_principal_portion "ln_id m"] less [of ?rs rp_interest_portion "ln_id m"] pos
    by (auto simp: outstanding_principal_def outstanding_interest_def paid_principal_def paid_interest_def
        upd_row_def simp del: filter_map)
next
  fix r assume "r \<in> set (repayments (reversed_db l rid st d))"
  then show "0 \<le> rp_principal_portion r \<and> 0 \<le> rp_interest_portion r \<and>
      rp_amount r = rp_principal_portion r + rp_interest_portion r"
    using books by (auto simp: upd_row_def loan_books_def split: if_splits)
qed (simp_all add: same_terms_def)

lemma books_apply:
  assumes books: "loan_books d" and inv: "loans_inv d" and l: "0 < ln_principal l" "0 \<le> ln_interest_rate l"
  shows "loan_books (log_db a n (d\<lparr>loans := loans d @ [l]\<rparr>))"
proof -
  let ?d = "log_db a n (d\<lparr>loans := loans d @ [l]\<rparr>)"
  have same: "outstanding_principal m ?d = outstanding_principal m d" "outstanding_interest m ?d = outstanding_interest m d" for m
    by (simp_all add: outstanding_principal_def outstanding_interest_def paid_principal_def paid_interest_def)
  have new: "0 \<le> outstanding_principal l d" "0 \<le> outstanding_interest l d"
    if "find_row ln_id (ln_id l) (loans d) = None"
  proof -
    have none: "filter (\<lambda>r. rp_loan_id r = ln_id l \<and> rp_status r = RP_CONFIRMED) (repayments d) = []"
      using inv that unfolding loans_inv_def filter_empty_conv by (metis option.distinct(1))
    have "0 \<le> dec_of_money (ln_principal l) * dec_of_e4 (ln_interest_rate l)"
      using l by (simp add: dec_of_e4_def)
    then have "0 \<le> interest_of l" unfolding interest_of_def by (rule quantize_nonneg)
    then show "0 \<le> outstanding_principal l d" "0 \<le> outstanding_interest l d"
      using none l(1)
      by (simp_all add: outstanding_principal_def outstanding_interest_def paid_principal_def paid_interest_def)
  qed
  have "0 \<le> outstanding_principal m d \<and> 0 \<le> outstanding_interest m d"
    if "find_row ln_id k (loans d @ [l]) = Some m" for k m
    using that books new
    by (auto simp: find_row_append find_row_Cons loan_books_def split: option.splits if_splits)
  then show ?thesis using books unfolding loan_books_def same by simp
qed

lemma books_moved:
  "loan_books d \<Longrightarrow> (\<And>r. same_terms r (f r)) \<Longrightarrow> loan_books (loan_moved k f a n d)"
  by (rule books_same [where k = k and f = f]) (simp_all add: loan_moved_def)

lemma books_disbursed:
  "loan_books d \<Longrightarrow> (\<And>r. same_terms r (f r)) \<Longrightarrow> loan_books (loans_update (upd_row ln_id k f) d)"
  by (rule books_same [where k = k and f = f]) simp_all

lemma books_logged [simp]: "loan_books (log_db a n d) = loan_books d"
  by (auto intro: books_ledger)

lemma books_posted [simp]: "loan_books (add_posting t es d) = loan_books d"
  by (auto intro: books_ledger)

lemma wp_loan_op_books:
  assumes clean: "clean s" and inv: "loans_inv (objs s)" and books: "loan_books (objs s)"
  shows "wp (run_loan_op actor cid op) (\<lambda>_ t. grows loan_books s t) (\<lambda>_ t. grows loan_books s t) s"
proof (cases op)
  case (Apply amount tm nt)
  then show ?thesis
    by (auto intro!: wp_loan_apply [OF clean] grows_saved books_apply [OF books inv]
        simp: new_loan_def LOAN_INTEREST_RATE_def loan_check_def split: if_splits)
next
  case (Submit lid)
  then show ?thesis by (auto intro!: wp_loan_submit [OF clean] grows_saved books_moved [OF books])
next
  case (Approve lid)
  then show ?thesis by (auto intro!: wp_loan_approve [OF clean] grows_saved books_moved [OF books])
next
  case (Reject lid nt)
  then show ?thesis by (auto intro!: wp_loan_reject [OF clean] grows_saved books_moved [OF books])
next
  case (Cancel lid)
  then show ?thesis by (auto intro!: wp_loan_cancel [OF clean] grows_saved books_moved [OF books])
next
  case (Disburse lid)
  then show ?thesis
    by (auto intro!: wp_loan_disburse [OF clean] grows_saved grows_saved2 books_moved [OF books]
        books_disbursed [OF books] simp: clean Let_def)
next
  case (Repay lid amount nt)
  have "grows loan_books s (saved (log_db a n (add_posting t es (repaid_db l (new_repayment s actor l amount
      (min amount (outstanding_interest l (objs s))) nt) st (objs s)))) u (saved (add_posting t es
      (repaid_db l (new_repayment s actor l amount (min amount (outstanding_interest l (objs s))) nt) st (objs s))) u' s))"
    "grows loan_books s (saved (log_db a n (repaid_db l (new_repayment s actor l amount
      (min amount (outstanding_interest l (objs s))) nt) st (objs s))) u s)"
    if "find_row ln_id lid (loans (objs s)) = Some l" "0 \<le> min amount (outstanding_interest l (objs s))"
      "amount \<le> outstanding_principal l (objs s) + outstanding_interest l (objs s)" for l st t es a n u u'
    using that books_repaid [OF books, of l] find_row_SomeD [OF that(1)]
    by (auto intro!: grows_saved grows_saved2)
  then show ?thesis using Repay
    by (auto intro!: wp_record_repayment [OF clean] simp: Let_def)
next
  case (Reverse_Repayment lid rid nt)
  have "grows loan_books s (saved (log_db a n (reversed_db l (rp_id r) st d)) u t)"
    if "reversal_step s actor (ch_id c) l r d t" for a n l r st d t u c
    using that books books_reversed [of d] by (auto simp: reversal_step_def undone_def intro!: grows_saved grows_saved2)
  then show ?thesis using Reverse_Repayment
    by (auto intro!: wp_reverse_repayment [OF clean] intro: loans_inv_fits [OF inv] simp: Let_def)
qed

text \<open>The loan service keeps its contract, with and without the books.\<close>

interpretation loan_service: service run_loan_op valid_loan_op loans_inv loan_life.follows
proof unfold_locales
  show "loan_life.follows d d" for d by (simp add: loan_life.follows_refl)
qed (rule loan_life.follows_trans, assumption+, rule wp_loan_op, assumption+)

interpretation loan_book_service:
  service run_loan_op valid_loan_op "\<lambda>d. loans_inv d \<and> loan_books d" "\<lambda>_ _. True"
proof unfold_locales
  fix s op actor cid
  assume s: "clean s" "loans_inv (objs s) \<and> loan_books (objs s)" "valid_loan_op op"
  then have "wp (run_loan_op actor cid op) (\<lambda>_ t. loan_step s t \<and> grows loan_books s t)
      (\<lambda>_ t. loan_step s t \<and> grows loan_books s t) s"
    by (intro wp_conj wp_loan_op wp_loan_op_books) simp_all
  then show "wp (run_loan_op actor cid op) (\<lambda>_ t. grows (\<lambda>d. True \<and> loans_inv d \<and> loan_books d) s t)
      (\<lambda>_ t. grows (\<lambda>d. True \<and> loans_inv d \<and> loan_books d) s t) s"
    by (rule wp_mono) (auto dest: grows_conj intro: grows_mono)
qed simp_all

end
