(* ===== verification/Loan_Props.thy ===== *)
theory Loan_Props
  imports Loan_Life Demo
begin

text \<open>
  The properties of the loan service: eligibility, segregation of duties, the lifecycle over any
  sequence of requests, disbursement, the allocation of repayments, and what reversing a
  repayment does to the status.
\<close>

section \<open>Applying and approving\<close>

text \<open>
  C6. A loan that is granted entry was within the policy: the applicant is an active member of
  an active Chama for at least thirty days, the amount is at most three times the value of their
  shares and at most the cash of the Chama, the term is between three and twelve months, and the
  stored loan is a DRAFT of exactly that amount at five per cent in the applicant's name.
\<close>

theorem loan_apply_within_policy:
  assumes clean: "clean s" and run: "loan_apply actor cid amount months nt s = (Inr l, t)"
  shows "\<exists>m. write_ok actor cid (objs s) m \<and> ln_membership_id l = ms_id m \<and>
    instant (ms_joined_at m) \<le> utc_now s - 30 * MICROS_PER_DAY \<and>
    0 < amount \<and> amount \<le> 3 * share_value_of (cf_share_unit_price (cfg s)) (ms_id m) (objs s) \<and>
    amount \<le> cash_of cid (objs s) \<and> 3 \<le> months \<and> months \<le> 12 \<and>
    ln_status l = LN_DRAFT \<and> ln_principal l = amount \<and> ln_term_months l = months \<and>
    ln_interest_rate l = 500 \<and> loans (objs t) = loans (objs s) @ [l] \<and>
    same_ledger (objs s) (objs t)"
proof -
  have "wp (loan_apply actor cid amount months nt) (\<lambda>l t. \<exists>m. write_ok actor cid (objs s) m \<and>
    ln_membership_id l = ms_id m \<and>
    instant (ms_joined_at m) \<le> utc_now s - 30 * MICROS_PER_DAY \<and>
    0 < amount \<and> amount \<le> 3 * share_value_of (cf_share_unit_price (cfg s)) (ms_id m) (objs s) \<and>
    amount \<le> cash_of cid (objs s) \<and> 3 \<le> months \<and> months \<le> 12 \<and>
    ln_status l = LN_DRAFT \<and> ln_principal l = amount \<and> ln_term_months l = months \<and>
    ln_interest_rate l = 500 \<and> loans (objs t) = loans (objs s) @ [l] \<and>
    same_ledger (objs s) (objs t)) (\<lambda>_ _. True) s"
    by (rule wp_loan_apply [OF clean])
       (auto simp: new_loan_def LOAN_INTEREST_RATE_def MIN_TENURE_DAYS_def same_ledger_def loan_check_def
         dest: find_row_SomeD split: if_splits)
  from wp_InrD [OF this run] show ?thesis .
qed

text \<open>
  Segregation of duties: whoever approves a loan is a chairperson of the Chama other than
  the applicant, and the loan had been submitted; it records who approved it and when.
\<close>

lemma loan_approved_by_another:
  assumes clean: "clean s" and run: "loan_approve actor cid lid s = (Inr l', t)"
  shows "\<exists>m l. write_ok actor cid (objs s) m \<and> holds_role (objs s) (ms_id m) CHAIRPERSON \<and>
    find_row ln_id lid (loans (objs s)) = Some l \<and> ln_chama_id l = cid \<and> ln_membership_id l \<noteq> ms_id m \<and>
    ln_status l = LN_SUBMITTED \<and>
    l' = l\<lparr>ln_status := LN_APPROVED, ln_approval_date := Some (local_now s),
           ln_approved_by_user_id := Some (us_id actor)\<rparr> \<and>
    find_row ln_id lid (loans (objs t)) = Some l'"
proof -
  have "wp (loan_approve actor cid lid) (\<lambda>l' t. \<exists>m l. write_ok actor cid (objs s) m \<and>
    holds_role (objs s) (ms_id m) CHAIRPERSON \<and>
    find_row ln_id lid (loans (objs s)) = Some l \<and> ln_chama_id l = cid \<and> ln_membership_id l \<noteq> ms_id m \<and>
    ln_status l = LN_SUBMITTED \<and>
    l' = l\<lparr>ln_status := LN_APPROVED, ln_approval_date := Some (local_now s),
           ln_approved_by_user_id := Some (us_id actor)\<rparr> \<and>
    find_row ln_id lid (loans (objs t)) = Some l') (\<lambda>_ _. True) s"
    by (rule wp_loan_approve [OF clean])
       (auto simp: loan_moved_def find_upd_row dest: find_row_SomeD intro!: exI)
  from wp_InrD [OF this run] show ?thesis .
qed

section \<open>Disbursement\<close>

text \<open>
  Disbursing an approved loan whose disbursement was not posted before moves the principal
  from cash to receivables, in every account of the Chama exactly that, from cash that covered
  it; the loan is DISBURSED and matures its term after today.
\<close>

lemma loan_disburse_effect:
  assumes clean: "clean s" and loan: "find_row ln_id lid (loans (objs s)) = Some l" "ln_status l = LN_APPROVED"
    and free: "source_free (objs s) LOAN_DISBURSEMENT_SOURCE_TYPE lid"
    and run: "loan_disburse actor cid lid s = (Inr l', t)"
  shows "\<exists>receivable cash maturity. find_account cid LOANS_RECEIVABLE_CODE (objs s) = Some receivable \<and>
    find_account cid CASH_CODE (objs s) = Some cash \<and> ln_principal l \<le> account_balance cid cash (objs s) \<and>
    transfer cid receivable cash (ln_principal l) (objs s) (objs t) \<and>
    add_months (local_now s) (ln_term_months l) = Some maturity \<and> l' = disbursed s actor maturity l \<and>
    find_row ln_id lid (loans (objs t)) = Some l'"
proof -
  have lid: "ln_id l = lid" using loan(1) by (auto dest: find_row_SomeD)
  have "wp (loan_disburse actor cid lid) (\<lambda>l' t. \<exists>receivable cash maturity.
    find_account cid LOANS_RECEIVABLE_CODE (objs s) = Some receivable \<and>
    find_account cid CASH_CODE (objs s) = Some cash \<and> ln_principal l \<le> account_balance cid cash (objs s) \<and>
    transfer cid receivable cash (ln_principal l) (objs s) (objs t) \<and>
    add_months (local_now s) (ln_term_months l) = Some maturity \<and> l' = disbursed s actor maturity l \<and>
    find_row ln_id lid (loans (objs t)) = Some l') (\<lambda>_ _. True) s"
  proof (rule wp_loan_disburse [OF clean], goal_cases)
    case (1 c l)
    then show ?case using loan by simp
  next
    case (2 c l m receivable cash maturity a n u u')
    then show ?case using loan lid find_row_SomeD [OF 2(1)]
      by (auto simp: Let_def find_upd_row disbursement_lines_def disbursed_def intro!: transfer_posting)
  next
    case (3 c l t maturity a n u)
    then show ?case using loan free lid by (auto simp: source_free_def)
  qed simp
  from wp_InrD [OF this run] show ?thesis .
qed

lemma source_free_posting [simp]:
  "source_free (log_db x n d) st i = source_free d st i"
  "source_free (add_posting t es d) st i \<longleftrightarrow> source_free d st i \<and> \<not> (lt_source_type t = st \<and> lt_source_id t = i)"
  by (auto simp: source_free_def)

text \<open>
  C7. Disbursement is atomic and happens once: every database a disbursement commits, whether
  the handler then returns or fails, has the loan DISBURSED together with the posting of its
  disbursement; and after one that returned, no further call, by whoever and however it ends,
  writes anything.
\<close>

theorem loan_disburse_atomic_once:
  assumes clean: "clean s" and run: "loan_disburse actor cid lid s = (r, t)"
  shows "(\<forall>d \<in> set (committed s t). (\<exists>l. find_row ln_id lid (loans d) = Some l \<and> ln_status l = LN_DISBURSED) \<and>
      \<not> source_free d LOAN_DISBURSEMENT_SOURCE_TYPE lid) \<and>
    (\<forall>l actor' r' t'. r = Inr l \<longrightarrow> loan_disburse actor' cid lid t = (r', t') \<longrightarrow> durable t' = durable t)"
proof -
  let ?done = "\<lambda>d. (\<exists>l. find_row ln_id lid (loans d) = Some l \<and> ln_status l = LN_DISBURSED) \<and>
      \<not> source_free d LOAN_DISBURSEMENT_SOURCE_TYPE lid"
  have one: "wp (loan_disburse actor cid lid) (\<lambda>_ t. (\<forall>d \<in> set (committed s t). ?done d) \<and> clean t \<and> ?done (objs t))
      (\<lambda>_ t. \<forall>d \<in> set (committed s t). ?done d) s"
  proof (rule wp_loan_disburse [OF clean], goal_cases)
    case (1 c l)
    then show ?case using clean by (auto dest: find_row_SomeD)
  next
    case (2 c l m receivable cash maturity a n u u')
    then show ?case using find_row_SomeD [OF 2(2)]
      by (auto simp: Let_def find_upd_row disbursement_tx_def disbursed_def new_tx_def)
  next
    case (3 c l t maturity a n u)
    then show ?case using find_row_SomeD [OF 3(2)]
      by (auto simp: loan_moved_def find_upd_row disbursed_def source_free_def)
  qed simp
  have again: "durable t' = durable t" if "clean t" "?done (objs t)" "loan_disburse actor' cid lid t = (r', t')"
    for actor' r' t'
  proof -
    have "wp (loan_disburse actor' cid lid) (\<lambda>_ t'. durable t' = durable t) (\<lambda>_ t'. durable t' = durable t) t"
      by (rule wp_loan_disburse [OF that(1)]) (use that(2) in \<open>auto simp: Let_def\<close>)
    from wp_state [OF this that(3)] show ?thesis .
  qed
  from wp_final [OF one run] show ?thesis
    using again by (auto split: sum.splits)
qed

section \<open>The lifecycle over requests\<close>

text \<open>
  C8. The lifecycle of a loan, over any sequence of requests: the loan is never lost, its
  borrower, principal, rate and term never change, its status only moves along the edges of the
  state machine (so money is never out on a loan that was not approved), and REJECTED and
  CANCELLED are final.
\<close>

theorem loan_lifecycle:
  assumes "served run_loan_op valid_loan_op s t" and "clean s" and "loans_inv (objs s)"
    and "find_row ln_id lid (loans (objs s)) = Some l"
  shows "\<exists>l'. find_row ln_id lid (loans (objs t)) = Some l' \<and> same_terms l l' \<and>
    loan_edge\<^sup>*\<^sup>* (ln_status l) (ln_status l') \<and>
    (ln_status l \<in> {LN_REJECTED, LN_CANCELLED} \<longrightarrow> ln_status l' = ln_status l)"
proof -
  have "loan_life.follows (objs s) (objs t)" using loan_service.served_rel assms(1-3) by blast
  then obtain l' where "find_row ln_id lid (loans (objs t)) = Some l'" "same_terms l l'"
    "loan_edge\<^sup>*\<^sup>* (ln_status l) (ln_status l')"
    using assms(4) unfolding loan_life.follows_def by blast
  then show ?thesis
    using loan_life.final_lasts [of "ln_status l" "ln_status l'"] by (auto simp: loan_final_def)
qed

section \<open>Repayments\<close>

text \<open>
  The money of a repayment: cash gains the amount, receivables and income are credited with the
  portions, every other account of the Chama is as it was.
\<close>

definition split_transfer :: "uuid \<Rightarrow> uuid \<Rightarrow> uuid \<Rightarrow> uuid \<Rightarrow> money \<Rightarrow> money \<Rightarrow> db \<Rightarrow> db \<Rightarrow> bool" where
  "split_transfer chama_id cash receivable income amount interest d d' \<longleftrightarrow>
     (\<forall>a. account_balance chama_id a d' = account_balance chama_id a d + (if a = cash then amount else 0) -
        (if a = receivable then amount - interest else 0) - (if a = income then interest else 0))"

lemma balance_delta_split:
  assumes "0 \<le> ip" and "ip \<le> amount"
  shows "balance_delta a (split_lines cash receivable income amount ip) =
     (if a = cash then amount else 0) - (if a = receivable then amount - ip else 0) - (if a = income then ip else 0)"
proof -
  have line: "balance_delta a (if 0 < m then [cl b m] else []) = - (if a = b then m else 0)" if "0 \<le> m" for b m
    using that by (cases "0 < m") auto
  have app: "balance_delta a (xs @ ys) = balance_delta a xs + balance_delta a ys" for xs ys
    by (simp add: balance_delta_def)
  have "balance_delta a (split_lines cash receivable income amount ip) = (if cash = a then amount else 0) +
      (- (if a = receivable then amount - ip else 0) + - (if a = income then ip else 0))"
    unfolding split_lines_def balance_delta_simps app using assms by (subst (1 2) line) simp_all
  then show ?thesis unfolding eq_commute [of cash a] by linarith
qed

lemma split_transfer_posting:
  assumes "0 \<le> ip" and "ip \<le> amount" and "ledger_entries d' = ledger_entries d"
  shows "split_transfer c cash receivable income amount ip d (log_db x n (add_posting t
    (entries_from c i now j (split_lines cash receivable income amount ip)) d'))"
  by (simp add: split_transfer_def balance_delta_split [OF assms(1,2)] account_balance_same [OF assms(3)])

lemma some_three: "P x y z \<Longrightarrow> \<exists>x y z. P x y z"
  by blast

lemma status_of_repaid: "status_of l op oi = LN_REPAID \<longleftrightarrow> op \<le> 0 \<and> oi \<le> 0"
  by (simp add: status_of_def)

text \<open>
  C9. A repayment pays interest first: it is accepted on a disbursed loan up to what is
  outstanding; what it pays of the interest is all of it or the whole interest due, the rest is
  principal, and the outstanding amounts fall by exactly the two portions; the loan is REPAID
  just when nothing is outstanding. In the ledger cash gains the amount, the account of loans
  receivable is credited with the principal and the account of interest income with the interest,
  each where its portion is positive, and every other account of the Chama is as it was.
\<close>

theorem record_repayment_split:
  assumes clean: "clean s" and free: "source_free (objs s) LOAN_REPAYMENT_SOURCE_TYPE (next_uuid s)"
    and loan: "find_row ln_id lid (loans (objs s)) = Some l"
    and run: "record_repayment actor cid lid amount nt s = (Inr l', t)"
  shows "ln_status l \<in> {LN_DISBURSED, LN_PARTIALLY_REPAID} \<and> 0 < amount \<and>
    amount \<le> outstanding_principal l (objs s) + outstanding_interest l (objs s) \<and>
    (let ip = min amount (outstanding_interest l (objs s)) in
       outstanding_interest l (objs t) = outstanding_interest l (objs s) - ip \<and>
       outstanding_principal l (objs t) = outstanding_principal l (objs s) - (amount - ip) \<and>
       (\<exists>cash receivable income. find_account cid CASH_CODE (objs s) = Some cash \<and>
          (0 < amount - ip \<longrightarrow> find_account cid LOANS_RECEIVABLE_CODE (objs s) = Some receivable) \<and>
          (0 < ip \<longrightarrow> find_account cid INTEREST_INCOME_CODE (objs s) = Some income) \<and>
          (\<forall>a. account_balance cid a (objs t) = account_balance cid a (objs s) + (if a = cash then amount else 0) -
             (if a = receivable then amount - ip else 0) - (if a = income then ip else 0)))) \<and>
    (ln_status l' = LN_REPAID \<longleftrightarrow> outstanding_principal l (objs t) \<le> 0 \<and> outstanding_interest l (objs t) \<le> 0) \<and>
    find_row ln_id lid (loans (objs t)) = Some l' \<and> same_terms l l'"
proof -
  have lid: "ln_id l = lid" using loan by (auto dest: find_row_SomeD)
  let ?ip = "min amount (outstanding_interest l (objs s))"
  have "wp (record_repayment actor cid lid amount nt) (\<lambda>l' t.
    ln_status l \<in> {LN_DISBURSED, LN_PARTIALLY_REPAID} \<and> 0 < amount \<and>
    amount \<le> outstanding_principal l (objs s) + outstanding_interest l (objs s) \<and>
    (outstanding_interest l (objs t) = outstanding_interest l (objs s) - ?ip \<and>
       outstanding_principal l (objs t) = outstanding_principal l (objs s) - (amount - ?ip) \<and>
       (\<exists>cash receivable income. find_account cid CASH_CODE (objs s) = Some cash \<and>
          (0 < amount - ?ip \<longrightarrow> find_account cid LOANS_RECEIVABLE_CODE (objs s) = Some receivable) \<and>
          (0 < ?ip \<longrightarrow> find_account cid INTEREST_INCOME_CODE (objs s) = Some income) \<and>
          split_transfer cid cash receivable income amount ?ip (objs s) (objs t))) \<and>
    (ln_status l' = LN_REPAID \<longleftrightarrow> outstanding_principal l (objs t) \<le> 0 \<and> outstanding_interest l (objs t) \<le> 0) \<and>
    find_row ln_id lid (loans (objs t)) = Some l' \<and> same_terms l l') (\<lambda>_ _. True) s"
  proof (rule wp_record_repayment [OF clean], goal_cases)
    case (1 c k m cash receivable income a n u u')
    show ?case
      unfolding Let_def
    proof (intro impI, goal_cases)
      case 1
      then have k: "k = l" and c: "ch_id c = cid" using loan by (auto dest: find_row_SomeD)
      from 1 show ?case
        unfolding k c
        by (intro conjI some_three [of _ cash receivable income])
           (simp_all add: repayable_def split_transfer_posting split_accounts_def find_upd_row loan lid status_of_repaid)
    qed
  next
    case (2 k t a n u)
    show ?case using free unfolding Let_def source_free_def by blast
  qed simp
  from wp_InrD [OF this run] show ?thesis unfolding Let_def split_transfer_def .
qed

lemma sum_list_nonneg_filter:
  "\<forall>r \<in> set rs. 0 \<le> h r \<Longrightarrow> 0 \<le> sum_list (map h (filter P rs))" for h :: "'r \<Rightarrow> int"
  by (intro sum_list_nonneg) auto

text \<open>
  C10. No loan is ever overpaid, and no repayment has a negative portion: over any sequence of
  requests, what is outstanding of the principal and of the interest stays between zero and the
  full amount, and each repayment's portions add up to it.
\<close>

theorem loans_never_overpaid:
  assumes "served run_loan_op valid_loan_op s t" and "clean s" and "loans_inv (objs s)" and "loan_books (objs s)"
    and "find_row ln_id lid (loans (objs t)) = Some l"
  shows "0 \<le> outstanding_principal l (objs t) \<and> outstanding_principal l (objs t) \<le> ln_principal l \<and>
    0 \<le> outstanding_interest l (objs t) \<and> outstanding_interest l (objs t) \<le> interest_of l \<and>
    (\<forall>r \<in> set (repayments (objs t)). 0 \<le> rp_principal_portion r \<and> 0 \<le> rp_interest_portion r \<and>
       rp_amount r = rp_principal_portion r + rp_interest_portion r)"
proof -
  have books: "loan_books (objs t)" using loan_book_service.served_inv [OF assms(1,2)] assms(3,4) by blast
  then have "0 \<le> paid_principal (ln_id l) (objs t)" "0 \<le> paid_interest (ln_id l) (objs t)"
    by (auto simp: paid_principal_def paid_interest_def loan_books_def intro!: sum_list_nonneg_filter)
  with books assms(5) show ?thesis
    by (auto simp: loan_books_def outstanding_principal_def outstanding_interest_def)
qed

section \<open>Reversing a repayment\<close>

lemma outstanding_reversed:
  assumes r: "find_row rp_id rid (repayments d) = Some r" "rp_loan_id r = ln_id l" "rp_status r = RP_CONFIRMED"
    and once: "distinct (map rp_id (repayments d))"
  shows "outstanding_principal l (reversed_db k rid st d) = outstanding_principal l d + rp_principal_portion r"
    and "outstanding_interest l (reversed_db k rid st d) = outstanding_interest l d + rp_interest_portion r"
proof -
  let ?g = "\<lambda>r. if rp_id r = rid then r\<lparr>rp_status := RP_REVERSED\<rparr> else r"
  have fall: "sum_list (map h (filter (\<lambda>r. rp_loan_id r = ln_id l \<and> rp_status r = RP_CONFIRMED) (map ?g rs))) =
      sum_list (map h (filter (\<lambda>r. rp_loan_id r = ln_id l \<and> rp_status r = RP_CONFIRMED) rs)) -
        (if r \<in> set rs then h r else 0)"
    if "distinct (map rp_id rs)" "set rs \<subseteq> set (repayments d)" for h :: "loan_repayment \<Rightarrow> int" and rs
    using that
  proof (induction rs)
    case (Cons q rs)
    have "q = r" if "rp_id q = rid"
      using that Cons.prems(2) once find_row_SomeD [OF r(1)] by (auto simp: distinct_map dest: inj_onD)
    moreover have "r \<notin> set rs" if "rp_id q = rid"
      using that Cons.prems(1) find_row_SomeD [OF r(1)] by (auto simp: image_iff)
    ultimately show ?case using Cons r(2,3) find_row_SomeD [OF r(1)] by auto
  qed simp
  have "r \<in> set (repayments d)" using r(1) by (auto dest: find_row_SomeD)
  with fall [OF once order_refl]
  show "outstanding_principal l (reversed_db k rid st d) = outstanding_principal l d + rp_principal_portion r"
    "outstanding_interest l (reversed_db k rid st d) = outstanding_interest l d + rp_interest_portion r"
    by (simp_all add: outstanding_principal_def outstanding_interest_def paid_principal_def paid_interest_def
        upd_row_def del: filter_map)
qed

text \<open>
  C11. The status a reversal stores: in the sessions of the application, which do not autoflush,
  the recomputation still counts the repayment being reversed, so a loan whose status agreed with
  what was outstanding keeps that status, while its outstanding amounts rise by the portions of
  the repayment; a REPAID loan stays REPAID with money outstanding. An autoflushing session
  stores the status of the new amounts.
\<close>

theorem reversal_leaves_status_stale:
  assumes clean: "clean s" and production: "\<not> autoflush s" and fits: "interest_fits l"
    and loan: "find_row ln_id lid (loans (objs s)) = Some l"
      "ln_status l = status_of l (outstanding_principal l (objs s)) (outstanding_interest l (objs s))"
    and once: "distinct (map rp_id (repayments (objs s)))"
    and r: "find_row rp_id rid (repayments (objs s)) = Some r"
    and run: "reverse_repayment actor cid lid rid nt s = (Inr l', t)"
  shows "find_row ln_id lid (loans (objs t)) = Some l' \<and> ln_status l' = ln_status l \<and>
    outstanding_principal l' (objs t) = outstanding_principal l (objs s) + rp_principal_portion r \<and>
    outstanding_interest l' (objs t) = outstanding_interest l (objs s) + rp_interest_portion r"
proof -
  have "wp (reverse_repayment actor cid lid rid nt) (\<lambda>l' t.
    find_row ln_id lid (loans (objs t)) = Some l' \<and> ln_status l' = ln_status l \<and>
    outstanding_principal l' (objs t) = outstanding_principal l (objs s) + rp_principal_portion r \<and>
    outstanding_interest l' (objs t) = outstanding_interest l (objs s) + rp_interest_portion r) (\<lambda>_ _. True) s"
  proof (rule wp_reverse_repayment [OF clean], goal_cases)
    case (1 k)
    then show ?case using loan fits by simp
  next
    case (2 c k q m d t a n u)
    show ?case
      unfolding Let_def
    proof (intro impI, goal_cases)
      case 1
      then have eq: "k = l" "q = r" "rp_id r = rid" "ln_id l = lid" "rp_loan_id r = ln_id l" "rp_status r = RP_CONFIRMED"
        using loan(1) r by (auto dest: find_row_SomeD)
      have d: "loans d = loans (objs s)" "repayments d = repayments (objs s)"
        using 1 by (auto simp: reversal_step_def undone_def)
      then have same: "outstanding_principal l d = outstanding_principal l (objs s)"
        "outstanding_interest l d = outstanding_interest l (objs s)"
        by (simp_all add: outstanding_principal_def outstanding_interest_def paid_principal_def paid_interest_def)
      have st: "status_after (autoflush s) l (rp_id r) d = ln_status l"
        using production loan(2) by (simp add: status_after_def same)
      have out: "outstanding_principal l (reversed_db l rid st d) = outstanding_principal l (objs s) + rp_principal_portion r"
        "outstanding_interest l (reversed_db l rid st d) = outstanding_interest l (objs s) + rp_interest_portion r" for st
        using outstanding_reversed [of rid d r l l st] eq r once by (simp_all add: d same)
      show ?case
        unfolding eq(1,2) st using loan(1) by (simp add: out eq d find_upd_row)
    qed
  qed simp
  from wp_InrD [OF this run] show ?thesis .
qed

section \<open>The properties on the demo database\<close>

text \<open>A loan of 1,000.00 to Alice, who holds twenty shares, in a Chama with 1,500.00 of cash.\<close>

definition demo_loan :: "loan_status \<Rightarrow> loan" where
  "demo_loan st =
     \<lparr>ln_id = 900, ln_chama_id = 10, ln_membership_id = 43, ln_principal = 100000, ln_interest_rate = 500,
      ln_term_months = 3, ln_status = st, ln_approval_date = None, ln_disbursement_date = None,
      ln_maturity_date = None, ln_approved_by_user_id = None, ln_disbursed_by_user_id = None,
      ln_recorded_by_user_id = 23, ln_note = None\<rparr>"

definition demo_repayment :: loan_repayment where
  "demo_repayment =
     \<lparr>rp_id = 901, rp_chama_id = 10, rp_loan_id = 900, rp_amount = 105000, rp_principal_portion = 100000,
      rp_interest_portion = 5000, rp_status = RP_CONFIRMED, rp_recorded_by_user_id = 22, rp_note = None\<rparr>"

definition lend_db :: "loan list \<Rightarrow> loan_repayment list \<Rightarrow> db" where
  "lend_db ls rs = (objs demo_posted)\<lparr>loans := ls, repayments := rs,
     shares := [\<lparr>sh_id = 800, sh_membership_id = 43, sh_contribution_id = 77, sh_units = 200000, sh_status = SH_ACTIVE\<rparr>]\<rparr>"

definition lend :: "loan list \<Rightarrow> loan_repayment list \<Rightarrow> sess" where
  "lend ls rs = fresh_session False False demo_settings (DateTime 2026 3 1 0) 64000000000000000 2000 (lend_db ls rs)"

lemma lend_db_simps [simp]:
  "loans (lend_db ls rs) = ls" "repayments (lend_db ls rs) = rs"
  "ledger_accounts (lend_db ls rs) = ledger_accounts demo_db"
  "chamas (lend_db ls rs) = [demo_chama]" "memberships (lend_db ls rs) = memberships demo_db"
  "membership_roles (lend_db ls rs) = membership_roles demo_db"
  "ledger_transactions (lend_db ls rs) = [demo_tx]"
  "ledger_entries (lend_db ls rs) = entries_from 10 1000 1000000 1001 [dl 11 150000, cl 13 150000]"
  "shares (lend_db ls rs) = [\<lparr>sh_id = 800, sh_membership_id = 43, sh_contribution_id = 77, sh_units = 200000,
     sh_status = SH_ACTIVE\<rparr>]"
  by (simp_all add: lend_db_def demo_posted_def)

lemma lend_simps [simp]:
  "objs (lend ls rs) = lend_db ls rs" "rows (lend ls rs) = lend_db ls rs" "durable (lend ls rs) = [lend_db ls rs]"
  "autoflush (lend ls rs) = False" "is_sqlite (lend ls rs) = False" "next_uuid (lend ls rs) = 2000"
  "local_now (lend ls rs) = DateTime 2026 3 1 0" "utc_now (lend ls rs) = 64000000000000000"
  "cfg (lend ls rs) = demo_settings" "clean (lend ls rs)"
  by (simp_all add: lend_def clean_fresh, simp_all add: fresh_session_def)

lemma demo_loan_simps [simp]:
  "ln_id (demo_loan st) = 900" "ln_chama_id (demo_loan st) = 10" "ln_membership_id (demo_loan st) = 43"
  "ln_principal (demo_loan st) = 100000" "ln_interest_rate (demo_loan st) = 500" "ln_term_months (demo_loan st) = 3"
  "ln_status (demo_loan st) = st" "(demo_loan st)\<lparr>ln_status := st'\<rparr> = demo_loan st'"
  by (simp_all add: demo_loan_def)

lemma round_half_up_numeral [simp]: "round_half_up (numeral n) = numeral n"
  using round_half_up_of_int [of "numeral n"] by simp

lemma demo_interest: "interest_of (demo_loan st) = 5000"
  by (simp add: interest_of_def quantize_def dec_of_money_def dec_of_e4_def)

lemma demo_shares: "share_value_of 100 43 (lend_db ls rs) = 200000"
  by (simp add: share_value_of_def active_units_def quantize_def dec_of_e4_def)

lemma demo_joined: "\<not> 64000000000000000 - MIN_TENURE_DAYS * MICROS_PER_DAY < instant (DateTime 2025 1 10 0)"
  by (simp add: instant_def toordinal_def days_before_year_def MIN_TENURE_DAYS_def MICROS_PER_DAY_def)

lemma cash_lend: "account_balance 10 11 (lend_db ls rs) = 150000"
  by (simp add: account_balance_def entries_from.simps)

lemma normalize_three_lines:
  "0 \<le> a \<Longrightarrow> a < 10 ^ 28 \<Longrightarrow> 0 \<le> b \<Longrightarrow> b < 10 ^ 28 \<Longrightarrow> 0 \<le> c \<Longrightarrow> c < 10 ^ 28 \<Longrightarrow>
     normalize_lines [debit_line x a, credit_line y b, credit_line z c] = Inr [dl x a, cl y b, cl z c]"
  by (simp add: DECIMAL_PRECISION_def del: normalize_lines.simps) (simp add: DECIMAL_PRECISION_def)

lemmas loan_run = wp ledger_run account_code_defs authorize_chama_write_def wp_outstanding_for interest_fits_def demo_interest
  DECIMAL_PRECISION_def holds_role_def cash_lend outstanding_principal_def outstanding_interest_def paid_principal_def
  paid_interest_def

lemma demo_unit_price [simp]: "cf_share_unit_price demo_settings = 100"
  by (simp add: demo_settings_def)

lemma demo_limits:
  "wp (check_principal_limit 43 10 100000) Q R (lend ls rs) = Q () (lend ls rs)"
  by (simp add: check_principal_limit_def wp wp_member_share_value wp_available_chama_cash demo_shares
      DECIMAL_PRECISION_def find_account_def cash_lend)

lemma apply_returns: "returns (loan_apply alice 10 100000 3 None) (lend [] [])"
  unfolding returns_wp loan_apply_def
  by (auto simp: loan_run demo_limits demo_joined loan_check_def LOAN_INTEREST_RATE_def
      intro!: wp_audit_then_commit)

theorem loan_apply_within_policy_witness:
  "ln_principal (result_of (loan_apply alice 10 100000 3 None) (lend [] [])) = 100000"
  using loan_apply_within_policy [OF _ returnsD [OF apply_returns]] by auto

lemma approve_returns: "returns (loan_approve chair 10 900) (lend [demo_loan LN_SUBMITTED] [])"
  unfolding returns_wp loan_approve_def
  by (auto simp: loan_run get_chama_loan_def get_loan_by_id_def upd_row_def intro!: wp_audit_then_commit)

lemma loan_approved_by_another_witness:
  "ln_status (result_of (loan_approve chair 10 900) (lend [demo_loan LN_SUBMITTED] [])) = LN_APPROVED"
  using loan_approved_by_another [OF _ returnsD [OF approve_returns]] by auto

lemma disburse_returns: "returns (loan_disburse chair 10 900) (lend [demo_loan LN_APPROVED] [])"
  unfolding returns_wp loan_disburse_def disburse_effect_def
  by (auto simp: loan_run get_chama_loan_def get_loan_by_id_def upd_row_def lock_cash_account_def get_account_id_def
      available_chama_cash_def quantize_checked_def add_months_def days_in_month_def normalize_two_lines
      simp del: normalize_lines.simps intro!: wp_audit_then_commit)

lemma loan_disburse_effect_witness:
  "transfer 10 12 11 100000 (lend_db [demo_loan LN_APPROVED] [])
     (objs (after (loan_disburse chair 10 900) (lend [demo_loan LN_APPROVED] [])))"
  using loan_disburse_effect [OF _ _ _ _ returnsD [OF disburse_returns], of "demo_loan LN_APPROVED"]
  by (auto simp: find_row_Cons source_free_def source_type_defs find_account_def account_code_defs)

theorem loan_disburse_atomic_once_witness:
  "durable (after (loan_disburse chair 10 900) (after (loan_disburse chair 10 900) (lend [demo_loan LN_APPROVED] []))) =
   durable (after (loan_disburse chair 10 900) (lend [demo_loan LN_APPROVED] []))"
proof -
  let ?t = "after (loan_disburse chair 10 900) (lend [demo_loan LN_APPROVED] [])"
  obtain r t' where run: "loan_disburse chair 10 900 ?t = (r, t')" by (rule prod.exhaust)
  with loan_disburse_atomic_once [OF _ returnsD [OF disburse_returns]] show ?thesis
    by (simp add: after_def [of "loan_disburse chair 10 900" ?t] del: demo_row_simps)
qed

lemma loans_inv_lend [simp]: "loans_inv (lend_db [demo_loan st] [])"
  by (auto simp: loans_inv_def find_row_Cons interest_fits_def demo_interest DECIMAL_PRECISION_def)

lemma loan_books_lend [simp]: "loan_books (lend_db [demo_loan st] [])"
  by (auto simp: loan_books_def find_row_Cons outstanding_principal_def outstanding_interest_def paid_principal_def
      paid_interest_def demo_interest)

definition demo_requests :: "loan_status \<Rightarrow> sess" where
  "demo_requests st = snd (request (run_loan_op chair 10 (Cancel 900)) (snd (request (run_loan_op alice 10 (Submit 900))
     (lend [demo_loan st] []))))"

lemma demo_requests_served: "served run_loan_op valid_loan_op (lend [demo_loan st] []) (demo_requests st)"
  unfolding demo_requests_def by (intro served.intros) simp_all

theorem loan_lifecycle_witness:
  "\<exists>l. find_row ln_id 900 (loans (objs (demo_requests LN_REJECTED))) = Some l \<and> ln_status l = LN_REJECTED"
  using loan_lifecycle [OF demo_requests_served, of LN_REJECTED 900 "demo_loan LN_REJECTED"]
  by (auto simp: find_row_Cons)

theorem loans_never_overpaid_witness:
  "\<exists>l. find_row ln_id 900 (loans (objs (demo_requests LN_DRAFT))) = Some l \<and>
     outstanding_principal l (objs (demo_requests LN_DRAFT)) \<le> ln_principal l"
proof -
  have "loan_life.follows (lend_db [demo_loan LN_DRAFT] []) (objs (demo_requests LN_DRAFT))"
    using loan_service.served_rel [OF demo_requests_served [of LN_DRAFT]] by simp
  then obtain l where "find_row ln_id 900 (loans (objs (demo_requests LN_DRAFT))) = Some l"
    unfolding loan_life.follows_def
    by (elim allE [where x = "900::uuid"] allE [where x = "demo_loan LN_DRAFT"]) (auto simp: find_row_Cons)
  with loans_never_overpaid [OF demo_requests_served, of LN_DRAFT 900 l] show ?thesis by simp
qed

lemma repay_returns: "returns (record_repayment treasurer 10 900 20000 None) (lend [demo_loan LN_DISBURSED] [])"
  unfolding returns_wp record_repayment_def repayment_effect_def repayment_lines_def create_repayment_def
  by (auto simp: loan_run get_chama_loan_def get_loan_by_id_def upd_row_def get_account_id_def repayment_check_def
      wp_status_from_outstanding normalize_three_lines simp del: normalize_lines.simps intro!: wp_audit_then_commit)

theorem record_repayment_split_witness:
  "\<exists>t. record_repayment treasurer 10 900 20000 None (lend [demo_loan LN_DISBURSED] []) =
      (Inr (result_of (record_repayment treasurer 10 900 20000 None) (lend [demo_loan LN_DISBURSED] [])), t) \<and>
    outstanding_interest (demo_loan LN_DISBURSED) (objs t) = 0 \<and>
    outstanding_principal (demo_loan LN_DISBURSED) (objs t) = 85000 \<and>
    account_balance 10 11 (objs t) = 170000 \<and> account_balance 10 12 (objs t) = - 15000 \<and>
    account_balance 10 15 (objs t) = - 5000"
proof (intro exI conjI)
  let ?s = "lend [demo_loan LN_DISBURSED] []"
  let ?t = "after (record_repayment treasurer 10 900 20000 None) ?s"
  show run: "record_repayment treasurer 10 900 20000 None ?s =
      (Inr (result_of (record_repayment treasurer 10 900 20000 None) ?s), ?t)"
    by (rule returnsD [OF repay_returns])
  note split = record_repayment_split [OF _ _ _ run, of "demo_loan LN_DISBURSED"]
  have balances: "account_balance 10 12 (lend_db ls rs) = 0" "account_balance 10 15 (lend_db ls rs) = 0" for ls rs
    by (simp_all add: account_balance_def entries_from.simps)
  show "outstanding_interest (demo_loan LN_DISBURSED) (objs ?t) = 0"
    "outstanding_principal (demo_loan LN_DISBURSED) (objs ?t) = 85000"
    "account_balance 10 11 (objs ?t) = 170000" "account_balance 10 12 (objs ?t) = - 15000"
    "account_balance 10 15 (objs ?t) = - 5000"
    using split
    by (auto simp: find_row_Cons source_free_def source_type_defs Let_def outstanding_interest_def outstanding_principal_def
      paid_principal_def paid_interest_def demo_interest cash_lend balances find_account_def account_code_defs)
qed

lemma reverse_returns: "returns (reverse_repayment chair 10 900 901 None) (lend [demo_loan LN_REPAID] [demo_repayment])"
  unfolding returns_wp reverse_repayment_def reversal_effect_def undo_posting_def status_after_reversal_def confirmed_by_loan_def
  by (auto simp: loan_run get_chama_loan_def get_loan_by_id_def upd_row_def demo_repayment_def set_repayment_def
      wp_status_from_outstanding intro!: wp_audit_then_commit)

theorem reversal_leaves_status_stale_witness:
  "\<exists>l. find_row ln_id 900 (loans (objs (after (reverse_repayment chair 10 900 901 None)
       (lend [demo_loan LN_REPAID] [demo_repayment])))) = Some l \<and> ln_status l = LN_REPAID \<and>
     outstanding_principal l (objs (after (reverse_repayment chair 10 900 901 None)
       (lend [demo_loan LN_REPAID] [demo_repayment]))) = 100000"
  using reversal_leaves_status_stale [OF _ _ _ _ _ _ _ returnsD [OF reverse_returns], of "demo_loan LN_REPAID" demo_repayment]
  by (simp add: find_row_Cons interest_fits_def demo_interest DECIMAL_PRECISION_def status_of_def
      outstanding_interest_def outstanding_principal_def paid_principal_def paid_interest_def demo_repayment_def)

end
