(* ===== verification/Payout.thy ===== *)
theory Payout
  imports Finance
begin

text \<open>
  Payouts (\<open>app/services/payout.py\<close>, \<open>app/repositories/payout.py\<close>, the constraints of
  \<open>app/models/payout.py\<close>): the request against the share value and the cash of the Chama, the
  approval by another member, processing, the completion with its ledger posting, failure and
  reversal.
\<close>

section \<open>Repository and constraints\<close>

definition set_payout :: "uuid \<Rightarrow> (payout \<Rightarrow> payout) \<Rightarrow> unit act" where
  "set_payout i f = change (payouts_update (upd_row po_id i f))"

definition payout_check :: "db \<Rightarrow> payout \<Rightarrow> string option" where
  "payout_check d p =
     (if \<not> 0 < po_amount p then Some ''ck_payouts_amount_positive''
      else if \<not> list_ex (\<lambda>m. ms_chama_id m = po_chama_id p \<and> ms_id m = po_membership_id p) (memberships d)
      then Some ''fk_payouts_membership_chama''
      else None)"

text \<open>The sum over the COMPLETED payouts of a membership.\<close>

definition completed_total :: "uuid \<Rightarrow> db \<Rightarrow> money" where
  "completed_total membership_id d =
     sum_list (map po_amount (filter (\<lambda>p. po_membership_id p = membership_id \<and> po_status p = PO_COMPLETED) (payouts d)))"

definition payouts_of_chama :: "uuid \<Rightarrow> nat option \<Rightarrow> nat \<Rightarrow> payout list act" where
  "payouts_of_chama chama_id limit offset =
     bind (select_all payouts (\<lambda>p. po_chama_id p = chama_id)) (\<lambda>ps. ret (page limit offset ps))"

definition payouts_of_membership :: "uuid \<Rightarrow> payout list act" where
  "payouts_of_membership membership_id = select_all payouts (\<lambda>p. po_membership_id p = membership_id)"

section \<open>Guards\<close>

definition available_share_value :: "uuid \<Rightarrow> money act" where
  "available_share_value membership_id =
     bind (member_share_value membership_id) (\<lambda>value.
     bind (scalar (completed_total membership_id)) (\<lambda>total.
     ret (value - total)))"

definition get_chama_payout :: "uuid \<Rightarrow> uuid \<Rightarrow> payout act" where
  "get_chama_payout chama_id payout_id =
     bind (get_by_key payouts po_id payout_id) (\<lambda>found.
     case found of
       None \<Rightarrow> raise (NotFoundError ''Payout not found in this Chama'')
     | Some p \<Rightarrow> if po_chama_id p \<noteq> chama_id
                 then raise (NotFoundError ''Payout not found in this Chama'') else ret p)"

definition forbid_self_payout :: "payout \<Rightarrow> uuid \<Rightarrow> string \<Rightarrow> unit act" where
  "forbid_self_payout p actor_membership_id verb =
     ensure (po_membership_id p \<noteq> actor_membership_id)
       (StateError (''A member cannot '' @ verb @ '' their own payout request''))"

definition payout_transition :: "payout \<Rightarrow> payout_status list \<Rightarrow> payout_status \<Rightarrow> unit act" where
  "payout_transition p allowed_from to_status =
     bind (ensure (po_status p \<in> set allowed_from)
       (StateError (''A payout in status '' @ payout_status_value (po_status p) @
          '' cannot transition to '' @ payout_status_value to_status))) (\<lambda>_.
     bind (set_payout (po_id p) (po_status_update (\<lambda>_. to_status))) (\<lambda>_. flush))"

text \<open>The object a handler returns, with the attributes it has by then.\<close>

definition reload_payout :: "uuid \<Rightarrow> payout act" where
  "reload_payout i =
     bind (get_by_key payouts po_id i) (\<lambda>found.
     case found of None \<Rightarrow> raise ValueError | Some p \<Rightarrow> ret p)"

section \<open>The lifecycle\<close>

definition request_payout :: "user \<Rightarrow> uuid \<Rightarrow> money \<Rightarrow> string option \<Rightarrow> payout act" where
  "request_payout actor chama_id amount note =
     bind (get_chama_or_404 chama_id) (\<lambda>chama.
     bind (authorize_chama_write actor (ch_id chama)) (\<lambda>m.
     bind (available_share_value (ms_id m)) (\<lambda>available.
     bind (ensure (\<not> amount > available)
       (StateError ''Payout amount cannot exceed the member's outstanding share value'')) (\<lambda>_.
     bind (available_chama_cash (ch_id chama)) (\<lambda>cash.
     bind (ensure (\<not> amount > cash)
       (StateError ''Payout amount cannot exceed the Chama's available cash'')) (\<lambda>_.
     bind uuid4 (\<lambda>i.
     let p = \<lparr>po_id = i, po_chama_id = ch_id chama, po_membership_id = ms_id m, po_amount = amount,
              po_status = PO_REQUESTED, po_requested_by_user_id = us_id actor,
              po_approved_by_user_id = None, po_processed_by_user_id = None,
              po_completed_by_user_id = None, po_failure_reason = None, po_note = note,
              po_approved_at = None, po_processed_at = None, po_completed_at = None\<rparr>
     in bind (insert_row payout_check (\<lambda>r d. d\<lparr>payouts := payouts d @ [r]\<rparr>) p) (\<lambda>_.
     bind (audit_record (Some (us_id actor)) (Some (ch_id chama)) PAYOUT_REQUEST ''payout'' (Some i)
       (Some [(''amount'', JMoney amount)]) True) (\<lambda>_.
     bind commit (\<lambda>_. ret p))))))))))"

definition payout_approve :: "user \<Rightarrow> uuid \<Rightarrow> uuid \<Rightarrow> payout act" where
  "payout_approve actor chama_id payout_id =
     bind (get_chama_or_404 chama_id) (\<lambda>chama.
     bind (authorize_chama_write actor (ch_id chama)) (\<lambda>m.
     bind (require_role m CHAIRPERSON) (\<lambda>_.
     bind (get_chama_payout (ch_id chama) payout_id) (\<lambda>p.
     bind (forbid_self_payout p (ms_id m) ''approve'') (\<lambda>_.
     bind (payout_transition p [PO_REQUESTED] PO_APPROVED) (\<lambda>_.
     bind (asks local_now) (\<lambda>now.
     bind (set_payout (po_id p) (\<lambda>p. p\<lparr>po_approved_by_user_id := Some (us_id actor),
             po_approved_at := Some now\<rparr>)) (\<lambda>_.
     bind (audit_record (Some (us_id actor)) (Some (ch_id chama)) PAYOUT_APPROVE ''payout'' (Some (po_id p))
       (Some [(''amount'', JMoney (po_amount p))]) True) (\<lambda>_.
     bind commit (\<lambda>_. reload_payout (po_id p)))))))))))"

definition payout_reject :: "user \<Rightarrow> uuid \<Rightarrow> uuid \<Rightarrow> payout act" where
  "payout_reject actor chama_id payout_id =
     bind (get_chama_or_404 chama_id) (\<lambda>chama.
     bind (authorize_chama_write actor (ch_id chama)) (\<lambda>m.
     bind (require_role m CHAIRPERSON) (\<lambda>_.
     bind (get_chama_payout (ch_id chama) payout_id) (\<lambda>p.
     bind (forbid_self_payout p (ms_id m) ''reject'') (\<lambda>_.
     bind (payout_transition p [PO_REQUESTED] PO_REJECTED) (\<lambda>_.
     bind (audit_record (Some (us_id actor)) (Some (ch_id chama)) PAYOUT_REJECT ''payout'' (Some (po_id p))
       None True) (\<lambda>_.
     bind commit (\<lambda>_. reload_payout (po_id p)))))))))"

definition payout_process :: "user \<Rightarrow> uuid \<Rightarrow> uuid \<Rightarrow> payout act" where
  "payout_process actor chama_id payout_id =
     bind (get_chama_or_404 chama_id) (\<lambda>chama.
     bind (authorize_chama_write actor (ch_id chama)) (\<lambda>m.
     bind (require_roles m [CHAIRPERSON, TREASURER]) (\<lambda>_.
     bind (get_chama_payout (ch_id chama) payout_id) (\<lambda>p.
     bind (payout_transition p [PO_APPROVED] PO_PROCESSING) (\<lambda>_.
     bind (asks local_now) (\<lambda>now.
     bind (set_payout (po_id p) (\<lambda>p. p\<lparr>po_processed_by_user_id := Some (us_id actor),
             po_processed_at := Some now\<rparr>)) (\<lambda>_.
     bind (audit_record (Some (us_id actor)) (Some (ch_id chama)) PAYOUT_PROCESS ''payout'' (Some (po_id p))
       None True) (\<lambda>_.
     bind commit (\<lambda>_. reload_payout (po_id p))))))))))"

definition completion_description :: "uuid \<Rightarrow> string" where
  "completion_description i = ''Payout '' @ uuid_str i @ '' completion''"

definition payout_reversal_description :: "uuid \<Rightarrow> string" where
  "payout_reversal_description i = ''Payout '' @ uuid_str i @ '' reversal''"

text \<open>\<open>complete\<close>: the financial effect on a payout that was not completed, and the handler.\<close>

definition complete_effect :: "user \<Rightarrow> uuid \<Rightarrow> payout \<Rightarrow> payout act" where
  "complete_effect actor chama_id p =
     bind (lock_cash_account chama_id) (\<lambda>_.
     bind (payout_transition p [PO_PROCESSING] PO_COMPLETED) (\<lambda>_.
     bind (available_chama_cash chama_id) (\<lambda>cash.
     bind (ensure (\<not> po_amount p > cash)
       (StateError ''Insufficient available Chama cash to complete this payout'')) (\<lambda>_.
     bind (asks local_now) (\<lambda>now.
     bind (set_payout (po_id p) (\<lambda>p. p\<lparr>po_completed_by_user_id := Some (us_id actor),
             po_completed_at := Some now\<rparr>)) (\<lambda>_.
     bind (get_account_id chama_id SHARE_CAPITAL_CODE) (\<lambda>capital.
     bind (get_account_id chama_id CASH_CODE) (\<lambda>cash_account.
     bind (post_transaction actor chama_id PAYOUT_COMPLETION_SOURCE_TYPE (po_id p)
             (Some (completion_description (po_id p)))
             [debit_line capital (po_amount p), credit_line cash_account (po_amount p)] None True) (\<lambda>_.
     bind (audit_record (Some (us_id actor)) (Some chama_id) PAYOUT_COMPLETE ''payout'' (Some (po_id p))
       (Some [(''amount'', JMoney (po_amount p))]) True) (\<lambda>_.
     bind commit (\<lambda>_. reload_payout (po_id p))))))))))))"

definition payout_complete :: "user \<Rightarrow> uuid \<Rightarrow> uuid \<Rightarrow> payout act" where
  "payout_complete actor chama_id payout_id =
     bind (get_chama_or_404 chama_id) (\<lambda>chama.
     bind (authorize_chama_write actor (ch_id chama)) (\<lambda>m.
     bind (require_roles m [CHAIRPERSON, TREASURER]) (\<lambda>_.
     bind (get_chama_payout (ch_id chama) payout_id) (\<lambda>p.
     bind (get_by_source PAYOUT_COMPLETION_SOURCE_TYPE (po_id p)) (\<lambda>posting.
     if po_status p = PO_COMPLETED
     then bind (ensure (posting \<noteq> None)
            (StateError ''Completed payout is missing its ledger transaction'')) (\<lambda>_. ret p)
     else complete_effect actor (ch_id chama) p)))))"

definition payout_fail :: "user \<Rightarrow> uuid \<Rightarrow> uuid \<Rightarrow> string \<Rightarrow> payout act" where
  "payout_fail actor chama_id payout_id failure_reason =
     bind (get_chama_or_404 chama_id) (\<lambda>chama.
     bind (authorize_chama_write actor (ch_id chama)) (\<lambda>m.
     bind (require_roles m [CHAIRPERSON, TREASURER]) (\<lambda>_.
     bind (get_chama_payout (ch_id chama) payout_id) (\<lambda>p.
     bind (payout_transition p [PO_PROCESSING] PO_FAILED) (\<lambda>_.
     bind (set_payout (po_id p) (po_failure_reason_update (\<lambda>_. Some failure_reason))) (\<lambda>_.
     bind (audit_record (Some (us_id actor)) (Some (ch_id chama)) PAYOUT_FAIL ''payout'' (Some (po_id p))
       (Some [(''failure_reason'', JStr failure_reason)]) True) (\<lambda>_.
     bind commit (\<lambda>_. reload_payout (po_id p)))))))))"

definition payout_reverse :: "user \<Rightarrow> uuid \<Rightarrow> uuid \<Rightarrow> payout act" where
  "payout_reverse actor chama_id payout_id =
     bind (get_chama_or_404 chama_id) (\<lambda>chama.
     bind (authorize_chama_write actor (ch_id chama)) (\<lambda>m.
     bind (require_role m CHAIRPERSON) (\<lambda>_.
     bind (get_chama_payout (ch_id chama) payout_id) (\<lambda>p.
     bind (ensure (po_status p = PO_COMPLETED) (StateError ''Only a COMPLETED payout can be reversed'')) (\<lambda>_.
     bind (undo_posting actor (ch_id chama) PAYOUT_COMPLETION_SOURCE_TYPE (po_id p)
             (payout_reversal_description (po_id p))) (\<lambda>_.
     bind (set_payout (po_id p) (po_status_update (\<lambda>_. PO_REVERSED))) (\<lambda>_.
     bind (audit_record (Some (us_id actor)) (Some (ch_id chama)) PAYOUT_REVERSAL ''payout'' (Some (po_id p))
       (Some [(''amount'', JMoney (po_amount p))]) True) (\<lambda>_.
     bind commit (\<lambda>_. reload_payout (po_id p))))))))))"

section \<open>Reads\<close>

definition list_payouts :: "user \<Rightarrow> uuid \<Rightarrow> nat option \<Rightarrow> nat \<Rightarrow> payout list act" where
  "list_payouts actor chama_id limit offset =
     bind (get_chama_or_404 chama_id) (\<lambda>chama.
     bind (authorize_chama_access actor (ch_id chama)) (\<lambda>m.
     bind (has_any_role m LEADERSHIP_ROLES) (\<lambda>leader.
     if \<not> leader
     then bind (payouts_of_membership (ms_id m)) (\<lambda>ps.
          ret (case limit of None \<Rightarrow> drop offset ps | Some l \<Rightarrow> take l (drop offset ps)))
     else payouts_of_chama (ch_id chama) limit offset)))"

end
