(* ===== verification/Payout_Facts.thy ===== *)
theory Payout_Facts
  imports Payout
begin

text \<open>What each payout handler does, as rules of the weakest-precondition calculus.\<close>

lemma wp_get_chama_payout:
  assumes "\<And>p. find_row po_id i (payouts (objs s)) = Some p \<Longrightarrow> find_row po_id (po_id p) (payouts (objs s)) = Some p \<Longrightarrow>
      po_chama_id p = cid \<Longrightarrow> Q p s"
    and "\<And>e. R (NotFoundError e) s"
  shows "wp (get_chama_payout cid i) Q R s"
  using assms by (auto simp: get_chama_payout_def wp split: option.split dest: find_row_SomeD)

lemma wp_reload_payout [wp]:
  "wp (reload_payout i) Q R s =
     (case find_row po_id i (payouts (objs s)) of None \<Rightarrow> R ValueError s | Some p \<Rightarrow> Q p s)"
  by (simp add: reload_payout_def wp split: option.split)

lemma wp_set_payout [wp]:
  "wp (set_payout i f) Q R s = Q () (s\<lparr>objs := payouts_update (upd_row po_id i f) (objs s)\<rparr>)"
  by (simp add: set_payout_def wp)

lemma wp_payout_transition [wp]:
  "wp (payout_transition p from to') Q R s =
     (if po_status p \<in> set from
      then Q () (s\<lparr>objs := payouts_update (upd_row po_id (po_id p) (po_status_update (\<lambda>_. to'))) (objs s),
                    rows := payouts_update (upd_row po_id (po_id p) (po_status_update (\<lambda>_. to'))) (objs s)\<rparr>)
      else R (StateError (''A payout in status '' @ payout_status_value (po_status p) @
          '' cannot transition to '' @ payout_status_value to')) s)"
  by (simp add: payout_transition_def wp)

lemma wp_forbid_self_payout [wp]:
  "wp (forbid_self_payout p m verb) Q R s =
     (if po_membership_id p \<noteq> m then Q () s
      else R (StateError (''A member cannot '' @ verb @ '' their own payout request'')) s)"
  by (simp add: forbid_self_payout_def wp)

lemma wp_available_share_value:
  assumes "clean s"
    and "Q (share_value_of (cf_share_unit_price (cfg s)) m (objs s) - completed_total m (objs s)) s"
    and "\<And>e. R e s"
  shows "wp (available_share_value m) Q R s"
  using assms by (auto simp: available_share_value_def wp wp_member_share_value)

section \<open>Requests\<close>

definition new_payout :: "sess \<Rightarrow> user \<Rightarrow> uuid \<Rightarrow> uuid \<Rightarrow> money \<Rightarrow> string option \<Rightarrow> payout" where
  "new_payout s actor chama_id membership_id amount note =
     \<lparr>po_id = next_uuid s, po_chama_id = chama_id, po_membership_id = membership_id, po_amount = amount,
      po_status = PO_REQUESTED, po_requested_by_user_id = us_id actor, po_approved_by_user_id = None,
      po_processed_by_user_id = None, po_completed_by_user_id = None, po_failure_reason = None,
      po_note = note, po_approved_at = None, po_processed_at = None, po_completed_at = None\<rparr>"

lemma wp_request_payout:
  assumes clean: "clean s"
    and ok: "\<And>c a n u m. find_row ch_id cid (chamas (objs s)) = Some c \<Longrightarrow> write_ok actor (ch_id c) (objs s) m \<Longrightarrow>
      amount \<le> share_value_of (cf_share_unit_price (cfg s)) (ms_id m) (objs s) - completed_total (ms_id m) (objs s) \<Longrightarrow>
      amount \<le> cash_of (ch_id c) (objs s) \<Longrightarrow> 0 < amount \<Longrightarrow> next_uuid s < u \<Longrightarrow>
      Q (new_payout s actor (ch_id c) (ms_id m) amount note)
        (saved (log_db a n ((objs s)\<lparr>payouts := payouts (objs s) @
           [new_payout s actor (ch_id c) (ms_id m) amount note]\<rparr>)) u s)"
    and no: "\<And>e t. durable t = durable s \<Longrightarrow> R e t"
  shows "wp (request_payout actor cid amount note) Q R s"
  unfolding request_payout_def
  by (rule wp_chama_write [OF clean])
     (auto simp: wp clean no Let_def payout_check_def new_payout_def wp_available_chama_cash cash_of_def
       split: option.splits
       intro!: wp_available_share_value [OF clean] wp_audit_then_commit ok [unfolded new_payout_def])

section \<open>The simple transitions\<close>

text \<open>The database after a handler changed one payout and recorded its event.\<close>

definition payout_moved ::
  "uuid \<Rightarrow> (payout \<Rightarrow> payout) \<Rightarrow> audit_event list \<Rightarrow> notification list \<Rightarrow> db \<Rightarrow> db" where
  "payout_moved i f a n d = log_db a n (payouts_update (upd_row po_id i f) d)"

lemma wp_payout_approve:
  assumes clean: "clean s"
    and ok: "\<And>c p a n u m. find_row ch_id cid (chamas (objs s)) = Some c \<Longrightarrow>
      find_row po_id pid (payouts (objs s)) = Some p \<Longrightarrow> po_chama_id p = ch_id c \<Longrightarrow>
      write_ok actor (ch_id c) (objs s) m \<Longrightarrow> holds_role (objs s) (ms_id m) CHAIRPERSON \<Longrightarrow>
      po_membership_id p \<noteq> ms_id m \<Longrightarrow> po_status p = PO_REQUESTED \<Longrightarrow> next_uuid s < u \<Longrightarrow>
      Q (p\<lparr>po_status := PO_APPROVED, po_approved_by_user_id := Some (us_id actor), po_approved_at := Some (local_now s)\<rparr>)
        (saved (payout_moved (po_id p) (\<lambda>p. p\<lparr>po_status := PO_APPROVED, po_approved_by_user_id := Some (us_id actor),
            po_approved_at := Some (local_now s)\<rparr>) a n (objs s)) u s)"
    and no: "\<And>e t. durable t = durable s \<Longrightarrow> R e t"
  shows "wp (payout_approve actor cid pid) Q R s"
  unfolding payout_approve_def
  by (rule wp_chama_write [OF clean])
     (auto simp: wp clean no find_upd_row payout_moved_def upd_row_comp
       intro!: wp_get_chama_payout wp_audit_then_commit ok [unfolded payout_moved_def])

lemma wp_payout_reject:
  assumes clean: "clean s"
    and ok: "\<And>c p a n u m. find_row ch_id cid (chamas (objs s)) = Some c \<Longrightarrow>
      find_row po_id pid (payouts (objs s)) = Some p \<Longrightarrow> po_chama_id p = ch_id c \<Longrightarrow>
      write_ok actor (ch_id c) (objs s) m \<Longrightarrow> holds_role (objs s) (ms_id m) CHAIRPERSON \<Longrightarrow>
      po_membership_id p \<noteq> ms_id m \<Longrightarrow> po_status p = PO_REQUESTED \<Longrightarrow> next_uuid s < u \<Longrightarrow>
      Q (p\<lparr>po_status := PO_REJECTED\<rparr>)
        (saved (payout_moved (po_id p) (po_status_update (\<lambda>_. PO_REJECTED)) a n (objs s)) u s)"
    and no: "\<And>e t. durable t = durable s \<Longrightarrow> R e t"
  shows "wp (payout_reject actor cid pid) Q R s"
  unfolding payout_reject_def
  by (rule wp_chama_write [OF clean])
     (auto simp: wp clean no find_upd_row payout_moved_def
       intro!: wp_get_chama_payout wp_audit_then_commit ok [unfolded payout_moved_def])

lemma wp_payout_process:
  assumes clean: "clean s"
    and ok: "\<And>c p a n u m. find_row ch_id cid (chamas (objs s)) = Some c \<Longrightarrow>
      find_row po_id pid (payouts (objs s)) = Some p \<Longrightarrow> po_chama_id p = ch_id c \<Longrightarrow>
      write_ok actor (ch_id c) (objs s) m \<Longrightarrow> po_status p = PO_APPROVED \<Longrightarrow> next_uuid s < u \<Longrightarrow>
      Q (p\<lparr>po_status := PO_PROCESSING, po_processed_by_user_id := Some (us_id actor), po_processed_at := Some (local_now s)\<rparr>)
        (saved (payout_moved (po_id p) (\<lambda>p. p\<lparr>po_status := PO_PROCESSING, po_processed_by_user_id := Some (us_id actor),
            po_processed_at := Some (local_now s)\<rparr>) a n (objs s)) u s)"
    and no: "\<And>e t. durable t = durable s \<Longrightarrow> R e t"
  shows "wp (payout_process actor cid pid) Q R s"
  unfolding payout_process_def
  by (rule wp_chama_write [OF clean])
     (auto simp: wp clean no find_upd_row payout_moved_def upd_row_comp
       intro!: wp_get_chama_payout wp_audit_then_commit ok [unfolded payout_moved_def])

lemma wp_payout_fail:
  assumes clean: "clean s"
    and ok: "\<And>c p a n u m. find_row ch_id cid (chamas (objs s)) = Some c \<Longrightarrow>
      find_row po_id pid (payouts (objs s)) = Some p \<Longrightarrow> po_chama_id p = ch_id c \<Longrightarrow>
      write_ok actor (ch_id c) (objs s) m \<Longrightarrow> po_status p = PO_PROCESSING \<Longrightarrow> next_uuid s < u \<Longrightarrow>
      Q (p\<lparr>po_status := PO_FAILED, po_failure_reason := Some why\<rparr>)
        (saved (payout_moved (po_id p) (\<lambda>p. p\<lparr>po_status := PO_FAILED, po_failure_reason := Some why\<rparr>) a n (objs s)) u s)"
    and no: "\<And>e t. durable t = durable s \<Longrightarrow> R e t"
  shows "wp (payout_fail actor cid pid why) Q R s"
  unfolding payout_fail_def
  by (rule wp_chama_write [OF clean])
     (auto simp: wp clean no find_upd_row payout_moved_def upd_row_comp
       intro!: wp_get_chama_payout wp_audit_then_commit ok [unfolded payout_moved_def])

section \<open>Completion\<close>

lemma ledger_flushed_payouts [simp]:
  "clean s \<Longrightarrow> ledger_flushed (s\<lparr>objs := payouts_update f (objs s), rows := payouts_update g (objs s)\<rparr>)"
  by (simp add: ledger_flushed_def)

definition completed :: "sess \<Rightarrow> user \<Rightarrow> payout \<Rightarrow> payout" where
  "completed s actor p = p\<lparr>po_status := PO_COMPLETED, po_completed_by_user_id := Some (us_id actor),
     po_completed_at := Some (local_now s)\<rparr>"

text \<open>The database with the completed payout, and with its posting.\<close>

definition completed_db :: "sess \<Rightarrow> user \<Rightarrow> payout \<Rightarrow> db" where
  "completed_db s actor p = payouts_update (upd_row po_id (po_id p) (completed s actor)) (objs s)"

definition payout_booked :: "sess \<Rightarrow> user \<Rightarrow> payout \<Rightarrow> uuid \<Rightarrow> uuid \<Rightarrow> db" where
  "payout_booked s actor p capital cash =
     book s actor (po_chama_id p) PAYOUT_COMPLETION_SOURCE_TYPE (po_id p) (completion_description (po_id p))
       capital cash (po_amount p) (completed_db s actor p)"

lemma wp_complete_effect:
  assumes clean: "clean s" and p: "find_row po_id (po_id p) (payouts (objs s)) = Some p"
    and ok: "\<And>capital cash a n u u'. po_status p = PO_PROCESSING \<Longrightarrow>
      find_account (po_chama_id p) SHARE_CAPITAL_CODE (objs s) = Some capital \<Longrightarrow>
      find_account (po_chama_id p) CASH_CODE (objs s) = Some cash \<Longrightarrow>
      po_amount p \<le> account_balance (po_chama_id p) cash (objs s) \<Longrightarrow>
      lines_ok (objs s) (po_chama_id p) [dl capital (po_amount p), cl cash (po_amount p)] \<Longrightarrow>
      source_free (objs s) PAYOUT_COMPLETION_SOURCE_TYPE (po_id p) \<Longrightarrow> next_uuid s < u' \<Longrightarrow> u' < u \<Longrightarrow>
      Q (completed s actor p) (saved (log_db a n (payout_booked s actor p capital cash)) u
        (saved (payout_booked s actor p capital cash) u' s))"
    and resumed: "\<And>t a n u. po_status p = PO_PROCESSING \<Longrightarrow> t \<in> set (ledger_transactions (objs s)) \<Longrightarrow>
      lt_source_type t = PAYOUT_COMPLETION_SOURCE_TYPE \<Longrightarrow> lt_source_id t = po_id p \<Longrightarrow> next_uuid s < u \<Longrightarrow>
      Q (completed s actor p) (saved (log_db a n (completed_db s actor p)) u s)"
    and no: "\<And>e t. durable t = durable s \<Longrightarrow> R e t"
  shows "wp (complete_effect actor (po_chama_id p) p) Q R s"
proof -
  let ?c = "po_chama_id p" and ?D = "completed_db s actor p"
  let ?s = "s\<lparr>objs := ?D, rows := payouts_update (upd_row po_id (po_id p) (po_status_update (\<lambda>_. PO_COMPLETED))) (objs s)\<rparr>"
  have fl: "ledger_flushed ?s" by (simp add: clean ledger_flushed_def completed_db_def)
  have found: "find_row po_id (po_id p) (upd_row po_id (po_id p) (completed s actor) (payouts (objs s))) =
      Some (completed s actor p)" by (simp add: find_upd_row p completed_def)
  have same: "objs ?s = ?D" "next_uuid ?s = next_uuid s" "utc_now ?s = utc_now s" by simp_all
  have tail: "wp (get_account_id ?c SHARE_CAPITAL_CODE) (\<lambda>x. wp (get_account_id ?c CASH_CODE) (\<lambda>y.
    wp (post_transaction actor ?c PAYOUT_COMPLETION_SOURCE_TYPE (po_id p) (Some (completion_description (po_id p)))
      [debit_line x (po_amount p), credit_line y (po_amount p)] None True)
    (\<lambda>_. wp (audit_record (Some (us_id actor)) (Some ?c) PAYOUT_COMPLETE ''payout'' (Some (po_id p))
       (Some [(''amount'', JMoney (po_amount p))]) True) (\<lambda>_. wp commit (\<lambda>_. wp (reload_payout (po_id p)) Q R) R) R)
    R) R) R ?s"
    if st: "po_status p = PO_PROCESSING" and cash: "find_account ?c CASH_CODE (objs s) = Some cash"
      and enough: "po_amount p \<le> account_balance ?c cash (objs s)" for cash
  proof (rule wp_book [OF fl], goal_cases)
    case (2 capital cash' u)
    have b: "book ?s actor ?c PAYOUT_COMPLETION_SOURCE_TYPE (po_id p) (completion_description (po_id p)) capital cash'
        (po_amount p) (objs ?s) = payout_booked s actor p capital cash'"
      by (simp add: book_def payout_booked_def new_tx_def)
    show ?case
      unfolding b
      by (rule wp_audit_then_commit)
         (use 2 st cash enough found in \<open>auto simp: payout_booked_def completed_db_def wp_reload_payout
            intro!: ok [unfolded payout_booked_def completed_db_def]\<close>)
  next
    case (3 t)
    then show ?case
      by (intro wp_audit_then_commit)
         (use st found in \<open>auto simp: completed_db_def wp_reload_payout intro!: resumed [unfolded completed_db_def]\<close>)
  qed (auto simp: source_type_defs no)
  show ?thesis
    using tail
    by (auto simp: complete_effect_def wp_bind wp_lock_cash_account wp_payout_transition wp_available_chama_cash clean
        no wp_ensure wp_asks wp_set_payout upd_row_comp completed_def [abs_def] completed_db_def split: option.split)
qed

lemma wp_payout_complete:
  assumes clean: "clean s"
    and again: "\<And>c p. find_row ch_id cid (chamas (objs s)) = Some c \<Longrightarrow> find_row po_id pid (payouts (objs s)) = Some p \<Longrightarrow> po_chama_id p = (ch_id c) \<Longrightarrow>
      po_status p = PO_COMPLETED \<Longrightarrow> \<not> source_free (objs s) PAYOUT_COMPLETION_SOURCE_TYPE (po_id p) \<Longrightarrow> Q p s"
    and ok: "\<And>c p m capital cash a n u u'. find_row ch_id cid (chamas (objs s)) = Some c \<Longrightarrow> find_row po_id pid (payouts (objs s)) = Some p \<Longrightarrow> po_chama_id p = (ch_id c) \<Longrightarrow>
      write_ok actor (ch_id c) (objs s) m \<Longrightarrow> holds_role (objs s) (ms_id m) CHAIRPERSON \<or> holds_role (objs s) (ms_id m) TREASURER \<Longrightarrow>
      po_status p = PO_PROCESSING \<Longrightarrow>
      find_account (ch_id c) SHARE_CAPITAL_CODE (objs s) = Some capital \<Longrightarrow> find_account (ch_id c) CASH_CODE (objs s) = Some cash \<Longrightarrow>
      po_amount p \<le> account_balance (ch_id c) cash (objs s) \<Longrightarrow>
      lines_ok (objs s) (ch_id c) [dl capital (po_amount p), cl cash (po_amount p)] \<Longrightarrow>
      source_free (objs s) PAYOUT_COMPLETION_SOURCE_TYPE (po_id p) \<Longrightarrow> next_uuid s < u' \<Longrightarrow> u' < u \<Longrightarrow>
      Q (completed s actor p) (saved (log_db a n (payout_booked s actor p capital cash)) u
        (saved (payout_booked s actor p capital cash) u' s))"
    and resumed: "\<And>c p t a n u. find_row ch_id cid (chamas (objs s)) = Some c \<Longrightarrow> find_row po_id pid (payouts (objs s)) = Some p \<Longrightarrow> po_chama_id p = (ch_id c) \<Longrightarrow>
      po_status p = PO_PROCESSING \<Longrightarrow> t \<in> set (ledger_transactions (objs s)) \<Longrightarrow>
      lt_source_type t = PAYOUT_COMPLETION_SOURCE_TYPE \<Longrightarrow> lt_source_id t = po_id p \<Longrightarrow> next_uuid s < u \<Longrightarrow>
      Q (completed s actor p) (saved (log_db a n (completed_db s actor p)) u s)"
    and no: "\<And>e t. durable t = durable s \<Longrightarrow> R e t"
  shows "wp (payout_complete actor cid pid) Q R s"
proof -
  have eff: "wp (complete_effect actor (ch_id c) p) Q R s"
    if "find_row ch_id cid (chamas (objs s)) = Some c" "find_row po_id pid (payouts (objs s)) = Some p" "find_row po_id (po_id p) (payouts (objs s)) = Some p"
      "po_chama_id p = (ch_id c)" "write_ok actor (ch_id c) (objs s) m"
      "holds_role (objs s) (ms_id m) CHAIRPERSON \<or> holds_role (objs s) (ms_id m) TREASURER" for c p m
    unfolding that(4) [symmetric]
  proof (rule wp_complete_effect [OF clean that(3)], goal_cases)
    case (1 capital cash a n u u')
    then show ?case by (intro ok [of c p m]) (simp_all add: that)
  next
    case (2 t a n u)
    then show ?case by (intro resumed [of c p t]) (simp_all add: that)
  qed (rule no)
  show ?thesis
    unfolding payout_complete_def
    by (rule wp_chama_write [OF clean])
       (auto simp: wp clean get_by_source_def filter_empty_conv source_free_def dest: find_row_SomeD
         intro!: wp_get_chama_payout eff no again)
qed

section \<open>Reversal\<close>

lemma wp_payout_reverse:
  assumes clean: "clean s"
    and ok: "\<And>c p m t a n u. find_row ch_id cid (chamas (objs s)) = Some c \<Longrightarrow> find_row po_id pid (payouts (objs s)) = Some p \<Longrightarrow> po_chama_id p = (ch_id c) \<Longrightarrow>
      write_ok actor (ch_id c) (objs s) m \<Longrightarrow> holds_role (objs s) (ms_id m) CHAIRPERSON \<Longrightarrow> po_status p = PO_COMPLETED \<Longrightarrow>
      undone s actor (ch_id c) PAYOUT_COMPLETION_SOURCE_TYPE (po_id p) (payout_reversal_description (po_id p)) t \<Longrightarrow>
      next_uuid t < u \<Longrightarrow>
      Q (p\<lparr>po_status := PO_REVERSED\<rparr>)
        (saved (payout_moved (po_id p) (po_status_update (\<lambda>_. PO_REVERSED)) a n (objs t)) u t)"
    and no: "\<And>e t. durable t = durable s \<Longrightarrow> R e t"
  shows "wp (payout_reverse actor cid pid) Q R s"
proof -
  have fin: "wp (undo_posting actor (ch_id c) PAYOUT_COMPLETION_SOURCE_TYPE (po_id p) (payout_reversal_description (po_id p)))
    (\<lambda>_. wp (set_payout (po_id p) (po_status_update (\<lambda>_. PO_REVERSED))) (\<lambda>_.
      wp (audit_record (Some (us_id actor)) (Some (ch_id c)) PAYOUT_REVERSAL ''payout'' (Some (po_id p))
       (Some [(''amount'', JMoney (po_amount p))]) True) (\<lambda>_. wp commit (\<lambda>_. wp (reload_payout (po_id p)) Q R) R) R) R) R s"
    if "find_row ch_id cid (chamas (objs s)) = Some c" "find_row po_id pid (payouts (objs s)) = Some p" "find_row po_id (po_id p) (payouts (objs s)) = Some p"
      "po_chama_id p = (ch_id c)" "write_ok actor (ch_id c) (objs s) m" "holds_role (objs s) (ms_id m) CHAIRPERSON"
      "po_status p = PO_COMPLETED" for c p m
  proof (rule wp_undo_posting [OF clean], goal_cases)
    case (1 t)
    have "find_row po_id (po_id p) (payouts (objs t)) = Some p" using that undone_keeps [OF 1] by simp
    then show ?case
      by (simp add: wp_set_payout)
         (rule wp_audit_then_commit,
          use ok [OF that(1,2,4-7) 1] in \<open>simp add: wp_reload_payout find_upd_row payout_moved_def\<close>)
  qed (simp add: no)
  show ?thesis
    unfolding payout_reverse_def
    by (rule wp_chama_write [OF clean])
       (auto simp: wp_bind wp_require_role wp_ensure clean dest: find_row_SomeD intro!: wp_get_chama_payout fin no)
qed

end
