(* ===== verification/Payout_Props.thy ===== *)
theory Payout_Props
  imports Payout_Facts Lifecycle Demo
begin

text \<open>
  The properties of the payout service: the limits at the request, segregation of duties, the
  lifecycle over any sequence of requests, the completion, and that a reversal restores the
  balances.
\<close>

section \<open>The lifecycle\<close>

definition payout_edge :: "payout_status \<Rightarrow> payout_status \<Rightarrow> bool" where
  "payout_edge a b \<longleftrightarrow>
     a = PO_REQUESTED \<and> (b = PO_APPROVED \<or> b = PO_REJECTED) \<or> a = PO_APPROVED \<and> b = PO_PROCESSING \<or>
     a = PO_PROCESSING \<and> (b = PO_COMPLETED \<or> b = PO_FAILED) \<or> a = PO_COMPLETED \<and> b = PO_REVERSED"

definition payout_final :: "payout_status \<Rightarrow> bool" where
  "payout_final st \<longleftrightarrow> st = PO_REJECTED \<or> st = PO_FAILED \<or> st = PO_REVERSED"

text \<open>What nothing changes of a payout.\<close>

definition same_payout :: "payout \<Rightarrow> payout \<Rightarrow> bool" where
  "same_payout p q \<longleftrightarrow>
     po_id q = po_id p \<and> po_chama_id q = po_chama_id p \<and> po_membership_id q = po_membership_id p \<and>
     po_amount q = po_amount p \<and> po_requested_by_user_id q = po_requested_by_user_id p"

interpretation payout_life: status_table payout_edge payout_final payouts po_id po_status same_payout
  by unfold_locales (auto simp: payout_edge_def payout_final_def same_payout_def)

datatype payout_op =
    Request_Payout money "string option" | Approve_Payout uuid | Reject_Payout uuid | Process_Payout uuid
  | Complete_Payout uuid | Fail_Payout uuid string | Reverse_Payout uuid

fun run_payout_op :: "user \<Rightarrow> uuid \<Rightarrow> payout_op \<Rightarrow> payout act" where
  "run_payout_op actor cid (Request_Payout amount nt) = request_payout actor cid amount nt"
| "run_payout_op actor cid (Approve_Payout i) = payout_approve actor cid i"
| "run_payout_op actor cid (Reject_Payout i) = payout_reject actor cid i"
| "run_payout_op actor cid (Process_Payout i) = payout_process actor cid i"
| "run_payout_op actor cid (Complete_Payout i) = payout_complete actor cid i"
| "run_payout_op actor cid (Fail_Payout i why) = payout_fail actor cid i why"
| "run_payout_op actor cid (Reverse_Payout i) = payout_reverse actor cid i"

text \<open>
  A payout that completed has its posting in the ledger, and only those do: the posting of the
  completion and the status are committed together.
\<close>

definition paid_out :: "payout_status \<Rightarrow> bool" where
  "paid_out st \<longleftrightarrow> st = PO_COMPLETED \<or> st = PO_REVERSED"

definition payouts_inv :: "db \<Rightarrow> bool" where
  "payouts_inv d \<longleftrightarrow> (\<forall>k p. find_row po_id k (payouts d) = Some p \<longrightarrow>
     0 < po_amount p \<and> (paid_out (po_status p) \<longrightarrow> \<not> source_free d PAYOUT_COMPLETION_SOURCE_TYPE k))"

abbreviation payout_step :: "sess \<Rightarrow> db \<Rightarrow> bool" where
  "payout_step s d \<equiv> payout_life.follows (objs s) d \<and> payouts_inv d"

lemma payout_moved_step:
  assumes inv: "payouts_inv (objs s)" and p: "find_row po_id pid (payouts (objs s)) = Some p"
    and d: "payouts d = upd_row po_id (po_id p) f (payouts (objs s))"
    and f: "\<And>r. same_payout r (f r)" and e: "payout_edge (po_status p) (po_status (f p))"
    and led: "\<And>i. source_free d PAYOUT_COMPLETION_SOURCE_TYPE i \<Longrightarrow>
      source_free (objs s) PAYOUT_COMPLETION_SOURCE_TYPE i"
    and paid: "paid_out (po_status (f p)) \<Longrightarrow> \<not> source_free d PAYOUT_COMPLETION_SOURCE_TYPE (po_id p)"
  shows "payout_step s d"
proof
  have p': "find_row po_id (po_id p) (payouts (objs s)) = Some p" using p by (auto dest: find_row_SomeD)
  have key: "\<And>r. po_id (f r) = po_id r" and amt: "\<And>r. po_amount (f r) = po_amount r"
    using f by (simp_all add: same_payout_def)
  show "payout_life.follows (objs s) d"
    by (rule payout_life.follows_update [OF d key p' f]) (use e in blast)
  show "payouts_inv d"
    using inv paid led p' by (auto simp: payouts_inv_def d find_upd_row key amt split: if_splits)
qed

lemma payout_same_step:
  assumes "payouts_inv (objs s)" and "payouts d = payouts (objs s)"
    and "\<And>i. source_free d PAYOUT_COMPLETION_SOURCE_TYPE i \<Longrightarrow>
      source_free (objs s) PAYOUT_COMPLETION_SOURCE_TYPE i"
  shows "payout_step s d"
  using assms by (auto simp: payouts_inv_def intro: payout_life.follows_refl)

lemma payout_added_step:
  assumes inv: "payouts_inv (objs s)" and p: "0 < po_amount p" "po_status p = PO_REQUESTED"
  shows "payout_step s (log_db a n ((objs s)\<lparr>payouts := payouts (objs s) @ [p]\<rparr>))"
proof
  show "payout_life.follows (objs s) (log_db a n ((objs s)\<lparr>payouts := payouts (objs s) @ [p]\<rparr>))"
    by (rule payout_life.follows_append [where rs = "[p]"]) simp
  show "payouts_inv (log_db a n ((objs s)\<lparr>payouts := payouts (objs s) @ [p]\<rparr>))"
    using inv p
    by (auto simp: payouts_inv_def find_row_append find_row_Cons paid_out_def source_free_def
        split: option.splits if_splits)
qed

lemma same_payout_simps [simp]:
  "same_payout p (p\<lparr>po_status := st\<rparr>)" "same_payout p (completed s actor p)"
  "same_payout p (p\<lparr>po_status := st, po_approved_by_user_id := i, po_approved_at := w\<rparr>)"
  "same_payout p (p\<lparr>po_status := st, po_processed_by_user_id := i, po_processed_at := w\<rparr>)"
  "same_payout p (p\<lparr>po_status := st, po_failure_reason := why\<rparr>)"
  by (simp_all add: same_payout_def completed_def)

lemma payout_edge_simps [simp]:
  "payout_edge PO_REQUESTED PO_APPROVED" "payout_edge PO_REQUESTED PO_REJECTED" "payout_edge PO_APPROVED PO_PROCESSING"
  "payout_edge PO_PROCESSING PO_COMPLETED" "payout_edge PO_PROCESSING PO_FAILED" "payout_edge PO_COMPLETED PO_REVERSED"
  by (simp_all add: payout_edge_def)

lemma paid_out_simps [simp]:
  "paid_out PO_COMPLETED" "paid_out PO_REVERSED" "\<not> paid_out PO_APPROVED" "\<not> paid_out PO_REJECTED"
  "\<not> paid_out PO_PROCESSING" "\<not> paid_out PO_FAILED" "\<not> paid_out PO_REQUESTED"
  by (simp_all add: paid_out_def)

lemma source_free_payout_moved [simp]:
  "source_free (payout_moved i f a n d) st k = source_free d st k"
  by (simp add: payout_moved_def)

lemma payouts_moved [simp]: "payouts (payout_moved i f a n d) = upd_row po_id i f (payouts d)"
  by (simp add: payout_moved_def)

text \<open>Each request commits only databases a step away.\<close>

lemma payout_completed_step:
  assumes inv: "payouts_inv (objs s)" and p: "find_row po_id pid (payouts (objs s)) = Some p"
    and st: "po_status p = PO_PROCESSING"
  shows "payout_step s (payout_booked s actor p a b)"
    and "payout_step s (log_db x n (payout_booked s actor p a b))"
    and "t \<in> set (ledger_transactions (objs s)) \<Longrightarrow> lt_source_type t = PAYOUT_COMPLETION_SOURCE_TYPE \<Longrightarrow>
      lt_source_id t = po_id p \<Longrightarrow> payout_step s (log_db x n (completed_db s actor p))"
proof -
  have posted: "payout_step s d"
    if d: "payouts d = upd_row po_id (po_id p) (completed s actor) (payouts (objs s))"
      and f: "\<And>st i. source_free d st i \<longleftrightarrow> source_free (objs s) st i \<and> (st, i) \<noteq> (PAYOUT_COMPLETION_SOURCE_TYPE, po_id p)"
    for d
    by (rule payout_moved_step [OF inv p d]) (simp_all add: st f, simp_all add: completed_def)
  show "payout_step s (payout_booked s actor p a b)"
    by (rule posted) (auto simp: payout_booked_def completed_db_def)
  show "payout_step s (log_db x n (payout_booked s actor p a b))"
    by (rule posted) (auto simp: payout_booked_def completed_db_def)
  show "payout_step s (log_db x n (completed_db s actor p))"
    if "t \<in> set (ledger_transactions (objs s))" "lt_source_type t = PAYOUT_COMPLETION_SOURCE_TYPE" "lt_source_id t = po_id p"
    by (rule payout_moved_step [OF inv p, where f = "completed s actor"])
       (use that in \<open>auto simp: completed_db_def st source_free_def\<close>, simp_all add: completed_def)
qed

lemma payout_reversed_step:
  assumes inv: "payouts_inv (objs s)" and p: "find_row po_id pid (payouts (objs s)) = Some p"
    and st: "po_status p = PO_COMPLETED"
    and t: "undone s actor cid PAYOUT_COMPLETION_SOURCE_TYPE (po_id p) ds t"
  shows "grows (payout_step s) s
    (saved (payout_moved (po_id p) (po_status_update (\<lambda>_. PO_REVERSED)) a n (objs t)) u t)"
proof -
  have free: "source_free (objs t) PAYOUT_COMPLETION_SOURCE_TYPE i = source_free (objs s) PAYOUT_COMPLETION_SOURCE_TYPE i" for i
    by (rule undone_source_free [OF t]) (simp add: source_type_defs)
  note pays = undone_keeps(3) [OF t]
  have booked: "\<not> source_free (objs s) PAYOUT_COMPLETION_SOURCE_TYPE (po_id p)"
    using inv p st find_row_key [OF p] by (auto simp: payouts_inv_def)
  have last: "payout_step s (payout_moved (po_id p) (po_status_update (\<lambda>_. PO_REVERSED)) a n (objs t))"
    by (rule payout_moved_step [OF inv p, where f = "po_status_update (\<lambda>_. PO_REVERSED)"])
       (simp_all add: st free booked pays)
  moreover have "payout_step s (objs t)"
    by (rule payout_same_step [OF inv]) (simp_all add: pays free)
  ultimately show ?thesis
    using t by (auto simp: undone_def intro!: grows_saved grows_saved2)
qed

lemma wp_payout_op:
  assumes clean: "clean s" and inv: "payouts_inv (objs s)"
  shows "wp (run_payout_op actor cid op) (\<lambda>_ t. grows (payout_step s) s t) (\<lambda>_ t. grows (payout_step s) s t) s"
proof (cases op)
  case (Request_Payout amount nt)
  have "payout_step s (log_db a n ((objs s)\<lparr>payouts := payouts (objs s) @ [new_payout s actor c m amount nt]\<rparr>))"
    if "0 < amount" for a n c m
    by (rule payout_added_step [OF inv]) (simp_all add: new_payout_def that)
  then show ?thesis using Request_Payout by (auto intro!: wp_request_payout [OF clean] grows_saved)
next
  case (Approve_Payout i)
  then show ?thesis
    by (auto intro!: wp_payout_approve [OF clean] grows_saved payout_moved_step [OF inv, THEN conjunct1]
        payout_moved_step [OF inv, THEN conjunct2])
next
  case (Reject_Payout i)
  then show ?thesis
    by (auto intro!: wp_payout_reject [OF clean] grows_saved payout_moved_step [OF inv, THEN conjunct1]
        payout_moved_step [OF inv, THEN conjunct2])
next
  case (Process_Payout i)
  then show ?thesis
    by (auto intro!: wp_payout_process [OF clean] grows_saved payout_moved_step [OF inv, THEN conjunct1]
        payout_moved_step [OF inv, THEN conjunct2])
next
  case (Fail_Payout i why)
  then show ?thesis
    by (auto intro!: wp_payout_fail [OF clean] grows_saved payout_moved_step [OF inv, THEN conjunct1]
        payout_moved_step [OF inv, THEN conjunct2])
next
  case (Complete_Payout i)
  then show ?thesis
    by (auto simp del: split_paired_All intro!: wp_payout_complete [OF clean] grows_saved grows_saved2
        intro: payout_completed_step [OF inv, THEN conjunct1] payout_completed_step [OF inv, THEN conjunct2])
next
  case (Reverse_Payout i)
  then show ?thesis
    by (auto intro!: wp_payout_reverse [OF clean] intro: payout_reversed_step [OF inv])
qed

interpretation payout_service: service run_payout_op "\<lambda>_. True" payouts_inv payout_life.follows
proof unfold_locales
  show "payout_life.follows d d" for d by (simp add: payout_life.follows_refl)
qed (rule payout_life.follows_trans, assumption+, rule wp_payout_op, assumption+)

section \<open>The properties\<close>

text \<open>
  C12. The lifecycle of a payout over any sequence of requests: it is never lost, its payee and
  amount never change, its status only moves forward along the state machine, REJECTED, FAILED
  and REVERSED are final; and while it is COMPLETED or REVERSED its posting is in the ledger.
\<close>

theorem payout_lifecycle:
  assumes "served run_payout_op (\<lambda>_. True) s t" and "clean s" and "payouts_inv (objs s)"
    and "find_row po_id pid (payouts (objs s)) = Some p"
  shows "\<exists>q. find_row po_id pid (payouts (objs t)) = Some q \<and> same_payout p q \<and>
    payout_edge\<^sup>*\<^sup>* (po_status p) (po_status q) \<and>
    (po_status p \<in> {PO_REJECTED, PO_FAILED, PO_REVERSED} \<longrightarrow> po_status q = po_status p) \<and>
    (po_status q \<in> {PO_COMPLETED, PO_REVERSED} \<longrightarrow> \<not> source_free (objs t) PAYOUT_COMPLETION_SOURCE_TYPE pid)"
proof -
  have "payout_life.follows (objs s) (objs t)" "payouts_inv (objs t)"
    using payout_service.served_good assms(1-3) by blast+
  then obtain q where q: "find_row po_id pid (payouts (objs t)) = Some q" "same_payout p q"
    "payout_edge\<^sup>*\<^sup>* (po_status p) (po_status q)"
    using assms(4) unfolding payout_life.follows_def by blast
  moreover have "paid_out (po_status q) \<Longrightarrow> \<not> source_free (objs t) PAYOUT_COMPLETION_SOURCE_TYPE pid"
    using \<open>payouts_inv (objs t)\<close> q(1) unfolding payouts_inv_def by blast
  ultimately show ?thesis
    using payout_life.final_lasts [of "po_status p" "po_status q"] by (auto simp: payout_final_def paid_out_def)
qed

text \<open>
  The limits at the request: an accepted request is for a positive amount within the share
  value of the member less what was paid out to them, and within the cash of the Chama.
\<close>

lemma request_payout_limits:
  assumes clean: "clean s" and run: "request_payout actor cid amount nt s = (Inr p, t)"
  shows "\<exists>m. write_ok actor cid (objs s) m \<and> po_membership_id p = ms_id m \<and> po_chama_id p = cid \<and>
    0 < amount \<and> po_amount p = amount \<and> po_status p = PO_REQUESTED \<and>
    amount + completed_total (ms_id m) (objs s) \<le>
      share_value_of (cf_share_unit_price (cfg s)) (ms_id m) (objs s) \<and>
    amount \<le> cash_of cid (objs s) \<and> payouts (objs t) = payouts (objs s) @ [p] \<and> same_ledger (objs s) (objs t)"
proof -
  have "wp (request_payout actor cid amount nt) (\<lambda>p t. \<exists>m. write_ok actor cid (objs s) m \<and>
    po_membership_id p = ms_id m \<and> po_chama_id p = cid \<and>
    0 < amount \<and> po_amount p = amount \<and> po_status p = PO_REQUESTED \<and>
    amount + completed_total (ms_id m) (objs s) \<le>
      share_value_of (cf_share_unit_price (cfg s)) (ms_id m) (objs s) \<and>
    amount \<le> cash_of cid (objs s) \<and> payouts (objs t) = payouts (objs s) @ [p] \<and> same_ledger (objs s) (objs t))
    (\<lambda>_ _. True) s"
    by (rule wp_request_payout [OF clean])
       (auto simp: new_payout_def same_ledger_def algebra_simps dest: find_row_SomeD)
  from wp_InrD [OF this run] show ?thesis .
qed

text \<open>
  Completing a payout whose completion was not posted before moves its amount out of the
  share capital and out of the cash of the Chama, exactly that, from cash that covered it; and
  a chairperson or the treasurer of the Chama did it.
\<close>

lemma payout_complete_effect:
  assumes clean: "clean s" and p: "find_row po_id pid (payouts (objs s)) = Some p" "po_status p \<noteq> PO_COMPLETED"
    and free: "source_free (objs s) PAYOUT_COMPLETION_SOURCE_TYPE pid"
    and run: "payout_complete actor cid pid s = (Inr q, t)"
  shows "\<exists>capital cash m. find_account cid SHARE_CAPITAL_CODE (objs s) = Some capital \<and>
    find_account cid CASH_CODE (objs s) = Some cash \<and> po_amount p \<le> account_balance cid cash (objs s) \<and>
    transfer cid capital cash (po_amount p) (objs s) (objs t) \<and> po_status p = PO_PROCESSING \<and>
    q = completed s actor p \<and> find_row po_id pid (payouts (objs t)) = Some q \<and>
    write_ok actor cid (objs s) m \<and>
    (holds_role (objs s) (ms_id m) CHAIRPERSON \<or> holds_role (objs s) (ms_id m) TREASURER)"
proof -
  have pid: "po_id p = pid" using find_row_key [OF p(1)] .
  have "wp (payout_complete actor cid pid) (\<lambda>q t. \<exists>capital cash m.
    find_account cid SHARE_CAPITAL_CODE (objs s) = Some capital \<and>
    find_account cid CASH_CODE (objs s) = Some cash \<and> po_amount p \<le> account_balance cid cash (objs s) \<and>
    transfer cid capital cash (po_amount p) (objs s) (objs t) \<and> po_status p = PO_PROCESSING \<and>
    q = completed s actor p \<and> find_row po_id pid (payouts (objs t)) = Some q \<and>
    write_ok actor cid (objs s) m \<and>
    (holds_role (objs s) (ms_id m) CHAIRPERSON \<or> holds_role (objs s) (ms_id m) TREASURER)) (\<lambda>_ _. True) s"
  proof (rule wp_payout_complete [OF clean], goal_cases)
    case (2 c p' m capital cash a n u u')
    then have c: "ch_id c = cid" and eq: "p' = p" using p find_row_key [OF 2(1)] by auto
    show ?case
      using 2 p pid transfer_book(2) [of "completed_db s actor p" "objs s"] unfolding eq c
      by (intro exI [of _ capital] exI [of _ cash] exI [of _ m])
         (auto simp: payout_booked_def completed_db_def find_upd_row completed_def)
  next
    case (3 c p' t a n u)
    then show ?case using p pid free by (auto simp: source_free_def)
  qed (use p in auto)
  from wp_InrD [OF this run] show ?thesis .
qed

lemma payout_complete_state:
  assumes clean: "clean s" and p: "find_row po_id pid (payouts (objs s)) = Some p" "po_status p \<noteq> PO_COMPLETED"
    and free: "source_free (objs s) PAYOUT_COMPLETION_SOURCE_TYPE pid"
    and run: "payout_complete actor cid pid s = (Inr q, t)"
  shows "\<exists>capital cash a n. find_account cid SHARE_CAPITAL_CODE (objs s) = Some capital \<and>
    find_account cid CASH_CODE (objs s) = Some cash \<and> objs t = log_db a n (payout_booked s actor p capital cash) \<and>
    clean t \<and> po_chama_id p = cid"
proof -
  have "wp (payout_complete actor cid pid) (\<lambda>q t. \<exists>capital cash a n.
    find_account cid SHARE_CAPITAL_CODE (objs s) = Some capital \<and>
    find_account cid CASH_CODE (objs s) = Some cash \<and> objs t = log_db a n (payout_booked s actor p capital cash) \<and> clean t \<and> po_chama_id p = cid) (\<lambda>_ _. True) s"
  proof (rule wp_payout_complete [OF clean], goal_cases)
    case (2 c p' m capital cash a n u u')
    then show ?case using p find_row_key [OF 2(1)] by auto
  next
    case (3 c p' t a n u)
    then show ?case using p find_row_key [OF p(1)] free by (auto simp: source_free_def)
  qed (use p in auto)
  from wp_InrD [OF this run] show ?thesis .
qed

text \<open>
  C13. Completing and then reversing a payout is a round trip for the money: whoever reverses it
  and whenever, every account of the Chama has the balance it had before the completion, and the
  payout ends REVERSED.
\<close>

theorem payout_reverse_restores:
  assumes clean: "clean s" and ok: "ledger_ok s"
    and p: "find_row po_id pid (payouts (objs s)) = Some p" "po_status p \<noteq> PO_COMPLETED"
    and free: "source_free (objs s) PAYOUT_COMPLETION_SOURCE_TYPE pid"
      "source_free (objs s) REVERSAL_SOURCE_TYPE (next_uuid s)"
    and run: "payout_complete actor cid pid s = (Inr q, t)"
    and undo: "payout_reverse actor' cid pid t = (Inr q', t')"
  shows "account_balance cid x (objs t') = account_balance cid x (objs s) \<and>
    po_status q' = PO_REVERSED \<and> find_row po_id pid (payouts (objs t')) = Some q'"
proof -
  have pid: "po_id p = pid" using find_row_key [OF p(1)] .
  obtain capital cash a n where t: "objs t = log_db a n (payout_booked s actor p capital cash)" "clean t"
    and cid: "po_chama_id p = cid"
    using payout_complete_state [OF clean p free(1) run] by blast
  have there: "transfer cid capital cash (po_amount p) (objs s) (objs t)"
    unfolding t payout_booked_def cid by (rule transfer_book) (simp add: completed_db_def)
  have "wp (payout_reverse actor' cid pid) (\<lambda>q' t'. transfer cid cash capital (po_amount p) (objs t) (objs t') \<and>
    po_status q' = PO_REVERSED \<and> find_row po_id pid (payouts (objs t')) = Some q') (\<lambda>_ _. True) t"
  proof (rule wp_payout_reverse [OF t(2)], goal_cases)
    case (1 c r m v a' n' u)
    have c: "ch_id c = cid" "po_id r = pid" by (rule find_row_key [OF 1(1)], rule find_row_key [OF 1(2)])
    have "transfer cid cash capital (po_amount p) (objs t) (objs v)"
    proof (rule undone_book [where s = s and st = PAYOUT_COMPLETION_SOURCE_TYPE and si = pid])
      show "ledger_inv (objs s)" "ledger_fresh (next_uuid s) (objs s)" using ok by (simp_all add: ledger_ok_def)
      show "objs t = log_db a n (book s actor cid PAYOUT_COMPLETION_SOURCE_TYPE pid (completion_description pid) capital
          cash (po_amount p) (completed_db s actor p))" unfolding t payout_booked_def cid pid ..
      show "undone t actor' cid PAYOUT_COMPLETION_SOURCE_TYPE pid (payout_reversal_description pid) v"
        using 1(7) by (simp add: c)
    qed (use free in \<open>simp_all add: completed_db_def source_type_defs\<close>)
    then show ?case using 1 c undone_keeps(3) [OF 1(7)]
      by (auto simp: find_upd_row transfer_def payout_moved_def)
  qed simp
  from wp_InrD [OF this undo] there show ?thesis by (auto simp: transfer_def)
qed

section \<open>The properties on the demo database\<close>

text \<open>
  Payouts of 700.00 to Alice, whose ten shares are worth 1,000.00, from a Chama with 1,500.00 of
  cash.
\<close>

definition demo_payout :: "uuid \<Rightarrow> payout_status \<Rightarrow> payout" where
  "demo_payout i st =
     \<lparr>po_id = i, po_chama_id = 10, po_membership_id = 43, po_amount = 70000, po_status = st,
      po_requested_by_user_id = 23, po_approved_by_user_id = None, po_processed_by_user_id = None,
      po_completed_by_user_id = None, po_failure_reason = None, po_note = None, po_approved_at = None,
      po_processed_at = None, po_completed_at = None\<rparr>"

definition pay_db :: "payout list \<Rightarrow> db" where
  "pay_db ps = (objs demo_posted)\<lparr>payouts := ps,
     shares := [\<lparr>sh_id = 800, sh_membership_id = 43, sh_contribution_id = 77, sh_units = 100000, sh_status = SH_ACTIVE\<rparr>]\<rparr>"

definition pay :: "payout list \<Rightarrow> sess" where
  "pay ps = fresh_session False False demo_settings (DateTime 2026 3 1 0) 64000000000000000 2000 (pay_db ps)"

lemma pay_db_simps [simp]:
  "payouts (pay_db ps) = ps" "ledger_accounts (pay_db ps) = ledger_accounts demo_db"
  "chamas (pay_db ps) = [demo_chama]" "memberships (pay_db ps) = memberships demo_db"
  "membership_roles (pay_db ps) = membership_roles demo_db" "ledger_transactions (pay_db ps) = [demo_tx]"
  "ledger_entries (pay_db ps) = entries_from 10 1000 1000000 1001 [dl 11 150000, cl 13 150000]"
  "shares (pay_db ps) = [\<lparr>sh_id = 800, sh_membership_id = 43, sh_contribution_id = 77, sh_units = 100000,
     sh_status = SH_ACTIVE\<rparr>]"
  by (simp_all add: pay_db_def demo_posted_def)

lemma pay_simps [simp]:
  "objs (pay ps) = pay_db ps" "rows (pay ps) = pay_db ps" "durable (pay ps) = [pay_db ps]" "next_uuid (pay ps) = 2000"
  "autoflush (pay ps) = False" "local_now (pay ps) = DateTime 2026 3 1 0" "utc_now (pay ps) = 64000000000000000"
  "cfg (pay ps) = demo_settings" "clean (pay ps)"
  by (simp_all add: pay_def clean_fresh, simp_all add: fresh_session_def)

lemma demo_payout_simps [simp]:
  "po_id (demo_payout i st) = i" "po_chama_id (demo_payout i st) = 10" "po_membership_id (demo_payout i st) = 43"
  "po_amount (demo_payout i st) = 70000" "po_status (demo_payout i st) = st"
  by (simp_all add: demo_payout_def)

lemma cash_pay: "account_balance 10 11 (pay_db ps) = 150000"
  by (simp add: account_balance_def entries_from.simps)

lemma shares_pay: "share_value_of 100 43 (pay_db ps) = 100000"
  using round_half_up_of_int [of 100000]
  by (simp add: share_value_of_def active_units_def quantize_def dec_of_e4_def)

lemma pay_unit_price [simp]: "cf_share_unit_price demo_settings = 100"
  by (simp add: demo_settings_def)

lemmas payout_run = wp ledger_run account_code_defs holds_role_def cash_pay get_chama_payout_def upd_row_def
  lock_cash_account_def get_account_id_def available_chama_cash_def quantize_checked_def DECIMAL_PRECISION_def

lemma request_payout_returns: "returns (request_payout alice 10 70000 None) (pay [])"
  unfolding returns_wp request_payout_def
  by (auto simp: payout_run payout_check_def available_share_value_def wp_member_share_value shares_pay
      completed_total_def DECIMAL_PRECISION_def intro!: wp_audit_then_commit)

lemma request_payout_limits_witness:
  "po_amount (result_of (request_payout alice 10 70000 None) (pay [])) = 70000"
  using request_payout_limits [OF _ returnsD [OF request_payout_returns]] by auto

lemma complete_returns:
  "i = 701 \<or> i = 702 \<Longrightarrow> returns (payout_complete treasurer 10 i)
     (pay [demo_payout 701 PO_PROCESSING, demo_payout 702 PO_PROCESSING])"
  unfolding returns_wp payout_complete_def complete_effect_def
  by (auto simp: payout_run normalize_two_lines simp del: normalize_lines.simps intro!: wp_audit_then_commit)

lemma payout_complete_effect_witness:
  "transfer 10 13 11 70000 (pay_db [demo_payout 701 PO_PROCESSING, demo_payout 702 PO_PROCESSING])
     (objs (after (payout_complete treasurer 10 701) (pay [demo_payout 701 PO_PROCESSING, demo_payout 702 PO_PROCESSING])))"
  using payout_complete_effect [OF _ _ _ _ returnsD [OF complete_returns], of 701 "demo_payout 701 PO_PROCESSING"]
  by (auto simp: find_row_Cons source_free_def source_type_defs find_account_def account_code_defs)

text \<open>The second of two payouts that were each requested within the limit completes as well.\<close>

lemma ledger_ok_pay: "ledger_ok (pay ps)"
proof -
  have same: "same_ledger (objs demo_posted) (pay_db ps)" by (simp add: same_ledger_def pay_db_def)
  have "ledger_ok demo_session \<and> lines_ok demo_db 10 [dl 11 150000, cl 13 150000] \<and>
      source_free demo_db CONTRIBUTION_SOURCE_TYPE 77 \<and> reversal_ok demo_db 10 CONTRIBUTION_SOURCE_TYPE None"
    by (simp add: lines_ok_def single_sided_def account_in_def source_free_def reversal_ok_def source_type_defs)
  then have "ledger_inv (objs demo_posted)"
    using new_posting_inv [of demo_session 10 "[dl 11 150000, cl 13 150000]" CONTRIBUTION_SOURCE_TYPE 77 None treasurer
        "Some ''c''"] by (simp add: ledger_ok_def demo_posted_def demo_tx_def numeral_eq_Suc)
  then have inv: "ledger_inv (pay_db ps)" using same_ledger_inv [OF same] by simp
  moreover have "ledger_fresh 2000 (pay_db ps)" by (simp add: ledger_fresh_def)
  ultimately show ?thesis by (simp add: ledger_ok_def)
qed

abbreviation two_payouts :: sess where
  "two_payouts \<equiv> pay [demo_payout 701 PO_PROCESSING, demo_payout 702 PO_PROCESSING]"

definition one_paid :: sess where
  "one_paid = after (payout_complete treasurer 10 701) two_payouts"

lemma one_paid_run: "payout_complete treasurer 10 701 two_payouts =
    (Inr (result_of (payout_complete treasurer 10 701) two_payouts), one_paid)"
  unfolding one_paid_def by (rule returnsD [OF complete_returns]) simp

lemma find_demo_account:
  assumes "ledger_accounts d = ledger_accounts demo_db"
  shows "find_account 10 CASH_CODE d = Some 11" "find_account 10 SHARE_CAPITAL_CODE d = Some 13"
  using assms by (simp_all add: find_account_def account_code_defs)

lemma one_paid_state:
  "\<exists>a n. objs one_paid = log_db a n (payout_booked two_payouts treasurer (demo_payout 701 PO_PROCESSING) 13 11) \<and>
     clean one_paid"
proof -
  have "source_free (objs two_payouts) PAYOUT_COMPLETION_SOURCE_TYPE 701"
    by (simp add: source_free_def source_type_defs)
  then show ?thesis
    using payout_complete_state [OF _ _ _ _ one_paid_run, of "demo_payout 701 PO_PROCESSING"]
    by (simp add: find_row_Cons find_demo_account del: demo_row_simps(13-16))
qed

lemma one_paid_simps [simp]:
  "payouts (objs one_paid) = [completed two_payouts treasurer (demo_payout 701 PO_PROCESSING), demo_payout 702 PO_PROCESSING]"
  "ledger_accounts (objs one_paid) = ledger_accounts demo_db" "chamas (objs one_paid) = [demo_chama]"
  "memberships (objs one_paid) = memberships demo_db" "membership_roles (objs one_paid) = membership_roles demo_db"
  "ledger_transactions (objs one_paid) = [demo_tx, new_tx two_payouts treasurer 10 PAYOUT_COMPLETION_SOURCE_TYPE 701
     (Some (completion_description 701)) None]"
  "account_balance 10 11 (objs one_paid) = 80000" "clean one_paid"
  "shares (objs one_paid) = shares (pay_db [])"
  using one_paid_state
  by (auto simp: payout_booked_def book_def completed_db_def upd_row_def account_balance_book [unfolded book_def]
      cash_pay)

text \<open>
  The limit is checked at the request only: of two payouts requested by one member, each
  within the value of their shares, both complete, and then more was paid out to the member than
  the shares are worth.
\<close>

lemma payout_limit_not_rechecked:
  "po_amount (demo_payout 701 PO_PROCESSING) \<le> share_value_of 100 43 (objs two_payouts) \<and>
   po_amount (demo_payout 702 PO_PROCESSING) \<le> share_value_of 100 43 (objs two_payouts) \<and>
   returns (payout_complete treasurer 10 701) two_payouts \<and>
   returns (payout_complete treasurer 10 702) (after (payout_complete treasurer 10 701) two_payouts) \<and>
   share_value_of 100 43 (objs (after (payout_complete treasurer 10 702) (after (payout_complete treasurer 10 701) two_payouts)))
     < completed_total 43 (objs (after (payout_complete treasurer 10 702) (after (payout_complete treasurer 10 701) two_payouts)))"
proof -
  have second: "returns (payout_complete treasurer 10 702) one_paid"
    unfolding returns_wp payout_complete_def complete_effect_def
    by (auto simp: payout_run normalize_two_lines completed_def simp del: normalize_lines.simps intro!: wp_audit_then_commit)
  have "source_free (objs one_paid) PAYOUT_COMPLETION_SOURCE_TYPE 702"
    by (simp add: source_free_def source_type_defs)
  then obtain a n where "objs (after (payout_complete treasurer 10 702) one_paid) =
      log_db a n (payout_booked one_paid treasurer (demo_payout 702 PO_PROCESSING) 13 11)"
    using payout_complete_state [OF _ _ _ _ returnsD [OF second], of "demo_payout 702 PO_PROCESSING"]
    by (auto simp: find_row_Cons find_demo_account completed_def simp del: demo_row_simps(13-16))
  then have "completed_total 43 (objs (after (payout_complete treasurer 10 702) one_paid)) = 140000 \<and>
      shares (objs (after (payout_complete treasurer 10 702) one_paid)) = shares (pay_db [])"
    by (simp add: completed_total_def payout_booked_def completed_db_def completed_def upd_row_def)
  moreover have "share_value_of 100 43 d = 100000" if "shares d = shares (pay_db [])" for d
    using shares_pay [of "[]"] that by (simp add: share_value_of_def active_units_def)
  ultimately show ?thesis
    unfolding one_paid_def [symmetric] using second complete_returns [of 701] by (simp add: shares_pay)
qed

lemma pay_inv: "payouts_inv (pay_db [demo_payout 701 PO_REQUESTED])"
  by (auto simp: payouts_inv_def find_row_Cons)

theorem payout_lifecycle_witness:
  "\<exists>q. find_row po_id 701 (payouts (objs (snd (request (run_payout_op chair 10 (Reject_Payout 701))
     (pay [demo_payout 701 PO_REQUESTED]))))) = Some q \<and> po_amount q = 70000"
proof -
  have "served run_payout_op (\<lambda>_. True) (pay [demo_payout 701 PO_REQUESTED])
      (snd (request (run_payout_op chair 10 (Reject_Payout 701)) (pay [demo_payout 701 PO_REQUESTED])))"
    by (intro served.intros) simp
  from payout_lifecycle [OF this, of 701 "demo_payout 701 PO_REQUESTED"] pay_inv
  show ?thesis by (auto simp: find_row_Cons same_payout_def)
qed

lemma reverse_one_paid: "returns (payout_reverse chair 10 701) one_paid"
proof -
  obtain a n where t: "objs one_paid = log_db a n (payout_booked two_payouts treasurer (demo_payout 701 PO_PROCESSING) 13 11)"
    using one_paid_state by blast
  have "map entry_key (entries_of 2000 (objs one_paid)) = [(13, 70000, 0), (11, 0, 70000)]"
    using entries_of_book [of "pay_db []" two_payouts "completed_db two_payouts treasurer (demo_payout 701 PO_PROCESSING)"]
      ledger_ok_pay [of "[]"]
    by (simp add: t payout_booked_def ledger_ok_def entries_of_def completed_db_def)
  then show ?thesis
    unfolding returns_wp payout_reverse_def undo_posting_def
    by (auto simp: payout_run completed_def entries_of_def entry_key_def normalize_swapped_two
        simp del: normalize_lines.simps intro!: wp_audit_then_commit)
qed

theorem payout_reverse_restores_witness:
  "account_balance 10 11 (objs (after (payout_reverse chair 10 701) one_paid)) = 150000"
  using payout_reverse_restores [OF _ ledger_ok_pay _ _ _ _ one_paid_run returnsD [OF reverse_one_paid],
      of "demo_payout 701 PO_PROCESSING" 11]
  by (simp add: find_row_Cons source_free_def source_type_defs cash_pay)

end
