(* ===== verification/Contribution.thy ===== *)
theory Contribution
  imports Finance
begin

text \<open>
  Contributions and the shares they buy (\<open>app/services/contribution.py\<close>,
  \<open>app/services/settlement.py\<close>, \<open>app/services/share.py\<close>, \<open>app/repositories/contribution.py\<close>,
  \<open>app/repositories/share.py\<close>, \<open>app/db/bootstrap.py\<close>): recording, confirmation with its
  ledger posting and share units, reversal, and the settlement of a contribution that a payment
  paid.
\<close>

section \<open>The system user\<close>

definition SYSTEM_USER_EMAIL :: string where "SYSTEM_USER_EMAIL = ''system@chamacore.invalid''"
definition SYSTEM_USER_UUID :: uuid where "SYSTEM_USER_UUID = 0x6f1c3a5e0000400080000000000000a1"

definition ensure_system_user :: "user act" where
  "ensure_system_user =
     bind (select_first users (\<lambda>u. us_email u = SYSTEM_USER_EMAIL)) (\<lambda>found.
     case found of
       Some u \<Rightarrow> ret u
     | None \<Rightarrow>
         (let u = \<lparr>us_id = SYSTEM_USER_UUID, us_email = SYSTEM_USER_EMAIL,
                   us_password_hash = ''!system-account-no-login!'', us_is_active = True,
                   us_must_change_password = False, us_member_id = None\<rparr>
          in bind (insert_row (\<lambda>d u. if list_ex (\<lambda>v. us_id v = us_id u) (users d) then Some ''pk_users'' else None)
                    (\<lambda>r d. d\<lparr>users := users d @ [r]\<rparr>) u) (\<lambda>_. ret u)))"

section \<open>Repositories and constraints\<close>

definition set_contribution :: "uuid \<Rightarrow> (contribution \<Rightarrow> contribution) \<Rightarrow> unit act" where
  "set_contribution i f = change (contributions_update (upd_row cn_id i f))"

definition contribution_check :: "db \<Rightarrow> contribution \<Rightarrow> string option" where
  "contribution_check d c =
     (if list_ex (\<lambda>e. cn_id e = cn_id c) (contributions d) then Some ''pk_contributions''
      else if \<not> 0 \<le> cn_amount c then Some ''ck_contributions_amount_non_negative''
      else if cn_status c \<noteq> CN_REVERSED \<and> list_ex (\<lambda>e. cn_membership_id e = cn_membership_id c \<and>
                cn_period e = cn_period c \<and> cn_status e \<noteq> CN_REVERSED) (contributions d)
      then Some ''uq_contributions_membership_period_open''
      else None)"

definition create_contribution ::
  "uuid \<Rightarrow> money \<Rightarrow> string \<Rightarrow> uuid \<Rightarrow> datetime option \<Rightarrow> string option \<Rightarrow> contribution act" where
  "create_contribution membership_id amount period recorded_by payment_date note =
     bind uuid4 (\<lambda>i.
     let c = \<lparr>cn_id = i, cn_membership_id = membership_id, cn_amount = amount, cn_period = period,
              cn_status = CN_PENDING, cn_recorded_by_user_id = recorded_by,
              cn_payment_date = payment_date, cn_note = note, cn_confirmed_at = None\<rparr>
     in bind (insert_row contribution_check (\<lambda>r d. d\<lparr>contributions := contributions d @ [r]\<rparr>) c) (\<lambda>_. ret c))"

definition share_check :: "db \<Rightarrow> share \<Rightarrow> string option" where
  "share_check d h =
     (if list_ex (\<lambda>e. sh_id e = sh_id h) (shares d) then Some ''pk_shares''
      else if \<not> 0 \<le> sh_units h then Some ''ck_shares_units_non_negative''
      else if list_ex (\<lambda>e. sh_contribution_id e = sh_contribution_id h) (shares d)
      then Some ''uq_shares_contribution_id'' else None)"

definition create_share :: "uuid \<Rightarrow> uuid \<Rightarrow> int \<Rightarrow> share act" where
  "create_share membership_id contribution_id units =
     bind uuid4 (\<lambda>i.
     let h = \<lparr>sh_id = i, sh_membership_id = membership_id, sh_contribution_id = contribution_id,
              sh_units = units, sh_status = SH_ACTIVE\<rparr>
     in bind (insert_row share_check (\<lambda>r d. d\<lparr>shares := shares d @ [r]\<rparr>) h) (\<lambda>_. ret h))"

definition find_open_contribution :: "uuid \<Rightarrow> string \<Rightarrow> contribution option act" where
  "find_open_contribution membership_id period =
     select_first contributions (\<lambda>c. cn_membership_id c = membership_id \<and> cn_period c = period \<and>
       cn_status c \<noteq> CN_REVERSED)"

text \<open>The lazily loaded \<open>contribution.membership\<close>, an object of the foreign key.\<close>

definition membership_of :: "contribution \<Rightarrow> membership act" where
  "membership_of c =
     bind (get_by_key memberships ms_id (cn_membership_id c)) (\<lambda>found.
     case found of None \<Rightarrow> raise ValueError | Some m \<Rightarrow> ret m)"

definition get_chama_contribution :: "uuid \<Rightarrow> uuid \<Rightarrow> contribution act" where
  "get_chama_contribution chama_id contribution_id =
     bind (get_by_key contributions cn_id contribution_id) (\<lambda>found.
     case found of
       None \<Rightarrow> raise (NotFoundError ''Contribution not found in this Chama'')
     | Some c \<Rightarrow>
         bind (membership_of c) (\<lambda>m.
         if ms_chama_id m \<noteq> chama_id
         then raise (NotFoundError ''Contribution not found in this Chama'') else ret c))"

definition reload_contribution :: "uuid \<Rightarrow> contribution act" where
  "reload_contribution i =
     bind (get_by_key contributions cn_id i) (\<lambda>found.
     case found of None \<Rightarrow> raise ValueError | Some c \<Rightarrow> ret c)"

section \<open>Share units\<close>

text \<open>
  The units an amount buys: the quotient by the unit price in the decimal context (28
  significant digits, half to even), then four places, half up. The quotient is scaled by the
  power of ten that gives it 28 digits; a quotient below \<open>10^-72\<close> is left unrounded, far below
  the four places kept, and one of more than 28 digits makes the second rounding fail.
\<close>

definition round_half_even :: "rat \<Rightarrow> int" where
  "round_half_even q =
     (let f = \<lfloor>q\<rfloor>; r = q - of_int f
      in if r < 1/2 then f else if 1/2 < r then f + 1 else if even f then f else f + 1)"

fun scale_digits :: "nat \<Rightarrow> rat \<Rightarrow> nat" where
  "scale_digits 0 q = 0"
| "scale_digits (Suc n) q = (if 10 ^ (DECIMAL_PRECISION - 1) \<le> q then 0 else Suc (scale_digits n (q * 10)))"

definition dec_quotient :: "rat \<Rightarrow> rat \<Rightarrow> rat" where
  "dec_quotient a b =
     (let q = a / b; k = scale_digits 100 q
      in if k = 100 \<or> 10 ^ DECIMAL_PRECISION \<le> q then q else of_int (round_half_even (q * 10 ^ k)) / 10 ^ k)"

definition units_for :: "money \<Rightarrow> int act" where
  "units_for amount =
     bind (asks (cf_share_unit_price \<circ> cfg)) (\<lambda>unit_price.
     if unit_price = 0 then raise DivisionByZero
     else case quantize_checked 4 (dec_quotient (dec_of_money amount) unit_price) of
            None \<Rightarrow> raise InvalidOperation | Some u \<Rightarrow> ret u)"

section \<open>Recording\<close>

definition record_contribution ::
  "user \<Rightarrow> uuid \<Rightarrow> uuid \<Rightarrow> money \<Rightarrow> string \<Rightarrow> datetime option \<Rightarrow> string option \<Rightarrow> contribution act" where
  "record_contribution actor chama_id membership_id amount period payment_date note =
     bind (get_chama_or_404 chama_id) (\<lambda>chama.
     bind (authorize_chama_write actor (ch_id chama)) (\<lambda>am.
     bind (require_roles am [CHAIRPERSON, TREASURER]) (\<lambda>_.
     bind (get_target_membership (ch_id chama) membership_id) (\<lambda>m.
     bind (find_open_contribution (ms_id m) period) (\<lambda>existing.
     bind (ensure (existing = None) (ConflictError
       ''This membership already has a contribution for this period that has not been reversed'')) (\<lambda>_.
     bind (create_contribution (ms_id m) amount period (us_id actor) payment_date note) (\<lambda>c.
     bind (catch_integrity commit (bind rollback (\<lambda>_.
       raise (ConflictError ''Duplicate contribution for this membership and period'')))) (\<lambda>_.
     bind (audit_record_commit (Some (us_id actor)) (Some (ch_id chama)) CONTRIBUTION_CREATE ''contribution''
       (Some (cn_id c)) (Some [(''amount'', JMoney (cn_amount c)), (''period'', JStr (cn_period c))]) True) (\<lambda>_.
     ret c)))))))))"

section \<open>Confirmation\<close>

definition confirmation_description :: "string \<Rightarrow> string" where
  "confirmation_description period = ''Contribution '' @ period @ '' confirmation''"

definition contribution_reversal_description :: "string \<Rightarrow> string" where
  "contribution_reversal_description period = ''Contribution '' @ period @ '' reversal''"

definition post_confirmation :: "contribution \<Rightarrow> user \<Rightarrow> unit act" where
  "post_confirmation c actor =
     bind (membership_of c) (\<lambda>m.
     let chama_id = ms_chama_id m in
     bind (get_account_id chama_id CASH_CODE) (\<lambda>cash.
     bind (get_account_id chama_id SHARE_CAPITAL_CODE) (\<lambda>capital.
     bind (post_transaction actor chama_id CONTRIBUTION_SOURCE_TYPE (cn_id c)
             (Some (confirmation_description (cn_period c)))
             [debit_line cash (cn_amount c), credit_line capital (cn_amount c)] None
             (us_id actor \<noteq> SYSTEM_USER_UUID)) (\<lambda>_. ret ()))))"

text \<open>\<open>_settle\<close>: what confirming a PENDING contribution does, and the whole method.\<close>

definition settle_effect :: "contribution \<Rightarrow> user \<Rightarrow> contribution act" where
  "settle_effect c actor =
     bind (asks local_now) (\<lambda>now.
     bind (set_contribution (cn_id c) (\<lambda>c. c\<lparr>cn_status := CN_CONFIRMED, cn_confirmed_at := Some now\<rparr>)) (\<lambda>_.
     bind (units_for (cn_amount c)) (\<lambda>units.
     bind (create_share (cn_membership_id c) (cn_id c) units) (\<lambda>_.
     bind (post_confirmation c actor) (\<lambda>_.
     bind commit (\<lambda>_.
     bind (membership_of c) (\<lambda>m.
     bind (audit_record_commit (Some (us_id actor)) (Some (ms_chama_id m)) CONTRIBUTION_CONFIRM ''contribution''
       (Some (cn_id c)) (Some [(''amount'', JMoney (cn_amount c)), (''period'', JStr (cn_period c))]) True) (\<lambda>_.
     reload_contribution (cn_id c)))))))))"

definition settle :: "contribution \<Rightarrow> user \<Rightarrow> bool \<Rightarrow> contribution act" where
  "settle c actor allow_already_confirmed =
     (if cn_status c = CN_CONFIRMED
      then if allow_already_confirmed then ret c
           else raise (StateError ''Only a PENDING contribution can be confirmed'')
      else if cn_status c \<noteq> CN_PENDING
      then raise (StateError ''Only a PENDING contribution can be confirmed'')
      else settle_effect c actor)"

definition confirm_contribution :: "user \<Rightarrow> uuid \<Rightarrow> uuid \<Rightarrow> contribution act" where
  "confirm_contribution actor chama_id contribution_id =
     bind (get_chama_or_404 chama_id) (\<lambda>chama.
     bind (authorize_chama_write actor (ch_id chama)) (\<lambda>am.
     bind (require_roles am [CHAIRPERSON]) (\<lambda>_.
     bind (get_chama_contribution (ch_id chama) contribution_id) (\<lambda>c.
     settle c actor False))))"

text \<open>
  \<open>settle_linked_contribution\<close>, called when the payment intent of a contribution succeeded;
  the arguments are the intent's columns.
\<close>

definition settle_linked_contribution :: "uuid option \<Rightarrow> uuid \<Rightarrow> uuid \<Rightarrow> bool act" where
  "settle_linked_contribution contribution_id membership_id chama_id =
     (case contribution_id of
        None \<Rightarrow> ret False
      | Some i \<Rightarrow>
          bind (get_by_key contributions cn_id i) (\<lambda>found.
          case found of
            None \<Rightarrow> raise (StateError ''A payment succeeded but its linked contribution no longer exists'')
          | Some c \<Rightarrow>
          bind (ensure (cn_membership_id c = membership_id)
            (StateError ''A payment succeeded but its linked contribution belongs to a different membership'')) (\<lambda>_.
          bind (membership_of c) (\<lambda>m.
          bind (ensure (ms_chama_id m = chama_id)
            (StateError ''A payment succeeded but its linked contribution belongs to a different Chama'')) (\<lambda>_.
          bind ensure_system_user (\<lambda>sys.
          bind (settle c sys True) (\<lambda>_. ret True)))))))"

section \<open>Reversal\<close>

text \<open>
  \<open>reverse\<close>. The lazily loaded \<open>contribution.shares\<close> are the shares of the contribution; the
  reversal's posting, or the commit when there is none, writes all pending changes at once.
\<close>

definition reverse_shares :: "uuid \<Rightarrow> unit act" where
  "reverse_shares contribution_id =
     bind (select_all shares (\<lambda>h. sh_contribution_id h = contribution_id)) (\<lambda>hs.
     for_each hs (\<lambda>h. change (shares_update (upd_row sh_id (sh_id h) (sh_status_update (\<lambda>_. SH_REVERSED))))))"

definition reverse_posting :: "user \<Rightarrow> uuid \<Rightarrow> contribution \<Rightarrow> unit act" where
  "reverse_posting actor chama_id c =
     bind (get_by_source CONTRIBUTION_SOURCE_TYPE (cn_id c)) (\<lambda>posting.
     case posting of
       None \<Rightarrow> commit
     | Some t \<Rightarrow> bind (reverse_transaction actor chama_id (lt_id t)
         (Some (contribution_reversal_description (cn_period c)))) (\<lambda>_. ret ()))"

definition reverse_contribution :: "user \<Rightarrow> uuid \<Rightarrow> uuid \<Rightarrow> string option \<Rightarrow> contribution act" where
  "reverse_contribution actor chama_id contribution_id note =
     bind (get_chama_or_404 chama_id) (\<lambda>chama.
     bind (authorize_chama_write actor (ch_id chama)) (\<lambda>am.
     bind (require_roles am [CHAIRPERSON]) (\<lambda>_.
     bind (get_chama_contribution (ch_id chama) contribution_id) (\<lambda>c.
     bind (ensure (cn_status c = CN_CONFIRMED)
       (StateError ''Only a CONFIRMED contribution can be reversed'')) (\<lambda>_.
     bind (set_contribution (cn_id c) (\<lambda>c. c\<lparr>cn_status := CN_REVERSED,
             cn_note := (case note of None \<Rightarrow> cn_note c | Some t \<Rightarrow> Some t)\<rparr>)) (\<lambda>_.
     bind (reverse_shares (cn_id c)) (\<lambda>_.
     bind (reverse_posting actor (ch_id chama) c) (\<lambda>_.
     bind (audit_record_commit (Some (us_id actor)) (Some (ch_id chama)) CONTRIBUTION_REVERSE ''contribution''
       (Some (cn_id c)) (Some [(''amount'', JMoney (cn_amount c)), (''period'', JStr (cn_period c))]) True) (\<lambda>_.
     reload_contribution (cn_id c))))))))))"

section \<open>Reads\<close>

text \<open>The rows of a Chama come through the join with the memberships, by period.\<close>

definition contributions_of_chama ::
  "uuid \<Rightarrow> nat option \<Rightarrow> nat \<Rightarrow> uuid option \<Rightarrow> string option \<Rightarrow> contribution_status option \<Rightarrow> contribution list act"
where
  "contributions_of_chama chama_id limit offset membership_id period status =
     bind (query (\<lambda>r o'. filter (\<lambda>c. cn_id c \<in> set (map cn_id (filter (\<lambda>c.
         list_ex (\<lambda>m. ms_id m = cn_membership_id c \<and> ms_chama_id m = chama_id) (memberships r) \<and>
         (case membership_id of None \<Rightarrow> True | Some i \<Rightarrow> cn_membership_id c = i) \<and>
         (case period of None \<Rightarrow> True | Some p \<Rightarrow> cn_period c = p) \<and>
         (case status of None \<Rightarrow> True | Some st \<Rightarrow> cn_status c = st)) (contributions r))))
       (contributions o'))) (\<lambda>cs.
     ret (page limit offset (sort_key (map (of_char :: char \<Rightarrow> nat) \<circ> cn_period) cs)))"

definition list_contributions ::
  "user \<Rightarrow> uuid \<Rightarrow> nat option \<Rightarrow> nat \<Rightarrow> uuid option \<Rightarrow> string option \<Rightarrow> contribution_status option \<Rightarrow>
     contribution list act" where
  "list_contributions actor chama_id limit offset membership_id period status =
     bind (get_chama_or_404 chama_id) (\<lambda>chama.
     bind (authorize_chama_access actor (ch_id chama)) (\<lambda>caller.
     bind (case membership_id of
             Some i \<Rightarrow> bind (require_own_or_leadership caller i ''contributions'') (\<lambda>_. ret (Some i))
           | None \<Rightarrow> bind (has_any_role caller LEADERSHIP_ROLES) (\<lambda>leader.
               ret (if leader then None else Some (ms_id caller)))) (\<lambda>which.
     bind (case which of None \<Rightarrow> ret () | Some i \<Rightarrow> bind (get_target_membership (ch_id chama) i) (\<lambda>_. ret ())) (\<lambda>_.
     contributions_of_chama (ch_id chama) limit offset which period status))))"

definition shares_for_membership :: "user \<Rightarrow> uuid \<Rightarrow> uuid \<Rightarrow> share list act" where
  "shares_for_membership actor chama_id membership_id =
     bind (get_chama_or_404 chama_id) (\<lambda>chama.
     bind (authorize_chama_access actor (ch_id chama)) (\<lambda>caller.
     bind (get_target_membership (ch_id chama) membership_id) (\<lambda>m.
     bind (require_own_or_leadership caller (ms_id m) ''shares'') (\<lambda>_.
     select_all shares (\<lambda>h. sh_membership_id h = ms_id m)))))"

definition shares_for_chama :: "user \<Rightarrow> uuid \<Rightarrow> nat option \<Rightarrow> nat \<Rightarrow> share list act" where
  "shares_for_chama actor chama_id limit offset =
     bind (get_chama_or_404 chama_id) (\<lambda>chama.
     bind (authorize_chama_access actor (ch_id chama)) (\<lambda>m.
     bind (require_roles m LEADERSHIP_ROLES) (\<lambda>_.
     bind (query (\<lambda>r o'. filter (\<lambda>h. list_ex (\<lambda>m. ms_id m = sh_membership_id h \<and> ms_chama_id m = ch_id chama)
         (memberships r)) (entities shares (\<lambda>_. True) r o'))) (\<lambda>hs.
     ret (page limit offset hs)))))"

end
