(* ===== verification/Contribution_Facts.thy ===== *)
theory Contribution_Facts
  imports Contribution
begin

text \<open>What each contribution handler does, as rules of the weakest-precondition calculus.\<close>

lemma wp_membership_of [wp]:
  "wp (membership_of c) Q R s =
     (case find_row ms_id (cn_membership_id c) (memberships (objs s)) of
        None \<Rightarrow> R ValueError s | Some m \<Rightarrow> Q m s)"
  by (simp add: membership_of_def wp split: option.split)

lemma wp_reload_contribution [wp]:
  "wp (reload_contribution i) Q R s =
     (case find_row cn_id i (contributions (objs s)) of None \<Rightarrow> R ValueError s | Some c \<Rightarrow> Q c s)"
  by (simp add: reload_contribution_def wp split: option.split)

lemma wp_set_contribution [wp]:
  "wp (set_contribution i f) Q R s = Q () (s\<lparr>objs := contributions_update (upd_row cn_id i f) (objs s)\<rparr>)"
  by (simp add: set_contribution_def wp)

text \<open>A contribution of a Chama, that is, of one of its memberships.\<close>

definition contribution_of :: "db \<Rightarrow> uuid \<Rightarrow> uuid \<Rightarrow> contribution \<Rightarrow> bool" where
  "contribution_of d cid i c \<longleftrightarrow> find_row cn_id i (contributions d) = Some c \<and>
     (\<exists>m. find_row ms_id (cn_membership_id c) (memberships d) = Some m \<and> ms_chama_id m = cid)"

lemma contribution_of_key: "contribution_of d cid i c \<Longrightarrow> cn_id c = i"
  by (auto simp: contribution_of_def dest: find_row_SomeD)

lemma contribution_of_unique: "contribution_of d cid i c \<Longrightarrow> contribution_of d cid' i c' \<Longrightarrow> c' = c \<and> cid' = cid"
  by (auto simp: contribution_of_def)

lemma wp_get_chama_contribution:
  assumes "\<And>c. contribution_of (objs s) cid i c \<Longrightarrow> Q c s" and "\<And>e. R e s"
  shows "wp (get_chama_contribution cid i) Q R s"
  using assms by (auto simp: get_chama_contribution_def wp contribution_of_def split: option.split)

section \<open>Recording\<close>

definition new_contribution ::
  "sess \<Rightarrow> user \<Rightarrow> uuid \<Rightarrow> money \<Rightarrow> string \<Rightarrow> datetime option \<Rightarrow> string option \<Rightarrow> contribution" where
  "new_contribution s actor membership_id amount period payment_date note =
     \<lparr>cn_id = next_uuid s, cn_membership_id = membership_id, cn_amount = amount, cn_period = period,
      cn_status = CN_PENDING, cn_recorded_by_user_id = us_id actor, cn_payment_date = payment_date,
      cn_note = note, cn_confirmed_at = None\<rparr>"

definition recorded_db :: "contribution \<Rightarrow> db \<Rightarrow> db" where
  "recorded_db c d = d\<lparr>contributions := contributions d @ [c]\<rparr>"

definition new_key :: "('r \<Rightarrow> uuid) \<Rightarrow> 'r list \<Rightarrow> uuid \<Rightarrow> bool" where
  "new_key key rs i \<longleftrightarrow> (\<forall>r \<in> set rs. key r \<noteq> i)"

definition no_open :: "uuid \<Rightarrow> string \<Rightarrow> db \<Rightarrow> bool" where
  "no_open membership_id period d \<longleftrightarrow> (\<forall>e \<in> set (contributions d).
     cn_membership_id e = membership_id \<and> cn_period e = period \<longrightarrow> cn_status e = CN_REVERSED)"

lemma wp_record_contribution:
  assumes clean: "clean s"
    and ok: "\<And>c am m a n u. find_row ch_id cid (chamas (objs s)) = Some c \<Longrightarrow> write_ok actor (ch_id c) (objs s) am \<Longrightarrow>
      holds_role (objs s) (ms_id am) CHAIRPERSON \<or> holds_role (objs s) (ms_id am) TREASURER \<Longrightarrow>
      find_row ms_id mid (memberships (objs s)) = Some m \<Longrightarrow> ms_chama_id m = ch_id c \<Longrightarrow>
      no_open (ms_id m) period (objs s) \<Longrightarrow> new_key cn_id (contributions (objs s)) (next_uuid s) \<Longrightarrow> 0 \<le> amount \<Longrightarrow> Suc (next_uuid s) < u \<Longrightarrow>
      Q (new_contribution s actor (ms_id m) amount period pd nt)
        (saved (log_db a n (recorded_db (new_contribution s actor (ms_id m) amount period pd nt) (objs s))) u
          (saved (recorded_db (new_contribution s actor (ms_id m) amount period pd nt) (objs s)) (Suc (next_uuid s)) s))"
    and no: "\<And>e t. durable t = durable s \<Longrightarrow> R e t"
  shows "wp (record_contribution actor cid mid amount period pd nt) Q R s"
  unfolding record_contribution_def
  by (rule wp_chama_write [OF clean])
     (auto simp: wp clean no Let_def find_open_contribution_def create_contribution_def contribution_check_def
       list_ex_iff filter_empty_conv saved_def split: option.split
       intro!: wp_audit_commit
         ok [unfolded recorded_db_def new_contribution_def saved_saved no_open_def new_key_def])

section \<open>Confirmation\<close>

definition units_of :: "rat \<Rightarrow> money \<Rightarrow> int option" where
  "units_of unit_price amount =
     (if unit_price = 0 then None else quantize_checked 4 (dec_quotient (dec_of_money amount) unit_price))"

lemma wp_units_for [wp]:
  "wp (units_for m) Q R s =
     (case units_of (cf_share_unit_price (cfg s)) m of
        None \<Rightarrow> R (if cf_share_unit_price (cfg s) = 0 then DivisionByZero else InvalidOperation) s
      | Some u \<Rightarrow> Q u s)"
  by (simp add: units_for_def units_of_def wp split: option.split)

definition confirmed :: "sess \<Rightarrow> contribution \<Rightarrow> contribution" where
  "confirmed s c = c\<lparr>cn_status := CN_CONFIRMED, cn_confirmed_at := Some (local_now s)\<rparr>"

lemma confirmed_simps [simp]:
  "cn_id (confirmed s c) = cn_id c" "cn_status (confirmed s c) = CN_CONFIRMED" "cn_amount (confirmed s c) = cn_amount c"
  "cn_membership_id (confirmed s c) = cn_membership_id c" "cn_period (confirmed s c) = cn_period c"
  "cn_recorded_by_user_id (confirmed s c) = cn_recorded_by_user_id c"
  by (simp_all add: confirmed_def)

definition new_share :: "sess \<Rightarrow> contribution \<Rightarrow> int \<Rightarrow> share" where
  "new_share s c units =
     \<lparr>sh_id = next_uuid s, sh_membership_id = cn_membership_id c, sh_contribution_id = cn_id c,
      sh_units = units, sh_status = SH_ACTIVE\<rparr>"

text \<open>The database with the confirmed contribution and its share, and with the posting.\<close>

definition confirmed_db :: "sess \<Rightarrow> contribution \<Rightarrow> int \<Rightarrow> db" where
  "confirmed_db s c units =
     (contributions_update (upd_row cn_id (cn_id c) (confirmed s)) (objs s))
       \<lparr>shares := shares (objs s) @ [new_share s c units]\<rparr>"

definition confirmed_booked ::
  "sess \<Rightarrow> user \<Rightarrow> uuid \<Rightarrow> contribution \<Rightarrow> int \<Rightarrow> uuid \<Rightarrow> uuid \<Rightarrow> db" where
  "confirmed_booked s actor chama_id c units cash capital =
     book (s\<lparr>next_uuid := Suc (next_uuid s)\<rparr>) actor chama_id CONTRIBUTION_SOURCE_TYPE (cn_id c)
       (confirmation_description (cn_period c)) cash capital (cn_amount c) (confirmed_db s c units)"

definition has_share :: "db \<Rightarrow> uuid \<Rightarrow> bool" where
  "has_share d i \<longleftrightarrow> (\<exists>h \<in> set (shares d). sh_contribution_id h = i)"

lemma wp_settle_effect:
  assumes c: "find_row cn_id (cn_id c) (contributions (objs s)) = Some c"
    and ok: "\<And>m cash capital units a n u u'.
      find_row ms_id (cn_membership_id c) (memberships (objs s)) = Some m \<Longrightarrow>
      units_of (cf_share_unit_price (cfg s)) (cn_amount c) = Some units \<Longrightarrow> 0 \<le> units \<Longrightarrow>
      \<not> has_share (objs s) (cn_id c) \<Longrightarrow> new_key sh_id (shares (objs s)) (next_uuid s) \<Longrightarrow>
      find_account (ms_chama_id m) CASH_CODE (objs s) = Some cash \<Longrightarrow>
      find_account (ms_chama_id m) SHARE_CAPITAL_CODE (objs s) = Some capital \<Longrightarrow>
      lines_ok (objs s) (ms_chama_id m) [dl cash (cn_amount c), cl capital (cn_amount c)] \<Longrightarrow>
      source_free (objs s) CONTRIBUTION_SOURCE_TYPE (cn_id c) \<Longrightarrow> next_uuid s < u' \<Longrightarrow> u' < u \<Longrightarrow>
      Q (confirmed s c) (saved (log_db a n (confirmed_booked s actor (ms_chama_id m) c units cash capital)) u
        (saved (confirmed_booked s actor (ms_chama_id m) c units cash capital) u'
          (saved (confirmed_booked s actor (ms_chama_id m) c units cash capital) u' s)))"
    and again: "\<And>units t a n u.
      units_of (cf_share_unit_price (cfg s)) (cn_amount c) = Some units \<Longrightarrow> 0 \<le> units \<Longrightarrow>
      \<not> has_share (objs s) (cn_id c) \<Longrightarrow> new_key sh_id (shares (objs s)) (next_uuid s) \<Longrightarrow>
      t \<in> set (ledger_transactions (objs s)) \<Longrightarrow> lt_source_type t = CONTRIBUTION_SOURCE_TYPE \<Longrightarrow>
      lt_source_id t = cn_id c \<Longrightarrow> next_uuid s < u \<Longrightarrow>
      Q (confirmed s c) (saved (log_db a n (confirmed_db s c units)) u (saved (confirmed_db s c units) (Suc (next_uuid s)) s))"
    and no: "\<And>e t. durable t = durable s \<Longrightarrow> R e t"
  shows "wp (settle_effect c actor) Q R s"
proof -
  have tail: "wp (get_account_id cid CASH_CODE) (\<lambda>x. wp (get_account_id cid SHARE_CAPITAL_CODE) (\<lambda>y.
    wp (post_transaction actor cid CONTRIBUTION_SOURCE_TYPE (cn_id c) (Some (confirmation_description (cn_period c)))
      [debit_line x (cn_amount c), credit_line y (cn_amount c)] None (us_id actor \<noteq> SYSTEM_USER_UUID))
    (\<lambda>_. wp commit (\<lambda>_. wp (membership_of c) (\<lambda>m. wp (audit_record_commit (Some (us_id actor)) (Some (ms_chama_id m))
       CONTRIBUTION_CONFIRM ''contribution'' (Some (cn_id c))
       (Some [(''amount'', JMoney (cn_amount c)), (''period'', JStr (cn_period c))]) True)
       (\<lambda>_. wp (reload_contribution (cn_id c)) Q R) R) R) R) R) R) R S"
    if S: "S = s\<lparr>objs := confirmed_db s c units, rows := confirmed_db s c units, next_uuid := Suc (next_uuid s)\<rparr>"
      and m: "find_row ms_id (cn_membership_id c) (memberships (objs s)) = Some m" "ms_chama_id m = cid"
      and u: "units_of (cf_share_unit_price (cfg s)) (cn_amount c) = Some units" "0 \<le> units"
        "\<not> has_share (objs s) (cn_id c)" "new_key sh_id (shares (objs s)) (next_uuid s)" for cid m units S
  proof (rule wp_book, goal_cases)
    case (3 cash capital u')
    let ?B = "confirmed_booked s actor cid c units cash capital"
    have b: "book S actor cid CONTRIBUTION_SOURCE_TYPE (cn_id c) (confirmation_description (cn_period c)) cash capital
        (cn_amount c) (objs S) = ?B"
      unfolding S confirmed_booked_def by (simp add: confirmed_db_def book_def new_tx_def)
    have sv: "saved ?B u' S = saved ?B u' s" by (simp add: S)
    have f: "find_row cn_id (cn_id c) (contributions (confirmed_booked s actor x c units cash capital)) =
        Some (confirmed s c)" for x
      by (simp add: confirmed_booked_def confirmed_db_def find_upd_row c)
    have ms: "find_row ms_id (cn_membership_id c) (memberships ?B) = Some m"
      by (simp add: confirmed_booked_def confirmed_db_def m)
    show ?case
      unfolding b sv wp_commit_saved
      using 3 m u by (simp add: wp ms) (auto simp: wp f S confirmed_db_def intro!: wp_audit_commit ok)
  next
    case (4 t)
    have f: "find_row cn_id (cn_id c) (contributions (confirmed_db s c units)) = Some (confirmed s c)"
      by (simp add: confirmed_db_def find_upd_row c)
    have ms: "find_row ms_id (cn_membership_id c) (memberships (confirmed_db s c units)) = Some m"
      by (simp add: confirmed_db_def m)
    have t: "t \<in> set (ledger_transactions (objs s))" using 4 by (simp add: S confirmed_db_def)
    show ?case
      using again [OF u t 4(2,3), unfolded saved_saved] by (auto simp: wp f S ms saved_def intro!: wp_audit_commit)
  qed (auto simp: S ledger_flushed_def source_type_defs no)
  have "has_share (objs s) (cn_id c)" if "h \<in> set (shares (objs s))" "sh_contribution_id h = cn_id c" for h
    using that by (auto simp: has_share_def)
  then show ?thesis
    using c tail [OF refl _ refl]
    by (auto simp: settle_effect_def create_share_def post_confirmation_def wp_bind wp_asks wp_set_contribution
        wp_units_for wp_uuid4 wp_insert_row wp_membership_of wp_ret share_check_def list_ex_iff Let_def no
        confirmed_db_def confirmed_def [abs_def] new_share_def has_share_def new_key_def split: option.split)
qed

text \<open>\<open>_settle\<close>, on a contribution in whatever status.\<close>

lemma wp_settle:
  assumes "cn_status c = CN_PENDING \<Longrightarrow> wp (settle_effect c actor) Q R s"
    and "cn_status c = CN_CONFIRMED \<Longrightarrow> again \<Longrightarrow> Q c s" and "\<And>e. R e s"
  shows "wp (settle c actor again) Q R s"
  using assms by (cases "cn_status c") (auto simp: settle_def wp)

lemma wp_confirm_contribution:
  assumes clean: "clean s"
    and ok: "\<And>c h am cash capital units a n u u'.
      find_row ch_id cid (chamas (objs s)) = Some h \<Longrightarrow> write_ok actor (ch_id h) (objs s) am \<Longrightarrow>
      holds_role (objs s) (ms_id am) CHAIRPERSON \<Longrightarrow> contribution_of (objs s) (ch_id h) coid c \<Longrightarrow>
      cn_status c = CN_PENDING \<Longrightarrow>
      units_of (cf_share_unit_price (cfg s)) (cn_amount c) = Some units \<Longrightarrow> 0 \<le> units \<Longrightarrow>
      \<not> has_share (objs s) (cn_id c) \<Longrightarrow> new_key sh_id (shares (objs s)) (next_uuid s) \<Longrightarrow>
      find_account (ch_id h) CASH_CODE (objs s) = Some cash \<Longrightarrow>
      find_account (ch_id h) SHARE_CAPITAL_CODE (objs s) = Some capital \<Longrightarrow>
      lines_ok (objs s) (ch_id h) [dl cash (cn_amount c), cl capital (cn_amount c)] \<Longrightarrow>
      source_free (objs s) CONTRIBUTION_SOURCE_TYPE (cn_id c) \<Longrightarrow> next_uuid s < u' \<Longrightarrow> u' < u \<Longrightarrow>
      Q (confirmed s c) (saved (log_db a n (confirmed_booked s actor (ch_id h) c units cash capital)) u
        (saved (confirmed_booked s actor (ch_id h) c units cash capital) u'
          (saved (confirmed_booked s actor (ch_id h) c units cash capital) u' s)))"
    and again: "\<And>c h am units t a n u.
      find_row ch_id cid (chamas (objs s)) = Some h \<Longrightarrow> write_ok actor (ch_id h) (objs s) am \<Longrightarrow>
      holds_role (objs s) (ms_id am) CHAIRPERSON \<Longrightarrow> contribution_of (objs s) (ch_id h) coid c \<Longrightarrow>
      cn_status c = CN_PENDING \<Longrightarrow>
      units_of (cf_share_unit_price (cfg s)) (cn_amount c) = Some units \<Longrightarrow> 0 \<le> units \<Longrightarrow>
      \<not> has_share (objs s) (cn_id c) \<Longrightarrow> new_key sh_id (shares (objs s)) (next_uuid s) \<Longrightarrow>
      t \<in> set (ledger_transactions (objs s)) \<Longrightarrow> lt_source_type t = CONTRIBUTION_SOURCE_TYPE \<Longrightarrow>
      lt_source_id t = cn_id c \<Longrightarrow> next_uuid s < u \<Longrightarrow>
      Q (confirmed s c) (saved (log_db a n (confirmed_db s c units)) u (saved (confirmed_db s c units) (Suc (next_uuid s)) s))"
    and no: "\<And>e t. durable t = durable s \<Longrightarrow> R e t"
  shows "wp (confirm_contribution actor cid coid) Q R s"
proof -
  have eff: "wp (settle_effect c actor) Q R s"
    if "find_row ch_id cid (chamas (objs s)) = Some h" "write_ok actor (ch_id h) (objs s) am"
      "holds_role (objs s) (ms_id am) CHAIRPERSON" "contribution_of (objs s) (ch_id h) coid c" "cn_status c = CN_PENDING"
    for h am c
  proof (rule wp_settle_effect, goal_cases)
    case 1
    then show ?case using that(4) contribution_of_key [OF that(4)] by (simp add: contribution_of_def)
  next
    case (2 m cash capital units a n u u')
    then have m: "ms_chama_id m = ch_id h" using that(4) by (auto simp: contribution_of_def)
    show ?case unfolding m by (intro ok [OF that]) (use 2 in \<open>simp_all add: m\<close>)
  next
    case (3 units t a n u)
    then show ?case by (intro again [OF that])
  qed (rule no)
  show ?thesis
    unfolding confirm_contribution_def
    by (rule wp_chama_write [OF clean])
       (auto simp: wp_bind wp_require_roles clean no intro!: wp_get_chama_contribution wp_settle intro: eff)
qed

section \<open>Reversal\<close>

definition reverse_rows :: "uuid \<Rightarrow> share list \<Rightarrow> share list" where
  "reverse_rows i hs =
     map (\<lambda>h. if sh_id h \<in> sh_id ` {r \<in> set hs. sh_contribution_id r = i}
              then h\<lparr>sh_status := SH_REVERSED\<rparr> else h) hs"

lemma wp_for_each_reversed:
  "wp (for_each hs (\<lambda>h. change (shares_update (upd_row sh_id (sh_id h) (sh_status_update (\<lambda>_. SH_REVERSED)))))) Q R s =
     Q () (s\<lparr>objs := shares_update (map (\<lambda>r. if sh_id r \<in> sh_id ` set hs then r\<lparr>sh_status := SH_REVERSED\<rparr> else r)) (objs s)\<rparr>)"
proof (induction hs arbitrary: s)
  case Nil
  have same: "shares_update (\<lambda>a. a) d = d" for d :: db by (cases d) simp
  show ?case by (simp add: wp same)
next
  case (Cons h hs)
  have "shares_update (map (\<lambda>r. if sh_id r \<in> sh_id ` set hs then r\<lparr>sh_status := SH_REVERSED\<rparr> else r))
      (shares_update (upd_row sh_id (sh_id h) (sh_status_update (\<lambda>_. SH_REVERSED))) d) =
    shares_update (map (\<lambda>r. if sh_id r = sh_id h \<or> sh_id r \<in> sh_id ` set hs then r\<lparr>sh_status := SH_REVERSED\<rparr> else r)) d"
    for d :: db
    by (simp add: comp_def upd_row_def)
  then show ?case by (simp add: wp_bind wp_change Cons.IH)
qed

lemma wp_reverse_shares:
  assumes "shares (rows s) = shares (objs s)"
  shows "wp (reverse_shares i) Q R s = Q () ((sync s)\<lparr>objs := shares_update (reverse_rows i) (objs s)\<rparr>)"
proof -
  have e: "entities shares P (rows (sync s)) (objs s) = filter P (shares (objs s))" for P
    by (rule entities_flushed) (simp add: sync_def assms)
  have "shares_update (map (\<lambda>r. if sh_id r \<in> sh_id ` {h \<in> set (shares d). sh_contribution_id h = i}
      then r\<lparr>sh_status := SH_REVERSED\<rparr> else r)) d = shares_update (reverse_rows i) d" for d :: db
    by (cases d) (simp add: reverse_rows_def)
  then show ?thesis
    by (simp add: reverse_shares_def wp_bind wp_select_all e wp_for_each_reversed)
qed

lemma wp_reverse_posting:
  assumes fl: "ledger_flushed s"
    and ok: "\<And>v t. undone (saved (objs s) (next_uuid s) s) actor cid CONTRIBUTION_SOURCE_TYPE (cn_id c)
        (contribution_reversal_description (cn_period c)) v \<Longrightarrow> objs t = objs v \<Longrightarrow>
      durable t = durable s \<and> objs v = objs s \<or> durable t = objs v # durable s \<Longrightarrow>
      next_uuid s \<le> next_uuid t \<Longrightarrow> Q () t"
    and no: "\<And>e t. durable t = durable s \<Longrightarrow> R e t"
  shows "wp (reverse_posting actor cid c) Q R s"
proof (cases "first (filter (\<lambda>t. lt_source_type t = CONTRIBUTION_SOURCE_TYPE \<and> lt_source_id t = cn_id c)
    (ledger_transactions (objs s)))")
  case None
  let ?v = "saved (objs s) (next_uuid s) s"
  have "undone ?v actor cid CONTRIBUTION_SOURCE_TYPE (cn_id c) (contribution_reversal_description (cn_period c)) ?v"
    using None by (auto simp: undone_def source_free_def filter_empty_conv)
  from ok [OF this] None fl show ?thesis
    by (simp add: reverse_posting_def wp_bind get_by_source_def wp_select_first wp_commit)
next
  case (Some p)
  let ?v = "saved (objs s) (next_uuid s) s"
  have p: "p \<in> set (ledger_transactions (objs s))" "lt_source_type p = CONTRIBUTION_SOURCE_TYPE" "lt_source_id p = cn_id c"
    using Some by (auto dest: first_filter_SomeD)
  have "wp (reverse_transaction actor cid (lt_id p) (Some (contribution_reversal_description (cn_period c))))
      (\<lambda>_. Q ()) R (sync s)"
  proof (rule wp_reverse_transaction, goal_cases)
    case 1
    then show ?case using fl by simp
  next
    case (2 t ls)
    let ?w = "saved (add_posting (new_tx ?v actor cid REVERSAL_SOURCE_TYPE (lt_id p)
        (Some (contribution_reversal_description (cn_period c))) (Some (lt_id p)))
      (entries_from cid (next_uuid ?v) (utc_now ?v) (Suc (next_uuid ?v)) ls) (objs ?v)) (Suc (next_uuid s + length ls)) ?v"
    have "undone ?v actor cid CONTRIBUTION_SOURCE_TYPE (cn_id c) (contribution_reversal_description (cn_period c)) ?w"
      unfolding undone_def
      by (rule disjI2, intro exI [of _ p] exI [of _ ls] exI [of _ "Suc (next_uuid s + length ls)"])
         (use p 2 in auto)
    then show ?case by (rule ok) (simp_all add: posted_saved new_tx_def)
  next
    case (3 t r)
    then have "\<not> source_free (objs s) REVERSAL_SOURCE_TYPE (lt_id p)" by (auto simp: source_free_def)
    then have "undone ?v actor cid CONTRIBUTION_SOURCE_TYPE (cn_id c) (contribution_reversal_description (cn_period c)) ?v"
      using p by (auto simp: undone_def)
    then show ?case by (rule ok) simp_all
  qed (auto intro: no)
  with Some fl show ?thesis by (simp add: reverse_posting_def wp_bind get_by_source_def wp_select_first wp_ret)
qed

definition cancelled :: "string option \<Rightarrow> contribution \<Rightarrow> contribution" where
  "cancelled note c = c\<lparr>cn_status := CN_REVERSED,
     cn_note := (case note of None \<Rightarrow> cn_note c | Some t \<Rightarrow> Some t)\<rparr>"

lemma cancelled_simps [simp]:
  "cn_id (cancelled nt c) = cn_id c" "cn_status (cancelled nt c) = CN_REVERSED" "cn_amount (cancelled nt c) = cn_amount c"
  "cn_membership_id (cancelled nt c) = cn_membership_id c" "cn_period (cancelled nt c) = cn_period c"
  "cn_recorded_by_user_id (cancelled nt c) = cn_recorded_by_user_id c"
  by (simp_all add: cancelled_def)

definition cancelled_db :: "contribution \<Rightarrow> string option \<Rightarrow> db \<Rightarrow> db" where
  "cancelled_db c note d =
     shares_update (reverse_rows (cn_id c)) (contributions_update (upd_row cn_id (cn_id c) (cancelled note)) d)"

lemma wp_reverse_contribution:
  assumes clean: "clean s"
    and ok: "\<And>h am c v t a n u. find_row ch_id cid (chamas (objs s)) = Some h \<Longrightarrow> write_ok actor (ch_id h) (objs s) am \<Longrightarrow>
      holds_role (objs s) (ms_id am) CHAIRPERSON \<Longrightarrow> contribution_of (objs s) (ch_id h) coid c \<Longrightarrow>
      cn_status c = CN_CONFIRMED \<Longrightarrow>
      undone (saved (cancelled_db c nt (objs s)) (next_uuid s) s) actor (ch_id h) CONTRIBUTION_SOURCE_TYPE (cn_id c)
        (contribution_reversal_description (cn_period c)) v \<Longrightarrow> objs t = objs v \<Longrightarrow>
      durable t = durable s \<and> objs v = cancelled_db c nt (objs s) \<or> durable t = objs v # durable s \<Longrightarrow>
      next_uuid s < u \<Longrightarrow> Q (cancelled nt c) (saved (log_db a n (objs v)) u t)"
    and no: "\<And>e t. durable t = durable s \<Longrightarrow> R e t"
  shows "wp (reverse_contribution actor cid coid nt) Q R s"
proof -
  have fin: "wp (set_contribution (cn_id c) (\<lambda>c. c\<lparr>cn_status := CN_REVERSED,
             cn_note := (case nt of None \<Rightarrow> cn_note c | Some t \<Rightarrow> Some t)\<rparr>)) (\<lambda>_. wp (reverse_shares (cn_id c)) (\<lambda>_.
     wp (reverse_posting actor (ch_id h) c) (\<lambda>_. wp (audit_record_commit (Some (us_id actor)) (Some (ch_id h))
       CONTRIBUTION_REVERSE ''contribution'' (Some (cn_id c))
       (Some [(''amount'', JMoney (cn_amount c)), (''period'', JStr (cn_period c))]) True)
       (\<lambda>_. wp (reload_contribution (cn_id c)) Q R) R) R) R) R s"
    if hc: "find_row ch_id cid (chamas (objs s)) = Some h" "write_ok actor (ch_id h) (objs s) am"
      "holds_role (objs s) (ms_id am) CHAIRPERSON" "contribution_of (objs s) (ch_id h) coid c" "cn_status c = CN_CONFIRMED"
    for h am c
  proof -
    let ?D = "cancelled_db c nt (objs s)"
    let ?S = "(sync (s\<lparr>objs := contributions_update (upd_row cn_id (cn_id c) (cancelled nt)) (objs s)\<rparr>))\<lparr>objs := ?D\<rparr>"
    have "wp (reverse_posting actor (ch_id h) c) (\<lambda>_. wp (audit_record_commit (Some (us_id actor)) (Some (ch_id h))
       CONTRIBUTION_REVERSE ''contribution'' (Some (cn_id c))
       (Some [(''amount'', JMoney (cn_amount c)), (''period'', JStr (cn_period c))]) True)
       (\<lambda>_. wp (reload_contribution (cn_id c)) Q R) R) R ?S"
    proof (rule wp_reverse_posting, goal_cases)
      case 1
      then show ?case by (simp add: ledger_flushed_def sync_def clean cancelled_db_def)
    next
      case (2 v t)
      have sv: "saved (objs ?S) (next_uuid ?S) ?S = saved ?D (next_uuid s) s"
        by (simp add: saved_def sync_def)
      have und: "undone (saved ?D (next_uuid s) s) actor (ch_id h) CONTRIBUTION_SOURCE_TYPE (cn_id c)
          (contribution_reversal_description (cn_period c)) v"
        using 2(1) unfolding sv .
      have c: "find_row cn_id (cn_id c) (contributions (objs s)) = Some c"
        using hc(4) contribution_of_key [OF hc(4)] by (simp add: contribution_of_def)
      have f: "find_row cn_id (cn_id c) (contributions (objs v)) = Some (cancelled nt c)"
        using undone_keeps(6) [OF und] by (simp add: cancelled_db_def find_upd_row c)
      show ?case
      proof (rule wp_audit_commit)
        fix new n u assume "next_uuid t < u"
        then have "next_uuid s < u" using 2(4) by simp
        from ok [OF hc und 2(2) _ this] 2(3)
        have "Q (cancelled nt c) (saved (log_db (audit_events (objs t) @ new) n (objs v)) u t)" by simp
        then show "wp (reload_contribution (cn_id c)) Q R (saved (log_db (audit_events (objs t) @ new) n (objs t)) u t)"
          by (simp add: wp_reload_contribution 2(2) f)
      qed
    qed (simp add: no)
    then show ?thesis
      by (simp add: wp_set_contribution wp_reverse_shares clean cancelled_db_def cancelled_def [abs_def])
  qed
  show ?thesis
    unfolding reverse_contribution_def
    by (rule wp_chama_write [OF clean])
       (auto simp: wp_bind wp_require_roles wp_ensure clean no intro!: wp_get_chama_contribution intro: fin)
qed

section \<open>Settlement by a payment\<close>

text \<open>A session at rest, or with the system user just added to it.\<close>

definition with_system :: "sess \<Rightarrow> sess \<Rightarrow> bool" where
  "with_system s t \<longleftrightarrow> t = s \<or> (\<forall>u \<in> set (users (objs s)). us_email u \<noteq> SYSTEM_USER_EMAIL) \<and>
     (\<exists>u. t = s\<lparr>objs := (objs s)\<lparr>users := users (objs s) @ [u]\<rparr>, rows := (objs s)\<lparr>users := users (objs s) @ [u]\<rparr>\<rparr>)"

lemma with_system_keeps:
  assumes "with_system s t"
  shows "durable t = durable s" "next_uuid t = next_uuid s" "cfg t = cfg s" "local_now t = local_now s"
    "contributions (objs t) = contributions (objs s)" "shares (objs t) = shares (objs s)"
    "memberships (objs t) = memberships (objs s)" "ledger_accounts (objs t) = ledger_accounts (objs s)"
    "ledger_transactions (objs t) = ledger_transactions (objs s)" "ledger_entries (objs t) = ledger_entries (objs s)"
  using assms by (auto simp: with_system_def)

lemma wp_ensure_system_user:
  assumes "clean s" and "\<And>u t. with_system s t \<Longrightarrow> Q u t" and "\<And>e. R e s"
  shows "wp ensure_system_user Q R s"
  using assms
  by (auto simp: ensure_system_user_def wp Let_def with_system_def filter_empty_conv split: option.split)

lemma wp_settle_linked:
  assumes clean: "clean s"
    and none: "contribution_id = None \<Longrightarrow> Q False s"
    and again: "\<And>i c t. contribution_id = Some i \<Longrightarrow> contribution_of (objs s) cid i c \<Longrightarrow>
      cn_membership_id c = mid \<Longrightarrow> cn_status c = CN_CONFIRMED \<Longrightarrow> with_system s t \<Longrightarrow> Q True t"
    and settles: "\<And>i c t sys. contribution_id = Some i \<Longrightarrow> contribution_of (objs s) cid i c \<Longrightarrow>
      cn_membership_id c = mid \<Longrightarrow> cn_status c = CN_PENDING \<Longrightarrow> with_system s t \<Longrightarrow>
      wp (settle_effect c sys) (\<lambda>_. Q True) R t"
    and no: "\<And>e t. durable t = durable s \<Longrightarrow> R e t"
  shows "wp (settle_linked_contribution contribution_id mid cid) Q R s"
proof (cases contribution_id)
  case None
  then show ?thesis using none by (simp add: settle_linked_contribution_def wp)
next
  case (Some i)
  have fin: "wp ensure_system_user (\<lambda>sys. wp (settle c sys True) (\<lambda>_. Q True) R) R s"
    if "contribution_of (objs s) cid i c" "cn_membership_id c = mid" for c
    by (rule wp_ensure_system_user [OF clean])
       (auto intro!: wp_settle settles [OF Some that] again [OF Some that] no dest: with_system_keeps(1))
  show ?thesis
    using Some by (auto simp: settle_linked_contribution_def wp no contribution_of_def intro!: fin split: option.split)
qed

end
