(* ===== verification/Contribution_Props.thy ===== *)
theory Contribution_Props
  imports Contribution_Facts Lifecycle Demo
begin

text \<open>
  The properties of the contribution service: one open contribution per member and period, the
  shares that match the confirmed contributions, the confirmation, the settlement by a payment
  and the reversal.
\<close>

section \<open>The lifecycle\<close>

definition contribution_edge :: "contribution_status \<Rightarrow> contribution_status \<Rightarrow> bool" where
  "contribution_edge a b \<longleftrightarrow>
     a = CN_PENDING \<and> b = CN_CONFIRMED \<or> a = CN_CONFIRMED \<and> b = CN_REVERSED"

definition same_contribution :: "contribution \<Rightarrow> contribution \<Rightarrow> bool" where
  "same_contribution c e \<longleftrightarrow>
     cn_id e = cn_id c \<and> cn_membership_id e = cn_membership_id c \<and> cn_amount e = cn_amount c \<and>
     cn_period e = cn_period c \<and> cn_recorded_by_user_id e = cn_recorded_by_user_id c"

lemma same_contribution_simps [simp]:
  "same_contribution c c" "same_contribution c (confirmed s c)" "same_contribution c (cancelled nt c)"
  by (simp_all add: same_contribution_def)

interpretation contribution_life: status_table contribution_edge "\<lambda>st. st = CN_REVERSED" contributions cn_id cn_status
  same_contribution
  by unfold_locales (auto simp: contribution_edge_def same_contribution_def)

datatype contribution_op =
    Record_Contribution uuid money string "datetime option" "string option"
  | Confirm_Contribution uuid | Settle_Contribution uuid uuid | Reverse_Contribution uuid "string option"

fun run_contribution_op :: "user \<Rightarrow> uuid \<Rightarrow> contribution_op \<Rightarrow> unit act" where
  "run_contribution_op actor cid (Record_Contribution mid amount period pd nt) =
     bind (record_contribution actor cid mid amount period pd nt) (\<lambda>_. ret ())"
| "run_contribution_op actor cid (Confirm_Contribution i) = bind (confirm_contribution actor cid i) (\<lambda>_. ret ())"
| "run_contribution_op actor cid (Settle_Contribution i mid) =
     bind (settle_linked_contribution (Some i) mid cid) (\<lambda>_. ret ())"
| "run_contribution_op actor cid (Reverse_Contribution i nt) = bind (reverse_contribution actor cid i nt) (\<lambda>_. ret ())"

text \<open>
  The invariant of the two tables: their keys, one open contribution per membership and period,
  and the shares: one per contribution that was confirmed, ACTIVE exactly while it is.
\<close>

definition one_open :: "contribution list \<Rightarrow> bool" where
  "one_open cs \<longleftrightarrow> (\<forall>a \<in> set cs. \<forall>b \<in> set cs.
     cn_status a \<noteq> CN_REVERSED \<and> cn_status b \<noteq> CN_REVERSED \<and> cn_membership_id a = cn_membership_id b \<and>
     cn_period a = cn_period b \<longrightarrow> cn_id a = cn_id b)"

definition share_status_of :: "contribution_status \<Rightarrow> share_status option" where
  "share_status_of st = (case st of CN_PENDING \<Rightarrow> None | CN_CONFIRMED \<Rightarrow> Some SH_ACTIVE | CN_REVERSED \<Rightarrow> Some SH_REVERSED)"

definition shares_match :: "contribution list \<Rightarrow> share list \<Rightarrow> bool" where
  "shares_match cs hs \<longleftrightarrow>
     (\<forall>h \<in> set hs. \<exists>c \<in> set cs. cn_id c = sh_contribution_id h \<and> sh_membership_id h = cn_membership_id c \<and>
        share_status_of (cn_status c) = Some (sh_status h)) \<and>
     (\<forall>c \<in> set cs. cn_status c \<noteq> CN_PENDING \<longrightarrow> (\<exists>h \<in> set hs. sh_contribution_id h = cn_id c))"

definition contribution_tables :: "contribution list \<Rightarrow> share list \<Rightarrow> bool" where
  "contribution_tables cs hs \<longleftrightarrow>
     distinct (map cn_id cs) \<and> distinct (map sh_id hs) \<and> distinct (map sh_contribution_id hs) \<and>
     one_open cs \<and> shares_match cs hs"

lemma contribution_eq:
  "contribution_tables cs hs \<Longrightarrow> c \<in> set cs \<Longrightarrow> e \<in> set cs \<Longrightarrow> cn_id e = cn_id c \<Longrightarrow> e = c"
  unfolding contribution_tables_def distinct_map by (meson inj_on_eq_iff)

lemma share_status_of_simps [simp]:
  "share_status_of CN_PENDING = None" "share_status_of CN_CONFIRMED = Some SH_ACTIVE"
  "share_status_of CN_REVERSED = Some SH_REVERSED"
  by (simp_all add: share_status_of_def)

lemma tables_record:
  assumes inv: "contribution_tables cs hs" and c: "cn_status c = CN_PENDING" "new_key cn_id cs (cn_id c)"
    and free: "\<And>e. e \<in> set cs \<Longrightarrow> cn_membership_id e = cn_membership_id c \<Longrightarrow> cn_period e = cn_period c \<Longrightarrow>
      cn_status e = CN_REVERSED"
  shows "contribution_tables (cs @ [c]) hs"
proof -
  have old: "one_open cs" using inv by (simp add: contribution_tables_def)
  have "one_open (cs @ [c])"
    unfolding one_open_def
  proof (intro ballI impI)
    fix a b assume ab: "a \<in> set (cs @ [c])" "b \<in> set (cs @ [c])"
      "cn_status a \<noteq> CN_REVERSED \<and> cn_status b \<noteq> CN_REVERSED \<and> cn_membership_id a = cn_membership_id b \<and>
       cn_period a = cn_period b"
    then consider "a \<in> set cs \<and> b \<in> set cs" | "a = c \<and> b \<in> set cs" | "a \<in> set cs \<and> b = c" | "a = c \<and> b = c" by auto
    then show "cn_id a = cn_id b"
    proof cases
      case 1
      then show ?thesis using old ab(3) unfolding one_open_def by blast
    next
      case 2
      then show ?thesis using free [of b] ab(3) by simp
    next
      case 3
      then show ?thesis using free [of a] ab(3) by simp
    qed simp
  qed
  moreover have "shares_match (cs @ [c]) hs"
    using inv c unfolding contribution_tables_def shares_match_def by fastforce
  moreover have "distinct (map cn_id (cs @ [c]))"
    using inv c(2) by (auto simp: contribution_tables_def new_key_def)
  ultimately show ?thesis using inv by (simp add: contribution_tables_def)
qed

lemma one_open_update:
  assumes inv: "contribution_tables cs hs" and c: "c \<in> set cs" "cn_status c \<noteq> CN_REVERSED"
    and f: "\<And>c. cn_id (f c) = cn_id c" "\<And>c. cn_membership_id (f c) = cn_membership_id c"
      "\<And>c. cn_period (f c) = cn_period c"
  shows "one_open (upd_row cn_id (cn_id c) f cs)"
proof -
  have was: "\<exists>a' \<in> set cs. cn_id a' = cn_id a \<and> cn_membership_id a' = cn_membership_id a \<and> cn_period a' = cn_period a \<and>
      cn_status a' \<noteq> CN_REVERSED"
    if "a \<in> set (upd_row cn_id (cn_id c) f cs)" "cn_status a \<noteq> CN_REVERSED" for a
  proof -
    from that(1) consider r where "r \<in> set cs" "cn_id r = cn_id c" "a = f r" | "a \<in> set cs"
      by (auto simp: set_upd_row)
    then show ?thesis
    proof cases
      case 1
      then have "r = c" using contribution_eq [OF inv c(1)] by blast
      then show ?thesis using 1 c f by (intro bexI [of _ c]) simp_all
    qed (use that(2) in blast)
  qed
  have "one_open cs" using inv by (simp add: contribution_tables_def)
  then show ?thesis
    unfolding one_open_def using was by metis
qed

lemma tables_confirm:
  assumes inv: "contribution_tables cs hs" and c: "c \<in> set cs" "cn_status c = CN_PENDING"
    and h: "new_key sh_id hs (sh_id h)" "sh_contribution_id h = cn_id c" "sh_membership_id h = cn_membership_id c"
      "sh_status h = SH_ACTIVE"
    and none: "\<forall>g \<in> set hs. sh_contribution_id g \<noteq> cn_id c"
  shows "contribution_tables (upd_row cn_id (cn_id c) (confirmed s) cs) (hs @ [h])"
proof -
  have "one_open (upd_row cn_id (cn_id c) (confirmed s) cs)"
    by (rule one_open_update [OF inv c(1)]) (simp_all add: c(2))
  moreover have "distinct (map cn_id (upd_row cn_id (cn_id c) (confirmed s) cs))"
    using inv by (simp add: map_key_upd_row contribution_tables_def)
  moreover have "distinct (map sh_id (hs @ [h]))" "distinct (map sh_contribution_id (hs @ [h]))"
    using inv h none by (auto simp: contribution_tables_def new_key_def)
  moreover have "shares_match (upd_row cn_id (cn_id c) (confirmed s) cs) (hs @ [h])"
    unfolding shares_match_def
  proof (intro conjI ballI impI)
    fix g assume g: "g \<in> set (hs @ [h])"
    show "\<exists>e \<in> set (upd_row cn_id (cn_id c) (confirmed s) cs). cn_id e = sh_contribution_id g \<and>
        sh_membership_id g = cn_membership_id e \<and> share_status_of (cn_status e) = Some (sh_status g)"
    proof (cases "g = h")
      case True
      then show ?thesis using c h by (intro bexI [of _ "confirmed s c"]) (auto simp: set_upd_row)
    next
      case False
      then have "g \<in> set hs" using g by simp
      then obtain e where "e \<in> set cs" "cn_id e = sh_contribution_id g" "sh_membership_id g = cn_membership_id e"
          "share_status_of (cn_status e) = Some (sh_status g)"
        using inv unfolding contribution_tables_def shares_match_def by blast
      then show ?thesis using none \<open>g \<in> set hs\<close> by (intro bexI [of _ e]) (auto simp: set_upd_row)
    qed
  next
    fix e assume "e \<in> set (upd_row cn_id (cn_id c) (confirmed s) cs)" "cn_status e \<noteq> CN_PENDING"
    then show "\<exists>g \<in> set (hs @ [h]). sh_contribution_id g = cn_id e"
      using inv h(2) unfolding contribution_tables_def shares_match_def by (auto simp: set_upd_row)
  qed
  ultimately show ?thesis by (simp add: contribution_tables_def)
qed

lemma map_reverse_rows [simp]:
  "map sh_id (reverse_rows i hs) = map sh_id hs" "map sh_contribution_id (reverse_rows i hs) = map sh_contribution_id hs"
  by (simp_all add: reverse_rows_def)

lemma reverse_rows_eq:
  assumes "distinct (map sh_id hs)"
  shows "reverse_rows i hs = map (\<lambda>h. if sh_contribution_id h = i then h\<lparr>sh_status := SH_REVERSED\<rparr> else h) hs"
  using assms unfolding reverse_rows_def distinct_map by (auto simp: inj_on_eq_iff)

lemma tables_cancel:
  assumes inv: "contribution_tables cs hs" and c: "c \<in> set cs" "cn_status c = CN_CONFIRMED"
  shows "contribution_tables (upd_row cn_id (cn_id c) (cancelled nt) cs) (reverse_rows (cn_id c) hs)"
proof -
  have rows: "reverse_rows (cn_id c) hs =
      map (\<lambda>h. if sh_contribution_id h = cn_id c then h\<lparr>sh_status := SH_REVERSED\<rparr> else h) hs"
    by (rule reverse_rows_eq) (use inv in \<open>simp add: contribution_tables_def\<close>)
  have "one_open (upd_row cn_id (cn_id c) (cancelled nt) cs)"
    by (rule one_open_update [OF inv c(1)]) (simp_all add: c(2))
  moreover have "distinct (map cn_id (upd_row cn_id (cn_id c) (cancelled nt) cs))"
    using inv by (simp add: map_key_upd_row contribution_tables_def)
  moreover have "shares_match (upd_row cn_id (cn_id c) (cancelled nt) cs) (reverse_rows (cn_id c) hs)"
    unfolding shares_match_def
  proof (intro conjI ballI impI)
    fix g assume "g \<in> set (reverse_rows (cn_id c) hs)"
    then obtain h where h: "h \<in> set hs" and g: "g = (if sh_contribution_id h = cn_id c then h\<lparr>sh_status := SH_REVERSED\<rparr> else h)"
      unfolding rows by auto
    obtain e where e: "e \<in> set cs" "cn_id e = sh_contribution_id h" "sh_membership_id h = cn_membership_id e"
        "share_status_of (cn_status e) = Some (sh_status h)"
      using inv h unfolding contribution_tables_def shares_match_def by blast
    show "\<exists>e \<in> set (upd_row cn_id (cn_id c) (cancelled nt) cs). cn_id e = sh_contribution_id g \<and>
        sh_membership_id g = cn_membership_id e \<and> share_status_of (cn_status e) = Some (sh_status g)"
    proof (cases "sh_contribution_id h = cn_id c")
      case True
      then have "e = c" using contribution_eq [OF inv c(1) e(1)] e(2) by simp
      then show ?thesis using True e g by (intro bexI [of _ "cancelled nt c"]) (auto simp: set_upd_row)
    next
      case False
      then show ?thesis using e g by (intro bexI [of _ e]) (auto simp: set_upd_row)
    qed
  next
    fix e assume "e \<in> set (upd_row cn_id (cn_id c) (cancelled nt) cs)" "cn_status e \<noteq> CN_PENDING"
    then obtain e' where "e' \<in> set cs" "cn_id e' = cn_id e" "cn_status e' \<noteq> CN_PENDING"
      using c by (auto simp: set_upd_row)
    then have "cn_id e \<in> sh_contribution_id ` set hs"
      using inv unfolding contribution_tables_def shares_match_def by (metis image_eqI)
    then have "cn_id e \<in> set (map sh_contribution_id (reverse_rows (cn_id c) hs))" by simp
    then show "\<exists>g \<in> set (reverse_rows (cn_id c) hs). sh_contribution_id g = cn_id e"
      unfolding set_map image_iff by metis
  qed
  ultimately show ?thesis using inv by (simp add: contribution_tables_def)
qed

text \<open>
  A database of the service: the two tables match, and a contribution that was confirmed has its
  posting in the ledger.
\<close>

definition contributions_inv :: "db \<Rightarrow> bool" where
  "contributions_inv d \<longleftrightarrow>
     contribution_tables (contributions d) (shares d) \<and>
     (\<forall>c \<in> set (contributions d). cn_status c \<noteq> CN_PENDING \<longrightarrow> \<not> source_free d CONTRIBUTION_SOURCE_TYPE (cn_id c))"

abbreviation contribution_step :: "db \<Rightarrow> db \<Rightarrow> bool" where
  "contribution_step d d' \<equiv> contribution_life.follows d d' \<and> contributions_inv d'"

lemma contribution_same_step:
  assumes "contributions_inv d" and "contributions d' = contributions d" and "shares d' = shares d"
    and "\<And>i. source_free d' CONTRIBUTION_SOURCE_TYPE i \<Longrightarrow> source_free d CONTRIBUTION_SOURCE_TYPE i"
  shows "contribution_step d d'"
  using assms by (auto simp: contributions_inv_def intro: contribution_life.follows_refl)

lemma recorded_step:
  assumes inv: "contributions_inv d" and c: "cn_status c = CN_PENDING" "new_key cn_id (contributions d) (cn_id c)"
    and free: "no_open (cn_membership_id c) (cn_period c) d"
    and d: "contributions d' = contributions d @ [c]" "shares d' = shares d" "ledger_transactions d' = ledger_transactions d"
  shows "contribution_step d d'"
proof
  show "contribution_life.follows d d'" by (rule contribution_life.follows_append) (rule d)
  have "contribution_tables (contributions d @ [c]) (shares d)"
    by (rule tables_record) (use inv c free in \<open>auto simp: contributions_inv_def no_open_def\<close>)
  then show "contributions_inv d'"
    using inv c by (auto simp: contributions_inv_def d source_free_def)
qed

lemma contribution_follows:
  assumes inv: "contributions_inv d" and c: "c \<in> set (contributions d)"
    and f: "same_contribution c (f c)" "\<And>r. cn_id (f r) = cn_id r"
    and e: "contribution_edge (cn_status c) (cn_status (f c))"
    and d: "contributions d' = upd_row cn_id (cn_id c) f (contributions d)"
  shows "contribution_life.follows d d'"
proof (rule contribution_life.follows_update [OF d f(2)])
  show "find_row cn_id (cn_id c) (contributions d) = Some c"
    using inv c by (auto simp: contributions_inv_def contribution_tables_def intro: find_row_unique)
qed (use f e in auto)

lemma moved_postings:
  assumes inv: "contributions_inv d" and c: "c \<in> set (contributions d)"
    and f: "\<And>r. cn_id (f r) = cn_id r"
    and posted: "\<not> source_free d' CONTRIBUTION_SOURCE_TYPE (cn_id c)"
    and led: "\<And>i. source_free d' CONTRIBUTION_SOURCE_TYPE i \<Longrightarrow> source_free d CONTRIBUTION_SOURCE_TYPE i"
    and e: "e \<in> set (upd_row cn_id (cn_id c) f (contributions d))" "cn_status e \<noteq> CN_PENDING"
  shows "\<not> source_free d' CONTRIBUTION_SOURCE_TYPE (cn_id e)"
  using e inv posted led f by (auto simp: set_upd_row contributions_inv_def)

lemma confirmed_step:
  assumes inv: "contributions_inv d" and c: "c \<in> set (contributions d)" "cn_status c = CN_PENDING"
    and h: "\<not> has_share d (cn_id c)" "new_key sh_id (shares d) (next_uuid s)"
    and d: "contributions d' = upd_row cn_id (cn_id c) (confirmed s) (contributions d)"
      "shares d' = shares d @ [new_share s c u]"
    and posted: "\<not> source_free d' CONTRIBUTION_SOURCE_TYPE (cn_id c)"
    and led: "\<And>i. source_free d' CONTRIBUTION_SOURCE_TYPE i \<Longrightarrow> source_free d CONTRIBUTION_SOURCE_TYPE i"
  shows "contribution_step d d'"
proof
  show "contribution_life.follows d d'"
    by (rule contribution_follows [OF inv c(1)]) (simp_all add: d c contribution_edge_def)
  have "contribution_tables (contributions d') (shares d')"
    unfolding d
    by (rule tables_confirm) (use inv c h in \<open>auto simp: contributions_inv_def new_share_def has_share_def\<close>)
  then show "contributions_inv d'"
    using moved_postings [OF inv c(1) _ posted led, where f = "confirmed s"] by (simp add: contributions_inv_def d)
qed

lemma cancelled_step:
  assumes inv: "contributions_inv d" and c: "c \<in> set (contributions d)" "cn_status c = CN_CONFIRMED"
    and d: "contributions d' = upd_row cn_id (cn_id c) (cancelled nt) (contributions d)"
      "shares d' = reverse_rows (cn_id c) (shares d)"
    and led: "\<And>i. source_free d' CONTRIBUTION_SOURCE_TYPE i \<Longrightarrow> source_free d CONTRIBUTION_SOURCE_TYPE i"
  shows "contribution_step d d'"
proof
  show "contribution_life.follows d d'"
    by (rule contribution_follows [OF inv c(1)]) (simp_all add: d c contribution_edge_def)
  have "contribution_tables (contributions d') (shares d')"
    unfolding d by (rule tables_cancel) (use inv c in \<open>auto simp: contributions_inv_def\<close>)
  moreover have "\<not> source_free d' CONTRIBUTION_SOURCE_TYPE (cn_id c)"
    using inv c led by (auto simp: contributions_inv_def)
  ultimately show "contributions_inv d'"
    using moved_postings [OF inv c(1) _ _ led, where f = "cancelled nt"] by (simp add: contributions_inv_def d)
qed

text \<open>Each request commits only databases a step away.\<close>

lemma settle_effect_steps:
  assumes inv: "contributions_inv (objs s)" and c: "c \<in> set (contributions (objs s))" "cn_status c = CN_PENDING"
  shows "wp (settle_effect c actor) (\<lambda>_ t. grows (contribution_step (objs s)) s t)
    (\<lambda>_ t. grows (contribution_step (objs s)) s t) s"
proof (rule wp_settle_effect, goal_cases)
  case 1
  show ?case using inv c by (auto simp: contributions_inv_def contribution_tables_def intro: find_row_unique)
next
  case (2 m cash capital units a n u u')
  have step: "contribution_step (objs s) d"
    if "contributions d = upd_row cn_id (cn_id c) (confirmed s) (contributions (objs s))"
      "shares d = shares (objs s) @ [new_share s c units]"
      "\<And>i. source_free d CONTRIBUTION_SOURCE_TYPE i \<longleftrightarrow>
        source_free (objs s) CONTRIBUTION_SOURCE_TYPE i \<and> i \<noteq> cn_id c" for d
    by (rule confirmed_step [OF inv c 2(4,5) that(1,2)]) (simp_all add: that(3))
  show ?case
    by (intro grows_saved_on grows_same step)
       (auto simp: confirmed_booked_def confirmed_db_def)
next
  case (3 units t a n u)
  have step: "contribution_step (objs s) d"
    if "contributions d = upd_row cn_id (cn_id c) (confirmed s) (contributions (objs s))"
      "shares d = shares (objs s) @ [new_share s c units]" "ledger_transactions d = ledger_transactions (objs s)" for d
    by (rule confirmed_step [OF inv c 3(3,4) that(1,2)])
       (use 3(5,6,7) in \<open>auto simp: source_free_def that(3)\<close>)
  show ?case by (intro grows_saved_on grows_same step) (auto simp: confirmed_db_def)
qed simp

lemma contribution_in: "contribution_of d cid i c \<Longrightarrow> c \<in> set (contributions d)"
  by (auto simp: contribution_of_def dest: find_row_SomeD)

lemma cancelled_steps:
  assumes inv: "contributions_inv (objs s)" and c: "c \<in> set (contributions (objs s))" "cn_status c = CN_CONFIRMED"
    and v: "undone (saved (cancelled_db c nt (objs s)) k s) actor cid CONTRIBUTION_SOURCE_TYPE i ds v"
    and t: "durable t = durable s \<and> objs v = cancelled_db c nt (objs s) \<or> durable t = objs v # durable s"
  shows "grows (contribution_step (objs s)) s (saved (log_db a n (objs v)) u t)"
proof -
  have tabs: "contributions (objs v) = upd_row cn_id (cn_id c) (cancelled nt) (contributions (objs s))"
    "shares (objs v) = reverse_rows (cn_id c) (shares (objs s))"
    using undone_keeps(6,7) [OF v] by (simp_all add: cancelled_db_def)
  have free: "source_free (objs v) CONTRIBUTION_SOURCE_TYPE i = source_free (objs s) CONTRIBUTION_SOURCE_TYPE i" for i
    using undone_source_free [OF v, of CONTRIBUTION_SOURCE_TYPE i] by (simp add: source_type_defs cancelled_db_def)
  have "contribution_step (objs s) (objs v)"
    by (rule cancelled_step [OF inv c tabs]) (simp add: free)
  moreover have "contribution_step (objs s) (log_db a n (objs v))"
    by (rule cancelled_step [OF inv c, where nt = nt]) (simp_all add: free tabs)
  ultimately show ?thesis
    using t by (intro grows_saved_on) (auto simp: grows_def intro: exI [of _ "[objs v]"])
qed

lemma wp_contribution_op:
  assumes clean: "clean s" and inv: "contributions_inv (objs s)"
  shows "wp (run_contribution_op actor cid op) (\<lambda>_ t. grows (contribution_step (objs s)) s t)
    (\<lambda>_ t. grows (contribution_step (objs s)) s t) s"
proof (cases op)
  case (Record_Contribution mid amount period pd nt)
  have "grows (contribution_step (objs s)) s
      (saved (log_db a n (recorded_db (new_contribution s actor m amount period pd nt) (objs s))) u
        (saved (recorded_db (new_contribution s actor m amount period pd nt) (objs s)) u' s))"
    if "no_open m period (objs s)" "new_key cn_id (contributions (objs s)) (next_uuid s)" for a n u u' m
    by (intro grows_saved_on grows_same recorded_step [OF inv, where c = "new_contribution s actor m amount period pd nt"])
       (use that in \<open>simp_all add: recorded_db_def, simp_all add: new_contribution_def\<close>)
  then show ?thesis
    using Record_Contribution by (simp add: wp_bind wp_ret) (rule wp_record_contribution [OF clean], simp_all)
next
  case (Confirm_Contribution i)
  have eff: "wp (settle c actor False) (\<lambda>_ t. grows (contribution_step (objs s)) s t)
      (\<lambda>_ t. grows (contribution_step (objs s)) s t) s" if "contribution_of (objs s) x i c" for c x
    by (rule wp_settle) (use settle_effect_steps [OF inv contribution_in [OF that]] in simp_all)
  have "wp (confirm_contribution actor cid i) (\<lambda>_ t. grows (contribution_step (objs s)) s t)
      (\<lambda>_ t. grows (contribution_step (objs s)) s t) s"
    unfolding confirm_contribution_def
    by (rule wp_chama_write [OF clean])
       (auto simp: wp_bind wp_require_roles clean intro!: wp_get_chama_contribution intro: eff)
  then show ?thesis by (simp add: Confirm_Contribution wp_bind wp_ret)
next
  case (Settle_Contribution i mid)
  have "wp (settle_effect c sys) (\<lambda>_ t. grows (contribution_step (objs s)) s t)
      (\<lambda>_ t. grows (contribution_step (objs s)) s t) t"
    if "contribution_of (objs s) cid i c" "cn_status c = CN_PENDING" "with_system s t" for c sys t
  proof -
    note keep = with_system_keeps [OF that(3)]
    have "contributions_inv (objs t)" using inv by (simp add: contributions_inv_def keep source_free_def)
    moreover have "c \<in> set (contributions (objs t))" using contribution_in [OF that(1)] by (simp add: keep)
    ultimately have "wp (settle_effect c sys) (\<lambda>_ t'. grows (contribution_step (objs t)) t t')
      (\<lambda>_ t'. grows (contribution_step (objs t)) t t') t" using that(2) by (rule settle_effect_steps)
    then show ?thesis
      by (rule wp_mono) (auto intro!: grows_from [OF _ keep(1)]
        simp: contribution_life.follows_same [OF keep(5)])
  qed
  then show ?thesis
    unfolding Settle_Contribution run_contribution_op.simps wp_bind wp_ret
    by (intro wp_settle_linked [OF clean]) (auto dest: with_system_keeps(1))
next
  case (Reverse_Contribution i nt)
  then show ?thesis
    by (auto simp: wp_bind wp_ret intro!: wp_reverse_contribution [OF clean]
        intro: cancelled_steps [OF inv contribution_in])
qed

interpretation contribution_service: service run_contribution_op "\<lambda>_. True" contributions_inv contribution_life.follows
proof unfold_locales
  show "contribution_life.follows d d" for d by (simp add: contribution_life.follows_refl)
qed (rule contribution_life.follows_trans, assumption+, rule wp_contribution_op, assumption+)

section \<open>Units and share value\<close>

lemma scale_digits_le: "scale_digits n q \<le> n"
  by (induction n q rule: scale_digits.induct) auto

lemma scale_digits_reaches:
  "scale_digits n q < n \<Longrightarrow> 10 ^ (DECIMAL_PRECISION - 1) \<le> q * 10 ^ scale_digits n q"
  by (induction n q rule: scale_digits.induct) (auto split: if_splits simp: mult.assoc)

lemma round_half_even_of_int [simp]: "round_half_even (of_int n) = n"
  by (simp add: round_half_even_def)

text \<open>At the default unit price of 100 the quotient is exact.\<close>

lemma dec_quotient_exact:
  assumes "\<bar>m\<bar> < 10 ^ 18"
  shows "dec_quotient (dec_of_money m) 100 = of_int m / 10 ^ 4"
proof -
  define q :: rat where "q = of_int m / 10 ^ 4"
  define k where "k = scale_digits 100 q"
  have q: "dec_of_money m / 100 = q" by (simp add: dec_of_money_def q_def)
  have "of_int (round_half_even (q * 10 ^ k)) / 10 ^ k = q" if "k \<noteq> 100"
  proof -
    have "k \<le> 100" unfolding k_def by (rule scale_digits_le)
    then have "10 ^ 27 \<le> q * 10 ^ k"
      using that scale_digits_reaches [of 100 q] by (simp add: k_def DECIMAL_PRECISION_def)
    moreover have "q < 10 ^ 14"
    proof -
      have "m < 10 ^ 18" using assms by linarith
      then have "(of_int m :: rat) < of_int (10 ^ 18)" unfolding of_int_less_iff .
      then show ?thesis by (simp add: q_def)
    qed
    ultimately have "(10::rat) ^ 27 < 10 ^ 14 * 10 ^ k"
      by (meson le_less_trans mult_strict_right_mono zero_less_numeral zero_less_power)
    then have "(10::rat) ^ 27 < 10 ^ (14 + k)" by (simp only: power_add)
    then have "27 < 14 + k" by (rule power_less_imp_less_exp [rotated]) simp
    then have "q * 10 ^ k = of_int (m * 10 ^ (k - 4))"
    proof -
      assume "27 < 14 + k"
      then have "(10::rat) ^ k = 10 ^ 4 * 10 ^ (k - 4)" by (simp only: power_add [symmetric]) simp
      then show ?thesis by (simp add: q_def)
    qed
    then have "of_int (round_half_even (q * 10 ^ k)) = q * 10 ^ k" by (simp only: round_half_even_of_int)
    then show ?thesis by simp
  qed
  then show ?thesis unfolding dec_quotient_def q Let_def k_def [symmetric] by (simp add: q_def)
qed

lemma units_exact:
  assumes "0 \<le> m" and "m < 10 ^ 18"
  shows "units_of 100 m = Some m"
proof -
  have m: "\<bar>m\<bar> < 10 ^ 18" using assms by simp
  have "quantize 4 (dec_quotient (dec_of_money m) 100) = m"
    unfolding dec_quotient_exact [OF m] by (simp add: quantize_def)
  then show ?thesis
    using assms by (simp add: units_of_def quantize_checked_def DECIMAL_PRECISION_def)
qed

lemma share_value_100: "share_value_of 100 m d = active_units m d"
  using round_half_up_of_int [of "active_units m d"]
  by (simp add: share_value_of_def quantize_def dec_of_e4_def power2_eq_square)

section \<open>The properties\<close>

lemma active_units_tables:
  "active_units m (log_db a n d) = active_units m d" "active_units m (book s u c st si ds x y k d) = active_units m d"
  by (simp_all add: active_units_def)

lemma active_units_confirmed:
  "active_units m (confirmed_db s c u) = active_units m (objs s) + (if m = cn_membership_id c then u else 0)"
  by (simp add: active_units_def confirmed_db_def new_share_def)

text \<open>
  C14. The lifecycle of a contribution over any sequence of requests, manual or by payments: it
  is never lost, its membership, amount and period never change, its status moves from PENDING
  to CONFIRMED to REVERSED and never back, and from its confirmation on its posting is in the
  ledger.
\<close>

theorem contribution_lifecycle:
  assumes "served run_contribution_op (\<lambda>_. True) s t" and "clean s" and "contributions_inv (objs s)"
    and "find_row cn_id i (contributions (objs s)) = Some c"
  shows "\<exists>e. find_row cn_id i (contributions (objs t)) = Some e \<and> same_contribution c e \<and>
    contribution_edge\<^sup>*\<^sup>* (cn_status c) (cn_status e) \<and> (cn_status c = CN_REVERSED \<longrightarrow> cn_status e = CN_REVERSED) \<and>
    (cn_status e \<noteq> CN_PENDING \<longrightarrow> \<not> source_free (objs t) CONTRIBUTION_SOURCE_TYPE i)"
proof -
  have inv: "contribution_life.follows (objs s) (objs t)" "contributions_inv (objs t)"
    using contribution_service.served_good assms(1-3) by blast+
  then obtain e where e: "find_row cn_id i (contributions (objs t)) = Some e" "same_contribution c e"
      "contribution_edge\<^sup>*\<^sup>* (cn_status c) (cn_status e)"
    using assms(4) unfolding contribution_life.follows_def by blast
  moreover have "cn_status e \<noteq> CN_PENDING \<Longrightarrow> \<not> source_free (objs t) CONTRIBUTION_SOURCE_TYPE i"
    using find_row_SomeD [OF e(1)] inv(2) unfolding contributions_inv_def by blast
  ultimately show ?thesis
    using contribution_life.final_lasts [OF e(3)] by (intro exI [of _ e]) simp
qed

text \<open>
  C15. After any sequence of requests a membership has at most one open contribution for a
  period, every share belongs to exactly one contribution, of the same membership, and is ACTIVE
  exactly while that contribution is CONFIRMED.
\<close>

theorem shares_match_contributions:
  assumes "served run_contribution_op (\<lambda>_. True) s t" and "clean s" and "contributions_inv (objs s)"
  shows "(\<forall>a \<in> set (contributions (objs t)). \<forall>b \<in> set (contributions (objs t)).
      cn_status a \<noteq> CN_REVERSED \<and> cn_status b \<noteq> CN_REVERSED \<and> cn_membership_id a = cn_membership_id b \<and>
      cn_period a = cn_period b \<longrightarrow> a = b) \<and>
    (\<forall>h \<in> set (shares (objs t)). \<exists>!c. c \<in> set (contributions (objs t)) \<and> cn_id c = sh_contribution_id h \<and>
      cn_membership_id c = sh_membership_id h \<and> (sh_status h = SH_ACTIVE \<longleftrightarrow> cn_status c = CN_CONFIRMED)) \<and>
    (\<forall>c \<in> set (contributions (objs t)). cn_status c \<noteq> CN_PENDING \<longrightarrow>
      (\<exists>!h. h \<in> set (shares (objs t)) \<and> sh_contribution_id h = cn_id c))"
proof -
  have inv: "contribution_tables (contributions (objs t)) (shares (objs t))"
    using contribution_service.served_good assms unfolding contributions_inv_def by blast
  have eq: "a = b" if "a \<in> set (contributions (objs t))" "b \<in> set (contributions (objs t))" "cn_id a = cn_id b" for a b
    using contribution_eq [OF inv that(2,1,3)] .
  have one: "\<exists>!c. c \<in> set (contributions (objs t)) \<and> cn_id c = sh_contribution_id h \<and>
      cn_membership_id c = sh_membership_id h \<and> (sh_status h = SH_ACTIVE \<longleftrightarrow> cn_status c = CN_CONFIRMED)"
    if h: "h \<in> set (shares (objs t))" for h
  proof -
    obtain c where c: "c \<in> set (contributions (objs t))" "cn_id c = sh_contribution_id h"
        "sh_membership_id h = cn_membership_id c" "share_status_of (cn_status c) = Some (sh_status h)"
      using inv h unfolding contribution_tables_def shares_match_def by blast
    then show ?thesis
      by (intro ex1I [of _ c]) (auto intro: eq split: contribution_status.splits simp: share_status_of_def)
  qed
  have two: "\<exists>!h. h \<in> set (shares (objs t)) \<and> sh_contribution_id h = cn_id c"
    if c: "c \<in> set (contributions (objs t))" "cn_status c \<noteq> CN_PENDING" for c
  proof -
    have "distinct (map sh_contribution_id (shares (objs t)))" using inv by (simp add: contribution_tables_def)
    moreover obtain h where "h \<in> set (shares (objs t))" "sh_contribution_id h = cn_id c"
      using inv c unfolding contribution_tables_def shares_match_def by blast
    ultimately show ?thesis unfolding distinct_map by (metis inj_onD)
  qed
  have unique: "a = b"
    if "a \<in> set (contributions (objs t))" "b \<in> set (contributions (objs t))" "cn_status a \<noteq> CN_REVERSED"
      "cn_status b \<noteq> CN_REVERSED" "cn_membership_id a = cn_membership_id b" "cn_period a = cn_period b" for a b
    using inv eq [OF that(1,2)] that unfolding contribution_tables_def one_open_def by blast
  show ?thesis
  proof (intro conjI ballI impI, goal_cases)
    case (1 a b)
    then show ?case using unique by blast
  next
    case (2 h)
    then show ?case by (rule one)
  next
    case (3 c)
    then show ?case by (rule two)
  qed
qed

text \<open>
  C16. A chairperson's confirmation of a contribution that was not posted before debits the cash
  and credits the share capital with its amount, exactly that, and gives the member one share of
  the computed units.
\<close>

theorem confirm_contribution_effect:
  assumes clean: "clean s" and c: "contribution_of (objs s) cid i c"
    and free: "source_free (objs s) CONTRIBUTION_SOURCE_TYPE i"
    and run: "confirm_contribution actor cid i s = (Inr e, t)"
  shows "\<exists>cash capital units h m. find_account cid CASH_CODE (objs s) = Some cash \<and>
    find_account cid SHARE_CAPITAL_CODE (objs s) = Some capital \<and> cn_status c = CN_PENDING \<and>
    transfer cid cash capital (cn_amount c) (objs s) (objs t) \<and>
    e = confirmed s c \<and> contribution_of (objs t) cid i e \<and>
    units_of (cf_share_unit_price (cfg s)) (cn_amount c) = Some units \<and> shares (objs t) = shares (objs s) @ [h] \<and>
    sh_contribution_id h = i \<and> sh_membership_id h = cn_membership_id c \<and> sh_units h = units \<and> sh_status h = SH_ACTIVE \<and>
    write_ok actor cid (objs s) m \<and> holds_role (objs s) (ms_id m) CHAIRPERSON"
proof -
  have "wp (confirm_contribution actor cid i) (\<lambda>e t. \<exists>cash capital units h m. find_account cid CASH_CODE (objs s) = Some cash \<and>
    find_account cid SHARE_CAPITAL_CODE (objs s) = Some capital \<and> cn_status c = CN_PENDING \<and>
    transfer cid cash capital (cn_amount c) (objs s) (objs t) \<and>
    e = confirmed s c \<and> contribution_of (objs t) cid i e \<and>
    units_of (cf_share_unit_price (cfg s)) (cn_amount c) = Some units \<and> shares (objs t) = shares (objs s) @ [h] \<and>
    sh_contribution_id h = i \<and> sh_membership_id h = cn_membership_id c \<and> sh_units h = units \<and> sh_status h = SH_ACTIVE \<and>
    write_ok actor cid (objs s) m \<and> holds_role (objs s) (ms_id m) CHAIRPERSON) (\<lambda>_ _. True) s"
  proof (rule wp_confirm_contribution [OF clean], goal_cases)
    case (1 c' h am cash capital units a n u u')
    have h: "ch_id h = cid" and eq: "c' = c"
      using find_row_key [OF 1(1)] contribution_of_unique [OF c 1(4)] by auto
    note key = contribution_of_key [OF c]
    have "transfer cid cash capital (cn_amount c) (objs s) (log_db a n (confirmed_booked s actor cid c units cash capital))"
      unfolding confirmed_booked_def by (rule transfer_book) (simp add: confirmed_db_def)
    moreover have "contribution_of (log_db a n (confirmed_booked s actor cid c units cash capital)) cid i (confirmed s c)"
      using c key by (simp add: contribution_of_def confirmed_booked_def confirmed_db_def find_upd_row)
    ultimately show ?case
      using 1 key unfolding eq h
      by (intro exI [of _ cash] exI [of _ capital] exI [of _ units] exI [of _ "new_share s c units"] exI [of _ am])
         (simp add: confirmed_booked_def confirmed_db_def new_share_def)
  next
    case (2 c' h am units t a n u)
    then show ?case using c free contribution_of_unique [OF c 2(4)] contribution_of_key [OF c] by (auto simp: source_free_def)
  qed simp
  from wp_InrD [OF this run] show ?thesis .
qed

text \<open>
  At the default unit price of 100 a confirmed contribution raises the share value of its
  member by exactly its amount, and no other member's: for every amount the column can hold the
  rounding of the units loses nothing.
\<close>

lemma confirm_raises_share_value:
  assumes clean: "clean s" and c: "contribution_of (objs s) cid i c"
    and free: "source_free (objs s) CONTRIBUTION_SOURCE_TYPE i"
    and price: "cf_share_unit_price (cfg s) = 100" and amount: "0 \<le> cn_amount c" "cn_amount c < 10 ^ 18"
    and run: "confirm_contribution actor cid i s = (Inr e, t)"
  shows "share_value_of 100 m (objs t) =
    share_value_of 100 m (objs s) + (if m = cn_membership_id c then cn_amount c else 0)"
proof -
  have "wp (confirm_contribution actor cid i) (\<lambda>_ t. active_units m (objs t) =
    active_units m (objs s) + (if m = cn_membership_id c then cn_amount c else 0)) (\<lambda>_ _. True) s"
  proof (rule wp_confirm_contribution [OF clean], goal_cases)
    case (1 c' h am cash capital units a n u u')
    then show ?case
      using contribution_of_unique [OF c 1(4)] units_exact [OF amount]
      by (auto simp: price active_units_tables confirmed_booked_def active_units_confirmed)
  next
    case (2 c' h am units t a n u)
    then show ?case using c free contribution_of_unique [OF c 2(4)] contribution_of_key [OF c] by (auto simp: source_free_def)
  qed simp
  from wp_InrD [OF this run] show ?thesis by (simp add: share_value_100)
qed

lemma confirm_state:
  assumes clean: "clean s" and c: "contribution_of (objs s) cid i c"
    and free: "source_free (objs s) CONTRIBUTION_SOURCE_TYPE i"
    and run: "confirm_contribution actor cid i s = (Inr e, t)"
  shows "\<exists>cash capital units a n. objs t = log_db a n (confirmed_booked s actor cid c units cash capital) \<and>
    find_account cid CASH_CODE (objs s) = Some cash \<and> find_account cid SHARE_CAPITAL_CODE (objs s) = Some capital \<and>
    units_of (cf_share_unit_price (cfg s)) (cn_amount c) = Some units \<and> clean t \<and> \<not> has_share (objs s) i \<and> new_key sh_id (shares (objs s)) (next_uuid s)"
proof -
  have "wp (confirm_contribution actor cid i) (\<lambda>e t. \<exists>cash capital units a n.
    objs t = log_db a n (confirmed_booked s actor cid c units cash capital) \<and>
    find_account cid CASH_CODE (objs s) = Some cash \<and> find_account cid SHARE_CAPITAL_CODE (objs s) = Some capital \<and>
    units_of (cf_share_unit_price (cfg s)) (cn_amount c) = Some units \<and> clean t \<and> \<not> has_share (objs s) i \<and>
    new_key sh_id (shares (objs s)) (next_uuid s)) (\<lambda>_ _. True) s"
  proof (rule wp_confirm_contribution [OF clean], goal_cases)
    case (1 c' h am cash capital units a n u u')
    then show ?case
      using contribution_of_unique [OF c 1(4)] find_row_key [OF 1(1)] contribution_of_key [OF c]
      by (intro exI [of _ cash] exI [of _ capital] exI [of _ units] exI [of _ a] exI [of _ n]) auto
  next
    case (2 c' h am units t a n u)
    then show ?case using c free contribution_of_unique [OF c 2(4)] contribution_of_key [OF c] by (auto simp: source_free_def)
  qed simp
  from wp_InrD [OF this run] show ?thesis .
qed

lemma cancelled_booked:
  "cancelled_db e nt (log_db a n (book s u c st si ds x y k d)) = log_db a n (book s u c st si ds x y k (cancelled_db e nt d))"
  by (simp add: cancelled_db_def book_def add_posting_def log_db_def)

lemma active_units_cancelled:
  assumes "\<not> has_share (objs s) (cn_id c)" and "distinct (map sh_id (shares (objs s)))" and "new_key sh_id (shares (objs s)) (next_uuid s)"
    and "cn_id e = cn_id c"
  shows "active_units m (cancelled_db e nt (confirmed_db s c u)) = active_units m (objs s)"
proof -
  let ?hs = "shares (objs s)"
  have "shares (cancelled_db e nt (confirmed_db s c u)) =
      map (\<lambda>h. if sh_contribution_id h = cn_id c then h\<lparr>sh_status := SH_REVERSED\<rparr> else h) (?hs @ [new_share s c u])"
    unfolding cancelled_db_def confirmed_db_def
    by (simp add: assms(4)) (subst reverse_rows_eq, use assms(2,3) in \<open>auto simp: new_share_def new_key_def\<close>)
  moreover have "map (\<lambda>h. if sh_contribution_id h = cn_id c then h\<lparr>sh_status := SH_REVERSED\<rparr> else h) ?hs = ?hs"
    using assms(1) by (auto simp: has_share_def intro: map_idI)
  ultimately show ?thesis by (simp add: active_units_def new_share_def)
qed

text \<open>
  Confirming and then reversing a contribution is a round trip: whoever reverses it and
  whenever, every account of the Chama and the share value of every member are what they were,
  and the contribution ends REVERSED.
\<close>

lemma contribution_reverse_restores:
  assumes clean: "clean s" and ok: "ledger_ok s" and inv: "contributions_inv (objs s)"
    and c: "contribution_of (objs s) cid i c"
    and free: "source_free (objs s) CONTRIBUTION_SOURCE_TYPE i"
      "source_free (objs s) REVERSAL_SOURCE_TYPE (Suc (next_uuid s))"
    and run: "confirm_contribution actor cid i s = (Inr e, t)"
    and undo: "reverse_contribution actor' cid i nt t = (Inr e', t')"
  shows "account_balance cid x (objs t') = account_balance cid x (objs s) \<and>
    share_value_of p m (objs t') = share_value_of p m (objs s) \<and>
    cn_status e' = CN_REVERSED \<and> contribution_of (objs t') cid i e'"
proof -
  let ?s = "s\<lparr>next_uuid := Suc (next_uuid s)\<rparr>"
  note key = contribution_of_key [OF c]
  obtain cash capital units a n where t: "objs t = log_db a n (confirmed_booked s actor cid c units cash capital)"
      "clean t" "\<not> has_share (objs s) i" "new_key sh_id (shares (objs s)) (next_uuid s)"
    using confirm_state [OF clean c free(1) run] by blast
  have there: "transfer cid cash capital (cn_amount c) (objs s) (objs t)"
    unfolding t confirmed_booked_def by (rule transfer_book) (simp add: confirmed_db_def)
  have ct: "contribution_of (objs t) cid i (confirmed s c)"
    using c key by (simp add: t contribution_of_def confirmed_booked_def confirmed_db_def find_upd_row)
  have "wp (reverse_contribution actor' cid i nt) (\<lambda>e' t'. transfer cid capital cash (cn_amount c) (objs t) (objs t') \<and>
      active_units m (objs t') = active_units m (objs s) \<and> cn_status e' = CN_REVERSED \<and> contribution_of (objs t') cid i e')
    (\<lambda>_ _. True) t"
  proof (rule wp_reverse_contribution [OF t(2)], goal_cases)
    case (1 h am r v t'' a' n' u)
    have h: "ch_id h = cid" using find_row_key [OF 1(1)] .
    have r: "r = confirmed s c" using contribution_of_unique [OF ct 1(4)] by simp
    have D: "cancelled_db r nt (objs t) = log_db a n (book ?s actor cid CONTRIBUTION_SOURCE_TYPE i
        (confirmation_description (cn_period c)) cash capital (cn_amount c) (cancelled_db r nt (confirmed_db s c units)))"
      unfolding t confirmed_booked_def cancelled_booked key ..
    have "transfer cid capital cash (cn_amount c) (objs (saved (cancelled_db r nt (objs t)) (next_uuid t) t)) (objs v)"
    proof (rule undone_book [where s = ?s and st = CONTRIBUTION_SOURCE_TYPE and si = i])
      show "ledger_inv (objs ?s)" using ok by (simp add: ledger_ok_def)
      show "ledger_fresh (next_uuid ?s) (objs ?s)" using ok by (auto simp: ledger_ok_def ledger_fresh_def)
      show "objs (saved (cancelled_db r nt (objs t)) (next_uuid t) t) = log_db a n (book ?s actor cid CONTRIBUTION_SOURCE_TYPE i
        (confirmation_description (cn_period c)) cash capital (cn_amount c) (cancelled_db r nt (confirmed_db s c units)))"
        using D by simp
      show "undone (saved (cancelled_db r nt (objs t)) (next_uuid t) t) actor' cid CONTRIBUTION_SOURCE_TYPE i
          (contribution_reversal_description (cn_period r)) v"
        using 1(6) by (simp add: h r key)
    qed (use free in \<open>simp_all add: source_type_defs cancelled_db_def confirmed_db_def\<close>)
    moreover have "account_balance cid x (cancelled_db r nt d) = account_balance cid x d" for x d
      by (simp add: cancelled_db_def)
    moreover have "active_units m (objs v) = active_units m (objs s)"
    proof -
      have "shares (objs v) = shares (cancelled_db r nt (confirmed_db s c units))"
        using undone_keeps(7) [OF 1(6)] by (simp add: D)
      then have "active_units m (objs v) = active_units m (cancelled_db r nt (confirmed_db s c units))"
        by (simp add: active_units_def)
      also have "\<dots> = active_units m (objs s)"
        by (rule active_units_cancelled) (use inv t(3,4) in \<open>simp_all add: key r contributions_inv_def contribution_tables_def\<close>)
      finally show ?thesis .
    qed
    moreover have "contribution_of (objs v) cid i (cancelled nt r)"
      using undone_keeps(6,8) [OF 1(6)] ct by (auto simp: contribution_of_def cancelled_db_def find_upd_row r key)
    ultimately show ?case
      by (simp add: transfer_def contribution_of_def active_units_def)
  qed simp
  from wp_InrD [OF this undo] there show ?thesis
    by (auto simp: transfer_def share_value_of_def active_units_def)
qed

lemma users_book [simp]: "users (book s u c st si ds x y k d) = users d"
  by (simp add: book_def add_posting_def)

text \<open>
  C17. Settlement is idempotent: once a payment settled its contribution, a second delivery of
  the same payment finds it settled, reports success and changes nothing, neither in the session
  nor in the database.
\<close>

theorem settle_linked_idempotent:
  assumes clean: "clean s" and sys: "\<exists>u \<in> set (users (objs s)). us_email u = SYSTEM_USER_EMAIL"
    and run: "settle_linked_contribution (Some i) mid cid s = (Inr True, t)"
  shows "settle_linked_contribution (Some i) mid cid t = (Inr True, t)"
proof -
  have sysd: "first (filter (\<lambda>u. us_email u = SYSTEM_USER_EMAIL) (users (objs s))) \<noteq> None"
    using sys by (auto simp: filter_empty_conv)
  have "wp (settle_linked_contribution (Some i) mid cid) (\<lambda>_ t. clean t \<and> users (objs t) = users (objs s) \<and>
    (\<exists>e. contribution_of (objs t) cid i e \<and> cn_membership_id e = mid \<and> cn_status e = CN_CONFIRMED)) (\<lambda>_ _. True) s"
  proof (rule wp_settle_linked [OF clean], goal_cases)
    case (2 k c t)
    then show ?case using sys clean by (auto simp: with_system_def)
  next
    case (3 k c t u)
    then have t: "t = s" using sys by (auto simp: with_system_def)
    show ?case
      unfolding t
      by (rule wp_settle_effect)
         (use 3 contribution_of_key [OF 3(2)] in
           \<open>auto simp: contribution_of_def confirmed_booked_def confirmed_db_def find_upd_row\<close>)
  qed simp_all
  from wp_InrD [OF this run] obtain e where t: "clean t" "users (objs t) = users (objs s)"
    "contribution_of (objs t) cid i e" "cn_membership_id e = mid" "cn_status e = CN_CONFIRMED" by blast
  have "wp (settle_linked_contribution (Some i) mid cid) (\<lambda>b t'. b = True \<and> t' = t) (\<lambda>_ _. False) t"
    using t sysd
    by (auto simp: settle_linked_contribution_def ensure_system_user_def settle_def wp contribution_of_def split: option.split)
  then show ?thesis by (rule wp_computes)
qed

section \<open>The properties on the demo database\<close>

text \<open>A pending contribution of 1,500.00 by Alice.\<close>

definition demo_contribution :: "contribution_status \<Rightarrow> contribution" where
  "demo_contribution st =
     \<lparr>cn_id = 77, cn_membership_id = 43, cn_amount = 150000, cn_period = ''2026-03'', cn_status = st,
      cn_recorded_by_user_id = 22, cn_payment_date = None, cn_note = None, cn_confirmed_at = None\<rparr>"

definition system_row :: user where
  "system_row = \<lparr>us_id = SYSTEM_USER_UUID, us_email = SYSTEM_USER_EMAIL, us_password_hash = ''!'', us_is_active = True,
     us_must_change_password = False, us_member_id = None\<rparr>"

definition pledge_db :: db where
  "pledge_db = demo_db\<lparr>contributions := [demo_contribution CN_PENDING], users := [system_row]\<rparr>"

definition pledge :: sess where
  "pledge = fresh_session False False demo_settings (DateTime 2026 3 1 0) 1000000 1000 pledge_db"

lemma pledge_db_simps [simp]:
  "contributions pledge_db = [demo_contribution CN_PENDING]" "users pledge_db = [system_row]"
  "ledger_accounts pledge_db = ledger_accounts demo_db" "chamas pledge_db = [demo_chama]"
  "memberships pledge_db = memberships demo_db" "membership_roles pledge_db = membership_roles demo_db"
  "ledger_transactions pledge_db = []" "ledger_entries pledge_db = []" "shares pledge_db = []"
  by (simp_all add: pledge_db_def)

lemma pledge_simps [simp]:
  "objs pledge = pledge_db" "rows pledge = pledge_db" "durable pledge = [pledge_db]" "next_uuid pledge = 1000"
  "autoflush pledge = False" "local_now pledge = DateTime 2026 3 1 0" "utc_now pledge = 1000000"
  "cfg pledge = demo_settings" "clean pledge"
  by (simp_all add: pledge_def clean_fresh, simp_all add: fresh_session_def)

lemma demo_contribution_simps [simp]:
  "cn_id (demo_contribution st) = 77" "cn_membership_id (demo_contribution st) = 43"
  "cn_amount (demo_contribution st) = 150000" "cn_status (demo_contribution st) = st"
  "cn_period (demo_contribution st) = ''2026-03''"
  by (simp_all add: demo_contribution_def)

lemma system_row_simps [simp]: "us_email system_row = SYSTEM_USER_EMAIL" "us_id system_row = SYSTEM_USER_UUID"
  by (simp_all add: system_row_def)

lemma pledge_unit_price [simp]: "cf_share_unit_price demo_settings = 100"
  by (simp add: demo_settings_def)

lemma pledge_inv: "contributions_inv pledge_db"
  by (simp add: contributions_inv_def contribution_tables_def one_open_def shares_match_def)

lemma pledge_of: "contribution_of pledge_db 10 77 (demo_contribution CN_PENDING)"
  by (simp add: contribution_of_def find_row_Cons)

lemma demo_units: "units_of 100 150000 = Some 150000"
  by (rule units_exact) simp_all

lemmas contribution_run = wp ledger_run account_code_defs holds_role_def get_chama_contribution_def upd_row_def
  get_account_id_def demo_units create_share_def share_check_def post_confirmation_def settle_def settle_effect_def

lemma confirm_returns: "returns (confirm_contribution chair 10 77) pledge"
  unfolding returns_wp confirm_contribution_def
  by (auto simp: contribution_run normalize_two_lines simp del: normalize_lines.simps intro!: wp_audit_commit)

theorem contribution_lifecycle_witness:
  "\<exists>e. find_row cn_id 77 (contributions (objs (snd (request (run_contribution_op chair 10 (Confirm_Contribution 77)) pledge)))) =
     Some e \<and> cn_amount e = 150000"
proof -
  have "served run_contribution_op (\<lambda>_. True) pledge
      (snd (request (run_contribution_op chair 10 (Confirm_Contribution 77)) pledge))"
    by (intro served.intros) simp
  from contribution_lifecycle [OF this, of 77 "demo_contribution CN_PENDING"] pledge_inv
  show ?thesis by (auto simp: find_row_Cons same_contribution_def)
qed

theorem confirm_contribution_effect_witness:
  "transfer 10 11 13 150000 pledge_db (objs (after (confirm_contribution chair 10 77) pledge))"
  using confirm_contribution_effect [OF _ _ _ returnsD [OF confirm_returns], of "demo_contribution CN_PENDING"] pledge_of
  by (auto simp: source_free_def find_account_def account_code_defs)

lemma confirm_raises_share_value_witness:
  "share_value_of 100 43 (objs (after (confirm_contribution chair 10 77) pledge)) = 150000"
  using confirm_raises_share_value [OF _ _ _ _ _ _ returnsD [OF confirm_returns], of "demo_contribution CN_PENDING" 43]
    pledge_of share_value_100 [of 43 pledge_db]
  by (simp add: source_free_def active_units_def)

lemma ledger_ok_pledge: "ledger_ok pledge"
  by (simp add: ledger_ok_def ledger_flushed_def ledger_fresh_def ledger_inv_def reversals_wf_def map_filter_def)

definition pledge_kept :: sess where
  "pledge_kept = after (confirm_contribution chair 10 77) pledge"

lemma pledge_kept_run:
  "confirm_contribution chair 10 77 pledge = (Inr (result_of (confirm_contribution chair 10 77) pledge), pledge_kept)"
  unfolding pledge_kept_def by (rule returnsD [OF confirm_returns])

lemma pledge_kept_state:
  "\<exists>a n. objs pledge_kept = log_db a n (confirmed_booked pledge chair 10 (demo_contribution CN_PENDING) 150000 11 13) \<and>
     clean pledge_kept"
  using confirm_state [OF _ _ _ pledge_kept_run, of "demo_contribution CN_PENDING"] pledge_of demo_units
  by (auto simp: source_free_def find_account_def account_code_defs simp del: demo_row_simps(14-17))

lemma pledge_kept_simps [simp]:
  "contributions (objs pledge_kept) = [confirmed pledge (demo_contribution CN_PENDING)]"
  "ledger_accounts (objs pledge_kept) = ledger_accounts demo_db" "chamas (objs pledge_kept) = [demo_chama]"
  "memberships (objs pledge_kept) = memberships demo_db" "membership_roles (objs pledge_kept) = membership_roles demo_db"
  "ledger_transactions (objs pledge_kept) = [new_tx (pledge\<lparr>next_uuid := 1001\<rparr>) chair 10 CONTRIBUTION_SOURCE_TYPE 77
     (Some (confirmation_description ''2026-03'')) None]"
  "shares (objs pledge_kept) = [new_share pledge (demo_contribution CN_PENDING) 150000]" "clean pledge_kept"
  using pledge_kept_state by (auto simp: confirmed_booked_def book_def confirmed_db_def upd_row_def)

theorem shares_match_contributions_witness:
  "\<exists>c. c \<in> set (contributions (objs pledge_kept)) \<and> cn_id c = 77 \<and> cn_membership_id c = 43 \<and> cn_status c = CN_CONFIRMED"
proof -
  let ?t = "snd (request (run_contribution_op chair 10 (Confirm_Contribution 77)) pledge)"
  have "run_contribution_op chair 10 (Confirm_Contribution 77) pledge = (Inr (), pledge_kept)"
    using pledge_kept_run by (simp add: bind_def ret_def)
  from request_closed(1) [where m = "run_contribution_op chair 10 (Confirm_Contribution 77)", OF this]
  have t: "objs ?t = objs pledge_kept" by simp
  have "served run_contribution_op (\<lambda>_. True) pledge ?t" by (intro served.intros) simp
  from shares_match_contributions [OF this] pledge_inv show ?thesis by (auto simp: t new_share_def)
qed

lemma reverse_contribution_returns: "returns (reverse_contribution chair 10 77 None) pledge_kept"
proof -
  have "map entry_key (entries_of 1001 (objs pledge_kept)) = [(11, 150000, 0), (13, 0, 150000)]"
    using entries_of_book [of pledge_db "pledge\<lparr>next_uuid := 1001\<rparr>"
        "confirmed_db pledge (demo_contribution CN_PENDING) 150000"] ledger_ok_pledge pledge_kept_state
    by (auto simp: confirmed_booked_def ledger_ok_def entries_of_def confirmed_db_def ledger_fresh_def)
  then show ?thesis
    unfolding returns_wp reverse_contribution_def reverse_posting_def
    by (auto simp: contribution_run wp_reverse_shares entries_of_def entry_key_def normalize_swapped_two entities_flushed
        simp del: normalize_lines.simps entities_def intro!: wp_audit_commit)
qed

lemma contribution_reverse_restores_witness:
  "account_balance 10 11 (objs (after (reverse_contribution chair 10 77 None) pledge_kept)) = 0 \<and>
   share_value_of 100 43 (objs (after (reverse_contribution chair 10 77 None) pledge_kept)) = 0"
  using contribution_reverse_restores [OF _ ledger_ok_pledge _ _ _ _ pledge_kept_run returnsD [OF reverse_contribution_returns],
      of "demo_contribution CN_PENDING" 11 100 43] pledge_inv pledge_of share_value_100 [of 43 pledge_db]
  by (simp add: source_free_def account_balance_def active_units_def)

theorem settle_linked_idempotent_witness:
  "settle_linked_contribution (Some 77) 43 10 (after (settle_linked_contribution (Some 77) 43 10) pledge) =
     (Inr True, after (settle_linked_contribution (Some 77) 43 10) pledge)"
proof -
  have "wp (settle_linked_contribution (Some 77) 43 10) (\<lambda>b t. b = True) (\<lambda>_ _. False) pledge"
    unfolding settle_linked_contribution_def ensure_system_user_def
    by (auto simp: contribution_run normalize_two_lines simp del: normalize_lines.simps intro!: wp_audit_commit)
  then have "settle_linked_contribution (Some 77) 43 10 pledge =
      (Inr True, after (settle_linked_contribution (Some 77) 43 10) pledge)"
    by (auto simp: wp_def after_def split: prod.splits sum.splits)
  from settle_linked_idempotent [OF _ _ this] show ?thesis by simp
qed

end
