(* ===== verification/Fees.thy ===== *)
theory Fees
  imports Finance
begin

text \<open>
  Registration fees (\<open>app/services/registration_fee.py\<close>, \<open>app/repositories/registration_fee.py\<close>,
  \<open>app/repositories/registration_fee_payment.py\<close>, the constraints of the two models): the fee a
  membership owes, its waiver, its payment with the ledger posting, and the reversal of the
  payment, which makes the fee owed again.
\<close>

section \<open>Repositories and constraints\<close>

definition fee_check :: "db \<Rightarrow> registration_fee \<Rightarrow> string option" where
  "fee_check d f =
     (if list_ex (\<lambda>e. rf_id e = rf_id f) (registration_fees d) then Some ''pk_registration_fees''
      else if \<not> 0 \<le> rf_amount f then Some ''ck_registration_fees_amount_non_negative''
      else if list_ex (\<lambda>e. rf_membership_id e = rf_membership_id f) (registration_fees d)
      then Some ''uq_registration_fees_membership_id'' else None)"

definition create_fee :: "uuid \<Rightarrow> money \<Rightarrow> registration_fee act" where
  "create_fee membership_id amount =
     bind uuid4 (\<lambda>i.
     let f = \<lparr>rf_id = i, rf_membership_id = membership_id, rf_amount = amount, rf_status = FEE_OWED\<rparr>
     in bind (insert_row fee_check (\<lambda>r d. d\<lparr>registration_fees := registration_fees d @ [r]\<rparr>) f) (\<lambda>_. ret f))"

definition get_by_membership :: "uuid \<Rightarrow> registration_fee option act" where
  "get_by_membership membership_id = select_first registration_fees (\<lambda>f. rf_membership_id f = membership_id)"

definition confirmed_by_fee :: "uuid \<Rightarrow> registration_fee_payment option act" where
  "confirmed_by_fee fee_id =
     select_first fee_payments (\<lambda>p. fp_fee_id p = fee_id \<and> fp_status p = FP_CONFIRMED)"

definition payments_by_fee :: "uuid \<Rightarrow> registration_fee_payment list act" where
  "payments_by_fee fee_id = select_all fee_payments (\<lambda>p. fp_fee_id p = fee_id)"

definition fee_payment_check :: "db \<Rightarrow> registration_fee_payment \<Rightarrow> string option" where
  "fee_payment_check d p =
     (if list_ex (\<lambda>e. fp_id e = fp_id p) (fee_payments d) then Some ''pk_registration_fee_payments''
      else if \<not> 0 < fp_amount p then Some ''ck_registration_fee_payments_amount_positive''
      else if \<not> list_ex (\<lambda>m. ms_chama_id m = fp_chama_id p \<and> ms_id m = fp_membership_id p) (memberships d)
      then Some ''fk_registration_fee_payments_membership_chama''
      else if fp_status p = FP_CONFIRMED \<and>
        list_ex (\<lambda>e. fp_fee_id e = fp_fee_id p \<and> fp_status e = FP_CONFIRMED) (fee_payments d)
      then Some ''uq_registration_fee_payments_fee_confirmed'' else None)"

definition create_fee_payment ::
  "uuid \<Rightarrow> uuid \<Rightarrow> uuid \<Rightarrow> money \<Rightarrow> uuid \<Rightarrow> string option \<Rightarrow> registration_fee_payment act" where
  "create_fee_payment chama_id fee_id membership_id amount recorded_by note =
     bind uuid4 (\<lambda>i.
     let p = \<lparr>fp_id = i, fp_chama_id = chama_id, fp_fee_id = fee_id, fp_membership_id = membership_id,
              fp_amount = amount, fp_status = FP_CONFIRMED, fp_recorded_by_user_id = recorded_by,
              fp_note = note\<rparr>
     in bind (insert_row fee_payment_check (\<lambda>r d. d\<lparr>fee_payments := fee_payments d @ [r]\<rparr>) p) (\<lambda>_. ret p))"

definition set_fee_status :: "uuid \<Rightarrow> registration_fee_status \<Rightarrow> unit act" where
  "set_fee_status i st = change (registration_fees_update (upd_row rf_id i (rf_status_update (\<lambda>_. st))))"

text \<open>The object a handler returns, with the attributes it has by then.\<close>

definition reload_fee :: "uuid \<Rightarrow> registration_fee act" where
  "reload_fee i =
     bind (get_by_key registration_fees rf_id i) (\<lambda>found.
     case found of None \<Rightarrow> raise ValueError | Some f \<Rightarrow> ret f)"

text \<open>The fee of a membership, or the error every operation raises without one.\<close>

definition fee_of_membership :: "uuid \<Rightarrow> registration_fee act" where
  "fee_of_membership membership_id =
     bind (get_by_membership membership_id) (\<lambda>found.
     case found of
       None \<Rightarrow> raise (StateError ''This membership has no registration fee record'')
     | Some f \<Rightarrow> ret f)"

section \<open>Operations\<close>

definition get_fee_for_membership :: "user \<Rightarrow> uuid \<Rightarrow> uuid \<Rightarrow> registration_fee act" where
  "get_fee_for_membership actor chama_id membership_id =
     bind (get_chama_or_404 chama_id) (\<lambda>chama.
     bind (authorize_chama_access actor (ch_id chama)) (\<lambda>caller.
     bind (get_target_membership (ch_id chama) membership_id) (\<lambda>m.
     bind (require_own_or_leadership caller (ms_id m) ''registration fees'') (\<lambda>_.
     fee_of_membership (ms_id m)))))"

definition waive_fee :: "user \<Rightarrow> uuid \<Rightarrow> uuid \<Rightarrow> registration_fee act" where
  "waive_fee actor chama_id membership_id =
     bind (get_chama_or_404 chama_id) (\<lambda>chama.
     bind (authorize_chama_write actor (ch_id chama)) (\<lambda>am.
     bind (require_role am CHAIRPERSON) (\<lambda>_.
     bind (get_target_membership (ch_id chama) membership_id) (\<lambda>m.
     bind (fee_of_membership (ms_id m)) (\<lambda>f.
     bind (ensure (rf_status f = FEE_OWED) (StateError ''Only an OWED registration fee can be waived'')) (\<lambda>_.
     bind (set_fee_status (rf_id f) FEE_WAIVED) (\<lambda>_.
     bind (audit_record (Some (us_id actor)) (Some (ch_id chama)) FEE_WAIVE ''registration_fee''
       (Some (rf_id f)) (Some [(''amount'', JMoney (rf_amount f))]) True) (\<lambda>_.
     bind commit (\<lambda>_. reload_fee (rf_id f))))))))))"

definition fee_payment_description :: "uuid \<Rightarrow> string" where
  "fee_payment_description i = ''Registration fee '' @ uuid_str i @ '' payment''"

definition fee_reversal_description :: "uuid \<Rightarrow> string" where
  "fee_reversal_description i = ''Registration fee '' @ uuid_str i @ '' payment reversal''"

text \<open>
  The payment of an OWED fee. The row of the payment is flushed before the \<open>try\<close>; only an
  \<open>IntegrityError\<close> of the posting is translated.
\<close>

definition fee_posting :: "user \<Rightarrow> uuid \<Rightarrow> registration_fee \<Rightarrow> registration_fee_payment \<Rightarrow> unit act" where
  "fee_posting actor chama_id f p =
     bind (get_account_id chama_id CASH_CODE) (\<lambda>cash.
     bind (get_account_id chama_id REGISTRATION_FEES_CODE) (\<lambda>fees.
     bind (post_transaction actor chama_id REGISTRATION_FEE_PAYMENT_SOURCE_TYPE (fp_id p)
             (Some (fee_payment_description (rf_id f)))
             [debit_line cash (rf_amount f), credit_line fees (rf_amount f)] None True) (\<lambda>_. ret ())))"

definition pay_effect :: "user \<Rightarrow> uuid \<Rightarrow> uuid \<Rightarrow> registration_fee \<Rightarrow> registration_fee act" where
  "pay_effect actor chama_id membership_id f =
     bind (create_fee_payment chama_id (rf_id f) membership_id (rf_amount f) (us_id actor) None) (\<lambda>p.
     bind (set_fee_status (rf_id f) FEE_PAID) (\<lambda>_.
     bind (catch_integrity (fee_posting actor chama_id f p) (bind rollback (\<lambda>_.
       raise (ConflictError ''A confirmed payment already exists for this registration fee'')))) (\<lambda>_.
     bind (audit_record (Some (us_id actor)) (Some chama_id) FEE_PAY ''registration_fee_payment''
       (Some (fp_id p)) (Some [(''fee_id'', JStr (uuid_str (rf_id f))), (''amount'', JMoney (rf_amount f))]) True) (\<lambda>_.
     bind commit (\<lambda>_. reload_fee (rf_id f))))))"

definition pay_fee :: "user \<Rightarrow> uuid \<Rightarrow> uuid \<Rightarrow> registration_fee act" where
  "pay_fee actor chama_id membership_id =
     bind (get_chama_or_404 chama_id) (\<lambda>chama.
     bind (authorize_chama_write actor (ch_id chama)) (\<lambda>am.
     bind (require_roles am [CHAIRPERSON, TREASURER]) (\<lambda>_.
     bind (get_target_membership (ch_id chama) membership_id) (\<lambda>m.
     bind (fee_of_membership (ms_id m)) (\<lambda>f.
     if rf_status f = FEE_PAID then ret f
     else bind (ensure (rf_status f = FEE_OWED) (StateError ''Only an OWED registration fee can be paid'')) (\<lambda>_.
       pay_effect actor (ch_id chama) (ms_id m) f))))))"

definition reverse_fee_payment :: "user \<Rightarrow> uuid \<Rightarrow> uuid \<Rightarrow> registration_fee act" where
  "reverse_fee_payment actor chama_id membership_id =
     bind (get_chama_or_404 chama_id) (\<lambda>chama.
     bind (authorize_chama_write actor (ch_id chama)) (\<lambda>am.
     bind (require_role am CHAIRPERSON) (\<lambda>_.
     bind (get_target_membership (ch_id chama) membership_id) (\<lambda>m.
     bind (fee_of_membership (ms_id m)) (\<lambda>f.
     bind (ensure (rf_status f = FEE_PAID)
       (StateError ''Only a PAID registration fee can have its payment reversed'')) (\<lambda>_.
     bind (confirmed_by_fee (rf_id f)) (\<lambda>found.
     case found of
       None \<Rightarrow> raise (StateError ''This fee has no confirmed payment to reverse'')
     | Some p \<Rightarrow>
       bind (ensure (fp_status p = FP_CONFIRMED)
         (StateError ''This fee has no confirmed payment to reverse'')) (\<lambda>_.
       bind (undo_posting actor (ch_id chama) REGISTRATION_FEE_PAYMENT_SOURCE_TYPE (fp_id p)
         (fee_reversal_description (rf_id f))) (\<lambda>_.
       bind (change (fee_payments_update (upd_row fp_id (fp_id p) (fp_status_update (\<lambda>_. FP_REVERSED))))) (\<lambda>_.
       bind (set_fee_status (rf_id f) FEE_OWED) (\<lambda>_.
       bind (audit_record (Some (us_id actor)) (Some (ch_id chama)) FEE_PAY_REVERSAL ''registration_fee_payment''
         (Some (fp_id p)) (Some [(''fee_id'', JStr (uuid_str (rf_id f)))]) True) (\<lambda>_.
       bind commit (\<lambda>_. reload_fee (rf_id f))))))))))))))"

definition list_fee_payments :: "user \<Rightarrow> uuid \<Rightarrow> uuid \<Rightarrow> registration_fee_payment list act" where
  "list_fee_payments actor chama_id membership_id =
     bind (get_chama_or_404 chama_id) (\<lambda>chama.
     bind (authorize_chama_access actor (ch_id chama)) (\<lambda>caller.
     bind (get_target_membership (ch_id chama) membership_id) (\<lambda>m.
     bind (require_own_or_leadership caller (ms_id m) ''registration fee payments'') (\<lambda>_.
     bind (fee_of_membership (ms_id m)) (\<lambda>f. payments_by_fee (rf_id f))))))"

end
