(* ===== verification/Fees_Facts.thy ===== *)
theory Fees_Facts
  imports Fees
begin

text \<open>What each registration-fee handler does, as rules of the weakest-precondition calculus.\<close>

definition fee_of :: "db \<Rightarrow> uuid \<Rightarrow> registration_fee \<Rightarrow> bool" where
  "fee_of d membership_id f \<longleftrightarrow>
     first (filter (\<lambda>f. rf_membership_id f = membership_id) (registration_fees d)) = Some f"

lemma fee_of_in: "fee_of d mid f \<Longrightarrow> f \<in> set (registration_fees d) \<and> rf_membership_id f = mid"
  unfolding fee_of_def by (rule first_filter_SomeD)

lemma fee_of_unique: "fee_of d mid f \<Longrightarrow> fee_of d mid g \<Longrightarrow> g = f"
  by (simp add: fee_of_def)

lemma wp_fee_of_membership:
  assumes "clean s" and "\<And>f. fee_of (objs s) mid f \<Longrightarrow> Q f s" and "\<And>e. R e s"
  shows "wp (fee_of_membership mid) Q R s"
  using assms by (auto simp: fee_of_membership_def get_by_membership_def wp fee_of_def split: option.split)

lemma wp_reload_fee [wp]:
  "wp (reload_fee i) Q R s =
     (case find_row rf_id i (registration_fees (objs s)) of None \<Rightarrow> R ValueError s | Some f \<Rightarrow> Q f s)"
  by (simp add: reload_fee_def wp split: option.split)

lemma wp_set_fee_status [wp]:
  "wp (set_fee_status i st) Q R s =
     Q () (s\<lparr>objs := registration_fees_update (upd_row rf_id i (rf_status_update (\<lambda>_. st))) (objs s)\<rparr>)"
  by (simp add: set_fee_status_def wp)

text \<open>The fee found again under its key, and after a change of its status.\<close>

lemma first_filter_upd_row:
  "first (filter P rs) = Some r \<Longrightarrow> (\<And>r. P (f r) = P r) \<Longrightarrow>
     first (filter P (upd_row key k f rs)) = Some (if key r = k then f r else r)"
  by (induction rs) (auto simp: upd_row_def split: if_splits)

lemma fee_of_moved:
  "fee_of d mid f \<Longrightarrow> registration_fees d' = upd_row rf_id (rf_id f) (rf_status_update (\<lambda>_. st)) (registration_fees d) \<Longrightarrow>
     fee_of d' mid (f\<lparr>rf_status := st\<rparr>)"
  by (simp add: fee_of_def first_filter_upd_row)

lemma find_fee:
  assumes "distinct (map rf_id (registration_fees d))" and "fee_of d mid f"
  shows "find_row rf_id (rf_id f) (registration_fees d) = Some f"
  using assms fee_of_in by (blast intro: find_row_unique)

section \<open>Waiver\<close>

definition fee_moved :: "uuid \<Rightarrow> registration_fee_status \<Rightarrow> db \<Rightarrow> db" where
  "fee_moved i st d = registration_fees_update (upd_row rf_id i (rf_status_update (\<lambda>_. st))) d"

lemma wp_waive_fee:
  assumes clean: "clean s" and keys: "distinct (map rf_id (registration_fees (objs s)))"
    and ok: "\<And>c am m f a n u. find_row ch_id cid (chamas (objs s)) = Some c \<Longrightarrow> write_ok actor (ch_id c) (objs s) am \<Longrightarrow>
      holds_role (objs s) (ms_id am) CHAIRPERSON \<Longrightarrow> find_row ms_id mid (memberships (objs s)) = Some m \<Longrightarrow>
      fee_of (objs s) (ms_id m) f \<Longrightarrow> rf_status f = FEE_OWED \<Longrightarrow> next_uuid s < u \<Longrightarrow>
      Q (f\<lparr>rf_status := FEE_WAIVED\<rparr>) (saved (log_db a n (fee_moved (rf_id f) FEE_WAIVED (objs s))) u s)"
    and no: "\<And>e t. durable t = durable s \<Longrightarrow> R e t"
  shows "wp (waive_fee actor cid mid) Q R s"
  unfolding waive_fee_def
  by (rule wp_chama_write [OF clean])
     (auto simp: wp clean no find_upd_row fee_moved_def find_fee [OF keys] split: option.split
       intro!: wp_fee_of_membership wp_audit_then_commit ok [unfolded fee_moved_def])

section \<open>Payment\<close>

definition new_fee_payment :: "sess \<Rightarrow> user \<Rightarrow> uuid \<Rightarrow> uuid \<Rightarrow> registration_fee \<Rightarrow> registration_fee_payment" where
  "new_fee_payment s actor chama_id membership_id f =
     \<lparr>fp_id = next_uuid s, fp_chama_id = chama_id, fp_fee_id = rf_id f, fp_membership_id = membership_id,
      fp_amount = rf_amount f, fp_status = FP_CONFIRMED, fp_recorded_by_user_id = us_id actor, fp_note = None\<rparr>"

definition paid_db :: "sess \<Rightarrow> user \<Rightarrow> uuid \<Rightarrow> uuid \<Rightarrow> registration_fee \<Rightarrow> db" where
  "paid_db s actor chama_id membership_id f =
     fee_moved (rf_id f) FEE_PAID
       ((objs s)\<lparr>fee_payments := fee_payments (objs s) @ [new_fee_payment s actor chama_id membership_id f]\<rparr>)"

definition fee_booked :: "sess \<Rightarrow> user \<Rightarrow> uuid \<Rightarrow> uuid \<Rightarrow> registration_fee \<Rightarrow> uuid \<Rightarrow> uuid \<Rightarrow> db" where
  "fee_booked s actor chama_id membership_id f cash fees =
     book (s\<lparr>next_uuid := Suc (next_uuid s)\<rparr>) actor chama_id REGISTRATION_FEE_PAYMENT_SOURCE_TYPE (next_uuid s)
       (fee_payment_description (rf_id f)) cash fees (rf_amount f) (paid_db s actor chama_id membership_id f)"

definition no_confirmed :: "db \<Rightarrow> uuid \<Rightarrow> bool" where
  "no_confirmed d i \<longleftrightarrow> (\<forall>p \<in> set (fee_payments d). fp_fee_id p = i \<longrightarrow> fp_status p \<noteq> FP_CONFIRMED)"

definition fresh_payment :: "sess \<Rightarrow> bool" where
  "fresh_payment s \<longleftrightarrow> (\<forall>p \<in> set (fee_payments (objs s)). fp_id p \<noteq> next_uuid s)"

lemma wp_catch_failed:
  assumes "wp m Q (\<lambda>e t. P t) s" and "\<And>t. P t \<Longrightarrow> wp h Q R t" and "\<And>e t. P t \<Longrightarrow> R e t"
  shows "wp (catch_integrity m h) Q R s"
  unfolding wp_catch_integrity by (rule wp_mono [OF assms(1)]) (use assms(2,3) in \<open>auto split: err.split\<close>)

lemma wp_pay_effect:
  assumes clean: "clean s" and keys: "distinct (map rf_id (registration_fees (objs s)))" and f: "fee_of (objs s) mid f"
    and ok: "\<And>cash fees a n u u'. 0 < rf_amount f \<Longrightarrow> no_confirmed (objs s) (rf_id f) \<Longrightarrow> fresh_payment s \<Longrightarrow>
      find_account cid CASH_CODE (objs s) = Some cash \<Longrightarrow>
      find_account cid REGISTRATION_FEES_CODE (objs s) = Some fees \<Longrightarrow>
      source_free (objs s) REGISTRATION_FEE_PAYMENT_SOURCE_TYPE (next_uuid s) \<Longrightarrow> next_uuid s < u' \<Longrightarrow> u' < u \<Longrightarrow>
      Q (f\<lparr>rf_status := FEE_PAID\<rparr>) (saved (log_db a n (fee_booked s actor cid mid f cash fees)) u
        (saved (fee_booked s actor cid mid f cash fees) u' s))"
    and again: "\<And>t a n u. 0 < rf_amount f \<Longrightarrow> no_confirmed (objs s) (rf_id f) \<Longrightarrow> fresh_payment s \<Longrightarrow>
      t \<in> set (ledger_transactions (objs s)) \<Longrightarrow> lt_source_type t = REGISTRATION_FEE_PAYMENT_SOURCE_TYPE \<Longrightarrow>
      lt_source_id t = next_uuid s \<Longrightarrow> next_uuid s < u \<Longrightarrow>
      Q (f\<lparr>rf_status := FEE_PAID\<rparr>) (saved (log_db a n (paid_db s actor cid mid f)) u s)"
    and no: "\<And>e t. durable t = durable s \<Longrightarrow> R e t"
  shows "wp (pay_effect actor cid mid f) Q R s"
proof -
  let ?D = "paid_db s actor cid mid f" and ?p = "new_fee_payment s actor cid mid f"
  let ?S = "s\<lparr>objs := ?D, rows := (objs s)\<lparr>fee_payments := fee_payments (objs s) @ [?p]\<rparr>, next_uuid := Suc (next_uuid s)\<rparr>"
  have fl: "ledger_flushed ?S" by (simp add: ledger_flushed_def paid_db_def fee_moved_def)
  have fD: "find_row rf_id (rf_id f) (registration_fees ?D) = Some (f\<lparr>rf_status := FEE_PAID\<rparr>)"
    by (simp add: paid_db_def fee_moved_def find_upd_row find_fee [OF keys f])
  let ?T = "wp (audit_record (Some (us_id actor)) (Some cid) FEE_PAY ''registration_fee_payment''
       (Some (next_uuid s)) (Some [(''fee_id'', JStr (uuid_str (rf_id f))), (''amount'', JMoney (rf_amount f))]) True)
       (\<lambda>_. wp commit (\<lambda>_. wp (reload_fee (rf_id f)) Q R) R) R"
  have tail: "wp (fee_posting actor cid f ?p) (\<lambda>_. ?T) (\<lambda>e t. durable t = durable s) ?S"
    if new: "0 < rf_amount f" "no_confirmed (objs s) (rf_id f)" "fresh_payment s"
    unfolding fee_posting_def wp_bind wp_ret
  proof (rule wp_book [OF fl], goal_cases)
    case (2 cash fees u')
    have b: "book ?S actor cid REGISTRATION_FEE_PAYMENT_SOURCE_TYPE (fp_id ?p) (fee_payment_description (rf_id f))
        cash fees (rf_amount f) (objs ?S) = fee_booked s actor cid mid f cash fees"
      by (simp add: fee_booked_def book_def new_tx_def new_fee_payment_def)
    have sv: "saved (fee_booked s actor cid mid f cash fees) u' ?S = saved (fee_booked s actor cid mid f cash fees) u' s"
      by simp
    have fB: "find_row rf_id (rf_id f) (registration_fees (fee_booked s actor cid mid f cash fees)) =
        Some (f\<lparr>rf_status := FEE_PAID\<rparr>)" using fD by (simp add: fee_booked_def)
    have src: "source_free (objs s) REGISTRATION_FEE_PAYMENT_SOURCE_TYPE (next_uuid s)"
      and acc: "find_account cid CASH_CODE (objs s) = Some cash" "find_account cid REGISTRATION_FEES_CODE (objs s) = Some fees"
      using 2 by (simp_all add: paid_db_def fee_moved_def new_fee_payment_def)
    show ?case
      unfolding b sv
      by (rule wp_audit_then_commit)
         (use 2 fB in \<open>auto simp: wp_reload_fee intro!: ok new src acc\<close>)
  next
    case (3 t)
    have t: "t \<in> set (ledger_transactions (objs s))" "lt_source_id t = next_uuid s"
      using 3 by (simp_all add: paid_db_def fee_moved_def new_fee_payment_def)
    show ?case
      by (rule wp_audit_then_commit)
         (use fD in \<open>auto simp: wp_reload_fee intro!: again new t 3(2)\<close>)
  qed (auto simp: source_type_defs)
  show ?thesis
  proof (cases "fee_payment_check (objs s) ?p")
    case (Some c)
    then show ?thesis
      by (simp add: pay_effect_def create_fee_payment_def wp_bind wp_uuid4 Let_def wp_insert_row no
          new_fee_payment_def fee_payment_check_def)
  next
    case None
    then have new: "0 < rf_amount f" "no_confirmed (objs s) (rf_id f)" "fresh_payment s"
      by (auto simp: fee_payment_check_def new_fee_payment_def no_confirmed_def fresh_payment_def list_ex_iff
          split: if_splits)
    have "wp (catch_integrity (fee_posting actor cid f ?p) (bind rollback (\<lambda>_.
        raise (ConflictError ''A confirmed payment already exists for this registration fee'')))) (\<lambda>_. ?T) R ?S"
      by (rule wp_catch_failed [OF tail [OF new]]) (simp_all add: wp no)
    then show ?thesis
      using None
      by (simp add: pay_effect_def create_fee_payment_def wp_bind wp_uuid4 Let_def wp_insert_row wp_ret wp_set_fee_status
          new_fee_payment_def [symmetric] paid_db_def fee_moved_def)
  qed
qed

lemma wp_pay_fee:
  assumes clean: "clean s" and keys: "distinct (map rf_id (registration_fees (objs s)))"
    and paid: "\<And>c m f. find_row ch_id cid (chamas (objs s)) = Some c \<Longrightarrow>
      find_row ms_id mid (memberships (objs s)) = Some m \<Longrightarrow> fee_of (objs s) (ms_id m) f \<Longrightarrow> rf_status f = FEE_PAID \<Longrightarrow> Q f s"
    and ok: "\<And>c am m f cash fees a n u u'. find_row ch_id cid (chamas (objs s)) = Some c \<Longrightarrow>
      write_ok actor (ch_id c) (objs s) am \<Longrightarrow>
      holds_role (objs s) (ms_id am) CHAIRPERSON \<or> holds_role (objs s) (ms_id am) TREASURER \<Longrightarrow>
      find_row ms_id mid (memberships (objs s)) = Some m \<Longrightarrow> ms_chama_id m = ch_id c \<Longrightarrow>
      fee_of (objs s) (ms_id m) f \<Longrightarrow> rf_status f = FEE_OWED \<Longrightarrow> 0 < rf_amount f \<Longrightarrow> no_confirmed (objs s) (rf_id f) \<Longrightarrow>
      fresh_payment s \<Longrightarrow> find_account (ch_id c) CASH_CODE (objs s) = Some cash \<Longrightarrow>
      find_account (ch_id c) REGISTRATION_FEES_CODE (objs s) = Some fees \<Longrightarrow>
      source_free (objs s) REGISTRATION_FEE_PAYMENT_SOURCE_TYPE (next_uuid s) \<Longrightarrow> next_uuid s < u' \<Longrightarrow> u' < u \<Longrightarrow>
      Q (f\<lparr>rf_status := FEE_PAID\<rparr>) (saved (log_db a n (fee_booked s actor (ch_id c) (ms_id m) f cash fees)) u
        (saved (fee_booked s actor (ch_id c) (ms_id m) f cash fees) u' s))"
    and again: "\<And>c m f t a n u. find_row ch_id cid (chamas (objs s)) = Some c \<Longrightarrow>
      find_row ms_id mid (memberships (objs s)) = Some m \<Longrightarrow> fee_of (objs s) (ms_id m) f \<Longrightarrow> rf_status f = FEE_OWED \<Longrightarrow>
      0 < rf_amount f \<Longrightarrow> no_confirmed (objs s) (rf_id f) \<Longrightarrow> fresh_payment s \<Longrightarrow>
      t \<in> set (ledger_transactions (objs s)) \<Longrightarrow> lt_source_type t = REGISTRATION_FEE_PAYMENT_SOURCE_TYPE \<Longrightarrow>
      lt_source_id t = next_uuid s \<Longrightarrow> next_uuid s < u \<Longrightarrow>
      Q (f\<lparr>rf_status := FEE_PAID\<rparr>) (saved (log_db a n (paid_db s actor (ch_id c) (ms_id m) f)) u s)"
    and no: "\<And>e t. durable t = durable s \<Longrightarrow> R e t"
  shows "wp (pay_fee actor cid mid) Q R s"
proof -
  have eff: "wp (pay_effect actor (ch_id c) (ms_id m) f) Q R s"
    if "find_row ch_id cid (chamas (objs s)) = Some c" "write_ok actor (ch_id c) (objs s) am"
      "holds_role (objs s) (ms_id am) CHAIRPERSON \<or> holds_role (objs s) (ms_id am) TREASURER"
      "find_row ms_id mid (memberships (objs s)) = Some m" "ms_chama_id m = ch_id c"
      "fee_of (objs s) (ms_id m) f" "rf_status f = FEE_OWED" for c am m f
  proof (rule wp_pay_effect [OF clean keys that(6)], goal_cases)
    case (1 cash fees a n u u')
    then show ?case by (intro ok [OF that])
  next
    case (2 t a n u)
    then show ?case by (intro again [OF that(1,4,6,7)])
  qed (rule no)
  show ?thesis
    unfolding pay_fee_def
    by (rule wp_chama_write [OF clean])
       (auto simp: wp_bind wp_require_roles wp_get_target_membership wp_if wp_ensure wp_ret clean no split: option.split
         intro!: wp_fee_of_membership intro: eff paid)
qed

section \<open>Reversal\<close>

definition unpaid_db :: "uuid \<Rightarrow> uuid \<Rightarrow> db \<Rightarrow> db" where
  "unpaid_db fee_id payment_id d =
     fee_moved fee_id FEE_OWED (fee_payments_update (upd_row fp_id payment_id (fp_status_update (\<lambda>_. FP_REVERSED))) d)"

definition confirmed_payment :: "db \<Rightarrow> uuid \<Rightarrow> registration_fee_payment \<Rightarrow> bool" where
  "confirmed_payment d i p \<longleftrightarrow> p \<in> set (fee_payments d) \<and> fp_fee_id p = i \<and> fp_status p = FP_CONFIRMED"

lemma wp_reverse_fee_payment:
  assumes clean: "clean s" and keys: "distinct (map rf_id (registration_fees (objs s)))"
    and ok: "\<And>c am m f p t a n u. find_row ch_id cid (chamas (objs s)) = Some c \<Longrightarrow>
      write_ok actor (ch_id c) (objs s) am \<Longrightarrow> holds_role (objs s) (ms_id am) CHAIRPERSON \<Longrightarrow>
      find_row ms_id mid (memberships (objs s)) = Some m \<Longrightarrow> fee_of (objs s) (ms_id m) f \<Longrightarrow> rf_status f = FEE_PAID \<Longrightarrow>
      confirmed_payment (objs s) (rf_id f) p \<Longrightarrow>
      undone s actor (ch_id c) REGISTRATION_FEE_PAYMENT_SOURCE_TYPE (fp_id p) (fee_reversal_description (rf_id f)) t \<Longrightarrow>
      next_uuid t < u \<Longrightarrow>
      Q (f\<lparr>rf_status := FEE_OWED\<rparr>) (saved (log_db a n (unpaid_db (rf_id f) (fp_id p) (objs t))) u t)"
    and no: "\<And>e t. durable t = durable s \<Longrightarrow> R e t"
  shows "wp (reverse_fee_payment actor cid mid) Q R s"
proof -
  have fin: "wp (undo_posting actor (ch_id c) REGISTRATION_FEE_PAYMENT_SOURCE_TYPE (fp_id p) (fee_reversal_description (rf_id f)))
    (\<lambda>_. wp (change (fee_payments_update (upd_row fp_id (fp_id p) (fp_status_update (\<lambda>_. FP_REVERSED)))))
    (\<lambda>_. wp (set_fee_status (rf_id f) FEE_OWED)
    (\<lambda>_. wp (audit_record (Some (us_id actor)) (Some (ch_id c)) FEE_PAY_REVERSAL ''registration_fee_payment'' (Some (fp_id p))
       (Some [(''fee_id'', JStr (uuid_str (rf_id f)))]) True)
    (\<lambda>_. wp commit (\<lambda>_. wp (reload_fee (rf_id f)) Q R) R) R) R) R) R s"
    if "find_row ch_id cid (chamas (objs s)) = Some c" "write_ok actor (ch_id c) (objs s) am"
      "holds_role (objs s) (ms_id am) CHAIRPERSON" "find_row ms_id mid (memberships (objs s)) = Some m"
      "fee_of (objs s) (ms_id m) f" "rf_status f = FEE_PAID"
      "first (filter (\<lambda>p. fp_fee_id p = rf_id f \<and> fp_status p = FP_CONFIRMED) (fee_payments (objs s))) = Some p" for c am m f p
  proof (rule wp_undo_posting [OF clean], goal_cases)
    case (1 t)
    have "find_row rf_id (rf_id f) (registration_fees (objs t)) = Some f"
      using find_fee [OF keys that(5)] undone_keeps(5) [OF 1] by simp
    have conf: "confirmed_payment (objs s) (rf_id f) p"
      using first_filter_SomeD [OF that(7)] by (simp add: confirmed_payment_def)
    show ?case
      using \<open>find_row rf_id (rf_id f) (registration_fees (objs t)) = Some f\<close>
      by (simp add: wp_change wp_set_fee_status)
         (rule wp_audit_then_commit,
          use ok [OF that(1-6) conf 1] in \<open>simp add: wp_reload_fee find_upd_row unpaid_db_def fee_moved_def\<close>)
  qed (simp add: no)
  show ?thesis
    unfolding reverse_fee_payment_def
    by (rule wp_chama_write [OF clean])
       (auto simp: wp_bind wp_require_role wp_get_target_membership wp_ensure wp_case_option wp_raise confirmed_by_fee_def
         wp_select_first clean no split: option.split intro!: wp_fee_of_membership intro: fin)
qed

end
