(* ===== verification/Fees_Props.thy ===== *)
theory Fees_Props
  imports Fees_Facts Lifecycle Demo
begin

text \<open>
  The properties of the registration fees: a fee is PAID exactly while it has a confirmed
  payment, the payment is booked once, and its reversal restores the accounts.
\<close>

section \<open>The lifecycle\<close>

definition fee_edge :: "registration_fee_status \<Rightarrow> registration_fee_status \<Rightarrow> bool" where
  "fee_edge a b \<longleftrightarrow> a = FEE_OWED \<and> b \<noteq> FEE_OWED \<or> a = FEE_PAID \<and> b = FEE_OWED"

definition same_fee :: "registration_fee \<Rightarrow> registration_fee \<Rightarrow> bool" where
  "same_fee f g \<longleftrightarrow> rf_id g = rf_id f \<and> rf_membership_id g = rf_membership_id f \<and> rf_amount g = rf_amount f"

interpretation fee_life: status_table fee_edge "\<lambda>st. st = FEE_WAIVED" registration_fees rf_id rf_status same_fee
  by unfold_locales (auto simp: fee_edge_def same_fee_def)

datatype fee_op = Pay_Fee uuid | Waive_Fee uuid | Reverse_Fee uuid

fun run_fee_op :: "user \<Rightarrow> uuid \<Rightarrow> fee_op \<Rightarrow> registration_fee act" where
  "run_fee_op actor cid (Pay_Fee mid) = pay_fee actor cid mid"
| "run_fee_op actor cid (Waive_Fee mid) = waive_fee actor cid mid"
| "run_fee_op actor cid (Reverse_Fee mid) = reverse_fee_payment actor cid mid"

text \<open>
  The invariant of the two tables: keys, at most one confirmed payment of a fee, of its amount,
  and a fee PAID exactly while it has one.
\<close>

definition paid_by :: "registration_fee_payment list \<Rightarrow> registration_fee \<Rightarrow> registration_fee_payment \<Rightarrow> bool" where
  "paid_by ps f p \<longleftrightarrow> p \<in> set ps \<and> fp_fee_id p = rf_id f \<and> fp_status p = FP_CONFIRMED"

definition fee_tables :: "registration_fee list \<Rightarrow> registration_fee_payment list \<Rightarrow> bool" where
  "fee_tables fs ps \<longleftrightarrow>
     distinct (map rf_id fs) \<and> distinct (map fp_id ps) \<and>
     (\<forall>f \<in> set fs. \<forall>p. paid_by ps f p \<longrightarrow> fp_amount p = rf_amount f) \<and>
     (\<forall>f \<in> set fs. \<forall>p q. paid_by ps f p \<longrightarrow> paid_by ps f q \<longrightarrow> p = q) \<and>
     (\<forall>f \<in> set fs. rf_status f = FEE_PAID \<longleftrightarrow> (\<exists>p. paid_by ps f p))"

definition fees_inv :: "db \<Rightarrow> bool" where
  "fees_inv d \<longleftrightarrow> fee_tables (registration_fees d) (fee_payments d)"

abbreviation fee_step :: "db \<Rightarrow> db \<Rightarrow> bool" where
  "fee_step d d' \<equiv> fee_life.follows d d' \<and> fees_inv d'"

lemma fees_inv_keys: "fees_inv d \<Longrightarrow> distinct (map rf_id (registration_fees d))"
  by (simp add: fees_inv_def fee_tables_def)

lemma fee_eq: "fee_tables fs ps \<Longrightarrow> f \<in> set fs \<Longrightarrow> g \<in> set fs \<Longrightarrow> rf_id g = rf_id f \<Longrightarrow> g = f"
  unfolding fee_tables_def distinct_map by (meson inj_on_eq_iff)

text \<open>A change of one fee's status, with the payments that go with it.\<close>

lemma tables_moved:
  assumes inv: "fee_tables fs ps" and f: "f \<in> set fs"
    and keys: "distinct (map fp_id qs)"
    and other: "\<And>g p. rf_id g \<noteq> rf_id f \<Longrightarrow> paid_by qs g p \<longleftrightarrow> paid_by ps g p"
    and mine: "\<And>p q. paid_by qs f p \<Longrightarrow> fp_amount p = rf_amount f \<and> (paid_by qs f q \<longrightarrow> p = q)"
    and st: "st = FEE_PAID \<longleftrightarrow> (\<exists>p. paid_by qs f p)"
  shows "fee_tables (upd_row rf_id (rf_id f) (rf_status_update (\<lambda>_. st)) fs) qs"
proof -
  let ?f = "f\<lparr>rf_status := st\<rparr>"
  have mem: "g = ?f \<or> g \<in> set fs \<and> rf_id g \<noteq> rf_id f"
    if "g \<in> set (upd_row rf_id (rf_id f) (rf_status_update (\<lambda>_. st)) fs)" for g
    using that fee_eq [OF inv f] by (auto simp: set_upd_row)
  have pf: "paid_by qs ?f p = paid_by qs f p" for p by (simp add: paid_by_def)
  show ?thesis
    unfolding fee_tables_def
  proof (intro conjI ballI allI impI, goal_cases)
    case 1
    then show ?case using inv by (simp add: fee_tables_def map_key_upd_row)
  next
    case 2
    then show ?case by (rule keys)
  next
    case (3 g p)
    then show ?case using mem [OF 3(1)] mine inv other by (auto simp: pf fee_tables_def)
  next
    case (4 g p q)
    from mem [OF 4(1)] show ?case
    proof
      assume g: "g = ?f"
      show ?thesis using mine [of p q] 4(2,3) unfolding g pf by blast
    next
      assume g: "g \<in> set fs \<and> rf_id g \<noteq> rf_id f"
      then have "paid_by ps g p" "paid_by ps g q" using other [of g] 4(2,3) by blast+
      then show ?thesis using inv g unfolding fee_tables_def by blast
    qed
  next
    case (5 g)
    from mem [OF 5] show ?case
    proof
      assume g: "g = ?f"
      have "paid_by qs g = paid_by qs f" unfolding g using pf by blast
      then show ?thesis using st by (simp add: g)
    next
      assume g: "g \<in> set fs \<and> rf_id g \<noteq> rf_id f"
      then have "paid_by qs g = paid_by ps g" using other by blast
      then show ?thesis using inv g by (simp add: fee_tables_def)
    qed
  qed
qed

lemma fee_follows:
  assumes inv: "fees_inv d" and f: "f \<in> set (registration_fees d)" and e: "fee_edge (rf_status f) st"
    and d: "registration_fees d' = upd_row rf_id (rf_id f) (rf_status_update (\<lambda>_. st)) (registration_fees d)"
  shows "fee_life.follows d d'"
proof (rule fee_life.follows_update [OF d])
  show "find_row rf_id (rf_id f) (registration_fees d) = Some f"
    using fees_inv_keys [OF inv] f by (rule find_row_unique)
qed (use e in \<open>simp_all add: same_fee_def r_into_rtranclp\<close>)

lemma waived_step:
  assumes inv: "fees_inv d" and f: "f \<in> set (registration_fees d)" "rf_status f = FEE_OWED"
    and d: "registration_fees d' = upd_row rf_id (rf_id f) (rf_status_update (\<lambda>_. FEE_WAIVED)) (registration_fees d)"
      "fee_payments d' = fee_payments d"
  shows "fee_step d d'"
proof
  show "fee_life.follows d d'" by (rule fee_follows [OF inv f(1) _ d(1)]) (simp add: fee_edge_def f)
  have "\<not> paid_by (fee_payments d) f p" for p using inv f unfolding fees_inv_def fee_tables_def by auto
  then show "fees_inv d'"
    unfolding fees_inv_def d
    by (intro tables_moved) (use inv f in \<open>auto simp: fees_inv_def fee_tables_def\<close>)
qed

lemma paid_step:
  assumes inv: "fees_inv d" and f: "f \<in> set (registration_fees d)" "rf_status f = FEE_OWED"
    and p: "fp_fee_id p = rf_id f" "fp_status p = FP_CONFIRMED" "fp_amount p = rf_amount f"
      "\<And>q. q \<in> set (fee_payments d) \<Longrightarrow> fp_id q \<noteq> fp_id p"
    and d: "registration_fees d' = upd_row rf_id (rf_id f) (rf_status_update (\<lambda>_. FEE_PAID)) (registration_fees d)"
      "fee_payments d' = fee_payments d @ [p]"
  shows "fee_step d d'"
proof
  show "fee_life.follows d d'" by (rule fee_follows [OF inv f(1) _ d(1)]) (simp add: fee_edge_def f)
  have none: "\<not> paid_by (fee_payments d) f q" for q using inv f unfolding fees_inv_def fee_tables_def by auto
  have by_p: "paid_by (fee_payments d @ [p]) g q \<longleftrightarrow> paid_by (fee_payments d) g q \<or> q = p \<and> rf_id g = rf_id f" for g q
    using p by (auto simp: paid_by_def)
  show "fees_inv d'"
    unfolding fees_inv_def d
  proof (rule tables_moved [where ps = "fee_payments d"])
    have "fp_id p \<notin> fp_id ` set (fee_payments d)" using p(4) by force
    then show "distinct (map fp_id (fee_payments d @ [p]))" using inv by (simp add: fees_inv_def fee_tables_def)
  qed (use inv f p(1-3) none in \<open>auto simp: fees_inv_def by_p\<close>)
qed

lemma unpaid_step:
  assumes inv: "fees_inv d" and f: "f \<in> set (registration_fees d)" "rf_status f = FEE_PAID"
    and p: "confirmed_payment d (rf_id f) p"
    and d: "registration_fees d' = upd_row rf_id (rf_id f) (rf_status_update (\<lambda>_. FEE_OWED)) (registration_fees d)"
      "fee_payments d' = upd_row fp_id (fp_id p) (fp_status_update (\<lambda>_. FP_REVERSED)) (fee_payments d)"
  shows "fee_step d d'"
proof
  show "fee_life.follows d d'" by (rule fee_follows [OF inv f(1) _ d(1)]) (simp add: fee_edge_def f)
  let ?ps = "fee_payments d" and ?qs = "upd_row fp_id (fp_id p) (fp_status_update (\<lambda>_. FP_REVERSED)) (fee_payments d)"
  have dist: "distinct (map fp_id ?ps)" using inv by (simp add: fees_inv_def fee_tables_def)
  have mine: "paid_by ?ps f p" using p by (simp add: confirmed_payment_def paid_by_def)
  have same: "q = p" if "q \<in> set ?ps" "fp_id q = fp_id p" for q
    using dist that p unfolding distinct_map confirmed_payment_def by (meson inj_onD)
  have by_q: "paid_by ?qs g q \<longleftrightarrow> paid_by ?ps g q \<and> fp_id q \<noteq> fp_id p" for g q
    by (auto simp: paid_by_def set_upd_row)
  have none: "\<not> paid_by ?qs f q" for q
    using inv f(1) mine unfolding by_q fees_inv_def fee_tables_def by blast
  have other: "paid_by ?qs g q \<longleftrightarrow> paid_by ?ps g q" if "rf_id g \<noteq> rf_id f" for g q
  proof -
    have "fp_id q \<noteq> fp_id p" if "paid_by ?ps g q"
      using same [of q] p that \<open>rf_id g \<noteq> rf_id f\<close> unfolding paid_by_def confirmed_payment_def by metis
    then show ?thesis unfolding by_q by blast
  qed
  show "fees_inv d'"
    unfolding fees_inv_def d
    by (rule tables_moved [where ps = ?ps]) (use inv f none other in \<open>auto simp: fees_inv_def fee_tables_def map_key_upd_row\<close>)
qed

lemma fee_same_step:
  "fees_inv d \<Longrightarrow> registration_fees d' = registration_fees d \<Longrightarrow> fee_payments d' = fee_payments d \<Longrightarrow> fee_step d d'"
  by (simp add: fees_inv_def fee_life.follows_refl)

text \<open>Each request commits only databases a step away.\<close>

lemma wp_fee_op:
  assumes clean: "clean s" and inv: "fees_inv (objs s)"
  shows "wp (run_fee_op actor cid op) (\<lambda>_ t. grows (fee_step (objs s)) s t) (\<lambda>_ t. grows (fee_step (objs s)) s t) s"
proof (cases op)
  case (Pay_Fee mid)
  have booked: "fee_step (objs s) d"
    if "fee_of (objs s) m f" "rf_status f = FEE_OWED" "fresh_payment s"
      "registration_fees d = upd_row rf_id (rf_id f) (rf_status_update (\<lambda>_. FEE_PAID)) (registration_fees (objs s))"
      "fee_payments d = fee_payments (objs s) @ [new_fee_payment s actor c m' f]" for d m f c m'
    by (rule paid_step [OF inv _ that(2) _ _ _ _ that(4,5)])
       (use that(3) fee_of_in [OF that(1)] in \<open>auto simp: new_fee_payment_def fresh_payment_def\<close>)
  have "wp (pay_fee actor cid mid) (\<lambda>_ t. grows (fee_step (objs s)) s t) (\<lambda>_ t. grows (fee_step (objs s)) s t) s"
  proof (rule wp_pay_fee [OF clean fees_inv_keys [OF inv]], goal_cases)
    case (2 c am m f cash fees a n u u')
    show ?case
      by (intro grows_saved_on grows_same booked [OF 2(6,7,10)]) (simp_all add: fee_booked_def paid_db_def fee_moved_def)
  next
    case (3 c m f t a n u)
    show ?case
      by (intro grows_saved_on grows_same booked [OF 3(3,4,7)]) (simp_all add: paid_db_def fee_moved_def)
  qed simp_all
  then show ?thesis using Pay_Fee by simp
next
  case (Waive_Fee mid)
  have "wp (waive_fee actor cid mid) (\<lambda>_ t. grows (fee_step (objs s)) s t) (\<lambda>_ t. grows (fee_step (objs s)) s t) s"
  proof (rule wp_waive_fee [OF clean fees_inv_keys [OF inv]], goal_cases)
    case (1 c am m f a n u)
    then show ?case
      by (intro grows_saved waived_step [OF inv, of f]) (use fee_of_in in \<open>auto simp: fee_moved_def\<close>)
  qed simp
  then show ?thesis using Waive_Fee by simp
next
  case (Reverse_Fee mid)
  have "wp (reverse_fee_payment actor cid mid) (\<lambda>_ t. grows (fee_step (objs s)) s t) (\<lambda>_ t. grows (fee_step (objs s)) s t) s"
  proof (rule wp_reverse_fee_payment [OF clean fees_inv_keys [OF inv]], goal_cases)
    case (1 c am m f p t a n u)
    note keep = undone_keeps(4,5) [OF 1(8)]
    have "fee_step (objs s) (objs t)" by (rule fee_same_step [OF inv]) (simp_all add: keep)
    moreover have "fee_step (objs s) (log_db a n (unpaid_db (rf_id f) (fp_id p) (objs t)))"
      by (rule unpaid_step [OF inv _ 1(6,7)]) (use fee_of_in [OF 1(5)] keep in \<open>simp_all add: unpaid_db_def fee_moved_def\<close>)
    ultimately show ?case
      using 1(8) by (intro grows_saved_on) (auto simp: undone_def intro: grows_saved)
  qed simp
  then show ?thesis using Reverse_Fee by simp
qed

interpretation fee_service: service run_fee_op "\<lambda>_. True" fees_inv fee_life.follows
proof unfold_locales
  show "fee_life.follows d d" for d by (simp add: fee_life.follows_refl)
qed (rule fee_life.follows_trans, assumption+, rule wp_fee_op, assumption+)

section \<open>The properties\<close>

text \<open>
  C18. After any sequence of requests a fee is for the same membership and amount, a waived fee
  stays waived, and a fee is PAID exactly while it has a confirmed payment, which is then the
  only one and of the fee's amount.
\<close>

theorem fee_paid_iff_payment:
  assumes "served run_fee_op (\<lambda>_. True) s t" and "clean s" and "fees_inv (objs s)"
    and "find_row rf_id i (registration_fees (objs s)) = Some f"
  shows "\<exists>g. find_row rf_id i (registration_fees (objs t)) = Some g \<and> same_fee f g \<and>
    (rf_status f = FEE_WAIVED \<longrightarrow> rf_status g = FEE_WAIVED) \<and>
    (rf_status g = FEE_PAID \<longleftrightarrow> (\<exists>p. confirmed_payment (objs t) i p)) \<and>
    (\<forall>p. confirmed_payment (objs t) i p \<longrightarrow> fp_amount p = rf_amount f \<and> (\<forall>q. confirmed_payment (objs t) i q \<longrightarrow> q = p))"
proof -
  have inv: "fee_life.follows (objs s) (objs t)" "fees_inv (objs t)"
    using fee_service.served_good assms(1-3) by blast+
  then obtain g where g: "find_row rf_id i (registration_fees (objs t)) = Some g" "same_fee f g"
      "fee_edge\<^sup>*\<^sup>* (rf_status f) (rf_status g)"
    using assms(4) unfolding fee_life.follows_def by blast
  have gi: "g \<in> set (registration_fees (objs t))" "rf_id g = i" using find_row_SomeD [OF g(1)] by blast+
  have "paid_by (fee_payments (objs t)) g p \<longleftrightarrow> confirmed_payment (objs t) i p" for p
    by (simp add: paid_by_def confirmed_payment_def gi(2))
  then show ?thesis
    using inv(2) gi(1) g fee_life.final_lasts [OF g(3)]
    unfolding fees_inv_def fee_tables_def same_fee_def by (intro exI [of _ g]) auto
qed

text \<open>
  Paying an owed fee debits the cash and credits the fee income with the fee, exactly that,
  and makes it PAID; paying a PAID fee again returns it and changes nothing at all.
\<close>

lemma pay_fee_effect:
  assumes clean: "clean s" and inv: "fees_inv (objs s)" and f: "fee_of (objs s) mid f"
    and new: "\<forall>t \<in> set (ledger_transactions (objs s)). lt_source_id t \<noteq> next_uuid s"
    and run: "pay_fee actor cid mid s = (Inr g, t)"
  shows "rf_status f = FEE_PAID \<and> g = f \<and> t = s \<or>
    rf_status f = FEE_OWED \<and> g = f\<lparr>rf_status := FEE_PAID\<rparr> \<and> fee_of (objs t) mid g \<and> 0 < rf_amount f \<and>
    (\<exists>cash fees. find_account cid CASH_CODE (objs s) = Some cash \<and>
       find_account cid REGISTRATION_FEES_CODE (objs s) = Some fees \<and>
       transfer cid cash fees (rf_amount f) (objs s) (objs t))"
proof -
  have "wp (pay_fee actor cid mid) (\<lambda>g t. rf_status f = FEE_PAID \<and> g = f \<and> t = s \<or>
    rf_status f = FEE_OWED \<and> g = f\<lparr>rf_status := FEE_PAID\<rparr> \<and> fee_of (objs t) mid g \<and> 0 < rf_amount f \<and>
    (\<exists>cash fees. find_account cid CASH_CODE (objs s) = Some cash \<and>
       find_account cid REGISTRATION_FEES_CODE (objs s) = Some fees \<and>
       transfer cid cash fees (rf_amount f) (objs s) (objs t))) (\<lambda>_ _. True) s"
  proof (rule wp_pay_fee [OF clean fees_inv_keys [OF inv]], goal_cases)
    case (1 c m h)
    then show ?case using fee_of_unique [OF f] find_row_key [OF 1(2)] by auto
  next
    case (2 c am m h cash fees a n u u')
    have c: "ch_id c = cid" and m: "ms_id m = mid" using find_row_key [OF 2(1)] find_row_key [OF 2(4)] by auto
    have h: "h = f" using fee_of_unique [OF f] 2(6) unfolding m by simp
    have "transfer cid cash fees (rf_amount f) (objs s) (log_db a n (fee_booked s actor cid mid f cash fees))"
      unfolding fee_booked_def by (rule transfer_book) (simp add: paid_db_def fee_moved_def)
    moreover have "fee_of (log_db a n (fee_booked s actor cid mid f cash fees)) mid (f\<lparr>rf_status := FEE_PAID\<rparr>)"
      by (rule fee_of_moved [OF f]) (simp add: fee_booked_def paid_db_def fee_moved_def)
    ultimately show ?case using 2 unfolding h c m by simp
  next
    case (3 c m h t a n u)
    then show ?case using new by blast
  qed simp
  from wp_InrD [OF this run] show ?thesis .
qed

text \<open>
  A fee of zero, the default of a new Chama, can never be paid: the payment row violates
  its amount constraint, the request fails and nothing is written. It stays owed until it is
  waived.
\<close>

lemma zero_fee_never_paid:
  assumes clean: "clean s" and inv: "fees_inv (objs s)" and f: "fee_of (objs s) mid f" "rf_status f = FEE_OWED" "rf_amount f = 0"
  shows "\<exists>e t. pay_fee actor cid mid s = (Inl e, t) \<and> durable t = durable s"
proof -
  have "wp (pay_fee actor cid mid) (\<lambda>_ _. False) (\<lambda>_ t. durable t = durable s) s"
  proof (rule wp_pay_fee [OF clean fees_inv_keys [OF inv]], goal_cases)
    case (1 c m h)
    then show ?case using fee_of_unique [OF f(1)] find_row_key [OF 1(2)] f(2) by auto
  next
    case (2 c am m h cash fees a n u u')
    then show ?case using fee_of_unique [OF f(1)] find_row_key [OF 2(4)] f(3) by auto
  next
    case (3 c m h t a n u)
    then show ?case using fee_of_unique [OF f(1)] find_row_key [OF 3(2)] f(3) by auto
  qed
  then show ?thesis by (cases "pay_fee actor cid mid s") (auto simp: wp_def split: sum.splits)
qed

lemma pay_state:
  assumes clean: "clean s" and inv: "fees_inv (objs s)" and f: "fee_of (objs s) mid f" "rf_status f = FEE_OWED"
    and new: "\<forall>t \<in> set (ledger_transactions (objs s)). lt_source_id t \<noteq> next_uuid s"
    and run: "pay_fee actor cid mid s = (Inr g, t)"
  shows "\<exists>cash fees a n. find_account cid CASH_CODE (objs s) = Some cash \<and>
    find_account cid REGISTRATION_FEES_CODE (objs s) = Some fees \<and>
    objs t = log_db a n (fee_booked s actor cid mid f cash fees) \<and> clean t \<and> no_confirmed (objs s) (rf_id f)"
proof -
  have "wp (pay_fee actor cid mid) (\<lambda>g t. \<exists>cash fees a n. find_account cid CASH_CODE (objs s) = Some cash \<and>
    find_account cid REGISTRATION_FEES_CODE (objs s) = Some fees \<and>
    objs t = log_db a n (fee_booked s actor cid mid f cash fees) \<and> clean t \<and> no_confirmed (objs s) (rf_id f)) (\<lambda>_ _. True) s"
  proof (rule wp_pay_fee [OF clean fees_inv_keys [OF inv]], goal_cases)
    case (1 c m h)
    then show ?case using fee_of_unique [OF f(1)] find_row_key [OF 1(2)] f(2) by auto
  next
    case (2 c am m h cash fees a n u u')
    have "ch_id c = cid" "ms_id m = mid" using find_row_key [OF 2(1)] find_row_key [OF 2(4)] by auto
    moreover have "h = f" using fee_of_unique [OF f(1)] 2(6) \<open>ms_id m = mid\<close> by simp
    ultimately show ?case
      using 2 by (intro exI [of _ cash] exI [of _ fees] exI [of _ a] exI [of _ n]) auto
  next
    case (3 c m h t a n u)
    then show ?case using new by blast
  qed simp
  from wp_InrD [OF this run] show ?thesis .
qed

text \<open>
  Paying a fee and reversing the payment is a round trip: whoever reverses it and whenever,
  every account of the Chama has the balance it had, the fee is owed again and has no confirmed
  payment, so it can be paid again.
\<close>

lemma fee_reverse_restores:
  assumes clean: "clean s" and ok: "ledger_ok s" and inv: "fees_inv (objs s)"
    and f: "fee_of (objs s) mid f" "rf_status f = FEE_OWED"
    and new: "\<forall>t \<in> set (ledger_transactions (objs s)). lt_source_id t \<notin> {next_uuid s, Suc (next_uuid s)}"
    and run: "pay_fee actor cid mid s = (Inr g, t)"
    and undo: "reverse_fee_payment actor' cid mid t = (Inr g', t')"
  shows "account_balance cid x (objs t') = account_balance cid x (objs s) \<and> g' = f \<and> fee_of (objs t') mid f \<and>
    no_confirmed (objs t') (rf_id f)"
proof -
  let ?s = "s\<lparr>next_uuid := Suc (next_uuid s)\<rparr>"
  obtain cash fees a n where t: "objs t = log_db a n (fee_booked s actor cid mid f cash fees)" "clean t"
      "no_confirmed (objs s) (rf_id f)"
    using pay_state [OF clean inv f _ run] new by blast
  have there: "transfer cid cash fees (rf_amount f) (objs s) (objs t)"
    unfolding t fee_booked_def by (rule transfer_book) (simp add: paid_db_def fee_moved_def)
  have tabs: "registration_fees (objs t) = upd_row rf_id (rf_id f) (rf_status_update (\<lambda>_. FEE_PAID)) (registration_fees (objs s))"
    "fee_payments (objs t) = fee_payments (objs s) @ [new_fee_payment s actor cid mid f]"
    by (simp_all add: t fee_booked_def paid_db_def fee_moved_def)
  have ft: "fee_of (objs t) mid (f\<lparr>rf_status := FEE_PAID\<rparr>)" by (rule fee_of_moved [OF f(1) tabs(1)])
  have keys: "distinct (map rf_id (registration_fees (objs t)))"
    using fees_inv_keys [OF inv] by (simp add: tabs map_key_upd_row)
  have only: "fp_id p = next_uuid s" if "confirmed_payment (objs t) (rf_id f) p" for p
    using that t(3) unfolding confirmed_payment_def tabs no_confirmed_def by (auto simp: new_fee_payment_def)
  have "wp (reverse_fee_payment actor' cid mid) (\<lambda>g' t'. transfer cid fees cash (rf_amount f) (objs t) (objs t') \<and>
      g' = f \<and> fee_of (objs t') mid f \<and> no_confirmed (objs t') (rf_id f)) (\<lambda>_ _. True) t"
  proof (rule wp_reverse_fee_payment [OF t(2) keys], goal_cases)
    case (1 c am m h p v a' n' u)
    have c: "ch_id c = cid" and m: "ms_id m = mid" using find_row_key [OF 1(1)] find_row_key [OF 1(4)] by auto
    have h: "h = f\<lparr>rf_status := FEE_PAID\<rparr>" using fee_of_unique [OF ft] 1(5) unfolding m by simp
    have owed: "f\<lparr>rf_status := FEE_OWED\<rparr> = f" using f(2) by (cases f) simp
    have p: "fp_id p = next_uuid s" using only 1(7) by (simp add: h)
    have "transfer cid fees cash (rf_amount f) (objs t) (objs v)"
    proof (rule undone_book [where s = ?s and st = REGISTRATION_FEE_PAYMENT_SOURCE_TYPE and si = "next_uuid s"])
      show "ledger_inv (objs ?s)" using ok by (simp add: ledger_ok_def)
      show "ledger_fresh (next_uuid ?s) (objs ?s)" using ok by (auto simp: ledger_ok_def ledger_fresh_def)
      show "objs t = log_db a n (book ?s actor cid REGISTRATION_FEE_PAYMENT_SOURCE_TYPE (next_uuid s)
          (fee_payment_description (rf_id f)) cash fees (rf_amount f) (paid_db s actor cid mid f))"
        unfolding t fee_booked_def ..
      show "undone t actor' cid REGISTRATION_FEE_PAYMENT_SOURCE_TYPE (next_uuid s) (fee_reversal_description (rf_id f)) v"
        using 1(8) by (simp add: c h p)
    qed (use new in \<open>auto simp: source_type_defs paid_db_def fee_moved_def source_free_def\<close>)
    moreover have "fee_of (unpaid_db (rf_id h) (fp_id p) (objs v)) mid f"
      using fee_of_moved [OF ft, of "unpaid_db (rf_id h) (fp_id p) (objs v)" FEE_OWED] undone_keeps(5) [OF 1(8)] owed
      by (simp add: h unpaid_db_def fee_moved_def)
    moreover have "no_confirmed (unpaid_db (rf_id h) (fp_id p) (objs v)) (rf_id f)"
      using t(3) undone_keeps(4) [OF 1(8)]
      by (auto simp: no_confirmed_def unpaid_db_def fee_moved_def tabs set_upd_row p new_fee_payment_def)
    ultimately show ?case
      using f(2) by (simp add: transfer_def h fee_of_def no_confirmed_def unpaid_db_def fee_moved_def)
  qed simp
  from wp_InrD [OF this undo] there show ?thesis by (auto simp: transfer_def)
qed

section \<open>The properties on the demo database\<close>

definition demo_fee :: "money \<Rightarrow> registration_fee_status \<Rightarrow> registration_fee" where
  "demo_fee k st = \<lparr>rf_id = 500, rf_membership_id = 43, rf_amount = k, rf_status = st\<rparr>"

definition dues_db :: "money \<Rightarrow> db" where
  "dues_db k = demo_db\<lparr>registration_fees := [demo_fee k FEE_OWED]\<rparr>"

definition dues :: "money \<Rightarrow> sess" where
  "dues k = fresh_session False False demo_settings (DateTime 2026 3 1 0) 1000000 1000 (dues_db k)"

lemma dues_db_simps [simp]:
  "registration_fees (dues_db k) = [demo_fee k FEE_OWED]" "fee_payments (dues_db k) = []"
  "ledger_accounts (dues_db k) = ledger_accounts demo_db" "chamas (dues_db k) = [demo_chama]"
  "memberships (dues_db k) = memberships demo_db" "membership_roles (dues_db k) = membership_roles demo_db"
  "ledger_transactions (dues_db k) = []" "ledger_entries (dues_db k) = []"
  by (simp_all add: dues_db_def)

lemma dues_simps [simp]:
  "objs (dues k) = dues_db k" "rows (dues k) = dues_db k" "durable (dues k) = [dues_db k]" "next_uuid (dues k) = 1000"
  "autoflush (dues k) = False" "utc_now (dues k) = 1000000" "cfg (dues k) = demo_settings" "clean (dues k)"
  by (simp_all add: dues_def clean_fresh, simp_all add: fresh_session_def)

lemma demo_fee_simps [simp]:
  "rf_id (demo_fee k st) = 500" "rf_membership_id (demo_fee k st) = 43" "rf_amount (demo_fee k st) = k"
  "rf_status (demo_fee k st) = st"
  by (simp_all add: demo_fee_def)

lemma dues_inv: "fees_inv (dues_db k)"
  by (simp add: fees_inv_def fee_tables_def paid_by_def)

lemma dues_fee: "fee_of (dues_db k) 43 (demo_fee k FEE_OWED)"
  by (simp add: fee_of_def)

lemmas fee_run = wp ledger_run account_code_defs holds_role_def upd_row_def get_account_id_def fee_of_membership_def
  get_by_membership_def pay_effect_def create_fee_payment_def fee_payment_check_def fee_posting_def

lemma pay_returns: "returns (pay_fee treasurer 10 43) (dues 50000)"
  unfolding returns_wp pay_fee_def
  by (auto simp: fee_run normalize_two_lines simp del: normalize_lines.simps intro!: wp_audit_then_commit)

definition dues_paid :: sess where
  "dues_paid = after (pay_fee treasurer 10 43) (dues 50000)"

lemma dues_paid_run:
  "pay_fee treasurer 10 43 (dues 50000) = (Inr (result_of (pay_fee treasurer 10 43) (dues 50000)), dues_paid)"
  unfolding dues_paid_def by (rule returnsD [OF pay_returns])

lemma dues_paid_state:
  "\<exists>a n. objs dues_paid = log_db a n (fee_booked (dues 50000) treasurer 10 43 (demo_fee 50000 FEE_OWED) 11 14) \<and> clean dues_paid"
  using pay_state [OF _ _ _ _ _ dues_paid_run, of "demo_fee 50000 FEE_OWED"] dues_inv dues_fee
  by (auto simp: find_account_def account_code_defs simp del: demo_row_simps(14-17))

lemma dues_paid_simps [simp]:
  "registration_fees (objs dues_paid) = [demo_fee 50000 FEE_PAID]"
  "fee_payments (objs dues_paid) = [new_fee_payment (dues 50000) treasurer 10 43 (demo_fee 50000 FEE_OWED)]"
  "ledger_accounts (objs dues_paid) = ledger_accounts demo_db" "chamas (objs dues_paid) = [demo_chama]"
  "memberships (objs dues_paid) = memberships demo_db" "membership_roles (objs dues_paid) = membership_roles demo_db"
  "ledger_transactions (objs dues_paid) = [new_tx ((dues 50000)\<lparr>next_uuid := 1001\<rparr>) treasurer 10
     REGISTRATION_FEE_PAYMENT_SOURCE_TYPE 1000 (Some (fee_payment_description 500)) None]" "clean dues_paid"
  using dues_paid_state
  by (auto simp: fee_booked_def book_def paid_db_def fee_moved_def upd_row_def demo_fee_def)

theorem fee_paid_iff_payment_witness:
  "\<exists>p. confirmed_payment (objs dues_paid) 500 p \<and> fp_amount p = 50000"
proof -
  let ?t = "snd (request (run_fee_op treasurer 10 (Pay_Fee 43)) (dues 50000))"
  have "run_fee_op treasurer 10 (Pay_Fee 43) (dues 50000) = (Inr (result_of (pay_fee treasurer 10 43) (dues 50000)), dues_paid)"
    using dues_paid_run by simp
  from request_closed(1) [where m = "run_fee_op treasurer 10 (Pay_Fee 43)", OF this]
  have t: "objs ?t = objs dues_paid" by simp
  have "served run_fee_op (\<lambda>_. True) (dues 50000) ?t" by (intro served.intros) simp
  from fee_paid_iff_payment [OF this, of 500 "demo_fee 50000 FEE_OWED"] dues_inv
  show ?thesis unfolding t by (auto simp: find_row_Cons)
qed

lemma pay_fee_effect_witness:
  "transfer 10 11 14 50000 (dues_db 50000) (objs dues_paid)"
  using pay_fee_effect [OF _ _ _ _ dues_paid_run, of "demo_fee 50000 FEE_OWED"] dues_inv dues_fee
  by (auto simp: find_account_def account_code_defs)

lemma zero_fee_never_paid_witness:
  "\<exists>e t. pay_fee treasurer 10 43 (dues 0) = (Inl e, t) \<and> durable t = [dues_db 0]"
  using zero_fee_never_paid [of "dues 0" 43 "demo_fee 0 FEE_OWED"] dues_inv dues_fee by simp

lemma ledger_ok_dues: "ledger_ok (dues k)"
  by (simp add: ledger_ok_def ledger_flushed_def ledger_fresh_def ledger_inv_def reversals_wf_def map_filter_def)

lemma fee_reverse_returns: "returns (reverse_fee_payment chair 10 43) dues_paid"
proof -
  have "map entry_key (entries_of 1001 (objs dues_paid)) = [(11, 50000, 0), (14, 0, 50000)]"
    using entries_of_book [of "dues_db 50000" "(dues 50000)\<lparr>next_uuid := 1001\<rparr>"
        "paid_db (dues 50000) treasurer 10 43 (demo_fee 50000 FEE_OWED)"] ledger_ok_dues [of 50000] dues_paid_state
    by (auto simp: fee_booked_def ledger_ok_def entries_of_def paid_db_def fee_moved_def ledger_fresh_def)
  then show ?thesis
    unfolding returns_wp reverse_fee_payment_def undo_posting_def confirmed_by_fee_def
    by (auto simp: fee_run new_fee_payment_def entries_of_def entry_key_def normalize_swapped_two
        simp del: normalize_lines.simps intro!: wp_audit_then_commit)
qed

lemma fee_reverse_restores_witness:
  "account_balance 10 11 (objs (after (reverse_fee_payment chair 10 43) dues_paid)) = 0"
  using fee_reverse_restores [OF _ ledger_ok_dues _ _ _ _ dues_paid_run returnsD [OF fee_reverse_returns],
      of "demo_fee 50000 FEE_OWED" 11] dues_inv dues_fee
  by (simp add: account_balance_def)

end
