(* ===== verification/Policies.thy ===== *)
theory Policies
  imports Prelude "HOL-Library.Char_ord"
begin

text \<open>
  Pure policies of \<open>app/core\<close>: the canonical form of Kenyan phone numbers (\<open>phone.py\<close>), the
  password policy (\<open>password_policy.py\<close>), the contribution period (\<open>app/schemas/common.py\<close>) and
  the fixed-window rate limiter (\<open>ratelimit.py\<close>). Strings are ASCII: on them
  Python's character classes and case mapping are the ones written here.
\<close>

section \<open>Characters\<close>

definition is_digit :: "char \<Rightarrow> bool" where
  "is_digit c \<longleftrightarrow> CHR ''0'' \<le> c \<and> c \<le> CHR ''9''"

definition is_upper :: "char \<Rightarrow> bool" where
  "is_upper c \<longleftrightarrow> CHR ''A'' \<le> c \<and> c \<le> CHR ''Z''"

definition is_lower :: "char \<Rightarrow> bool" where
  "is_lower c \<longleftrightarrow> CHR ''a'' \<le> c \<and> c \<le> CHR ''z''"

definition lower_char :: "char \<Rightarrow> char" where
  "lower_char c = (if is_upper c then char_of (of_char c + 32 :: nat) else c)"

definition lower :: "string \<Rightarrow> string" where
  "lower s = map lower_char s"

definition digits_of :: "string \<Rightarrow> string" where
  "digits_of s = filter is_digit s"

section \<open>Phone numbers\<close>

definition normalize_ke_msisdn :: "string \<Rightarrow> string" where
  "normalize_ke_msisdn raw =
     (let digits = digits_of raw
      in if take 1 digits = ''0'' then ''254'' @ drop 1 digits
         else if take 1 digits = ''7'' \<or> take 1 digits = ''1'' then ''254'' @ digits
         else digits)"

definition phone_variants :: "string \<Rightarrow> string list" where
  "phone_variants phone_number =
     (let canonical = normalize_ke_msisdn phone_number
      in if canonical \<noteq> phone_number then [canonical, phone_number] else [canonical])"

lemma digits_of_digits [simp]: "digits_of (digits_of s) = digits_of s"
  by (simp add: digits_of_def)

lemma digits_of_append [simp]: "digits_of (s @ t) = digits_of s @ digits_of t"
  by (simp add: digits_of_def)

lemma digits_of_Cons [simp]: "digits_of (c # s) = (if is_digit c then c # digits_of s else digits_of s)"
  by (simp add: digits_of_def)

lemma is_digit_254 [simp]: "is_digit (CHR ''2'')" "is_digit (CHR ''5'')" "is_digit (CHR ''4'')"
  by (simp_all add: is_digit_def less_eq_char_def)

lemma digits_of_drop: "digits_of s = s \<Longrightarrow> digits_of (drop k s) = drop k s"
  unfolding digits_of_def filter_id_conv by (meson in_set_dropD)

lemma normalize_only_digits: "digits_of (normalize_ke_msisdn s) = normalize_ke_msisdn s"
  by (simp add: normalize_ke_msisdn_def Let_def digits_of_drop)

section \<open>Contribution periods\<close>

text \<open>The pattern \<open>\d{4}-(0[1-9]|1[0-2])\<close>, matched against the whole string.\<close>

definition valid_period :: "string \<Rightarrow> bool" where
  "valid_period s \<longleftrightarrow>
     length s = 7 \<and> list_all is_digit (take 4 s) \<and> s ! 4 = CHR ''-'' \<and>
     (s ! 5 = CHR ''0'' \<and> CHR ''1'' \<le> s ! 6 \<and> s ! 6 \<le> CHR ''9'' \<or>
      s ! 5 = CHR ''1'' \<and> CHR ''0'' \<le> s ! 6 \<and> s ! 6 \<le> CHR ''2'')"

section \<open>Passwords\<close>

definition COMMON_PASSWORDS :: "string list" where
  "COMMON_PASSWORDS =
     [''password'', ''password123'', ''Password123'', ''qwerty123'', ''admin123'', ''letmein123'',
      ''welcome123'', ''changeme123'', ''1234567890'', ''12345678'', ''password1'', ''abc123456'',
      ''secret123'']"

definition has_symbol :: "string \<Rightarrow> bool" where
  "has_symbol s \<longleftrightarrow> list_ex (\<lambda>c. \<not> (is_digit c \<or> is_upper c \<or> is_lower c)) s"

definition complex_enough :: "string \<Rightarrow> bool" where
  "complex_enough s \<longleftrightarrow> list_ex is_upper s \<and> list_ex is_lower s \<and> list_ex is_digit s \<and> has_symbol s"

definition same_phone :: "string \<Rightarrow> string \<Rightarrow> bool" where
  "same_phone password phone \<longleftrightarrow>
     phone \<noteq> '''' \<and> digits_of (lower password) \<noteq> '''' \<and> digits_of phone \<noteq> '''' \<and>
     (digits_of (lower password) = digits_of phone \<or> lower password = lower phone)"

text \<open>The violations, in the order they are collected; no violation is a pass.\<close>

definition password_violations :: "string \<Rightarrow> string option \<Rightarrow> string option \<Rightarrow> string list" where
  "password_violations password email phone =
     (if length password < 10 then [''Password must be at least 10 characters long''] else []) @
     (if complex_enough password then []
      else [''Password must include at least one uppercase letter, one lowercase letter, one digit, and one symbol'']) @
     (if lower password \<in> set COMMON_PASSWORDS then [''Password is too common''] else []) @
     (case email of None \<Rightarrow> []
      | Some e \<Rightarrow> if e \<noteq> '''' \<and> lower password = lower e
                  then [''Password must not be the same as your email''] else []) @
     (case phone of None \<Rightarrow> []
      | Some p \<Rightarrow> if same_phone password p
                  then [''Password must not be the same as your phone number''] else [])"

section \<open>The rate limiter\<close>

text \<open>
  \<open>RateLimiter.allow\<close>: the counter and window start of every key seen; times are those of the
  monotonic clock. Pruning drops the windows that ended.
\<close>

record limiter =
  rl_max_requests :: nat
  rl_window :: rat
  rl_counts :: "string \<Rightarrow> (nat \<times> rat) option"

definition new_limiter :: "nat \<Rightarrow> rat \<Rightarrow> limiter option" where
  "new_limiter max_requests window_seconds =
     (if max_requests < 1 \<or> window_seconds \<le> 0 then None
      else Some \<lparr>rl_max_requests = max_requests, rl_window = window_seconds, rl_counts = (\<lambda>_. None)\<rparr>)"

definition prune :: "rat \<Rightarrow> limiter \<Rightarrow> limiter" where
  "prune now l = l\<lparr>rl_counts := (\<lambda>k. case rl_counts l k of None \<Rightarrow> None
     | Some (n, start) \<Rightarrow> if rl_window l \<le> now - start then None else Some (n, start))\<rparr>"

definition allow :: "string \<Rightarrow> rat \<Rightarrow> limiter \<Rightarrow> bool \<times> limiter" where
  "allow key now l =
     (let (n, start) = (case rl_counts l key of None \<Rightarrow> (0, now) | Some w \<Rightarrow> w);
          (n, start) = (if rl_window l \<le> now - start then (0, now) else (n, start))
      in if rl_max_requests l \<le> n then (False, l\<lparr>rl_counts := (rl_counts l)(key \<mapsto> (n, start))\<rparr>)
         else (True, prune now (l\<lparr>rl_counts := (rl_counts l)(key \<mapsto> (Suc n, start))\<rparr>)))"

text \<open>\<open>int\<close> truncates towards zero.\<close>

definition truncate :: "rat \<Rightarrow> int" where
  "truncate q = (if 0 \<le> q then \<lfloor>q\<rfloor> else \<lceil>q\<rceil>)"

definition retry_after_seconds :: "string \<Rightarrow> rat \<Rightarrow> limiter \<Rightarrow> int" where
  "retry_after_seconds key now l =
     (let start = (case rl_counts l key of None \<Rightarrow> now | Some (n, start) \<Rightarrow> start)
      in max 0 (truncate (rl_window l - (now - start)) + 1))"

definition reset_limiter :: "limiter \<Rightarrow> limiter" where
  "reset_limiter l = l\<lparr>rl_counts := (\<lambda>_. None)\<rparr>"

text \<open>A sequence of calls and the times of those let through for a key.\<close>

fun allowed_times :: "string \<Rightarrow> (string \<times> rat) list \<Rightarrow> limiter \<Rightarrow> rat list" where
  "allowed_times key [] l = []"
| "allowed_times key ((k, now) # calls) l =
     (let (ok, l') = allow k now l
      in (if ok \<and> k = key then [now] else []) @ allowed_times key calls l')"

section \<open>How many calls an interval sees\<close>

text \<open>
  A bound on the calls still to be let through in the interval from \<open>a\<close> of the window's length,
  from the state of the key's window at a time \<open>now\<close>.
\<close>

definition budget :: "nat \<Rightarrow> rat \<Rightarrow> rat \<Rightarrow> rat \<Rightarrow> (nat \<times> rat) option \<Rightarrow> nat" where
  "budget m w a now st =
     (case st of
        None \<Rightarrow> if a \<le> now then m else 2 * m
      | Some (n, start) \<Rightarrow> if a \<le> start then m - n else if a < start + w then 2 * m - n else 2 * m)"

definition window_ok :: "nat \<Rightarrow> rat \<Rightarrow> (nat \<times> rat) option \<Rightarrow> bool" where
  "window_ok m now st \<longleftrightarrow> (case st of None \<Rightarrow> True | Some (n, start) \<Rightarrow> n \<le> m \<and> start \<le> now)"

lemma allow_params [simp]:
  "rl_max_requests (snd (allow k now l)) = rl_max_requests l" "rl_window (snd (allow k now l)) = rl_window l"
  by (auto simp: allow_def prune_def Let_def split: option.split prod.split)

lemma allow_other:
  assumes "k \<noteq> key"
  shows "rl_counts (snd (allow k now l)) key = rl_counts l key \<or>
    (\<exists>n start. rl_counts l key = Some (n, start) \<and> rl_window l \<le> now - start \<and> rl_counts (snd (allow k now l)) key = None)"
  using assms by (auto simp: allow_def prune_def Let_def split: option.splits prod.splits)

lemma budget_other:
  assumes "window_ok m t st" and "t \<le> now" and "now < a + w"
    and "st' = st \<or> (\<exists>n start. st = Some (n, start) \<and> w \<le> now - start \<and> st' = None)"
  shows "budget m w a now st' \<le> budget m w a t st" and "window_ok m now st'"
  using assms by (auto simp: budget_def window_ok_def split: option.splits)

lemma allow_key:
  assumes ok: "window_ok (rl_max_requests l) t (rl_counts l key)" and t: "t \<le> now" "now < a + rl_window l" and w: "0 < rl_window l"
  defines "l' \<equiv> snd (allow key now l)"
  shows "(if fst (allow key now l) \<and> a \<le> now then 1 else 0) + budget (rl_max_requests l) (rl_window l) a now (rl_counts l' key)
      \<le> budget (rl_max_requests l) (rl_window l) a t (rl_counts l key)"
    and "window_ok (rl_max_requests l) now (rl_counts l' key)"
  using assms
  by (auto simp: l'_def allow_def prune_def budget_def window_ok_def Let_def split: option.splits prod.splits if_splits)

lemma none_after:
  "sorted (map snd calls) \<Longrightarrow> \<forall>c \<in> set calls. b \<le> snd c \<Longrightarrow> filter (\<lambda>t. a \<le> t \<and> t < b) (allowed_times key calls l) = []"
  by (induction calls arbitrary: l) (auto simp: split_def Let_def)

lemma allowed_within_budget:
  assumes "sorted (map snd calls)" and "\<forall>c \<in> set calls. t \<le> snd c" and "0 < rl_window l"
    and "window_ok (rl_max_requests l) t (rl_counts l key)"
  shows "length (filter (\<lambda>x. a \<le> x \<and> x < a + rl_window l) (allowed_times key calls l))
    \<le> budget (rl_max_requests l) (rl_window l) a t (rl_counts l key)"
  using assms
proof (induction calls arbitrary: l t)
  case Nil
  then show ?case by simp
next
  case (Cons c calls)
  obtain k now where c: "c = (k, now)" by (cases c)
  let ?l = "snd (allow k now l)"
  have t: "t \<le> now" and later: "\<forall>c \<in> set calls. now \<le> snd c" "sorted (map snd calls)"
    using Cons.prems(1,2) by (auto simp: c)
  show ?case
  proof (cases "now < a + rl_window l")
    case False
    have "filter (\<lambda>x. a \<le> x \<and> x < a + rl_window l) (allowed_times key (c # calls) l) = []"
      by (rule none_after [OF Cons.prems(1)]) (use False later in \<open>force simp: c\<close>)
    then show ?thesis by simp
  next
    case True
    show ?thesis
    proof (cases "k = key")
      case k: True
      note step = allow_key [OF Cons.prems(4) t True Cons.prems(3)]
      have "length (filter (\<lambda>x. a \<le> x \<and> x < a + rl_window l) (allowed_times key calls ?l))
          \<le> budget (rl_max_requests l) (rl_window l) a now (rl_counts ?l key)"
        using Cons.IH [of now ?l] later Cons.prems(3) step(2) by (simp add: k)
      then show ?thesis
        using step(1) True by (auto simp: c k split_def Let_def split: if_splits)
    next
      case False
      note other = budget_other [OF Cons.prems(4) t True allow_other [OF False, of now l]]
      have "length (filter (\<lambda>x. a \<le> x \<and> x < a + rl_window l) (allowed_times key calls ?l))
          \<le> budget (rl_max_requests l) (rl_window l) a now (rl_counts ?l key)"
        using Cons.IH [of now ?l] later Cons.prems(3) other(2) by simp
      then show ?thesis using other(1) False by (simp add: c split_def Let_def)
    qed
  qed
qed

section \<open>Fixed windows\<close>

text \<open>
  The policy, on the times at which one key calls: the first call opens a window of length \<open>w\<close>,
  of whose calls the first \<open>m\<close> pass; the first call after its end opens the next window.
\<close>

function fixed_windows :: "nat \<Rightarrow> rat \<Rightarrow> rat list \<Rightarrow> rat list" where
  "fixed_windows m w [] = []"
| "fixed_windows m w (t # ts) =
     take m (t # takeWhile (\<lambda>x. x < t + w) ts) @ fixed_windows m w (dropWhile (\<lambda>x. x < t + w) ts)"
  by pat_completeness auto

termination
  by (relation "measure (\<lambda>(m, w, ts). length ts)") (auto intro: le_imp_less_Suc length_dropWhile_le)

definition calls_of :: "string \<Rightarrow> (string \<times> rat) list \<Rightarrow> rat list" where
  "calls_of key calls = map snd (filter (\<lambda>c. fst c = key) calls)"

lemma calls_of_simps [simp]:
  "calls_of key [] = []" "calls_of key ((k, t) # calls) = (if k = key then [t] else []) @ calls_of key calls"
  by (simp_all add: calls_of_def)

text \<open>What passes from a given state of the key's window on.\<close>

definition windows_from :: "nat \<Rightarrow> rat \<Rightarrow> (nat \<times> rat) option \<Rightarrow> rat list \<Rightarrow> rat list" where
  "windows_from m w st ts =
     (case st of
        None \<Rightarrow> fixed_windows m w ts
      | Some (n, start) \<Rightarrow>
          take (m - n) (takeWhile (\<lambda>x. x < start + w) ts) @ fixed_windows m w (dropWhile (\<lambda>x. x < start + w) ts))"

lemma window_over:
  assumes "start + w \<le> now" and "\<forall>x \<in> set ts. now \<le> (x :: rat)"
  shows "takeWhile (\<lambda>x. x < start + w) ts = [] \<and> dropWhile (\<lambda>x. x < start + w) ts = ts"
  using assms by (cases ts) auto

lemma windows_from_other:
  assumes "st' = st \<or> (\<exists>n start. st = Some (n, start) \<and> w \<le> now - start \<and> st' = None)"
    and "\<forall>x \<in> set ts. now \<le> x"
  shows "windows_from m w st' ts = windows_from m w st ts"
  using assms(1)
proof (elim disjE exE conjE)
  fix n start
  assume st: "st = Some (n, start)" "w \<le> now - start" "st' = None"
  then have "start + w \<le> now" by simp
  from window_over [OF this assms(2)] st show ?thesis by (simp add: windows_from_def)
qed simp

lemma windows_from_key:
  assumes ok: "window_ok (rl_max_requests l) t (rl_counts l key)" and t: "t \<le> now" and w: "0 < rl_window l"
    and later: "\<forall>x \<in> set ts. now \<le> x"
  shows "(if fst (allow key now l) then [now] else []) @
      windows_from (rl_max_requests l) (rl_window l) (rl_counts (snd (allow key now l)) key) ts =
    windows_from (rl_max_requests l) (rl_window l) (rl_counts l key) (now # ts)"
proof -
  have take_Cons: "take (m - n) (x # xs) = (if m \<le> n then [] else x # take (m - Suc n) xs)" for m n and x :: rat and xs
    by (cases "m - n") (auto simp: Suc_diff_Suc [symmetric])
  show ?thesis
    using w take_Cons [of "rl_max_requests l" 0]
    by (auto simp: allow_def prune_def windows_from_def take_Cons Let_def split: option.splits prod.splits if_splits)
qed

lemma allow_window_ok:
  assumes "window_ok (rl_max_requests l) t (rl_counts l key)" and "t \<le> now"
  shows "window_ok (rl_max_requests l) now (rl_counts (snd (allow k now l)) key)"
  using assms
  by (cases "k = key") (auto simp: allow_def prune_def window_ok_def Let_def split: option.splits prod.splits if_splits)

lemma allowed_in_windows:
  assumes "sorted (map snd calls)" and "\<forall>c \<in> set calls. t \<le> snd c" and "0 < rl_window l"
    and "window_ok (rl_max_requests l) t (rl_counts l key)"
  shows "allowed_times key calls l = windows_from (rl_max_requests l) (rl_window l) (rl_counts l key) (calls_of key calls)"
  using assms
proof (induction calls arbitrary: l t)
  case Nil
  then show ?case by (simp add: windows_from_def split: option.split)
next
  case (Cons c calls)
  obtain k now where c: "c = (k, now)" by (cases c)
  let ?l = "snd (allow k now l)"
  have t: "t \<le> now" and later: "\<forall>c \<in> set calls. now \<le> snd c" "sorted (map snd calls)"
    using Cons.prems(1,2) by (auto simp: c)
  then have times: "\<forall>x \<in> set (calls_of key calls). now \<le> x" by (auto simp: calls_of_def)
  have IH: "allowed_times key calls ?l = windows_from (rl_max_requests l) (rl_window l) (rl_counts ?l key) (calls_of key calls)"
    using Cons.IH [of now ?l] later Cons.prems(3) allow_window_ok [OF Cons.prems(4) t] by simp
  show ?case
  proof (cases "k = key")
    case True
    then show ?thesis
      using IH windows_from_key [OF Cons.prems(4) t Cons.prems(3) times] by (simp add: c split_def Let_def)
  next
    case False
    then show ?thesis
      using IH windows_from_other [OF allow_other [OF False] times] by (simp add: c split_def Let_def)
  qed
qed

section \<open>The properties\<close>

text \<open>
  C19. The rate limiter, called at the times of a clock that does not go back and from no window
  of the key, implements fixed windows: whatever the calls for other keys prune, it lets through
  exactly the first calls, up to its maximum, of each window that a call of the key opens.
  Therefore an interval of one window's length sees at most the maximum when it starts no later
  than all calls, and at most twice the maximum wherever it starts.
\<close>

theorem limiter_bound:
  assumes "sorted (map snd calls)" and "\<forall>c \<in> set calls. t \<le> snd c" and "0 < rl_window l" and "rl_counts l key = None"
  shows "allowed_times key calls l = fixed_windows (rl_max_requests l) (rl_window l) (calls_of key calls) \<and>
    length (filter (\<lambda>x. a \<le> x \<and> x < a + rl_window l) (allowed_times key calls l))
      \<le> (if a \<le> t then 1 else 2) * rl_max_requests l"
proof
  have ok: "window_ok (rl_max_requests l) t (rl_counts l key)" using assms(4) by (simp add: window_ok_def)
  show "allowed_times key calls l = fixed_windows (rl_max_requests l) (rl_window l) (calls_of key calls)"
    using allowed_in_windows [OF assms(1-3) ok] assms(4) by (simp add: windows_from_def)
  show "length (filter (\<lambda>x. a \<le> x \<and> x < a + rl_window l) (allowed_times key calls l))
      \<le> (if a \<le> t then 1 else 2) * rl_max_requests l"
    using allowed_within_budget [OF assms(1-3) ok, of a] assms(4) by (simp add: budget_def split: if_splits)
qed

text \<open>
  The canonical form of a phone number is canonical: it has only digits, normalising it
  again changes nothing, and the national, the international and a separated way of writing a
  subscriber number have the same form.
\<close>

lemma normalize_canonical:
  "normalize_ke_msisdn (normalize_ke_msisdn s) = normalize_ke_msisdn s \<and>
   list_all is_digit (normalize_ke_msisdn s) \<and>
   normalize_ke_msisdn (''+254'' @ x) = ''254'' @ digits_of x \<and>
   normalize_ke_msisdn (''0'' @ x) = ''254'' @ digits_of x \<and>
   normalize_ke_msisdn (digits_of x) = normalize_ke_msisdn x"
proof (intro conjI)
  show "normalize_ke_msisdn (normalize_ke_msisdn s) = normalize_ke_msisdn s"
    unfolding normalize_ke_msisdn_def [of "normalize_ke_msisdn s"] normalize_only_digits
    by (simp add: normalize_ke_msisdn_def Let_def)
  show "list_all is_digit (normalize_ke_msisdn s)"
    using normalize_only_digits [of s] unfolding digits_of_def filter_id_conv list_all_iff .
  show "normalize_ke_msisdn (''+254'' @ x) = ''254'' @ digits_of x" "normalize_ke_msisdn (''0'' @ x) = ''254'' @ digits_of x"
    by (simp_all add: normalize_ke_msisdn_def is_digit_def less_eq_char_def)
  show "normalize_ke_msisdn (digits_of x) = normalize_ke_msisdn x" by (simp add: normalize_ke_msisdn_def)
qed

text \<open>A limiter of two calls per minute: six calls in a burst around the end of a window.\<close>

definition demo_limiter :: limiter where
  "demo_limiter = \<lparr>rl_max_requests = 2, rl_window = 60, rl_counts = (\<lambda>_. None)\<rparr>"

definition burst :: "(string \<times> rat) list" where
  "burst = map (\<lambda>t. (''k'', t)) [0, 50, 51, 60, 61, 62]"

lemma burst_times: "allowed_times ''k'' burst demo_limiter = [0, 50, 60, 61]"
  by (simp add: burst_def demo_limiter_def allow_def prune_def Let_def)

text \<open>Two windows of two calls each; an interval across their border sees three of them.\<close>

theorem limiter_bound_witness:
  "allowed_times ''k'' burst demo_limiter = fixed_windows 2 60 [0, 50, 51, 60, 61, 62] \<and>
   fixed_windows 2 60 [0, 50, 51, 60, 61, 62] = [0, 50, 60, 61] \<and>
   length (filter (\<lambda>x. 50 \<le> x \<and> x < 110) (allowed_times ''k'' burst demo_limiter)) \<le> 4"
proof -
  have "allowed_times ''k'' burst demo_limiter =
      fixed_windows (rl_max_requests demo_limiter) (rl_window demo_limiter) (calls_of ''k'' burst) \<and>
    length (filter (\<lambda>x. 50 \<le> x \<and> x < 50 + rl_window demo_limiter) (allowed_times ''k'' burst demo_limiter))
      \<le> (if 50 \<le> (0::rat) then 1 else 2) * rl_max_requests demo_limiter"
    by (rule limiter_bound) (simp_all add: burst_def demo_limiter_def)
  then show ?thesis by (simp add: demo_limiter_def burst_def calls_of_def)
qed

end
