(* ===== verification/Governance.thy ===== *)
theory Governance
  imports Ledger Fees Policies
begin

text \<open>
  Chamas, memberships and roles (\<open>app/services/chama.py\<close>, \<open>app/services/membership.py\<close>,
  \<open>app/services/role.py\<close> and the repositories they use): who belongs to a Chama, under which
  number and with which roles. Membership numbers come from a sequence row per Chama; the
  unique constraints back it up. The password hash (\<open>pwdlib\<close>) is a parameter \<open>hash\<close> of the
  definitions, a function of a salt and the password; the id that is free next stands for the
  salt.
\<close>

section \<open>Requests\<close>

record member_details =
  md_first_name :: string
  md_last_name :: string
  md_phone_number :: string
  md_government_id :: string
  md_email :: "string option"

text \<open>\<open>MemberDetails\<close>: the field constraints, then the canonical phone number.\<close>

definition between :: "nat \<Rightarrow> nat \<Rightarrow> string \<Rightarrow> bool" where
  "between lo hi s \<longleftrightarrow> lo \<le> length s \<and> length s \<le> hi"

definition parse_member_details :: "member_details \<Rightarrow> member_details option" where
  "parse_member_details d =
     (if between 1 100 (md_first_name d) \<and> between 1 100 (md_last_name d) \<and>
         between 3 20 (md_phone_number d) \<and> between 1 50 (md_government_id d)
      then Some (d\<lparr>md_phone_number := normalize_ke_msisdn (md_phone_number d)\<rparr>) else None)"

text \<open>
  \<open>MembershipCreate\<close>: exactly one of an existing member and the details of a new one, whose
  email is required (\<open>MemberAccountDetails\<close>).
\<close>

datatype member_source = ExistingMember uuid | NewMember member_details string

definition parse_membership_create ::
  "uuid option \<Rightarrow> (member_details \<times> string) option \<Rightarrow> member_source option" where
  "parse_membership_create member_id details =
     (case (member_id, details) of
        (Some i, None) \<Rightarrow> Some (ExistingMember i)
      | (None, Some (m, email)) \<Rightarrow> map_option (\<lambda>m. NewMember m email) (parse_member_details m)
      | _ \<Rightarrow> None)"

record chama_create =
  cc_name :: string
  cc_description :: "string option"
  cc_registration_fee_amount :: money
  cc_member :: "member_details option"

record chama_update =
  up_name :: "string option"
  up_description :: "string option"
  up_registration_fee_amount :: "money option"
  up_status :: "chama_status option"

section \<open>Repositories\<close>

subsection \<open>Members\<close>

definition member_check :: "db \<Rightarrow> member \<Rightarrow> string option" where
  "member_check d m =
     (if list_ex (\<lambda>e. mb_id e = mb_id m) (members d) then Some ''members_pkey''
      else if list_ex (\<lambda>e. mb_phone_number e = mb_phone_number m) (members d)
      then Some ''ix_members_phone_number''
      else if list_ex (\<lambda>e. mb_government_id e = mb_government_id m) (members d)
      then Some ''ix_members_government_id'' else None)"

definition get_member_by_id :: "uuid \<Rightarrow> member option act" where
  "get_member_by_id i = get_by_key members mb_id i"

definition create_member :: "member_details \<Rightarrow> member act" where
  "create_member details =
     bind uuid4 (\<lambda>i.
     let m = \<lparr>mb_id = i, mb_first_name = md_first_name details, mb_last_name = md_last_name details,
              mb_phone_number = md_phone_number details, mb_government_id = md_government_id details\<rparr>
     in bind (insert_row member_check (\<lambda>r d. d\<lparr>members := members d @ [r]\<rparr>) m) (\<lambda>_. ret m))"

definition phone_exists :: "string \<Rightarrow> bool act" where
  "phone_exists phone_number =
     scalar (\<lambda>d. list_ex (\<lambda>m. mb_phone_number m \<in> set (phone_variants phone_number)) (members d))"

definition government_id_exists :: "string \<Rightarrow> bool act" where
  "government_id_exists government_id =
     scalar (\<lambda>d. list_ex (\<lambda>m. mb_government_id m = government_id) (members d))"

definition find_by_identity :: "string \<Rightarrow> string \<Rightarrow> member option act" where
  "find_by_identity phone_number government_id =
     select_first members (\<lambda>m. mb_phone_number m \<in> set (phone_variants phone_number) \<and>
                                mb_government_id m = government_id)"

subsection \<open>Users\<close>

definition user_check :: "db \<Rightarrow> user \<Rightarrow> string option" where
  "user_check d u =
     (if list_ex (\<lambda>e. us_id e = us_id u) (users d) then Some ''users_pkey''
      else if list_ex (\<lambda>e. us_email e = us_email u) (users d) then Some ''ix_users_email''
      else if us_member_id u \<noteq> None \<and> list_ex (\<lambda>e. us_member_id e = us_member_id u) (users d)
      then Some ''users_member_id_key'' else None)"

definition get_user_by_email :: "string \<Rightarrow> user option act" where
  "get_user_by_email email =
     (if email = '''' then ret None else select_first users (\<lambda>u. us_email u = lower email))"

definition create_user :: "string \<Rightarrow> string \<Rightarrow> user act" where
  "create_user email password_hash =
     bind uuid4 (\<lambda>i.
     let u = \<lparr>us_id = i, us_email = lower email, us_password_hash = password_hash, us_is_active = True,
              us_must_change_password = False, us_member_id = None\<rparr>
     in bind (insert_row user_check (\<lambda>r d. d\<lparr>users := users d @ [r]\<rparr>) u) (\<lambda>_. ret u))"

subsection \<open>Chamas\<close>

definition chama_check :: "db \<Rightarrow> chama \<Rightarrow> string option" where
  "chama_check d c =
     (if list_ex (\<lambda>e. ch_id e = ch_id c) (chamas d) then Some ''chamas_pkey''
      else if \<not> 0 \<le> ch_registration_fee_amount c
      then Some ''ck_chamas_registration_fee_amount_non_negative'' else None)"

definition insert_chama :: "string \<Rightarrow> string option \<Rightarrow> money \<Rightarrow> chama_status \<Rightarrow> uuid \<Rightarrow> chama act" where
  "insert_chama name description fee status created_by =
     bind uuid4 (\<lambda>i.
     let c = \<lparr>ch_id = i, ch_name = name, ch_description = description, ch_registration_fee_amount = fee,
              ch_status = status, ch_created_by_user_id = created_by\<rparr>
     in bind (insert_row chama_check (\<lambda>r d. d\<lparr>chamas := chamas d @ [r]\<rparr>) c) (\<lambda>_. ret c))"

subsection \<open>Memberships, numbers and roles\<close>

definition membership_check :: "db \<Rightarrow> membership \<Rightarrow> string option" where
  "membership_check d m =
     (if list_ex (\<lambda>e. ms_id e = ms_id m) (memberships d) then Some ''memberships_pkey''
      else if list_ex (\<lambda>e. ms_chama_id e = ms_chama_id m \<and> ms_member_id e = ms_member_id m) (memberships d)
      then Some ''uq_memberships_chama_member''
      else if list_ex (\<lambda>e. ms_chama_id e = ms_chama_id m \<and>
                            ms_membership_number e = ms_membership_number m) (memberships d)
      then Some ''uq_memberships_chama_number'' else None)"

definition sequence_check :: "db \<Rightarrow> membership_sequence \<Rightarrow> string option" where
  "sequence_check d q =
     (if list_ex (\<lambda>e. sq_chama_id e = sq_chama_id q) (sequences d)
      then Some ''membership_sequences_chama_id_key'' else None)"

definition get_by_chama_and_member :: "uuid \<Rightarrow> uuid \<Rightarrow> membership option act" where
  "get_by_chama_and_member chama_id member_id =
     select_first memberships (\<lambda>m. ms_chama_id m = chama_id \<and> ms_member_id m = member_id)"

definition get_by_number :: "uuid \<Rightarrow> int \<Rightarrow> membership option act" where
  "get_by_number chama_id membership_number =
     select_first memberships (\<lambda>m. ms_chama_id m = chama_id \<and> ms_membership_number m = membership_number)"

definition memberships_of_chama :: "uuid \<Rightarrow> nat option \<Rightarrow> nat \<Rightarrow> membership list act" where
  "memberships_of_chama chama_id limit offset =
     bind (select_all memberships (\<lambda>m. ms_chama_id m = chama_id)) (\<lambda>ms.
     ret (page limit offset (sort_key ms_membership_number ms)))"

definition set_next_number :: "uuid \<Rightarrow> int \<Rightarrow> unit act" where
  "set_next_number chama_id n =
     change (sequences_update (upd_row sq_chama_id chama_id (sq_next_number_update (\<lambda>_. n))))"

definition allocate_membership_number :: "uuid \<Rightarrow> int act" where
  "allocate_membership_number chama_id =
     bind (select_first sequences (\<lambda>q. sq_chama_id q = chama_id)) (\<lambda>found.
     case found of
       None \<Rightarrow>
         bind (insert_row sequence_check (\<lambda>r d. d\<lparr>sequences := sequences d @ [r]\<rparr>)
                 \<lparr>sq_chama_id = chama_id, sq_next_number = 1\<rparr>) (\<lambda>_.
         bind (set_next_number chama_id 2) (\<lambda>_.
         bind flush (\<lambda>_. ret 1)))
     | Some q \<Rightarrow>
         bind (set_next_number chama_id (sq_next_number q + 1)) (\<lambda>_.
         bind flush (\<lambda>_. ret (sq_next_number q))))"

definition insert_membership :: "uuid \<Rightarrow> uuid \<Rightarrow> int \<Rightarrow> membership act" where
  "insert_membership chama_id member_id number =
     bind uuid4 (\<lambda>i.
     bind (asks local_now) (\<lambda>now.
     let m = \<lparr>ms_id = i, ms_chama_id = chama_id, ms_member_id = member_id, ms_membership_number = number,
              ms_status = MS_ACTIVE, ms_joined_at = now\<rparr>
     in bind (insert_row membership_check (\<lambda>r d. d\<lparr>memberships := memberships d @ [r]\<rparr>) m) (\<lambda>_. ret m)))"

definition get_role_by_name :: "role_name \<Rightarrow> role_name option act" where
  "get_role_by_name name = select_first roles (\<lambda>r. role_value r = role_value name)"

definition membership_role_check :: "db \<Rightarrow> membership_role \<Rightarrow> string option" where
  "membership_role_check d mr =
     (if list_ex (\<lambda>e. mr_membership_id e = mr_membership_id mr \<and> mr_role e = mr_role mr) (membership_roles d)
      then Some ''uq_membership_roles_membership_role'' else None)"

text \<open>\<open>role.id\<close> of a role that is not in the table raises \<open>AttributeError\<close>.\<close>

definition add_role :: "uuid \<Rightarrow> role_name option \<Rightarrow> unit act" where
  "add_role membership_id role =
     (case role of
        None \<Rightarrow> raise AttributeError
      | Some r \<Rightarrow> insert_row membership_role_check (\<lambda>r d. d\<lparr>membership_roles := membership_roles d @ [r]\<rparr>)
                    \<lparr>mr_membership_id = membership_id, mr_role = r\<rparr>)"

definition drop_role :: "uuid \<Rightarrow> role_name \<Rightarrow> bool act" where
  "drop_role membership_id role =
     bind (select_first membership_roles (\<lambda>mr. mr_membership_id mr = membership_id \<and> mr_role mr = role))
       (\<lambda>link.
     case link of
       None \<Rightarrow> ret False
     | Some mr \<Rightarrow>
         bind (change (membership_roles_update (remove1 mr))) (\<lambda>_.
         bind flush (\<lambda>_. ret True)))"

text \<open>The object a handler returns, with the attributes it has by then.\<close>

definition reload_membership :: "uuid \<Rightarrow> membership act" where
  "reload_membership i =
     bind (get_by_key memberships ms_id i) (\<lambda>found.
     case found of None \<Rightarrow> raise ValueError | Some m \<Rightarrow> ret m)"

definition reload_chama :: "uuid \<Rightarrow> chama act" where
  "reload_chama i =
     bind (get_by_key chamas ch_id i) (\<lambda>found.
     case found of None \<Rightarrow> raise ValueError | Some c \<Rightarrow> ret c)"

section \<open>Memberships\<close>

definition MAX_NUMBER_RETRIES :: nat where "MAX_NUMBER_RETRIES = 5"

definition CHAMA_NUMBER_CONSTRAINT :: string where
  "CHAMA_NUMBER_CONSTRAINT = ''uq_memberships_chama_number''"

definition CHAMA_MEMBER_CONSTRAINT :: string where
  "CHAMA_MEMBER_CONSTRAINT = ''uq_memberships_chama_member''"

text \<open>\<open>try: m except IntegrityError as exc: h exc\<close>, with the name of the constraint.\<close>

definition catch_constraint :: "'a act \<Rightarrow> (string \<Rightarrow> 'a act) \<Rightarrow> 'a act" where
  "catch_constraint m h s =
     (case m s of (Inl (IntegrityError c), s') \<Rightarrow> h c s' | r \<Rightarrow> r)"

definition list_memberships :: "user \<Rightarrow> uuid \<Rightarrow> nat option \<Rightarrow> nat \<Rightarrow> membership list act" where
  "list_memberships actor chama_id limit offset =
     bind (get_chama_or_404 chama_id) (\<lambda>chama.
     bind (authorize_chama_access actor (ch_id chama)) (\<lambda>caller.
     bind (has_any_role caller LEADERSHIP_ROLES) (\<lambda>leader.
     if \<not> leader
     then ret (case limit of None \<Rightarrow> drop offset [caller] | Some l \<Rightarrow> take l (drop offset [caller]))
     else memberships_of_chama (ch_id chama) limit offset)))"

definition provision_member :: "(uuid \<Rightarrow> string \<Rightarrow> string) \<Rightarrow> member_details \<Rightarrow> string \<Rightarrow> member act" where
  "provision_member hash details email =
     bind (phone_exists (md_phone_number details)) (\<lambda>taken.
     bind (ensure (\<not> taken) (ConflictError ''phone_number is already registered to another member'')) (\<lambda>_.
     bind (government_id_exists (md_government_id details)) (\<lambda>taken.
     bind (ensure (\<not> taken) (ConflictError ''government_id is already registered to another member'')) (\<lambda>_.
     bind (get_user_by_email email) (\<lambda>found.
     bind (ensure (found = None) (ConflictError ''email is already registered to another account'')) (\<lambda>_.
     bind (create_member details) (\<lambda>member.
     bind (asks (\<lambda>s. hash (next_uuid s) (md_government_id details))) (\<lambda>password_hash.
     bind (create_user email password_hash) (\<lambda>user.
     bind (change (users_update (upd_row us_id (us_id user)
             (\<lambda>u. u\<lparr>us_member_id := Some (mb_id member), us_must_change_password := True\<rparr>)))) (\<lambda>_.
     ret member))))))))))"

definition resolve_member :: "(uuid \<Rightarrow> string \<Rightarrow> string) \<Rightarrow> member_source \<Rightarrow> member act" where
  "resolve_member hash source =
     (case source of
        ExistingMember i \<Rightarrow>
          bind (get_member_by_id i) (\<lambda>found.
          case found of None \<Rightarrow> raise (NotFoundError ''Member not found'') | Some m \<Rightarrow> ret m)
      | NewMember details email \<Rightarrow>
          bind (find_by_identity (md_phone_number details) (md_government_id details)) (\<lambda>found.
          case found of None \<Rightarrow> provision_member hash details email | Some m \<Rightarrow> ret m))"

definition create_membership_once ::
  "(uuid \<Rightarrow> string \<Rightarrow> string) \<Rightarrow> uuid \<Rightarrow> member_source \<Rightarrow> membership act" where
  "create_membership_once hash chama_id source =
     bind (resolve_member hash source) (\<lambda>member.
     bind (get_by_chama_and_member chama_id (mb_id member)) (\<lambda>found.
     bind (ensure (found = None) (ConflictError ''This member already belongs to the Chama'')) (\<lambda>_.
     bind (allocate_membership_number chama_id) (\<lambda>number.
     bind (insert_membership chama_id (mb_id member) number) (\<lambda>m.
     bind (get_role_by_name MEMBER) (\<lambda>default_member.
     bind (add_role (ms_id m) default_member) (\<lambda>_.
     bind (get_chama_or_404 chama_id) (\<lambda>chama.
     bind (create_fee (ms_id m) (ch_registration_fee_amount chama)) (\<lambda>_.
     bind commit (\<lambda>_. ret m))))))))))"

text \<open>
  The handler of an \<open>IntegrityError\<close>. \<open>classify_integrity_error\<close> is the constraint's name, which
  the driver's diagnostics carry.
\<close>

definition integrity_message :: "string \<Rightarrow> string" where
  "integrity_message name =
     (if name \<in> {CHAMA_MEMBER_CONSTRAINT, ''ix_members_phone_number'', ''ix_members_government_id'',
                  ''ix_users_email''}
      then if name = ''ix_users_email'' then ''email is already registered to another account''
           else ''Duplicate member or membership record''
      else ''Could not create membership due to a data conflict'')"

text \<open>\<open>for attempt in range(MAX_NUMBER_RETRIES)\<close>, by the number of attempts left.\<close>

fun membership_attempts ::
  "nat \<Rightarrow> (uuid \<Rightarrow> string \<Rightarrow> string) \<Rightarrow> user \<Rightarrow> uuid \<Rightarrow> member_source \<Rightarrow> membership act" where
  "membership_attempts 0 hash actor chama_id source = raise ValueError"
| "membership_attempts (Suc n) hash actor chama_id source =
     catch_constraint
       (bind (create_membership_once hash chama_id source) (\<lambda>m.
        bind (audit_record_commit (Some (us_id actor)) (Some chama_id) MEMBERSHIP_CREATE ''membership''
                (Some (ms_id m)) (Some [(''member_id'', JId (ms_member_id m))]) True) (\<lambda>_.
        ret m)))
       (\<lambda>name. bind rollback (\<lambda>_.
          if name = CHAMA_NUMBER_CONSTRAINT \<and> 0 < n then membership_attempts n hash actor chama_id source
          else raise (ConflictError (integrity_message name))))"

definition create_membership ::
  "(uuid \<Rightarrow> string \<Rightarrow> string) \<Rightarrow> user \<Rightarrow> uuid \<Rightarrow> member_source \<Rightarrow> membership act" where
  "create_membership hash actor chama_id source =
     bind (get_chama_or_404 chama_id) (\<lambda>chama.
     bind (authorize_chama_write actor (ch_id chama)) (\<lambda>am.
     bind (require_roles am LEADERSHIP_ROLES) (\<lambda>_.
     membership_attempts MAX_NUMBER_RETRIES hash actor (ch_id chama) source)))"

definition update_membership_status :: "user \<Rightarrow> uuid \<Rightarrow> uuid \<Rightarrow> membership_status \<Rightarrow> membership act" where
  "update_membership_status actor chama_id membership_id status =
     bind (get_chama_or_404 chama_id) (\<lambda>chama.
     bind (authorize_chama_write actor (ch_id chama)) (\<lambda>am.
     bind (require_roles am [CHAIRPERSON]) (\<lambda>_.
     bind (get_target_membership (ch_id chama) membership_id) (\<lambda>m.
     bind (change (memberships_update (upd_row ms_id (ms_id m) (ms_status_update (\<lambda>_. status))))) (\<lambda>_.
     bind commit (\<lambda>_.
     bind (audit_record_commit (Some (us_id actor)) (Some (ch_id chama)) MEMBERSHIP_STATUS_CHANGE ''membership''
       (Some (ms_id m))
       (Some [(''from'', JStr (membership_status_value (ms_status m))),
              (''to'', JStr (membership_status_value status)), (''member_id'', JId (ms_member_id m))]) True) (\<lambda>_.
     reload_membership (ms_id m))))))))"

section \<open>Roles\<close>

definition NON_CHAMA_ROLES :: "role_name list" where
  "NON_CHAMA_ROLES = [PLATFORM_ADMIN]"

definition list_chama_roles :: "user \<Rightarrow> uuid \<Rightarrow> role_name list act" where
  "list_chama_roles actor chama_id =
     bind (get_chama_or_404 chama_id) (\<lambda>chama.
     bind (authorize_chama_access actor (ch_id chama)) (\<lambda>_.
     bind (select_all roles (\<lambda>_. True)) (\<lambda>rs.
     ret (filter (\<lambda>r. r \<notin> set NON_CHAMA_ROLES) (sort_key role_value rs)))))"

text \<open>\<open>_has_chairperson\<close>: each membership is loaded with its roles.\<close>

definition has_chairperson :: "uuid \<Rightarrow> uuid \<Rightarrow> bool act" where
  "has_chairperson chama_id exclude =
     bind (memberships_of_chama chama_id None 0) (\<lambda>ms.
     asks (\<lambda>s. list_ex (\<lambda>m. ms_id m \<noteq> exclude \<and> holds_role (rows s) (ms_id m) CHAIRPERSON) ms))"

definition assign_role :: "user \<Rightarrow> uuid \<Rightarrow> uuid \<Rightarrow> role_name \<Rightarrow> membership act" where
  "assign_role actor chama_id membership_id role =
     bind (get_chama_or_404 chama_id) (\<lambda>chama.
     bind (authorize_chama_write actor (ch_id chama)) (\<lambda>am.
     bind (require_role am CHAIRPERSON) (\<lambda>_.
     bind (get_target_membership (ch_id chama) membership_id) (\<lambda>target.
     bind (ensure (role \<notin> set NON_CHAMA_ROLES)
       (StateError ''PLATFORM_ADMIN is a global grant and cannot be assigned inside a Chama'')) (\<lambda>_.
     bind (ensure (role \<noteq> MEMBER)
       (StateError ''The MEMBER role is assigned automatically and cannot be assigned manually'')) (\<lambda>_.
     bind (has_any_role target LEADERSHIP_ROLES) (\<lambda>leader.
     bind (ensure (\<not> leader) (StateError ''This membership already holds a leadership role'')) (\<lambda>_.
     bind (if role = CHAIRPERSON then has_chairperson (ch_id chama) (ms_id target) else ret False) (\<lambda>other.
     bind (ensure (\<not> other) (StateError ''This Chama already has a chairperson'')) (\<lambda>_.
     bind (get_role_by_name role) (\<lambda>role_object.
     bind (ensure (role_object \<noteq> None) (NotFoundError ''Role not found'')) (\<lambda>_.
     bind (catch_integrity
             (bind (add_role (ms_id target) role_object) (\<lambda>_. commit))
             (bind rollback (\<lambda>_. raise (ConflictError ''Role is already assigned to this membership'')))) (\<lambda>_.
     bind (audit_record_commit (Some (us_id actor)) (Some (ch_id chama)) ROLE_ASSIGN ''membership''
       (Some (ms_id target)) (Some [(''role'', JStr (role_value role))]) True) (\<lambda>_.
     reload_membership (ms_id target)))))))))))))))"

definition remove_role :: "user \<Rightarrow> uuid \<Rightarrow> uuid \<Rightarrow> role_name \<Rightarrow> membership act" where
  "remove_role actor chama_id membership_id role =
     bind (get_chama_or_404 chama_id) (\<lambda>chama.
     bind (authorize_chama_write actor (ch_id chama)) (\<lambda>am.
     bind (require_role am CHAIRPERSON) (\<lambda>_.
     bind (get_target_membership (ch_id chama) membership_id) (\<lambda>target.
     bind (ensure (role \<notin> set NON_CHAMA_ROLES)
       (StateError ''PLATFORM_ADMIN is a global grant and cannot be removed inside a Chama'')) (\<lambda>_.
     bind (ensure (role \<noteq> MEMBER)
       (StateError ''The MEMBER role is assigned automatically and cannot be removed'')) (\<lambda>_.
     bind (get_role_by_name role) (\<lambda>role_object.
     case role_object of
       None \<Rightarrow> raise (NotFoundError ''Role not found'')
     | Some r \<Rightarrow>
         bind (drop_role (ms_id target) r) (\<lambda>held.
         bind (ensure held (StateError ''This membership does not hold the requested role'')) (\<lambda>_.
         bind commit (\<lambda>_.
         bind (audit_record_commit (Some (us_id actor)) (Some (ch_id chama)) ROLE_REMOVE ''membership''
           (Some (ms_id target)) (Some [(''role'', JStr (role_value role))]) True) (\<lambda>_.
         reload_membership (ms_id target))))))))))))"

section \<open>Chamas\<close>

text \<open>\<open>_create_member\<close> and \<open>_resolve_creator_member\<close> of the Chama service.\<close>

definition create_creator_member :: "member_details \<Rightarrow> member act" where
  "create_creator_member details =
     bind (phone_exists (md_phone_number details)) (\<lambda>taken.
     bind (ensure (\<not> taken) (ConflictError ''phone_number is already registered to another member'')) (\<lambda>_.
     bind (government_id_exists (md_government_id details)) (\<lambda>taken.
     bind (ensure (\<not> taken) (ConflictError ''government_id is already registered to another member'')) (\<lambda>_.
     catch_integrity (create_member details)
       (bind rollback (\<lambda>_. raise (ConflictError ''A member with these identity details already exists'')))))))"

definition resolve_creator_member :: "chama_create \<Rightarrow> member act" where
  "resolve_creator_member data =
     (case cc_member data of
        Some details \<Rightarrow> create_creator_member details
      | None \<Rightarrow> raise (StateError ''Member details are required to create a Chama''))"

definition creator_member :: "user \<Rightarrow> chama_create \<Rightarrow> member act" where
  "creator_member u data =
     (case us_member_id u of
        Some i \<Rightarrow>
          bind (get_member_by_id i) (\<lambda>found.
          case found of
            None \<Rightarrow> raise (StateError ''The account's linked member record could not be found'')
          | Some m \<Rightarrow> ret m)
      | None \<Rightarrow>
          bind (resolve_creator_member data) (\<lambda>m.
          bind (change (users_update (upd_row us_id (us_id u) (us_member_id_update (\<lambda>_. Some (mb_id m)))))) (\<lambda>_.
          ret m)))"

definition create_chama :: "user \<Rightarrow> chama_create \<Rightarrow> chama act" where
  "create_chama u data =
     bind (creator_member u data) (\<lambda>member.
     bind (insert_chama (cc_name data) (cc_description data) (cc_registration_fee_amount data) CH_PENDING (us_id u))
       (\<lambda>chama.
     bind (allocate_membership_number (ch_id chama)) (\<lambda>number.
     bind (insert_membership (ch_id chama) (mb_id member) number) (\<lambda>creator_membership.
     bind (get_role_by_name CHAIRPERSON) (\<lambda>chairperson.
     bind (get_role_by_name MEMBER) (\<lambda>default_member.
     bind (add_role (ms_id creator_membership) chairperson) (\<lambda>_.
     bind (add_role (ms_id creator_membership) default_member) (\<lambda>_.
     bind (create_fee (ms_id creator_membership) (ch_registration_fee_amount chama)) (\<lambda>_.
     bind (seed_default_chart_of_accounts (ch_id chama)) (\<lambda>_.
     bind commit (\<lambda>_.
     bind (audit_record_commit (Some (us_id u)) (Some (ch_id chama)) CHAMA_CREATE ''chama'' (Some (ch_id chama))
       (Some [(''name'', JStr (ch_name chama))]) True) (\<lambda>_.
     ret chama))))))))))))"

definition get_chama :: "user \<Rightarrow> uuid \<Rightarrow> chama act" where
  "get_chama actor chama_id =
     bind (get_chama_or_404 chama_id) (\<lambda>chama.
     bind (authorize_chama_access actor chama_id) (\<lambda>_. ret chama))"

text \<open>
  The join with the caller's active memberships; \<open>uq_memberships_chama_member\<close> leaves one row
  per Chama.
\<close>

definition list_my_chamas :: "user \<Rightarrow> chama list act" where
  "list_my_chamas actor =
     (case us_member_id actor of
        None \<Rightarrow> ret []
      | Some member_id \<Rightarrow>
          query (\<lambda>rs os. rev (entities chamas
            (\<lambda>c. list_ex (\<lambda>m. ms_chama_id m = ch_id c \<and> ms_member_id m = member_id \<and> ms_status m = MS_ACTIVE)
                   (memberships rs)) rs os)))"

text \<open>The attributes a request gives, assigned in turn.\<close>

definition apply_update :: "chama_update \<Rightarrow> chama \<Rightarrow> chama" where
  "apply_update data c =
     (let c = (case up_name data of None \<Rightarrow> c | Some n \<Rightarrow> c\<lparr>ch_name := n\<rparr>);
          c = (case up_description data of None \<Rightarrow> c | Some t \<Rightarrow> c\<lparr>ch_description := Some t\<rparr>)
      in case up_registration_fee_amount data of None \<Rightarrow> c | Some a \<Rightarrow> c\<lparr>ch_registration_fee_amount := a\<rparr>)"

definition jstr_opt :: "string option \<Rightarrow> jvalue" where
  "jstr_opt x = (case x of None \<Rightarrow> JNull | Some s \<Rightarrow> JStr s)"

definition update_chama :: "user \<Rightarrow> uuid \<Rightarrow> chama_update \<Rightarrow> chama act" where
  "update_chama actor chama_id data =
     bind (get_chama_or_404 chama_id) (\<lambda>chama.
     bind (authorize_chama_write actor (ch_id chama)) (\<lambda>am.
     bind (require_role am CHAIRPERSON) (\<lambda>_.
     bind (ensure (up_status data = None)
       (StateError ''Only a platform administrator can change a Chama's lifecycle status'')) (\<lambda>_.
     bind (change (chamas_update (upd_row ch_id (ch_id chama) (apply_update data)))) (\<lambda>_.
     bind commit (\<lambda>_.
     bind (audit_record_commit (Some (us_id actor)) (Some (ch_id chama)) CHAMA_UPDATE ''chama'' (Some (ch_id chama))
       (Some [(''name'', jstr_opt (up_name data)), (''description'', jstr_opt (up_description data)),
              (''registration_fee_amount'', case up_registration_fee_amount data of None \<Rightarrow> JNull
                 | Some a \<Rightarrow> JMoney a)]) True) (\<lambda>_.
     reload_chama (ch_id chama))))))))"

end
