(* ===== verification/Governance_Facts.thy ===== *)
theory Governance_Facts
  imports Governance Lifecycle
begin

text \<open>
  What the governance operations do to the session: weakest preconditions of the repositories
  and of the handlers, and the register of a Chama: its memberships with their numbers and
  roles.
\<close>

section \<open>Sessions that only hold uncommitted work\<close>

definition pending :: "db \<Rightarrow> uuid \<Rightarrow> sess \<Rightarrow> sess" where
  "pending d u s = s\<lparr>objs := d, rows := d, next_uuid := u\<rparr>"

lemma pending_simps [simp]:
  "objs (pending d u s) = d" "rows (pending d u s) = d" "next_uuid (pending d u s) = u"
  "durable (pending d u s) = durable s" "local_now (pending d u s) = local_now s"
  "pending e v (pending d u s) = pending e v s" "saved e v (pending d u s) = saved e v s"
  "sync (pending d u s) = pending d u s" "pending e v (sync s) = pending e v s"
  "pending e v (objs_update f s) = pending e v s" "pending e v (rows_update f s) = pending e v s"
  "pending e v (next_uuid_update k s) = pending e v s" "next_uuid_update k (pending d u s) = pending d (k u) s"
  by (simp_all add: pending_def sync_def saved_def)

lemma pending_commit: "(pending d u s)\<lparr>rows := d, durable := d # durable s\<rparr> = saved d u s"
  by (simp add: pending_def saved_def)

definition dirty :: "sess \<Rightarrow> sess \<Rightarrow> bool" where
  "dirty s t \<longleftrightarrow> (\<exists>a b u. t = s\<lparr>objs := a, rows := b, next_uuid := u\<rparr> \<and> next_uuid s \<le> u)"

lemma dirty_refl [simp]: "dirty s s"
  unfolding dirty_def by (intro exI [of _ "objs s"] exI [of _ "rows s"] exI [of _ "next_uuid s"]) simp

lemma dirty_sync [simp]: "dirty s (sync s)"
  unfolding dirty_def by (intro exI [of _ "objs s"] exI [of _ "rows (sync s)"] exI [of _ "next_uuid s"]) (simp add: sync_def)

lemma dirty_update [simp]:
  "next_uuid s \<le> u \<Longrightarrow> dirty s (s\<lparr>objs := a, rows := b, next_uuid := u\<rparr>)"
  "dirty s (s\<lparr>objs := a, rows := b\<rparr>)" "next_uuid s \<le> u \<Longrightarrow> dirty s (s\<lparr>next_uuid := u\<rparr>)"
  "next_uuid s \<le> u \<Longrightarrow> dirty s ((sync s)\<lparr>next_uuid := u\<rparr>)"
proof -
  show one: "next_uuid s \<le> u \<Longrightarrow> dirty s (s\<lparr>objs := a, rows := b, next_uuid := u\<rparr>)" for a b u
    unfolding dirty_def by blast
  show "dirty s (s\<lparr>objs := a, rows := b\<rparr>)" using one [where u = "next_uuid s" and a = a and b = b] by simp
  show "next_uuid s \<le> u \<Longrightarrow> dirty s (s\<lparr>next_uuid := u\<rparr>)" using one [where u = u and a = "objs s" and b = "rows s"] by simp
  show "next_uuid s \<le> u \<Longrightarrow> dirty s ((sync s)\<lparr>next_uuid := u\<rparr>)"
    using one [where u = u and a = "objs s" and b = "rows (sync s)"] by (simp add: sync_def split: if_splits)
qed

lemma dirty_trans: "dirty s t \<Longrightarrow> dirty t v \<Longrightarrow> dirty s v"
  unfolding dirty_def by (elim exE conjE) (simp, metis le_trans)

lemma dirty_durable: "dirty s t \<Longrightarrow> durable t = durable s"
  by (auto simp: dirty_def)

lemma dirty_rollback:
  "clean s \<Longrightarrow> dirty s t \<Longrightarrow> \<exists>u \<ge> next_uuid s. t\<lparr>objs := hd (durable t), rows := hd (durable t)\<rparr> = s\<lparr>next_uuid := u\<rparr>"
  by (auto simp: dirty_def)

lemma dirty_pending [simp]: "next_uuid s \<le> u \<Longrightarrow> dirty s (pending d u s)"
  by (simp add: pending_def)

section \<open>Numbers\<close>

definition next_number :: "db \<Rightarrow> uuid \<Rightarrow> int" where
  "next_number d c = (case find_row sq_chama_id c (sequences d) of None \<Rightarrow> 1 | Some q \<Rightarrow> sq_next_number q)"

definition bump :: "uuid \<Rightarrow> db \<Rightarrow> db" where
  "bump c d =
     (case find_row sq_chama_id c (sequences d) of
        None \<Rightarrow> d\<lparr>sequences := sequences d @ [\<lparr>sq_chama_id = c, sq_next_number = 2\<rparr>]\<rparr>
      | Some q \<Rightarrow> sequences_update (upd_row sq_chama_id c (sq_next_number_update (\<lambda>_. sq_next_number q + 1))) d)"

lemma bump_frame [simp]:
  "memberships (bump c d) = memberships d" "membership_roles (bump c d) = membership_roles d"
  "chamas (bump c d) = chamas d" "users (bump c d) = users d" "members (bump c d) = members d"
  "roles (bump c d) = roles d" "registration_fees (bump c d) = registration_fees d"
  "ledger_accounts (bump c d) = ledger_accounts d" "fee_payments (bump c d) = fee_payments d"
  "platform_roles (bump c d) = platform_roles d"
  by (simp_all add: bump_def split: option.split)

lemma next_number_bump:
  "next_number (bump c d) c' = (if c' = c then next_number d c + 1 else next_number d c')"
  by (auto simp: next_number_def bump_def find_upd_row find_row_append find_row_Cons split: option.split)

lemma sync_then_flushed [simp]: "(sync s)\<lparr>objs := a, rows := b\<rparr> = s\<lparr>objs := a, rows := b\<rparr>"
  by (simp add: sync_def)

lemma wp_allocate_membership_number:
  assumes "sequences (rows s) = sequences (objs s)"
    and "Q (next_number (objs s) c) (pending (bump c (objs s)) (next_uuid s) s)"
  shows "wp (allocate_membership_number c) Q R s"
proof -
  have ents: "first (entities sequences (\<lambda>q. sq_chama_id q = c) (rows (sync s)) (objs s)) =
      find_row sq_chama_id c (sequences (objs s))"
    unfolding find_row_def by (subst entities_flushed) (use assms(1) in \<open>simp_all add: sync_def\<close>)
  show ?thesis
  proof (cases "find_row sq_chama_id c (sequences (objs s))")
    case None
    then have "sequence_check (objs s) \<lparr>sq_chama_id = c, sq_next_number = 1\<rparr> = None"
      by (auto simp: sequence_check_def list_ex_iff find_row_None_iff)
    moreover have "upd_row sq_chama_id c f (sequences (objs s)) = sequences (objs s)" for f
      using None by (simp add: find_row_None_iff upd_row_absent)
    ultimately show ?thesis
      using assms(2) None
      by (simp add: allocate_membership_number_def wp ents set_next_number_def bump_def next_number_def o_def pending_def)
         (simp add: upd_row_def)
  next
    case (Some q)
    then show ?thesis
      using assms(2) by (simp add: allocate_membership_number_def wp ents set_next_number_def bump_def next_number_def pending_def)
  qed
qed

section \<open>Inserted rows\<close>

definition new_membership :: "uuid \<Rightarrow> uuid \<Rightarrow> uuid \<Rightarrow> int \<Rightarrow> datetime \<Rightarrow> membership" where
  "new_membership i c mid n now =
     \<lparr>ms_id = i, ms_chama_id = c, ms_member_id = mid, ms_membership_number = n, ms_status = MS_ACTIVE,
      ms_joined_at = now\<rparr>"

lemma new_membership_simps [simp]:
  "ms_id (new_membership i c mid n now) = i" "ms_chama_id (new_membership i c mid n now) = c"
  "ms_member_id (new_membership i c mid n now) = mid" "ms_membership_number (new_membership i c mid n now) = n"
  "ms_status (new_membership i c mid n now) = MS_ACTIVE" "ms_joined_at (new_membership i c mid n now) = now"
  by (simp_all add: new_membership_def)

definition with_membership :: "membership \<Rightarrow> db \<Rightarrow> db" where
  "with_membership m d = d\<lparr>memberships := memberships d @ [m]\<rparr>"

definition with_role :: "uuid \<Rightarrow> role_name \<Rightarrow> db \<Rightarrow> db" where
  "with_role i r d = d\<lparr>membership_roles := membership_roles d @ [\<lparr>mr_membership_id = i, mr_role = r\<rparr>]\<rparr>"

definition with_fee :: "uuid \<Rightarrow> uuid \<Rightarrow> money \<Rightarrow> db \<Rightarrow> db" where
  "with_fee i mid a d = d\<lparr>registration_fees := registration_fees d @
     [\<lparr>rf_id = i, rf_membership_id = mid, rf_amount = a, rf_status = FEE_OWED\<rparr>]\<rparr>"

definition fresh_membership :: "db \<Rightarrow> membership \<Rightarrow> bool" where
  "fresh_membership d m \<longleftrightarrow>
     ms_id m \<notin> ms_id ` set (memberships d) \<and>
     (\<forall>e \<in> set (memberships d). ms_chama_id e = ms_chama_id m \<longrightarrow>
        ms_member_id e \<noteq> ms_member_id m \<and> ms_membership_number e \<noteq> ms_membership_number m)"

lemma membership_check_None: "membership_check d m = None \<longleftrightarrow> fresh_membership d m"
  by (auto simp: membership_check_def fresh_membership_def list_ex_iff image_iff split: if_splits) metis

lemma wp_insert_membership:
  assumes "fresh_membership (objs s) (new_membership (next_uuid s) c mid n (local_now s)) \<Longrightarrow>
      Q (new_membership (next_uuid s) c mid n (local_now s))
        (pending (with_membership (new_membership (next_uuid s) c mid n (local_now s)) (objs s)) (Suc (next_uuid s)) s)"
    and "\<And>e. R (IntegrityError e) (s\<lparr>next_uuid := Suc (next_uuid s)\<rparr>)"
  shows "wp (insert_membership c mid n) Q R s"
  using assms
  by (auto simp: insert_membership_def wp Let_def membership_check_None new_membership_def [symmetric]
      with_membership_def [symmetric] pending_def split: option.split)

lemma wp_get_role_by_name:
  assumes "roles (rows s) = roles (objs s)"
    and "Q None (sync s)" and "Q (Some name) (sync s)"
  shows "wp (get_role_by_name name) Q R s"
proof -
  have "first (filter (\<lambda>r. r = name) rs) \<in> {None, Some name}" for rs
    by (induction rs) auto
  moreover have "entities roles (\<lambda>r. r = name) (rows (sync s)) (objs s) = filter (\<lambda>r. r = name) (roles (objs s))"
    by (rule entities_flushed) (use assms(1) in \<open>simp add: sync_def\<close>)
  moreover have "Q (first (filter (\<lambda>r. r = name) (roles (objs s)))) (sync s)"
    using calculation(1) [of "roles (objs s)"] assms(2,3) by (elim insertE) auto
  ultimately show ?thesis by (simp add: get_role_by_name_def wp)
qed

lemma wp_add_role:
  assumes "\<And>r. role = Some r \<Longrightarrow> Q () (pending (with_role i r (objs s)) (next_uuid s) s)"
    and "\<And>e. R e s"
  shows "wp (add_role i role) Q R s"
  using assms by (auto simp: add_role_def wp with_role_def pending_def split: option.split)

lemma wp_create_fee:
  assumes "Q \<lparr>rf_id = next_uuid s, rf_membership_id = mid, rf_amount = a, rf_status = FEE_OWED\<rparr>
      (pending (with_fee (next_uuid s) mid a (objs s)) (Suc (next_uuid s)) s)"
    and "\<And>e. R (IntegrityError e) (s\<lparr>next_uuid := Suc (next_uuid s)\<rparr>)"
  shows "wp (create_fee mid a) Q R s"
  using assms by (auto simp: create_fee_def wp Let_def with_fee_def pending_def split: option.split)

section \<open>Members\<close>

definition new_member :: "uuid \<Rightarrow> member_details \<Rightarrow> member" where
  "new_member i details =
     \<lparr>mb_id = i, mb_first_name = md_first_name details, mb_last_name = md_last_name details,
      mb_phone_number = md_phone_number details, mb_government_id = md_government_id details\<rparr>"

text \<open>A provisioned account: the government id as a first password, to be changed.\<close>

definition new_account :: "(uuid \<Rightarrow> string \<Rightarrow> string) \<Rightarrow> uuid \<Rightarrow> string \<Rightarrow> member_details \<Rightarrow> uuid \<Rightarrow> user" where
  "new_account hash i email details mid =
     \<lparr>us_id = i, us_email = lower email, us_password_hash = hash i (md_government_id details), us_is_active = True,
      us_must_change_password = True, us_member_id = Some mid\<rparr>"

definition unknown_identity :: "db \<Rightarrow> member_details \<Rightarrow> bool" where
  "unknown_identity d details \<longleftrightarrow>
     (\<forall>e \<in> set (members d). mb_phone_number e \<notin> set (phone_variants (md_phone_number details)) \<and>
        mb_government_id e \<noteq> md_government_id details)"

definition provisioned ::
  "(uuid \<Rightarrow> string \<Rightarrow> string) \<Rightarrow> uuid \<Rightarrow> member_details \<Rightarrow> string \<Rightarrow> db \<Rightarrow> member \<Rightarrow> db \<Rightarrow> bool" where
  "provisioned hash i details email d m d' \<longleftrightarrow>
     unknown_identity d details \<and> (\<forall>v \<in> set (users d). us_email v \<noteq> lower email) \<and>
     (\<forall>e \<in> set (members d). mb_id e \<noteq> i) \<and> (\<forall>v \<in> set (users d). us_id v \<noteq> Suc i) \<and>
     m = new_member i details \<and>
     d' = d\<lparr>members := members d @ [m], users := users d @ [new_account hash (Suc i) email details i]\<rparr>"

definition resolved ::
  "(uuid \<Rightarrow> string \<Rightarrow> string) \<Rightarrow> uuid \<Rightarrow> member_source \<Rightarrow> db \<Rightarrow> member \<Rightarrow> db \<Rightarrow> bool" where
  "resolved hash i source d m d' \<longleftrightarrow>
     (case source of
        ExistingMember k \<Rightarrow> find_row mb_id k (members d) = Some m \<and> d' = d
      | NewMember details email \<Rightarrow>
          m \<in> set (members d) \<and> mb_phone_number m \<in> set (phone_variants (md_phone_number details)) \<and>
            mb_government_id m = md_government_id details \<and> d' = d \<or>
          provisioned hash i details email d m d')"

lemma resolved_frame:
  assumes "resolved hash i source d m d'"
  shows "memberships d' = memberships d" "membership_roles d' = membership_roles d" "sequences d' = sequences d"
    "roles d' = roles d" "chamas d' = chamas d" "registration_fees d' = registration_fees d"
    "ledger_accounts d' = ledger_accounts d" "platform_roles d' = platform_roles d"
  using assms by (auto simp: resolved_def provisioned_def split: member_source.splits)

lemma member_check_None:
  "member_check d m = None \<longleftrightarrow> (\<forall>e \<in> set (members d). mb_id e \<noteq> mb_id m \<and>
     mb_phone_number e \<noteq> mb_phone_number m \<and> mb_government_id e \<noteq> mb_government_id m)"
  by (auto simp: member_check_def list_ex_iff)

lemma user_check_None:
  "us_member_id u = None \<Longrightarrow> user_check d u = None \<longleftrightarrow> (\<forall>e \<in> set (users d). us_id e \<noteq> us_id u \<and> us_email e \<noteq> us_email u)"
  by (auto simp: user_check_def list_ex_iff)

lemma wp_get_user_by_email:
  assumes "rows s = objs s" and "\<And>r. Q r s"
  shows "wp (get_user_by_email email) Q R s"
  using assms by (simp add: get_user_by_email_def wp sync_flushed)

lemma wp_create_member:
  assumes "\<forall>e \<in> set (members (objs s)). mb_id e \<noteq> next_uuid s \<and> mb_phone_number e \<noteq> md_phone_number details \<and>
        mb_government_id e \<noteq> md_government_id details \<Longrightarrow>
      Q (new_member (next_uuid s) details)
        (s\<lparr>objs := (objs s)\<lparr>members := members (objs s) @ [new_member (next_uuid s) details]\<rparr>,
           rows := (objs s)\<lparr>members := members (objs s) @ [new_member (next_uuid s) details]\<rparr>,
           next_uuid := Suc (next_uuid s)\<rparr>)"
    and "\<And>e. R (IntegrityError e) (s\<lparr>next_uuid := Suc (next_uuid s)\<rparr>)"
  shows "wp (create_member details) Q R s"
  using assms
  by (auto simp: create_member_def wp Let_def member_check_None new_member_def split: option.split)

lemma wp_create_user:
  assumes "\<forall>e \<in> set (users (objs s)). us_id e \<noteq> next_uuid s \<and> us_email e \<noteq> lower email \<Longrightarrow>
      Q \<lparr>us_id = next_uuid s, us_email = lower email, us_password_hash = h, us_is_active = True,
          us_must_change_password = False, us_member_id = None\<rparr>
        (s\<lparr>objs := (objs s)\<lparr>users := users (objs s) @ [\<lparr>us_id = next_uuid s, us_email = lower email,
             us_password_hash = h, us_is_active = True, us_must_change_password = False, us_member_id = None\<rparr>]\<rparr>,
           rows := (objs s)\<lparr>users := users (objs s) @ [\<lparr>us_id = next_uuid s, us_email = lower email,
             us_password_hash = h, us_is_active = True, us_must_change_password = False, us_member_id = None\<rparr>]\<rparr>,
           next_uuid := Suc (next_uuid s)\<rparr>)"
    and "\<And>e. R (IntegrityError e) (s\<lparr>next_uuid := Suc (next_uuid s)\<rparr>)"
  shows "wp (create_user email h) Q R s"
  using assms
  by (auto simp: create_user_def wp Let_def user_check_None split: option.split)

lemma wp_provision_member:
  assumes flushed: "rows s = objs s"
    and ok: "\<And>m d' us. provisioned hash (next_uuid s) details email (objs s) m d' \<Longrightarrow>
      Q m (s\<lparr>objs := d', rows := d'\<lparr>users := us\<rparr>, next_uuid := Suc (Suc (next_uuid s))\<rparr>)"
    and no: "\<And>e t. dirty s t \<Longrightarrow> R e t"
  shows "wp (provision_member hash details email) Q R s"
proof (cases "unknown_identity (objs s) details")
  case False
  then show ?thesis
    using no by (auto simp: provision_member_def phone_exists_def government_id_exists_def wp sync_flushed [OF flushed]
        flushed unknown_identity_def list_ex_iff)
next
  case True
  let ?m = "new_member (next_uuid s) details"
  let ?us = "users (objs s) @ [new_account hash (Suc (next_uuid s)) email details (next_uuid s)]"
  have absent: "upd_row us_id i f us @ vs = us @ vs" if "\<forall>e \<in> set us. us_id e \<noteq> i" for us vs f i
    using that by (subst upd_row_absent) auto
  have single: "upd_row us_id (us_id r) f [r] = [f r]" for f and r :: user
    by (simp add: upd_row_def)
  have fin: "Q ?m (s\<lparr>objs := (objs s)\<lparr>members := members (objs s) @ [?m], users := ?us\<rparr>,
      rows := (objs s)\<lparr>members := members (objs s) @ [?m], users := us\<rparr>, next_uuid := Suc (Suc (next_uuid s))\<rparr>)"
    if "\<forall>e \<in> set (members (objs s)). mb_id e \<noteq> next_uuid s" "\<forall>e \<in> set (users (objs s)). us_id e \<noteq> Suc (next_uuid s) \<and> us_email e \<noteq> lower email" for us
    using ok [of ?m "(objs s)\<lparr>members := members (objs s) @ [?m], users := ?us\<rparr>" us] that True
    by (simp add: provisioned_def)
  have acc: "upd_row us_id i (\<lambda>u. u\<lparr>us_member_id := Some (mb_id (new_member k details)), us_must_change_password := True\<rparr>)
      [\<lparr>us_id = i, us_email = lower email, us_password_hash = hash i (md_government_id details), us_is_active = True,
        us_must_change_password = False, us_member_id = None\<rparr>] = [new_account hash i email details k]" for i k
    by (simp add: upd_row_def new_account_def new_member_def)
  have known: "\<not> list_ex (\<lambda>m. mb_phone_number m \<in> set (phone_variants (md_phone_number details))) (members (objs s))"
    "\<not> list_ex (\<lambda>m. mb_government_id m = md_government_id details) (members (objs s))"
    using True by (auto simp: unknown_identity_def list_ex_iff)
  show ?thesis
    unfolding provision_member_def phone_exists_def government_id_exists_def
    by (simp add: wp sync_flushed [OF flushed] flushed known no)
       (auto simp: wp no absent o_def acc intro!: wp_get_user_by_email wp_create_member wp_create_user fin flushed)
qed

lemma wp_resolve_member:
  assumes flushed: "rows s = objs s"
    and ok: "\<And>m d' us u. resolved hash (next_uuid s) source (objs s) m d' \<Longrightarrow> next_uuid s \<le> u \<Longrightarrow>
      Q m (s\<lparr>objs := d', rows := d'\<lparr>users := us\<rparr>, next_uuid := u\<rparr>)"
    and no: "\<And>e t. dirty s t \<Longrightarrow> R e t"
  shows "wp (resolve_member hash source) Q R s"
proof -
  have same: "Q m s" if "resolved hash (next_uuid s) source (objs s) m (objs s)" for m
    using ok [OF that order_refl, of "users (objs s)"] by (simp add: flushed_update_rows [OF flushed])
  show ?thesis
  proof (cases source)
    case (ExistingMember i)
    then show ?thesis
      by (auto simp: resolve_member_def get_member_by_id_def wp no resolved_def intro!: same split: option.split)
  next
    case (NewMember details email)
    have new: "wp (provision_member hash details email) Q R s"
      by (rule wp_provision_member [OF flushed]) (auto simp: NewMember resolved_def no intro!: ok)
    show ?thesis
      using new
      by (auto simp: NewMember resolve_member_def find_by_identity_def wp sync_flushed [OF flushed] flushed resolved_def
          intro!: same split: option.split dest!: first_filter_SomeD)
  qed
qed

section \<open>Memberships\<close>

definition enrolled :: "uuid \<Rightarrow> membership \<Rightarrow> uuid \<Rightarrow> money \<Rightarrow> db \<Rightarrow> db" where
  "enrolled c m fee_id a d = with_fee fee_id (ms_id m) a (with_role (ms_id m) MEMBER (with_membership m (bump c d)))"

lemma wp_create_membership_once:
  assumes flushed: "rows s = objs s" and c: "find_row ch_id cid (chamas (objs s)) = Some c"
    and ok: "\<And>member d' u m. resolved hash (next_uuid s) source (objs s) member d' \<Longrightarrow> next_uuid s \<le> u \<Longrightarrow>
      m = new_membership u cid (mb_id member) (next_number (objs s) cid) (local_now s) \<Longrightarrow>
      fresh_membership (objs s) m \<Longrightarrow>
      Q m (saved (enrolled cid m (Suc u) (ch_registration_fee_amount c) d') (Suc (Suc u)) s)"
    and no: "\<And>e t. dirty s t \<Longrightarrow> R e t"
  shows "wp (create_membership_once hash cid source) Q R s"
  unfolding create_membership_once_def wp_bind
proof (rule wp_resolve_member [OF flushed], goal_cases)
  case (1 member d' us u)
  let ?m = "new_membership u cid (mb_id member) (next_number (objs s) cid) (local_now s)"
  let ?t = "s\<lparr>objs := d', rows := d'\<lparr>users := us\<rparr>, next_uuid := u\<rparr>"
  note frame = resolved_frame [OF 1(1)]
  have num: "next_number d' cid = next_number (objs s) cid" by (simp add: next_number_def frame)
  have fr: "fresh_membership (objs s) ?m" if "fresh_membership (bump cid d') ?m"
    using that by (simp add: fresh_membership_def frame)
  have sync: "sync ?t = ?t \<or> sync ?t = pending d' u s" by (simp add: sync_def pending_def)
  have later: "wp (bind (create_fee (ms_id ?m) (ch_registration_fee_amount c)) (\<lambda>_. bind commit (\<lambda>_. ret ?m))) Q R
      (pending (with_role (ms_id ?m) MEMBER (with_membership ?m (bump cid d'))) (Suc u) s)"
    if "fresh_membership (objs s) ?m"
    unfolding wp_bind
    by (rule wp_create_fee) (use ok [OF 1 refl that] 1(2) in \<open>simp_all add: wp pending_commit no enrolled_def\<close>)
  have c': "find_row ch_id cid (chamas (with_role i r (with_membership m (bump cid d')))) = Some c" for i r m
    by (simp add: c frame with_role_def with_membership_def)
  have roles: "wp (bind (get_role_by_name MEMBER) (\<lambda>default_member. bind (add_role (ms_id ?m) default_member) (\<lambda>_.
      bind (get_chama_or_404 cid) (\<lambda>chama. bind (create_fee (ms_id ?m) (ch_registration_fee_amount chama)) (\<lambda>_.
      bind commit (\<lambda>_. ret ?m)))))) Q R (pending (with_membership ?m (bump cid d')) (Suc u) s)"
    if "fresh_membership (objs s) ?m"
    unfolding wp_bind [of "get_role_by_name MEMBER"] wp_bind [of "add_role _ _"] wp_bind [of "get_chama_or_404 _"] wp_get_chama_or_404
    by (rule wp_get_role_by_name; (rule wp_add_role)?)
       (use 1(2) later [OF that] in \<open>auto simp: no c'\<close>)
  have "wp (bind (allocate_membership_number cid) (\<lambda>number. bind (insert_membership cid (mb_id member) number) (\<lambda>m.
      bind (get_role_by_name MEMBER) (\<lambda>default_member. bind (add_role (ms_id m) default_member) (\<lambda>_.
      bind (get_chama_or_404 cid) (\<lambda>chama. bind (create_fee (ms_id m) (ch_registration_fee_amount chama)) (\<lambda>_.
      bind commit (\<lambda>_. ret m)))))))) Q R t" if "t = ?t \<or> t = pending d' u s" for t
    unfolding wp_bind [of "allocate_membership_number _"] wp_bind [of "insert_membership _ _ _"]
    by (rule wp_allocate_membership_number; (rule wp_insert_membership)?)
       (use that 1(2) roles fr in \<open>auto simp: num no\<close>)
  then show ?case
    unfolding wp_bind [of "get_by_chama_and_member _ _"] get_by_chama_and_member_def wp_select_first wp_bind [of "ensure _ _"] wp_ensure
    using sync 1(2) by (auto simp: no wp_bind)
qed (rule no)

lemma wp_catch_constraint [wp]:
  "wp (catch_constraint m h) Q R s =
     wp m Q (\<lambda>e t. (case e of IntegrityError c \<Rightarrow> wp (h c) Q R t | _ \<Rightarrow> R e t)) s"
  by (auto simp: wp_def catch_constraint_def split: sum.splits prod.splits err.splits)

text \<open>
  A new membership: its database and that of the audit commit. Every attempt starts from the
  session at rest, so the last one decides.
\<close>

lemma wp_membership_attempts:
  assumes clean: "clean s" and c: "find_row ch_id cid (chamas (objs s)) = Some c"
    and ok: "\<And>member d' u v a n w m. resolved hash v source (objs s) member d' \<Longrightarrow> next_uuid s \<le> v \<Longrightarrow> v \<le> u \<Longrightarrow> u < w \<Longrightarrow>
      m = new_membership u cid (mb_id member) (next_number (objs s) cid) (local_now s) \<Longrightarrow>
      fresh_membership (objs s) m \<Longrightarrow>
      Q m (saved (log_db a n (enrolled cid m (Suc u) (ch_registration_fee_amount c) d')) w
        (saved (enrolled cid m (Suc u) (ch_registration_fee_amount c) d') (Suc (Suc u)) s))"
    and no: "\<And>e t. durable t = durable s \<Longrightarrow> R e t"
    and u: "next_uuid s \<le> u"
  shows "wp (membership_attempts k hash actor cid source) Q R (s\<lparr>next_uuid := u\<rparr>)"
  using u
proof (induction k arbitrary: u)
  case 0
  then show ?case by (simp add: wp no)
next
  case (Suc k)
  let ?s = "s\<lparr>next_uuid := u\<rparr>"
  have flushed: "rows ?s = objs ?s" "find_row ch_id cid (chamas (objs ?s)) = Some c"
    using c by (simp_all add: clean)
  have retry: "wp (bind rollback (\<lambda>_. if name = CHAMA_NUMBER_CONSTRAINT \<and> 0 < k
        then membership_attempts k hash actor cid source
        else raise (ConflictError (integrity_message name)))) Q R t" if "dirty ?s t" for t name
  proof -
    have "dirty s t" using dirty_trans [of s ?s t] that Suc.prems by simp
    with dirty_rollback [OF clean this] obtain v where "next_uuid s \<le> v"
      "t\<lparr>objs := hd (durable t), rows := hd (durable t)\<rparr> = s\<lparr>next_uuid := v\<rparr>" by blast
    then have "wp rollback (\<lambda>_. wp (if name = CHAMA_NUMBER_CONSTRAINT \<and> 0 < k
        then membership_attempts k hash actor cid source
        else raise (ConflictError (integrity_message name))) Q R) R t"
      using Suc.IH [of v] no [of "s\<lparr>next_uuid := v\<rparr>"] by (simp only: wp_rollback) (simp add: wp_raise)
    then show ?thesis by (simp only: wp_bind)
  qed
  have fail: "(case e of IntegrityError name \<Rightarrow> wp (bind rollback (\<lambda>_. if name = CHAMA_NUMBER_CONSTRAINT \<and> 0 < k
        then membership_attempts k hash actor cid source
        else raise (ConflictError (integrity_message name)))) Q R t | _ \<Rightarrow> R e t)" if "dirty ?s t" for e t
    using retry [OF that] no [of t] dirty_durable [OF that] by (cases e) simp_all
  show ?case
    unfolding membership_attempts.simps wp_catch_constraint wp_bind [of "create_membership_once _ _ _"]
  proof (rule wp_create_membership_once [OF flushed], goal_cases)
    case (1 member d' v m)
    let ?D = "enrolled cid m (Suc v) (ch_registration_fee_amount c) d'"
    have new: "resolved hash u source (objs s) member d'" "next_uuid s \<le> u" "u \<le> v"
      "m = new_membership v cid (mb_id member) (next_number (objs s) cid) (local_now s)" "fresh_membership (objs s) m"
      using 1 Suc.prems by simp_all
    show ?case
      unfolding wp_bind wp_ret
    proof (rule wp_audit_commit, goal_cases)
      case (1 a n w)
      show ?case
        using ok [OF new(1-3) _ new(4,5), of w] 1(2) by simp
    qed
  qed (rule fail)
qed

lemma wp_create_membership:
  assumes clean: "clean s"
    and ok: "\<And>c am member d' u v a n w m. find_row ch_id cid (chamas (objs s)) = Some c \<Longrightarrow>
      write_ok actor (ch_id c) (objs s) am \<Longrightarrow> list_ex (holds_role (objs s) (ms_id am)) LEADERSHIP_ROLES \<Longrightarrow>
      resolved hash v source (objs s) member d' \<Longrightarrow> next_uuid s \<le> v \<Longrightarrow> v \<le> u \<Longrightarrow> u < w \<Longrightarrow>
      m = new_membership u (ch_id c) (mb_id member) (next_number (objs s) (ch_id c)) (local_now s) \<Longrightarrow>
      fresh_membership (objs s) m \<Longrightarrow>
      Q m (saved (log_db a n (enrolled (ch_id c) m (Suc u) (ch_registration_fee_amount c) d')) w
        (saved (enrolled (ch_id c) m (Suc u) (ch_registration_fee_amount c) d') (Suc (Suc u)) s))"
    and no: "\<And>e t. durable t = durable s \<Longrightarrow> R e t"
  shows "wp (create_membership hash actor cid source) Q R s"
proof -
  have run: "wp (membership_attempts MAX_NUMBER_RETRIES hash actor (ch_id c) source) Q R s"
    if c: "find_row ch_id cid (chamas (objs s)) = Some c" and w: "write_ok actor (ch_id c) (objs s) am"
      and l: "list_ex (holds_role (objs s) (ms_id am)) LEADERSHIP_ROLES" for c am
  proof -
    have c': "find_row ch_id (ch_id c) (chamas (objs s)) = Some c" using c find_row_key [OF c] by simp
    have "wp (membership_attempts MAX_NUMBER_RETRIES hash actor (ch_id c) source) Q R (s\<lparr>next_uuid := next_uuid s\<rparr>)"
      by (rule wp_membership_attempts [OF clean c']) (rule ok [OF that], assumption+, rule no, assumption, rule order_refl)
    then show ?thesis by simp
  qed
  show ?thesis
    unfolding create_membership_def
    by (rule wp_chama_write [OF clean]) (auto simp: wp_bind wp_require_roles clean no intro: run)
qed

definition status_set :: "uuid \<Rightarrow> membership_status \<Rightarrow> db \<Rightarrow> db" where
  "status_set i st = memberships_update (upd_row ms_id i (ms_status_update (\<lambda>_. st)))"

lemma wp_update_membership_status:
  assumes clean: "clean s"
    and ok: "\<And>c am m a n u. find_row ch_id cid (chamas (objs s)) = Some c \<Longrightarrow> write_ok actor (ch_id c) (objs s) am \<Longrightarrow>
      holds_role (objs s) (ms_id am) CHAIRPERSON \<Longrightarrow> find_row ms_id mid (memberships (objs s)) = Some m \<Longrightarrow>
      ms_chama_id m = ch_id c \<Longrightarrow>
      Q (m\<lparr>ms_status := st\<rparr>) (saved (log_db a n (status_set (ms_id m) st (objs s))) u
        (saved (status_set (ms_id m) st (objs s)) (next_uuid s) s))"
    and no: "\<And>e t. durable t = durable s \<Longrightarrow> R e t"
  shows "wp (update_membership_status actor cid mid st) Q R s"
proof -
  have fin: "wp (audit_record_commit ac ch k rt ri p b) (\<lambda>_. wp (reload_membership (ms_id m)) Q R) R
      (saved (status_set (ms_id m) st (objs s)) (next_uuid s) s)"
    if "find_row ch_id cid (chamas (objs s)) = Some c" "write_ok actor (ch_id c) (objs s) am"
      "holds_role (objs s) (ms_id am) CHAIRPERSON" "find_row ms_id mid (memberships (objs s)) = Some m"
      "ms_chama_id m = ch_id c" for c am m ac ch k rt ri p b
  proof (rule wp_audit_commit, goal_cases)
    case (1 a n u)
    show ?case
      using ok [OF that, of _ _ u] that(4) find_row_key [OF that(4)]
      by (auto simp: reload_membership_def wp status_set_def find_upd_row)
  qed
  have saved_it: "s\<lparr>objs := d, rows := d, durable := d # durable s\<rparr> = saved d (next_uuid s) s" for d
    by (simp add: saved_def)
  show ?thesis
    unfolding update_membership_status_def
    by (rule wp_chama_write [OF clean])
       (auto simp: wp_bind wp_require_roles wp_get_target_membership wp_change wp_commit saved_it clean no
         status_set_def [symmetric] split: option.split intro: fin)
qed

section \<open>Roles\<close>

lemma list_ex_sort_key [simp]: "list_ex P (sort_key f xs) = list_ex P xs"
  by (simp add: list_ex_iff)

definition chaired_by_other :: "db \<Rightarrow> uuid \<Rightarrow> uuid \<Rightarrow> bool" where
  "chaired_by_other d c i \<longleftrightarrow>
     (\<exists>m \<in> set (memberships d). ms_chama_id m = c \<and> ms_id m \<noteq> i \<and> holds_role d (ms_id m) CHAIRPERSON)"

lemma wp_has_chairperson:
  assumes "clean s"
  shows "wp (has_chairperson c i) Q R s = Q (chaired_by_other (objs s) c i) s"
proof -
  have "list_ex (\<lambda>m. ms_id m \<noteq> i \<and> holds_role (objs s) (ms_id m) CHAIRPERSON) (filter (\<lambda>m. ms_chama_id m = c) (memberships (objs s))) =
      chaired_by_other (objs s) c i" by (auto simp: chaired_by_other_def list_ex_iff)
  then show ?thesis
    by (simp add: has_chairperson_def memberships_of_chama_def wp assms page_def)
qed

lemma set_NON_CHAMA_ROLES [simp]: "set NON_CHAMA_ROLES = {PLATFORM_ADMIN}"
  by (simp add: NON_CHAMA_ROLES_def)

lemma wp_assign_role:
  assumes clean: "clean s"
    and ok: "\<And>c am m a n u. find_row ch_id cid (chamas (objs s)) = Some c \<Longrightarrow> write_ok actor (ch_id c) (objs s) am \<Longrightarrow>
      holds_role (objs s) (ms_id am) CHAIRPERSON \<Longrightarrow> find_row ms_id mid (memberships (objs s)) = Some m \<Longrightarrow>
      ms_chama_id m = ch_id c \<Longrightarrow> role \<in> {CHAIRPERSON, TREASURER, SECRETARY} \<Longrightarrow>
      \<not> list_ex (holds_role (objs s) (ms_id m)) LEADERSHIP_ROLES \<Longrightarrow>
      (role = CHAIRPERSON \<Longrightarrow> \<not> chaired_by_other (objs s) (ch_id c) (ms_id m)) \<Longrightarrow>
      Q m (saved (log_db a n (with_role (ms_id m) role (objs s))) u
        (saved (with_role (ms_id m) role (objs s)) (next_uuid s) s))"
    and no: "\<And>e t. durable t = durable s \<Longrightarrow> R e t"
  shows "wp (assign_role actor cid mid role) Q R s"
proof -
  have fin: "wp (audit_record_commit ac ch k rt ri p b) (\<lambda>_. wp (reload_membership (ms_id m)) Q R) R
      (saved (with_role (ms_id m) role (objs s)) (next_uuid s) s)"
    if "find_row ch_id cid (chamas (objs s)) = Some c" "write_ok actor (ch_id c) (objs s) am"
      "holds_role (objs s) (ms_id am) CHAIRPERSON" "find_row ms_id mid (memberships (objs s)) = Some m"
      "ms_chama_id m = ch_id c" "role \<in> {CHAIRPERSON, TREASURER, SECRETARY}"
      "\<not> list_ex (holds_role (objs s) (ms_id m)) LEADERSHIP_ROLES"
      "role = CHAIRPERSON \<Longrightarrow> \<not> chaired_by_other (objs s) (ch_id c) (ms_id m)" for c am m ac ch k rt ri p b
  proof (rule wp_audit_commit, goal_cases)
    case (1 a n u)
    show ?case
      using ok [OF that, of _ _ u] that(4) find_row_key [OF that(4)]
      by (auto simp: reload_membership_def wp with_role_def)
  qed
  have link: "wp (catch_integrity (bind (add_role (ms_id m) ro) (\<lambda>_. commit))
       (bind rollback (\<lambda>_. raise (ConflictError ''Role is already assigned to this membership''))))
     (\<lambda>_. wp (audit_record_commit ac ch k rt ri p b) (\<lambda>_. wp (reload_membership (ms_id m)) Q R) R) R s"
    if "find_row ch_id cid (chamas (objs s)) = Some c" "write_ok actor (ch_id c) (objs s) am"
      "holds_role (objs s) (ms_id am) CHAIRPERSON" "find_row ms_id mid (memberships (objs s)) = Some m"
      "ms_chama_id m = ch_id c" "role \<noteq> PLATFORM_ADMIN" "role \<noteq> MEMBER"
      "\<not> list_ex (holds_role (objs s) (ms_id m)) LEADERSHIP_ROLES"
      "role = CHAIRPERSON \<longrightarrow> \<not> chaired_by_other (objs s) (ch_id c) (ms_id m)" "ro = Some role \<or> ro = None"
    for c am m ac ch k rt ri p b ro
  proof -
    have role: "role \<in> {CHAIRPERSON, TREASURER, SECRETARY}" using that(6,7) by (cases role) auto
    show ?thesis
      unfolding wp_catch_integrity wp_bind
      by (rule wp_add_role)
       (use that(10) fin [OF that(1-5) role that(8) that(9) [rule_format]] in \<open>auto simp: wp pending_commit no split: err.split\<close>)
  qed
  show ?thesis
    unfolding assign_role_def
    apply (rule wp_chama_write [OF clean])
    apply (auto simp: wp_bind wp_require_role wp_get_target_membership wp_ensure wp_has_any_role wp_has_chairperson [OF clean]
         wp_ret wp_if clean no split: option.split intro!: wp_get_role_by_name intro!: link)
    done
qed

definition without_role :: "uuid \<Rightarrow> role_name \<Rightarrow> db \<Rightarrow> db" where
  "without_role i r = membership_roles_update (remove1 \<lparr>mr_membership_id = i, mr_role = r\<rparr>)"

lemma wp_drop_role:
  assumes clean: "clean s"
    and "Q True (pending (without_role i r (objs s)) (next_uuid s) s)" and "Q False s"
  shows "wp (drop_role i r) Q R s"
proof -
  have "mr = \<lparr>mr_membership_id = i, mr_role = r\<rparr>"
    if "first (filter (\<lambda>mr. mr_membership_id mr = i \<and> mr_role mr = r) (membership_roles (objs s))) = Some mr" for mr
    using first_filter_SomeD [OF that] by (cases mr) simp
  then show ?thesis
    using assms(2,3) by (auto simp: drop_role_def wp clean without_role_def pending_def split: option.split)
qed

lemma wp_remove_role:
  assumes clean: "clean s"
    and ok: "\<And>c am m a n u. find_row ch_id cid (chamas (objs s)) = Some c \<Longrightarrow> write_ok actor (ch_id c) (objs s) am \<Longrightarrow>
      holds_role (objs s) (ms_id am) CHAIRPERSON \<Longrightarrow> find_row ms_id mid (memberships (objs s)) = Some m \<Longrightarrow>
      ms_chama_id m = ch_id c \<Longrightarrow> role \<noteq> MEMBER \<Longrightarrow>
      Q m (saved (log_db a n (without_role (ms_id m) role (objs s))) u
        (saved (without_role (ms_id m) role (objs s)) (next_uuid s) s))"
    and no: "\<And>e t. durable t = durable s \<Longrightarrow> R e t"
  shows "wp (remove_role actor cid mid role) Q R s"
proof -
  have fin: "wp (audit_record_commit ac ch k rt ri p b) (\<lambda>_. wp (reload_membership (ms_id m)) Q R) R
      (saved (without_role (ms_id m) role (objs s)) (next_uuid s) s)"
    if "find_row ch_id cid (chamas (objs s)) = Some c" "write_ok actor (ch_id c) (objs s) am"
      "holds_role (objs s) (ms_id am) CHAIRPERSON" "find_row ms_id mid (memberships (objs s)) = Some m"
      "ms_chama_id m = ch_id c" "role \<noteq> MEMBER" for c am m ac ch k rt ri p b
  proof (rule wp_audit_commit, goal_cases)
    case (1 a n u)
    show ?case
      using ok [OF that, of _ _ u] that(4) find_row_key [OF that(4)]
      by (auto simp: reload_membership_def wp without_role_def)
  qed
  show ?thesis
    unfolding remove_role_def
    by (rule wp_chama_write [OF clean])
       (auto simp: wp_bind wp_require_role wp_get_target_membership wp_ensure wp_case_option wp_raise wp_commit clean no
         pending_commit split: option.split intro!: wp_get_role_by_name wp_drop_role [OF clean] fin)
qed

section \<open>Chamas\<close>

lemma wp_update_chama:
  assumes clean: "clean s"
    and ok: "\<And>c am a n u. find_row ch_id cid (chamas (objs s)) = Some c \<Longrightarrow> write_ok actor (ch_id c) (objs s) am \<Longrightarrow>
      holds_role (objs s) (ms_id am) CHAIRPERSON \<Longrightarrow> up_status data = None \<Longrightarrow>
      Q (apply_update data c) (saved (log_db a n (chamas_update (upd_row ch_id (ch_id c) (apply_update data)) (objs s))) u
        (saved (chamas_update (upd_row ch_id (ch_id c) (apply_update data)) (objs s)) (next_uuid s) s))"
    and no: "\<And>e t. durable t = durable s \<Longrightarrow> R e t"
  shows "wp (update_chama actor cid data) Q R s"
proof -
  have key: "ch_id (apply_update data c) = ch_id c" for c by (simp add: apply_update_def Let_def split: option.split)
  have fin: "wp (audit_record_commit ac ch k rt ri p b) (\<lambda>_. wp (reload_chama (ch_id c)) Q R) R
      (saved (chamas_update (upd_row ch_id (ch_id c) (apply_update data)) (objs s)) (next_uuid s) s)"
    if "find_row ch_id cid (chamas (objs s)) = Some c" "write_ok actor (ch_id c) (objs s) am"
      "holds_role (objs s) (ms_id am) CHAIRPERSON" "up_status data = None" for c am ac ch k rt ri p b
  proof (rule wp_audit_commit, goal_cases)
    case (1 a n u)
    show ?case
      using ok [OF that, of _ _ u] that(1) find_row_key [OF that(1)]
      by (auto simp: reload_chama_def wp find_upd_row key)
  qed
  have saved_it: "s\<lparr>objs := d, rows := d, durable := d # durable s\<rparr> = saved d (next_uuid s) s" for d
    by (simp add: saved_def)
  show ?thesis
    unfolding update_chama_def
    by (rule wp_chama_write [OF clean])
       (auto simp: wp_bind wp_require_role wp_ensure wp_change wp_commit saved_it clean no intro: fin)
qed

lemma wp_seed_chart:
  assumes "\<And>la u. next_uuid s \<le> u \<Longrightarrow> Q () (pending ((objs s)\<lparr>ledger_accounts := la\<rparr>) u s)"
  shows "wp (seed_default_chart_of_accounts c) Q R s"
proof -
  define I where "I t \<longleftrightarrow> (\<exists>la r u. t = s\<lparr>objs := (objs s)\<lparr>ledger_accounts := la\<rparr>, rows := r, next_uuid := u\<rparr> \<and> next_uuid s \<le> u)" for t
  have I: "I (s\<lparr>objs := (objs s)\<lparr>ledger_accounts := la\<rparr>, rows := r, next_uuid := u\<rparr>)" if "next_uuid s \<le> u" for la r u
    unfolding I_def using that by blast
  have start: "I s" using I [where u = "next_uuid s" and la = "ledger_accounts (objs s)" and r = "rows s"] by simp
  show ?thesis
    unfolding seed_default_chart_of_accounts_def wp_bind
  proof (rule wp_for_each_inv [where I = I, OF start], goal_cases)
    case (1 x t)
    obtain la r u where t: "t = s\<lparr>objs := (objs s)\<lparr>ledger_accounts := la\<rparr>, rows := r, next_uuid := u\<rparr>" "next_uuid s \<le> u"
      using 1(2) unfolding I_def by blast
    have sy: "sync t = s\<lparr>objs := (objs s)\<lparr>ledger_accounts := la\<rparr>, rows := rows (sync t), next_uuid := u\<rparr>"
      by (simp add: t sync_def)
    have "I (sync t)" using I [OF t(2)] sy by metis
    moreover have "I ((sync t)\<lparr>objs := (objs s)\<lparr>ledger_accounts := la'\<rparr>, next_uuid := Suc u\<rparr>)" for la'
      using I [where u = "Suc u" and la = la' and r = "rows (sync t)"] t(2) by (subst sy) simp
    ultimately show ?case
      using t by (cases x) (auto simp: wp)
  next
    case (2 t)
    then show ?case using assms unfolding I_def by (auto simp: wp pending_def)
  qed
qed

text \<open>A founded Chama: its creator's membership with two roles, the fee, the chart of accounts.\<close>

definition new_chama :: "uuid \<Rightarrow> user \<Rightarrow> chama_create \<Rightarrow> chama" where
  "new_chama i u data =
     \<lparr>ch_id = i, ch_name = cc_name data, ch_description = cc_description data,
      ch_registration_fee_amount = cc_registration_fee_amount data, ch_status = CH_PENDING,
      ch_created_by_user_id = us_id u\<rparr>"

definition founded :: "chama \<Rightarrow> membership \<Rightarrow> uuid \<Rightarrow> ledger_account list \<Rightarrow> db \<Rightarrow> db" where
  "founded c m fee_id la d =
     (with_fee fee_id (ms_id m) (ch_registration_fee_amount c)
        (with_role (ms_id m) MEMBER (with_role (ms_id m) CHAIRPERSON
           (with_membership m (bump (ch_id c) (d\<lparr>chamas := chamas d @ [c]\<rparr>))))))\<lparr>ledger_accounts := la\<rparr>"

lemma wp_creator_member:
  assumes clean: "clean s"
    and ok: "\<And>m us r ms v. next_uuid s \<le> v \<Longrightarrow>
      Q m (s\<lparr>objs := (objs s)\<lparr>users := us, members := ms\<rparr>, rows := r, next_uuid := v\<rparr>)"
    and no: "\<And>e t. durable t = durable s \<Longrightarrow> R e t"
  shows "wp (creator_member u data) Q R s"
proof -
  have same: "Q m s" for m
    using ok [where us = "users (objs s)" and r = "rows s" and ms = "members (objs s)" and v = "next_uuid s"] by simp
  have link: "users_update f ((objs s)\<lparr>members := ms\<rparr>) = (objs s)\<lparr>users := f (users (objs s)), members := ms\<rparr>" for f ms
    by simp
  show ?thesis
    unfolding creator_member_def resolve_creator_member_def create_creator_member_def get_member_by_id_def phone_exists_def
      government_id_exists_def
    by (auto simp: wp clean no same link split: option.split intro!: wp_create_member ok)
qed

lemma wp_insert_chama:
  assumes "\<forall>e \<in> set (chamas (objs s)). ch_id e \<noteq> next_uuid s \<Longrightarrow>
      Q \<lparr>ch_id = next_uuid s, ch_name = name, ch_description = desc, ch_registration_fee_amount = fee, ch_status = st,
          ch_created_by_user_id = by\<rparr>
        (pending ((objs s)\<lparr>chamas := chamas (objs s) @ [\<lparr>ch_id = next_uuid s, ch_name = name, ch_description = desc,
          ch_registration_fee_amount = fee, ch_status = st, ch_created_by_user_id = by\<rparr>]\<rparr>) (Suc (next_uuid s)) s)"
    and "\<And>e t. durable t = durable s \<Longrightarrow> R e t"
  shows "wp (insert_chama name desc fee st by) Q R s"
  using assms
  by (auto simp: insert_chama_def wp Let_def chama_check_def list_ex_iff pending_def split: option.split)

lemma wp_create_chama:
  assumes clean: "clean s"
    and ok: "\<And>us ms i v c m k fee_id la a n w w'. \<forall>e \<in> set (chamas (objs s)). ch_id e \<noteq> i \<Longrightarrow> c = new_chama i u data \<Longrightarrow>
      m = new_membership v i k (next_number (objs s) i) (local_now s) \<Longrightarrow>
      fresh_membership (objs s) m \<Longrightarrow>
      Q c (saved (log_db a n (founded c m fee_id la ((objs s)\<lparr>users := us, members := ms\<rparr>))) w
        (saved (founded c m fee_id la ((objs s)\<lparr>users := us, members := ms\<rparr>)) w' s))"
    and no: "\<And>e t. durable t = durable s \<Longrightarrow> R e t"
  shows "wp (create_chama u data) Q R s"
proof -
  define tail :: "chama \<Rightarrow> membership \<Rightarrow> chama act" where "tail c m = (bind (get_role_by_name CHAIRPERSON) (\<lambda>chairperson.
     bind (get_role_by_name MEMBER) (\<lambda>default_member.
     bind (add_role (ms_id m) chairperson) (\<lambda>_.
     bind (add_role (ms_id m) default_member) (\<lambda>_.
     bind (create_fee (ms_id m) (ch_registration_fee_amount c)) (\<lambda>_.
     bind (seed_default_chart_of_accounts (ch_id c)) (\<lambda>_.
     bind commit (\<lambda>_.
     bind (audit_record_commit (Some (us_id u)) (Some (ch_id c)) CHAMA_CREATE ''chama'' (Some (ch_id c))
       (Some [(''name'', JStr (ch_name c))]) True) (\<lambda>_.
     ret c)))))))))" for c m
  have fin: "wp (tail c m) Q R (pending (with_membership m (bump i (d\<lparr>chamas := chamas d @ [c]\<rparr>))) w s)"
    if "\<forall>e \<in> set (chamas (objs s)). ch_id e \<noteq> i" "c = new_chama i u data"
      "m = new_membership v i k (next_number (objs s) i) (local_now s)" "fresh_membership (objs s) m"
      "d = (objs s)\<lparr>users := us, members := ms\<rparr>" for i c m v k d us ms w
  proof -
    have i: "ch_id c = i" by (simp add: that(2) new_chama_def)
    have "wp (bind commit (\<lambda>_. bind (audit_record_commit (Some (us_id u)) (Some (ch_id c)) CHAMA_CREATE ''chama'' (Some (ch_id c))
       (Some [(''name'', JStr (ch_name c))]) True) (\<lambda>_. ret c))) Q R (pending (founded c m f la d) w s)" for f la w
      unfolding wp_bind wp_ret wp_commit pending_simps pending_commit
      by (rule wp_audit_commit) (use ok [OF that(1-4)] that(5) in simp)
    note finish = this
    have "wp (bind (seed_default_chart_of_accounts (ch_id c)) (\<lambda>_. bind commit (\<lambda>_.
        bind (audit_record_commit (Some (us_id u)) (Some (ch_id c)) CHAMA_CREATE ''chama'' (Some (ch_id c))
       (Some [(''name'', JStr (ch_name c))]) True) (\<lambda>_. ret c)))) Q R
       (pending (with_fee f (ms_id m) (ch_registration_fee_amount c)
        (with_role (ms_id m) MEMBER (with_role (ms_id m) CHAIRPERSON
           (with_membership m (bump i (d\<lparr>chamas := chamas d @ [c]\<rparr>)))))) w s)" for f w
      unfolding wp_bind [of "seed_default_chart_of_accounts _"]
      by (rule wp_seed_chart) (use finish in \<open>simp add: founded_def i\<close>)
    then show ?thesis
      unfolding tail_def
      by (auto simp: wp_bind intro!: wp_get_role_by_name wp_add_role wp_create_fee no)
  qed
  have found: "wp (bind (allocate_membership_number (ch_id c)) (\<lambda>number.
     bind (insert_membership (ch_id c) k number) (\<lambda>m. tail c m))) Q R (pending (d\<lparr>chamas := chamas d @ [c]\<rparr>) w s)"
    if "\<forall>e \<in> set (chamas (objs s)). ch_id e \<noteq> i" "c = new_chama i u data" "d = (objs s)\<lparr>users := us, members := ms\<rparr>"
    for c i k d us ms w
  proof -
    have "ch_id c = i" "next_number (d\<lparr>chamas := cs\<rparr>) i = next_number (objs s) i"
      "fresh_membership (bump i (d\<lparr>chamas := cs\<rparr>)) m = fresh_membership (objs s) m" for cs m
      by (simp_all add: that(2,3) new_chama_def next_number_def fresh_membership_def)
    then show ?thesis
      using fin [OF that(1,2) refl _ that(3)]
      by (auto simp: wp_bind intro!: wp_allocate_membership_number wp_insert_membership no)
  qed
  show ?thesis
    unfolding create_chama_def wp_bind [of "creator_member _ _"] wp_bind [of "insert_chama _ _ _ _ _"] tail_def [symmetric]
  proof (rule wp_creator_member [OF clean], goal_cases)
    case (1 m us r ms v)
    show ?case
      by (rule wp_insert_chama) (use found [where us = us and ms = ms, OF _ _ refl] in \<open>auto simp: new_chama_def no\<close>)
  qed (rule no)
qed

end
