(* ===== verification/Governance_Props.thy ===== *)
theory Governance_Props
  imports Governance_Facts Demo
begin

text \<open>
  The properties of memberships, numbers and roles: the register of every Chama is well formed,
  it has at most one chairperson, and a Chama that lost its chairperson never gets one again.
\<close>

section \<open>The register\<close>

definition seat :: "membership \<Rightarrow> uuid \<times> uuid \<times> uuid \<times> int" where
  "seat m = (ms_id m, ms_chama_id m, ms_member_id m, ms_membership_number m)"

definition numbers :: "db \<Rightarrow> uuid \<Rightarrow> int list" where
  "numbers d c = map ms_membership_number (filter (\<lambda>m. ms_chama_id m = c) (memberships d))"

text \<open>
  Keys and references, and the numbers of every Chama: those given out so far, from 1 and in the
  order of enrolment.
\<close>

definition register_wf :: "db \<Rightarrow> bool" where
  "register_wf d \<longleftrightarrow>
     distinct (map ms_id (memberships d)) \<and>
     (\<forall>m \<in> set (memberships d). ms_chama_id m \<in> ch_id ` set (chamas d)) \<and>
     (\<forall>mr \<in> set (membership_roles d). mr_membership_id mr \<in> ms_id ` set (memberships d)) \<and>
     (\<forall>m \<in> set (memberships d). \<forall>m' \<in> set (memberships d).
        ms_chama_id m = ms_chama_id m' \<longrightarrow> ms_member_id m = ms_member_id m' \<longrightarrow> ms_id m = ms_id m') \<and>
     (\<forall>c. 1 \<le> next_number d c \<and> numbers d c = [1..next_number d c - 1])"

lemma register_wfD:
  assumes "register_wf d"
  shows "distinct (map ms_id (memberships d))"
    and "\<forall>m \<in> set (memberships d). ms_chama_id m \<in> ch_id ` set (chamas d)"
    and "\<forall>mr \<in> set (membership_roles d). mr_membership_id mr \<in> ms_id ` set (memberships d)"
    and "1 \<le> next_number d c" and "numbers d c = [1..next_number d c - 1]"
  using assms unfolding register_wf_def by blast+

lemma register_wf_once:
  "register_wf d \<Longrightarrow> m \<in> set (memberships d) \<Longrightarrow> m' \<in> set (memberships d) \<Longrightarrow> ms_chama_id m = ms_chama_id m' \<Longrightarrow>
     ms_member_id m = ms_member_id m' \<Longrightarrow> ms_id m = ms_id m'"
  unfolding register_wf_def by blast

definition leaders_wf :: "db \<Rightarrow> bool" where
  "leaders_wf d \<longleftrightarrow>
     (\<forall>i. \<forall>r \<in> set LEADERSHIP_ROLES. \<forall>r' \<in> set LEADERSHIP_ROLES. holds_role d i r \<longrightarrow> holds_role d i r' \<longrightarrow> r = r') \<and>
     (\<forall>m \<in> set (memberships d). \<forall>m' \<in> set (memberships d). ms_chama_id m = ms_chama_id m' \<longrightarrow>
        holds_role d (ms_id m) CHAIRPERSON \<longrightarrow> holds_role d (ms_id m') CHAIRPERSON \<longrightarrow> ms_id m = ms_id m')"

definition governed :: "db \<Rightarrow> bool" where
  "governed d \<longleftrightarrow> register_wf d \<and> leaders_wf d"

definition keeps_seats :: "db \<Rightarrow> db \<Rightarrow> bool" where
  "keeps_seats d d' \<longleftrightarrow> prefix (map seat (memberships d)) (map seat (memberships d')) \<and>
     ch_id ` set (chamas d) \<subseteq> ch_id ` set (chamas d')"

lemma holds_with_role [simp]: "holds_role (with_role i r d) j r' \<longleftrightarrow> holds_role d j r' \<or> j = i \<and> r' = r"
  by (auto simp: holds_role_def with_role_def)

lemma holds_without_role: "holds_role (without_role i r d) j r' \<Longrightarrow> holds_role d j r'"
  unfolding holds_role_def without_role_def list_ex_iff using set_remove1_subset by fastforce

lemma with_role_frame [simp]:
  "memberships (with_role i r d) = memberships d" "chamas (with_role i r d) = chamas d"
  "sequences (with_role i r d) = sequences d"
  by (simp_all add: with_role_def)

lemma without_role_frame [simp]:
  "memberships (without_role i r d) = memberships d" "chamas (without_role i r d) = chamas d"
  "sequences (without_role i r d) = sequences d"
  by (simp_all add: without_role_def)

lemma with_membership_frame [simp]:
  "memberships (with_membership m d) = memberships d @ [m]" "chamas (with_membership m d) = chamas d"
  "sequences (with_membership m d) = sequences d" "membership_roles (with_membership m d) = membership_roles d"
  by (simp_all add: with_membership_def)

lemma with_fee_frame [simp]:
  "memberships (with_fee i m a d) = memberships d" "chamas (with_fee i m a d) = chamas d"
  "sequences (with_fee i m a d) = sequences d" "membership_roles (with_fee i m a d) = membership_roles d"
  by (simp_all add: with_fee_def)

lemma holds_role_cong: "membership_roles d' = membership_roles d \<Longrightarrow> holds_role d' = holds_role d"
  by (intro ext) (simp add: holds_role_def)

text \<open>Other tables do not matter.\<close>

lemma governed_cong:
  assumes "memberships d' = memberships d" "membership_roles d' = membership_roles d"
    "sequences d' = sequences d" "ch_id ` set (chamas d') = ch_id ` set (chamas d)"
  shows "governed d' = governed d"
  using assms by (simp add: governed_def register_wf_def leaders_wf_def numbers_def next_number_def holds_role_cong [OF assms(2)])

lemma unknown_holds_none: "register_wf d \<Longrightarrow> i \<notin> ms_id ` set (memberships d) \<Longrightarrow> \<not> holds_role d i r"
  unfolding register_wf_def holds_role_def list_ex_iff by blast

lemma governed_enrol:
  assumes gov: "governed d" and new: "fresh_membership d m" and c: "ms_chama_id m \<in> ch_id ` set (chamas d)"
    and n: "ms_membership_number m = next_number d (ms_chama_id m)"
  shows "governed (with_membership m (bump (ms_chama_id m) d))"
proof -
  let ?d = "with_membership m (bump (ms_chama_id m) d)"
  have wf: "register_wf d" "leaders_wf d" using gov by (simp_all add: governed_def)
  have next': "next_number ?d k = (if k = ms_chama_id m then next_number d k + 1 else next_number d k)" for k
    using next_number_bump [of "ms_chama_id m" d k] by (auto simp: next_number_def)
  have holds: "holds_role ?d = holds_role d" by (rule holds_role_cong) simp
  have num: "1 \<le> next_number ?d k \<and> numbers ?d k = [1..next_number ?d k - 1]" for k
  proof -
    have old: "1 \<le> next_number d k" "numbers d k = [1..next_number d k - 1]" using register_wfD(4,5) [OF wf(1)] by simp_all
    then have "numbers d k @ [next_number d k] = [1..next_number d k]" using upto_rec2 [of 1 "next_number d k"] by simp
    then show ?thesis using old n by (auto simp: next' numbers_def)
  qed
  have ids: "ms_id m \<notin> ms_id ` set (memberships d)" using new by (simp add: fresh_membership_def)
  have one: "ms_member_id k \<noteq> ms_member_id m" if "k \<in> set (memberships d)" "ms_chama_id k = ms_chama_id m" for k
    using new that by (simp add: fresh_membership_def)
  have uniq: "ms_id k = ms_id k'"
    if "k \<in> set (memberships d)" "k' \<in> set (memberships d)" "ms_chama_id k = ms_chama_id k'" "ms_member_id k = ms_member_id k'" for k k'
    using wf(1) that unfolding register_wf_def by blast
  have "register_wf ?d"
    unfolding register_wf_def
  proof (intro conjI, goal_cases)
    case 1
    then show ?case using register_wfD(1) [OF wf(1)] ids by simp
  next
    case 2
    then show ?case using register_wfD(2) [OF wf(1)] c by simp
  next
    case 3
    then show ?case using register_wfD(3) [OF wf(1)] by simp
  next
    case 4
    show ?case
    proof (intro ballI impI)
      fix k k'
      assume k: "k \<in> set (memberships ?d)" "k' \<in> set (memberships ?d)" "ms_chama_id k = ms_chama_id k'" "ms_member_id k = ms_member_id k'"
      then have "k = m \<or> k \<in> set (memberships d)" "k' = m \<or> k' \<in> set (memberships d)" by simp_all
      then show "ms_id k = ms_id k'" using uniq [of k k'] one [of k] one [of k'] k(3,4) by fastforce
    qed
  qed (use num in blast)
  moreover have "leaders_wf ?d"
    unfolding leaders_wf_def holds
  proof (intro conjI ballI impI, goal_cases)
    case 1
    then show ?case using wf(2) unfolding leaders_wf_def by blast
  next
    case (2 k k')
    then have "k \<noteq> m" "k' \<noteq> m" using unknown_holds_none [OF wf(1) ids] by blast+
    then show ?case using wf(2) 2 unfolding leaders_wf_def by simp
  qed
  ultimately show ?thesis by (simp add: governed_def)
qed

lemma governed_with_role:
  assumes gov: "governed d" and i: "i \<in> ms_id ` set (memberships d)"
    and lead: "r \<in> set LEADERSHIP_ROLES \<Longrightarrow> \<not> list_ex (holds_role d i) LEADERSHIP_ROLES"
    and chair: "\<And>m m'. r = CHAIRPERSON \<Longrightarrow> m \<in> set (memberships d) \<Longrightarrow> ms_id m = i \<Longrightarrow> m' \<in> set (memberships d) \<Longrightarrow>
      ms_chama_id m' = ms_chama_id m \<Longrightarrow> holds_role d (ms_id m') CHAIRPERSON \<Longrightarrow> ms_id m' = i"
  shows "governed (with_role i r d)"
proof -
  have wf: "register_wf d" "leaders_wf d" using gov by (simp_all add: governed_def)
  have num: "numbers (with_role i r d) = numbers d" "next_number (with_role i r d) = next_number d"
    by (simp_all add: fun_eq_iff numbers_def next_number_def)
  have links: "set (membership_roles (with_role i r d)) = insert \<lparr>mr_membership_id = i, mr_role = r\<rparr> (set (membership_roles d))"
    by (simp add: with_role_def)
  have "\<forall>mr \<in> set (membership_roles (with_role i r d)). mr_membership_id mr \<in> ms_id ` set (memberships d)"
    using register_wfD(3) [OF wf(1)] i by (simp add: links)
  then have "register_wf (with_role i r d)"
    using wf(1) unfolding register_wf_def num with_role_frame by blast
  moreover have "leaders_wf (with_role i r d)"
    unfolding leaders_wf_def holds_with_role
  proof (intro conjI allI ballI impI, goal_cases)
    case (1 j q q')
    show ?case
    proof (cases "j = i")
      case True
      have none: "r \<in> set LEADERSHIP_ROLES \<Longrightarrow> \<not> holds_role d i p" if "p \<in> set LEADERSHIP_ROLES" for p
        using lead that by (auto simp: list_ex_iff)
      show ?thesis using 1 none [of q] none [of q'] wf(2) unfolding True leaders_wf_def by blast
    next
      case False
      then show ?thesis using 1 wf(2) unfolding leaders_wf_def by blast
    qed
  next
    case (2 m m')
    have old: "ms_id m = ms_id m'" if "holds_role d (ms_id m) CHAIRPERSON" "holds_role d (ms_id m') CHAIRPERSON"
      using wf(2) 2(1-3) that unfolding leaders_wf_def with_role_frame by blast
    show ?case using 2 old chair [of m m'] chair [of m' m] by auto
  qed
  ultimately show ?thesis by (simp add: governed_def)
qed

lemma governed_without_role: "governed d \<Longrightarrow> governed (without_role i r d)"
proof -
  assume gov: "governed d"
  then have wf: "register_wf d" "leaders_wf d" by (simp_all add: governed_def)
  have num: "numbers (without_role i r d) = numbers d" "next_number (without_role i r d) = next_number d"
    by (simp_all add: fun_eq_iff numbers_def next_number_def)
  have "set (membership_roles (without_role i r d)) \<subseteq> set (membership_roles d)"
    by (simp add: without_role_def set_remove1_subset)
  then have "register_wf (without_role i r d)"
    using wf(1) unfolding register_wf_def num without_role_frame by blast
  moreover have "leaders_wf (without_role i r d)"
    using wf(2) holds_without_role unfolding leaders_wf_def without_role_frame by blast
  ultimately show ?thesis by (simp add: governed_def)
qed

lemma status_set_seats:
  "map seat (memberships (status_set i st d)) = map seat (memberships d)"
  by (simp add: status_set_def upd_row_def seat_def)

lemma governed_status_set: "governed d \<Longrightarrow> governed (status_set i st d)"
proof -
  have upd: "\<exists>m0 \<in> set (memberships d). seat m = seat m0" if "m \<in> set (memberships (status_set i st d))" for m
    using that status_set_seats [of i st d] by (metis (no_types, lifting) imageE image_eqI list.set_map)
  have ids: "map ms_id (memberships (status_set i st d)) = map ms_id (memberships d)"
    by (simp add: status_set_def upd_row_def)
  have nums: "numbers (status_set i st d) = numbers d"
  proof
    fix c
    have "map ms_membership_number (filter (\<lambda>m. ms_chama_id m = c) (upd_row ms_id i (ms_status_update f) ms)) =
        map ms_membership_number (filter (\<lambda>m. ms_chama_id m = c) ms)" for f ms
      by (induction ms) (auto simp: upd_row_def)
    then show "numbers (status_set i st d) c = numbers d c" by (simp add: numbers_def status_set_def)
  qed
  have rest: "next_number (status_set i st d) = next_number d" "chamas (status_set i st d) = chamas d"
    "membership_roles (status_set i st d) = membership_roles d"
    by (simp_all add: fun_eq_iff next_number_def status_set_def)
  assume gov: "governed d"
  have reg: "register_wf d" and lead: "leaders_wf d" using gov by (simp_all add: governed_def)
  have idset: "ms_id ` set (memberships (status_set i st d)) = ms_id ` set (memberships d)"
    using ids by (metis list.set_map)
  have "register_wf (status_set i st d)"
    using reg upd unfolding register_wf_def ids nums rest idset seat_def by (metis prod.inject)
  moreover have "leaders_wf (status_set i st d)"
    using lead upd unfolding leaders_wf_def holds_role_cong [OF rest(3)] seat_def by (metis prod.inject)
  ultimately show ?thesis by (simp add: governed_def)
qed

section \<open>Losing the chairperson\<close>

definition leaderless :: "uuid \<Rightarrow> db \<Rightarrow> bool" where
  "leaderless c d \<longleftrightarrow> (\<forall>m \<in> set (memberships d). ms_chama_id m = c \<longrightarrow> ms_status m = MS_ACTIVE \<longrightarrow>
     \<not> holds_role d (ms_id m) CHAIRPERSON)"

definition gov_rel :: "db \<Rightarrow> db \<Rightarrow> bool" where
  "gov_rel d d' \<longleftrightarrow> keeps_seats d d' \<and> (\<forall>c \<in> ch_id ` set (chamas d). leaderless c d \<longrightarrow> leaderless c d')"

abbreviation gov_step :: "db \<Rightarrow> db \<Rightarrow> bool" where
  "gov_step d d' \<equiv> gov_rel d d' \<and> governed d'"

lemma gov_rel_trans: "gov_rel d d' \<Longrightarrow> gov_rel d' d'' \<Longrightarrow> gov_rel d d''"
  unfolding gov_rel_def keeps_seats_def by (meson prefix_order.trans subset_trans subsetD)

lemma gov_same:
  assumes "governed d" and "memberships d' = memberships d" "membership_roles d' = membership_roles d"
    "sequences d' = sequences d" "ch_id ` set (chamas d') = ch_id ` set (chamas d)"
  shows "gov_step d d'"
  using assms governed_cong [OF assms(2-5)]
  by (simp add: gov_rel_def keeps_seats_def leaderless_def holds_role_cong [OF assms(3)])

lemma gov_logged: "gov_step d d' \<Longrightarrow> gov_step d (log_db a n d')"
  using governed_cong [of "log_db a n d'" d'] holds_role_cong [of "log_db a n d'" d']
  by (simp add: gov_rel_def keeps_seats_def leaderless_def)

lemma leader_acts:
  assumes "write_ok actor c d am" and "holds_role d (ms_id am) CHAIRPERSON"
  shows "\<not> leaderless c d"
  using assms by (auto simp: leaderless_def write_ok_def access_ok_def)

lemma same_membership:
  "governed d \<Longrightarrow> m \<in> set (memberships d) \<Longrightarrow> m' \<in> set (memberships d) \<Longrightarrow> ms_id m = ms_id m' \<Longrightarrow> m = m'"
  using register_wfD(1) [of d] unfolding governed_def distinct_map by (meson inj_onD)

lemma enrolled_frame [simp]:
  "membership_roles (enrolled c m i a d) = membership_roles (with_role (ms_id m) MEMBER d)"
  "memberships (enrolled c m i a d) = memberships d @ [m]" "chamas (enrolled c m i a d) = chamas d"
  "sequences (enrolled c m i a d) = sequences (bump c d)"
  by (simp_all add: enrolled_def with_role_def)

lemma enrolled_step:
  assumes gov: "governed d" and m: "fresh_membership d m" "ms_chama_id m = c" "ms_membership_number m = next_number d c"
    and c: "c \<in> ch_id ` set (chamas d)"
    and d': "memberships d' = memberships d" "membership_roles d' = membership_roles d" "sequences d' = sequences d" "chamas d' = chamas d"
  shows "gov_step d (enrolled c m i a d')"
proof -
  have same: "bump c d' = d'\<lparr>sequences := sequences (bump c d)\<rparr>" by (simp add: bump_def d' split: option.split)
  have "governed (with_membership m (bump c d))" using governed_enrol [OF gov m(1)] m c by simp
  then have "governed (with_role (ms_id m) MEMBER (with_membership m (bump c d)))"
    by (rule governed_with_role) (simp_all add: LEADERSHIP_ROLES_def)
  also have "governed (with_role (ms_id m) MEMBER (with_membership m (bump c d))) = governed (enrolled c m i a d')"
    by (rule governed_cong [symmetric]) (simp_all add: d' same, simp add: with_role_def with_membership_def d')
  finally have gov': "governed (enrolled c m i a d')" .
  have "holds_role (enrolled c m i a d') = holds_role (with_role (ms_id m) MEMBER d)"
    by (rule holds_role_cong) (simp add: with_role_def d')
  then have holds: "holds_role (enrolled c m i a d') j CHAIRPERSON \<longleftrightarrow> holds_role d j CHAIRPERSON" for j by simp
  have "\<not> holds_role d (ms_id m) CHAIRPERSON"
    using unknown_holds_none m(1) gov unfolding governed_def fresh_membership_def by blast
  then have "leaderless k d \<Longrightarrow> leaderless k (enrolled c m i a d')" for k
    unfolding leaderless_def holds by (auto simp: d')
  then show ?thesis using gov' by (auto simp: gov_rel_def keeps_seats_def d')
qed

lemma assigned_step:
  assumes gov: "governed d" and m: "m \<in> set (memberships d)" "ms_chama_id m = c"
    and lead: "\<not> list_ex (holds_role d (ms_id m)) LEADERSHIP_ROLES"
    and chair: "r = CHAIRPERSON \<Longrightarrow> \<not> chaired_by_other d c (ms_id m)"
    and led: "\<not> leaderless c d"
  shows "gov_step d (with_role (ms_id m) r d)"
proof -
  have "governed (with_role (ms_id m) r d)"
  proof (rule governed_with_role [OF gov])
    fix k k'
    assume "r = CHAIRPERSON" "k \<in> set (memberships d)" "ms_id k = ms_id m" "k' \<in> set (memberships d)"
      "ms_chama_id k' = ms_chama_id k" "holds_role d (ms_id k') CHAIRPERSON"
    moreover have "k = m" using same_membership [OF gov] calculation m by blast
    ultimately show "ms_id k' = ms_id m" using chair m unfolding chaired_by_other_def by blast
  qed (use m lead in auto)
  moreover have "leaderless k (with_role (ms_id m) r d)" if "leaderless k d" for k
  proof -
    have "k \<noteq> c" using that led by blast
    then show ?thesis
      using that same_membership [OF gov _ m(1)] m(2) unfolding leaderless_def holds_with_role with_role_frame by metis
  qed
  ultimately show ?thesis by (simp add: gov_rel_def keeps_seats_def)
qed

lemma removed_step: "governed d \<Longrightarrow> gov_step d (without_role i r d)"
  using governed_without_role [of d i r] holds_without_role [of i r d]
  by (auto simp: gov_rel_def keeps_seats_def leaderless_def)

lemma status_step:
  assumes gov: "governed d" and m: "m \<in> set (memberships d)" "ms_chama_id m = c" and led: "\<not> leaderless c d"
  shows "gov_step d (status_set (ms_id m) st d)"
proof -
  have holds: "holds_role (status_set (ms_id m) st d) = holds_role d"
    by (rule holds_role_cong) (simp add: status_set_def)
  have "leaderless k (status_set (ms_id m) st d)" if "leaderless k d" for k
    unfolding leaderless_def holds
  proof (intro ballI impI)
    fix x
    assume x: "x \<in> set (memberships (status_set (ms_id m) st d))" "ms_chama_id x = k" "ms_status x = MS_ACTIVE"
    have "k \<noteq> c" using that led by blast
    have "x \<in> set (memberships d)"
    proof (cases "ms_id x = ms_id m")
      case True
      have same: "ms_chama_id y = c" if "y \<in> set (memberships d)" "ms_id y = ms_id m" for y
        using same_membership [OF gov that(1) m(1) that(2)] m(2) by simp
      have "ms_chama_id x = c" using x(1) True same by (auto simp: status_set_def set_upd_row)
      with \<open>k \<noteq> c\<close> x(2) show ?thesis by simp
    next
      case False
      then show ?thesis using x(1) by (auto simp: status_set_def set_upd_row)
    qed
    then show "\<not> holds_role d (ms_id x) CHAIRPERSON" using that x unfolding leaderless_def by blast
  qed
  then show ?thesis
    using governed_status_set [OF gov] status_set_seats [of "ms_id m" st d]
    by (auto simp: gov_rel_def keeps_seats_def status_set_def)
qed

lemma founded_step:
  assumes gov: "governed d" and c: "ch_id c \<notin> ch_id ` set (chamas d)"
    and m: "fresh_membership d m" "ms_chama_id m = ch_id c" "ms_membership_number m = next_number d (ch_id c)"
    and d': "memberships d' = memberships d" "membership_roles d' = membership_roles d" "sequences d' = sequences d" "chamas d' = chamas d"
  shows "gov_step d (founded c m i la d')"
proof -
  let ?e = "d\<lparr>chamas := chamas d @ [c]\<rparr>" and ?D = "founded c m i la d'"
  have reg: "register_wf d" using gov by (simp add: governed_def)
  have none: "\<not> holds_role d (ms_id m) r" for r
    using unknown_holds_none [OF reg] m(1) by (simp add: fresh_membership_def)
  have empty: "ms_chama_id k \<noteq> ch_id c" if "k \<in> set (memberships d)" for k
    using register_wfD(2) [OF reg] that c by metis
  have "governed ?e"
  proof -
    have wf: "register_wf d" "leaders_wf d" using gov by (simp_all add: governed_def)
    have num: "numbers ?e = numbers d" "next_number ?e = next_number d" by (simp_all add: fun_eq_iff numbers_def next_number_def)
    have tabs: "memberships ?e = memberships d" "membership_roles ?e = membership_roles d"
      "ch_id ` set (chamas ?e) = insert (ch_id c) (ch_id ` set (chamas d))" by simp_all
    have "register_wf ?e" using wf(1) unfolding register_wf_def num tabs by blast
    moreover have "leaders_wf ?e" using wf(2) unfolding leaders_wf_def tabs holds_role_cong [OF tabs(2)] .
    ultimately show ?thesis by (simp add: governed_def)
  qed
  moreover have "fresh_membership ?e m" "ms_membership_number m = next_number ?e (ch_id c)"
    using m by (simp_all add: fresh_membership_def next_number_def)
  ultimately have gm: "governed (with_membership m (bump (ch_id c) ?e))"
    using governed_enrol [of ?e m] m(2) by simp
  have holds0: "holds_role (with_membership m (bump (ch_id c) ?e)) = holds_role d" by (rule holds_role_cong) simp
  have gc: "governed (with_role (ms_id m) CHAIRPERSON (with_membership m (bump (ch_id c) ?e)))"
  proof (rule governed_with_role [OF gm])
    fix k k'
    assume k: "k \<in> set (memberships (with_membership m (bump (ch_id c) ?e)))" "ms_id k = ms_id m"
      "k' \<in> set (memberships (with_membership m (bump (ch_id c) ?e)))" "ms_chama_id k' = ms_chama_id k"
    then have "k = m" using same_membership [OF gm, of k m] by simp
    then show "ms_id k' = ms_id m" using k(3,4) empty m(2) by auto
  qed (use none in \<open>auto simp: holds0 list_ex_iff\<close>)
  then have "governed (with_role (ms_id m) MEMBER (with_role (ms_id m) CHAIRPERSON (with_membership m (bump (ch_id c) ?e))))"
    by (rule governed_with_role) (simp_all add: LEADERSHIP_ROLES_def)
  also have "governed (with_role (ms_id m) MEMBER (with_role (ms_id m) CHAIRPERSON (with_membership m (bump (ch_id c) ?e)))) = governed ?D"
    by (rule governed_cong [symmetric])
       (simp_all add: founded_def d' bump_def with_role_def with_membership_def with_fee_def split: option.split)
  finally have gov': "governed ?D" .
  have "holds_role ?D = holds_role (with_role (ms_id m) MEMBER (with_role (ms_id m) CHAIRPERSON d))"
    by (rule holds_role_cong) (simp add: founded_def with_role_def with_membership_def with_fee_def d')
  then have holds: "holds_role ?D j CHAIRPERSON \<longleftrightarrow> holds_role d j CHAIRPERSON \<or> j = ms_id m" for j by simp
  have mem: "memberships ?D = memberships d @ [m]" "chamas ?D = chamas d @ [c]"
    by (simp_all add: founded_def with_role_def with_membership_def with_fee_def d')
  have "leaderless k ?D" if "k \<in> ch_id ` set (chamas d)" "leaderless k d" for k
    unfolding leaderless_def holds mem
  proof (intro ballI impI)
    fix x
    assume x: "x \<in> set (memberships d @ [m])" "ms_chama_id x = k" "ms_status x = MS_ACTIVE"
    then have "x \<noteq> m" using m(2) c that(1) by metis
    with x(1) have "x \<in> set (memberships d)" by simp
    moreover from this have "ms_id x \<noteq> ms_id m" using m(1) unfolding fresh_membership_def by (metis imageI)
    ultimately show "\<not> (holds_role d (ms_id x) CHAIRPERSON \<or> ms_id x = ms_id m)"
      using that(2) x unfolding leaderless_def by blast
  qed
  then show ?thesis using gov' by (auto simp: gov_rel_def keeps_seats_def mem)
qed

section \<open>The service\<close>

datatype governance_op =
    Create_Chama chama_create
  | Update_Chama chama_update
  | Enrol member_source
  | Set_Status uuid membership_status
  | Assign_Role uuid role_name
  | Remove_Role uuid role_name

fun run_governance :: "(uuid \<Rightarrow> string \<Rightarrow> string) \<Rightarrow> user \<Rightarrow> uuid \<Rightarrow> governance_op \<Rightarrow> unit act" where
  "run_governance hash actor cid (Create_Chama data) = bind (create_chama actor data) (\<lambda>_. ret ())"
| "run_governance hash actor cid (Update_Chama data) = bind (update_chama actor cid data) (\<lambda>_. ret ())"
| "run_governance hash actor cid (Enrol source) = bind (create_membership hash actor cid source) (\<lambda>_. ret ())"
| "run_governance hash actor cid (Set_Status mid st) = bind (update_membership_status actor cid mid st) (\<lambda>_. ret ())"
| "run_governance hash actor cid (Assign_Role mid r) = bind (assign_role actor cid mid r) (\<lambda>_. ret ())"
| "run_governance hash actor cid (Remove_Role mid r) = bind (remove_role actor cid mid r) (\<lambda>_. ret ())"

lemma grows_commit_log:
  assumes "gov_step d D"
  shows "grows (gov_step d) s (saved (log_db a n D) u (saved D v s))"
  by (intro grows_saved_on grows_same assms gov_logged) simp

lemma found_chama: "find_row ch_id cid (chamas d) = Some c \<Longrightarrow> ch_id c \<in> ch_id ` set (chamas d)"
  by (auto dest: find_row_SomeD)

lemma wp_governance_op:
  assumes clean: "clean s" and gov: "governed (objs s)"
  shows "wp (run_governance hash actor cid op) (\<lambda>_ t. grows (gov_step (objs s)) s t) (\<lambda>_ t. grows (gov_step (objs s)) s t) s"
proof (cases op)
  case (Create_Chama data)
  have "wp (create_chama actor data) (\<lambda>_ t. grows (gov_step (objs s)) s t) (\<lambda>_ t. grows (gov_step (objs s)) s t) s"
  proof (rule wp_create_chama [OF clean], goal_cases)
    case (1 us ms i v c m k fee_id la a n w w')
    show ?case
      by (rule grows_commit_log, rule founded_step [OF gov _ 1(4)])
         (use 1(1) in \<open>auto simp: 1(2,3) new_chama_def\<close>)
  qed simp
  then show ?thesis using Create_Chama by (simp add: wp)
next
  case (Update_Chama data)
  have key: "ch_id (apply_update data c) = ch_id c" for c by (simp add: apply_update_def Let_def split: option.split)
  have "wp (update_chama actor cid data) (\<lambda>_ t. grows (gov_step (objs s)) s t) (\<lambda>_ t. grows (gov_step (objs s)) s t) s"
  proof (rule wp_update_chama [OF clean], goal_cases)
    case (1 c am a n u)
    show ?case by (rule grows_commit_log, rule gov_same [OF gov]) (simp_all add: key keys_upd_row)
  qed simp
  then show ?thesis using Update_Chama by (simp add: wp)
next
  case (Enrol source)
  have "wp (create_membership hash actor cid source) (\<lambda>_ t. grows (gov_step (objs s)) s t) (\<lambda>_ t. grows (gov_step (objs s)) s t) s"
  proof (rule wp_create_membership [OF clean], goal_cases)
    case (1 c am member d' u v a n w m)
    show ?case
      by (rule grows_commit_log, rule enrolled_step [OF gov 1(9)])
         (use found_chama [OF 1(1)] in \<open>simp_all add: 1(8) resolved_frame [OF 1(4)]\<close>)
  qed simp
  then show ?thesis using Enrol by (simp add: wp)
next
  case (Set_Status mid st)
  have "wp (update_membership_status actor cid mid st) (\<lambda>_ t. grows (gov_step (objs s)) s t) (\<lambda>_ t. grows (gov_step (objs s)) s t) s"
  proof (rule wp_update_membership_status [OF clean], goal_cases)
    case (1 c am m a n u)
    show ?case
      by (rule grows_commit_log, rule status_step [OF gov _ 1(5) leader_acts [OF 1(2,3)]])
         (use find_row_SomeD [OF 1(4)] in simp)
  qed simp
  then show ?thesis using Set_Status by (simp add: wp)
next
  case (Assign_Role mid r)
  have "wp (assign_role actor cid mid r) (\<lambda>_ t. grows (gov_step (objs s)) s t) (\<lambda>_ t. grows (gov_step (objs s)) s t) s"
  proof (rule wp_assign_role [OF clean], goal_cases)
    case (1 c am m a n u)
    show ?case
      by (rule grows_commit_log, rule assigned_step [OF gov _ 1(5,7,8) leader_acts [OF 1(2,3)]])
         (use find_row_SomeD [OF 1(4)] in simp_all)
  qed simp
  then show ?thesis using Assign_Role by (simp add: wp)
next
  case (Remove_Role mid r)
  have "wp (remove_role actor cid mid r) (\<lambda>_ t. grows (gov_step (objs s)) s t) (\<lambda>_ t. grows (gov_step (objs s)) s t) s"
  proof (rule wp_remove_role [OF clean], goal_cases)
    case (1 c am m a n u)
    show ?case by (rule grows_commit_log, rule removed_step [OF gov])
  qed simp
  then show ?thesis using Remove_Role by (simp add: wp)
qed

interpretation governance_service: service "run_governance hash" "\<lambda>_. True" governed gov_rel
  for hash :: "uuid \<Rightarrow> string \<Rightarrow> string"
proof unfold_locales
  show "gov_rel d d" for d by (simp add: gov_rel_def keeps_seats_def)
qed (rule gov_rel_trans, assumption+, rule wp_governance_op, assumption+)

lemma at_most_one:
  assumes "distinct xs" and "\<And>x y. x \<in> set xs \<Longrightarrow> y \<in> set xs \<Longrightarrow> x = y"
  shows "length xs \<le> 1"
proof (rule ccontr)
  assume "\<not> length xs \<le> 1"
  then obtain x y ys where xs: "xs = x # y # ys" by (cases xs; cases "tl xs") simp_all
  then have "x = y" by (intro assms(2)) simp_all
  then show False using assms(1) xs by simp
qed

section \<open>The properties\<close>

text \<open>
  C20. After any sequence of requests the memberships of a Chama carry the numbers 1, 2, 3, ... in the
  order of enrolment, the next number follows the last one, nobody is enrolled twice, and every
  membership there was still has its id, its Chama, its member and its number.
\<close>

theorem membership_register:
  assumes "served (run_governance hash) (\<lambda>_. True) s t" and "clean s" and "governed (objs s)"
  shows "numbers (objs t) c = [1..int (length (numbers (objs t) c))] \<and>
    next_number (objs t) c = int (length (numbers (objs t) c)) + 1 \<and>
    distinct (map ms_member_id (filter (\<lambda>m. ms_chama_id m = c) (memberships (objs t)))) \<and>
    prefix (map seat (memberships (objs s))) (map seat (memberships (objs t)))"
proof -
  have inv: "governed (objs t)" "gov_rel (objs s) (objs t)"
    using governance_service.served_good assms by blast+
  then have reg: "register_wf (objs t)" by (simp add: governed_def)
  have n: "1 \<le> next_number (objs t) c" "numbers (objs t) c = [1..next_number (objs t) c - 1]"
    using register_wfD(4,5) [OF reg] by blast+
  have "length (numbers (objs t) c) = nat (next_number (objs t) c - 1)" unfolding n(2) by simp
  then have len: "next_number (objs t) c = int (length (numbers (objs t) c)) + 1" using n(1) by linarith
  have seq: "numbers (objs t) c = [1..int (length (numbers (objs t) c))]" using n(2) len by (metis add_diff_cancel_right')
  let ?ms = "filter (\<lambda>m. ms_chama_id m = c) (memberships (objs t))"
  have "inj_on ms_member_id (set ?ms)"
  proof (rule inj_onI)
    fix m m'
    assume m: "m \<in> set ?ms" "m' \<in> set ?ms" "ms_member_id m = ms_member_id m'"
    then have ms: "m \<in> set (memberships (objs t))" "m' \<in> set (memberships (objs t))" "ms_chama_id m = ms_chama_id m'"
      by simp_all
    show "m = m'" by (rule same_membership [OF inv(1) ms(1,2) register_wf_once [OF reg ms m(3)]])
  qed
  moreover have "distinct ?ms" using register_wfD(1) [OF reg] by (simp add: distinct_map)
  ultimately have "distinct (map ms_member_id ?ms)" by (simp add: distinct_map)
  moreover have "prefix (map seat (memberships (objs s))) (map seat (memberships (objs t)))"
    using inv(2) unfolding gov_rel_def keeps_seats_def by blast
  ultimately show ?thesis using seq len by blast
qed

text \<open>
  C21. After any sequence of requests a Chama has at most one chairperson, and no membership holds
  two leadership roles.
\<close>

theorem one_chairperson:
  assumes "served (run_governance hash) (\<lambda>_. True) s t" and "clean s" and "governed (objs s)"
  shows "length (filter (\<lambda>m. ms_chama_id m = c \<and> holds_role (objs t) (ms_id m) CHAIRPERSON) (memberships (objs t))) \<le> 1 \<and>
    length (filter (holds_role (objs t) i) LEADERSHIP_ROLES) \<le> 1"
proof
  have inv: "governed (objs t)" using governance_service.served_good assms by blast
  then have lead: "leaders_wf (objs t)" and reg: "register_wf (objs t)" by (simp_all add: governed_def)
  have dist: "distinct (memberships (objs t))" using register_wfD(1) [OF reg] by (simp add: distinct_map)
  have one: "m = m'" if "m \<in> set (memberships (objs t))" "m' \<in> set (memberships (objs t))" "ms_chama_id m = c"
    "ms_chama_id m' = c" "holds_role (objs t) (ms_id m) CHAIRPERSON" "holds_role (objs t) (ms_id m') CHAIRPERSON" for m m'
  proof -
    have "ms_chama_id m = ms_chama_id m'" using that(3,4) by simp
    then have "ms_id m = ms_id m'" using lead that unfolding leaders_wf_def by blast
    then show ?thesis by (rule same_membership [OF inv that(1,2)])
  qed
  show "length (filter (\<lambda>m. ms_chama_id m = c \<and> holds_role (objs t) (ms_id m) CHAIRPERSON) (memberships (objs t))) \<le> 1"
  proof (rule at_most_one, goal_cases)
    case (2 m m')
    then show ?case by (intro one) simp_all
  qed (use dist in simp)
  have two: "r = r'" if "r \<in> set LEADERSHIP_ROLES" "r' \<in> set LEADERSHIP_ROLES" "holds_role (objs t) i r" "holds_role (objs t) i r'" for r r'
    using lead that unfolding leaders_wf_def by blast
  show "length (filter (holds_role (objs t) i) LEADERSHIP_ROLES) \<le> 1"
  proof (rule at_most_one, goal_cases)
    case (2 r r')
    then show ?case by (intro two) simp_all
  qed (simp add: LEADERSHIP_ROLES_def)
qed

text \<open>
  C22. A Chama without an active chairperson, for instance because the chairperson gave up the
  role or deactivated the own membership, never has one again, whatever requests follow: the
  operations that could appoint or reactivate one are reserved to the chairperson.
\<close>

theorem leaderless_forever:
  assumes "served (run_governance hash) (\<lambda>_. True) s t" and "clean s" and "governed (objs s)"
    and "find_row ch_id cid (chamas (objs s)) = Some c" and "leaderless cid (objs s)"
  shows "leaderless cid (objs t)"
proof -
  have "gov_rel (objs s) (objs t)" using governance_service.served_good assms(1-3) by blast
  moreover have "cid \<in> ch_id ` set (chamas (objs s))" using find_row_SomeD [OF assms(4)] by blast
  ultimately show ?thesis using assms(5) unfolding gov_rel_def by blast
qed

text \<open>
  A successful enrolment adds exactly one active membership, with the Chama's next number and
  the MEMBER role only, and the registration fee the Chama asks, owed; for an unknown identity it
  also adds the member and one active account that logs in with the government id and must change
  that password; a known identity gets no second member and no account.
\<close>

lemma create_membership_effect:
  assumes clean: "clean s" and gov: "governed (objs s)"
    and c: "find_row ch_id cid (chamas (objs s)) = Some c"
    and run: "create_membership hash actor cid source s = (Inr m, t)"
  shows "memberships (objs t) = memberships (objs s) @ [m] \<and> ms_chama_id m = cid \<and> ms_status m = MS_ACTIVE \<and>
    ms_membership_number m = int (length (numbers (objs s) cid)) + 1 \<and>
    (\<forall>r. holds_role (objs t) (ms_id m) r \<longleftrightarrow> r = MEMBER) \<and>
    (\<exists>i. registration_fees (objs t) = registration_fees (objs s) @
       [\<lparr>rf_id = i, rf_membership_id = ms_id m, rf_amount = ch_registration_fee_amount c, rf_status = FEE_OWED\<rparr>]) \<and>
    (\<exists>k member. mb_id member = ms_member_id m \<and>
       resolved hash k source (objs s) member ((objs s)\<lparr>users := users (objs t), members := members (objs t)\<rparr>))"
proof -
  let ?post = "\<lambda>m t. memberships (objs t) = memberships (objs s) @ [m] \<and> ms_chama_id m = cid \<and> ms_status m = MS_ACTIVE \<and>
    ms_membership_number m = int (length (numbers (objs s) cid)) + 1 \<and>
    (\<forall>r. holds_role (objs t) (ms_id m) r \<longleftrightarrow> r = MEMBER) \<and>
    (\<exists>i. registration_fees (objs t) = registration_fees (objs s) @
       [\<lparr>rf_id = i, rf_membership_id = ms_id m, rf_amount = ch_registration_fee_amount c, rf_status = FEE_OWED\<rparr>]) \<and>
    (\<exists>k member. mb_id member = ms_member_id m \<and>
       resolved hash k source (objs s) member ((objs s)\<lparr>users := users (objs t), members := members (objs t)\<rparr>))"
  have reg: "register_wf (objs s)" using gov by (simp add: governed_def)
  have "length (numbers (objs s) cid) = nat (next_number (objs s) cid - 1)"
    using register_wfD(5) [OF reg, of cid] by simp
  then have num: "next_number (objs s) cid = int (length (numbers (objs s) cid)) + 1"
    using register_wfD(4) [OF reg, of cid] by simp
  have "wp (create_membership hash actor cid source) ?post (\<lambda>_ _. True) s"
  proof (rule wp_create_membership [OF clean], goal_cases)
    case (1 c' am member d' u v a n w m)
    let ?D = "enrolled cid m (Suc u) (ch_registration_fee_amount c) d'"
    have c': "c' = c" "ch_id c = cid" using 1(1) c find_row_key [OF c] by simp_all
    have none: "\<not> holds_role (objs s) (ms_id m) r" for r
      using unknown_holds_none [OF reg] 1(9) by (simp add: fresh_membership_def)
    have roles: "holds_role (log_db a n ?D) = holds_role (with_role (ms_id m) MEMBER (objs s))"
      by (rule holds_role_cong) (simp add: with_role_def resolved_frame [OF 1(4)])
    have people: "(objs s)\<lparr>users := users ?D, members := members ?D\<rparr> = d'"
      using 1(4) by (auto simp: resolved_def provisioned_def enrolled_def with_fee_def with_role_def with_membership_def
          bump_def split: member_source.splits option.splits)
    have fees: "registration_fees (log_db a n ?D) = registration_fees (objs s) @
       [\<lparr>rf_id = Suc u, rf_membership_id = ms_id m, rf_amount = ch_registration_fee_amount c, rf_status = FEE_OWED\<rparr>]"
      by (simp add: enrolled_def with_fee_def with_role_def with_membership_def resolved_frame [OF 1(4)])
    have mine: "mb_id member = ms_member_id m" "members (log_db a n ?D) = members ?D" "users (log_db a n ?D) = users ?D"
      using 1(8) by (simp_all add: log_db_def)
    have m: "ms_chama_id m = cid" "ms_status m = MS_ACTIVE" "ms_membership_number m = int (length (numbers (objs s) cid)) + 1"
      using 1(8) num by (simp_all add: c')
    have "resolved hash v source (objs s) member ((objs s)\<lparr>users := users (log_db a n ?D), members := members (log_db a n ?D)\<rparr>)"
      using 1(4) people mine by simp
    then show ?case
      unfolding c' saved_simps using m mine(1) fees
      by (auto simp: roles none resolved_frame [OF 1(4)])
  qed simp
  from wp_InrD [OF this run] show ?thesis .
qed

section \<open>The properties on the demo database\<close>

definition council_db :: db where
  "council_db = demo_db\<lparr>roles := [CHAIRPERSON, TREASURER, SECRETARY, MEMBER, PLATFORM_ADMIN],
     sequences := [\<lparr>sq_chama_id = 10, sq_next_number = 5\<rparr>]\<rparr>"

definition council :: sess where
  "council = fresh_session False False demo_settings (DateTime 2026 3 1 0) 1000000 1000 council_db"

lemma council_db_simps [simp]:
  "users council_db = users demo_db" "chamas council_db = [demo_chama]"
  "members council_db = [demo_member 31, demo_member 32, demo_member 33, demo_member 34]"
  "memberships council_db = memberships demo_db" "membership_roles council_db = membership_roles demo_db"
  "roles council_db = [CHAIRPERSON, TREASURER, SECRETARY, MEMBER, PLATFORM_ADMIN]"
  "sequences council_db = [\<lparr>sq_chama_id = 10, sq_next_number = 5\<rparr>]" "registration_fees council_db = []"
  by (simp_all add: council_db_def demo_db_def empty_db_def)

lemma council_simps [simp]:
  "objs council = council_db" "rows council = council_db" "durable council = [council_db]" "next_uuid council = 1000"
  "autoflush council = False" "local_now council = DateTime 2026 3 1 0" "clean council"
  by (simp_all add: council_def clean_fresh, simp_all add: fresh_session_def)

lemma council_numbers: "numbers council_db c = (if c = 10 then [1, 2, 3, 4] else [])"
  "next_number council_db c = (if c = 10 then 5 else 1)"
  by (simp_all add: numbers_def next_number_def find_row_Cons demo_membership_def)

lemma council_governed: "governed council_db"
proof -
  have "register_wf council_db"
    unfolding register_wf_def by (simp add: council_numbers demo_membership_def upto_rec1)
  moreover have "leaders_wf council_db"
    by (simp add: leaders_wf_def LEADERSHIP_ROLES_def holds_role_def)
  ultimately show ?thesis by (simp add: governed_def)
qed

text \<open>The chairperson resigns.\<close>

lemma resign_returns: "returns (remove_role chair 10 41 CHAIRPERSON) council"
  unfolding returns_wp remove_role_def
  by (auto simp: ledger_run holds_role_def get_role_by_name_def drop_role_def reload_membership_def
      intro!: wp_audit_commit)

definition resigned :: sess where
  "resigned = after (remove_role chair 10 41 CHAIRPERSON) council"

lemma resigned_run: "remove_role chair 10 41 CHAIRPERSON council = (Inr (result_of (remove_role chair 10 41 CHAIRPERSON) council), resigned)"
  unfolding resigned_def by (rule returnsD [OF resign_returns])

lemma resigned_state:
  "\<exists>a n. objs resigned = log_db a n (without_role 41 CHAIRPERSON council_db) \<and> clean resigned"
proof -
  have "wp (remove_role chair 10 41 CHAIRPERSON) (\<lambda>_ t. \<exists>a n. objs t = log_db a n (without_role 41 CHAIRPERSON council_db) \<and> clean t)
      (\<lambda>_ _. True) council"
    by (rule wp_remove_role) (auto simp: find_row_Cons, blast)
  from wp_InrD [OF this resigned_run] show ?thesis .
qed

definition newcomer :: member_details where
  "newcomer = \<lparr>md_first_name = ''J'', md_last_name = ''K'', md_phone_number = ''254711000000'',
     md_government_id = ''77'', md_email = None\<rparr>"

lemma newcomer_simps [simp]:
  "normalize_ke_msisdn ''254711000000'' = ''254711000000''" "md_government_id newcomer = ''77''"
  "phone_variants ''254711000000'' = [''254711000000'']" "lower ''j@k'' = ''j@k''"
  by (simp_all add: newcomer_def normalize_ke_msisdn_def phone_variants_def Let_def is_digit_def digits_of_def less_eq_char_def lower_def
      lower_char_def is_upper_def)

lemma newcomer_details [simp]:
  "md_first_name newcomer = ''J''" "md_last_name newcomer = ''K''" "md_phone_number newcomer = ''254711000000''"
  by (simp_all add: newcomer_def)

lemma council_rows [simp]:
  "ms_membership_number (demo_membership i k n) = n" "ch_registration_fee_amount demo_chama = 50000"
  by (simp_all add: demo_membership_def demo_chama_def)

lemmas council_run = wp ledger_run holds_role_def get_role_by_name_def reload_membership_def resolve_member_def
  find_by_identity_def provision_member_def phone_exists_def government_id_exists_def get_user_by_email_def create_member_def
  create_user_def member_check_def user_check_def create_membership_once_def get_by_chama_and_member_def
  allocate_membership_number_def set_next_number_def upd_row_def insert_membership_def membership_check_def add_role_def
  membership_role_check_def create_fee_def fee_check_def

lemma attempt_returns:
  "returns (membership_attempts (Suc n) hash chair 10 (NewMember newcomer ''j@k'')) council"
  unfolding returns_wp membership_attempts.simps
  by (simp add: council_run demo_member_def demo_user_def wp_audit_commit)

lemma enrol_returns: "returns (create_membership hash chair 10 (NewMember newcomer ''j@k'')) council"
proof -
  have "wp (membership_attempts 5 hash chair 10 (NewMember newcomer ''j@k'')) (\<lambda>_ _. True) (\<lambda>_ _. False) council"
    using attempt_returns [of 4 hash] by (simp add: returns_wp eval_nat_numeral)
  then show ?thesis
    unfolding returns_wp create_membership_def MAX_NUMBER_RETRIES_def
    by (simp add: wp ledger_run holds_role_def LEADERSHIP_ROLES_def)
qed

definition demo_hash :: "uuid \<Rightarrow> string \<Rightarrow> string" where
  "demo_hash salt password = hex_digits 4 salt @ password"

definition enrolled_session :: "(uuid \<Rightarrow> string \<Rightarrow> string) \<Rightarrow> sess" where
  "enrolled_session hash = snd (request (run_governance hash chair 10 (Enrol (NewMember newcomer ''j@k''))) council)"

lemma enrolled_served: "served (run_governance hash) (\<lambda>_. True) council (enrolled_session hash)"
  unfolding enrolled_session_def by (intro served.intros) simp

lemma enrolled_objs:
  "\<exists>m t. create_membership hash chair 10 (NewMember newcomer ''j@k'') council = (Inr m, t) \<and>
     objs t = objs (enrolled_session hash)"
proof -
  let ?m = "create_membership hash chair 10 (NewMember newcomer ''j@k'')"
  have run: "?m council = (Inr (result_of ?m council), after ?m council)" by (rule returnsD [OF enrol_returns])
  have "wp ?m (\<lambda>_. clean) (\<lambda>_ _. True) council" by (rule wp_create_membership) simp_all
  from wp_InrD [OF this run] have "clean (after ?m council)" .
  moreover have "run_governance hash chair 10 (Enrol (NewMember newcomer ''j@k'')) council = (Inr (), after ?m council)"
    using run by (simp add: bind_def ret_def)
  ultimately have "objs (enrolled_session hash) = objs (after ?m council)"
    using request_closed(1) [where m = "run_governance hash chair 10 (Enrol (NewMember newcomer ''j@k''))" and s = council]
    unfolding enrolled_session_def by simp
  then show ?thesis using run by metis
qed

lemma create_membership_effect_witness:
  "\<exists>m. memberships (objs (enrolled_session demo_hash)) = memberships demo_db @ [m] \<and> ms_membership_number m = 5 \<and>
     length (registration_fees (objs (enrolled_session demo_hash))) = 1"
proof -
  obtain m t where run: "create_membership demo_hash chair 10 (NewMember newcomer ''j@k'') council = (Inr m, t)"
    and t: "objs t = objs (enrolled_session demo_hash)" using enrolled_objs by blast
  have "governed (objs council)" "find_row ch_id 10 (chamas (objs council)) = Some demo_chama"
    using council_governed by (simp_all add: find_row_Cons)
  from create_membership_effect [OF _ this run]
  obtain f where m: "memberships (objs t) = memberships (objs council) @ [m]"
    "ms_membership_number m = int (length (numbers (objs council) 10)) + 1"
    "registration_fees (objs t) = registration_fees (objs council) @ [f]" by auto
  then show ?thesis unfolding t by (intro exI [of _ m]) (simp add: council_numbers)
qed

theorem membership_register_witness:
  "numbers (objs (enrolled_session demo_hash)) 10 = [1..int (length (numbers (objs (enrolled_session demo_hash)) 10))]"
  using membership_register [OF enrolled_served] council_governed by simp

theorem one_chairperson_witness:
  "length (filter (\<lambda>m. ms_chama_id m = 10 \<and> holds_role (objs (enrolled_session demo_hash)) (ms_id m) CHAIRPERSON)
     (memberships (objs (enrolled_session demo_hash)))) \<le> 1"
  using one_chairperson [OF enrolled_served] council_governed by simp

text \<open>The chairperson who resigned tries to appoint a successor.\<close>

theorem leaderless_forever_witness:
  "leaderless 10 (objs (snd (request (run_governance demo_hash chair 10 (Assign_Role 43 CHAIRPERSON)) resigned)))"
proof (rule leaderless_forever)
  show "served (run_governance demo_hash) (\<lambda>_. True) resigned
      (snd (request (run_governance demo_hash chair 10 (Assign_Role 43 CHAIRPERSON)) resigned))"
    by (intro served.intros) simp
  obtain a n where st: "objs resigned = log_db a n (without_role 41 CHAIRPERSON council_db)" "clean resigned"
    using resigned_state by blast
  show "clean resigned" by (rule st)
  show "governed (objs resigned)"
    unfolding st using governed_without_role [OF council_governed] by (subst governed_cong) auto
  show "find_row ch_id 10 (chamas (objs resigned)) = Some demo_chama" by (simp add: st find_row_Cons)
  have "membership_roles (objs resigned) = [\<lparr>mr_membership_id = 42, mr_role = TREASURER\<rparr>]"
    by (simp add: st without_role_def)
  then show "leaderless 10 (objs resigned)" by (simp add: leaderless_def holds_role_def)
qed

end
