(* ===== verification/Strings.thy ===== *)
theory Strings
  imports Policies Enums
begin

text \<open>
  Text as the payment code builds and reads it: decimal numerals (\<open>str\<close> and \<open>int\<close> of an
  integer, \<open>f"{n:02d}"\<close>), \<open>str.upper\<close> and \<open>str.strip\<close>, and UUIDs read back from text. Strings
  are ASCII, and bytes are strings of characters 0 to 255.
\<close>

section \<open>Numerals\<close>

definition digit_char :: "nat \<Rightarrow> char" where
  "digit_char n = char_of (48 + n)"

definition digit_value :: "char \<Rightarrow> nat" where
  "digit_value c = of_char c - 48"

fun nat_str :: "nat \<Rightarrow> string" where
  "nat_str n = (if n < 10 then [digit_char n] else nat_str (n div 10) @ [digit_char (n mod 10)])"

declare nat_str.simps [simp del]

definition int_str :: "int \<Rightarrow> string" where
  "int_str i = (if i < 0 then CHR ''-'' # nat_str (nat (- i)) else nat_str (nat i))"

definition two_digits :: "int \<Rightarrow> string" where
  "two_digits i = (if 0 \<le> i \<and> i < 10 then CHR ''0'' # int_str i else int_str i)"

definition digits_value :: "string \<Rightarrow> nat" where
  "digits_value s = foldl (\<lambda>v c. 10 * v + digit_value c) 0 s"

lemma digit_char_value [simp]: "n < 10 \<Longrightarrow> digit_value (digit_char n) = n"
  by (simp add: digit_char_def digit_value_def)

lemma is_digit_iff: "is_digit c \<longleftrightarrow> 48 \<le> (of_char c :: nat) \<and> (of_char c :: nat) \<le> 57"
  by (simp add: is_digit_def less_eq_char_def)

lemma is_digit_digit_char [simp]: "n < 10 \<Longrightarrow> is_digit (digit_char n)"
  by (simp add: is_digit_iff digit_char_def)

lemma digits_value_append [simp]: "digits_value (s @ [c]) = 10 * digits_value s + digit_value c"
  by (simp add: digits_value_def)

lemma nat_str_digits: "list_all is_digit (nat_str n) \<and> nat_str n \<noteq> []"
  by (induction n rule: nat_str.induct) (subst (1 2) nat_str.simps, auto)

lemma digits_value_nat_str [simp]: "digits_value (nat_str n) = n"
proof (induction n rule: nat_str.induct)
  case (1 n)
  show ?case
  proof (cases "n < 10")
    case True
    then show ?thesis by (subst nat_str.simps) (simp add: digits_value_def)
  next
    case False
    then have "digits_value (nat_str n) = digits_value (nat_str (n div 10) @ [digit_char (n mod 10)])"
      by (subst nat_str.simps) simp
    then show ?thesis using 1 False by simp
  qed
qed

lemma nat_str_inject [simp]: "nat_str m = nat_str n \<longleftrightarrow> m = n"
  by (metis digits_value_nat_str)

lemma minus_not_digit [simp]: "\<not> is_digit (CHR ''-'')"
  by (simp add: is_digit_iff)

lemma nat_str_no_minus: "CHR ''-'' \<notin> set (nat_str n)"
  using nat_str_digits [of n] minus_not_digit by (auto simp: list_all_iff)

lemma int_str_inject [simp]: "int_str a = int_str b \<longleftrightarrow> a = b"
proof -
  have "nat_str m \<noteq> CHR ''-'' # s" for m s using nat_str_no_minus [of m] by (metis list.set_intros(1))
  then show ?thesis by (auto simp: int_str_def) (metis)+
qed

section \<open>Case and white space\<close>

definition upper_char :: "char \<Rightarrow> char" where
  "upper_char c = (if is_lower c then char_of (of_char c - 32 :: nat) else c)"

definition upper :: "string \<Rightarrow> string" where
  "upper s = map upper_char s"

definition is_space :: "char \<Rightarrow> bool" where
  "is_space c \<longleftrightarrow> of_char c \<in> ({9, 10, 11, 12, 13, 28, 29, 30, 31, 32} :: nat set)"

definition lstrip :: "string \<Rightarrow> string" where
  "lstrip s = dropWhile is_space s"

definition rstrip_char :: "char \<Rightarrow> string \<Rightarrow> string" where
  "rstrip_char c s = rev (dropWhile (\<lambda>x. x = c) (rev s))"

definition strip_char :: "char \<Rightarrow> string \<Rightarrow> string" where
  "strip_char c s = rstrip_char c (dropWhile (\<lambda>x. x = c) s)"

definition strip :: "string \<Rightarrow> string" where
  "strip s = rev (dropWhile is_space (rev (lstrip s)))"

text \<open>\<open>" ".join(value.split())\<close>.\<close>

fun words_from :: "string \<Rightarrow> string \<Rightarrow> string list" where
  "words_from w [] = (if w = [] then [] else [w])"
| "words_from w (c # cs) =
     (if is_space c then (if w = [] then words_from [] cs else w # words_from [] cs)
      else words_from (w @ [c]) cs)"

definition split_words :: "string \<Rightarrow> string list" where
  "split_words s = words_from [] s"

section \<open>Integers and UUIDs from text\<close>

text \<open>
  \<open>int(text)\<close>: white space around it, a sign, decimal digits with single underscores between
  them.
\<close>

fun digit_groups :: "string \<Rightarrow> string option" where
  "digit_groups [] = None"
| "digit_groups [c] = (if is_digit c then Some [c] else None)"
| "digit_groups (c # d # cs) =
     (if \<not> is_digit c then None
      else if d = CHR ''_'' then map_option ((#) c) (digit_groups cs)
      else map_option ((#) c) (digit_groups (d # cs)))"

definition parse_int :: "string \<Rightarrow> int option" where
  "parse_int s =
     (let t = strip s;
          neg = take 1 t = ''-'';
          body = (if take 1 t = ''-'' \<or> take 1 t = ''+'' then drop 1 t else t)
      in map_option (\<lambda>ds. (if neg then - 1 else 1) * int (digits_value ds)) (digit_groups body))"

lemma digit_groups_digits: "list_all is_digit s \<Longrightarrow> s \<noteq> [] \<Longrightarrow> digit_groups s = Some s"
proof (induction s rule: digit_groups.induct)
  case (3 c d cs)
  have "d \<noteq> CHR ''_''" using 3(3) by (auto simp: is_digit_iff)
  with 3 show ?case by simp
qed simp_all

lemma strip_digits: "list_all is_digit s \<Longrightarrow> strip s = s"
proof -
  have sp: "is_digit c \<Longrightarrow> \<not> is_space c" for c by (auto simp: is_digit_iff is_space_def)
  assume a: "list_all is_digit s"
  have "dropWhile is_space t = t" if "list_all is_digit t" for t
    using that sp by (cases t) auto
  then show ?thesis using a by (simp add: strip_def lstrip_def)
qed

lemma parse_int_nat_str [simp]: "parse_int (nat_str n) = Some (int n)"
proof -
  have s: "strip (nat_str n) = nat_str n" using nat_str_digits by (simp add: strip_digits)
  obtain c cs where n: "nat_str n = c # cs" "is_digit c"
    using nat_str_digits [of n] by (cases "nat_str n") auto
  have c: "c \<noteq> CHR ''-''" "c \<noteq> CHR ''+''" using n(2) by (auto simp: is_digit_iff)
  have "digit_groups (nat_str n) = Some (nat_str n)"
    using nat_str_digits by (intro digit_groups_digits) simp_all
  then show ?thesis unfolding parse_int_def s using c by (simp add: n(1) Let_def) (simp add: n(1) [symmetric])
qed

definition hex_value :: "char \<Rightarrow> nat option" where
  "hex_value c =
     (if is_digit c then Some (of_char c - 48)
      else if CHR ''a'' \<le> c \<and> c \<le> CHR ''f'' then Some (of_char c - 87)
      else if CHR ''A'' \<le> c \<and> c \<le> CHR ''F'' then Some (of_char c - 55) else None)"

fun hex_number :: "nat \<Rightarrow> string \<Rightarrow> nat option" where
  "hex_number v [] = Some v"
| "hex_number v (c # cs) = (case hex_value c of None \<Rightarrow> None | Some d \<Rightarrow> hex_number (16 * v + d) cs)"

text \<open>\<open>uuid.UUID(text)\<close>: hyphens and braces do not count, 32 hexadecimal digits do.\<close>

definition parse_uuid :: "string \<Rightarrow> uuid option" where
  "parse_uuid s =
     (let h = filter (\<lambda>c. c \<noteq> CHR ''-'') (rev (dropWhile (\<lambda>c. c \<in> {CHR ''{'', CHR ''}''})
                (rev (dropWhile (\<lambda>c. c \<in> {CHR ''{'', CHR ''}''}) s))))
      in if length h = 32 then hex_number 0 h else None)"

text \<open>A printed UUID is read back.\<close>

lemma hex_value_digit: "d < 16 \<Longrightarrow> hex_value (hex_digit d) = Some d"
proof -
  assume d: "d < 16"
  then have "d \<in> {0, 1, 2, 3, 4, 5, 6, 7, 8, 9, 10, 11, 12, 13, 14, 15}" by (simp; presburger)
  then show ?thesis by (elim insertE) (simp_all add: hex_value_def hex_digit_def is_digit_iff less_eq_char_def)
qed

lemma hex_number_append:
  "hex_number v (s @ t) = (case hex_number v s of None \<Rightarrow> None | Some w \<Rightarrow> hex_number w t)"
  by (induction s arbitrary: v) (auto split: option.split)

lemma hex_number_digits: "hex_number v (hex_digits k n) = Some (16 ^ k * v + n mod 16 ^ k)"
proof (induction k arbitrary: n)
  case (Suc k)
  have "16 * (16 ^ k * v + n div 16 mod 16 ^ k) + n mod 16 = 16 ^ Suc k * v + n mod (16 * 16 ^ k)"
    by (simp add: mod_mult2_eq algebra_simps)
  then show ?case by (simp add: hex_number_append Suc hex_value_digit)
qed simp

lemma length_hex_digits [simp]: "length (hex_digits k n) = k"
  by (induction k arbitrary: n) simp_all

lemma set_hex_digits: "c \<in> set (hex_digits k n) \<Longrightarrow> \<exists>d < 16. c = hex_digit d"
  by (induction k arbitrary: n) (auto intro: exI [of _ "_ mod 16"])

lemma hex_digit_plain: "d < 16 \<Longrightarrow> hex_digit d \<notin> {CHR ''-'', CHR ''|'', CHR ''{'', CHR ''}''}"
  using hex_value_digit [of d] by (auto simp: hex_value_def is_digit_iff less_eq_char_def)

lemma uuid_hex_plain:
  "CHR ''-'' \<notin> set (uuid_hex u)" "CHR ''|'' \<notin> set (uuid_hex u)" "CHR ''{'' \<notin> set (uuid_hex u)"
  "CHR ''}'' \<notin> set (uuid_hex u)"
  unfolding uuid_hex_def using set_hex_digits hex_digit_plain by (metis insertCI)+

lemma uuid_str_set: "set (uuid_str u) \<subseteq> insert (CHR ''-'') (set (uuid_hex u))"
  unfolding uuid_str_def Let_def by (auto dest: in_set_takeD in_set_dropD)

lemma uuid_str_no_bar: "CHR ''|'' \<notin> set (uuid_str u)"
  using uuid_str_set [of u] uuid_hex_plain(2) [of u] by auto

lemma uuid_str_filter: "filter (\<lambda>c. c \<noteq> CHR ''-'') (uuid_str u) = uuid_hex u"
proof -
  have all: "filter (\<lambda>c. c \<noteq> CHR ''-'') t = t" if "set t \<subseteq> set (uuid_hex u)" for t
    using that uuid_hex_plain(1) [of u] by (auto simp: filter_id_conv)
  have sub: "set (take i (drop j (uuid_hex u))) \<subseteq> set (uuid_hex u)" "set (take i (uuid_hex u)) \<subseteq> set (uuid_hex u)"
    "set (drop i (uuid_hex u)) \<subseteq> set (uuid_hex u)" for i j
    by (auto dest: in_set_takeD in_set_dropD)
  have part: "take 4 (drop i h) @ drop (i + 4) h = drop i h" for i and h :: string
    by (metis append_take_drop_id drop_drop add.commute)
  have "take 8 h @ take 4 (drop 8 h) @ take 4 (drop 12 h) @ take 4 (drop 16 h) @ drop 20 h = h" for h :: string
    using part [of 8 h] part [of 12 h] part [of 16 h] by simp
  then show ?thesis unfolding uuid_str_def Let_def by (simp add: all sub)
qed

lemma uuid_str_inject:
  assumes "uuid_str u = uuid_str v" and "u < 16 ^ 32" and "v < 16 ^ 32"
  shows "u = v"
proof -
  have "uuid_hex u = uuid_hex v" using assms(1) uuid_str_filter by metis
  then have "hex_number 0 (uuid_hex u) = hex_number 0 (uuid_hex v)" by simp
  then show ?thesis using assms(2,3) by (simp add: uuid_hex_def hex_number_digits)
qed

lemma parse_uuid_str:
  assumes "u < 16 ^ 32"
  shows "parse_uuid (uuid_str u) = Some u"
proof -
  have "\<forall>c \<in> set (uuid_str u). c \<noteq> CHR ''{'' \<and> c \<noteq> CHR ''}''"
    using uuid_str_set [of u] uuid_hex_plain(3,4) [of u] by auto
  then have "dropWhile (\<lambda>c. c \<in> {CHR ''{'', CHR ''}''}) s = s" if "set s \<subseteq> set (uuid_str u)" for s
    using that by (cases s) auto
  then have "parse_uuid (uuid_str u) = hex_number 0 (uuid_hex u)"
    by (simp add: parse_uuid_def uuid_str_filter) (simp add: uuid_hex_def)
  then show ?thesis using assms by (simp add: uuid_hex_def hex_number_digits)
qed

end
