(* ===== verification/Json.thy ===== *)
theory Json
  imports Strings "HOL-Library.AList" "HOL-Library.List_Lexorder"
begin

text \<open>
  The JSON text the payment code writes and reads with the standard library: \<open>json.dumps\<close> with
  sorted keys and the separators \<open>(",", ":")\<close> and \<open>json.loads\<close>. A text is a list of code points
  below 256; an escape of a code point beyond them is outside the model and does not parse. A
  number with a fraction or an exponent keeps its text. The reader is structural on a fuel that
  starts at the length of the text plus one: every nested call has consumed a character, so it
  is never short.
\<close>

datatype json =
    JsNull | JsBool bool | JsInt int | JsFloat string | JsStr string
  | JsArr "json list" | JsObj "(string \<times> json) list"

definition jget :: "string \<Rightarrow> (string \<times> json) list \<Rightarrow> json" where
  "jget k o' = (case map_of o' k of None \<Rightarrow> JsNull | Some v \<Rightarrow> v)"

section \<open>Writing\<close>

definition hex4 :: "nat \<Rightarrow> string" where
  "hex4 n = hex_digits 4 n"

definition escape_char :: "char \<Rightarrow> string" where
  "escape_char c =
     (if c = CHR 0x22 then [CHR 0x5C, CHR 0x22]
      else if c = CHR 0x5C then [CHR 0x5C, CHR 0x5C]
      else if c = CHR 10 then [CHR 0x5C, CHR ''n'']
      else if c = CHR 13 then [CHR 0x5C, CHR ''r'']
      else if c = CHR 9 then [CHR 0x5C, CHR ''t'']
      else if c = CHR 12 then [CHR 0x5C, CHR ''f'']
      else if c = CHR 8 then [CHR 0x5C, CHR ''b'']
      else if 32 \<le> (of_char c :: nat) \<and> (of_char c :: nat) \<le> 126 then [c]
      else [CHR 0x5C, CHR ''u''] @ hex4 (of_char c))"

definition quote :: "string \<Rightarrow> string" where
  "quote s = CHR 0x22 # concat (map escape_char s) @ [CHR 0x22]"

fun commas :: "string list \<Rightarrow> string" where
  "commas [] = []"
| "commas [x] = x"
| "commas (x # y # zs) = x @ '','' @ commas (y # zs)"

function dumps :: "json \<Rightarrow> string" where
  "dumps JsNull = ''null''"
| "dumps (JsBool b) = (if b then ''true'' else ''false'')"
| "dumps (JsInt i) = int_str i"
| "dumps (JsFloat t) = t"
| "dumps (JsStr s) = quote s"
| "dumps (JsArr xs) = ''['' @ commas (map dumps xs) @ '']''"
| "dumps (JsObj kvs) =
     ''{'' @ commas (map (\<lambda>kv. quote (fst kv) @ '':'' @ dumps (snd kv)) (sort_key fst kvs)) @ ''}''"
  by pat_completeness auto
termination
proof (relation "measure size", goal_cases)
  case 1
  then show ?case by simp
next
  case (2 xs x)
  then show ?case by (induction xs) auto
next
  case (3 kvs kv)
  then have "kv \<in> set kvs" by simp
  then have "size (snd kv) < Suc (size_list (size_prod (\<lambda>_. 0) size) kvs)"
    by (induction kvs) auto
  then show ?case by simp
qed

section \<open>Reading\<close>

definition is_ws :: "char \<Rightarrow> bool" where
  "is_ws c \<longleftrightarrow> c = CHR '' '' \<or> c = CHR 9 \<or> c = CHR 10 \<or> c = CHR 13"

definition skip :: "string \<Rightarrow> string" where
  "skip s = dropWhile is_ws s"

fun unescape :: "char \<Rightarrow> char option" where
  "unescape c =
     (if c = CHR 0x22 \<or> c = CHR 0x5C \<or> c = CHR ''/'' then Some c
      else if c = CHR ''n'' then Some (CHR 10) else if c = CHR ''r'' then Some (CHR 13)
      else if c = CHR ''t'' then Some (CHR 9) else if c = CHR ''f'' then Some (CHR 12)
      else if c = CHR ''b'' then Some (CHR 8) else None)"

fun read_string :: "string \<Rightarrow> (string \<times> string) option" where
  "read_string [] = None"
| "read_string (c # cs) =
     (if c = CHR 0x22 then Some ([], cs)
      else if c = CHR 0x5C then
        (case cs of
           e # h1 # h2 # h3 # h4 # r \<Rightarrow>
             (if e = CHR ''u'' then
                (case hex_number 0 [h1, h2, h3, h4] of
                   Some n \<Rightarrow> if n < 256 then map_option (\<lambda>(s, r). (char_of n # s, r)) (read_string r) else None
                 | None \<Rightarrow> None)
              else (case unescape e of
                      Some x \<Rightarrow> map_option (\<lambda>(s, r). (x # s, r)) (read_string (h1 # h2 # h3 # h4 # r))
                    | None \<Rightarrow> None))
         | e # r \<Rightarrow> (case unescape e of
                      Some x \<Rightarrow> map_option (\<lambda>(s, r). (x # s, r)) (read_string r) | None \<Rightarrow> None)
         | [] \<Rightarrow> None)
      else if (of_char c :: nat) < 32 then None
      else map_option (\<lambda>(s, r). (c # s, r)) (read_string cs))"

text \<open>\<open>-?(0|[1-9][0-9]*)(\.[0-9]+)?([eE][-+]?[0-9]+)?\<close>\<close>

definition fraction_part :: "string \<Rightarrow> string \<times> string" where
  "fraction_part s =
     (case s of
        c # cs \<Rightarrow> if c = CHR ''.'' \<and> takeWhile is_digit cs \<noteq> []
                  then (c # takeWhile is_digit cs, dropWhile is_digit cs) else ([], s)
      | [] \<Rightarrow> ([], s))"

definition exponent_part :: "string \<Rightarrow> string \<times> string" where
  "exponent_part s =
     (case s of
        c # cs \<Rightarrow>
          (let sign = (if take 1 cs = ''+'' \<or> take 1 cs = ''-'' then take 1 cs else []);
               ds = drop (length sign) cs
           in if (c = CHR ''e'' \<or> c = CHR ''E'') \<and> takeWhile is_digit ds \<noteq> []
              then (c # sign @ takeWhile is_digit ds, dropWhile is_digit ds) else ([], s))
      | [] \<Rightarrow> ([], s))"

definition int_part :: "string \<Rightarrow> string \<times> string" where
  "int_part s =
     (let ds = (if take 1 s = ''0'' then ''0'' else takeWhile is_digit s) in (ds, drop (length ds) s))"

definition read_number :: "string \<Rightarrow> (json \<times> string) option" where
  "read_number s =
     (let neg = (take 1 s = ''-'');
          body = (if neg then drop 1 s else s);
          (ds, r) = int_part body;
          (fr, r) = fraction_part r;
          (ex, r) = exponent_part r
      in if ds = [] then None
         else if fr = [] \<and> ex = [] then Some (JsInt ((if neg then - 1 else 1) * int (digits_value ds)), r)
         else Some (JsFloat ((if neg then ''-'' else []) @ ds @ fr @ ex), r))"

text \<open>A dictionary keeps the last value given for a key, in the place of the first.\<close>

definition dict_of :: "(string \<times> json) list \<Rightarrow> (string \<times> json) list" where
  "dict_of kvs = fold (\<lambda>(k, v). AList.update k v) kvs []"

fun read_value :: "nat \<Rightarrow> string \<Rightarrow> (json \<times> string) option"
and read_elements :: "nat \<Rightarrow> string \<Rightarrow> (json list \<times> string) option"
and read_members :: "nat \<Rightarrow> string \<Rightarrow> ((string \<times> json) list \<times> string) option" where
  "read_value 0 s = None"
| "read_value (Suc n) s =
     (case s of
        [] \<Rightarrow> None
      | c # cs \<Rightarrow>
          if c = CHR 0x22 then map_option (\<lambda>(t, r). (JsStr t, r)) (read_string cs)
          else if c = CHR ''{'' then
            (if take 1 (skip cs) = ''}'' then Some (JsObj [], drop 1 (skip cs))
             else map_option (\<lambda>(kvs, r). (JsObj (dict_of kvs), r)) (read_members n (skip cs)))
          else if c = CHR ''['' then
            (if take 1 (skip cs) = '']'' then Some (JsArr [], drop 1 (skip cs))
             else map_option (\<lambda>(xs, r). (JsArr xs, r)) (read_elements n (skip cs)))
          else if take 4 s = ''null'' then Some (JsNull, drop 4 s)
          else if take 4 s = ''true'' then Some (JsBool True, drop 4 s)
          else if take 5 s = ''false'' then Some (JsBool False, drop 5 s)
          else if take 3 s = ''NaN'' then Some (JsFloat ''nan'', drop 3 s)
          else if take 8 s = ''Infinity'' then Some (JsFloat ''inf'', drop 8 s)
          else if take 9 s = ''-Infinity'' then Some (JsFloat ''-inf'', drop 9 s)
          else read_number s)"
| "read_elements 0 s = None"
| "read_elements (Suc n) s =
     (case read_value n s of
        None \<Rightarrow> None
      | Some (x, r) \<Rightarrow>
          if take 1 (skip r) = '','' then
            map_option (\<lambda>(xs, r). (x # xs, r)) (read_elements n (skip (drop 1 (skip r))))
          else if take 1 (skip r) = '']'' then Some ([x], drop 1 (skip r)) else None)"
| "read_members 0 s = None"
| "read_members (Suc n) s =
     (if take 1 s \<noteq> [CHR 0x22] then None
      else case read_string (drop 1 s) of
        None \<Rightarrow> None
      | Some (k, r) \<Rightarrow>
          if take 1 (skip r) \<noteq> '':'' then None
          else case read_value n (skip (drop 1 (skip r))) of
            None \<Rightarrow> None
          | Some (v, r) \<Rightarrow>
              if take 1 (skip r) = '','' then
                map_option (\<lambda>(kvs, r). ((k, v) # kvs, r)) (read_members n (skip (drop 1 (skip r))))
              else if take 1 (skip r) = ''}'' then Some ([(k, v)], drop 1 (skip r)) else None)"

definition loads :: "string \<Rightarrow> json option" where
  "loads s =
     (case read_value (Suc (length s)) (skip s) of
        Some (v, r) \<Rightarrow> if skip r = [] then Some v else None
      | None \<Rightarrow> None)"

section \<open>What is written is read back\<close>

text \<open>Values in the form \<open>dumps\<close> writes: sorted keys, no two alike, no fractions.\<close>

fun canonical :: "json \<Rightarrow> bool" where
  "canonical (JsFloat t) = False"
| "canonical (JsArr xs) = (\<forall>x \<in> set xs. canonical x)"
| "canonical (JsObj kvs) = (sorted_wrt (<) (map fst kvs) \<and> (\<forall>kv \<in> set kvs. canonical (snd kv)))"
| "canonical _ = True"

definition stops :: "string \<Rightarrow> bool" where
  "stops r \<longleftrightarrow> r = [] \<or> hd r \<in> {CHR '','', CHR '']'', CHR ''}''}"

lemma read_string_u:
  assumes "length h = 4"
  shows "read_string (CHR 0x5C # CHR ''u'' # h @ r) =
     (case hex_number 0 h of
        Some n \<Rightarrow> if n < 256 then map_option (\<lambda>(s, r). (char_of n # s, r)) (read_string r) else None
      | None \<Rightarrow> None)"
proof -
  obtain a b c d where "h = [a, b, c, d]" using assms by (auto simp: length_Suc_conv numeral_eq_Suc)
  then show ?thesis by simp
qed

lemma read_string_escape:
  "e \<noteq> CHR ''u'' \<Longrightarrow> unescape e = Some x \<Longrightarrow>
     read_string (CHR 0x5C # e # r) = map_option (\<lambda>(s, r). (x # s, r)) (read_string r)"
  by (cases r rule: list.exhaust) (auto split: list.split simp del: unescape.simps)

lemma of_char_mod_65536 [simp]: "(of_char c :: nat) mod 65536 = of_char c"
  using nat_of_char_less_256 [of c] by (intro mod_less) linarith

lemma read_string_char:
  "read_string (escape_char c @ r) = map_option (\<lambda>(s, r). (c # s, r)) (read_string r)"
proof -
  have u: "read_string ([CHR 0x5C, CHR ''u''] @ hex4 (of_char c) @ r) = map_option (\<lambda>(s, r). (c # s, r)) (read_string r)"
    by (simp add: read_string_u hex4_def hex_number_digits del: read_string.simps)
  show ?thesis
    unfolding escape_char_def using u
    by (simp add: read_string_escape del: read_string.simps) (auto simp: of_char_eq_iff [symmetric])
qed

lemma read_quote: "read_string (concat (map escape_char s) @ CHR 0x22 # r) = Some (s, r)"
proof (induction s)
  case (Cons c s)
  then show ?case by (simp only: list.map concat.simps append_assoc read_string_char) simp
qed simp

lemma stops_not_digit: "stops r \<Longrightarrow> takeWhile is_digit r = [] \<and> dropWhile is_digit r = r"
  by (cases r) (auto simp: stops_def is_digit_iff)

lemma zero_char: "digit_char 0 = CHR ''0''"
  by code_simp

lemma nat_str_head: "take 1 (nat_str n) = ''0'' \<longleftrightarrow> n = 0"
proof (induction n rule: nat_str.induct)
  case (1 n)
  have ne: "nat_str m \<noteq> []" for m using nat_str_digits by simp
  show ?case
  proof (cases "n < 10")
    case True
    then have "nat_str n = [digit_char n]" by (subst nat_str.simps) simp
    moreover have "digit_char n = CHR ''0'' \<longleftrightarrow> n = 0"
      using True zero_char by (metis digit_char_value zero_less_numeral)
    ultimately show ?thesis by simp
  next
    case False
    then have "nat_str n = nat_str (n div 10) @ [digit_char (n mod 10)]" by (subst nat_str.simps) simp
    then have "take 1 (nat_str n) = take 1 (nat_str (n div 10))" using ne [of "n div 10"] by (cases "nat_str (n div 10)") simp_all
    then show ?thesis using 1 False by simp
  qed
qed

lemma no_tail: "stops r \<Longrightarrow> fraction_part r = ([], r) \<and> exponent_part r = ([], r)"
  by (cases r) (auto simp: stops_def fraction_part_def exponent_part_def Let_def)

lemma int_part_nat_str:
  assumes "stops r"
  shows "int_part (nat_str n @ r) = (nat_str n, r)"
proof -
  have ne: "nat_str n \<noteq> []" "\<forall>c \<in> set (nat_str n). is_digit c" using nat_str_digits [of n] by (auto simp: list_all_iff)
  then have h: "take 1 (nat_str n @ r) = take 1 (nat_str n)" by (cases "nat_str n") simp_all
  have t: "takeWhile is_digit (nat_str n @ r) = nat_str n" using ne(2) stops_not_digit [OF assms] by simp
  have z: "nat_str 0 = ''0''" by (subst nat_str.simps) (simp add: zero_char)
  show ?thesis unfolding int_part_def h t nat_str_head Let_def using z by simp
qed

lemma read_number_int:
  assumes "stops r"
  shows "read_number (int_str i @ r) = Some (JsInt i, r)"
proof (cases "i < 0")
  case True
  then show ?thesis
    using int_part_nat_str [OF assms, of "nat (- i)"] no_tail [OF assms] nat_str_digits [of "nat (- i)"]
    by (simp add: read_number_def int_str_def)
next
  case False
  obtain c cs where n: "nat_str (nat i) = c # cs" "is_digit c"
    using nat_str_digits [of "nat i"] by (cases "nat_str (nat i)") auto
  have "c \<noteq> CHR ''-''" using n(2) by auto
  then have m: "take 1 (nat_str (nat i) @ r) \<noteq> ''-''" by (simp add: n(1))
  show ?thesis
    using False int_part_nat_str [OF assms, of "nat i"] no_tail [OF assms] m nat_str_digits [of "nat i"]
    unfolding read_number_def int_str_def by simp
qed

lemma read_value_int:
  assumes "stops r"
  shows "read_value (Suc n) (int_str i @ r) = Some (JsInt i, r)"
proof -
  obtain c cs where i: "int_str i = c # cs" and c: "is_digit c \<or> c = CHR ''-'' \<and> cs \<noteq> [] \<and> is_digit (hd cs)"
  proof (cases "i < 0")
    case True
    then show ?thesis using that [of "CHR ''-''" "nat_str (nat (- i))"] nat_str_digits [of "nat (- i)"]
      by (cases "nat_str (nat (- i))") (simp_all add: int_str_def)
  next
    case False
    then show ?thesis using that nat_str_digits [of "nat i"]
      by (cases "nat_str (nat i)") (simp_all add: int_str_def)
  qed
  have "c \<noteq> CHR 0x22" "c \<noteq> CHR ''{''" "c \<noteq> CHR ''[''" "c \<noteq> CHR ''n''" "c \<noteq> CHR ''t''" "c \<noteq> CHR ''f''"
    "c \<noteq> CHR ''N''" "c \<noteq> CHR ''I''" using c by (auto simp: is_digit_iff)
  moreover have "take 9 (c # cs @ r) \<noteq> ''-Infinity''" using c by (cases cs) (auto simp: is_digit_iff)
  ultimately show ?thesis using read_number_int [OF assms, of i] by (simp add: i)
qed

lemma dict_of_distinct: "distinct (map fst kvs) \<Longrightarrow> dict_of kvs = kvs"
proof -
  have "distinct (map fst (acc @ kvs)) \<Longrightarrow> fold (\<lambda>(k, v). AList.update k v) kvs acc = acc @ kvs" for acc
  proof (induction kvs arbitrary: acc)
    case (Cons kv kvs)
    have new: "k \<notin> fst ` set acc \<Longrightarrow> AList.update k v acc = acc @ [(k, v)]" for k and v :: json
      by (induction acc) auto
    show ?case using Cons.prems Cons.IH [of "acc @ [kv]"] by (cases kv) (simp add: new)
  qed simp
  then show "distinct (map fst kvs) \<Longrightarrow> dict_of kvs = kvs" by (simp add: dict_of_def)
qed

lemma dumps_head:
  "canonical j \<Longrightarrow> \<exists>c cs. dumps j = c # cs \<and> \<not> is_ws c \<and> c \<noteq> CHR '']'' \<and> c \<noteq> CHR ''}''"
proof (cases j)
  case (JsInt i)
  obtain c cs where "int_str i = c # cs" "is_digit c \<or> c = CHR ''-''"
  proof (cases "i < 0")
    case True
    then show ?thesis using that by (simp add: int_str_def)
  next
    case False
    then show ?thesis using that nat_str_digits [of "nat i"]
      by (cases "nat_str (nat i)") (simp_all add: int_str_def)
  qed
  with JsInt show ?thesis by (auto simp: is_ws_def is_digit_iff)
qed (auto simp: is_ws_def quote_def)

lemma skip_dumps: "canonical j \<Longrightarrow> skip (dumps j @ r) = dumps j @ r"
  using dumps_head [of j] by (auto simp: skip_def)

lemma skip_stop [simp]:
  "skip (CHR '','' # r) = CHR '','' # r" "skip (CHR '']'' # r) = CHR '']'' # r"
  "skip (CHR ''}'' # r) = CHR ''}'' # r" "skip (CHR '':'' # r) = CHR '':'' # r"
  "skip (CHR 0x22 # r) = CHR 0x22 # r" "skip [] = []"
  by (simp_all add: skip_def is_ws_def)

definition reads :: "json \<Rightarrow> bool" where
  "reads j \<longleftrightarrow> (\<forall>n r. length (dumps j) < n \<longrightarrow> stops r \<longrightarrow> read_value n (dumps j @ r) = Some (j, r))"

lemma stops_Cons [simp]: "stops (CHR '','' # r)" "stops (CHR '']'' # r)" "stops (CHR ''}'' # r)" "stops []"
  by (simp_all add: stops_def)

lemma commas_Cons: "commas (x # xs) = x @ (if xs = [] then [] else CHR '','' # commas xs)"
  by (cases xs) simp_all

lemma skip_commas:
  "xs \<noteq> [] \<Longrightarrow> (\<And>x. x \<in> set xs \<Longrightarrow> \<exists>c cs. f x = c # cs \<and> \<not> is_ws c) \<Longrightarrow> skip (commas (map f xs) @ r) = commas (map f xs) @ r"
  by (cases xs) (force simp: commas_Cons skip_def)+

lemma read_elements_commas:
  assumes "xs \<noteq> []" and "\<forall>x \<in> set xs. canonical x \<and> reads x" and "Suc (length (commas (map dumps xs))) < n"
  shows "read_elements n (commas (map dumps xs) @ CHR '']'' # r) = Some (xs, r)"
  using assms
proof (induction xs arbitrary: n)
  case (Cons x xs)
  then obtain k where n: "n = Suc k" by (cases n) auto
  have x: "read_value k (dumps x @ t) = Some (x, t)" if "stops t" for t
    using Cons.prems that n by (auto simp: reads_def commas_Cons split: if_splits)
  show ?case
  proof (cases "xs = []")
    case True
    then show ?thesis using x by (simp add: n)
  next
    case False
    have "dumps x \<noteq> []" using Cons.prems(2) dumps_head [of x] by auto
    then have k: "Suc (length (commas (map dumps xs))) < k" using Cons.prems(3) False n by (cases "dumps x") (auto simp: commas_Cons)
    have s: "skip (commas (map dumps xs) @ t) = commas (map dumps xs) @ t" for t
      using Cons.prems(2) False by (intro skip_commas) (auto dest!: dumps_head)
    show ?thesis using x Cons.IH [OF False _ k] Cons.prems(2) False by (simp add: n commas_Cons s)
  qed
qed simp

definition entry :: "string \<times> json \<Rightarrow> string" where
  "entry kv = quote (fst kv) @ '':'' @ dumps (snd kv)"

lemma entry_head: "\<exists>cs. entry kv = CHR 0x22 # cs"
  by (simp add: entry_def quote_def)

lemma read_members_commas:
  assumes "kvs \<noteq> []" and "\<forall>kv \<in> set kvs. canonical (snd kv) \<and> reads (snd kv)"
    and "Suc (length (commas (map entry kvs))) < n"
  shows "read_members n (commas (map entry kvs) @ CHR ''}'' # r) = Some (kvs, r)"
  using assms
proof (induction kvs arbitrary: n)
  case (Cons kv kvs)
  then obtain m where n: "n = Suc m" by (cases n) auto
  have q: "read_string (concat (map escape_char (fst kv)) @ CHR 0x22 # t) = Some (fst kv, t)" for t by (rule read_quote)
  have v: "read_value m (dumps (snd kv) @ t) = Some (snd kv, t)" if "stops t" for t
    using Cons.prems that n by (auto simp: reads_def commas_Cons entry_def split: if_splits)
  have sv: "skip (dumps (snd kv) @ t) = dumps (snd kv) @ t" for t using Cons.prems(2) by (simp add: skip_dumps)
  show ?case
  proof (cases "kvs = []")
    case True
    then show ?thesis using v by (simp add: n entry_def quote_def q sv)
  next
    case False
    have m: "Suc (length (commas (map entry kvs))) < m" using Cons.prems(3) False n entry_head [of kv] by (auto simp: commas_Cons)
    have s: "skip (commas (map entry kvs) @ t) = commas (map entry kvs) @ t" for t
      using False by (intro skip_commas) (use entry_head in \<open>fastforce simp: is_ws_def\<close>)+
    show ?thesis using v Cons.IH [OF False _ m] Cons.prems(2) False
      by (simp add: n commas_Cons entry_def [of kv] quote_def q sv s)
  qed
qed simp

lemma sort_key_sorted: "sorted_wrt (<) (map fst kvs) \<Longrightarrow> sort_key fst kvs = kvs" for kvs :: "(string \<times> json) list"
  by (rule sort_key_id_if_sorted) (simp add: strict_sorted_iff)

lemma dumps_obj: "sorted_wrt (<) (map fst kvs) \<Longrightarrow> dumps (JsObj kvs) = ''{'' @ commas (map entry kvs) @ ''}''"
  by (simp add: sort_key_sorted entry_def [abs_def])

lemma dict_of_sorted: "sorted_wrt (<) (map fst kvs) \<Longrightarrow> dict_of kvs = kvs" for kvs :: "(string \<times> json) list"
  by (rule dict_of_distinct) (simp add: strict_sorted_iff)

lemma canonical_reads: "canonical j \<Longrightarrow> reads j"
proof (induction j)
  case (JsInt i)
  show ?case unfolding reads_def
  proof (intro allI impI)
    fix n r assume "length (dumps (JsInt i)) < n" "stops r"
    then show "read_value n (dumps (JsInt i) @ r) = Some (JsInt i, r)" by (cases n) (simp_all add: read_value_int del: read_value.simps)
  qed
next
  case (JsStr s)
  show ?case unfolding reads_def
  proof (intro allI impI)
    fix n r assume "length (dumps (JsStr s)) < n"
    then show "read_value n (dumps (JsStr s) @ r) = Some (JsStr s, r)" by (cases n) (simp_all add: quote_def read_quote)
  qed
next
  case (JsArr xs)
  have xs: "\<forall>x \<in> set xs. canonical x \<and> reads x" using JsArr by simp
  show ?case unfolding reads_def
  proof (intro allI impI)
    fix n r assume n: "length (dumps (JsArr xs)) < n"
    then obtain m where m: "n = Suc m" "Suc (length (commas (map dumps xs))) < m" by (cases n) auto
    show "read_value n (dumps (JsArr xs) @ r) = Some (JsArr xs, r)"
    proof (cases "xs = []")
      case True
      then show ?thesis by (simp add: m(1))
    next
      case False
      then obtain x ys where ys: "xs = x # ys" by (cases xs) auto
      obtain c cs where c: "dumps x = c # cs" "\<not> is_ws c" "c \<noteq> CHR '']''" using xs dumps_head [of x] by (auto simp: ys)
      have "skip (commas (map dumps xs) @ CHR '']'' # r) = commas (map dumps xs) @ CHR '']'' # r"
        using xs False by (intro skip_commas) (auto dest!: dumps_head)
      moreover have "take 1 (commas (map dumps xs) @ CHR '']'' # r) \<noteq> '']''" using c by (simp add: ys commas_Cons)
      ultimately show ?thesis using read_elements_commas [OF False xs m(2), of r] by (simp add: m(1))
    qed
  qed
next
  case (JsObj kvs)
  have srt: "sorted_wrt (<) (map fst kvs)" using JsObj.prems by simp
  have kvs: "\<forall>kv \<in> set kvs. canonical (snd kv) \<and> reads (snd kv)" using JsObj by fastforce
  show ?case unfolding reads_def
  proof (intro allI impI)
    fix n r assume n: "length (dumps (JsObj kvs)) < n"
    then obtain m where m: "n = Suc m" "Suc (length (commas (map entry kvs))) < m"
      unfolding dumps_obj [OF srt] by (cases n) auto
    show "read_value n (dumps (JsObj kvs) @ r) = Some (JsObj kvs, r)"
      unfolding dumps_obj [OF srt]
    proof (cases "kvs = []")
      case True
      then show "read_value n ((''{'' @ commas (map entry kvs) @ ''}'') @ r) = Some (JsObj kvs, r)" by (simp add: m(1))
    next
      case False
      then obtain kv ys where ys: "kvs = kv # ys" by (cases kvs) auto
      have "skip (commas (map entry kvs) @ CHR ''}'' # r) = commas (map entry kvs) @ CHR ''}'' # r"
        using False by (intro skip_commas) (use entry_head in \<open>fastforce simp: is_ws_def\<close>)+
      moreover have "take 1 (commas (map entry kvs) @ CHR ''}'' # r) \<noteq> ''}''"
        using entry_head [of kv] by (auto simp: ys commas_Cons)
      ultimately show "read_value n ((''{'' @ commas (map entry kvs) @ ''}'') @ r) = Some (JsObj kvs, r)"
        using read_members_commas [OF False kvs m(2), of r] by (simp add: m(1) dict_of_sorted [OF srt])
    qed
  qed
next
  case JsNull
  show ?case unfolding reads_def by (intro allI impI) (case_tac n; simp)
next
  case (JsBool b)
  show ?case unfolding reads_def by (intro allI impI) (case_tac n; cases b; simp)
qed simp

lemma loads_dumps: "canonical j \<Longrightarrow> loads (dumps j) = Some j"
proof -
  assume j: "canonical j"
  have "read_value (Suc (length (dumps j))) (dumps j @ []) = Some (j, [])"
    using canonical_reads [OF j] unfolding reads_def by (blast intro: stops_Cons(4) lessI)
  then show ?thesis using skip_dumps [OF j, of "[]"] by (simp add: loads_def del: read_value.simps)
qed

end
