(* ===== verification/Base64.thy ===== *)
theory Base64
  imports Strings
begin

text \<open>
  Base64 of the standard library: \<open>b64encode\<close>, and \<open>b64decode(..., validate=True)\<close>, which
  refuses a character outside the alphabet and a wrong length. Bytes are characters.
\<close>

definition b64_char :: "nat \<Rightarrow> char" where
  "b64_char n =
     (if n < 26 then char_of (65 + n) else if n < 52 then char_of (71 + n)
      else if n < 62 then char_of (n - 4) else if n = 62 then CHR ''+'' else CHR ''/'')"

definition b64_value :: "char \<Rightarrow> nat option" where
  "b64_value c =
     (let n = of_char c
      in if 65 \<le> n \<and> n \<le> 90 then Some (n - 65) else if 97 \<le> n \<and> n \<le> 122 then Some (n - 71)
         else if 48 \<le> n \<and> n \<le> 57 then Some (n + 4) else if n = 43 then Some 62
         else if n = 47 then Some 63 else None)"

definition pad :: char where "pad = CHR ''=''"

fun b64encode :: "string \<Rightarrow> string" where
  "b64encode [] = []"
| "b64encode [x] =
     (let a = of_char x in [b64_char (a div 4), b64_char (a mod 4 * 16), pad, pad])"
| "b64encode [x, y] =
     (let a = of_char x; b = of_char y
      in [b64_char (a div 4), b64_char (a mod 4 * 16 + b div 16), b64_char (b mod 16 * 4), pad])"
| "b64encode (x # y # z # r) =
     (let a = of_char x; b = of_char y; c = of_char z
      in b64_char (a div 4) # b64_char (a mod 4 * 16 + b div 16) # b64_char (b mod 16 * 4 + c div 64) #
         b64_char (c mod 64) # b64encode r)"

text \<open>The padding may follow complete groups, where it stands for nothing.\<close>

fun b64decode :: "string \<Rightarrow> string option" where
  "b64decode [] = Some []"
| "b64decode [p] = (if p = pad then Some [] else None)"
| "b64decode [p, q] = (if p = pad \<and> q = pad then Some [] else None)"
| "b64decode [p, q, r] = None"
| "b64decode (p # q # r # s # t) =
     (case (b64_value p, b64_value q) of
        (Some a, Some b) \<Rightarrow>
          let x = char_of (a * 4 + b div 16) in
          if r = pad \<and> s = pad \<and> t = [] then Some [x]
          else (case b64_value r of
                  None \<Rightarrow> None
                | Some c \<Rightarrow>
                    let y = char_of (b mod 16 * 16 + c div 4) in
                    if s = pad \<and> t = [] then Some [x, y]
                    else (case b64_value s of
                            None \<Rightarrow> None
                          | Some d \<Rightarrow> map_option (\<lambda>u. x # y # char_of (c mod 4 * 64 + d) # u) (b64decode t)))
      | _ \<Rightarrow> None)"

lemma b64_value_char:
  assumes "n < 64"
  shows "b64_value (b64_char n) = Some n"
proof -
  have m: "(65 + n) mod 256 = 65 + n" "(71 + n) mod 256 = 71 + n" "4 \<le> n \<Longrightarrow> (n - 4) mod 256 = n - 4"
    using assms by simp_all
  consider "n < 26" | "26 \<le> n" "n < 52" | "52 \<le> n" "n < 62" | "n = 62" | "n = 63"
    using assms by linarith
  then show ?thesis
    by cases ((simp add: b64_char_def b64_value_def Let_def m), arith?)+
qed

lemma b64_char_not_pad:
  assumes "n < 64"
  shows "b64_char n \<noteq> pad"
proof -
  have "b64_value pad = None" by (simp add: pad_def b64_value_def)
  then show ?thesis using b64_value_char [OF assms] by auto
qed

lemma b64_groups:
  fixes a b c :: nat
  assumes "a < 256" "b < 256" "c < 256"
  shows "a div 4 < 64" "a mod 4 * 16 < 64" "a mod 4 * 16 + b div 16 < 64" "b mod 16 * 4 < 64"
    "b mod 16 * 4 + c div 64 < 64" "c mod 64 < 64"
    "b div 16 div 16 = 0" "b div 16 mod 16 = b div 16" "c div 64 div 4 = 0" "c div 64 mod 4 = c div 64"
proof -
  have q: "b div 16 < 16" "c div 64 < 4" and m: "a mod 4 < 4" "b mod 16 < 16" using assms by auto
  show "a div 4 < 64" "c mod 64 < 64" using assms by auto
  show "a mod 4 * 16 < 64" "a mod 4 * 16 + b div 16 < 64" "b mod 16 * 4 < 64" "b mod 16 * 4 + c div 64 < 64"
    using q m by linarith+
  show "b div 16 div 16 = 0" "b div 16 mod 16 = b div 16" "c div 64 div 4 = 0" "c div 64 mod 4 = c div 64"
    using q by simp_all
qed

lemma b64decode_encode: "b64decode (b64encode s) = Some s"
proof (induction s rule: b64encode.induct)
  case (2 x)
  note g = b64_groups [OF nat_of_char_less_256 [of x] nat_of_char_less_256 [of x] nat_of_char_less_256 [of x]]
  show ?case by (simp add: Let_def b64_value_char g)
next
  case (3 x y)
  note g = b64_groups [OF nat_of_char_less_256 [of x] nat_of_char_less_256 [of y] nat_of_char_less_256 [of y]]
  show ?case by (simp add: Let_def b64_value_char g b64_char_not_pad)
next
  case (4 x y z r)
  note g = b64_groups [OF nat_of_char_less_256 [of x] nat_of_char_less_256 [of y] nat_of_char_less_256 [of z]]
  show ?case by (simp add: Let_def b64_value_char g b64_char_not_pad 4)
qed simp

end
