(* ===== verification/Cipher.thy ===== *)
theory Cipher
  imports Json Base64 Session
begin

text \<open>
  Sealed provider credentials (\<open>app/core/credential_cipher.py\<close>). AES-GCM of the
  \<open>cryptography\<close> package is a parameter: encryption of a plaintext under key, nonce and
  associated data, and decryption, which gives nothing when the tag is invalid. The random nonce
  is an argument of \<open>seal\<close>. The envelope is JSON with Base64 fields.
\<close>

type_synonym credentials = "(string \<times> json) list"

record aead =
  ae_encrypt :: "string \<Rightarrow> string \<Rightarrow> string \<Rightarrow> string \<Rightarrow> string"
  ae_decrypt :: "string \<Rightarrow> string \<Rightarrow> string \<Rightarrow> string \<Rightarrow> string option"

text \<open>The settings: the current key with its version, and the older keys by version.\<close>

record key_ring =
  kr_key :: string
  kr_version :: int
  kr_keys :: "(string \<times> string) list"

record seal_context =
  sc_chama_id :: uuid
  sc_provider_code :: provider_code
  sc_environment :: payment_environment
  sc_credential_version :: int
  sc_connection_id :: uuid

definition CIPHER_VERSION :: int where "CIPHER_VERSION = 1"
definition NONCE_BYTES :: nat where "NONCE_BYTES = 12"

definition check_key :: "string \<Rightarrow> string option" where
  "check_key encoded =
     (case b64decode encoded of
        None \<Rightarrow> None
      | Some decoded \<Rightarrow> if length decoded = 32 then Some decoded else None)"

definition current_key :: "key_ring \<Rightarrow> string option" where
  "current_key kr = check_key (kr_key kr)"

definition key_for_version :: "key_ring \<Rightarrow> int \<Rightarrow> string option" where
  "key_for_version kr key_version =
     (if key_version = kr_version kr then current_key kr
      else case map_of (kr_keys kr) (int_str key_version) of
             None \<Rightarrow> None
           | Some raw \<Rightarrow> check_key raw)"

fun join_bars :: "string list \<Rightarrow> string" where
  "join_bars [] = []"
| "join_bars [x] = x"
| "join_bars (x # y # zs) = x @ CHR ''|'' # join_bars (y # zs)"

definition build_aad :: "seal_context \<Rightarrow> string" where
  "build_aad c =
     join_bars [''chamacore-v1'', uuid_str (sc_connection_id c), uuid_str (sc_chama_id c),
       provider_code_value (sc_provider_code c), environment_value (sc_environment c),
       int_str (sc_credential_version c)]"

definition seal :: "aead \<Rightarrow> key_ring \<Rightarrow> string \<Rightarrow> credentials \<Rightarrow> seal_context \<Rightarrow> err + string" where
  "seal ae kr nonce payload c =
     (case current_key kr of
        None \<Rightarrow> Inl CredentialCipherError
      | Some key \<Rightarrow>
          let ciphertext = ae_encrypt ae key nonce (dumps (JsObj payload)) (build_aad c)
          in Inr (dumps (JsObj [(''cv'', JsInt CIPHER_VERSION), (''kv'', JsInt (kr_version kr)),
               (''n'', JsStr (b64encode nonce)), (''c'', JsStr (b64encode ciphertext))])))"

text \<open>
  The fields of an envelope: \<open>int(envelope["kv"])\<close> of an integer, a truth value or a text, and two
  Base64 texts. A fractional \<open>kv\<close>, which nothing writes, counts as malformed.
\<close>

definition json_int :: "json \<Rightarrow> int option" where
  "json_int j =
     (case j of JsInt i \<Rightarrow> Some i | JsBool b \<Rightarrow> Some (if b then 1 else 0)
      | JsStr s \<Rightarrow> parse_int s | _ \<Rightarrow> None)"

definition json_bytes :: "json \<Rightarrow> string option" where
  "json_bytes j = (case j of JsStr s \<Rightarrow> b64decode s | _ \<Rightarrow> None)"

definition parse_envelope :: "string \<Rightarrow> (int \<times> string \<times> string) option" where
  "parse_envelope blob =
     (case loads blob of
        Some (JsObj envelope) \<Rightarrow>
          (case (map_of envelope ''kv'', map_of envelope ''n'', map_of envelope ''c'') of
             (Some kv, Some n, Some c) \<Rightarrow>
               (case (json_int kv, json_bytes n, json_bytes c) of
                  (Some v, Some nonce, Some ciphertext) \<Rightarrow> Some (v, nonce, ciphertext)
                | _ \<Rightarrow> None)
           | _ \<Rightarrow> None)
      | _ \<Rightarrow> None)"

definition open_sealed :: "aead \<Rightarrow> key_ring \<Rightarrow> string \<Rightarrow> seal_context \<Rightarrow> err + credentials" where
  "open_sealed ae kr blob c =
     (case parse_envelope blob of
        None \<Rightarrow> Inl CredentialCipherError
      | Some (key_version, nonce, ciphertext) \<Rightarrow>
          if length nonce \<noteq> NONCE_BYTES then Inl CredentialCipherError
          else (case key_for_version kr key_version of
                  None \<Rightarrow> Inl CredentialCipherError
                | Some key \<Rightarrow>
                    (case ae_decrypt ae key nonce ciphertext (build_aad c) of
                       None \<Rightarrow> Inl CredentialCipherError
                     | Some plaintext \<Rightarrow>
                         (case loads plaintext of
                            Some (JsObj parsed) \<Rightarrow> Inr parsed
                          | _ \<Rightarrow> Inl CredentialCipherError))))"

section \<open>The associated data tell contexts apart\<close>

lemma split_bar:
  "x @ CHR ''|'' # s = y @ CHR ''|'' # t \<Longrightarrow> CHR ''|'' \<notin> set x \<Longrightarrow> CHR ''|'' \<notin> set y \<Longrightarrow> x = y \<and> s = t"
proof (induction x arbitrary: y)
  case Nil
  then show ?case by (cases y) auto
next
  case (Cons c x)
  then show ?case by (cases y) auto
qed

lemma nat_str_no_bar: "CHR ''|'' \<notin> set (nat_str n)"
  using nat_str_digits [of n] by (auto simp: list_all_iff is_digit_iff)

lemma int_str_no_bar: "CHR ''|'' \<notin> set (int_str i)"
  using nat_str_no_bar by (auto simp: int_str_def)

lemma provider_value_no_bar: "CHR ''|'' \<notin> set (provider_code_value p)"
  by (cases p) simp_all

lemma environment_value_no_bar: "CHR ''|'' \<notin> set (environment_value e)"
  by (cases e) simp_all

lemma provider_value_inject: "provider_code_value p = provider_code_value q \<longleftrightarrow> p = q"
  by (cases p; cases q) simp_all

lemma environment_value_inject: "environment_value p = environment_value q \<longleftrightarrow> p = q"
  by (cases p; cases q) simp_all

definition ids_fit :: "seal_context \<Rightarrow> bool" where
  "ids_fit c \<longleftrightarrow> sc_chama_id c < 16 ^ 32 \<and> sc_connection_id c < 16 ^ 32"

lemma build_aad_inject:
  assumes eq: "build_aad c = build_aad d" and fit: "ids_fit c" "ids_fit d"
  shows "c = d"
proof -
  note no_bar = uuid_str_no_bar provider_value_no_bar environment_value_no_bar int_str_no_bar
  have r0: "uuid_str (sc_connection_id c) @ CHR ''|'' # uuid_str (sc_chama_id c) @ CHR ''|'' #
        provider_code_value (sc_provider_code c) @ CHR ''|'' # environment_value (sc_environment c) @ CHR ''|'' #
        int_str (sc_credential_version c) =
      uuid_str (sc_connection_id d) @ CHR ''|'' # uuid_str (sc_chama_id d) @ CHR ''|'' #
        provider_code_value (sc_provider_code d) @ CHR ''|'' # environment_value (sc_environment d) @ CHR ''|'' #
        int_str (sc_credential_version d)"
    using eq by (simp add: build_aad_def)
  have 1: "uuid_str (sc_connection_id c) = uuid_str (sc_connection_id d)"
    and r1: "uuid_str (sc_chama_id c) @ CHR ''|'' # provider_code_value (sc_provider_code c) @ CHR ''|'' #
        environment_value (sc_environment c) @ CHR ''|'' # int_str (sc_credential_version c) =
      uuid_str (sc_chama_id d) @ CHR ''|'' # provider_code_value (sc_provider_code d) @ CHR ''|'' #
        environment_value (sc_environment d) @ CHR ''|'' # int_str (sc_credential_version d)"
    using split_bar [OF r0 no_bar(1) no_bar(1)] by blast+
  have 2: "uuid_str (sc_chama_id c) = uuid_str (sc_chama_id d)"
    and r2: "provider_code_value (sc_provider_code c) @ CHR ''|'' # environment_value (sc_environment c) @ CHR ''|'' #
        int_str (sc_credential_version c) =
      provider_code_value (sc_provider_code d) @ CHR ''|'' # environment_value (sc_environment d) @ CHR ''|'' #
        int_str (sc_credential_version d)"
    using split_bar [OF r1 no_bar(1) no_bar(1)] by blast+
  have 3: "provider_code_value (sc_provider_code c) = provider_code_value (sc_provider_code d)"
    and r3: "environment_value (sc_environment c) @ CHR ''|'' # int_str (sc_credential_version c) =
      environment_value (sc_environment d) @ CHR ''|'' # int_str (sc_credential_version d)"
    using split_bar [OF r2 no_bar(2) no_bar(2)] by blast+
  have 4: "environment_value (sc_environment c) = environment_value (sc_environment d)"
    and 5: "int_str (sc_credential_version c) = int_str (sc_credential_version d)"
    using split_bar [OF r3 no_bar(3) no_bar(3)] by blast+
  show ?thesis
    using uuid_str_inject [OF 1] uuid_str_inject [OF 2] fit 3 4 5
    by (cases c; cases d) (simp add: ids_fit_def provider_value_inject environment_value_inject)
qed

section \<open>Envelopes\<close>

lemma parse_seal_envelope:
  "parse_envelope (dumps (JsObj [(''cv'', JsInt v), (''kv'', JsInt w), (''n'', JsStr (b64encode n)),
     (''c'', JsStr (b64encode x))])) = Some (w, n, x)"
proof -
  have "sort_key fst [(''cv'', JsInt v), (''kv'', JsInt w), (''n'', JsStr (b64encode n)), (''c'', JsStr (b64encode x))] =
      [(''c'', JsStr (b64encode x)), (''cv'', JsInt v), (''kv'', JsInt w), (''n'', JsStr (b64encode n))]"
    by (simp add: list_less_def less_char_def)
  then have "dumps (JsObj [(''cv'', JsInt v), (''kv'', JsInt w), (''n'', JsStr (b64encode n)), (''c'', JsStr (b64encode x))]) =
      dumps (JsObj [(''c'', JsStr (b64encode x)), (''cv'', JsInt v), (''kv'', JsInt w), (''n'', JsStr (b64encode n))])"
    by (simp only: dumps.simps) simp
  moreover have "canonical (JsObj [(''c'', JsStr (b64encode x)), (''cv'', JsInt v), (''kv'', JsInt w), (''n'', JsStr (b64encode n))])"
    by (simp add: less_char_def)
  ultimately show ?thesis
    by (simp only: parse_envelope_def loads_dumps) (simp add: json_int_def json_bytes_def b64decode_encode)
qed

end
