(* ===== verification/Providers.thy ===== *)
theory Providers
  imports Cipher
begin

text \<open>
  The provider-neutral ports of the payment domain (\<open>app/providers/base.py\<close>,
  \<open>errors.py\<close>, \<open>registry.py\<close>) and the capability helpers of \<open>app/core/callback_utils.py\<close>. An
  adapter is the record of its operations: what a call to the provider answers in this request,
  an error or a result. SHA-256 and the HMAC under the master key are parameters that give the
  hexadecimal digest. All parameters of the payment services together are a \<open>gateway\<close>.
\<close>

section \<open>Value objects\<close>

record provider_spec =
  sp_code :: provider_code
  sp_name :: string
  sp_capabilities :: "string list"
  sp_supported_environments :: "payment_environment list"

record connection_context =
  cx_connection_id :: uuid
  cx_chama_id :: uuid
  cx_provider_code :: provider_code
  cx_environment :: payment_environment
  cx_status :: connection_status
  cx_credential_version :: int

record validation_result =
  vr_valid :: bool
  vr_error_code :: "string option"
  vr_error_message_safe :: "string option"
  vr_masked_account_identifier :: "string option"

record attempt_request =
  rq_amount :: money
  rq_currency :: string
  rq_customer_phone :: string
  rq_client_reference :: string
  rq_charge_reference :: string
  rq_callback_url :: string

record attempt_result =
  ar_accepted :: bool
  ar_provider_request_id :: "string option"
  ar_provider_transaction_id :: "string option"
  ar_normalized_status :: provider_tx_status
  ar_retryable :: bool
  ar_error_code :: "string option"
  ar_error_message_safe :: "string option"

record status_result =
  sr_found :: bool
  sr_provider_request_id :: "string option"
  sr_provider_transaction_id :: "string option"
  sr_normalized_status :: provider_tx_status
  sr_raw_status :: "string option"
  sr_error_code :: "string option"
  sr_error_message_safe :: "string option"

record parsed_callback =
  cb_provider_event_id :: "string option"
  cb_provider_request_id :: "string option"
  cb_provider_transaction_id :: "string option"
  cb_amount :: "decimal option"
  cb_currency :: "string option"
  cb_payer_phone :: "string option"
  cb_normalized_status :: "provider_tx_status option"
  cb_raw_status :: "string option"
  cb_error_code :: "string option"
  cb_error_message_safe :: "string option"

definition is_parseable :: "parsed_callback \<Rightarrow> bool" where
  "is_parseable p \<longleftrightarrow> cb_provider_event_id p \<noteq> None \<and> cb_normalized_status p \<noteq> None"

record c2b_payload =
  c2_is_parseable :: bool
  c2_transaction_type :: "string option"
  c2_transaction_id :: "string option"
  c2_transaction_time :: "string option"
  c2_amount :: "decimal option"
  c2_business_short_code :: "string option"
  c2_bill_ref_number :: "string option"
  c2_invoice_number :: "string option"
  c2_org_account_balance :: "decimal option"
  c2_third_party_trans_id :: "string option"
  c2_msisdn :: "string option"
  c2_first_name :: "string option"
  c2_middle_name :: "string option"
  c2_last_name :: "string option"

record c2b_register_request =
  cr_short_code :: json
  cr_validation_url :: string
  cr_confirmation_url :: string
  cr_response_type :: string

record c2b_register_result =
  ce_accepted :: bool
  ce_response_code :: "string option"
  ce_response_description :: "string option"

definition nothing_parsed :: parsed_callback where
  "nothing_parsed =
     \<lparr>cb_provider_event_id = None, cb_provider_request_id = None, cb_provider_transaction_id = None,
      cb_amount = None, cb_currency = None, cb_payer_phone = None, cb_normalized_status = None,
      cb_raw_status = None, cb_error_code = None, cb_error_message_safe = None\<rparr>"

definition unparseable_c2b :: c2b_payload where
  "unparseable_c2b =
     \<lparr>c2_is_parseable = False, c2_transaction_type = None, c2_transaction_id = None,
      c2_transaction_time = None, c2_amount = None, c2_business_short_code = None,
      c2_bill_ref_number = None, c2_invoice_number = None, c2_org_account_balance = None,
      c2_third_party_trans_id = None, c2_msisdn = None, c2_first_name = None, c2_middle_name = None,
      c2_last_name = None\<rparr>"

section \<open>The port and the registry\<close>

record adapter =
  ad_spec :: provider_spec
  ad_validate_credentials :: "credentials \<Rightarrow> connection_context \<Rightarrow> err + validation_result"
  ad_create_payment_attempt :: "credentials \<Rightarrow> attempt_request \<Rightarrow> connection_context \<Rightarrow> err + attempt_result"
  ad_query_payment_status :: "credentials \<Rightarrow> string \<Rightarrow> string \<Rightarrow> connection_context \<Rightarrow> err + status_result"
  ad_parse_callback :: "string \<Rightarrow> err + parsed_callback"
  ad_verify_callback :: "string \<Rightarrow> (string \<times> string) list \<Rightarrow> bool \<times> string option"
  ad_masked_account_identifier :: "credentials \<Rightarrow> string"
  ad_decrypted_credentials :: "credentials \<Rightarrow> connection_context \<Rightarrow> err + credentials"
  ad_parse_c2b_validation :: "string \<Rightarrow> err + c2b_payload"
  ad_parse_c2b_confirmation :: "string \<Rightarrow> err + c2b_payload"
  ad_register_c2b_urls :: "credentials \<Rightarrow> c2b_register_request \<Rightarrow> connection_context \<Rightarrow> err + c2b_register_result"

definition supports :: "adapter \<Rightarrow> string \<Rightarrow> bool" where
  "supports a capability \<longleftrightarrow> capability \<in> set (sp_capabilities (ad_spec a))"

record gateway =
  gw_adapters :: "provider_code \<Rightarrow> payment_environment \<Rightarrow> adapter option"
  gw_aead :: aead
  gw_key_ring :: key_ring
  gw_sha256 :: "string \<Rightarrow> string"
  gw_hmac :: "string \<Rightarrow> string"

text \<open>Running a provider call, or another fallible function, in a request.\<close>

definition lift :: "err + 'a \<Rightarrow> 'a act" where
  "lift r = (case r of Inl e \<Rightarrow> raise e | Inr x \<Rightarrow> ret x)"

definition registry_get :: "gateway \<Rightarrow> provider_code \<Rightarrow> payment_environment \<Rightarrow> adapter act" where
  "registry_get gw code environment =
     (case gw_adapters gw code environment of
        None \<Rightarrow> raise (UnknownProviderError (provider_code_value code) (environment_value environment))
      | Some a \<Rightarrow> ret a)"

definition context_of :: "payment_connection \<Rightarrow> uuid \<Rightarrow> connection_context" where
  "context_of connection chama_id =
     \<lparr>cx_connection_id = pc_id connection, cx_chama_id = chama_id,
      cx_provider_code = pc_provider_code connection, cx_environment = pc_environment connection,
      cx_status = pc_status connection, cx_credential_version = pc_credential_version connection\<rparr>"

definition open_credentials :: "gateway \<Rightarrow> payment_connection \<Rightarrow> uuid \<Rightarrow> err + credentials" where
  "open_credentials gw connection chama_id =
     open_sealed (gw_aead gw) (gw_key_ring gw) (pc_encrypted_credentials connection)
       \<lparr>sc_chama_id = chama_id, sc_provider_code = pc_provider_code connection,
        sc_environment = pc_environment connection,
        sc_credential_version = pc_credential_version connection, sc_connection_id = pc_id connection\<rparr>"

section \<open>Capability tokens and hashes\<close>

definition CALLBACK_NONCE_PREFIX :: string where
  "CALLBACK_NONCE_PREFIX = ''chamacore-callback-token-v1''"

definition connection_callback_token :: "gateway \<Rightarrow> uuid \<Rightarrow> provider_code \<Rightarrow> payment_environment \<Rightarrow> string" where
  "connection_callback_token gw connection_id code environment =
     take 32 (gw_hmac gw (CALLBACK_NONCE_PREFIX @
       join_bars [''chamacore-v1'', uuid_str connection_id, provider_code_value code, environment_value environment]))"

definition constant_time_equal :: "string \<Rightarrow> string \<Rightarrow> bool" where
  "constant_time_equal left right \<longleftrightarrow> left = right"

definition payload_hash :: "gateway \<Rightarrow> string \<Rightarrow> string" where
  "payload_hash gw raw_payload = gw_sha256 gw raw_payload"

definition or_empty :: "string option \<Rightarrow> string" where
  "or_empty x = (case x of None \<Rightarrow> '''' | Some s \<Rightarrow> s)"

definition canonical_payload ::
  "uuid \<Rightarrow> string \<Rightarrow> string \<Rightarrow> string \<Rightarrow> string option \<Rightarrow> string option \<Rightarrow> string" where
  "canonical_payload membership_id amount currency purpose contribution_id phone_number =
     dumps (JsObj
       [(''membership_id'', JsStr (uuid_str membership_id)), (''amount'', JsStr amount),
        (''currency'', JsStr (upper currency)), (''purpose'', JsStr purpose),
        (''contribution_id'', JsStr (or_empty contribution_id)),
        (''phone_number'', JsStr (or_empty phone_number))])"

definition canonical_payload_hash ::
  "gateway \<Rightarrow> uuid \<Rightarrow> string \<Rightarrow> string \<Rightarrow> string \<Rightarrow> string option \<Rightarrow> string option \<Rightarrow> string" where
  "canonical_payload_hash gw membership_id amount currency purpose contribution_id phone_number =
     gw_sha256 gw (canonical_payload membership_id amount currency purpose contribution_id phone_number)"

section \<open>What the shared steps do\<close>

lemma wp_lift [wp]: "wp (lift r) Q R s = (case r of Inl e \<Rightarrow> R e s | Inr x \<Rightarrow> Q x s)"
  by (simp add: lift_def wp split: sum.split)

lemma wp_registry_get [wp]:
  "wp (registry_get gw code environment) Q R s =
     (case gw_adapters gw code environment of
        None \<Rightarrow> R (UnknownProviderError (provider_code_value code) (environment_value environment)) s
      | Some a \<Rightarrow> Q a s)"
  by (simp add: registry_get_def wp split: option.split)

end
