(* ===== verification/Payment_Intents.thy ===== *)
theory Payment_Intents
  imports Providers Contribution
begin

text \<open>
  Payment intents and attempts (\<open>app/services/payment_intent.py\<close> and the payment repositories):
  a request to collect money, created once per key, and the attempts to charge it. The initiation
  limiter is process memory apart from the database (\<open>Policies\<close> models it): its answer is an
  argument \<open>allowed\<close>. Counters for the metrics endpoint are left out.
\<close>

section \<open>Repositories and constraints\<close>

definition get_connection_in_chama :: "uuid \<Rightarrow> uuid \<Rightarrow> payment_connection option act" where
  "get_connection_in_chama chama_id connection_id =
     select_first connections (\<lambda>c. pc_id c = connection_id \<and> pc_chama_id c = chama_id)"

definition get_intent_in_chama :: "uuid \<Rightarrow> uuid \<Rightarrow> payment_intent option act" where
  "get_intent_in_chama chama_id intent_id =
     select_first intents (\<lambda>i. pi_id i = intent_id \<and> pi_chama_id i = chama_id)"

definition get_by_idempotency_key :: "uuid \<Rightarrow> string \<Rightarrow> payment_intent option act" where
  "get_by_idempotency_key chama_id idempotency_key =
     select_first intents (\<lambda>i. pi_chama_id i = chama_id \<and> pi_idempotency_key i = idempotency_key)"

text \<open>Newest first.\<close>

definition intents_of_chama :: "uuid \<Rightarrow> nat option \<Rightarrow> nat \<Rightarrow> uuid option \<Rightarrow> payment_intent list act" where
  "intents_of_chama chama_id limit offset membership_id =
     bind (select_all intents (\<lambda>i. pi_chama_id i = chama_id \<and>
       (case membership_id of None \<Rightarrow> True | Some m \<Rightarrow> pi_membership_id i = m))) (\<lambda>is.
     ret (page limit offset (rev is)))"

definition count_by_status :: "intent_status \<Rightarrow> nat act" where
  "count_by_status status = scalar (\<lambda>d. length (filter (\<lambda>i. pi_status i = status) (intents d)))"

definition get_attempt_in_chama :: "uuid \<Rightarrow> uuid \<Rightarrow> payment_attempt option act" where
  "get_attempt_in_chama chama_id attempt_id =
     query (\<lambda>rs os. first (entities attempts (\<lambda>a. pa_id a = attempt_id \<and>
       list_ex (\<lambda>i. pi_id i = pa_payment_intent_id a \<and> pi_chama_id i = chama_id) (intents rs)) rs os))"

definition get_by_provider_request_id :: "string \<Rightarrow> payment_attempt option act" where
  "get_by_provider_request_id provider_request_id =
     select_first attempts (\<lambda>a. pa_provider_request_id a = Some provider_request_id)"

definition list_for_intent :: "uuid \<Rightarrow> payment_attempt list act" where
  "list_for_intent intent_id =
     bind (select_all attempts (\<lambda>a. pa_payment_intent_id a = intent_id)) (\<lambda>as.
     ret (sort_key pa_attempt_number as))"

definition get_transaction_by_attempt :: "uuid \<Rightarrow> provider_transaction option act" where
  "get_transaction_by_attempt attempt_id =
     select_first provider_transactions (\<lambda>t. pt_payment_attempt_id t = attempt_id)"

definition get_by_provider_transaction_id :: "string \<Rightarrow> provider_transaction option act" where
  "get_by_provider_transaction_id provider_transaction_id =
     select_first provider_transactions (\<lambda>t. pt_provider_transaction_id t = Some provider_transaction_id)"

definition intent_check :: "db \<Rightarrow> payment_intent \<Rightarrow> string option" where
  "intent_check d i =
     (if list_ex (\<lambda>e. pi_id e = pi_id i) (intents d) then Some ''payment_intents_pkey''
      else if \<not> 0 < pi_amount i then Some ''ck_payment_intents_amount_positive''
      else if pi_currency i \<noteq> upper (pi_currency i) then Some ''ck_payment_intents_currency_upper''
      else if list_ex (\<lambda>e. pi_chama_id e = pi_chama_id i \<and> pi_idempotency_key e = pi_idempotency_key i) (intents d)
      then Some ''uq_payment_intents_chama_key'' else None)"

definition attempt_check :: "db \<Rightarrow> payment_attempt \<Rightarrow> string option" where
  "attempt_check d a =
     (if list_ex (\<lambda>e. pa_id e = pa_id a) (attempts d) then Some ''payment_attempts_pkey''
      else if \<not> 1 \<le> pa_attempt_number a then Some ''ck_payment_attempts_number_positive''
      else if pa_status a \<notin> {PA_SUCCEEDED, PA_FAILED} \<and> pa_completed_at a \<noteq> None
      then Some ''ck_payment_attempts_completed_only_final''
      else if list_ex (\<lambda>e. pa_payment_intent_id e = pa_payment_intent_id a \<and>
                            pa_attempt_number e = pa_attempt_number a) (attempts d)
      then Some ''uq_payment_attempts_intent_number''
      else if list_ex (\<lambda>e. pa_connection_id e = pa_connection_id a \<and>
                            pa_client_reference e = pa_client_reference a) (attempts d)
      then Some ''uq_payment_attempts_connection_reference'' else None)"

text \<open>The unique indexes of a provider transaction, against the other rows.\<close>

definition transaction_clash :: "db \<Rightarrow> provider_transaction \<Rightarrow> string option" where
  "transaction_clash d t =
     (let others = filter (\<lambda>e. pt_id e \<noteq> pt_id t) (provider_transactions d)
      in if list_ex (\<lambda>e. pt_payment_attempt_id e = pt_payment_attempt_id t) others
         then Some ''uq_provider_transactions_attempt''
         else if pt_provider_request_id t \<noteq> None \<and>
                 list_ex (\<lambda>e. pt_provider_request_id e = pt_provider_request_id t) others
         then Some ''uq_provider_transactions_request_id''
         else if pt_provider_transaction_id t \<noteq> None \<and>
                 list_ex (\<lambda>e. pt_provider_transaction_id e = pt_provider_transaction_id t) others
         then Some ''uq_provider_transactions_txn_id'' else None)"

definition transaction_check :: "db \<Rightarrow> provider_transaction \<Rightarrow> string option" where
  "transaction_check d t =
     (if list_ex (\<lambda>e. pt_id e = pt_id t) (provider_transactions d) then Some ''provider_transactions_pkey''
      else transaction_clash d t)"

definition set_intent :: "uuid \<Rightarrow> (payment_intent \<Rightarrow> payment_intent) \<Rightarrow> unit act" where
  "set_intent i f = change (intents_update (upd_row pi_id i f))"

definition set_attempt :: "uuid \<Rightarrow> (payment_attempt \<Rightarrow> payment_attempt) \<Rightarrow> unit act" where
  "set_attempt i f = change (attempts_update (upd_row pa_id i f))"

definition insert_attempt :: "payment_attempt \<Rightarrow> unit act" where
  "insert_attempt a = insert_row attempt_check (\<lambda>r d. d\<lparr>attempts := attempts d @ [r]\<rparr>) a"

definition insert_transaction :: "provider_transaction \<Rightarrow> unit act" where
  "insert_transaction t =
     insert_row transaction_check (\<lambda>r d. d\<lparr>provider_transactions := provider_transactions d @ [r]\<rparr>) t"

definition blank_transaction :: "uuid \<Rightarrow> uuid \<Rightarrow> uuid \<Rightarrow> provider_transaction" where
  "blank_transaction i attempt_id connection_id =
     \<lparr>pt_id = i, pt_payment_attempt_id = attempt_id, pt_connection_id = connection_id,
      pt_provider_request_id = None, pt_provider_transaction_id = None, pt_provider_event_id = None,
      pt_normalized_status = PT_UNKNOWN, pt_raw_status = None, pt_last_queried_at = None\<rparr>"

text \<open>
  The transaction of an attempt, created when there is none yet, with attributes assigned by
  \<open>f\<close>. \<open>note_transaction\<close> leaves it pending. \<open>assign_transaction\<close> is for the outcomes that are
  committed in the same request: whether the new values clash with another row is decided here,
  where they are assigned; the source meets the violation at its next flush.
\<close>

definition note_transaction ::
  "uuid \<Rightarrow> uuid \<Rightarrow> (provider_transaction \<Rightarrow> provider_transaction) \<Rightarrow> unit act" where
  "note_transaction attempt_id connection_id f =
     bind (get_transaction_by_attempt attempt_id) (\<lambda>found.
     case found of
       None \<Rightarrow>
         bind uuid4 (\<lambda>i. change (\<lambda>d. d\<lparr>provider_transactions := provider_transactions d @
           [f (blank_transaction i attempt_id connection_id)]\<rparr>))
     | Some t \<Rightarrow> change (provider_transactions_update (upd_row pt_id (pt_id t) f)))"

definition assign_transaction ::
  "uuid \<Rightarrow> uuid \<Rightarrow> (provider_transaction \<Rightarrow> provider_transaction) \<Rightarrow> unit act" where
  "assign_transaction attempt_id connection_id f =
     bind (get_transaction_by_attempt attempt_id) (\<lambda>found.
     case found of
       None \<Rightarrow>
         bind uuid4 (\<lambda>i. insert_transaction (f (blank_transaction i attempt_id connection_id)))
     | Some t \<Rightarrow>
         bind (asks (\<lambda>s. transaction_clash (objs s) (f t))) (\<lambda>violation.
         case violation of
           Some c \<Rightarrow> raise (IntegrityError c)
         | None \<Rightarrow> change (provider_transactions_update (upd_row pt_id (pt_id t) f))))"

text \<open>Objects as they are by now.\<close>

definition reload_intent :: "uuid \<Rightarrow> payment_intent act" where
  "reload_intent i =
     bind (get_by_key intents pi_id i) (\<lambda>found.
     case found of None \<Rightarrow> raise AttributeError | Some x \<Rightarrow> ret x)"

definition reload_attempt :: "uuid \<Rightarrow> payment_attempt act" where
  "reload_attempt i =
     bind (get_by_key attempts pa_id i) (\<lambda>found.
     case found of None \<Rightarrow> raise AttributeError | Some x \<Rightarrow> ret x)"

section \<open>Creating an intent\<close>

text \<open>The request: the amount as a value and as the text the client wrote (\<open>str(amount)\<close>).\<close>

record intent_request =
  ir_membership_id :: uuid
  ir_amount :: money
  ir_amount_text :: string
  ir_currency :: string
  ir_purpose :: string
  ir_idempotency_key :: string
  ir_contribution_id :: "uuid option"
  ir_phone_number :: "string option"

definition intent_chama :: "user \<Rightarrow> uuid \<Rightarrow> chama act" where
  "intent_chama actor chama_id =
     bind (get_chama_or_404 chama_id) (\<lambda>chama.
     bind (authorize_chama_access actor (ch_id chama)) (\<lambda>_. ret chama))"

definition validate_linked_contribution :: "uuid \<Rightarrow> uuid \<Rightarrow> money \<Rightarrow> unit act" where
  "validate_linked_contribution membership_id contribution_id amount =
     bind (get_by_key contributions cn_id contribution_id) (\<lambda>found.
     case found of
       None \<Rightarrow> raise (StateError ''The linked contribution does not exist for this membership'')
     | Some c \<Rightarrow>
         bind (ensure (cn_membership_id c = membership_id)
           (StateError ''The linked contribution does not exist for this membership'')) (\<lambda>_.
         bind (ensure (cn_status c = CN_PENDING)
           (StateError ''Only a PENDING contribution can be linked to a payment'')) (\<lambda>_.
         ensure (amount = cn_amount c)
           (StateError ''The payment amount must match the linked contribution''))))"

definition match_idempotent_create ::
  "payment_intent \<Rightarrow> uuid \<Rightarrow> money \<Rightarrow> string \<Rightarrow> string \<Rightarrow> string \<Rightarrow> uuid option \<Rightarrow> string option \<Rightarrow> payment_intent act"
where
  "match_idempotent_create existing membership_id amount currency purpose digest contribution_id phone_number =
     bind (ensure (pi_idempotency_payload_hash existing = digest)
       (ConflictError ''This idempotency key was already used with a different payment request'')) (\<lambda>_.
     bind (ensure (pi_membership_id existing = membership_id)
       (ConflictError ''This idempotency key was already used for a different membership'')) (\<lambda>_.
     bind (ensure (pi_amount existing = amount \<and> pi_currency existing = currency \<and> pi_purpose existing = purpose)
       (ConflictError ''This idempotency key was already used with a different amount, currency, or purpose'')) (\<lambda>_.
     bind (ensure (pi_contribution_id existing = contribution_id)
       (ConflictError ''This idempotency key was already used with a different contribution'')) (\<lambda>_.
     bind (ensure (pi_requested_phone existing = phone_number)
       (ConflictError ''This idempotency key was already used with a different prompt phone'')) (\<lambda>_.
     ret existing)))))"

definition requested_phone :: "string option \<Rightarrow> string option" where
  "requested_phone phone_number =
     (case phone_number of
        None \<Rightarrow> None
      | Some p \<Rightarrow> if p = '''' then None else Some (normalize_ke_msisdn p))"

definition request_hash :: "gateway \<Rightarrow> uuid \<Rightarrow> intent_request \<Rightarrow> string" where
  "request_hash gw membership_id data =
     canonical_payload_hash gw membership_id (ir_amount_text data) (upper (ir_currency data)) (ir_purpose data)
       (map_option uuid_str (ir_contribution_id data)) (requested_phone (ir_phone_number data))"

definition resolve_intent_key :: "uuid \<Rightarrow> uuid \<Rightarrow> intent_request \<Rightarrow> string \<Rightarrow> payment_intent act \<Rightarrow> payment_intent act" where
  "resolve_intent_key chama_id membership_id data digest otherwise =
     bind (get_by_idempotency_key chama_id (ir_idempotency_key data)) (\<lambda>found.
     case found of
       Some existing \<Rightarrow>
         match_idempotent_create existing membership_id (ir_amount data) (upper (ir_currency data)) (ir_purpose data)
           digest (ir_contribution_id data) (requested_phone (ir_phone_number data))
     | None \<Rightarrow> otherwise)"

definition create_intent :: "gateway \<Rightarrow> user \<Rightarrow> uuid \<Rightarrow> intent_request \<Rightarrow> payment_intent act" where
  "create_intent gw actor chama_id data =
     bind (intent_chama actor chama_id) (\<lambda>chama.
     bind (authorize_chama_write actor (ch_id chama)) (\<lambda>caller.
     bind (get_target_membership (ch_id chama) (ir_membership_id data)) (\<lambda>target.
     bind (require_own_or_leadership caller (ms_id target) ''payment intents'') (\<lambda>_.
     bind (ensure (ms_status target = MS_ACTIVE)
       (StateError ''Payments can only be collected from active members'')) (\<lambda>_.
     bind (case ir_contribution_id data of
             None \<Rightarrow> ret ()
           | Some c \<Rightarrow> validate_linked_contribution (ms_id target) c (ir_amount data)) (\<lambda>_.
     let digest = request_hash gw (ms_id target) data in
     resolve_intent_key (ch_id chama) (ms_id target) data digest
       (bind uuid4 (\<lambda>i.
        let intent =
          \<lparr>pi_id = i, pi_chama_id = ch_id chama, pi_membership_id = ms_id target,
           pi_contribution_id = ir_contribution_id data,
           pi_requested_phone = requested_phone (ir_phone_number data), pi_amount = ir_amount data,
           pi_currency = upper (ir_currency data), pi_purpose = ir_purpose data, pi_status = PI_PENDING,
           pi_idempotency_key = ir_idempotency_key data, pi_idempotency_payload_hash = digest,
           pi_created_by_user_id = us_id actor, pi_last_transition_source = SRC_CLIENT,
           pi_last_transition_by_user_id = Some (us_id actor)\<rparr>
        in catch_integrity
             (bind (insert_row intent_check (\<lambda>r d. d\<lparr>intents := intents d @ [r]\<rparr>) intent) (\<lambda>_.
              bind commit (\<lambda>_. ret intent)))
             (bind rollback (\<lambda>_.
              resolve_intent_key (ch_id chama) (ms_id target) data digest
                (raise (IntegrityError ''payment_intents''))))))))))))"

section \<open>The lifecycle of an intent\<close>

fun intent_edge :: "intent_status \<Rightarrow> intent_status \<Rightarrow> bool" where
  "intent_edge PI_PENDING b = (b = PI_PROCESSING)"
| "intent_edge PI_PROCESSING b = (b = PI_SUCCEEDED \<or> b = PI_FAILED)"
| "intent_edge _ b = False"

definition transition_intent :: "uuid \<Rightarrow> intent_status \<Rightarrow> transfer_source \<Rightarrow> uuid option \<Rightarrow> unit act" where
  "transition_intent intent_id new_status source user_id =
     bind (reload_intent intent_id) (\<lambda>intent.
     bind (ensure (intent_edge (pi_status intent) new_status)
       (StateError (''Payment intent cannot move from '' @ intent_status_value (pi_status intent) @ '' to '' @
          intent_status_value new_status))) (\<lambda>_.
     set_intent intent_id (\<lambda>i. i\<lparr>pi_status := new_status, pi_last_transition_source := source,
       pi_last_transition_by_user_id := user_id\<rparr>)))"

section \<open>Reads\<close>

definition get_intent :: "user \<Rightarrow> uuid \<Rightarrow> uuid \<Rightarrow> payment_intent act" where
  "get_intent actor chama_id intent_id =
     bind (intent_chama actor chama_id) (\<lambda>chama.
     bind (get_intent_in_chama (ch_id chama) intent_id) (\<lambda>found.
     case found of
       None \<Rightarrow> raise (StateError ''Payment intent not found in this Chama'')
     | Some intent \<Rightarrow>
         bind (authorize_chama_access actor (ch_id chama)) (\<lambda>caller.
         bind (require_own_or_leadership caller (pi_membership_id intent) ''payment intents'') (\<lambda>_.
         ret intent))))"

text \<open>
  The repair on read: intents that an older build left PROCESSING after a definitive rejection
  become FAILED. The result says whether there were any.
\<close>

fun repair_intents :: "payment_intent list \<Rightarrow> bool act" where
  "repair_intents [] = ret False"
| "repair_intents (i # is) =
     bind (if pi_status i \<noteq> PI_PROCESSING then ret False
           else bind (list_for_intent (pi_id i)) (\<lambda>as.
             if as \<noteq> [] \<and> pa_status (last as) = PA_FAILED \<and> \<not> pa_retryable (last as)
             then bind (transition_intent (pi_id i) PI_FAILED SRC_SYSTEM None) (\<lambda>_. ret True)
             else ret False)) (\<lambda>repaired.
     bind (repair_intents is) (\<lambda>more. ret (repaired \<or> more)))"

fun collect :: "'a list \<Rightarrow> ('a \<Rightarrow> 'b act) \<Rightarrow> 'b list act" where
  "collect [] f = ret []"
| "collect (x # xs) f = bind (f x) (\<lambda>y. bind (collect xs f) (\<lambda>ys. ret (y # ys)))"

definition list_intents :: "user \<Rightarrow> uuid \<Rightarrow> nat option \<Rightarrow> nat \<Rightarrow> payment_intent list act" where
  "list_intents actor chama_id limit offset =
     bind (intent_chama actor chama_id) (\<lambda>chama.
     bind (authorize_chama_access actor (ch_id chama)) (\<lambda>caller.
     bind (has_any_role caller LEADERSHIP_ROLES) (\<lambda>group_scope.
     bind (intents_of_chama (ch_id chama) limit offset (if group_scope then None else Some (ms_id caller))) (\<lambda>is.
     bind (repair_intents is) (\<lambda>repaired.
     bind (if repaired then commit else ret ()) (\<lambda>_.
     collect is (\<lambda>i. reload_intent (pi_id i))))))))"

definition get_attempt :: "user \<Rightarrow> uuid \<Rightarrow> uuid \<Rightarrow> payment_attempt act" where
  "get_attempt actor chama_id attempt_id =
     bind (intent_chama actor chama_id) (\<lambda>chama.
     bind (get_attempt_in_chama (ch_id chama) attempt_id) (\<lambda>found.
     case found of
       None \<Rightarrow> raise (StateError ''Payment attempt not found in this Chama'')
     | Some attempt \<Rightarrow>
         bind (authorize_chama_access actor (ch_id chama)) (\<lambda>caller.
         bind (reload_intent (pa_payment_intent_id attempt)) (\<lambda>intent.
         bind (require_own_or_leadership caller (pi_membership_id intent) ''payment attempts'') (\<lambda>_.
         ret attempt)))))"

definition list_attempts :: "user \<Rightarrow> uuid \<Rightarrow> uuid \<Rightarrow> payment_attempt list act" where
  "list_attempts actor chama_id intent_id =
     bind (intent_chama actor chama_id) (\<lambda>chama.
     bind (get_intent_in_chama (ch_id chama) intent_id) (\<lambda>found.
     case found of
       None \<Rightarrow> raise (StateError ''Payment intent not found in this Chama'')
     | Some intent \<Rightarrow>
         bind (authorize_chama_access actor (ch_id chama)) (\<lambda>caller.
         bind (require_own_or_leadership caller (pi_membership_id intent) ''payment attempts'') (\<lambda>_.
         list_for_intent (pi_id intent)))))"

section \<open>Attempts\<close>

definition PERMANENT_FAILURE_CODES :: "string list" where
  "PERMANENT_FAILURE_CODES =
     [''AUTH_FAILED'', ''AUTH_MALFORMED'', ''CREDENTIALS_INCOMPLETE'', ''CREDENTIALS_UNEXPECTED'',
      ''SIGNING_KEY_INVALID'', ''PHONE_FORMAT'', ''AMOUNT_INVALID'', ''AMOUNT_NOT_INTEGER'',
      ''QUERY_REFERENCE_MISSING'']"

definition is_permanent :: "string option \<Rightarrow> bool" where
  "is_permanent code \<longleftrightarrow> (case code of None \<Rightarrow> False | Some c \<Rightarrow> c \<in> set PERMANENT_FAILURE_CODES)"

definition max_attempt_numbers :: "settings \<Rightarrow> int" where
  "max_attempt_numbers c = cf_payment_attempt_max_retries c + 1"

definition last_attempt :: "payment_intent \<Rightarrow> payment_attempt option act" where
  "last_attempt intent =
     bind (list_for_intent (pi_id intent)) (\<lambda>as. ret (if as = [] then None else Some (last as)))"

definition active_connection :: "gateway \<Rightarrow> uuid \<Rightarrow> uuid \<Rightarrow> payment_connection act" where
  "active_connection gw chama_id connection_id =
     bind (get_connection_in_chama chama_id connection_id) (\<lambda>found.
     case found of
       None \<Rightarrow> raise (StateError ''Payment connection not found in this Chama'')
     | Some connection \<Rightarrow>
         bind (ensure (pc_status connection = PC_ACTIVE)
           (StateError ''Payment connection is not active and cannot initiate payments'')) (\<lambda>_.
         bind (registry_get gw (pc_provider_code connection) (pc_environment connection)) (\<lambda>adapter.
         bind (ensure (supports adapter ''PAYMENT_REQUEST'' \<or> supports adapter ''STK_PUSH'')
           (StateError ''This payment connection does not support payment initiation'')) (\<lambda>_.
         ret connection))))"

definition check_initiate_rate_limit :: "bool \<Rightarrow> unit act" where
  "check_initiate_rate_limit allowed =
     ensure allowed (RateLimitError ''The daily payment initiation limit for this connection was reached'')"

definition shaped_credentials :: "gateway \<Rightarrow> payment_connection \<Rightarrow> uuid \<Rightarrow> credentials act" where
  "shaped_credentials gw connection chama_id =
     (case open_credentials gw connection chama_id of
        Inl e \<Rightarrow> raise (StateError ''Stored payment credentials could not be decrypted'')
      | Inr payload \<Rightarrow>
          bind (registry_get gw (pc_provider_code connection) (pc_environment connection)) (\<lambda>adapter.
          lift (ad_decrypted_credentials adapter payload (context_of connection chama_id))))"

text \<open>
  The search for a reference that the connection has not used: the loop may in principle run on,
  so it is a partial function of the references taken; \<open>Payment_Facts\<close> shows that it ends.
\<close>

partial_function (option) next_reference :: "string list \<Rightarrow> string \<Rightarrow> nat \<Rightarrow> string \<Rightarrow> string option" where
  "next_reference taken base counter candidate =
     (if candidate \<in> set taken
      then next_reference taken base (Suc counter) (base @ ''-'' @ nat_str (Suc counter))
      else Some candidate)"

definition reference_base :: "uuid \<Rightarrow> int \<Rightarrow> string" where
  "reference_base intent_id attempt_number =
     ''PAY-'' @ take 16 (uuid_hex intent_id) @ ''-'' @ two_digits attempt_number"

definition references_taken :: "uuid \<Rightarrow> db \<Rightarrow> string list" where
  "references_taken connection_id d =
     map pa_client_reference (filter (\<lambda>a. pa_connection_id a = connection_id) (attempts d))"

definition unique_client_reference :: "uuid \<Rightarrow> uuid \<Rightarrow> int \<Rightarrow> string act" where
  "unique_client_reference connection_id intent_id attempt_number =
     bind (scalar (references_taken connection_id)) (\<lambda>taken.
     case next_reference taken (reference_base intent_id attempt_number) 0 (reference_base intent_id attempt_number) of
       None \<Rightarrow> raise ValueError
     | Some candidate \<Rightarrow> ret candidate)"

definition charge_reference :: "payment_intent \<Rightarrow> string" where
  "charge_reference intent = ''CHAMACORE-'' @ upper (take 16 (uuid_hex (pi_id intent)))"

definition callback_url :: "gateway \<Rightarrow> payment_connection \<Rightarrow> string act" where
  "callback_url gw connection =
     asks (\<lambda>s. rstrip_char (CHR ''/'') (cf_public_base_url (cfg s)) @ cf_api_v1_prefix (cfg s) @
       ''/payments/webhooks/'' @ provider_code_value (pc_provider_code connection) @ ''/'' @
       environment_value (pc_environment connection) @ ''?connection_id='' @ uuid_str (pc_id connection) @ ''&token='' @
       connection_callback_token gw (pc_id connection) (pc_provider_code connection) (pc_environment connection))"

text \<open>\<open>intent.requested_phone or intent.membership.member.phone_number\<close>.\<close>

definition prompt_phone :: "payment_intent \<Rightarrow> string act" where
  "prompt_phone intent =
     (case pi_requested_phone intent of
        Some (c # cs) \<Rightarrow> ret (c # cs)
      | _ \<Rightarrow>
          bind (get_by_key memberships ms_id (pi_membership_id intent)) (\<lambda>found.
          case found of
            None \<Rightarrow> raise AttributeError
          | Some m \<Rightarrow>
              bind (get_by_key members mb_id (ms_member_id m)) (\<lambda>found.
              case found of None \<Rightarrow> raise AttributeError | Some p \<Rightarrow> ret (mb_phone_number p))))"

text \<open>The end of every branch: both rows are written, the intent may move, one commit.\<close>

definition store_attempt :: "payment_attempt \<Rightarrow> provider_transaction \<Rightarrow> unit act \<Rightarrow> payment_attempt act" where
  "store_attempt attempt transaction move =
     bind (insert_attempt attempt) (\<lambda>_.
     bind (insert_transaction transaction) (\<lambda>_.
     bind move (\<lambda>_.
     bind commit (\<lambda>_. ret attempt))))"

text \<open>
  A failure that is final ends the intent, an acceptance starts it; \<open>intent.status\<close> is the
  object's by then.
\<close>

definition move_if :: "bool \<Rightarrow> intent_status \<Rightarrow> uuid \<Rightarrow> intent_status \<Rightarrow> user \<Rightarrow> unit act" where
  "move_if c from intent_id to actor =
     bind (reload_intent intent_id) (\<lambda>intent.
     if c \<and> pi_status intent = from
     then transition_intent intent_id to SRC_CLIENT (Some (us_id actor)) else ret ())"

definition create_attempt ::
  "gateway \<Rightarrow> uuid \<Rightarrow> payment_connection \<Rightarrow> credentials \<Rightarrow> connection_context \<Rightarrow> int \<Rightarrow> user \<Rightarrow> payment_attempt act"
where
  "create_attempt gw intent_id connection shaped context attempt_number actor =
     bind (reload_intent intent_id) (\<lambda>intent.
     bind (unique_client_reference (pc_id connection) intent_id attempt_number) (\<lambda>client_reference.
     bind (prompt_phone intent) (\<lambda>phone.
     bind (callback_url gw connection) (\<lambda>url.
     bind uuid4 (\<lambda>attempt_id.
     bind uuid4 (\<lambda>transaction_id.
     bind (registry_get gw (pc_provider_code connection) (pc_environment connection)) (\<lambda>adapter.
     bind (asks utc_now) (\<lambda>now.
     let attempt =
           \<lparr>pa_id = attempt_id, pa_payment_intent_id = intent_id, pa_connection_id = pc_id connection,
            pa_attempt_number = attempt_number, pa_client_reference = client_reference,
            pa_provider_request_id = None, pa_provider_transaction_id = None, pa_status = PA_INITIATED,
            pa_retryable = False, pa_failure_code = None, pa_failure_message_safe = None,
            pa_completed_at = None, pa_last_transition_source = SRC_CLIENT\<rparr>;
         transaction = blank_transaction transaction_id attempt_id (pc_id connection);
         request =
           \<lparr>rq_amount = pi_amount intent, rq_currency = pi_currency intent, rq_customer_phone = phone,
            rq_client_reference = client_reference, rq_charge_reference = charge_reference intent,
            rq_callback_url = url\<rparr>
     in case ad_create_payment_attempt adapter shaped request context of
          Inl (ProviderTimeoutError code message) \<Rightarrow>
            store_attempt
              (attempt\<lparr>pa_status := PA_TIMEOUT, pa_retryable := True, pa_failure_code := Some code,
                 pa_failure_message_safe := Some message\<rparr>)
              (transaction\<lparr>pt_normalized_status := PT_UNKNOWN, pt_raw_status := Some code\<rparr>) (ret ())
        | Inl (ProviderIntegrationError code message) \<Rightarrow>
            store_attempt
              (attempt\<lparr>pa_status := PA_FAILED, pa_retryable := (code \<notin> set PERMANENT_FAILURE_CODES),
                 pa_failure_code := Some code, pa_failure_message_safe := Some message,
                 pa_completed_at := Some now\<rparr>)
              (transaction\<lparr>pt_normalized_status := PT_FAILED, pt_raw_status := Some code\<rparr>)
              (move_if (code \<in> set PERMANENT_FAILURE_CODES) PI_PROCESSING intent_id PI_FAILED actor)
        | Inl e \<Rightarrow> raise e
        | Inr result \<Rightarrow>
            if ar_accepted result
            then store_attempt
              (attempt\<lparr>pa_status := PA_INITIATED, pa_provider_request_id := ar_provider_request_id result,
                 pa_provider_transaction_id := ar_provider_transaction_id result\<rparr>)
              (transaction\<lparr>pt_provider_request_id := ar_provider_request_id result,
                 pt_provider_transaction_id := ar_provider_transaction_id result,
                 pt_normalized_status := ar_normalized_status result\<rparr>)
              (move_if True PI_PENDING intent_id PI_PROCESSING actor)
            else store_attempt
              (attempt\<lparr>pa_status := PA_FAILED, pa_retryable := ar_retryable result,
                 pa_failure_code := ar_error_code result,
                 pa_failure_message_safe := ar_error_message_safe result, pa_completed_at := Some now\<rparr>)
              (transaction\<lparr>pt_normalized_status := ar_normalized_status result,
                 pt_raw_status := ar_error_code result\<rparr>)
              (move_if (\<not> ar_retryable result) PI_PROCESSING intent_id PI_FAILED actor)))))))))"

section \<open>Resolving an open attempt\<close>

definition resolve_attempt_success :: "uuid \<Rightarrow> unit act" where
  "resolve_attempt_success attempt_id =
     bind (asks utc_now) (\<lambda>now.
     bind (set_attempt attempt_id (\<lambda>a. a\<lparr>pa_status := PA_SUCCEEDED, pa_completed_at := Some now,
       pa_last_transition_source := SRC_STATUS_QUERY\<rparr>)) (\<lambda>_.
     bind (reload_attempt attempt_id) (\<lambda>attempt.
     bind (reload_intent (pa_payment_intent_id attempt)) (\<lambda>intent.
     bind (if pi_status intent = PI_PROCESSING
           then transition_intent (pi_id intent) PI_SUCCEEDED SRC_STATUS_QUERY None else ret ()) (\<lambda>_.
     bind (if pi_contribution_id intent \<noteq> None
           then settle_linked_contribution (pi_contribution_id intent) (pi_membership_id intent) (pi_chama_id intent)
           else ret False) (\<lambda>_.
     commit))))))"

definition resolve_attempt_failure :: "uuid \<Rightarrow> string option \<Rightarrow> string option \<Rightarrow> unit act" where
  "resolve_attempt_failure attempt_id failure_code message_safe =
     bind (asks utc_now) (\<lambda>now.
     bind (set_attempt attempt_id (\<lambda>a. a\<lparr>pa_status := PA_FAILED, pa_completed_at := Some now,
       pa_failure_code := failure_code, pa_failure_message_safe := message_safe,
       pa_retryable := (\<not> is_permanent failure_code), pa_last_transition_source := SRC_STATUS_QUERY\<rparr>)) (\<lambda>_.
     commit))"

definition or_else :: "string option \<Rightarrow> string option \<Rightarrow> string option" where
  "or_else new old = (case new of Some (c # cs) \<Rightarrow> new | _ \<Rightarrow> old)"

text \<open>What the answer to a status query says of the transaction.\<close>

definition queried :: "int \<Rightarrow> status_result \<Rightarrow> provider_transaction \<Rightarrow> provider_transaction" where
  "queried now result t =
     t\<lparr>pt_last_queried_at := Some now,
       pt_provider_request_id := or_else (sr_provider_request_id result) (pt_provider_request_id t),
       pt_provider_transaction_id := or_else (sr_provider_transaction_id result) (pt_provider_transaction_id t),
       pt_raw_status := or_else (sr_raw_status result) (pt_raw_status t),
       pt_normalized_status := sr_normalized_status result\<rparr>"

definition query_and_resolve ::
  "gateway \<Rightarrow> payment_attempt \<Rightarrow> payment_connection \<Rightarrow> credentials \<Rightarrow> connection_context \<Rightarrow> bool act" where
  "query_and_resolve gw attempt connection shaped context =
     (case pa_provider_request_id attempt of
        Some (c # cs) \<Rightarrow>
          bind (registry_get gw (pc_provider_code connection) (pc_environment connection)) (\<lambda>adapter.
          bind (asks utc_now) (\<lambda>now.
          case ad_query_payment_status adapter shaped (c # cs) (pa_client_reference attempt) context of
            Inl (ProviderIntegrationError _ _) \<Rightarrow> ret False
          | Inl (ProviderTimeoutError _ _) \<Rightarrow> ret False
          | Inl e \<Rightarrow> raise e
          | Inr result \<Rightarrow>
              if sr_normalized_status result = PT_SUCCEEDED
              then bind (assign_transaction (pa_id attempt) (pc_id connection) (queried now result)) (\<lambda>_.
                   bind (resolve_attempt_success (pa_id attempt)) (\<lambda>_. ret True))
              else if sr_normalized_status result = PT_FAILED
              then bind (assign_transaction (pa_id attempt) (pc_id connection) (queried now result)) (\<lambda>_.
                   bind (resolve_attempt_failure (pa_id attempt) (sr_error_code result) (sr_error_message_safe result))
                     (\<lambda>_. ret True))
              else bind (note_transaction (pa_id attempt) (pc_id connection) (queried now result)) (\<lambda>_. ret False)))
      | _ \<Rightarrow> ret False)"

section \<open>Initiation\<close>

text \<open>The intent is given up: FAILED, committed, and the error.\<close>

definition give_up :: "uuid \<Rightarrow> user \<Rightarrow> string \<Rightarrow> 'a act" where
  "give_up intent_id actor message =
     bind (transition_intent intent_id PI_FAILED SRC_CLIENT (Some (us_id actor))) (\<lambda>_.
     bind commit (\<lambda>_. raise (StateError message)))"

text \<open>What follows once the last attempt is FAILED.\<close>

definition retry_failed ::
  "gateway \<Rightarrow> uuid \<Rightarrow> payment_connection \<Rightarrow> credentials \<Rightarrow> connection_context \<Rightarrow> payment_attempt \<Rightarrow> user \<Rightarrow> payment_attempt act"
where
  "retry_failed gw intent_id connection shaped context latest actor =
     bind (asks (max_attempt_numbers \<circ> cfg)) (\<lambda>most.
     if most \<le> pa_attempt_number latest
     then give_up intent_id actor
       ''Payment could not be completed after the maximum number of attempts; create a new payment intent''
     else if \<not> pa_retryable latest
     then give_up intent_id actor
       ''The payment provider rejected this request permanently; create a new payment intent''
     else create_attempt gw intent_id connection shaped context (pa_attempt_number latest + 1) actor)"

definition continue_attempts ::
  "gateway \<Rightarrow> uuid \<Rightarrow> payment_connection \<Rightarrow> credentials \<Rightarrow> connection_context \<Rightarrow> payment_attempt \<Rightarrow> user \<Rightarrow> payment_attempt act"
where
  "continue_attempts gw intent_id connection shaped context latest actor =
     (if pa_status latest = PA_SUCCEEDED then ret latest
      else if pa_status latest \<in> {PA_INITIATED, PA_TIMEOUT, PA_UNKNOWN}
      then bind (query_and_resolve gw latest connection shaped context) (\<lambda>resolved.
        if \<not> resolved then reload_attempt (pa_id latest)
        else bind (reload_attempt (pa_id latest)) (\<lambda>latest.
          if pa_status latest = PA_SUCCEEDED then ret latest
          else bind (set_attempt (pa_id latest) (\<lambda>a. a\<lparr>pa_retryable := (\<not> is_permanent (pa_failure_code a))\<rparr>)) (\<lambda>_.
            bind commit (\<lambda>_.
            bind (reload_attempt (pa_id latest)) (\<lambda>latest.
            retry_failed gw intent_id connection shaped context latest actor)))))
      else retry_failed gw intent_id connection shaped context latest actor)"

definition initiate :: "gateway \<Rightarrow> bool \<Rightarrow> user \<Rightarrow> uuid \<Rightarrow> uuid \<Rightarrow> uuid \<Rightarrow> payment_attempt act" where
  "initiate gw allowed actor chama_id intent_id connection_id =
     bind (intent_chama actor chama_id) (\<lambda>chama.
     bind (get_intent_in_chama (ch_id chama) intent_id) (\<lambda>found.
     case found of
       None \<Rightarrow> raise (StateError ''Payment intent not found in this Chama'')
     | Some intent \<Rightarrow>
         bind (authorize_chama_write actor (ch_id chama)) (\<lambda>caller.
         bind (require_own_or_leadership caller (pi_membership_id intent) ''payment intents'') (\<lambda>_.
         bind (ensure (pi_status intent \<noteq> PI_FAILED)
           (StateError ''This payment intent has already failed; create a new payment intent'')) (\<lambda>_.
         if pi_status intent = PI_SUCCEEDED
         then bind (last_attempt intent) (\<lambda>found.
           case found of
             Some a \<Rightarrow> ret a
           | None \<Rightarrow> raise (StateError ''This payment intent has already been completed''))
         else
           bind (active_connection gw (ch_id chama) connection_id) (\<lambda>connection.
           bind (check_initiate_rate_limit allowed) (\<lambda>_.
           bind (get_target_membership (ch_id chama) (pi_membership_id intent)) (\<lambda>target.
           bind (ensure (ms_status target = MS_ACTIVE)
             (StateError ''The payment target is no longer an active member of this Chama'')) (\<lambda>_.
           bind (shaped_credentials gw connection (ch_id chama)) (\<lambda>shaped.
           let context = context_of connection (ch_id chama) in
           bind (list_for_intent (pi_id intent)) (\<lambda>attempts.
           if attempts = []
           then bind (transition_intent (pi_id intent) PI_PROCESSING SRC_CLIENT (Some (us_id actor))) (\<lambda>_.
             bind commit (\<lambda>_.
             create_attempt gw (pi_id intent) connection shaped context 1 actor))
           else continue_attempts gw (pi_id intent) connection shaped context (last attempts) actor)))))))))))"

end
