(* ===== verification/Payment_Webhooks.thy ===== *)
theory Payment_Webhooks
  imports Payment_Intents
begin

text \<open>
  The inbox of provider callbacks (\<open>app/services/payment_webhook.py\<close>): a delivery is bound to a
  connection, stored once per provider event, and applied to its attempt, its intent and the
  linked contribution. An event is committed before it is applied, so a delivery that fails later
  stays RECEIVED and is taken up again when it comes back. The settlement timer and the counters
  of the metrics endpoint are left out; the delivery limiter of the router is the one of
  \<open>Policies\<close>.
\<close>

section \<open>Events\<close>

definition get_by_connection_event :: "uuid \<Rightarrow> string \<Rightarrow> payment_event option act" where
  "get_by_connection_event connection_id provider_event_id =
     select_first payment_events (\<lambda>e. pe_connection_id e = connection_id \<and>
       pe_provider_event_id e = Some provider_event_id)"

text \<open>Stale events, the oldest first; rows are in the order they were received.\<close>

definition list_stale :: "int \<Rightarrow> nat \<Rightarrow> payment_event list act" where
  "list_stale older_than limit =
     bind (select_all payment_events (\<lambda>e. pe_status e = EV_RECEIVED \<and> pe_received_at e < older_than)) (\<lambda>es.
     ret (take limit (sort_key pe_received_at es)))"

definition count_stale :: "int \<Rightarrow> nat act" where
  "count_stale older_than =
     scalar (\<lambda>d. length (filter (\<lambda>e. pe_status e = EV_RECEIVED \<and> pe_received_at e < older_than) (payment_events d)))"

definition event_check :: "db \<Rightarrow> payment_event \<Rightarrow> string option" where
  "event_check d e =
     (if list_ex (\<lambda>x. pe_id x = pe_id e) (payment_events d) then Some ''payment_events_pkey''
      else if pe_provider_event_id e \<noteq> None \<and>
              list_ex (\<lambda>x. pe_connection_id x = pe_connection_id e \<and>
                            pe_provider_event_id x = pe_provider_event_id e) (payment_events d)
      then Some ''uq_payment_events_connection_event'' else None)"

definition reload_event :: "uuid \<Rightarrow> payment_event act" where
  "reload_event i =
     bind (get_by_key payment_events pe_id i) (\<lambda>found.
     case found of None \<Rightarrow> raise AttributeError | Some e \<Rightarrow> ret e)"

text \<open>Every branch ends an event the same way: its status, the time, a commit.\<close>

definition finish_event :: "uuid \<Rightarrow> event_status \<Rightarrow> payment_event act" where
  "finish_event event_id status =
     bind (asks utc_now) (\<lambda>now.
     bind (change (payment_events_update (upd_row pe_id event_id
       (\<lambda>e. e\<lparr>pe_status := status, pe_processed_at := Some now\<rparr>)))) (\<lambda>_.
     bind commit (\<lambda>_.
     reload_event event_id)))"

section \<open>Binding a delivery\<close>

definition find_attempt :: "parsed_callback \<Rightarrow> payment_attempt option act" where
  "find_attempt parsed =
     bind (case cb_provider_request_id parsed of
             Some (c # cs) \<Rightarrow> get_by_provider_request_id (c # cs)
           | _ \<Rightarrow> ret None) (\<lambda>found.
     case found of
       Some a \<Rightarrow> ret (Some a)
     | None \<Rightarrow>
         (case cb_provider_transaction_id parsed of
            Some (c # cs) \<Rightarrow>
              bind (get_by_provider_transaction_id (c # cs)) (\<lambda>transaction.
              case transaction of
                Some t \<Rightarrow> get_by_key attempts pa_id (pt_payment_attempt_id t)
              | None \<Rightarrow> ret None)
          | _ \<Rightarrow> ret None))"

definition check_connection_match :: "payment_connection \<Rightarrow> provider_code \<Rightarrow> payment_environment \<Rightarrow> unit act" where
  "check_connection_match connection code environment =
     ensure (pc_provider_code connection = code \<and> pc_environment connection = environment)
       (WebhookRejectedError ''Callback provider and environment do not match the connection'')"

definition get_connection_by_id :: "uuid \<Rightarrow> payment_connection option act" where
  "get_connection_by_id i = get_by_key connections pc_id i"

definition resolve_connection ::
  "gateway \<Rightarrow> provider_code \<Rightarrow> payment_environment \<Rightarrow> parsed_callback \<Rightarrow> (string \<times> string) list \<Rightarrow> payment_connection act"
where
  "resolve_connection gw code environment parsed query_params =
     (case map_of query_params ''token'' of
        Some (c # cs) \<Rightarrow>
          (case map_of query_params ''connection_id'' of
             Some (d # ds) \<Rightarrow>
               (case parse_uuid (d # ds) of
                  None \<Rightarrow> raise (WebhookRejectedError ''Callback connection id is invalid'')
                | Some connection_id \<Rightarrow>
                    bind (get_connection_by_id connection_id) (\<lambda>found.
                    case found of
                      None \<Rightarrow> raise (WebhookRejectedError ''Callback connection does not exist'')
                    | Some connection \<Rightarrow>
                        bind (ensure (constant_time_equal (c # cs)
                                (connection_callback_token gw (pc_id connection) (pc_provider_code connection)
                                   (pc_environment connection)))
                          (WebhookRejectedError ''Callback token is invalid'')) (\<lambda>_.
                        bind (check_connection_match connection code environment) (\<lambda>_.
                        ret connection))))
           | _ \<Rightarrow> raise (WebhookRejectedError ''Callback token supplied without a connection id''))
      | _ \<Rightarrow>
          bind (find_attempt parsed) (\<lambda>found.
          case found of
            None \<Rightarrow> raise (WebhookRejectedError ''Callback does not reference a known payment attempt'')
          | Some attempt \<Rightarrow>
              bind (get_connection_by_id (pa_connection_id attempt)) (\<lambda>found.
              case found of
                None \<Rightarrow> raise AttributeError
              | Some connection \<Rightarrow>
                  bind (check_connection_match connection code environment) (\<lambda>_.
                  ret connection))))"

section \<open>Storage and deduplication\<close>

definition resolve_duplicate :: "payment_event \<Rightarrow> string \<Rightarrow> payment_event act" where
  "resolve_duplicate existing digest =
     (if pe_payload_hash existing \<noteq> digest then finish_event (pe_id existing) EV_DISAGREEMENT
      else if pe_status existing = EV_RECEIVED then ret existing
      else finish_event (pe_id existing) EV_DEDUPLICATED)"

definition find_event :: "uuid \<Rightarrow> string option \<Rightarrow> payment_event option act" where
  "find_event connection_id provider_event_id =
     (case provider_event_id of
        Some (c # cs) \<Rightarrow> get_by_connection_event connection_id (c # cs)
      | _ \<Rightarrow> ret None)"

definition store_event :: "gateway \<Rightarrow> payment_connection \<Rightarrow> parsed_callback \<Rightarrow> string \<Rightarrow> payment_event act" where
  "store_event gw connection parsed raw_payload =
     (let digest = payload_hash gw raw_payload in
      bind (find_event (pc_id connection) (cb_provider_event_id parsed)) (\<lambda>existing.
      case existing of
        Some e \<Rightarrow> resolve_duplicate e digest
      | None \<Rightarrow>
          bind uuid4 (\<lambda>i.
          bind (asks utc_now) (\<lambda>now.
          let event =
            \<lparr>pe_id = i, pe_connection_id = pc_id connection, pe_provider_code = pc_provider_code connection,
             pe_environment = pc_environment connection, pe_provider_event_id = cb_provider_event_id parsed,
             pe_payload_hash = digest, pe_raw_payload = raw_payload, pe_status = EV_RECEIVED,
             pe_received_at = now, pe_processed_at = None, pe_last_transition_source = ''PROVIDER_CALLBACK''\<rparr>
          in catch_integrity
               (bind (insert_row event_check (\<lambda>r d. d\<lparr>payment_events := payment_events d @ [r]\<rparr>) event) (\<lambda>_.
                bind commit (\<lambda>_.
                if \<not> is_parseable parsed then finish_event i EV_UNPROCESSABLE else ret event)))
               (bind rollback (\<lambda>_.
                bind (find_event (pc_id connection) (cb_provider_event_id parsed)) (\<lambda>existing.
                case existing of
                  Some e \<Rightarrow> resolve_duplicate e digest
                | None \<Rightarrow> raise (IntegrityError ''payment_events'')))))))) "

section \<open>Applying a callback\<close>

definition apply_success :: "payment_attempt \<Rightarrow> payment_intent \<Rightarrow> parsed_callback \<Rightarrow> unit act" where
  "apply_success attempt intent parsed =
     bind (asks utc_now) (\<lambda>now.
     bind (set_attempt (pa_id attempt) (\<lambda>a. a\<lparr>pa_status := PA_SUCCEEDED, pa_completed_at := Some now,
       pa_last_transition_source := SRC_PROVIDER_CALLBACK,
       pa_provider_transaction_id := or_else (cb_provider_transaction_id parsed) (pa_provider_transaction_id a)\<rparr>)) (\<lambda>_.
     bind (assign_transaction (pa_id attempt) (pa_connection_id attempt)
       (\<lambda>t. t\<lparr>pt_normalized_status := PT_SUCCEEDED,
          pt_provider_transaction_id := or_else (cb_provider_transaction_id parsed) (pt_provider_transaction_id t),
          pt_raw_status := or_else (cb_raw_status parsed) (pt_raw_status t)\<rparr>)) (\<lambda>_.
     bind (if pi_status intent = PI_PROCESSING
           then set_intent (pi_id intent) (\<lambda>i. i\<lparr>pi_status := PI_SUCCEEDED,
             pi_last_transition_source := SRC_PROVIDER_CALLBACK, pi_last_transition_by_user_id := None\<rparr>)
           else ret ()) (\<lambda>_.
     if pi_contribution_id intent \<noteq> None
     then bind (settle_linked_contribution (pi_contribution_id intent) (pi_membership_id intent) (pi_chama_id intent))
            (\<lambda>_. ret ())
     else ret ()))))"

definition apply_failure :: "payment_attempt \<Rightarrow> payment_intent \<Rightarrow> parsed_callback \<Rightarrow> unit act" where
  "apply_failure attempt intent parsed =
     bind (asks utc_now) (\<lambda>now.
     bind (asks (max_attempt_numbers \<circ> cfg)) (\<lambda>most.
     bind (set_attempt (pa_id attempt) (\<lambda>a. a\<lparr>pa_status := PA_FAILED, pa_completed_at := Some now,
       pa_last_transition_source := SRC_PROVIDER_CALLBACK, pa_failure_code := cb_error_code parsed,
       pa_failure_message_safe := cb_error_message_safe parsed\<rparr>)) (\<lambda>_.
     bind (assign_transaction (pa_id attempt) (pa_connection_id attempt)
       (\<lambda>t. t\<lparr>pt_normalized_status := PT_FAILED,
          pt_raw_status := or_else (cb_raw_status parsed) (pt_raw_status t)\<rparr>)) (\<lambda>_.
     if most \<le> pa_attempt_number attempt \<and> pi_status intent = PI_PROCESSING
     then set_intent (pi_id intent) (\<lambda>i. i\<lparr>pi_status := PI_FAILED,
       pi_last_transition_source := SRC_PROVIDER_CALLBACK, pi_last_transition_by_user_id := None\<rparr>)
     else ret ()))))"

definition apply_callback :: "payment_attempt \<Rightarrow> parsed_callback \<Rightarrow> payment_event \<Rightarrow> payment_event act" where
  "apply_callback attempt parsed event =
     bind (reload_intent (pa_payment_intent_id attempt)) (\<lambda>intent.
     if cb_amount parsed \<noteq> None \<and> cb_amount parsed \<noteq> Some (Finite (dec_of_money (pi_amount intent)))
     then finish_event (pe_id event) EV_DISAGREEMENT
     else if cb_currency parsed \<noteq> None \<and> cb_currency parsed \<noteq> Some (pi_currency intent)
     then finish_event (pe_id event) EV_DISAGREEMENT
     else if cb_normalized_status parsed \<in> {None, Some PT_PENDING, Some PT_UNKNOWN}
     then finish_event (pe_id event) EV_UNPROCESSABLE
     else if pa_status attempt = PA_SUCCEEDED
     then finish_event (pe_id event)
       (if cb_normalized_status parsed = Some PT_SUCCEEDED then EV_PROCESSED else EV_DISAGREEMENT)
     else if pa_status attempt = PA_FAILED
     then finish_event (pe_id event)
       (if cb_normalized_status parsed = Some PT_FAILED then EV_PROCESSED else EV_DISAGREEMENT)
     else bind (if cb_normalized_status parsed = Some PT_SUCCEEDED
                then apply_success attempt intent parsed else apply_failure attempt intent parsed) (\<lambda>_.
          finish_event (pe_id event) EV_PROCESSED))"

definition handle_callback ::
  "gateway \<Rightarrow> provider_code \<Rightarrow> payment_environment \<Rightarrow> string \<Rightarrow> (string \<times> string) list \<Rightarrow> (string \<times> string) list \<Rightarrow>
     payment_event act" where
  "handle_callback gw code environment raw_payload headers query_params =
     bind (asks (cf_payment_webhook_max_body_bytes \<circ> cfg)) (\<lambda>most.
     bind (ensure (length raw_payload \<le> most) (WebhookRejectedError ''Callback body exceeds the size limit'')) (\<lambda>_.
     bind (registry_get gw code environment) (\<lambda>adapter.
     bind (lift (ad_parse_callback adapter raw_payload)) (\<lambda>parsed.
     bind (resolve_connection gw code environment parsed query_params) (\<lambda>connection.
     bind (ensure (fst (ad_verify_callback adapter raw_payload headers))
       (WebhookRejectedError ''Callback verification failed'')) (\<lambda>_.
     bind (store_event gw connection parsed raw_payload) (\<lambda>event.
     if pe_status event \<in> {EV_DEDUPLICATED, EV_DISAGREEMENT, EV_UNPROCESSABLE} then ret event
     else
       bind (find_attempt parsed) (\<lambda>found.
       case found of
         None \<Rightarrow> finish_event (pe_id event) EV_UNPROCESSABLE
       | Some attempt \<Rightarrow>
           if pa_connection_id attempt \<noteq> pc_id connection then finish_event (pe_id event) EV_UNPROCESSABLE
           else apply_callback attempt parsed event))))))))"

end
