(* ===== verification/Payment_Life.thy ===== *)
theory Payment_Life
  imports Payment_Webhooks Contribution_Facts Governance_Facts Lifecycle
begin

text \<open>
  What the payment handlers do to the session. Settlement of a linked contribution touches none
  of the payment tables, so the machinery of intents and attempts is described on those alone.
\<close>

section \<open>The search for a reference ends\<close>

definition reference :: "string \<Rightarrow> nat \<Rightarrow> string" where
  "reference base k = (if k = 0 then base else base @ ''-'' @ nat_str k)"

lemma reference_inject: "reference base j = reference base k \<longleftrightarrow> j = k"
  by (auto simp: reference_def)

lemma next_reference_steps:
  assumes "\<forall>j < n. reference base (c + j) \<in> set taken" and "reference base (c + n) \<notin> set taken"
  shows "next_reference taken base c (reference base c) = Some (reference base (c + n))"
  using assms
proof (induction n arbitrary: c)
  case 0
  then show ?case by (subst next_reference.simps) simp
next
  case (Suc n)
  have "reference base c \<in> set taken" using Suc.prems(1) by force
  moreover have "reference base (Suc c) = base @ ''-'' @ nat_str (Suc c)" by (simp add: reference_def)
  moreover have "next_reference taken base (Suc c) (reference base (Suc c)) = Some (reference base (Suc c + n))"
    using Suc.prems by (intro Suc.IH) auto
  ultimately show ?case by (subst next_reference.simps) simp
qed

lemma next_reference_ends:
  "\<exists>k \<le> length taken. next_reference taken base 0 base = Some (reference base k) \<and> reference base k \<notin> set taken"
proof -
  have "\<exists>k \<le> length taken. reference base k \<notin> set taken"
  proof (rule ccontr)
    assume "\<not> ?thesis"
    then have "reference base ` {0..length taken} \<subseteq> set taken" by auto
    moreover have "card (reference base ` {0..length taken}) = Suc (length taken)"
      by (subst card_image) (auto simp: inj_on_def reference_inject)
    ultimately have "Suc (length taken) \<le> card (set taken)" by (metis card_mono List.finite_set)
    then show False using card_length [of taken] by simp
  qed
  then obtain k where k: "k \<le> length taken" "reference base k \<notin> set taken" by blast
  define n where "n = (LEAST k. reference base k \<notin> set taken)"
  have n: "reference base n \<notin> set taken" unfolding n_def by (rule LeastI) (rule k(2))
  have below: "\<forall>j < n. reference base (0 + j) \<in> set taken" using not_less_Least unfolding n_def by force
  have "n \<le> k" unfolding n_def by (rule Least_le) (rule k(2))
  moreover have "next_reference taken base 0 (reference base 0) = Some (reference base (0 + n))"
    by (rule next_reference_steps) (use n below in simp_all)
  ultimately show ?thesis using k(1) n by (intro exI [of _ n]) (simp add: reference_def)
qed

lemma wp_unique_client_reference:
  assumes "attempts (rows (sync s)) = attempts (objs s)"
    and "\<And>r. r \<notin> set (references_taken cid (objs s)) \<Longrightarrow> Q r (sync s)"
  shows "wp (unique_client_reference cid i n) Q R s"
proof -
  have "references_taken cid (rows (sync s)) = references_taken cid (objs s)" using assms(1) by (simp add: references_taken_def)
  moreover obtain k where "next_reference (references_taken cid (objs s)) (reference_base i n) 0 (reference_base i n) =
      Some (reference (reference_base i n) k)" "reference (reference_base i n) k \<notin> set (references_taken cid (objs s))"
    using next_reference_ends by blast
  ultimately show ?thesis using assms(2) by (simp add: unique_client_reference_def wp)
qed

section \<open>Access\<close>

lemma wp_intent_chama:
  assumes clean: "clean s"
    and "\<And>c m. find_row ch_id cid (chamas (objs s)) = Some c \<Longrightarrow> access_ok actor (ch_id c) (objs s) m \<Longrightarrow> Q c s"
    and "\<And>e. R e s"
  shows "wp (intent_chama actor cid) Q R s"
  unfolding intent_chama_def by (rule wp_chama_read [OF clean]) (use assms in \<open>simp_all add: wp_ret\<close>)

lemma wp_access_again:
  assumes clean: "clean s" and "\<And>m. access_ok actor cid (objs s) m \<Longrightarrow> Q m s" and "\<And>e. R e s"
  shows "wp (authorize_chama_access actor cid) Q R s"
  by (rule wp_authorize_chama_access) (use assms in auto)

lemma wp_write_again:
  assumes clean: "clean s" and "\<And>m. write_ok actor cid (objs s) m \<Longrightarrow> Q m s" and "\<And>e. R e s"
  shows "wp (authorize_chama_write actor cid) Q R s"
  by (rule wp_authorize_chama_write) (use assms in auto)

section \<open>Settlement leaves the payment tables alone\<close>

definition pay_same :: "db \<Rightarrow> db \<Rightarrow> bool" where
  "pay_same d d' \<longleftrightarrow> intents d' = intents d \<and> attempts d' = attempts d \<and>
     provider_transactions d' = provider_transactions d"

lemma pay_same_refl [simp]: "pay_same d d"
  by (simp add: pay_same_def)

lemma pay_same_log [simp]: "pay_same d (log_db a n d') = pay_same d d'"
  by (simp add: pay_same_def)

lemma wp_ensure_system_user_any:
  assumes "\<And>u t. pay_same (objs s) (objs t) \<Longrightarrow> contributions (objs t) = contributions (objs s) \<Longrightarrow>
      durable t = durable s \<Longrightarrow> Q u t"
    and "\<And>e t. durable t = durable s \<Longrightarrow> R e t"
  shows "wp ensure_system_user Q R s"
  using assms by (auto simp: ensure_system_user_def wp Let_def pay_same_def split: option.split)

lemma pay_same_confirmed [simp]:
  "pay_same d (confirmed_db s c units) \<longleftrightarrow> pay_same d (objs s)"
  "pay_same d (confirmed_booked s actor cid c units cash capital) \<longleftrightarrow> pay_same d (objs s)"
  by (simp_all add: pay_same_def confirmed_db_def confirmed_booked_def book_def add_posting_def)

lemma wp_settle_linked_any:
  assumes ok: "\<And>b t. pay_same (objs s) (objs t) \<Longrightarrow> grows (pay_same (objs s)) s t \<Longrightarrow> Q b t"
    and no: "\<And>e t. durable t = durable s \<Longrightarrow> R e t"
  shows "wp (settle_linked_contribution contribution_id mid cid) Q R s"
proof (cases contribution_id)
  case None
  then show ?thesis using ok by (simp add: settle_linked_contribution_def wp)
next
  case (Some i)
  have eff: "wp (settle_effect c u) (\<lambda>_. Q True) R t"
    if t: "pay_same (objs s) (objs t)" "contributions (objs t) = contributions (objs s)" "durable t = durable s"
      and c: "find_row cn_id i (contributions (objs s)) = Some c" for c u t
  proof (rule wp_settle_effect, goal_cases)
    case 1
    then show ?case using c t(2) find_row_key [OF c] by simp
  next
    case (2 m cash capital units a n u'' u')
    show ?case by (rule ok) (use t in \<open>auto simp: grows_def\<close>)
  next
    case (3 units t' a n u'')
    show ?case by (rule ok) (use t in \<open>auto simp: grows_def\<close>)
  qed (use no t in simp)
  have fin: "wp ensure_system_user (\<lambda>sys. wp (settle c sys True) (\<lambda>_. Q True) R) R s"
    if c: "find_row cn_id i (contributions (objs s)) = Some c" for c
  proof (rule wp_ensure_system_user_any [OF _ no], goal_cases)
    case (1 u t)
    show ?case by (rule wp_settle) (use eff [OF 1 c] ok [OF 1(1)] no 1(3) in auto)
  qed
  show ?thesis
    using Some by (auto simp: settle_linked_contribution_def wp no intro!: fin split: option.split)
qed

section \<open>The attempts of an intent\<close>

definition attempts_of :: "db \<Rightarrow> uuid \<Rightarrow> payment_attempt list" where
  "attempts_of d i = filter (\<lambda>a. pa_payment_intent_id a = i) (attempts d)"

text \<open>
  The rows that belong to one intent: its own row, its attempts and whether the provider's
  transaction of its last attempt has an id by which a callback can find it.
\<close>

definition traced :: "db \<Rightarrow> uuid \<Rightarrow> bool" where
  "traced d i \<longleftrightarrow> (\<exists>t \<in> set (provider_transactions d).
     pt_payment_attempt_id t = i \<and> pt_provider_transaction_id t \<noteq> None)"

definition open_attempt :: "payment_attempt \<Rightarrow> bool" where
  "open_attempt a \<longleftrightarrow> pa_status a \<in> {PA_INITIATED, PA_TIMEOUT, PA_UNKNOWN}"

text \<open>Attempts in order, at most \<open>most\<close>, all but the last failed, and what the intent's status says of them.\<close>

definition collection_ok :: "int \<Rightarrow> payment_intent \<Rightarrow> payment_attempt list \<Rightarrow> bool" where
  "collection_ok most x as \<longleftrightarrow>
     map pa_attempt_number as = [1..int (length as)] \<and> int (length as) \<le> max 1 most \<and>
     (\<forall>a \<in> set (butlast as). pa_status a = PA_FAILED) \<and>
     (pi_status x = PI_PENDING \<longrightarrow> as = []) \<and>
     (pi_status x = PI_SUCCEEDED \<longleftrightarrow> as \<noteq> [] \<and> pa_status (last as) = PA_SUCCEEDED) \<and>
     (pi_status x = PI_FAILED \<longrightarrow> as \<noteq> [] \<and> pa_status (last as) = PA_FAILED)"

text \<open>
  A timed-out attempt has nothing by which the provider's answer could be found: no request id,
  no transaction id.
\<close>

definition untraceable :: "db \<Rightarrow> payment_attempt \<Rightarrow> bool" where
  "untraceable d a \<longleftrightarrow> pa_provider_request_id a = None \<and> \<not> traced d (pa_id a)"

definition timeouts_blind :: "db \<Rightarrow> bool" where
  "timeouts_blind d \<longleftrightarrow> (\<forall>a \<in> set (attempts d). pa_status a = PA_TIMEOUT \<longrightarrow> untraceable d a)"

definition pay_inv :: "int \<Rightarrow> db \<Rightarrow> bool" where
  "pay_inv most d \<longleftrightarrow>
     distinct (map pi_id (intents d)) \<and> distinct (map pa_id (attempts d)) \<and>
     distinct (map pt_id (provider_transactions d)) \<and> timeouts_blind d \<and>
     (\<forall>i. case find_row pi_id i (intents d) of
            None \<Rightarrow> attempts_of d i = []
          | Some x \<Rightarrow> collection_ok most x (attempts_of d i))"

section \<open>The abstract collection\<close>

text \<open>
  What a Chama sees of a payment: nothing asked yet, a charge asked for and open, a charge
  declined, the money collected, or the payment abandoned; with the number of charges so far.
\<close>

datatype collection = Due | Asked nat | Declined nat | Collected nat | Abandoned nat

text \<open>Charges are asked for one at a time, and at most \<open>most\<close> of them.\<close>

inductive charge :: "int \<Rightarrow> collection \<Rightarrow> collection \<Rightarrow> bool" for most where
  ask: "charge most Due (Asked 1)"
| refuse: "charge most Due (Declined 1)"
| drop: "charge most Due (Abandoned 1)"
| pay: "charge most (Asked n) (Collected n)"
| decline: "charge most (Asked n) (Declined n)"
| end_declined: "charge most (Asked n) (Abandoned n)"
| ask_again: "int n < most \<Longrightarrow> charge most (Declined n) (Asked (Suc n))"
| refuse_again: "int n < most \<Longrightarrow> charge most (Declined n) (Declined (Suc n))"
| drop_again: "int n < most \<Longrightarrow> charge most (Declined n) (Abandoned (Suc n))"
| abandon: "charge most (Declined n) (Abandoned n)"

definition collection_of :: "payment_intent \<Rightarrow> payment_attempt list \<Rightarrow> collection" where
  "collection_of x as =
     (if as = [] then Due
      else if pi_status x = PI_FAILED then Abandoned (length as)
      else if pa_status (last as) = PA_SUCCEEDED then Collected (length as)
      else if pa_status (last as) = PA_FAILED then Declined (length as)
      else Asked (length as))"

definition same_terms :: "payment_intent \<Rightarrow> payment_intent \<Rightarrow> bool" where
  "same_terms x y \<longleftrightarrow>
     pi_chama_id y = pi_chama_id x \<and> pi_membership_id y = pi_membership_id x \<and>
     pi_contribution_id y = pi_contribution_id x \<and> pi_amount y = pi_amount x \<and>
     pi_currency y = pi_currency x \<and> pi_purpose y = pi_purpose x \<and>
     pi_requested_phone y = pi_requested_phone x \<and> pi_idempotency_key y = pi_idempotency_key x"

text \<open>What identifies an attempt, and that a final one keeps its status.\<close>

definition keeps_attempt :: "payment_attempt \<Rightarrow> payment_attempt \<Rightarrow> bool" where
  "keeps_attempt a b \<longleftrightarrow>
     pa_id b = pa_id a \<and> pa_attempt_number b = pa_attempt_number a \<and>
     pa_connection_id b = pa_connection_id a \<and> pa_client_reference b = pa_client_reference a \<and>
     (\<not> open_attempt a \<longrightarrow> pa_status b = pa_status a)"

text \<open>
  Nothing can move an intent any more: it is PROCESSING without an attempt, or its last attempt
  timed out and neither a query nor a callback can refer to it.
\<close>

definition stranded :: "db \<Rightarrow> uuid \<Rightarrow> bool" where
  "stranded d i \<longleftrightarrow>
     (\<exists>x. find_row pi_id i (intents d) = Some x \<and> pi_status x = PI_PROCESSING) \<and>
     (attempts_of d i = [] \<or>
      pa_status (last (attempts_of d i)) = PA_TIMEOUT \<and> pa_provider_request_id (last (attempts_of d i)) = None \<and>
      \<not> traced d (pa_id (last (attempts_of d i))))"

definition advances :: "int \<Rightarrow> db \<Rightarrow> db \<Rightarrow> uuid \<Rightarrow> bool" where
  "advances most d d' i \<longleftrightarrow>
     (\<forall>x. find_row pi_id i (intents d) = Some x \<longrightarrow>
        (\<exists>y. find_row pi_id i (intents d') = Some y \<and> same_terms x y \<and>
           intent_edge\<^sup>*\<^sup>* (pi_status x) (pi_status y) \<and>
           (charge most)\<^sup>*\<^sup>* (collection_of x (attempts_of d i)) (collection_of y (attempts_of d' i)) \<and>
           list_all2 keeps_attempt (attempts_of d i) (take (length (attempts_of d i)) (attempts_of d' i)) \<and>
           (stranded d i \<longrightarrow> stranded d' i \<and> y = x \<and> attempts_of d' i = attempts_of d i)))"

definition pay_rel :: "int \<Rightarrow> db \<Rightarrow> db \<Rightarrow> bool" where
  "pay_rel most d d' \<longleftrightarrow> (\<forall>i. advances most d d' i)"

abbreviation pay_step :: "int \<Rightarrow> db \<Rightarrow> db \<Rightarrow> bool" where
  "pay_step most d d' \<equiv> pay_rel most d d' \<and> pay_inv most d'"

lemma keeps_attempt_refl [simp]: "keeps_attempt a a"
  by (simp add: keeps_attempt_def)

lemma keeps_attempt_trans: "keeps_attempt a b \<Longrightarrow> keeps_attempt b c \<Longrightarrow> keeps_attempt a c"
  by (auto simp: keeps_attempt_def open_attempt_def)

lemma list_all2_keeps_refl [simp]: "list_all2 keeps_attempt as as"
  by (simp add: list_all2_same)

lemma advances_refl: "advances most d d i"
  by (auto simp: advances_def same_terms_def)

lemma advances_trans:
  assumes "advances most d d' i" and "advances most d' d'' i"
  shows "advances most d d'' i"
  unfolding advances_def
proof (intro allI impI)
  fix x assume x: "find_row pi_id i (intents d) = Some x"
  let ?a = "attempts_of d i" and ?b = "attempts_of d' i" and ?c = "attempts_of d'' i"
  obtain y where y: "find_row pi_id i (intents d') = Some y" "same_terms x y"
    "intent_edge\<^sup>*\<^sup>* (pi_status x) (pi_status y)" "(charge most)\<^sup>*\<^sup>* (collection_of x ?a) (collection_of y ?b)"
    "list_all2 keeps_attempt ?a (take (length ?a) ?b)" "stranded d i \<longrightarrow> stranded d' i \<and> y = x \<and> ?b = ?a"
    using assms(1) x unfolding advances_def by blast
  obtain z where z: "find_row pi_id i (intents d'') = Some z" "same_terms y z"
    "intent_edge\<^sup>*\<^sup>* (pi_status y) (pi_status z)" "(charge most)\<^sup>*\<^sup>* (collection_of y ?b) (collection_of z ?c)"
    "list_all2 keeps_attempt ?b (take (length ?b) ?c)" "stranded d' i \<longrightarrow> stranded d'' i \<and> z = y \<and> ?c = ?b"
    using assms(2) y(1) unfolding advances_def by blast
  have len: "length ?a \<le> length ?b" "length ?b \<le> length ?c"
    using list_all2_lengthD [OF y(5)] list_all2_lengthD [OF z(5)] by simp_all
  have "list_all2 keeps_attempt (take (length ?a) ?b) (take (length ?a) (take (length ?b) ?c))"
    using z(5) by (rule list_all2_takeI)
  then have "list_all2 keeps_attempt ?a (take (length ?a) ?c)"
    using list_all2_trans [OF keeps_attempt_trans y(5)] len by simp
  then show "\<exists>z. find_row pi_id i (intents d'') = Some z \<and> same_terms x z \<and>
      intent_edge\<^sup>*\<^sup>* (pi_status x) (pi_status z) \<and> (charge most)\<^sup>*\<^sup>* (collection_of x ?a) (collection_of z ?c) \<and>
      list_all2 keeps_attempt ?a (take (length ?a) ?c) \<and>
      (stranded d i \<longrightarrow> stranded d'' i \<and> z = x \<and> ?c = ?a)"
    using y z by (intro exI [of _ z]) (auto simp: same_terms_def intro: rtranclp_trans)
qed

lemma pay_rel_refl: "pay_rel most d d"
  by (simp add: pay_rel_def advances_refl)

lemma pay_rel_trans: "pay_rel most d d' \<Longrightarrow> pay_rel most d' d'' \<Longrightarrow> pay_rel most d d''"
  by (auto simp: pay_rel_def intro: advances_trans)

text \<open>Only the three payment tables matter.\<close>

lemma pay_same_cong:
  assumes "pay_same d d'"
  shows "attempts_of d' = attempts_of d" "traced d' = traced d" "stranded d' = stranded d" "pay_inv most d' = pay_inv most d"
    "advances most e d' = advances most e d" "pay_rel most e d' = pay_rel most e d"
proof -
  show a: "attempts_of d' = attempts_of d" and t: "traced d' = traced d"
    using assms by (auto simp: pay_same_def attempts_of_def traced_def fun_eq_iff)
  show s: "stranded d' = stranded d" using assms by (auto simp: stranded_def a t pay_same_def)
  show "pay_inv most d' = pay_inv most d"
    using assms by (simp add: pay_inv_def timeouts_blind_def untraceable_def a t pay_same_def split: option.split)
  show v: "advances most e d' = advances most e d"
    using assms by (simp add: advances_def a s pay_same_def fun_eq_iff)
  show "pay_rel most e d' = pay_rel most e d" by (simp add: pay_rel_def v)
qed

lemma pay_step_same: "pay_inv most d \<Longrightarrow> pay_same d d' \<Longrightarrow> pay_step most d d'"
  using pay_same_cong by (simp add: pay_rel_refl)

lemma grows_pay_same:
  "pay_step most e d \<Longrightarrow> grows (pay_same d) s t \<Longrightarrow> grows (pay_step most e) s t"
  by (erule grows_mono) (simp add: pay_same_cong)

section \<open>Moves of one intent\<close>

lemma pay_invD:
  assumes "pay_inv most d"
  shows "distinct (map pi_id (intents d))" "distinct (map pa_id (attempts d))"
    "distinct (map pt_id (provider_transactions d))"
    "find_row pi_id i (intents d) = Some x \<Longrightarrow> collection_ok most x (attempts_of d i)"
    "find_row pi_id i (intents d) = None \<Longrightarrow> attempts_of d i = []"
    "timeouts_blind d"
  using assms unfolding pay_inv_def by (auto split: option.splits) (metis option.case)+

lemma pay_stepI:
  assumes inv: "pay_inv most d"
    and ids: "distinct (map pi_id (intents d'))" "distinct (map pa_id (attempts d'))"
      "distinct (map pt_id (provider_transactions d'))"
    and rows: "\<And>j. j \<noteq> i \<Longrightarrow> find_row pi_id j (intents d') = find_row pi_id j (intents d)"
    and tries: "\<And>j. j \<noteq> i \<Longrightarrow> attempts_of d' j = attempts_of d j"
    and traces: "\<And>j. j \<noteq> i \<Longrightarrow> attempts_of d j \<noteq> [] \<Longrightarrow> traced d' (pa_id (last (attempts_of d j))) = traced d (pa_id (last (attempts_of d j)))"
    and here: "find_row pi_id i (intents d') = Some y" "collection_ok most y (attempts_of d' i)" "advances most d d' i"
    and blind: "timeouts_blind d'"
  shows "pay_step most d d'"
proof
  have "advances most d d' j" for j
  proof (cases "j = i")
    case False
    have "stranded d' j = stranded d j"
      using traces [OF False] by (cases "attempts_of d j = []") (simp_all add: stranded_def rows [OF False] tries [OF False])
    then show ?thesis using False by (auto simp: advances_def rows tries same_terms_def)
  qed (simp add: here)
  then show "pay_rel most d d'" by (simp add: pay_rel_def)
  have "case find_row pi_id j (intents d') of None \<Rightarrow> attempts_of d' j = [] | Some x \<Rightarrow> collection_ok most x (attempts_of d' j)" for j
    using here pay_invD(4,5) [OF inv, of j] rows [of j] tries [of j] by (cases "j = i") (simp_all split: option.split)
  then show "pay_inv most d'" by (simp add: pay_inv_def ids blind)
qed

lemma attempt_in:
  assumes "attempts_of d i = as @ [a]"
  shows "a \<in> set (attempts d)" "pa_payment_intent_id a = i"
proof -
  have "a \<in> set (attempts_of d i)" using assms by simp
  then show "a \<in> set (attempts d)" "pa_payment_intent_id a = i" by (simp_all add: attempts_of_def)
qed

lemma attempts_of_update:
  assumes "distinct (map pa_id (attempts d))" and "attempts_of d i = as @ [a]"
    and "attempts d' = upd_row pa_id (pa_id a) g (attempts d)"
    and "\<And>b. pa_payment_intent_id (g b) = pa_payment_intent_id b"
  shows "attempts_of d' j = (if j = i then as @ [g a] else attempts_of d j)"
proof -
  let ?g = "\<lambda>b. if pa_id b = pa_id a then g b else b"
  have a: "a \<in> set (attempts d)" "pa_payment_intent_id a = i"
    by (rule attempt_in [OF assms(2)])+
  have "filter (\<lambda>b. pa_payment_intent_id b = j) (map ?g bs) = map ?g (filter (\<lambda>b. pa_payment_intent_id b = j) bs)" for bs
    using assms(4) by (induction bs) auto
  then have all: "attempts_of d' j = map ?g (attempts_of d j)" by (simp add: attempts_of_def assms(3) upd_row_def)
  have one: "b = a" if "b \<in> set (attempts d)" "pa_id b = pa_id a" for b
    using assms(1) that a(1) by (meson distinct_map inj_onD)
  have sub: "set (attempts_of d j) \<subseteq> set (attempts d)" by (auto simp: attempts_of_def)
  show ?thesis
  proof (cases "j = i")
    case True
    have "distinct (map pa_id (attempts_of d i))" using assms(1) unfolding attempts_of_def by (rule distinct_map_filter)
    then have "\<forall>b \<in> set as. pa_id b \<noteq> pa_id a" using assms(2) by (force simp: image_iff)
    then have "map ?g as = as" by (intro map_idI) auto
    then show ?thesis using True all assms(2) by simp
  next
    case False
    have "pa_id b \<noteq> pa_id a" if "b \<in> set (attempts_of d j)" for b
    proof
      assume "pa_id b = pa_id a"
      then have "b = a" using one that sub by blast
      then show False using that a(2) False by (simp add: attempts_of_def)
    qed
    then have "map ?g (attempts_of d j) = attempts_of d j" by (intro map_idI) auto
    then show ?thesis using False all by simp
  qed
qed

lemma last_attempt_of_other:
  assumes "distinct (map pa_id (attempts d))" "attempts_of d i = as @ [a]" "j \<noteq> i" "attempts_of d j \<noteq> []"
  shows "pa_id (last (attempts_of d j)) \<noteq> pa_id a"
proof
  assume eq: "pa_id (last (attempts_of d j)) = pa_id a"
  have l: "last (attempts_of d j) \<in> set (attempts_of d j)" using assms(4) by simp
  then have "last (attempts_of d j) = a"
    using assms(1) attempt_in(1) [OF assms(2)] eq by (auto simp: attempts_of_def distinct_map inj_on_def)
  then show False using l attempt_in(2) [OF assms(2)] assms(3) by (simp add: attempts_of_def)
qed

text \<open>An open last attempt makes the intent PROCESSING.\<close>

lemma open_processing:
  assumes "collection_ok most x (as @ [a])" and "open_attempt a"
  shows "pi_status x = PI_PROCESSING" "\<forall>b \<in> set as. pa_status b = PA_FAILED"
  using assms by (cases "pi_status x"; auto simp: collection_ok_def open_attempt_def)+

definition keeps_terms :: "(payment_intent \<Rightarrow> payment_intent) \<Rightarrow> bool" where
  "keeps_terms f \<longleftrightarrow> (\<forall>x. pi_id (f x) = pi_id x \<and> same_terms x (f x))"

definition keeps_try :: "(payment_attempt \<Rightarrow> payment_attempt) \<Rightarrow> bool" where
  "keeps_try g \<longleftrightarrow> (\<forall>a. pa_id (g a) = pa_id a \<and> pa_payment_intent_id (g a) = pa_payment_intent_id a \<and>
     pa_attempt_number (g a) = pa_attempt_number a \<and> pa_connection_id (g a) = pa_connection_id a \<and>
     pa_client_reference (g a) = pa_client_reference a)"

text \<open>The status of the intent moves, its attempts do not, or the last one in a way that fits.\<close>

lemma step_last:
  assumes inv: "pay_inv most d" and x: "find_row pi_id i (intents d) = Some x" and as: "attempts_of d i = as @ [a]"
    and f: "keeps_terms f" and g: "keeps_try g"
    and i': "intents d' = upd_row pi_id i f (intents d)"
    and a': "attempts d' = upd_row pa_id (pa_id a) g (attempts d)"
    and t': "distinct (map pt_id (provider_transactions d'))"
      "\<And>k. k \<noteq> pa_id a \<Longrightarrow> traced d' k = traced d k"
    and moves: "pi_status x = PI_PROCESSING" "\<not> stranded d i"
      "open_attempt a \<and> pa_status (g a) = PA_SUCCEEDED \<and> pi_status (f x) = PI_SUCCEEDED \<or>
       (open_attempt a \<or> pa_status a = PA_FAILED) \<and> pa_status (g a) = PA_FAILED \<and> pi_status (f x) \<in> {PI_PROCESSING, PI_FAILED}"
  shows "pay_step most d d'"
proof (rule pay_stepI [where i = i and y = "f x", OF inv])
  note D = pay_invD [OF inv]
  have cok: "collection_ok most x (as @ [a])" using D(4) [OF x] as by simp
  have att: "attempts_of d' j = (if j = i then as @ [g a] else attempts_of d j)" for j
    by (rule attempts_of_update [OF D(2) as a']) (use g in \<open>simp add: keeps_try_def\<close>)
  have fid: "pi_id (f y) = pi_id y" for y using f by (simp add: keeps_terms_def)
  have failed: "\<forall>b \<in> set as. pa_status b = PA_FAILED" using cok by (simp add: collection_ok_def)
  have num: "pa_attempt_number (g a) = pa_attempt_number a" using g by (simp add: keeps_try_def)
  show "distinct (map pi_id (intents d'))" using D(1) i' map_key_upd_row [of pi_id f, OF fid] by simp
  show "distinct (map pa_id (attempts d'))"
    using D(2) a' map_key_upd_row [of pa_id g] g by (simp add: keeps_try_def)
  show "distinct (map pt_id (provider_transactions d'))" by (rule t'(1))
  show "find_row pi_id j (intents d') = find_row pi_id j (intents d)" if "j \<noteq> i" for j
    using that i' find_upd_row [of pi_id f, OF fid] by simp
  show "attempts_of d' j = attempts_of d j" if "j \<noteq> i" for j using that att by simp
  show "traced d' (pa_id (last (attempts_of d j))) = traced d (pa_id (last (attempts_of d j)))"
    if "j \<noteq> i" "attempts_of d j \<noteq> []" for j
    by (rule t'(2)) (rule last_attempt_of_other [OF D(2) as that])
  show "timeouts_blind d'"
    unfolding timeouts_blind_def
  proof (intro ballI impI)
    fix b assume b: "b \<in> set (attempts d')" "pa_status b = PA_TIMEOUT"
    have "pa_status (g a) \<noteq> PA_TIMEOUT" using moves(3) by auto
    have "b \<in> set (attempts d) \<and> pa_id b \<noteq> pa_id a"
      using b a' attempt_in(1) [OF as] D(2) \<open>pa_status (g a) \<noteq> PA_TIMEOUT\<close>
      by (auto simp: set_upd_row distinct_map inj_on_def)
    then show "untraceable d' b" using D(6) b(2) t'(2) by (auto simp: timeouts_blind_def untraceable_def)
  qed
  show y: "find_row pi_id i (intents d') = Some (f x)"
    using x i' find_upd_row [of pi_id f, OF fid] by simp
  show "collection_ok most (f x) (attempts_of d' i)"
    using cok moves failed num by (auto simp: att collection_ok_def)
  have edge: "intent_edge\<^sup>*\<^sup>* (pi_status x) (pi_status (f x))"
    using moves(1,3) by auto
  have c0: "collection_of x (as @ [a]) = (if open_attempt a then Asked (Suc (length as)) else if pa_status a = PA_FAILED then Declined (Suc (length as)) else Collected (Suc (length as)))"
    using moves(1) by (auto simp: collection_of_def open_attempt_def) (metis attempt_status.exhaust)+
  have c1: "collection_of (f x) (as @ [g a]) = (if pa_status (g a) = PA_SUCCEEDED then Collected (Suc (length as))
      else if pi_status (f x) = PI_FAILED then Abandoned (Suc (length as)) else Declined (Suc (length as)))"
    using moves(3) by (auto simp: collection_of_def)
  have chg: "(charge most)\<^sup>*\<^sup>* (collection_of x (as @ [a])) (collection_of (f x) (as @ [g a]))"
    unfolding c0 c1 using moves(3) by (auto intro: charge.intros simp: open_attempt_def)
  have ka: "keeps_attempt a (g a)" using g moves(3) by (auto simp: keeps_attempt_def keeps_try_def open_attempt_def)
  have "list_all2 keeps_attempt (as @ [a]) (as @ [g a])"
    by (intro list_all2_appendI) (simp_all add: ka)
  then show "advances most d d' i"
    unfolding advances_def using x y edge chg moves(2) f by (auto simp: att as keeps_terms_def)
qed

lemma step_new:
  assumes inv: "pay_inv most d" and x: "find_row pi_id (pi_id x) (intents d) = None" "pi_status x = PI_PENDING"
    and d': "intents d' = intents d @ [x]" "attempts d' = attempts d" "provider_transactions d' = provider_transactions d"
  shows "pay_step most d d'"
proof (rule pay_stepI [where i = "pi_id x" and y = x, OF inv])
  note D = pay_invD [OF inv]
  have att: "attempts_of d' j = attempts_of d j" for j by (simp add: attempts_of_def d')
  have none: "attempts_of d (pi_id x) = []" by (rule D(5) [OF x(1)])
  show "distinct (map pi_id (intents d'))" using D(1) x(1) by (auto simp: d' find_row_None_iff)
  show "distinct (map pa_id (attempts d'))" "distinct (map pt_id (provider_transactions d'))" using D(2,3) by (simp_all add: d')
  show "find_row pi_id j (intents d') = find_row pi_id j (intents d)" if "j \<noteq> pi_id x" for j
    using that by (simp add: d' find_row_append find_row_Cons split: option.split)
  show "traced d' k = traced d k" for k by (simp add: traced_def d')
  show "find_row pi_id (pi_id x) (intents d') = Some x" using x(1) by (simp add: d' find_row_append find_row_Cons)
  show "timeouts_blind d'" using D(6) by (simp add: timeouts_blind_def untraceable_def traced_def d')
  show "collection_ok most x (attempts_of d' (pi_id x))" by (simp add: att none collection_ok_def x(2))
  show "advances most d d' (pi_id x)" by (simp add: advances_def x(1))
qed (simp add: attempts_of_def d')

text \<open>An attempt is added to an intent that has none, or whose last one failed.\<close>

definition may_ask :: "int \<Rightarrow> payment_intent \<Rightarrow> payment_attempt list \<Rightarrow> bool" where
  "may_ask most x as \<longleftrightarrow>
     pi_status x = PI_PENDING \<and> as = [] \<or>
     pi_status x = PI_PROCESSING \<and> as \<noteq> [] \<and> pa_status (last as) = PA_FAILED \<and> int (length as) < most"

lemma step_attempt:
  assumes inv: "pay_inv most d" and x: "find_row pi_id i (intents d) = Some x" and ask: "may_ask most x (attempts_of d i)"
    and f: "keeps_terms f" and i': "intents d' = upd_row pi_id i f (intents d)"
    and a': "attempts d' = attempts d @ [a]" "pa_id a \<notin> pa_id ` set (attempts d)" "pa_payment_intent_id a = i"
      "pa_attempt_number a = int (length (attempts_of d i)) + 1" "pa_status a \<noteq> PA_SUCCEEDED"
    and s: "pi_status (f x) = PI_PROCESSING \<or> pi_status (f x) = PI_FAILED \<and> pa_status a = PA_FAILED"
    and t': "provider_transactions d' = provider_transactions d @ [t]" "pt_id t \<notin> pt_id ` set (provider_transactions d)"
      "pt_payment_attempt_id t = pa_id a" "\<forall>e \<in> set (provider_transactions d). pt_payment_attempt_id e \<noteq> pa_id a"
      "pa_status a = PA_TIMEOUT \<longrightarrow> pa_provider_request_id a = None \<and> pt_provider_transaction_id t = None"
  shows "pay_step most d d'"
proof (rule pay_stepI [where i = i and y = "f x", OF inv])
  note D = pay_invD [OF inv]
  let ?as = "attempts_of d i"
  have fid: "pi_id (f y) = pi_id y" for y using f by (simp add: keeps_terms_def)
  have att: "attempts_of d' j = (if j = i then ?as @ [a] else attempts_of d j)" for j
    using a'(3) by (simp add: attempts_of_def a'(1))
  have cok: "collection_ok most x ?as" by (rule D(4) [OF x])
  have failed: "\<forall>b \<in> set ?as. pa_status b = PA_FAILED"
  proof (cases "?as = []")
    case False
    then have "?as = butlast ?as @ [last ?as]" by simp
    then show ?thesis using cok ask unfolding collection_ok_def may_ask_def
      by (metis False Un_iff empty_iff insert_iff list.set(1) list.set(2) set_append)
  qed simp
  show "distinct (map pi_id (intents d'))" using D(1) i' map_key_upd_row [of pi_id f, OF fid] by simp
  show "distinct (map pa_id (attempts d'))" using D(2) a'(1,2) by simp
  show "distinct (map pt_id (provider_transactions d'))" using D(3) t' by simp
  show "find_row pi_id j (intents d') = find_row pi_id j (intents d)" if "j \<noteq> i" for j
    using that i' find_upd_row [of pi_id f, OF fid] by simp
  show "attempts_of d' j = attempts_of d j" if "j \<noteq> i" for j using that att by simp
  show "traced d' (pa_id (last (attempts_of d j))) = traced d (pa_id (last (attempts_of d j)))"
    if "j \<noteq> i" "attempts_of d j \<noteq> []" for j
  proof -
    have "set (attempts_of d j) \<subseteq> set (attempts d)" by (auto simp: attempts_of_def)
    then have "last (attempts_of d j) \<in> set (attempts d)" using last_in_set [OF that(2)] by blast
    then have "pa_id (last (attempts_of d j)) \<noteq> pa_id a" using a'(2) by (metis imageI)
    then show ?thesis using t'(3) by (auto simp: traced_def t'(1))
  qed
  show y: "find_row pi_id i (intents d') = Some (f x)"
    using x i' find_upd_row [of pi_id f, OF fid] by simp
  show "timeouts_blind d'"
    unfolding timeouts_blind_def
  proof (intro ballI impI)
    fix b assume b: "b \<in> set (attempts d')" "pa_status b = PA_TIMEOUT"
    show "untraceable d' b"
    proof (cases "b = a")
      case True
      then show ?thesis using b(2) t' by (auto simp: untraceable_def traced_def)
    next
      case False
      then have old: "b \<in> set (attempts d)" using b(1) a'(1) by simp
      then have "pa_id b \<noteq> pa_id a" using a'(2) by (metis imageI)
      then show ?thesis using D(6) old b(2) t'(3) by (auto simp: timeouts_blind_def untraceable_def traced_def t'(1))
    qed
  qed
  have num: "map pa_attempt_number ?as @ [pa_attempt_number a] = [1..int (Suc (length ?as))]"
    using cok a'(4) upto_rec2 [of 1 "int (Suc (length ?as))"] by (simp add: collection_ok_def add.commute)
  show "collection_ok most (f x) (attempts_of d' i)"
    using num s failed ask a'(5) by (auto simp: att collection_ok_def may_ask_def)
  have edge: "intent_edge\<^sup>*\<^sup>* (pi_status x) (pi_status (f x))"
  proof -
    have "intent_edge\<^sup>*\<^sup>* (pi_status x) PI_PROCESSING" using ask by (auto simp: may_ask_def)
    moreover have "intent_edge\<^sup>*\<^sup>* PI_PROCESSING (pi_status (f x))" using s by auto
    ultimately show ?thesis by (rule rtranclp_trans)
  qed
  have c0: "collection_of x ?as = (if ?as = [] then Due else Declined (length ?as))"
    using ask by (auto simp: collection_of_def may_ask_def)
  have c1: "collection_of (f x) (?as @ [a]) = (if pi_status (f x) = PI_FAILED then Abandoned (Suc (length ?as))
      else if pa_status a = PA_FAILED then Declined (Suc (length ?as)) else Asked (Suc (length ?as)))"
    using a'(5) by (simp add: collection_of_def)
  have "charge most (collection_of x ?as) (collection_of (f x) (?as @ [a]))"
    unfolding c0 c1 using ask by (auto simp: may_ask_def intro: charge.intros charge.intros(1-3) [simplified])
  then have chg: "(charge most)\<^sup>*\<^sup>* (collection_of x ?as) (collection_of (f x) (?as @ [a]))" by (rule r_into_rtranclp)
  have "\<not> stranded d i" using x ask by (auto simp: stranded_def may_ask_def)
  then show "advances most d d' i"
    unfolding advances_def using x y edge chg f by (auto simp: att keeps_terms_def)
qed

lemma step_start:
  assumes inv: "pay_inv most d" and x: "find_row pi_id i (intents d) = Some x" "pi_status x = PI_PENDING"
    and f: "keeps_terms f" "pi_status (f x) = PI_PROCESSING"
    and d': "intents d' = upd_row pi_id i f (intents d)" "attempts d' = attempts d"
      "provider_transactions d' = provider_transactions d"
  shows "pay_step most d d'"
proof (rule pay_stepI [where i = i and y = "f x", OF inv])
  note D = pay_invD [OF inv]
  have fid: "pi_id (f y) = pi_id y" for y using f by (simp add: keeps_terms_def)
  have att: "attempts_of d' j = attempts_of d j" for j by (simp add: attempts_of_def d')
  have none: "attempts_of d i = []" using D(4) [OF x(1)] x(2) by (simp add: collection_ok_def)
  show "distinct (map pi_id (intents d'))" using D(1) d' map_key_upd_row [of pi_id f, OF fid] by simp
  show "distinct (map pa_id (attempts d'))" "distinct (map pt_id (provider_transactions d'))" using D(2,3) by (simp_all add: d')
  show "find_row pi_id j (intents d') = find_row pi_id j (intents d)" if "j \<noteq> i" for j
    using that d' find_upd_row [of pi_id f, OF fid] by simp
  show "traced d' k = traced d k" for k by (simp add: traced_def d')
  show y: "find_row pi_id i (intents d') = Some (f x)"
    using x d' find_upd_row [of pi_id f, OF fid] by simp
  show "timeouts_blind d'" using D(6) by (simp add: timeouts_blind_def untraceable_def traced_def d')
  show "collection_ok most (f x) (attempts_of d' i)" by (simp add: att none collection_ok_def f)
  show "advances most d d' i"
    using x y f by (auto simp: advances_def att none collection_of_def stranded_def keeps_terms_def)
qed (simp add: attempts_of_def d')

end
