(* ===== verification/Payment_Facts.thy ===== *)
theory Payment_Facts
  imports Payment_Life
begin

text \<open>
  What the handlers of payment intents do to the session: every database they commit is a step
  of the collection machine of \<open>Payment_Life\<close>.
\<close>

section \<open>Rows and objects\<close>

lemma wp_reload_intent [wp]:
  "wp (reload_intent i) Q R s =
     (case find_row pi_id i (intents (objs s)) of None \<Rightarrow> R AttributeError s | Some x \<Rightarrow> Q x s)"
  by (simp add: reload_intent_def wp split: option.split)

lemma wp_reload_attempt [wp]:
  "wp (reload_attempt i) Q R s =
     (case find_row pa_id i (attempts (objs s)) of None \<Rightarrow> R AttributeError s | Some x \<Rightarrow> Q x s)"
  by (simp add: reload_attempt_def wp split: option.split)

lemma wp_set_intent [wp]:
  "wp (set_intent i f) Q R s = Q () (s\<lparr>objs := intents_update (upd_row pi_id i f) (objs s)\<rparr>)"
  by (simp add: set_intent_def wp)

lemma wp_set_attempt [wp]:
  "wp (set_attempt i f) Q R s = Q () (s\<lparr>objs := attempts_update (upd_row pa_id i f) (objs s)\<rparr>)"
  by (simp add: set_attempt_def wp)

definition moved :: "intent_status \<Rightarrow> transfer_source \<Rightarrow> uuid option \<Rightarrow> payment_intent \<Rightarrow> payment_intent" where
  "moved st src u i = i\<lparr>pi_status := st, pi_last_transition_source := src, pi_last_transition_by_user_id := u\<rparr>"

lemma moved_simps [simp]:
  "pi_status (moved st src u x) = st" "pi_id (moved st src u x) = pi_id x" "same_terms x (moved st src u x)"
  "keeps_terms (moved st src u)" "moved st src u (moved st' src' u' x) = moved st src u x"
  by (simp_all add: moved_def same_terms_def keeps_terms_def)

lemma moved_fun: "moved st src u = (\<lambda>i. i\<lparr>pi_status := st, pi_last_transition_source := src, pi_last_transition_by_user_id := u\<rparr>)"
  by (simp add: moved_def fun_eq_iff)

lemma wp_transition_intent [wp]:
  "wp (transition_intent i st src u) Q R s =
     (case find_row pi_id i (intents (objs s)) of
        None \<Rightarrow> R AttributeError s
      | Some x \<Rightarrow>
          if intent_edge (pi_status x) st
          then Q () (s\<lparr>objs := intents_update (upd_row pi_id i (moved st src u)) (objs s)\<rparr>)
          else R (StateError (''Payment intent cannot move from '' @ intent_status_value (pi_status x) @ '' to '' @
            intent_status_value st)) s)"
  by (simp add: transition_intent_def wp moved_fun split: option.split)

lemma in_attempts_of: "b \<in> set (attempts_of d i) \<Longrightarrow> b \<in> set (attempts d) \<and> pa_payment_intent_id b = i"
  by (simp add: attempts_of_def)

lemma sort_numbered: "map f xs = [1..int (length xs)] \<Longrightarrow> sort_key f xs = xs"
  by (rule sort_key_id_if_sorted) simp

lemma attempts_numbered:
  assumes "pay_inv most d" and "find_row pi_id i (intents d) = Some x"
  shows "sort_key pa_attempt_number (attempts_of d i) = attempts_of d i"
  using pay_invD(4) [OF assms] by (intro sort_numbered) (simp add: collection_ok_def)

lemma wp_list_for_intent:
  assumes "rows s = objs s"
  shows "wp (list_for_intent i) Q R s = Q (sort_key pa_attempt_number (attempts_of (objs s) i)) s"
  using assms by (simp add: list_for_intent_def wp attempts_of_def sync_flushed)

lemma wp_insert_attempt:
  assumes "(\<forall>e \<in> set (attempts (objs s)). pa_id e \<noteq> pa_id a) \<Longrightarrow>
      Q () (s\<lparr>objs := (objs s)\<lparr>attempts := attempts (objs s) @ [a]\<rparr>, rows := (objs s)\<lparr>attempts := attempts (objs s) @ [a]\<rparr>\<rparr>)"
    and "\<And>e. R e s"
  shows "wp (insert_attempt a) Q R s"
  using assms by (auto simp: insert_attempt_def wp attempt_check_def list_ex_iff split: option.split)

lemma wp_insert_transaction:
  assumes "(\<forall>e \<in> set (provider_transactions (objs s)). pt_id e \<noteq> pt_id a \<and> pt_payment_attempt_id e \<noteq> pt_payment_attempt_id a) \<Longrightarrow>
      Q () (s\<lparr>objs := (objs s)\<lparr>provider_transactions := provider_transactions (objs s) @ [a]\<rparr>,
        rows := (objs s)\<lparr>provider_transactions := provider_transactions (objs s) @ [a]\<rparr>\<rparr>)"
    and "\<And>e. R e s"
  shows "wp (insert_transaction a) Q R s"
  using assms by (auto simp: insert_transaction_def wp transaction_check_def transaction_clash_def Let_def list_ex_iff split: option.split)


text \<open>The attempt that is written, with its transaction, and where the intent goes with it.\<close>

definition asked ::
  "uuid \<Rightarrow> (payment_intent \<Rightarrow> payment_intent) \<Rightarrow> payment_attempt \<Rightarrow> provider_transaction \<Rightarrow> db \<Rightarrow> db" where
  "asked i f a r d =
     intents_update (upd_row pi_id i f)
       (d\<lparr>attempts := attempts d @ [a], provider_transactions := provider_transactions d @ [r]\<rparr>)"

lemma asked_same:
  "asked i (\<lambda>x. x) a r d = d\<lparr>attempts := attempts d @ [a], provider_transactions := provider_transactions d @ [r]\<rparr>"
  by (simp add: asked_def upd_row_def)

lemma asked_simps [simp]:
  "intents (asked i f a r d) = upd_row pi_id i f (intents d)"
  "attempts (asked i f a r d) = attempts d @ [a]"
  "provider_transactions (asked i f a r d) = provider_transactions d @ [r]"
  by (simp_all add: asked_def)

definition ask_ok :: "uuid \<Rightarrow> int \<Rightarrow> (payment_intent \<Rightarrow> payment_intent) \<Rightarrow> payment_attempt \<Rightarrow> provider_transaction \<Rightarrow> db \<Rightarrow> bool" where
  "ask_ok i n f a r d \<longleftrightarrow>
     (\<forall>e \<in> set (attempts d). pa_id e \<noteq> pa_id a) \<and> (\<forall>e \<in> set (provider_transactions d). pt_id e \<noteq> pt_id r) \<and>
     pa_payment_intent_id a = i \<and> pa_attempt_number a = n \<and> pt_payment_attempt_id r = pa_id a \<and>
     pa_status a \<noteq> PA_SUCCEEDED \<and> keeps_terms f \<and>
     (\<forall>e \<in> set (provider_transactions d). pt_payment_attempt_id e \<noteq> pa_id a) \<and>
     (pa_status a = PA_TIMEOUT \<longrightarrow> pa_provider_request_id a = None \<and> pt_provider_transaction_id r = None) \<and>
     (\<forall>x. find_row pi_id i (intents d) = Some x \<longrightarrow> pi_status x = PI_PROCESSING \<longrightarrow>
        pi_status (f x) = PI_PROCESSING \<or> pi_status (f x) = PI_FAILED \<and> pa_status a = PA_FAILED)"

lemma keeps_terms_id [simp]: "keeps_terms (\<lambda>x. x)"
  by (simp add: keeps_terms_def same_terms_def)

text \<open>The moves that the branches make with it.\<close>

definition safe_move :: "uuid \<Rightarrow> payment_attempt \<Rightarrow> unit act \<Rightarrow> bool" where
  "safe_move i a move \<longleftrightarrow>
     move = ret () \<or> (\<exists>c from to actor. move = move_if c from i to actor \<and>
       (from = PI_PENDING \<or> from = PI_PROCESSING \<and> to = PI_FAILED \<and> pa_status a = PA_FAILED))"

lemma safe_move_simps [simp]:
  "safe_move i a (ret ())" "safe_move i a (move_if c PI_PENDING i st actor)"
  "pa_status a = PA_FAILED \<Longrightarrow> safe_move i a (move_if c PI_PROCESSING i PI_FAILED actor)"
  unfolding safe_move_def by blast+

lemma wp_store_attempt:
  assumes x: "find_row pi_id i (intents (objs s)) = Some x" "pi_status x = PI_PROCESSING"
    and ok: "\<And>f d' u. d' = asked i f a r (objs s) \<Longrightarrow> ask_ok i n f a r (objs s) \<Longrightarrow> Q a (saved d' (next_uuid s) s)"
    and no: "\<And>e t. durable t = durable s \<Longrightarrow> R e t"
    and a: "pa_payment_intent_id a = i" "pa_attempt_number a = n" "pt_payment_attempt_id r = pa_id a"
      "pa_status a \<noteq> PA_SUCCEEDED" "pa_status a = PA_TIMEOUT \<longrightarrow> pa_provider_request_id a = None \<and> pt_provider_transaction_id r = None"
    and move: "safe_move i a move"
  shows "wp (store_attempt a r move) Q R s"
  unfolding store_attempt_def wp_bind
proof (rule wp_insert_attempt, goal_cases)
  case 1
  show ?case
  proof (rule wp_insert_transaction, goal_cases)
    case fresh: 1
    have ok': "ask_ok i n (\<lambda>x. x) a r (objs s)" "pa_status a = PA_FAILED \<Longrightarrow> ask_ok i n (moved PI_FAILED src u) a r (objs s)" for src u
      using 1 fresh x a by (simp_all add: ask_ok_def)
    from move show ?case
      unfolding safe_move_def
    proof (elim disjE exE conjE, goal_cases)
      case 1
      then show ?case using ok [OF refl ok'(1)] by (simp add: wp asked_same saved_def)
    next
      case (2 c "from" to actor)
      then show ?case using ok [OF refl ok'(1)] x by (simp add: wp move_if_def asked_same saved_def)
    next
      case (3 c "from" to actor)
      then show ?case using ok [OF refl ok'(1)] ok [OF refl ok'(2)] x
        by (simp add: wp move_if_def asked_same saved_def) (simp add: asked_def)
    qed
  qed (simp add: no)
qed (simp add: no)


lemma wp_prompt_phone:
  assumes "\<And>p. Q p s" and "\<And>e. R e s"
  shows "wp (prompt_phone x) Q R s"
  using assms by (simp add: prompt_phone_def wp split: option.split list.split)

lemma wp_callback_url:
  assumes "\<And>u. Q u s"
  shows "wp (callback_url gw c) Q R s"
  using assms by (simp add: callback_url_def wp)

lemma wp_create_attempt:
  assumes flushed: "rows s = objs s"
    and x: "find_row pi_id i (intents (objs s)) = Some x" "pi_status x = PI_PROCESSING"
    and ok: "\<And>a f r u. ask_ok i n f a r (objs s) \<Longrightarrow> Q a (saved (asked i f a r (objs s)) u s)"
    and no: "\<And>e t. durable t = durable s \<Longrightarrow> R e t"
  shows "wp (create_attempt gw i c sh ctx n actor) Q R s"
proof -
  have s': "sync s = s" by (rule sync_flushed) (rule flushed)
  show ?thesis
    unfolding create_attempt_def Let_def wp_bind wp_reload_intent x option.case
  proof (rule wp_unique_client_reference, simp add: s' flushed, rule wp_prompt_phone, rule wp_callback_url, goal_cases)
    case (1 ref phone url)
    let ?s = "s\<lparr>next_uuid := Suc (Suc (next_uuid s))\<rparr>"
    have store: "wp (store_attempt a r move) Q R ?s"
      if "pa_payment_intent_id a = i" "pa_attempt_number a = n" "pt_payment_attempt_id r = pa_id a"
        "pa_status a \<noteq> PA_SUCCEEDED" "pa_status a = PA_TIMEOUT \<longrightarrow> pa_provider_request_id a = None \<and> pt_provider_transaction_id r = None"
        "safe_move i a move" for a r move
      by (rule wp_store_attempt [where n = n and i = i and x = x]) (use that x ok in \<open>simp_all add: no\<close>)
    show ?case
      unfolding s' wp_uuid4 wp_registry_get wp_asks wp_bind
      by (auto simp: no wp_case_sum wp_if wp_raise blank_transaction_def split: option.split sum.split err.split intro!: store)
  qed (simp add: no s')
qed


section \<open>Resolving the last attempt\<close>

text \<open>The provider's transaction of an attempt, written or rewritten.\<close>

lemma wp_assign_transaction:
  assumes f: "\<And>t. pt_id (f t) = pt_id t" "\<And>t. pt_payment_attempt_id (f t) = pt_payment_attempt_id t"
    and ids: "distinct (map pt_id (provider_transactions (objs s)))"
    and flushed: "provider_transactions (rows s) = provider_transactions (objs s)"
    and ok: "\<And>t ts. durable t = durable s \<Longrightarrow> objs t = (objs s)\<lparr>provider_transactions := ts\<rparr> \<Longrightarrow>
      distinct (map pt_id ts) \<Longrightarrow> (\<And>k. k \<noteq> aid \<Longrightarrow> traced (objs t) k = traced (objs s) k) \<Longrightarrow>
      cfg t = cfg s \<Longrightarrow> Q () t"
    and no: "\<And>e t. durable t = durable s \<Longrightarrow> R e t"
  shows "wp (assign_transaction aid cid f) Q R s"
proof -
  let ?P = "\<lambda>t. pt_payment_attempt_id t = aid"
  have ents: "entities provider_transactions ?P (rows (sync s)) (objs s) = filter ?P (provider_transactions (objs s))"
    by (rule entities_flushed) (simp add: rows_sync flushed)
  show ?thesis
  proof (cases "first (filter ?P (provider_transactions (objs s)))")
    case None
    have "wp (insert_transaction (f (blank_transaction (next_uuid s) aid cid))) Q R ((sync s)\<lparr>next_uuid := Suc (next_uuid s)\<rparr>)"
    proof (rule wp_insert_transaction, goal_cases)
      case 1
      then have "next_uuid s \<notin> pt_id ` set (provider_transactions (objs s))"
        by (auto simp: f blank_transaction_def)
      then show ?case
        by (intro ok) (auto simp: ids f traced_def blank_transaction_def)
    qed (simp add: no)
    then show ?thesis using None ents by (simp add: assign_transaction_def get_transaction_by_attempt_def wp)
  next
    case (Some t)
    then have t: "t \<in> set (provider_transactions (objs s))" "?P t" by (auto dest: first_filter_SomeD)
    have other: "pt_payment_attempt_id u = aid" if "u \<in> set (provider_transactions (objs s))" "pt_id u = pt_id t" for u
      using ids t that by (auto simp: distinct_map inj_on_def)
    let ?ts = "upd_row pt_id (pt_id t) f (provider_transactions (objs s))"
    have up: "provider_transactions_update (upd_row pt_id (pt_id t) f) (objs s) = (objs s)\<lparr>provider_transactions := ?ts\<rparr>"
      by simp
    have "Q () ((sync s)\<lparr>objs := (objs s)\<lparr>provider_transactions := ?ts\<rparr>\<rparr>)"
    proof (rule ok)
      show "distinct (map pt_id ?ts)" using ids by (simp add: map_key_upd_row f)
      show "traced (objs ((sync s)\<lparr>objs := (objs s)\<lparr>provider_transactions := ?ts\<rparr>\<rparr>)) k = traced (objs s) k" if "k \<noteq> aid" for k
        using other that by (fastforce simp: traced_def set_upd_row f)
    qed simp_all
    then show ?thesis using Some ents
      by (auto simp: assign_transaction_def get_transaction_by_attempt_def wp no up split: option.split)
  qed
qed

definition succeeded :: "int \<Rightarrow> payment_attempt \<Rightarrow> payment_attempt" where
  "succeeded now a = a\<lparr>pa_status := PA_SUCCEEDED, pa_completed_at := Some now, pa_last_transition_source := SRC_STATUS_QUERY\<rparr>"

definition declined :: "int \<Rightarrow> string option \<Rightarrow> string option \<Rightarrow> payment_attempt \<Rightarrow> payment_attempt" where
  "declined now code message a =
     a\<lparr>pa_status := PA_FAILED, pa_completed_at := Some now, pa_failure_code := code,
       pa_failure_message_safe := message, pa_retryable := (\<not> is_permanent code),
       pa_last_transition_source := SRC_STATUS_QUERY\<rparr>"

lemma outcome_simps [simp]:
  "keeps_try (succeeded now)" "keeps_try (declined now code message)"
  "pa_status (succeeded now a) = PA_SUCCEEDED" "pa_status (declined now code message a) = PA_FAILED"
  "pa_id (succeeded now a) = pa_id a" "pa_id (declined now code message a) = pa_id a"
  "pa_payment_intent_id (succeeded now a) = pa_payment_intent_id a"
  by (simp_all add: succeeded_def declined_def keeps_try_def)

lemma outcome_fun:
  "succeeded now = (\<lambda>a. a\<lparr>pa_status := PA_SUCCEEDED, pa_completed_at := Some now, pa_last_transition_source := SRC_STATUS_QUERY\<rparr>)"
  "declined now code message = (\<lambda>a. a\<lparr>pa_status := PA_FAILED, pa_completed_at := Some now, pa_failure_code := code,
       pa_failure_message_safe := message, pa_retryable := (\<not> is_permanent code),
       pa_last_transition_source := SRC_STATUS_QUERY\<rparr>)"
  by (simp_all add: fun_eq_iff succeeded_def declined_def)

lemma wp_settle_then_commit:
  assumes ok: "\<And>t. clean t \<Longrightarrow> pay_same (objs s) (objs t) \<Longrightarrow> grows (pay_same (objs s)) s t \<Longrightarrow> Q () t"
    and no: "\<And>e t. durable t = durable s \<Longrightarrow> R e t"
  shows "wp (bind (if pi_contribution_id x \<noteq> None
           then settle_linked_contribution (pi_contribution_id x) mid cid else ret False) (\<lambda>_. commit)) Q R s"
proof -
  have done': "Q () (t\<lparr>rows := objs t, durable := objs t # durable t\<rparr>)"
    if "pay_same (objs s) (objs t)" "grows (pay_same (objs s)) s t" for t
  proof (rule ok)
    show "grows (pay_same (objs s)) s (t\<lparr>rows := objs t, durable := objs t # durable t\<rparr>)"
      by (rule grows_Cons [of _ "objs t" t]) (use that in simp_all)
  qed (use that in \<open>simp_all add: clean_def del: sess_update_order\<close>)
  show ?thesis
    by (auto simp: wp_bind wp_commit wp_ret no simp del: sess_update_order intro!: wp_settle_linked_any done')
qed

lemma wp_resolve_success:
  assumes a: "find_row pa_id aid (attempts (objs s)) = Some a"
    and x: "find_row pi_id (pa_payment_intent_id a) (intents (objs s)) = Some x" "pi_status x = PI_PROCESSING"
    and ok: "\<And>t e. intents e = upd_row pi_id (pa_payment_intent_id a) (moved PI_SUCCEEDED SRC_STATUS_QUERY None) (intents (objs s)) \<Longrightarrow>
      attempts e = upd_row pa_id aid (succeeded (utc_now s)) (attempts (objs s)) \<Longrightarrow>
      provider_transactions e = provider_transactions (objs s) \<Longrightarrow>
      clean t \<Longrightarrow> grows (pay_same e) s t \<Longrightarrow> pay_same e (objs t) \<Longrightarrow> Q () t"
    and no: "\<And>e t. durable t = durable s \<Longrightarrow> R e t"
  shows "wp (resolve_attempt_success aid) Q R s"
proof -
  let ?e = "intents_update (upd_row pi_id (pa_payment_intent_id a) (moved PI_SUCCEEDED SRC_STATUS_QUERY None))
    (attempts_update (upd_row pa_id aid (succeeded (utc_now s))) (objs s))"
  have key: "pi_id x = pa_payment_intent_id a" using find_row_key [OF x(1)] .
  have tail: "wp (if pi_contribution_id x \<noteq> None
        then settle_linked_contribution (pi_contribution_id x) (pi_membership_id x) (pi_chama_id x) else ret False)
      (\<lambda>_. wp commit Q R) R (s\<lparr>objs := ?e\<rparr>)"
    unfolding wp_bind [symmetric]
    by (rule wp_settle_then_commit) (auto intro!: ok [of ?e] no elim: grows_from)
  show ?thesis
    unfolding resolve_attempt_success_def outcome_fun(1) [symmetric] wp_bind wp_asks wp_set_attempt wp_reload_attempt
    using tail by (simp add: find_upd_row a x key wp)
qed

lemma upd_row_same [simp]: "upd_row key k (\<lambda>x. x) xs = xs"
  by (simp add: upd_row_def)

text \<open>The end of the last attempt, as the database has it.\<close>

lemma step_succeeds:
  assumes inv: "pay_inv most d" and x: "find_row pi_id i (intents d) = Some x" and as: "attempts_of d i = as @ [a]"
    and a: "open_attempt a" "\<not> stranded d i" and g: "keeps_try g" "pa_status (g a) = PA_SUCCEEDED"
    and e: "intents e = upd_row pi_id i (moved PI_SUCCEEDED src u) (intents d)"
      "attempts e = upd_row pa_id (pa_id a) g (attempts d)"
      "distinct (map pt_id (provider_transactions e))" "\<And>k. k \<noteq> pa_id a \<Longrightarrow> traced e k = traced d k"
  shows "pay_step most d e" "attempts_of e i = as @ [g a]"
proof -
  note D = pay_invD [OF inv]
  have proc: "pi_status x = PI_PROCESSING"
    by (rule open_processing(1) [of most x as a]) (use D(4) [OF x] as a in simp_all)
  show "pay_step most d e"
    by (rule step_last [where f = "moved PI_SUCCEEDED src u", OF inv x as _ g(1) e]) (use proc a g in auto)
  show "attempts_of e i = as @ [g a]"
    using attempts_of_update [OF D(2) as e(2), of i] g(1) by (simp add: keeps_try_def)
qed

lemma step_declines:
  assumes inv: "pay_inv most d" and x: "find_row pi_id i (intents d) = Some x" and as: "attempts_of d i = as @ [a]"
    and a: "open_attempt a" "\<not> stranded d i" and g: "keeps_try g" "pa_status (g a) = PA_FAILED"
    and f: "keeps_terms f" "pi_status (f x) = PI_PROCESSING \<or> pi_status (f x) = PI_FAILED"
    and e: "intents e = upd_row pi_id i f (intents d)"
      "attempts e = upd_row pa_id (pa_id a) g (attempts d)"
      "distinct (map pt_id (provider_transactions e))" "\<And>k. k \<noteq> pa_id a \<Longrightarrow> traced e k = traced d k"
  shows "pay_step most d e" "attempts_of e i = as @ [g a]"
proof -
  note D = pay_invD [OF inv]
  have proc: "pi_status x = PI_PROCESSING"
    by (rule open_processing(1) [of most x as a]) (use D(4) [OF x] as a in simp_all)
  show "pay_step most d e"
    by (rule step_last [OF inv x as f(1) g(1) e]) (use proc a g f in auto)
  show "attempts_of e i = as @ [g a]"
    using attempts_of_update [OF D(2) as e(2), of i] g(1) by (simp add: keeps_try_def)
qed

lemma attempt_row:
  assumes "pay_inv most d" and "a \<in> set (attempts d)"
  shows "find_row pa_id (pa_id a) (attempts d) = Some a"
  using find_row_unique [of pa_id "attempts d" a] pay_invD(2) [OF assms(1)] assms(2) by simp

lemma wp_query_and_resolve:
  assumes clean: "clean s" and inv: "pay_inv most (objs s)"
    and x: "find_row pi_id i (intents (objs s)) = Some x" and as: "attempts_of (objs s) i = as @ [a]" and a: "open_attempt a"
    and resolved: "\<And>t a'. clean t \<Longrightarrow> grows (pay_step most (objs s)) s t \<Longrightarrow> pay_step most (objs s) (objs t) \<Longrightarrow>
      attempts_of (objs t) i = as @ [a'] \<Longrightarrow> pa_id a' = pa_id a \<Longrightarrow>
      pa_status a' = PA_SUCCEEDED \<or> pa_status a' = PA_FAILED \<and> find_row pi_id i (intents (objs t)) = Some x \<and> cfg t = cfg s \<Longrightarrow>
      Q True t"
    and unresolved: "\<And>t. durable t = durable s \<Longrightarrow> Q False t"
    and no: "\<And>e t. durable t = durable s \<Longrightarrow> R e t"
  shows "wp (query_and_resolve gw a c sh ctx) Q R s"
proof (cases "\<exists>b bs. pa_provider_request_id a = Some (b # bs)")
  case False
  then show ?thesis by (auto simp: query_and_resolve_def wp unresolved split: option.split list.split)
next
  case True
  then obtain b bs where ref: "pa_provider_request_id a = Some (b # bs)" by blast
  note D = pay_invD [OF inv]
  have mem: "a \<in> set (attempts (objs s))" "pa_payment_intent_id a = i" using attempt_in [OF as] by auto
  have row: "find_row pa_id (pa_id a) (attempts (objs s)) = Some a" by (rule attempt_row [OF inv mem(1)])
  have free: "\<not> stranded (objs s) i" using ref as by (auto simp: stranded_def)
  have proc: "pi_status x = PI_PROCESSING"
    by (rule open_processing(1) [of most x as a]) (use D(4) [OF x] as a in simp_all)
  have noted: "wp (note_transaction (pa_id a) cid f) (\<lambda>_. Q False) R s" for cid f
    by (simp add: note_transaction_def get_transaction_by_attempt_def wp unresolved split: option.split)
  have core: "wp (bind (assign_transaction (pa_id a) cid f) (\<lambda>_.
      if yes then bind (resolve_attempt_success (pa_id a)) (\<lambda>_. ret True)
      else bind (resolve_attempt_failure (pa_id a) code m) (\<lambda>_. ret True))) Q R s"
    if f: "\<And>t. pt_id (f t) = pt_id t" "\<And>t. pt_payment_attempt_id (f t) = pt_payment_attempt_id t"
    for cid f yes code m
    unfolding wp_bind
  proof (rule wp_assign_transaction [OF f D(3)], simp add: clean, goal_cases)
    case (1 t ts)
    have ts: "distinct (map pt_id (provider_transactions (objs t)))" "attempts (objs t) = attempts (objs s)"
      "intents (objs t) = intents (objs s)" using 1 by simp_all
    have good: "wp (resolve_attempt_success (pa_id a)) (\<lambda>_. Q True) R t"
    proof (rule wp_resolve_success [where a = a and x = x], goal_cases)
      case (4 t' e)
      have e: "pay_step most (objs s) e" "attempts_of e i = as @ [succeeded (utc_now t) a]"
        by (rule step_succeeds [OF inv x as a free]; use 1 4 mem ts in \<open>simp add: traced_def\<close>)+
      show ?case
        by (rule resolved [where a' = "succeeded (utc_now t) a", OF 4(4) grows_from [OF grows_pay_same [OF e(1) 4(5)] 1(1)]])
          (use 4 e pay_same_cong [OF 4(6)] in simp_all)
    qed (use row ts mem x proc 1 no in simp_all)
    have bad: "wp (resolve_attempt_failure (pa_id a) code m) (\<lambda>_. Q True) R t" for code m
    proof -
      let ?e = "attempts_update (upd_row pa_id (pa_id a) (declined (utc_now t) code m)) (objs t)"
      have e: "pay_step most (objs s) ?e" "attempts_of ?e i = as @ [declined (utc_now t) code m a]"
        by (rule step_declines [OF inv x as a free, where f = "\<lambda>x. x"]; use 1 ts proc in \<open>simp add: traced_def\<close>)+
      have "Q True (t\<lparr>objs := ?e, rows := ?e, durable := ?e # durable t\<rparr>)"
      proof (rule resolved [where a' = "declined (utc_now t) code m a"])
        show "grows (pay_step most (objs s)) s (t\<lparr>objs := ?e, rows := ?e, durable := ?e # durable t\<rparr>)"
          by (rule grows_Cons [of _ ?e t]) (use e(1) 1(1) in simp_all)
      qed (use e x ts 1 in \<open>simp_all add: clean_def del: sess_update_order\<close>)
      then show ?thesis by (simp add: resolve_attempt_failure_def outcome_fun(2) [symmetric] wp)
    qed
    show ?case using good bad unresolved 1(1) by (simp add: wp)
  next
    case (2 e t)
    then show ?case by (rule no)
  qed
  show ?thesis
    unfolding query_and_resolve_def ref option.case list.case wp_bind wp_registry_get wp_asks
    using core [where yes = True and f = "queried now r" for now r] core [where yes = False and f = "queried now r" for now r]
    by (simp add: no wp unresolved noted queried_def split: option.split sum.split err.split)
qed

section \<open>Initiation\<close>

text \<open>Every database that a program commits is a step from where the session started.\<close>

abbreviation steps :: "int \<Rightarrow> sess \<Rightarrow> 'a act \<Rightarrow> bool" where
  "steps most s m \<equiv> wp m (\<lambda>_ t. grows (pay_step most (objs s)) s t) (\<lambda>_ t. grows (pay_step most (objs s)) s t) s"

lemma grows_commit:
  "P d \<Longrightarrow> grows P s t \<Longrightarrow> grows P s (t\<lparr>objs := d, rows := d, durable := d # durable t\<rparr>)"
  by (rule grows_Cons [of _ d t]) simp_all

lemma clean_commit: "clean (t\<lparr>objs := d, rows := d, durable := d # ds\<rparr>)"
  by (simp add: clean_def)

lemma clean_history: "clean s \<Longrightarrow> durable s \<noteq> []"
  unfolding clean_def by blast

lemma clean_rolled: "durable u \<noteq> [] \<Longrightarrow> clean (u\<lparr>objs := hd (durable u), rows := hd (durable u)\<rparr>)"
  by (simp add: clean_def del: clean_sync_simps)

lemma ask_step:
  assumes inv: "pay_inv most d" and x: "find_row pi_id i (intents d) = Some x" and ask: "may_ask most x (attempts_of d i)"
    and ok: "ask_ok i (int (length (attempts_of d i)) + 1) f a r d'" and f: "pi_status (f x') = PI_PROCESSING \<or> pi_status (f x') = PI_FAILED \<and> pa_status a = PA_FAILED"
    and d': "attempts d' = attempts d" "provider_transactions d' = provider_transactions d" "intents d' = upd_row pi_id i h (intents d)"
      "keeps_terms h" "x' = h x"
  shows "pay_step most d (asked i f a r d')"
proof (rule step_attempt [where f = "\<lambda>x. f (h x)" and a = a and t = r, OF inv x ask])
  have fh: "keeps_terms f" "\<And>x. pi_id (h x) = pi_id x" using ok d'(4) by (simp_all add: ask_ok_def keeps_terms_def)
  show "keeps_terms (\<lambda>x. f (h x))" using fh(1) d'(4) by (auto simp: keeps_terms_def same_terms_def)
  show "intents (asked i f a r d') = upd_row pi_id i (\<lambda>x. f (h x)) (intents d)"
    using d'(3) fh(2) by (simp add: upd_row_upd_row)
  show "pi_status (f (h x)) = PI_PROCESSING \<or> pi_status (f (h x)) = PI_FAILED \<and> pa_status a = PA_FAILED" using f d'(5) by simp
qed (use ok d' in \<open>auto simp: ask_ok_def\<close>)

lemma wp_retry_failed:
  assumes clean: "clean s" and inv: "pay_inv most (objs s)" and most: "max_attempt_numbers (cfg s) = most"
    and x: "find_row pi_id i (intents (objs s)) = Some x" "pi_status x = PI_PROCESSING"
    and as: "attempts_of (objs s) i = as @ [a]" "pa_status a = PA_FAILED"
  shows "steps most s (retry_failed gw i c sh ctx a actor)"
proof -
  note D = pay_invD [OF inv]
  have cok: "collection_ok most x (as @ [a])" using D(4) [OF x(1)] as by simp
  have num: "pa_attempt_number a = int (length as) + 1"
  proof -
    have "map pa_attempt_number (as @ [a]) = [1..int (length (as @ [a]))]" using cok by (simp add: collection_ok_def)
    moreover have "[1..int (length (as @ [a]))] = [1..int (length as)] @ [int (length as) + 1]"
      using upto_rec2 [of 1 "int (length as) + 1"] by (simp add: add.commute)
    ultimately show ?thesis by simp
  qed
  have stop: "pay_step most (objs s) (intents_update (upd_row pi_id i (moved PI_FAILED src u)) (objs s))" for src u
    by (rule step_last [where f = "moved PI_FAILED src u" and g = "\<lambda>x. x", OF inv x(1) as(1)])
      (use x as D in \<open>simp_all add: keeps_try_def stranded_def traced_def\<close>)
  have "wp (give_up i actor m :: payment_attempt act) (\<lambda>_ t. grows (pay_step most (objs s)) s t) (\<lambda>_ t. grows (pay_step most (objs s)) s t) s" for m
    using x by (simp add: give_up_def wp) (rule grows_commit, rule stop, simp)
  moreover have "wp (create_attempt gw i c sh ctx (pa_attempt_number a + 1) actor)
      (\<lambda>_ t. grows (pay_step most (objs s)) s t) (\<lambda>_ t. grows (pay_step most (objs s)) s t) s"
    if "pa_attempt_number a < most"
  proof (rule wp_create_attempt [where x = x], goal_cases)
    case (4 a' f r u)
    have "may_ask most x (attempts_of (objs s) i)" using that x as num by (simp add: may_ask_def)
    then show ?case
      by (intro grows_saved ask_step [where h = "\<lambda>x. x", OF inv x(1)])
        (use 4 x num as in \<open>simp_all add: ask_ok_def\<close>)
  qed (use x clean in simp_all)
  ultimately show ?thesis by (simp add: retry_failed_def wp most)
qed

lemma steps_after:
  assumes "wp m (\<lambda>_ t. grows (pay_step most (objs u)) u t) (\<lambda>_ t. grows (pay_step most (objs u)) u t) u"
    and "pay_step most (objs s) (objs u)" and "grows (pay_step most (objs s)) s u"
    and "\<And>x t. grows (pay_step most (objs s)) s t \<Longrightarrow> Q x t" and "\<And>e t. grows (pay_step most (objs s)) s t \<Longrightarrow> R e t"
  shows "wp m Q R u"
proof -
  have "grows (pay_step most (objs s)) s t" if "grows (pay_step most (objs u)) u t" for t
    using that assms(2,3) pay_rel_trans [of most "objs s" "objs u"] unfolding grows_def by fastforce
  with assms show ?thesis by (auto intro: wp_mono)
qed

definition rejudged :: "payment_attempt \<Rightarrow> payment_attempt" where
  "rejudged a = a\<lparr>pa_retryable := (\<not> is_permanent (pa_failure_code a))\<rparr>"

lemma rejudged_simps [simp]:
  "keeps_try rejudged" "pa_status (rejudged a) = pa_status a" "pa_id (rejudged a) = pa_id a"
  by (simp_all add: rejudged_def keeps_try_def)

lemma rejudged_fun: "(\<lambda>a. a\<lparr>pa_retryable := (\<not> is_permanent (pa_failure_code a))\<rparr>) = rejudged"
  by (simp add: rejudged_def fun_eq_iff)

lemma wp_continue_attempts:
  assumes clean: "clean s" and inv: "pay_inv most (objs s)" and most: "max_attempt_numbers (cfg s) = most"
    and x: "find_row pi_id i (intents (objs s)) = Some x" "pi_status x \<noteq> PI_FAILED"
    and as: "attempts_of (objs s) i = as @ [a]"
  shows "steps most s (continue_attempts gw i c sh ctx a actor)"
proof -
  note D = pay_invD [OF inv]
  have cok: "collection_ok most x (as @ [a])" using D(4) [OF x(1)] as by simp
  have retry: "wp (bind (set_attempt (pa_id a) (\<lambda>a. a\<lparr>pa_retryable := (\<not> is_permanent (pa_failure_code a))\<rparr>)) (\<lambda>_.
      bind commit (\<lambda>_. bind (reload_attempt (pa_id a)) (\<lambda>latest. retry_failed gw i c sh ctx latest actor))))
      (\<lambda>_ t. grows (pay_step most (objs s)) s t) (\<lambda>_ t. grows (pay_step most (objs s)) s t) t"
    if t: "clean t" "grows (pay_step most (objs s)) s t" "pay_step most (objs s) (objs t)" "attempts_of (objs t) i = as @ [a']"
      "pa_id a' = pa_id a" "pa_status a' = PA_FAILED" "find_row pi_id i (intents (objs t)) = Some x" "cfg t = cfg s"
      "pi_status x = PI_PROCESSING" for t a'
  proof -
    let ?e = "attempts_update (upd_row pa_id (pa_id a) rejudged) (objs t)"
    let ?t = "t\<lparr>objs := ?e, rows := ?e, durable := ?e # durable t\<rparr>"
    have inv': "pay_inv most (objs t)" using t(3) by simp
    have e: "pay_step most (objs t) ?e"
      by (rule step_last [where f = "\<lambda>x. x" and g = rejudged, OF inv' t(7,4)])
        (use t pay_invD(3) [OF inv'] in \<open>simp_all add: stranded_def traced_def\<close>)
    have tries: "attempts_of ?e i = as @ [rejudged a']"
      using attempts_of_update [OF pay_invD(2) [OF inv'] t(4), of ?e rejudged i] t(5) by (simp add: rejudged_def)
    have row: "find_row pa_id (pa_id a) (attempts ?e) = Some (rejudged a')"
      using attempt_row [of most ?e "rejudged a'"] e attempt_in(1) [OF tries] t(5) by simp
    have "steps most ?t (retry_failed gw i c sh ctx (rejudged a') actor)"
      by (rule wp_retry_failed [where x = x and as = as, OF clean_commit])
        (use t(6-9) e most tries in simp_all)
    then have "wp (retry_failed gw i c sh ctx (rejudged a') actor)
        (\<lambda>_ t. grows (pay_step most (objs s)) s t) (\<lambda>_ t. grows (pay_step most (objs s)) s t) ?t"
    proof (rule steps_after)
      show step: "pay_step most (objs s) (objs ?t)" using t(3) e pay_rel_trans by auto
      show "grows (pay_step most (objs s)) s ?t" by (rule grows_Cons [OF _ t(2)]) (use step in simp_all)
    qed simp_all
    then show ?thesis using row by (simp add: wp rejudged_fun)
  qed
  have reload: "wp (reload_attempt k) (\<lambda>_ t. grows (pay_step most (objs s)) s t) (\<lambda>_ t. grows (pay_step most (objs s)) s t) t"
    if "grows (pay_step most (objs s)) s t" for t k using that by (simp add: wp split: option.split)
  consider "pa_status a = PA_SUCCEEDED" | "open_attempt a" | "pa_status a = PA_FAILED"
    unfolding open_attempt_def by (cases "pa_status a") auto
  then show ?thesis
  proof cases
    case 1
    then show ?thesis by (simp add: continue_attempts_def wp)
  next
    case 2
    have proc: "pi_status x = PI_PROCESSING" by (rule open_processing(1) [OF cok 2])
    have "pa_status a \<noteq> PA_SUCCEEDED" "pa_status a \<in> {PA_INITIATED, PA_TIMEOUT, PA_UNKNOWN}"
      using 2 by (auto simp: open_attempt_def)
    then have cont: "continue_attempts gw i c sh ctx a actor = bind (query_and_resolve gw a c sh ctx) (\<lambda>resolved.
        if \<not> resolved then reload_attempt (pa_id a)
        else bind (reload_attempt (pa_id a)) (\<lambda>latest.
          if pa_status latest = PA_SUCCEEDED then ret latest
          else bind (set_attempt (pa_id latest) (\<lambda>a. a\<lparr>pa_retryable := (\<not> is_permanent (pa_failure_code a))\<rparr>)) (\<lambda>_.
            bind commit (\<lambda>_. bind (reload_attempt (pa_id latest)) (\<lambda>latest.
            retry_failed gw i c sh ctx latest actor)))))"
      by (simp add: continue_attempts_def)
    show ?thesis
      unfolding cont wp_bind [of "query_and_resolve gw a c sh ctx"]
    proof (rule wp_query_and_resolve [OF clean inv x(1) as 2], goal_cases)
      case (1 t a')
      have "find_row pa_id (pa_id a) (attempts (objs t)) = Some a'"
        using attempt_row [of most "objs t" a'] 1(3,5) attempt_in(1) [OF 1(4)] by simp
      then have row: "wp (bind (reload_attempt (pa_id a)) f) Q R t = wp (f a') Q R t" for f :: "payment_attempt \<Rightarrow> payment_attempt act" and Q R
        by (simp add: wp_bind wp_reload_attempt)
      show ?case
      proof (cases "pa_status a' = PA_SUCCEEDED")
        case True
        with 1(2) show ?thesis by (simp add: row wp_ret)
      next
        case False
        then have "pa_status a' = PA_FAILED" "find_row pi_id i (intents (objs t)) = Some x" "cfg t = cfg s" using 1(6) by blast+
        with retry [OF 1(1-5) _ _ _ proc] False show ?thesis by (simp only: row 1(5) if_False not_True_eq_False)
      qed
    qed (simp_all add: reload)
  next
    case 3
    have proc: "pi_status x = PI_PROCESSING"
      using cok x(2) 3 by (cases "pi_status x") (auto simp: collection_ok_def)
    show ?thesis using wp_retry_failed [OF clean inv most x(1) proc as 3] 3 by (simp add: continue_attempts_def)
  qed
qed

lemma find_first_chama:
  "first (filter (\<lambda>i. pi_id i = k \<and> P i) xs) = Some x \<Longrightarrow> distinct (map pi_id xs) \<Longrightarrow> find_row pi_id k xs = Some x"
  using find_row_unique [of pi_id xs x] by (auto dest!: first_filter_SomeD)

lemma wp_begin_attempts:
  assumes clean: "clean s" and inv: "pay_inv most (objs s)"
    and x: "find_row pi_id i (intents (objs s)) = Some x" and none: "attempts_of (objs s) i = []"
  shows "steps most s (bind (transition_intent i PI_PROCESSING SRC_CLIENT u) (\<lambda>_. bind commit (\<lambda>_.
    create_attempt gw i c sh ctx 1 actor)))"
proof (cases "pi_status x = PI_PENDING")
  case False
  then show ?thesis using x by (cases "pi_status x") (simp_all add: wp)
next
  case True
  let ?f = "moved PI_PROCESSING SRC_CLIENT u"
  let ?e = "intents_update (upd_row pi_id i ?f) (objs s)"
  let ?t = "s\<lparr>objs := ?e, rows := ?e, durable := ?e # durable s\<rparr>"
  have start: "pay_step most (objs s) ?e"
    by (rule step_start [where f = ?f, OF inv x True]) simp_all
  have grown: "grows (pay_step most (objs s)) s ?t" by (rule grows_commit, rule start, simp)
  have "wp (create_attempt gw i c sh ctx 1 actor) (\<lambda>_ t. grows (pay_step most (objs s)) s t)
    (\<lambda>_ t. grows (pay_step most (objs s)) s t) ?t"
  proof (rule wp_create_attempt [where x = "?f x"], goal_cases)
    case (4 a f r k)
    have "may_ask most x (attempts_of (objs s) i)" using True none by (simp add: may_ask_def)
    then have "pay_step most (objs s) (asked i f a r ?e)"
      by (rule ask_step [where h = ?f and x' = "?f x", OF inv x])
        (use 4 x none in \<open>simp_all add: ask_ok_def find_upd_row\<close>)
    then show ?case by (intro grows_saved_on [OF grown]) simp
  next
    case (5 e t)
    then show ?case using grown by (auto simp: grows_def)
  qed (use x in \<open>simp_all add: find_upd_row\<close>)
  then show ?thesis using x True by (simp add: wp)
qed

lemma wp_initiate:
  assumes clean: "clean s" and inv: "pay_inv (max_attempt_numbers (cfg s)) (objs s)"
  shows "steps (max_attempt_numbers (cfg s)) s (initiate gw allowed actor cid iid conn)"
proof -
  let ?most = "max_attempt_numbers (cfg s)"
  let ?K = "\<lambda>t. grows (pay_step ?most (objs s)) s t"
  have main: "steps ?most s (if as = []
      then bind (transition_intent i PI_PROCESSING SRC_CLIENT u) (\<lambda>_. bind commit (\<lambda>_. create_attempt gw i c sh ctx 1 actor))
      else continue_attempts gw i c sh ctx (last as) actor)"
    if "find_row pi_id i (intents (objs s)) = Some x" "pi_status x \<noteq> PI_FAILED" "as = sort_key pa_attempt_number (attempts_of (objs s) i)"
    for i x as u c sh ctx
  proof -
    have as: "as = attempts_of (objs s) i" using attempts_numbered [OF inv that(1)] that(3) by simp
    show ?thesis
    proof (cases "as = []")
      case True
      then show ?thesis using wp_begin_attempts [OF clean inv that(1)] as by simp
    next
      case False
      then show ?thesis using wp_continue_attempts [OF clean inv refl that(1,2), of "butlast as" "last as"] as by simp
    qed
  qed
  have chosen: "wp (active_connection gw k c) Q (\<lambda>_. ?K) s" if "\<And>x. Q x s" for k c Q
    using that by (simp add: active_connection_def get_connection_in_chama_def wp clean split: option.split)
  have opened: "wp (shaped_credentials gw c k) Q (\<lambda>_. ?K) s" if "\<And>x. Q x s" for k c Q
    using that by (simp add: shaped_credentials_def wp clean split: option.split sum.split)
  have limit: "wp (check_initiate_rate_limit allowed) Q (\<lambda>_. ?K) s" if "Q () s" for Q
    using that by (simp add: check_initiate_rate_limit_def wp)
  have target: "wp (get_target_membership k j) Q (\<lambda>_. ?K) s" if "\<And>x. Q x s" for k j Q
    using that by (simp add: wp split: option.split)
  have ensured: "wp (ensure b e) Q (\<lambda>_. ?K) s" if "Q () s" for b e Q
    using that by (simp add: wp)
  have last: "wp (last_attempt x) Q (\<lambda>_. ?K) s" if "\<And>x. Q x s" for x Q
    using that by (simp add: last_attempt_def wp_bind wp_list_for_intent clean wp_ret)
  show ?thesis
    unfolding initiate_def wp_bind [of "intent_chama _ _"] wp_bind [of "get_intent_in_chama _ _"]
  proof (rule wp_intent_chama [OF clean], goal_cases)
    case (1 c m)
    show ?case
    proof (simp add: get_intent_in_chama_def wp_select_first clean, cases "first (filter (\<lambda>i. pi_id i = iid \<and> pi_chama_id i = ch_id c) (intents (objs s)))", goal_cases)
      case 1
      then show ?case by (simp add: wp_raise)
    next
      case (2 x)
      have x: "find_row pi_id (pi_id x) (intents (objs s)) = Some x"
        using find_first_chama [OF 2 pay_invD(1) [OF inv]] find_row_key by metis
      show ?case
        unfolding 2 option.case wp_bind [of "authorize_chama_write _ _"]
      proof (rule wp_write_again [OF clean], goal_cases)
        case (1 m)
        show ?case
        proof (cases "pi_status x = PI_SUCCEEDED")
          case True
          then show ?thesis
            by (simp add: wp_bind wp_require_own_or_leadership wp_ensure clean)
              (auto intro!: last simp: wp_ret wp_raise split: option.split)
        next
          case False
          then show ?thesis
            by (simp add: wp_bind [of "require_own_or_leadership _ _ _"] wp_bind [of "ensure _ _"] wp_require_own_or_leadership wp_ensure clean)
              (auto simp: wp_bind [of "active_connection _ _ _"] wp_bind [of "check_initiate_rate_limit _"]
                  wp_bind [of "get_target_membership _ _"] wp_bind [of "ensure _ _"] wp_bind [of "shaped_credentials _ _ _"]
                  wp_bind [of "list_for_intent _"] wp_list_for_intent clean Let_def
                simp del: list.case split del: if_split
                intro!: chosen limit target ensured opened main [OF x])
        qed
      qed simp
    qed
  qed simp
qed

section \<open>Creation and repair\<close>

lemma wp_repair_intents:
  assumes "pay_step most d (objs t)" and "attempts (rows t) = attempts (objs t)" and "durable t = ds"
  shows "wp (repair_intents is) (\<lambda>_ u. pay_rel most d (objs u) \<and> pay_inv most (objs u) \<and> durable u = ds) (\<lambda>_ u. durable u = ds) t"
  using assms
proof (induction "is" arbitrary: t)
  case Nil
  then show ?case by (simp add: wp)
next
  case (Cons i "is")
  have inv: "pay_inv most (objs t)" using Cons.prems(1) by simp
  have rest: "wp (repair_intents is) (\<lambda>_ u. pay_rel most d (objs u) \<and> pay_inv most (objs u) \<and> durable u = ds) (\<lambda>_ u. durable u = ds) u"
    if "pay_rel most d (objs u)" "pay_inv most (objs u)" "attempts (rows u) = attempts (objs u)" "durable u = ds" for u
    using Cons.IH that by blast
  have ents: "entities attempts (\<lambda>a. pa_payment_intent_id a = pi_id i) (rows (sync t)) (objs t) = attempts_of (objs t) (pi_id i)"
    unfolding attempts_of_def by (rule entities_flushed) (use Cons.prems(2) in \<open>simp add: rows_sync\<close>)
  have moved: "pay_step most d (intents_update (upd_row pi_id (pi_id i) (moved PI_FAILED SRC_SYSTEM None)) (objs t))"
    if x: "find_row pi_id (pi_id i) (intents (objs t)) = Some x" "intent_edge (pi_status x) PI_FAILED"
      and a: "attempts_of (objs t) (pi_id i) \<noteq> []" "pa_status (last (attempts_of (objs t) (pi_id i))) = PA_FAILED" for x
  proof -
    have proc: "pi_status x = PI_PROCESSING" using x(2) by (cases "pi_status x") simp_all
    have as: "attempts_of (objs t) (pi_id i) = butlast (attempts_of (objs t) (pi_id i)) @ [last (attempts_of (objs t) (pi_id i))]"
      using a(1) by simp
    have "pay_step most (objs t) (intents_update (upd_row pi_id (pi_id i) (moved PI_FAILED SRC_SYSTEM None)) (objs t))"
      by (rule step_last [where f = "moved PI_FAILED SRC_SYSTEM None" and g = "\<lambda>x. x", OF inv x(1) as])
        (use proc a pay_invD(3) [OF inv] in \<open>simp_all add: keeps_try_def stranded_def traced_def\<close>)
    then show ?thesis using Cons.prems(1) pay_rel_trans by blast
  qed
  have sorted: "sort_key pa_attempt_number (attempts_of (objs t) (pi_id i)) = attempts_of (objs t) (pi_id i)"
    using attempts_numbered [OF inv, of "pi_id i"] pay_invD(5) [OF inv, of "pi_id i"]
    by (cases "find_row pi_id (pi_id i) (intents (objs t))") simp_all
  have flushed: "attempts (rows (sync t)) = attempts (objs t)" using Cons.prems(2) by (simp add: rows_sync)
  show ?case
    using Cons.prems(1,2) flushed
    by (auto simp: Cons.prems(3) wp_bind wp_if wp_ret list_for_intent_def wp_select_all ents sorted wp_transition_intent wp_raise
      split: option.split intro!: rest moved [THEN conjunct1] moved [THEN conjunct2])
qed

lemma wp_collect:
  assumes "\<And>x. x \<in> set xs \<Longrightarrow> wp (f x) (\<lambda>_ t. t = s) (\<lambda>_ t. t = s) s" and "\<And>ys. Q ys s" and "\<And>e. R e s"
  shows "wp (collect xs f) Q R s"
  using assms(1,2)
proof (induction xs arbitrary: Q)
  case Nil
  then show ?case by (simp add: wp)
next
  case (Cons x xs)
  have "wp (f x) (\<lambda>y. wp (bind (collect xs f) (\<lambda>ys. ret (y # ys))) Q R) R s"
    by (rule wp_mono [OF Cons.prems(1) [of x]]) (auto simp: wp_bind wp_ret assms(3) intro!: Cons.IH Cons.prems)
  then show ?case by (simp add: wp_bind)
qed

lemma wp_list_intents:
  assumes clean: "clean s" and inv: "pay_inv most (objs s)"
  shows "steps most s (list_intents actor cid limit offset)"
proof -
  let ?K = "\<lambda>t. grows (pay_step most (objs s)) s t"
  have tail: "wp (bind (repair_intents is) (\<lambda>repaired. bind (if repaired then commit else ret ()) (\<lambda>_.
      collect is (\<lambda>i. reload_intent (pi_id i))))) (\<lambda>_. ?K) (\<lambda>_. ?K) s" for "is"
    unfolding wp_bind
  proof (rule wp_mono [OF wp_repair_intents [where most = most and d = "objs s" and ds = "durable s"]], goal_cases)
    case (4 b t)
    have "wp (collect is (\<lambda>i. reload_intent (pi_id i))) (\<lambda>_. ?K) (\<lambda>_. ?K) u" if "?K u" for u
      by (rule wp_collect) (use that in \<open>auto simp: wp split: option.split\<close>)
    moreover have "?K (t\<lparr>rows := objs t, durable := objs t # durable t\<rparr>)"
      by (rule grows_Cons [of _ "objs t" t]) (use 4 in simp_all)
    ultimately show ?case using 4 by (auto simp: wp_if wp_commit wp_ret)
  qed (use inv pay_rel_refl clean in simp_all)
  have listed: "wp (intents_of_chama k limit offset j) Q R s" if "\<And>is. Q is s" for k j Q R
    using that by (simp add: intents_of_chama_def wp clean)
  have "wp (intents_of_chama k limit offset j) (\<lambda>is. wp (bind (repair_intents is) (\<lambda>repaired. bind (if repaired then commit else ret ()) (\<lambda>_.
      collect is (\<lambda>i. reload_intent (pi_id i))))) (\<lambda>_. ?K) (\<lambda>_. ?K)) (\<lambda>_. ?K) s" for k j
    by (rule listed) (rule tail)
  note listed = this
  show ?thesis
    unfolding list_intents_def wp_bind [of "intent_chama _ _"] wp_bind [of "authorize_chama_access _ _"]
  proof (rule wp_intent_chama [OF clean], goal_cases)
    case (1 c m)
    show ?case
      by (rule wp_access_again [OF clean])
        (simp_all add: wp_bind [of "has_any_role _ _"] wp_bind [of "intents_of_chama _ _ _ _"] wp_has_any_role clean listed)
  qed simp
qed

lemma intent_check_None: "intent_check d x = None \<Longrightarrow> find_row pi_id (pi_id x) (intents d) = None"
  by (auto simp: intent_check_def find_row_None_iff list_ex_iff split: if_splits)

lemma wp_resolve_intent_key:
  assumes "clean s" and "\<And>x. Q x s" and "\<And>e. R e s" and "wp m Q R s"
  shows "wp (resolve_intent_key cid mid data digest m) Q R s"
  using assms
  by (simp add: resolve_intent_key_def get_by_idempotency_key_def match_idempotent_create_def wp split: option.split)

lemma wp_create_intent:
  assumes clean: "clean s" and inv: "pay_inv most (objs s)"
  shows "steps most s (create_intent gw actor cid data)"
proof -
  let ?K = "\<lambda>t. grows (pay_step most (objs s)) s t"
  have insert: "wp (insert_row intent_check (\<lambda>r d. d\<lparr>intents := intents d @ [r]\<rparr>) x) (\<lambda>_. wp (bind commit (\<lambda>_. ret x)) Q R') R' u"
    if u: "objs u = objs s" "durable u = durable s" and x: "pi_status x = PI_PENDING"
      and Q: "\<And>t. ?K t \<Longrightarrow> Q x t" and R': "\<And>e. R' (IntegrityError e) u" for x u Q R'
  proof (cases "intent_check (objs s) x")
    case None
    let ?e = "(objs s)\<lparr>intents := intents (objs s) @ [x]\<rparr>"
    have "pay_step most (objs s) ?e"
      by (rule step_new [OF inv intent_check_None [OF None] x]) simp_all
    then have "?K (u\<lparr>objs := ?e, rows := ?e, durable := ?e # durable s\<rparr>)"
      using grows_commit [of "pay_step most (objs s)" ?e s u] u by simp
    then show ?thesis using None Q u by (simp add: wp)
  qed (simp add: wp u R')
  have stored: "wp (catch_integrity (bind (insert_row intent_check (\<lambda>r d. d\<lparr>intents := intents d @ [r]\<rparr>) x) (\<lambda>_. bind commit (\<lambda>_. ret x)))
      (bind rollback (\<lambda>_. resolve_intent_key k m data digest (raise (IntegrityError ''payment_intents''))))) (\<lambda>_. ?K) (\<lambda>_. ?K) u"
    if u: "objs u = objs s" "durable u = durable s" and x: "pi_status x = PI_PENDING" for x u k m digest
  proof -
    have "?K v" if "durable v = durable s" for v using that by simp
    moreover have "clean (u\<lparr>objs := hd (durable u), rows := hd (durable u)\<rparr>)"
      by (rule clean_rolled) (simp add: u clean_history [OF clean])
    ultimately have "wp (resolve_intent_key k m data digest (raise (IntegrityError ''payment_intents''))) (\<lambda>_. ?K) (\<lambda>_. ?K)
        (u\<lparr>objs := hd (durable u), rows := hd (durable u)\<rparr>)"
      using u by (intro wp_mono [OF wp_resolve_intent_key [where Q = "\<lambda>_ v. v = u\<lparr>objs := hd (durable u), rows := hd (durable u)\<rparr>"
        and R = "\<lambda>_ v. v = u\<lparr>objs := hd (durable u), rows := hd (durable u)\<rparr>"]]) (simp_all add: wp)
    then show ?thesis
      unfolding wp_catch_integrity wp_bind [of "insert_row _ _ _"]
      by (intro insert [OF u x]) (simp_all add: wp_bind [of rollback] wp_rollback)
  qed
  show ?thesis
    unfolding create_intent_def Let_def wp_bind [of "intent_chama _ _"] wp_bind [of "authorize_chama_write _ _"]
  proof (rule wp_intent_chama [OF clean], rule wp_write_again [OF clean], goal_cases)
    case (1 c m m')
    have linked: "wp (case k of None \<Rightarrow> ret () | Some j \<Rightarrow> validate_linked_contribution mid j am) Q (\<lambda>_. ?K) s"
      if "Q () s" for k mid am Q
      using that by (simp add: validate_linked_contribution_def wp split: option.split)
    have target: "wp (get_target_membership k j) Q (\<lambda>_. ?K) s" if "\<And>x. Q x s" for k j Q
      using that by (simp add: wp split: option.split)
    have "wp uuid4 (\<lambda>i. wp (catch_integrity (bind (insert_row intent_check (\<lambda>r d. d\<lparr>intents := intents d @ [r]\<rparr>) (f i)) (\<lambda>_. bind commit (\<lambda>_. ret (f i))))
      (bind rollback (\<lambda>_. resolve_intent_key k j data digest (raise (IntegrityError ''payment_intents''))))) (\<lambda>_. ?K) (\<lambda>_. ?K)) (\<lambda>_. ?K) s"
      if "\<And>i. pi_status (f i) = PI_PENDING" for f k j digest
      unfolding wp_uuid4 by (rule stored) (simp_all add: that)
    note fresh = this
    show ?case
      by (auto simp: wp_bind [of "get_target_membership _ _"] wp_bind [of "require_own_or_leadership _ _ _"]
          wp_bind [of "ensure _ _"] wp_require_own_or_leadership wp_ensure clean wp_bind [of "case_option _ _ _"] wp_bind [of uuid4]
        intro!: target linked wp_resolve_intent_key fresh)
  qed simp_all
qed

end
