(* ===== verification/Callback_Facts.thy ===== *)
theory Callback_Facts
  imports Payment_Facts
begin

text \<open>
  What a delivery of a provider's callback does to the session, and the payment service as a
  whole: the requests of its users and the deliveries of its providers, in any order.
\<close>

section \<open>Events\<close>

lemma wp_finish_event:
  assumes "\<And>x t. clean t \<Longrightarrow> pay_same (objs s) (objs t) \<Longrightarrow> durable t = objs t # durable s \<Longrightarrow> Q x t"
    and "\<And>t. clean t \<Longrightarrow> pay_same (objs s) (objs t) \<Longrightarrow> durable t = objs t # durable s \<Longrightarrow> R AttributeError t"
  shows "wp (finish_event i st) Q R s"
  using assms by (simp add: finish_event_def reload_event_def wp clean_commit pay_same_def split: option.split)

lemma wp_resolve_duplicate:
  assumes "clean s" and "\<And>x t. clean t \<Longrightarrow> pay_same (objs s) (objs t) \<Longrightarrow> grows (pay_same (objs s)) s t \<Longrightarrow> Q x t"
    and "\<And>e t. grows (pay_same (objs s)) s t \<Longrightarrow> R e t"
  shows "wp (resolve_duplicate e digest) Q R s"
proof -
  have one: "grows (pay_same (objs s)) s t" if "pay_same (objs s) (objs t)" "durable t = objs t # durable s" for t
    by (rule grows_Cons [of _ "objs t" s]) (use that in simp_all)
  have "wp (finish_event i st) Q R s" for i st
    by (rule wp_finish_event) (auto intro: assms one)
  moreover have "Q e s" by (rule assms(2)) (simp_all add: assms(1))
  ultimately show ?thesis by (simp add: resolve_duplicate_def wp_if wp_ret)
qed

lemma wp_store_event:
  assumes clean: "clean s" and ok: "\<And>x t. clean t \<Longrightarrow> pay_same (objs s) (objs t) \<Longrightarrow> grows (pay_same (objs s)) s t \<Longrightarrow> Q x t"
    and no: "\<And>e t. grows (pay_same (objs s)) s t \<Longrightarrow> R e t"
  shows "wp (store_event gw c p raw) Q R s"
proof -
  have one: "grows (pay_same (objs s)) s t" if "pay_same (objs s) (objs t)" "durable t = objs t # durable s" for t
    by (rule grows_Cons [of _ "objs t" s]) (use that in simp_all)
  have found: "wp (find_event k e) Q' R' t" if "clean t" "\<And>x. Q' x t" for k e t Q' R'
    using that by (simp add: find_event_def get_by_connection_event_def wp split: option.split list.split)
  have dup: "wp (find_event k e) (\<lambda>existing. wp (case existing of Some e \<Rightarrow> resolve_duplicate e digest
      | None \<Rightarrow> raise (IntegrityError ''payment_events'')) Q R) R u"
    if "clean u" "objs u = objs s" "durable u = durable s" for k e digest u
  proof (rule found [OF that(1)], split option.split, intro conjI allI impI)
    show "wp (raise (IntegrityError ''payment_events'')) Q R u" by (simp add: wp no that(3))
    show "wp (resolve_duplicate x digest) Q R u" for x
      by (rule wp_resolve_duplicate [OF that(1)]) (use that in \<open>auto intro: ok no simp: grows_def\<close>)
  qed
  have insert: "wp (catch_integrity (bind (insert_row event_check (\<lambda>r d. d\<lparr>payment_events := payment_events d @ [r]\<rparr>) x)
      (\<lambda>_. bind commit (\<lambda>_. if b then finish_event i EV_UNPROCESSABLE else ret x)))
      (bind rollback (\<lambda>_. bind (find_event k e) (\<lambda>existing. case existing of Some e \<Rightarrow> resolve_duplicate e digest
        | None \<Rightarrow> raise (IntegrityError ''payment_events''))))) Q R u"
    if u: "objs u = objs s" "durable u = durable s" for x i b u k e digest
  proof -
    have rolled: "wp (bind rollback (\<lambda>_. bind (find_event k e) (\<lambda>existing. case existing of Some e \<Rightarrow> resolve_duplicate e digest
        | None \<Rightarrow> raise (IntegrityError ''payment_events'')))) Q R u"
      unfolding wp_bind [of rollback] wp_rollback wp_bind [of "find_event k e"]
    proof (rule dup)
      show "clean (u\<lparr>objs := hd (durable u), rows := hd (durable u)\<rparr>)"
        by (rule clean_rolled) (simp add: u clean_history [OF clean])
    qed (use u clean in simp_all)
    show ?thesis
    proof (cases "event_check (objs s) x")
      case None
      let ?e = "(objs s)\<lparr>payment_events := payment_events (objs s) @ [x]\<rparr>"
      let ?u = "u\<lparr>objs := ?e, rows := ?e, durable := ?e # durable s\<rparr>"
      have same: "pay_same (objs s) ?e" by (simp add: pay_same_def)
      have u': "grows (pay_same (objs s)) s ?u" using grows_commit [of "pay_same (objs s)" ?e s u] same u by simp
      have fin: "wp (finish_event i EV_UNPROCESSABLE) Q (\<lambda>e t. case e of IntegrityError c \<Rightarrow> R' e t | _ \<Rightarrow> R e t) ?u" for R'
      proof (rule wp_finish_event, goal_cases)
        case (1 x t)
        show ?case by (rule ok) (use 1 grows_Cons [OF _ u'] same in \<open>auto simp: pay_same_def\<close>)
      next
        case (2 t)
        show ?case unfolding err.case by (rule no) (use 2 grows_Cons [OF _ u'] same in \<open>auto simp: pay_same_def\<close>)
      qed
      have "Q x ?u" by (rule ok [OF clean_commit _ u']) (simp add: same)
      then show ?thesis using None u fin
        by (simp add: wp_catch_integrity wp_bind [of "insert_row _ _ _"] wp_bind [of commit] wp_insert_row wp_commit wp_if wp_ret)
    next
      case (Some c)
      then show ?thesis using rolled u by (simp add: wp_catch_integrity wp_bind [of "insert_row _ _ _"] wp_insert_row)
    qed
  qed
  show ?thesis
    unfolding store_event_def Let_def wp_bind [of "find_event _ _"]
  proof (rule found [OF clean], split option.split, intro conjI allI impI)
    show "wp (resolve_duplicate x (payload_hash gw raw)) Q R s" for x
      by (rule wp_resolve_duplicate [OF clean]) (auto intro: ok no)
    show "wp (bind uuid4 (\<lambda>i. bind (asks utc_now) (\<lambda>now. catch_integrity
        (bind (insert_row event_check (\<lambda>r d. d\<lparr>payment_events := payment_events d @ [r]\<rparr>) (f i now))
          (\<lambda>_. bind commit (\<lambda>_. if b then finish_event i EV_UNPROCESSABLE else ret (f i now))))
        (bind rollback (\<lambda>_. bind (find_event k e) (\<lambda>existing. case existing of Some e \<Rightarrow> resolve_duplicate e digest
          | None \<Rightarrow> raise (IntegrityError ''payment_events''))))))) Q R s" for f b k e digest
      unfolding wp_bind [of uuid4] wp_uuid4 wp_bind [of "asks _"] wp_asks by (rule insert) simp_all
  qed
qed

lemma wp_find_attempt:
  assumes clean: "clean s" and inv: "pay_inv most (objs s)" and none: "Q None s"
    and some: "\<And>a. a \<in> set (attempts (objs s)) \<Longrightarrow> pa_provider_request_id a \<noteq> None \<or> traced (objs s) (pa_id a) \<Longrightarrow> Q (Some a) s"
  shows "wp (find_attempt p) Q R s"
proof -
  have by_id: "wp (case cb_provider_transaction_id p of
      Some (c # cs) \<Rightarrow> bind (get_by_provider_transaction_id (c # cs)) (\<lambda>transaction.
        case transaction of Some t \<Rightarrow> get_by_key attempts pa_id (pt_payment_attempt_id t) | None \<Rightarrow> ret None)
    | _ \<Rightarrow> ret None) Q R s"
  proof -
    have "Q (find_row pa_id (pt_payment_attempt_id t) (attempts (objs s))) s"
      if "t \<in> set (provider_transactions (objs s))" "pt_provider_transaction_id t = Some k" for t k
    proof (cases "find_row pa_id (pt_payment_attempt_id t) (attempts (objs s))")
      case (Some a)
      then have "a \<in> set (attempts (objs s))" "traced (objs s) (pa_id a)"
        using that find_row_SomeD [OF Some] by (auto simp: traced_def)
      then show ?thesis using Some some by simp
    qed (simp add: none)
    then show ?thesis
      by (auto simp: get_by_provider_transaction_id_def wp clean none split: option.split list.split dest!: first_filter_SomeD)
  qed
  show ?thesis
    using clean by_id
    by (auto simp: find_attempt_def get_by_provider_request_id_def wp_bind wp_select_first wp_ret
      split: option.split list.split intro!: some dest!: first_filter_SomeD)
qed

lemma open_is_last:
  assumes inv: "pay_inv most d" and a: "a \<in> set (attempts d)" "open_attempt a"
    and x: "find_row pi_id (pa_payment_intent_id a) (intents d) = Some x"
  shows "\<exists>as. attempts_of d (pa_payment_intent_id a) = as @ [a]"
proof -
  let ?as = "attempts_of d (pa_payment_intent_id a)"
  have mem: "a \<in> set ?as" using a(1) by (simp add: attempts_of_def)
  have "\<forall>b \<in> set (butlast ?as). pa_status b = PA_FAILED"
    using pay_invD(4) [OF inv x] by (simp add: collection_ok_def)
  then have "a \<notin> set (butlast ?as)" using a(2) by (auto simp: open_attempt_def)
  moreover have "?as = butlast ?as @ [last ?as]" using mem by (cases ?as rule: rev_cases) simp_all
  ultimately have "a = last ?as" using mem by (metis Un_iff empty_iff insert_iff list.set(1) list.set(2) set_append)
  with \<open>?as = butlast ?as @ [last ?as]\<close> show ?thesis by metis
qed

section \<open>Applying a callback\<close>

lemma grows_trans:
  assumes "grows P s t" and "grows P t u"
  shows "grows P s u"
proof -
  obtain ds where "durable t = ds @ durable s" "\<forall>d \<in> set ds. P d" using assms(1) by (auto simp: grows_def)
  moreover obtain es where "durable u = es @ durable t" "\<forall>d \<in> set es. P d" using assms(2) by (auto simp: grows_def)
  ultimately show ?thesis unfolding grows_def by (intro exI [of _ "es @ ds"]) auto
qed

lemma pay_same_trans: "pay_same d e \<Longrightarrow> pay_same e f \<Longrightarrow> pay_same d f"
  by (simp add: pay_same_def)

text \<open>An event that is finished on a database that is already a step ahead.\<close>

lemma finish_steps:
  assumes "pay_step most d (objs t)" and "grows (pay_step most d) s t"
  shows "wp (finish_event i st) (\<lambda>_ u. grows (pay_step most d) s u) (\<lambda>_ u. grows (pay_step most d) s u) t"
proof (rule wp_finish_event, goal_cases)
  case (1 x u)
  then show ?case using assms pay_same_cong(4,6) [OF 1(2)] by (intro grows_Cons [of u "objs u" t]) simp_all
next
  case (2 u)
  then show ?case using assms pay_same_cong(4,6) [OF 2(2)] by (intro grows_Cons [of u "objs u" t]) simp_all
qed

lemma keeps_tryI:
  "(\<And>a. pa_id (g a) = pa_id a \<and> pa_payment_intent_id (g a) = pa_payment_intent_id a \<and>
     pa_attempt_number (g a) = pa_attempt_number a \<and> pa_connection_id (g a) = pa_connection_id a \<and>
     pa_client_reference (g a) = pa_client_reference a) \<Longrightarrow> keeps_try g"
  by (simp add: keeps_try_def)

text \<open>A callback that reaches an open attempt: it is its intent's last, and nothing is stranded.\<close>

definition reaches :: "int \<Rightarrow> sess \<Rightarrow> payment_intent \<Rightarrow> payment_attempt \<Rightarrow> bool" where
  "reaches most s x a \<longleftrightarrow> clean s \<and> pay_inv most (objs s) \<and>
     find_row pi_id (pa_payment_intent_id a) (intents (objs s)) = Some x \<and>
     (\<exists>as. attempts_of (objs s) (pa_payment_intent_id a) = as @ [a]) \<and>
     open_attempt a \<and> \<not> stranded (objs s) (pa_payment_intent_id a)"

lemma reachesD:
  assumes "reaches most s x a"
  shows "clean s" "pay_inv most (objs s)" "find_row pi_id (pa_payment_intent_id a) (intents (objs s)) = Some x"
    "open_attempt a" "\<not> stranded (objs s) (pa_payment_intent_id a)"
    "pi_status x = PI_PROCESSING" "pi_id x = pa_payment_intent_id a"
proof -
  obtain as where r: "clean s" "pay_inv most (objs s)" "find_row pi_id (pa_payment_intent_id a) (intents (objs s)) = Some x"
    "attempts_of (objs s) (pa_payment_intent_id a) = as @ [a]" "open_attempt a" "\<not> stranded (objs s) (pa_payment_intent_id a)"
    using assms unfolding reaches_def by blast
  then show "clean s" "pay_inv most (objs s)" "find_row pi_id (pa_payment_intent_id a) (intents (objs s)) = Some x"
    "open_attempt a" "\<not> stranded (objs s) (pa_payment_intent_id a)" by blast+
  show "pi_status x = PI_PROCESSING" "pi_id x = pa_payment_intent_id a"
    using open_processing(1) [of most x as a] pay_invD(4) [OF r(2,3)] r(4,5) find_row_key [OF r(3)] by simp_all
qed

lemma wp_apply_success:
  assumes r: "reaches most s x a"
    and ok: "\<And>t. pay_step most (objs s) (objs t) \<Longrightarrow> grows (pay_step most (objs s)) s t \<Longrightarrow> Q () t"
    and no: "\<And>e t. durable t = durable s \<Longrightarrow> R e t"
  shows "wp (apply_success a x p) Q R s"
proof -
  note clean = reachesD(1) [OF r] and inv = reachesD(2) [OF r] and x = reachesD(3) [OF r] and a = reachesD(4,5) [OF r]
    and callback_processing = reachesD(6,7) [OF r]
  obtain as where as: "attempts_of (objs s) (pa_payment_intent_id a) = as @ [a]" using r unfolding reaches_def by blast
  let ?g = "\<lambda>a. a\<lparr>pa_status := PA_SUCCEEDED, pa_completed_at := Some (utc_now s),
    pa_last_transition_source := SRC_PROVIDER_CALLBACK,
    pa_provider_transaction_id := or_else (cb_provider_transaction_id p) (pa_provider_transaction_id a)\<rparr>"
  let ?f = "moved PI_SUCCEEDED SRC_PROVIDER_CALLBACK None"
  show ?thesis
    unfolding apply_success_def wp_bind wp_asks wp_set_attempt
  proof (rule wp_assign_transaction, simp, simp, simp add: pay_invD(3) [OF inv], simp add: clean, goal_cases)
    case (1 t ts)
    let ?e = "intents_update (upd_row pi_id (pa_payment_intent_id a) ?f) (objs t)"
    have step: "pay_step most (objs s) ?e"
      by (rule step_succeeds(1) [where g = ?g, OF inv x as a keeps_tryI])
        (use 1 in \<open>simp_all add: traced_def\<close>)
    have "wp (settle_linked_contribution (pi_contribution_id x) mid cid) (\<lambda>_. Q ()) R (t\<lparr>objs := ?e\<rparr>)" for mid cid
    proof (rule wp_settle_linked_any, goal_cases)
      case (1 b u)
      have same: "pay_same ?e (objs u)" and grown: "grows (pay_same ?e) (t\<lparr>objs := ?e\<rparr>) u" using 1 by simp_all
      show ?case
      proof (rule ok)
        show "pay_step most (objs s) (objs u)" using step pay_same_cong(4,6) [OF same] by simp
        show "grows (pay_step most (objs s)) s u"
          by (rule grows_from [OF grows_pay_same [OF step grown]]) (use \<open>durable t = _\<close> in simp)
      qed
    next
      case (2 e u)
      then show ?case using no 1(1) by simp
    qed
    moreover have "Q () (t\<lparr>objs := ?e\<rparr>)" by (rule ok) (use step 1(1) in simp_all)
    ultimately show ?case
      using callback_processing by (simp add: wp moved_fun [symmetric])
  next
    case (2 e t)
    then show ?case using no by simp
  qed
qed

lemma wp_apply_failure:
  assumes r: "reaches most s x a"
    and ok: "\<And>t. pay_step most (objs s) (objs t) \<Longrightarrow> grows (pay_step most (objs s)) s t \<Longrightarrow> Q () t"
    and no: "\<And>e t. durable t = durable s \<Longrightarrow> R e t"
  shows "wp (apply_failure a x p) Q R s"
proof -
  note clean = reachesD(1) [OF r] and inv = reachesD(2) [OF r] and x = reachesD(3) [OF r] and a = reachesD(4,5) [OF r]
    and callback_processing = reachesD(6,7) [OF r]
  obtain as where as: "attempts_of (objs s) (pa_payment_intent_id a) = as @ [a]" using r unfolding reaches_def by blast
  let ?g = "\<lambda>a. a\<lparr>pa_status := PA_FAILED, pa_completed_at := Some (utc_now s),
    pa_last_transition_source := SRC_PROVIDER_CALLBACK, pa_failure_code := cb_error_code p,
    pa_failure_message_safe := cb_error_message_safe p\<rparr>"
  let ?f = "moved PI_FAILED SRC_PROVIDER_CALLBACK None"
  show ?thesis
    unfolding apply_failure_def wp_bind wp_asks wp_set_attempt
  proof (rule wp_assign_transaction, simp, simp, simp add: pay_invD(3) [OF inv], simp add: clean, goal_cases)
    case (1 t ts)
    let ?e = "intents_update (upd_row pi_id (pa_payment_intent_id a) ?f) (objs t)"
    have step: "pay_step most (objs s) ?e"
      by (rule step_declines(1) [where g = ?g and f = ?f, OF inv x as a keeps_tryI])
        (use 1 in \<open>simp_all add: traced_def\<close>)
    have stay: "pay_step most (objs s) (objs t)"
      by (rule step_declines(1) [where g = ?g and f = "\<lambda>x. x", OF inv x as a keeps_tryI])
        (use 1 callback_processing in \<open>simp_all add: traced_def\<close>)
    have "Q () (t\<lparr>objs := ?e\<rparr>)" "Q () t" by (rule ok; use step stay 1(1) in simp)+
    then show ?case using callback_processing by (simp add: wp moved_fun [symmetric])
  next
    case (2 e t)
    then show ?case using no by simp
  qed
qed

lemma wp_apply_callback:
  assumes clean: "clean s" and inv: "pay_inv most (objs s)" and a: "a \<in> set (attempts (objs s))"
    and known: "pa_provider_request_id a \<noteq> None \<or> traced (objs s) (pa_id a)"
  shows "steps most s (apply_callback a p e)"
proof (cases "find_row pi_id (pa_payment_intent_id a) (intents (objs s))")
  case None
  then show ?thesis by (simp add: apply_callback_def wp)
next
  case (Some x)
  let ?K = "\<lambda>t. grows (pay_step most (objs s)) s t"
  have fin: "wp (finish_event i st) (\<lambda>_. ?K) (\<lambda>_. ?K) s" for i st
    by (rule finish_steps) (simp_all add: inv pay_rel_refl)
  have applied: "wp (bind (if b then apply_success a x p else apply_failure a x p) (\<lambda>_. finish_event i st)) (\<lambda>_. ?K) (\<lambda>_. ?K) s"
    if o: "open_attempt a" for b i st
  proof -
    obtain as where as: "attempts_of (objs s) (pa_payment_intent_id a) = as @ [a]"
      using open_is_last [OF inv a o Some] by blast
    have "\<not> stranded (objs s) (pa_payment_intent_id a)"
      using known as by (auto simp: stranded_def)
    with clean inv Some as o have r: "reaches most s x a" by (auto simp: reaches_def)
    show ?thesis
      by (cases b) (auto simp: wp_bind intro!: wp_apply_success [OF r] wp_apply_failure [OF r] finish_steps)
  qed
  consider "pa_status a = PA_SUCCEEDED" | "open_attempt a" | "pa_status a = PA_FAILED"
    unfolding open_attempt_def by (cases "pa_status a") auto
  then show ?thesis
    by cases
      (auto simp: apply_callback_def wp_bind [of "reload_intent _"] wp_reload_intent Some wp_if open_attempt_def intro!: fin applied [where b = True, simplified] applied [where b = False, simplified])
qed

lemma wp_handle_callback:
  assumes clean: "clean s" and inv: "pay_inv most (objs s)"
  shows "steps most s (handle_callback gw code env raw headers params)"
proof -
  let ?K = "\<lambda>t. grows (pay_step most (objs s)) s t"
  have bound: "wp (resolve_connection gw code env q params) Q (\<lambda>_. ?K) s" if "\<And>c. Q c s" for q Q
  proof -
    have attempt: "wp (find_attempt q) Q' (\<lambda>_. ?K) s" if "\<And>a. Q' a s" for Q'
      by (rule wp_find_attempt [OF clean inv]) (use that in auto)
    show ?thesis
      using that by (auto simp: resolve_connection_def get_connection_by_id_def check_connection_match_def
        wp_bind wp_get_by_key wp_ensure wp_raise wp_ret split: option.split list.split intro!: attempt)
  qed
  have stored: "wp (store_event gw c q raw) (\<lambda>event. wp (if pe_status event \<in> {EV_DEDUPLICATED, EV_DISAGREEMENT, EV_UNPROCESSABLE} then ret event
     else bind (find_attempt q) (\<lambda>found. case found of
         None \<Rightarrow> finish_event (pe_id event) EV_UNPROCESSABLE
       | Some attempt \<Rightarrow>
           if pa_connection_id attempt \<noteq> pc_id c then finish_event (pe_id event) EV_UNPROCESSABLE
           else apply_callback attempt q event)) (\<lambda>_. ?K) (\<lambda>_. ?K)) (\<lambda>_. ?K) s" for c q
  proof (rule wp_store_event [OF clean], goal_cases)
    case (1 e t)
    have inv': "pay_inv most (objs t)" using inv pay_same_cong(4) [OF 1(2)] by simp
    have step: "pay_step most (objs s) (objs t)" by (rule pay_step_same [OF inv 1(2)])
    have grown: "?K t" by (rule grows_pay_same [OF _ 1(3)]) (simp add: inv pay_rel_refl)
    have fin: "wp (finish_event i st) (\<lambda>_. ?K) (\<lambda>_. ?K) t" for i st by (rule finish_steps [OF step grown])
    have app: "wp (apply_callback a q e) (\<lambda>_. ?K) (\<lambda>_. ?K) t"
      if "a \<in> set (attempts (objs t))" "pa_provider_request_id a \<noteq> None \<or> traced (objs t) (pa_id a)" for a
      by (rule steps_after [OF wp_apply_callback [OF 1(1) inv' that] step grown]) simp_all
    show ?case
      by (auto simp: wp_ret wp_bind [of "find_attempt _"] grown intro!: wp_find_attempt [OF 1(1) inv'] fin app)
  next
    case (2 e t)
    show ?case by (rule grows_pay_same [OF _ 2]) (simp add: inv pay_rel_refl)
  qed
  show ?thesis
    unfolding handle_callback_def
    by (auto simp: wp_bind [of "asks _"] wp_asks wp_bind [of "ensure _ _"] wp_ensure wp_bind [of "registry_get _ _ _"]
        wp_bind [of "lift _"] wp_bind [of "resolve_connection _ _ _ _ _"] wp_bind [of "store_event _ _ _ _"] wp_registry_get wp_lift
      split: option.split sum.split intro!: bound stored [simplified])
qed

section \<open>The payment service\<close>

text \<open>
  The requests of users and the deliveries of providers, served in any order by a process with
  fixed settings. Each carries the gateway as it answers at that moment.
\<close>

datatype payment_op =
    Create intent_request
  | Initiate bool uuid uuid
  | Intents "nat option" nat
  | Intent uuid
  | Attempt uuid
  | Attempts uuid
  | Callback provider_code payment_environment string "(string \<times> string) list" "(string \<times> string) list"

definition configured :: "settings \<Rightarrow> 'a act \<Rightarrow> 'a act" where
  "configured c m s = m (s\<lparr>cfg := c\<rparr>)"

fun payment_op_act :: "user \<Rightarrow> uuid \<Rightarrow> gateway \<Rightarrow> payment_op \<Rightarrow> unit act" where
  "payment_op_act u c gw (Create data) = bind (create_intent gw u c data) (\<lambda>_. ret ())"
| "payment_op_act u c gw (Initiate allowed i k) = bind (initiate gw allowed u c i k) (\<lambda>_. ret ())"
| "payment_op_act u c gw (Intents limit offset) = bind (list_intents u c limit offset) (\<lambda>_. ret ())"
| "payment_op_act u c gw (Intent i) = bind (get_intent u c i) (\<lambda>_. ret ())"
| "payment_op_act u c gw (Attempt i) = bind (get_attempt u c i) (\<lambda>_. ret ())"
| "payment_op_act u c gw (Attempts i) = bind (list_attempts u c i) (\<lambda>_. ret ())"
| "payment_op_act u c gw (Callback code env raw headers params) =
     bind (handle_callback gw code env raw headers params) (\<lambda>_. ret ())"

definition payments_run :: "settings \<Rightarrow> user \<Rightarrow> uuid \<Rightarrow> gateway \<times> payment_op \<Rightarrow> unit act" where
  "payments_run p actor cid op = configured p (payment_op_act actor cid (fst op) (snd op))"

lemma steps_ret: "steps most s m \<Longrightarrow> steps most s (bind m (\<lambda>_. ret ()))"
  by (simp add: wp_bind wp_ret)

lemma reads_steps:
  assumes "clean s"
  shows "steps most s (get_intent u c i)" "steps most s (get_attempt u c i)" "steps most s (list_attempts u c i)"
proof -
  show "steps most s (get_intent u c i)"
    unfolding get_intent_def wp_bind [of "intent_chama _ _"]
    by (rule wp_intent_chama [OF assms])
      (auto simp: get_intent_in_chama_def wp assms split: option.split intro!: wp_access_again)
  show "steps most s (get_attempt u c i)"
    unfolding get_attempt_def wp_bind [of "intent_chama _ _"]
    by (rule wp_intent_chama [OF assms])
      (auto simp: get_attempt_in_chama_def wp assms split: option.split intro!: wp_access_again)
  show "steps most s (list_attempts u c i)"
    unfolding list_attempts_def wp_bind [of "intent_chama _ _"]
    by (rule wp_intent_chama [OF assms])
      (auto simp: get_intent_in_chama_def wp assms wp_list_for_intent split: option.split intro!: wp_access_again)
qed

lemma clean_cfg [simp]: "clean (s\<lparr>cfg := c\<rparr>) = clean s"
  by (simp add: clean_def del: sess_update_order clean_sync_simps)

lemma wp_payments_run:
  assumes "clean s" and "pay_inv (max_attempt_numbers p) (objs s)"
  shows "steps (max_attempt_numbers p) s (payments_run p actor cid op)"
proof -
  let ?most = "max_attempt_numbers p"
  have s': "clean (s\<lparr>cfg := p\<rparr>)" "pay_inv ?most (objs (s\<lparr>cfg := p\<rparr>))" "max_attempt_numbers (cfg (s\<lparr>cfg := p\<rparr>)) = ?most"
    using assms by simp_all
  have "steps ?most (s\<lparr>cfg := p\<rparr>) (payment_op_act actor cid gw o')" for gw o'
    using wp_create_intent [OF s'(1,2)] wp_initiate [of "s\<lparr>cfg := p\<rparr>", unfolded s'(3), OF s'(1,2)]
      wp_list_intents [OF s'(1,2)] wp_handle_callback [OF s'(1,2)] reads_steps [OF s'(1)]
    by (cases o') (simp_all only: payment_op_act.simps steps_ret)
  then show ?thesis by (simp add: payments_run_def configured_def wp_def grows_def)
qed

interpretation payments: service "payments_run p" "\<lambda>op. True" "pay_inv (max_attempt_numbers p)"
    "pay_rel (max_attempt_numbers p)" for p
  by unfold_locales (auto intro: pay_rel_refl pay_rel_trans wp_payments_run)

end
