(* ===== verification/Payment_Demo.thy ===== *)
theory Payment_Demo
  imports Callback_Facts Demo
begin

text \<open>
  The demo Chama with a payment connection and a payment intent of one of its members, and a
  gateway to a provider that answers as it is told, for the witnesses of the payment properties.
\<close>

definition demo_spec :: provider_spec where
  "demo_spec = \<lparr>sp_code = DARAJA, sp_name = ''Demo'', sp_capabilities = [''PAYMENT_REQUEST''],
     sp_supported_environments = [SANDBOX]\<rparr>"

definition demo_adapter :: "err + attempt_result \<Rightarrow> err + status_result \<Rightarrow> parsed_callback \<Rightarrow> adapter" where
  "demo_adapter charged status callback =
     \<lparr>ad_spec = demo_spec, ad_validate_credentials = (\<lambda>_ _. Inl CredentialCipherError),
      ad_create_payment_attempt = (\<lambda>_ _ _. charged), ad_query_payment_status = (\<lambda>_ _ _ _. status),
      ad_parse_callback = (\<lambda>_. Inr callback), ad_verify_callback = (\<lambda>_ _. (True, None)),
      ad_masked_account_identifier = (\<lambda>_. ''***''), ad_decrypted_credentials = (\<lambda>c _. Inr c),
      ad_parse_c2b_validation = (\<lambda>_. Inr unparseable_c2b), ad_parse_c2b_confirmation = (\<lambda>_. Inr unparseable_c2b),
      ad_register_c2b_urls = (\<lambda>_ _ _. Inl CredentialCipherError)\<rparr>"

text \<open>A cipher that leaves the plaintext as it is, a key of zeros, and a sealed empty object.\<close>

definition open_aead :: aead where
  "open_aead =
     \<lparr>ae_encrypt = (\<lambda>key nonce plaintext aad. plaintext),
      ae_decrypt = (\<lambda>key nonce ciphertext aad. Some ciphertext)\<rparr>"

definition demo_ring :: key_ring where
  "demo_ring = \<lparr>kr_key = replicate 43 (CHR ''A'') @ ''='', kr_version = 1, kr_keys = []\<rparr>"

definition demo_blob :: string where
  "demo_blob =
     dumps (JsObj [(''cv'', JsInt 1), (''kv'', JsInt 1), (''n'', JsStr ''AAAAAAAAAAAAAAAA''), (''c'', JsStr ''e30='')])"

definition demo_gateway :: "err + attempt_result \<Rightarrow> err + status_result \<Rightarrow> parsed_callback \<Rightarrow> gateway" where
  "demo_gateway charged status callback =
     \<lparr>gw_adapters = (\<lambda>_ _. Some (demo_adapter charged status callback)), gw_aead = open_aead,
      gw_key_ring = demo_ring, gw_sha256 = (\<lambda>x. x), gw_hmac = (\<lambda>x. x)\<rparr>"

definition demo_connection :: payment_connection where
  "demo_connection =
     \<lparr>pc_id = 70, pc_chama_id = 10, pc_provider_code = DARAJA, pc_environment = SANDBOX, pc_status = PC_ACTIVE,
      pc_encrypted_credentials = demo_blob, pc_encryption_key_version = 1, pc_credential_version = 1,
      pc_masked_account_identifier = ''***'', pc_last_validated_at = None, pc_last_validation_error_code = None,
      pc_created_by_user_id = 21, pc_updated_by_user_id = 21\<rparr>"

definition demo_intent :: payment_intent where
  "demo_intent =
     \<lparr>pi_id = 80, pi_chama_id = 10, pi_membership_id = 43, pi_contribution_id = None,
      pi_requested_phone = Some ''254700000000'', pi_amount = 150000, pi_currency = ''KES'',
      pi_purpose = ''CONTRIBUTION'', pi_status = PI_PENDING, pi_idempotency_key = ''k1'',
      pi_idempotency_payload_hash = ''h'', pi_created_by_user_id = 23,
      pi_last_transition_source = SRC_CLIENT, pi_last_transition_by_user_id = Some 23\<rparr>"

definition charge_db :: db where
  "charge_db = demo_db\<lparr>connections := [demo_connection], intents := [demo_intent]\<rparr>"

definition charge_session :: sess where
  "charge_session = fresh_session False False demo_settings (DateTime 2026 3 1 0) 1000000 1000 charge_db"

lemma charge_session_simps [simp]:
  "objs charge_session = charge_db" "rows charge_session = charge_db" "durable charge_session = [charge_db]"
  "next_uuid charge_session = 1000" "utc_now charge_session = 1000000" "cfg charge_session = demo_settings" "clean charge_session" "autoflush charge_session = False"
  by (simp_all add: charge_session_def) (simp_all add: fresh_session_def)

lemma charge_db_simps [simp]:
  "chamas charge_db = chamas demo_db" "memberships charge_db = memberships demo_db" "members charge_db = members demo_db"
  "membership_roles charge_db = membership_roles demo_db" "users charge_db = users demo_db"
  "connections charge_db = [demo_connection]" "intents charge_db = [demo_intent]" "attempts charge_db = []"
  "provider_transactions charge_db = []" "payment_events charge_db = []" "contributions charge_db = []"
  by (simp_all add: charge_db_def) (simp_all add: demo_db_def empty_db_def)

lemma demo_payment_rows [simp]:
  "pc_id demo_connection = 70" "pc_chama_id demo_connection = 10" "pc_provider_code demo_connection = DARAJA"
  "pc_environment demo_connection = SANDBOX" "pc_status demo_connection = PC_ACTIVE"
  "pc_encrypted_credentials demo_connection = demo_blob"
  "pi_id demo_intent = 80" "pi_chama_id demo_intent = 10" "pi_membership_id demo_intent = 43"
  "pi_contribution_id demo_intent = None" "pi_requested_phone demo_intent = Some ''254700000000''"
  "pi_amount demo_intent = 150000" "pi_currency demo_intent = ''KES''" "pi_status demo_intent = PI_PENDING"
  by (simp_all add: demo_connection_def demo_intent_def)

lemma demo_gateway_simps [simp]:
  "gw_adapters (demo_gateway charged status callback) c e = Some (demo_adapter charged status callback)"
  "gw_aead (demo_gateway charged status callback) = open_aead" "gw_key_ring (demo_gateway charged status callback) = demo_ring"
  "gw_sha256 (demo_gateway charged status callback) x = x" "gw_hmac (demo_gateway charged status callback) x = x"
  "supports (demo_adapter charged status callback) ''PAYMENT_REQUEST''"
  "ad_create_payment_attempt (demo_adapter charged status callback) cr rq cx = charged"
  "ad_query_payment_status (demo_adapter charged status callback) cr i r cx = status"
  "ad_parse_callback (demo_adapter charged status callback) raw = Inr callback"
  "ad_verify_callback (demo_adapter charged status callback) raw hs = (True, None)"
  "ad_decrypted_credentials (demo_adapter charged status callback) cr cx = Inr cr"
  by (simp_all add: demo_gateway_def demo_adapter_def demo_spec_def supports_def)

lemma open_demo_blob [simp]: "open_sealed open_aead demo_ring demo_blob c = Inr []"
proof -
  have "parse_envelope demo_blob = Some (1, replicate 12 (CHR 0x00), ''{}'')" by code_simp
  moreover have "key_for_version demo_ring 1 = Some (replicate 32 (CHR 0x00))" by code_simp
  moreover have "loads ''{}'' = Some (JsObj [])" by code_simp
  ultimately show ?thesis by (simp add: open_sealed_def NONCE_BYTES_def open_aead_def)
qed

lemma pay_inv_demo [simp]: "pay_inv most charge_db"
  by (simp add: pay_inv_def attempts_of_def timeouts_blind_def find_row_Cons collection_ok_def)

text \<open>The provider accepts the charge, or does not answer in time.\<close>

definition accepted :: "err + attempt_result" where
  "accepted = Inr \<lparr>ar_accepted = True, ar_provider_request_id = Some ''R1'', ar_provider_transaction_id = None,
     ar_normalized_status = PT_PENDING, ar_retryable = False, ar_error_code = None, ar_error_message_safe = None\<rparr>"

definition timed_out :: "err + attempt_result" where
  "timed_out = Inl (ProviderTimeoutError ''PROVIDER_TIMEOUT'' ''no answer'')"

definition unanswered :: "err + status_result" where
  "unanswered = Inl (ProviderTimeoutError ''PROVIDER_TIMEOUT'' ''no answer'')"

lemma demo_settings_payments [simp]: "max_attempt_numbers demo_settings = 4"
  by (simp add: max_attempt_numbers_def demo_settings_def)

lemmas payment_run =
  initiate_def intent_chama_def get_intent_in_chama_def active_connection_def get_connection_in_chama_def
  check_initiate_rate_limit_def shaped_credentials_def open_credentials_def wp_list_for_intent
  create_attempt_def unique_client_reference_def prompt_phone_def callback_url_def store_attempt_def
  insert_attempt_def insert_transaction_def attempt_check_def transaction_check_def transaction_clash_def
  move_if_def references_taken_def next_reference.simps blank_transaction_def Let_def attempts_of_def

lemma charge_sync [simp]: "sync charge_session = charge_session"
  by (simp add: sync_def)

lemma moved_terms [simp]:
  "pi_requested_phone (moved st src u x) = pi_requested_phone x" "pi_amount (moved st src u x) = pi_amount x"
  "pi_currency (moved st src u x) = pi_currency x"
  by (simp_all add: moved_def)

lemma demo_initiate:
  "wp (initiate (demo_gateway timed_out status callback) True alice 10 80 70)
     (\<lambda>a t. pa_status a = PA_TIMEOUT \<and> pa_payment_intent_id a = 80 \<and>
        intents (objs t) = [moved PI_PROCESSING SRC_CLIENT (Some 23) demo_intent] \<and> attempts (objs t) = [a] \<and> durable t \<noteq> [] \<and> hd (durable t) = objs t) (\<lambda>_ _. False) charge_session"
  by (simp add: wp payment_run ledger_run timed_out_def upd_row_def)

end
