(* ===== verification/Clock.thy ===== *)
theory Clock
  imports Calendar Strings
begin

text \<open>
  Instants (microseconds since the start of year 1, UTC) printed with \<open>strftime\<close>: the period of
  a payment and the time stamp of the Daraja interface, in East African time.
\<close>

text \<open>The year and month of an instant (\<open>datetime.fromordinal\<close>), as \<open>strftime("%Y-%m")\<close>.\<close>

definition ordinal_year :: "int \<Rightarrow> int" where
  "ordinal_year ordinal =
     (let n = ordinal - 1;
          n400 = n div 146097; n = n mod 146097;
          n100 = n div 36524; n = n mod 36524;
          n4 = n div 1461; n = n mod 1461;
          n1 = n div 365;
          year = n400 * 400 + 1 + n100 * 100 + n4 * 4 + n1
      in if n1 = 4 \<or> n100 = 4 then year - 1 else year)"

definition ordinal_month :: "int \<Rightarrow> int" where
  "ordinal_month ordinal =
     (let y = ordinal_year ordinal;
          day = ordinal - days_before_year y
      in int (length (filter (\<lambda>m. days_before_month y m < day) [0..<12])))"

definition period_of :: "int \<Rightarrow> string" where
  "period_of t =
     (let ordinal = t div MICROS_PER_DAY
      in int_str (ordinal_year ordinal) @ ''-'' @ two_digits (ordinal_month ordinal))"

definition ordinal_day :: "int \<Rightarrow> int" where
  "ordinal_day ordinal =
     (let y = ordinal_year ordinal
      in ordinal - days_before_year y - days_before_month y (nat (ordinal_month ordinal - 1)))"

text \<open>\<open>strftime("%Y%m%d%H%M%S")\<close>.\<close>

definition stamp :: "int \<Rightarrow> string" where
  "stamp t =
     (let ordinal = t div MICROS_PER_DAY; second = t mod MICROS_PER_DAY div 1000000
      in int_str (ordinal_year ordinal) @ two_digits (ordinal_month ordinal) @ two_digits (ordinal_day ordinal) @
         two_digits (second div 3600) @ two_digits (second div 60 mod 60) @ two_digits (second mod 60))"

definition EAT_OFFSET :: int where "EAT_OFFSET = 3 * 3600 * 1000000"

definition daraja_timestamp :: "int \<Rightarrow> string" where
  "daraja_timestamp t = stamp (t + EAT_OFFSET)"

end
