(* ===== verification/C2B.thy ===== *)
theory C2B
  imports Payment_Webhooks Governance Clock
begin

text \<open>
  Manual Paybill payments (\<open>app/services/c2b_payment.py\<close>): the validation the provider asks for
  before it takes the money, and the confirmation after. The member is named by the membership
  number, the period is the current month in UTC. An amount of the provider is a decimal; the
  columns keep it in cents.
\<close>

section \<open>Binding\<close>

definition c2b_bind ::
  "gateway \<Rightarrow> uuid \<Rightarrow> string \<Rightarrow> (string \<times> string) list \<Rightarrow> string \<Rightarrow> (payment_connection \<times> c2b_payload) act"
where
  "c2b_bind gw connection_id raw_payload query_params capability =
     bind (get_connection_by_id connection_id) (\<lambda>found.
     case found of
       None \<Rightarrow> raise (WebhookRejectedError ''C2B connection does not exist'')
     | Some connection \<Rightarrow>
         (case map_of query_params ''token'' of
            Some (c # cs) \<Rightarrow>
              bind (ensure (constant_time_equal (c # cs)
                      (connection_callback_token gw (pc_id connection) (pc_provider_code connection)
                         (pc_environment connection)))
                (WebhookRejectedError ''C2B callback token is invalid'')) (\<lambda>_.
              bind (registry_get gw (pc_provider_code connection) (pc_environment connection)) (\<lambda>adapter.
              bind (ensure (supports adapter capability)
                (WebhookRejectedError ''C2B is not supported by this connection'')) (\<lambda>_.
              bind (lift (if capability = ''C2B_VALIDATION'' then ad_parse_c2b_validation adapter raw_payload
                          else ad_parse_c2b_confirmation adapter raw_payload)) (\<lambda>parsed.
              ret (connection, parsed)))))
          | _ \<Rightarrow> raise (WebhookRejectedError ''C2B callback token is missing'')))"

text \<open>\<open>str(value)\<close> of a credential; the schema admits texts only.\<close>

definition credential_text :: "json option \<Rightarrow> string" where
  "credential_text v = (case v of Some (JsStr s) \<Rightarrow> s | Some (JsInt i) \<Rightarrow> int_str i | _ \<Rightarrow> ''None'')"

definition short_code_matches :: "gateway \<Rightarrow> payment_connection \<Rightarrow> c2b_payload \<Rightarrow> bool act" where
  "short_code_matches gw connection parsed =
     (case (c2_is_parseable parsed, c2_business_short_code parsed) of
        (True, Some short_code) \<Rightarrow>
          bind (registry_get gw (pc_provider_code connection) (pc_environment connection)) (\<lambda>adapter.
          case open_credentials gw connection (pc_chama_id connection) of
            Inl _ \<Rightarrow> ret False
          | Inr payload \<Rightarrow>
              bind (lift (ad_decrypted_credentials adapter payload (context_of connection (pc_chama_id connection))))
                (\<lambda>shaped. ret (credential_text (map_of shaped ''short_code'') = short_code)))
      | _ \<Rightarrow> ret False)"

section \<open>Events\<close>

definition VALIDATION_EVENT_PREFIX :: string where "VALIDATION_EVENT_PREFIX = ''C2B_VALIDATION:''"
definition CONFIRMATION_EVENT_PREFIX :: string where "CONFIRMATION_EVENT_PREFIX = ''C2B_CONFIRMATION:''"

definition c2b_duplicate :: "payment_event \<Rightarrow> string \<Rightarrow> payment_event act" where
  "c2b_duplicate existing digest =
     finish_event (pe_id existing) (if pe_payload_hash existing \<noteq> digest then EV_DISAGREEMENT else EV_DEDUPLICATED)"

definition c2b_event_id :: "string \<Rightarrow> c2b_payload \<Rightarrow> string option" where
  "c2b_event_id event_prefix parsed =
     (case (c2_is_parseable parsed, c2_transaction_id parsed) of
        (True, Some (c # cs)) \<Rightarrow> Some (event_prefix @ c # cs)
      | _ \<Rightarrow> None)"

definition c2b_store_event ::
  "gateway \<Rightarrow> payment_connection \<Rightarrow> string \<Rightarrow> c2b_payload \<Rightarrow> string \<Rightarrow> event_status \<Rightarrow> string \<Rightarrow> payment_event act"
where
  "c2b_store_event gw connection raw_payload parsed event_prefix status transition_source =
     (let digest = payload_hash gw raw_payload;
          provider_event_id = c2b_event_id event_prefix parsed
      in
      bind (find_event (pc_id connection) provider_event_id) (\<lambda>existing.
      case existing of
        Some e \<Rightarrow> c2b_duplicate e digest
      | None \<Rightarrow>
          bind uuid4 (\<lambda>i.
          bind (asks utc_now) (\<lambda>now.
          let event =
            \<lparr>pe_id = i, pe_connection_id = pc_id connection, pe_provider_code = pc_provider_code connection,
             pe_environment = pc_environment connection, pe_provider_event_id = provider_event_id,
             pe_payload_hash = digest, pe_raw_payload = raw_payload, pe_status = status,
             pe_received_at = now, pe_processed_at = Some now, pe_last_transition_source = transition_source\<rparr>
          in catch_integrity
               (bind (insert_row event_check (\<lambda>r d. d\<lparr>payment_events := payment_events d @ [r]\<rparr>) event) (\<lambda>_.
                bind commit (\<lambda>_. ret event)))
               (bind rollback (\<lambda>_.
                bind (find_event (pc_id connection) provider_event_id) (\<lambda>existing.
                case existing of
                  Some e \<Rightarrow> c2b_duplicate e digest
                | None \<Rightarrow> raise (IntegrityError ''payment_events''))))))))"

section \<open>Validation\<close>

definition c2b_reference :: "c2b_payload \<Rightarrow> string" where
  "c2b_reference parsed = strip (or_empty (c2_bill_ref_number parsed))"

definition c2b_evaluate :: "gateway \<Rightarrow> payment_connection \<Rightarrow> c2b_payload \<Rightarrow> (bool \<times> string) act" where
  "c2b_evaluate gw connection parsed =
     (if pc_status connection \<noteq> PC_ACTIVE
      then ret (False, ''Rejected: the payment connection is not active'')
      else if \<not> c2_is_parseable parsed
      then ret (False, ''Rejected: the C2B payload could not be parsed'')
      else
        bind (short_code_matches gw connection parsed) (\<lambda>ok.
        if \<not> ok then ret (False, ''Rejected: the business short code does not match this connection'')
        else if c2b_reference parsed = '''' then ret (False, ''Rejected: BillRefNumber is missing'')
        else case parse_int (c2b_reference parsed) of
          None \<Rightarrow> ret (False, ''Rejected: BillRefNumber is not a membership number'')
        | Some number \<Rightarrow>
            bind (get_by_number (pc_chama_id connection) number) (\<lambda>found.
            case found of
              None \<Rightarrow> ret (False, ''Rejected: no member matches this BillRefNumber'')
            | Some m \<Rightarrow>
                if ms_status m \<noteq> MS_ACTIVE then ret (False, ''Rejected: the matching member is not active'')
                else ret (True, ''Accepted: payment for membership number '' @ int_str number))))"

record c2b_decision =
  cd_result_code :: int
  cd_result_description :: string
  cd_accepted :: bool

definition rejected_decision :: "string \<Rightarrow> c2b_decision" where
  "rejected_decision reason = \<lparr>cd_result_code = 1, cd_result_description = reason, cd_accepted = False\<rparr>"

text \<open>\<open>try: m except WebhookRejectedError as exc: h exc\<close>.\<close>

definition catch_rejected :: "'a act \<Rightarrow> (string \<Rightarrow> 'a act) \<Rightarrow> 'a act" where
  "catch_rejected m h s = (case m s of (Inl (WebhookRejectedError r), s') \<Rightarrow> h r s' | r \<Rightarrow> r)"

definition c2b_validate ::
  "gateway \<Rightarrow> uuid \<Rightarrow> string \<Rightarrow> (string \<times> string) list \<Rightarrow> c2b_decision act" where
  "c2b_validate gw connection_id raw_payload query_params =
     bind (asks (cf_payment_webhook_max_body_bytes \<circ> cfg)) (\<lambda>most.
     if most < length raw_payload
     then ret (rejected_decision ''Rejected: callback body exceeds the size limit'')
     else
       bind (catch_rejected
               (bind (c2b_bind gw connection_id raw_payload query_params ''C2B_VALIDATION'') (\<lambda>b. ret (Inr b)))
               (\<lambda>message. ret (Inl message))) (\<lambda>bound.
       case bound of
         Inl message \<Rightarrow> ret (rejected_decision (''Rejected: '' @ message))
       | Inr (connection, parsed) \<Rightarrow>
           bind (c2b_evaluate gw connection parsed) (\<lambda>(accepted, reason).
           bind (c2b_store_event gw connection raw_payload parsed VALIDATION_EVENT_PREFIX
             (if accepted then EV_PROCESSED else EV_REJECTED) ''C2B_VALIDATION'') (\<lambda>_.
           ret \<lparr>cd_result_code = (if accepted then 0 else 1), cd_result_description = reason,
                cd_accepted = accepted\<rparr>))))"

section \<open>Confirmation\<close>

text \<open>
  The amount as the column stores it; an infinity or an amount beyond the column fails in the
  database. The provider sends amounts with at most two decimal places: those are stored as they
  are. (The source keeps further places on the object until the request ends.)
\<close>

definition c2b_cents :: "decimal \<Rightarrow> money act" where
  "c2b_cents amount =
     (case amount of
        Finite q \<Rightarrow> if 10 ^ 18 \<le> quantize 2 q then raise ValueError else ret (quantize 2 q)
      | _ \<Rightarrow> raise ValueError)"

definition c2b_note :: "c2b_payload \<Rightarrow> string" where
  "c2b_note parsed =
     (case c2_transaction_id parsed of Some (c # cs) \<Rightarrow> ''C2B '' @ c # cs | _ \<Rightarrow> ''C2B Paybill'')"

definition settle_confirmation :: "payment_connection \<Rightarrow> c2b_payload \<Rightarrow> event_status act" where
  "settle_confirmation connection parsed =
     (case c2_amount parsed of
        None \<Rightarrow> ret EV_DISAGREEMENT
      | Some amount \<Rightarrow>
          if amount = NaN then raise InvalidOperation
          else if (case amount of Finite q \<Rightarrow> q \<le> 0 | Infinite negative \<Rightarrow> negative | NaN \<Rightarrow> False)
          then ret EV_DISAGREEMENT
          else case parse_int (c2b_reference parsed) of
            None \<Rightarrow> ret EV_DISAGREEMENT
          | Some number \<Rightarrow>
              bind (get_by_number (pc_chama_id connection) number) (\<lambda>found.
              case found of
                None \<Rightarrow> ret EV_DISAGREEMENT
              | Some m \<Rightarrow>
                  if ms_status m \<noteq> MS_ACTIVE then ret EV_DISAGREEMENT
                  else
                    bind (asks (period_of \<circ> utc_now)) (\<lambda>period.
                    bind (find_open_contribution (ms_id m) period) (\<lambda>open'.
                    case open' of
                      None \<Rightarrow>
                        bind (c2b_cents amount) (\<lambda>cents.
                        bind (create_contribution (ms_id m) cents period SYSTEM_USER_UUID None (Some (c2b_note parsed))) (\<lambda>c.
                        bind ensure_system_user (\<lambda>sys.
                        bind (settle c sys True) (\<lambda>_.
                        ret EV_PROCESSED))))
                    | Some c \<Rightarrow>
                        if cn_status c = CN_CONFIRMED \<and> amount = Finite (dec_of_money (cn_amount c)) then ret EV_PROCESSED
                        else if amount \<noteq> Finite (dec_of_money (cn_amount c)) then ret EV_DISAGREEMENT
                        else
                          bind ensure_system_user (\<lambda>sys.
                          bind (settle c sys True) (\<lambda>_.
                          ret EV_PROCESSED))))))"

definition finish_confirmation :: "uuid \<Rightarrow> event_status \<Rightarrow> payment_event act" where
  "finish_confirmation event_id status =
     bind (asks utc_now) (\<lambda>now.
     bind (change (payment_events_update (upd_row pe_id event_id
       (\<lambda>e. e\<lparr>pe_status := status, pe_processed_at := Some now,
              pe_last_transition_source := ''C2B_CONFIRMATION''\<rparr>)))) (\<lambda>_.
     bind commit (\<lambda>_.
     reload_event event_id)))"

definition c2b_confirm ::
  "gateway \<Rightarrow> uuid \<Rightarrow> string \<Rightarrow> (string \<times> string) list \<Rightarrow> payment_event act" where
  "c2b_confirm gw connection_id raw_payload query_params =
     bind (asks (cf_payment_webhook_max_body_bytes \<circ> cfg)) (\<lambda>most.
     bind (ensure (length raw_payload \<le> most)
       (WebhookRejectedError ''C2B confirmation body exceeds the size limit'')) (\<lambda>_.
     bind (c2b_bind gw connection_id raw_payload query_params ''C2B_CONFIRMATION'') (\<lambda>(connection, parsed).
     bind (if pc_status connection \<noteq> PC_ACTIVE \<or> \<not> c2_is_parseable parsed then ret False
           else short_code_matches gw connection parsed) (\<lambda>processable.
     if \<not> processable
     then c2b_store_event gw connection raw_payload parsed CONFIRMATION_EVENT_PREFIX EV_UNPROCESSABLE ''C2B_CONFIRMATION''
     else
       bind (c2b_store_event gw connection raw_payload parsed CONFIRMATION_EVENT_PREFIX EV_RECEIVED ''C2B_CONFIRMATION'')
         (\<lambda>event.
       if pe_status event \<in> {EV_DEDUPLICATED, EV_DISAGREEMENT} then ret event
       else
         bind (catch_integrity (settle_confirmation connection parsed)
           (bind rollback (\<lambda>_. ret EV_DISAGREEMENT))) (\<lambda>final_status.
         finish_confirmation (pe_id event) final_status))))))"

end
