(* ===== verification/Payment_Props.thy ===== *)
theory Payment_Props
  imports Payment_Demo C2B
begin

text \<open>
  The properties of payment intents, attempts and callbacks, each with a witness on the demo
  Chama.
\<close>

section \<open>The collection machine\<close>

text \<open>
  C23. The payment service refines the collection machine \<open>charge\<close>: whatever users and providers do,
  in any order, what a payment intent looks like moves along that machine; its terms stay, its
  attempts are only appended to, and an attempt that succeeded or failed keeps its status.
\<close>

theorem payments_refine_charge:
  assumes run: "served (payments_run p) (\<lambda>_. True) s t" and start: "clean s" "pay_inv (max_attempt_numbers p) (objs s)"
    and x: "find_row pi_id i (intents (objs s)) = Some x"
  shows "\<exists>y. find_row pi_id i (intents (objs t)) = Some y \<and> same_terms x y \<and>
    (charge (max_attempt_numbers p))\<^sup>*\<^sup>*
      (collection_of x (attempts_of (objs s) i)) (collection_of y (attempts_of (objs t) i)) \<and>
    list_all2 keeps_attempt (attempts_of (objs s) i)
      (take (length (attempts_of (objs s) i)) (attempts_of (objs t) i))"
  using payments.served_rel [OF run start] x unfolding pay_rel_def advances_def by blast

text \<open>
  C24. At all times, the attempts of a payment intent are numbered from one without a gap, at most
  the configured number of them, all but the last one failed, and the intent's own status says
  what its last attempt says; a timed-out attempt has no trace at the provider.
\<close>

theorem attempts_in_order:
  assumes run: "served (payments_run p) (\<lambda>_. True) s t" and start: "clean s" "pay_inv (max_attempt_numbers p) (objs s)"
    and y: "find_row pi_id i (intents (objs t)) = Some y" and as: "attempts_of (objs t) i = as"
  shows "map pa_attempt_number as = [1..int (length as)] \<and> int (length as) \<le> max 1 (max_attempt_numbers p) \<and>
    (\<forall>a \<in> set (butlast as). pa_status a = PA_FAILED) \<and>
    (pi_status y = PI_PENDING \<longrightarrow> as = []) \<and>
    (pi_status y = PI_SUCCEEDED \<longleftrightarrow> as \<noteq> [] \<and> pa_status (last as) = PA_SUCCEEDED) \<and>
    (pi_status y = PI_FAILED \<longrightarrow> as \<noteq> [] \<and> pa_status (last as) = PA_FAILED) \<and>
    (\<forall>a \<in> set as. pa_status a = PA_TIMEOUT \<longrightarrow> untraceable (objs t) a)"
  using payments.served_inv [OF run start] pay_invD(4) [of "max_attempt_numbers p" "objs t" i y] y as
    pay_invD(6) [of "max_attempt_numbers p" "objs t"]
  by (auto simp: collection_ok_def timeouts_blind_def attempts_of_def)

text \<open>
  C25. A payment whose charge timed out never ends: no request and no callback changes anything
  of the intent or of its attempts, ever. The intent stays PROCESSING. The same holds of an
  intent that was moved to PROCESSING but got no attempt.
\<close>

theorem timed_out_never_ends:
  assumes run: "served (payments_run p) (\<lambda>_. True) s t" and start: "clean s" "pay_inv (max_attempt_numbers p) (objs s)"
    and x: "find_row pi_id i (intents (objs s)) = Some x" "pi_status x = PI_PROCESSING"
    and a: "attempts_of (objs s) i = [] \<or> pa_status (last (attempts_of (objs s) i)) = PA_TIMEOUT"
  shows "find_row pi_id i (intents (objs t)) = Some x \<and> attempts_of (objs t) i = attempts_of (objs s) i"
proof -
  have "stranded (objs s) i"
  proof (cases "attempts_of (objs s) i = []")
    case False
    then have "last (attempts_of (objs s) i) \<in> set (attempts (objs s))"
      using last_in_set [OF False] by (simp add: attempts_of_def)
    then show ?thesis using a x pay_invD(6) [OF start(2)] by (auto simp: stranded_def timeouts_blind_def untraceable_def)
  qed (simp add: stranded_def x)
  then show ?thesis
    using payments.served_rel [OF run start] x unfolding pay_rel_def advances_def by metis
qed

section \<open>References\<close>

text \<open>
  C27. The search for a client reference ends, after at most as many tries as the connection has
  attempts, with a reference that none of them uses.
\<close>

theorem reference_search_ends:
  "\<exists>r. unique_client_reference connection_id intent_id number s = (Inr r, sync s) \<and>
    r \<notin> set (references_taken connection_id (rows (sync s))) \<and>
    (\<exists>k \<le> length (references_taken connection_id (rows (sync s))).
       r = (if k = 0 then reference_base intent_id number else reference_base intent_id number @ ''-'' @ nat_str k))"
proof -
  obtain k where "k \<le> length (references_taken connection_id (rows (sync s)))"
    "next_reference (references_taken connection_id (rows (sync s))) (reference_base intent_id number) 0
       (reference_base intent_id number) = Some (reference (reference_base intent_id number) k)"
    "reference (reference_base intent_id number) k \<notin> set (references_taken connection_id (rows (sync s)))"
    using next_reference_ends by blast
  then show ?thesis
    by (intro exI [of _ "reference (reference_base intent_id number) k"])
      (auto simp: unique_client_reference_def bind_def scalar_def query_def ret_def reference_def)
qed

section \<open>Events that come back\<close>

text \<open>What finishing an event leaves behind.\<close>

definition finished :: "uuid \<Rightarrow> event_status \<Rightarrow> int \<Rightarrow> db \<Rightarrow> db" where
  "finished i status now d =
     payment_events_update (upd_row pe_id i (\<lambda>e. e\<lparr>pe_status := status, pe_processed_at := Some now\<rparr>)) d"

lemma finish_event_runs:
  assumes "find_row pe_id i (payment_events (objs s)) = Some e"
  shows "finish_event i status s =
    (Inr (e\<lparr>pe_status := status, pe_processed_at := Some (utc_now s)\<rparr>),
     saved (finished i status (utc_now s) (objs s)) (next_uuid s) s)"
proof -
  have "find_row pe_id i (payment_events (finished i status (utc_now s) (objs s))) =
      Some (e\<lparr>pe_status := status, pe_processed_at := Some (utc_now s)\<rparr>)"
    unfolding finished_def using assms by (simp add: find_upd_row)
  then show ?thesis
    by (intro wp_computes) (simp add: finish_event_def reload_event_def wp saved_def finished_def)
qed

lemma find_event_known:
  assumes clean: "clean s" and e: "e \<in> set (payment_events (objs s))" "pe_connection_id e = c"
      "pe_provider_event_id e = Some k" "k \<noteq> []"
    and only: "\<forall>x \<in> set (payment_events (objs s)). pe_connection_id x = c \<and> pe_provider_event_id x = Some k \<longrightarrow> x = e"
  shows "find_event c (Some k) s = (Inr (Some e), s)"
proof -
  obtain b bs where k: "k = b # bs" using e(4) by (cases k) auto
  let ?P = "\<lambda>x. pe_connection_id x = c \<and> pe_provider_event_id x = Some k"
  have "first (filter ?P (payment_events (objs s))) = Some e"
  proof (cases "first (filter ?P (payment_events (objs s)))")
    case None
    then show ?thesis using first_filter_NoneD [OF None e(1)] e by simp
  next
    case (Some x)
    then show ?thesis using first_filter_SomeD [OF Some] only by blast
  qed
  then show ?thesis
    using k by (simp add: find_event_def get_by_connection_event_def select_first_def query_def clean)
qed

lemma event_row:
  assumes "distinct (map pe_id (payment_events d))" and "e \<in> set (payment_events d)"
  shows "find_row pe_id (pe_id e) (payment_events d) = Some e"
  using find_row_unique [of pe_id "payment_events d" e] assms by simp

text \<open>
  C28. A callback that the inbox has already finished, delivered again, only marks its event: as
  DEDUPLICATED when the payload is the same, as DISAGREEMENT when it is not. Nothing else in the
  database changes, so no money moves twice.
\<close>

theorem redelivery_moves_nothing:
  assumes clean: "clean s" and size: "length raw \<le> cf_payment_webhook_max_body_bytes (cfg s)"
    and adapter: "gw_adapters gw code env = Some adapter" "ad_parse_callback adapter raw = Inr parsed"
      "fst (ad_verify_callback adapter raw headers)" "cb_provider_event_id parsed = Some k" "k \<noteq> []"
    and bound: "resolve_connection gw code env parsed params s = (Inr c, s)"
    and e: "e \<in> set (payment_events (objs s))" "pe_connection_id e = pc_id c" "pe_provider_event_id e = Some k"
      "pe_status e \<noteq> EV_RECEIVED" "distinct (map pe_id (payment_events (objs s)))"
    and only: "\<forall>x \<in> set (payment_events (objs s)). pe_connection_id x = pc_id c \<and> pe_provider_event_id x = Some k \<longrightarrow> x = e"
  shows "\<exists>e' t. handle_callback gw code env raw headers params s = (Inr e', t) \<and>
    pe_status e' = (if pe_payload_hash e = payload_hash gw raw then EV_DEDUPLICATED else EV_DISAGREEMENT) \<and>
    objs t = finished (pe_id e) (pe_status e') (utc_now s) (objs s) \<and> durable t = objs t # durable s"
proof -
  let ?st = "if pe_payload_hash e = payload_hash gw raw then EV_DEDUPLICATED else EV_DISAGREEMENT"
  have row: "find_row pe_id (pe_id e) (payment_events (objs s)) = Some e" by (rule event_row [OF e(5,1)])
  have "store_event gw c parsed raw s = finish_event (pe_id e) ?st s"
    unfolding store_event_def Let_def adapter(4)
    using find_event_known [OF clean e(1-3) adapter(5) only] e(4) by (simp add: bind_def resolve_duplicate_def)
  then have stored: "store_event gw c parsed raw s =
      (Inr (e\<lparr>pe_status := ?st, pe_processed_at := Some (utc_now s)\<rparr>), saved (finished (pe_id e) ?st (utc_now s) (objs s)) (next_uuid s) s)"
    unfolding finish_event_runs [OF row] .
  have "handle_callback gw code env raw headers params s =
      (Inr (e\<lparr>pe_status := ?st, pe_processed_at := Some (utc_now s)\<rparr>), saved (finished (pe_id e) ?st (utc_now s) (objs s)) (next_uuid s) s)"
    using size adapter(1-3) bound stored
    by (simp add: handle_callback_def bind_def asks_def ensure_def ret_def registry_get_def lift_def)
  then show ?thesis by simp
qed

text \<open>
  C29. A C2B confirmation whose event is already stored is never settled, not even when the event
  is still RECEIVED because the process died before it settled it: the redelivery marks the event
  DEDUPLICATED (or DISAGREEMENT) and changes nothing else.
\<close>

theorem c2b_redelivery_never_settles:
  assumes clean: "clean s" and size: "length raw \<le> cf_payment_webhook_max_body_bytes (cfg s)"
    and bound: "c2b_bind gw connection_id raw params ''C2B_CONFIRMATION'' s = (Inr (c, parsed), s)"
    and parsed: "c2_is_parseable parsed" "c2_transaction_id parsed = Some k" "k \<noteq> []" "pc_status c = PC_ACTIVE"
    and code: "short_code_matches gw c parsed s = (Inr True, s)"
    and e: "e \<in> set (payment_events (objs s))" "pe_connection_id e = pc_id c"
      "pe_provider_event_id e = Some (CONFIRMATION_EVENT_PREFIX @ k)" "distinct (map pe_id (payment_events (objs s)))"
    and only: "\<forall>x \<in> set (payment_events (objs s)). pe_connection_id x = pc_id c \<and>
      pe_provider_event_id x = Some (CONFIRMATION_EVENT_PREFIX @ k) \<longrightarrow> x = e"
  shows "\<exists>e' t. c2b_confirm gw connection_id raw params s = (Inr e', t) \<and>
    pe_status e' = (if pe_payload_hash e = payload_hash gw raw then EV_DEDUPLICATED else EV_DISAGREEMENT) \<and>
    objs t = finished (pe_id e) (pe_status e') (utc_now s) (objs s) \<and> durable t = objs t # durable s"
proof -
  let ?st = "if pe_payload_hash e = payload_hash gw raw then EV_DEDUPLICATED else EV_DISAGREEMENT"
  obtain b bs where k: "k = b # bs" using parsed(3) by (cases k) auto
  have row: "find_row pe_id (pe_id e) (payment_events (objs s)) = Some e" by (rule event_row [OF e(4,1)])
  have id: "c2b_event_id CONFIRMATION_EVENT_PREFIX parsed = Some (CONFIRMATION_EVENT_PREFIX @ k)"
    using parsed k by (simp add: c2b_event_id_def)
  have "CONFIRMATION_EVENT_PREFIX @ k \<noteq> []" using k by simp
  then have "c2b_store_event gw c raw parsed CONFIRMATION_EVENT_PREFIX EV_RECEIVED ''C2B_CONFIRMATION'' s = finish_event (pe_id e) ?st s"
    unfolding c2b_store_event_def Let_def id
    using find_event_known [OF clean e(1-3) _ only] by (simp add: bind_def c2b_duplicate_def)
  then have stored: "c2b_store_event gw c raw parsed CONFIRMATION_EVENT_PREFIX EV_RECEIVED ''C2B_CONFIRMATION'' s =
      (Inr (e\<lparr>pe_status := ?st, pe_processed_at := Some (utc_now s)\<rparr>), saved (finished (pe_id e) ?st (utc_now s) (objs s)) (next_uuid s) s)"
    unfolding finish_event_runs [OF row] .
  have "c2b_confirm gw connection_id raw params s =
      (Inr (e\<lparr>pe_status := ?st, pe_processed_at := Some (utc_now s)\<rparr>), saved (finished (pe_id e) ?st (utc_now s) (objs s)) (next_uuid s) s)"
    using size bound parsed code stored
    by (simp add: c2b_confirm_def bind_def asks_def ensure_def ret_def)
  then show ?thesis by simp
qed

section \<open>One charge at a time\<close>

text \<open>The gateway whose adapters answer a charge by \<open>f\<close> and are the same in everything else.\<close>

definition with_charge ::
  "(credentials \<Rightarrow> attempt_request \<Rightarrow> connection_context \<Rightarrow> err + attempt_result) \<Rightarrow> gateway \<Rightarrow> gateway" where
  "with_charge f gw =
     gw\<lparr>gw_adapters := \<lambda>c e. map_option (\<lambda>a. a\<lparr>ad_create_payment_attempt := f\<rparr>) (gw_adapters gw c e)\<rparr>"

text \<open>A status query that does not tell how the charge ended.\<close>

definition undecided :: "err + status_result \<Rightarrow> bool" where
  "undecided r \<longleftrightarrow> (case r of Inl _ \<Rightarrow> True | Inr x \<Rightarrow> sr_normalized_status x \<in> {PT_PENDING, PT_UNKNOWN})"

lemma registry_with_charge:
  "bind (registry_get (with_charge f gw) c e) h = bind (registry_get gw c e) (\<lambda>a. h (a\<lparr>ad_create_payment_attempt := f\<rparr>))"
  by (rule ext) (simp add: registry_get_def with_charge_def bind_def ret_def raise_def split: option.split)

lemma open_with_charge: "open_credentials (with_charge f gw) = open_credentials gw"
  by (simp add: open_credentials_def with_charge_def fun_eq_iff)

lemma with_charge_same:
  "active_connection (with_charge f gw) = active_connection gw"
  "shaped_credentials (with_charge f gw) = shaped_credentials gw"
  "query_and_resolve (with_charge f gw) = query_and_resolve gw"
proof -
  show "active_connection (with_charge f gw) = active_connection gw"
    by (simp add: fun_eq_iff active_connection_def registry_with_charge supports_def cong: option.case_cong)
  show "shaped_credentials (with_charge f gw) = shaped_credentials gw"
    by (simp add: fun_eq_iff shaped_credentials_def registry_with_charge open_with_charge split: sum.split)
  show "query_and_resolve (with_charge f gw) = query_and_resolve gw"
    by (simp add: fun_eq_iff query_and_resolve_def registry_with_charge split: option.split list.split)
qed

text \<open>Two programs that do the same from a session, commit nothing and leave the attempts alone.\<close>

definition quiet :: "sess \<Rightarrow> sess \<Rightarrow> bool" where
  "quiet s t \<longleftrightarrow> durable t = durable s \<and> attempts (objs t) = attempts (objs s)"

definition agree :: "sess \<Rightarrow> 'a act \<Rightarrow> 'a act \<Rightarrow> bool" where
  "agree s m m' \<longleftrightarrow> m s = m' s \<and> quiet s (snd (m s))"

lemma quiet_refl [simp]: "quiet s s"
  by (simp add: quiet_def)

lemma agree_bind:
  "wp m (\<lambda>x t. t = s \<and> agree s (g x) (g' x)) (\<lambda>_. quiet s) s \<Longrightarrow> agree s (bind m g) (bind m g')"
  by (cases "m s"; cases "fst (m s)") (auto simp: agree_def bind_def wp_def)

lemma agree_raise [simp]: "agree s (raise e) (raise e)"
  by (simp add: agree_def raise_def)

lemma at_start: "agree s m m' \<Longrightarrow> s = s \<and> agree s m m'"
  by simp

lemma query_undecided:
  assumes clean: "clean s" and ids: "distinct (map pt_id (provider_transactions (objs s)))"
    and silent: "\<forall>c e a. gw_adapters gw c e = Some a \<longrightarrow> (\<forall>cr i r cx. undecided (ad_query_payment_status a cr i r cx))"
  shows "wp (query_and_resolve gw a c sh ctx) (\<lambda>r t. r = False \<and> durable t = durable s \<and> attempts (objs t) = attempts (objs s))
    (\<lambda>_ t. durable t = durable s \<and> attempts (objs t) = attempts (objs s)) s"
proof -
  have noted: "wp (note_transaction i k g) (\<lambda>_ t. durable t = durable s \<and> attempts (objs t) = attempts (objs s))
      (\<lambda>_ t. durable t = durable s \<and> attempts (objs t) = attempts (objs s)) s" for i k g
    by (simp add: note_transaction_def get_transaction_by_attempt_def wp clean split: option.split)
  show ?thesis
  proof (cases "pa_provider_request_id a")
    case (Some x)
    show ?thesis
    proof (cases x; cases "gw_adapters gw (pc_provider_code c) (pc_environment c)")
      fix b bs ad
      assume x: "x = b # bs" and ad: "gw_adapters gw (pc_provider_code c) (pc_environment c) = Some ad"
      have u: "undecided (ad_query_payment_status ad sh (b # bs) (pa_client_reference a) ctx)" using silent ad by blast
      show ?thesis
      proof (cases "ad_query_payment_status ad sh (b # bs) (pa_client_reference a) ctx")
        case (Inl e)
        then show ?thesis using Some x ad by (cases e) (simp_all add: query_and_resolve_def wp)
      next
        case (Inr r)
        then have "sr_normalized_status r \<noteq> PT_SUCCEEDED" "sr_normalized_status r \<noteq> PT_FAILED" using u by (auto simp: undecided_def)
        then show ?thesis using Some x ad Inr by (auto simp: query_and_resolve_def wp intro!: wp_mono [OF noted])
      qed
    qed (simp_all add: query_and_resolve_def Some wp)
  qed (simp add: query_and_resolve_def wp)
qed

text \<open>
  C26. While the outcome of a charge is open and the provider cannot tell it, initiating the payment
  again never asks for another charge: the request ends the same way whatever the provider would
  answer to one, commits nothing and adds no attempt.
\<close>

theorem no_second_charge_while_open:
  assumes clean: "clean s" and inv: "pay_inv most (objs s)"
    and x: "find_row pi_id iid (intents (objs s)) = Some x"
    and last: "attempts_of (objs s) iid = as @ [a]" "open_attempt a"
    and silent: "\<forall>c e ad. gw_adapters gw c e = Some ad \<longrightarrow> (\<forall>cr i r cx. undecided (ad_query_payment_status ad cr i r cx))"
  shows "initiate (with_charge f gw) allowed actor cid iid connection_id s = initiate gw allowed actor cid iid connection_id s \<and>
    durable (snd (initiate gw allowed actor cid iid connection_id s)) = durable s \<and>
    attempts (objs (snd (initiate gw allowed actor cid iid connection_id s))) = attempts (objs s)"
proof -
  have proc: "pi_status x = PI_PROCESSING"
    by (rule open_processing(1) [of most x as a]) (use pay_invD(4) [OF inv x] last in simp_all)
  have "pa_status a \<noteq> PA_SUCCEEDED" "pa_status a \<in> {PA_INITIATED, PA_TIMEOUT, PA_UNKNOWN}"
    using last(2) by (auto simp: open_attempt_def)
  then have main: "agree s (continue_attempts gw iid c sh ctx a actor) (continue_attempts (with_charge f gw) iid c sh ctx a actor)" for c sh ctx
  proof -
    have "wp (query_and_resolve gw a c sh ctx) (\<lambda>r t. r = False \<and> quiet s t) (\<lambda>_. quiet s) s"
      unfolding quiet_def by (rule query_undecided [OF clean pay_invD(3) [OF inv] silent])
    then show ?thesis
      using \<open>pa_status a \<noteq> PA_SUCCEEDED\<close> \<open>pa_status a \<in> _\<close>
      by (auto simp: agree_def continue_attempts_def with_charge_same bind_def wp_def reload_attempt_def get_by_key_def asks_def raise_def ret_def
        split: sum.splits prod.splits option.splits)
  qed
  have chosen: "wp (active_connection gw k c) Q (\<lambda>_. quiet s) s" if "\<And>x. Q x s" for k c Q
    using that by (simp add: active_connection_def get_connection_in_chama_def wp clean split: option.split)
  have opened: "wp (shaped_credentials gw c k) Q (\<lambda>_. quiet s) s" if "\<And>x. Q x s" for k c Q
    using that by (simp add: shaped_credentials_def wp clean split: option.split sum.split)
  have limit: "wp (check_initiate_rate_limit allowed) Q (\<lambda>_. quiet s) s" if "Q () s" for Q
    using that by (simp add: check_initiate_rate_limit_def wp)
  have target: "wp (get_target_membership k j) Q (\<lambda>_. quiet s) s" if "\<And>x. Q x s" for k j Q
    using that by (simp add: wp split: option.split)
  have ensured: "wp (ensure b e) Q (\<lambda>_. quiet s) s" if "Q () s" for b e Q
    using that by (simp add: wp)
  have own: "wp (require_own_or_leadership m k r) Q (\<lambda>_. quiet s) s" if "Q () s" for m k r Q
    using that by (simp add: wp_require_own_or_leadership clean)
  have listed: "wp (list_for_intent iid) Q (\<lambda>_. quiet s) s" if "Q (as @ [a]) s" for Q
    using that attempts_numbered [OF inv x] last(1) by (simp add: wp_list_for_intent clean)
  have "agree s (initiate gw allowed actor cid iid connection_id) (initiate (with_charge f gw) allowed actor cid iid connection_id)"
    unfolding initiate_def with_charge_same
  proof (rule agree_bind, rule wp_intent_chama [OF clean], rule at_start, rule agree_bind,
      simp add: get_intent_in_chama_def wp_select_first clean, goal_cases)
    case (1 ch m)
    show ?case
    proof (cases "first (filter (\<lambda>i. pi_id i = iid \<and> pi_chama_id i = ch_id ch) (intents (objs s)))")
      case (Some y)
      then have y: "y = x" using find_first_chama [OF Some pay_invD(1) [OF inv]] x by simp
      have id: "pi_id x = iid" by (rule find_row_key [OF x])
      have live: "(pi_status x = PI_SUCCEEDED) = False" "pi_status x \<noteq> PI_FAILED" using proc by simp_all
      show ?thesis
        unfolding Some option.case y id Let_def live if_False
        by (rule agree_bind, rule wp_write_again [OF clean], rule at_start)
          (intro agree_bind own ensured chosen limit target opened at_start listed, simp_all add: main)
    qed simp
  qed simp_all
  then show ?thesis unfolding agree_def quiet_def by metis
qed

section \<open>Sealed credentials\<close>

text \<open>
  C30. Sealed credentials open to exactly what was sealed, for the connection, Chama, provider,
  environment and credential version they were sealed for, also after the key was rotated as long
  as its version is kept; in any other context they do not open. Of AES-GCM it is used that
  decryption with the key, nonce and associated data of the encryption gives the plaintext back
  and that other associated data are refused.
\<close>

theorem sealed_credentials_bound:
  assumes opens: "\<And>key nonce m aad. length key = 32 \<Longrightarrow> length nonce = NONCE_BYTES \<Longrightarrow>
      ae_decrypt ae key nonce (ae_encrypt ae key nonce m aad) aad = Some m"
    and refuses: "\<And>key nonce m aad aad'. length key = 32 \<Longrightarrow> length nonce = NONCE_BYTES \<Longrightarrow> aad' \<noteq> aad \<Longrightarrow>
      ae_decrypt ae key nonce (ae_encrypt ae key nonce m aad) aad' = None"
    and sealed: "seal ae kr nonce payload c = Inr blob" and nonce: "length nonce = NONCE_BYTES"
    and payload: "canonical (JsObj payload)" and fit: "ids_fit c" "ids_fit c'"
    and kept: "key_for_version kr' (kr_version kr) = current_key kr"
  shows "open_sealed ae kr' blob c' = (if c' = c then Inr payload else Inl CredentialCipherError)"
proof -
  obtain key where key: "current_key kr = Some key" "blob =
      dumps (JsObj [(''cv'', JsInt CIPHER_VERSION), (''kv'', JsInt (kr_version kr)), (''n'', JsStr (b64encode nonce)),
        (''c'', JsStr (b64encode (ae_encrypt ae key nonce (dumps (JsObj payload)) (build_aad c))))])"
    using sealed by (auto simp: seal_def Let_def split: option.splits)
  have len: "length key = 32"
    using key(1) by (auto simp: current_key_def check_key_def split: option.splits if_splits)
  have env: "parse_envelope blob = Some (kr_version kr, nonce, ae_encrypt ae key nonce (dumps (JsObj payload)) (build_aad c))"
    unfolding key(2) by (rule parse_seal_envelope)
  show ?thesis
  proof (cases "c' = c")
    case True
    then show ?thesis
      using env nonce kept key(1) opens [OF len nonce] loads_dumps [OF payload] by (simp add: open_sealed_def)
  next
    case False
    then have "build_aad c' \<noteq> build_aad c" using build_aad_inject fit by metis
    then show ?thesis using env nonce kept key(1) refuses [OF len nonce] False by (simp add: open_sealed_def)
  qed
qed

section \<open>Witnesses\<close>

text \<open>The demo intent after its first charge timed out.\<close>

definition timed_out_op :: "gateway \<times> payment_op" where
  "timed_out_op = (demo_gateway timed_out unanswered nothing_parsed, Initiate True 80 70)"

definition timed_out_session :: sess where
  "timed_out_session = snd (request (payments_run demo_settings alice 10 timed_out_op) charge_session)"

lemma timed_out_served: "served (payments_run demo_settings) (\<lambda>_. True) charge_session timed_out_session"
  unfolding timed_out_session_def by (intro served.intros) simp

lemma charge_session_cfg: "charge_session\<lparr>cfg := demo_settings\<rparr> = charge_session"
  by (simp add: charge_session_def fresh_session_def)

lemma timed_out_objs:
  "\<exists>a. attempts (objs timed_out_session) = [a] \<and> pa_status a = PA_TIMEOUT \<and> pa_payment_intent_id a = 80 \<and>
     intents (objs timed_out_session) = [moved PI_PROCESSING SRC_CLIENT (Some 23) demo_intent]"
proof -
  let ?m = "initiate (demo_gateway timed_out unanswered nothing_parsed) True alice 10 80 70"
  note w = demo_initiate [of unanswered nothing_parsed]
  then have "returns ?m charge_session" unfolding returns_wp by (rule wp_mono) simp_all
  then have run: "?m charge_session = (Inr (result_of ?m charge_session), after ?m charge_session)" by (rule returnsD)
  note t = wp_InrD [OF w run]
  have "payments_run demo_settings alice 10 timed_out_op charge_session = (Inr (), after ?m charge_session)"
    using run by (simp add: payments_run_def configured_def charge_session_cfg timed_out_op_def bind_def ret_def del: demo_row_simps)
  then have "objs timed_out_session = objs (after ?m charge_session)"
    using request_closed(1) [where m = "payments_run demo_settings alice 10 timed_out_op" and s = charge_session] t
    unfolding timed_out_session_def by simp
  with t show ?thesis by auto
qed

theorem payments_refine_charge_witness:
  "\<exists>y. find_row pi_id 80 (intents (objs timed_out_session)) = Some y \<and>
    (charge 4)\<^sup>*\<^sup>* Due (collection_of y (attempts_of (objs timed_out_session) 80))"
  using payments_refine_charge [OF timed_out_served, of 80 demo_intent]
  by (auto simp: find_row_Cons attempts_of_def collection_of_def)

theorem attempts_in_order_witness:
  "int (length (attempts_of (objs timed_out_session) 80)) \<le> 4 \<and>
   list_all (untraceable (objs timed_out_session)) (attempts_of (objs timed_out_session) 80)"
proof -
  obtain a where a: "attempts (objs timed_out_session) = [a]" "pa_status a = PA_TIMEOUT" "pa_payment_intent_id a = 80"
    "intents (objs timed_out_session) = [moved PI_PROCESSING SRC_CLIENT (Some 23) demo_intent]"
    using timed_out_objs by blast
  have "find_row pi_id 80 (intents (objs timed_out_session)) = Some (moved PI_PROCESSING SRC_CLIENT (Some 23) demo_intent)"
    by (simp add: a find_row_Cons)
  from attempts_in_order [OF timed_out_served _ _ this refl] show ?thesis
    by (simp add: attempts_of_def a)
qed

text \<open>The provider's late success, and another try, change nothing.\<close>

definition late_success :: "gateway \<times> payment_op" where
  "late_success =
     (demo_gateway accepted unanswered
        (nothing_parsed\<lparr>cb_provider_event_id := Some ''R1'', cb_provider_request_id := Some ''R1'',
           cb_normalized_status := Some PT_SUCCEEDED\<rparr>), Callback DARAJA SANDBOX ''body'' [] [])"

definition tried_again :: sess where
  "tried_again = snd (request (payments_run demo_settings alice 10
     (demo_gateway accepted unanswered nothing_parsed, Initiate True 80 70))
     (snd (request (payments_run demo_settings alice 10 late_success) timed_out_session)))"

theorem timed_out_never_ends_witness:
  "\<exists>a. attempts_of (objs tried_again) 80 = [a] \<and> pa_status a = PA_TIMEOUT"
proof -
  obtain a where a: "attempts (objs timed_out_session) = [a]" "pa_status a = PA_TIMEOUT" "pa_payment_intent_id a = 80"
    "intents (objs timed_out_session) = [moved PI_PROCESSING SRC_CLIENT (Some 23) demo_intent]"
    using timed_out_objs by blast
  have run: "served (payments_run demo_settings) (\<lambda>_. True) timed_out_session tried_again"
    unfolding tried_again_def by (intro served.intros) simp_all
  have start: "clean timed_out_session" "pay_inv (max_attempt_numbers demo_settings) (objs timed_out_session)"
    using payments.served_good [OF timed_out_served] by simp_all
  have "find_row pi_id 80 (intents (objs timed_out_session)) = Some (moved PI_PROCESSING SRC_CLIENT (Some 23) demo_intent)"
    by (simp add: a find_row_Cons)
  from timed_out_never_ends [OF run start this] show ?thesis
    by (simp add: attempts_of_def a)
qed

text \<open>An event of the demo connection, on a session that has nothing else.\<close>

definition demo_event :: "uuid \<Rightarrow> string \<Rightarrow> event_status \<Rightarrow> payment_event" where
  "demo_event i k status =
     \<lparr>pe_id = i, pe_connection_id = 70, pe_provider_code = DARAJA, pe_environment = SANDBOX,
      pe_provider_event_id = Some k, pe_payload_hash = ''body'', pe_raw_payload = ''body'', pe_status = status,
      pe_received_at = 900000, pe_processed_at = None, pe_last_transition_source = ''PROVIDER_CALLBACK''\<rparr>"

definition event_session :: "payment_event \<Rightarrow> sess" where
  "event_session e =
     fresh_session False False demo_settings (DateTime 2026 3 1 0) 1000000 1000 (charge_db\<lparr>payment_events := [e]\<rparr>)"

lemma event_session_simps [simp]:
  "objs (event_session e) = charge_db\<lparr>payment_events := [e]\<rparr>" "clean (event_session e)"
  "cf_payment_webhook_max_body_bytes (cfg (event_session e)) = 65536" "utc_now (event_session e) = 1000000"
  by (simp_all add: event_session_def demo_settings_def) (simp_all add: fresh_session_def)

lemma demo_event_simps [simp]:
  "pe_id (demo_event i k status) = i" "pe_connection_id (demo_event i k status) = 70"
  "pe_provider_event_id (demo_event i k status) = Some k" "pe_payload_hash (demo_event i k status) = ''body''"
  "pe_status (demo_event i k status) = status"
  by (simp_all add: demo_event_def)

definition demo_params :: "(string \<times> string) list" where
  "demo_params = [(''token'', ''chamacore-callback-token-v1chama''), (''connection_id'', ''00000000-0000-0000-0000-000000000046'')]"

lemma demo_token [simp]:
  "connection_callback_token (demo_gateway charged status callback) 70 DARAJA SANDBOX = ''chamacore-callback-token-v1chama''"
  by (simp add: connection_callback_token_def CALLBACK_NONCE_PREFIX_def)

lemma demo_uuid: "parse_uuid ''00000000-0000-0000-0000-000000000046'' = Some 70"
  by code_simp

lemma demo_bound:
  "resolve_connection (demo_gateway charged status callback) DARAJA SANDBOX p demo_params (event_session e) =
     (Inr demo_connection, event_session e)"
  by (rule wp_computes)
    (simp add: resolve_connection_def demo_params_def demo_uuid get_connection_by_id_def find_row_Cons
      constant_time_equal_def check_connection_match_def wp)

lemma demo_payload_hash: "payload_hash (demo_gateway charged status callback) raw = raw"
  by (simp add: payload_hash_def)

theorem redelivery_moves_nothing_witness:
  "\<exists>e' t. handle_callback (demo_gateway accepted unanswered
       (nothing_parsed\<lparr>cb_provider_event_id := Some ''R1'', cb_normalized_status := Some PT_SUCCEEDED\<rparr>)) DARAJA SANDBOX
     ''body'' [] demo_params (event_session (demo_event 90 ''R1'' EV_PROCESSED)) = (Inr e', t) \<and>
     pe_status e' = EV_DEDUPLICATED \<and> intents (objs t) = [demo_intent]"
proof -
  let ?p = "nothing_parsed\<lparr>cb_provider_event_id := Some ''R1'', cb_normalized_status := Some PT_SUCCEEDED\<rparr>"
  let ?gw = "demo_gateway accepted unanswered ?p" and ?e = "demo_event 90 ''R1'' EV_PROCESSED"
  obtain e' t where "handle_callback ?gw DARAJA SANDBOX ''body'' [] demo_params (event_session ?e) = (Inr e', t)"
    "pe_status e' = EV_DEDUPLICATED" "objs t = finished 90 EV_DEDUPLICATED 1000000 (objs (event_session ?e))"
    using redelivery_moves_nothing [of "event_session ?e" "''body''" ?gw DARAJA SANDBOX "demo_adapter accepted unanswered ?p" ?p "[]" "''R1''"
      demo_params demo_connection ?e] demo_bound
    by (auto simp: demo_payload_hash)
  then show ?thesis by (simp add: finished_def)
qed

definition c2b_gateway :: gateway where
  "c2b_gateway = (demo_gateway accepted unanswered nothing_parsed)
     \<lparr>gw_adapters := \<lambda>_ _. Some ((demo_adapter accepted unanswered nothing_parsed)
        \<lparr>ad_spec := demo_spec\<lparr>sp_capabilities := [''C2B_CONFIRMATION'']\<rparr>,
         ad_decrypted_credentials := (\<lambda>_ _. Inr [(''short_code'', JsStr ''600000'')]),
         ad_parse_c2b_confirmation := (\<lambda>_. Inr (unparseable_c2b\<lparr>c2_is_parseable := True,
           c2_transaction_id := Some ''T1'', c2_business_short_code := Some ''600000'',
           c2_amount := Some (Finite 1500), c2_bill_ref_number := Some ''3''\<rparr>))\<rparr>)\<rparr>"

theorem c2b_redelivery_never_settles_witness:
  "\<exists>e' t. c2b_confirm c2b_gateway 70 ''body'' demo_params (event_session (demo_event 90 ''C2B_CONFIRMATION:T1'' EV_RECEIVED)) = (Inr e', t) \<and>
     pe_status e' = EV_DEDUPLICATED \<and> contributions (objs t) = []"
proof -
  let ?e = "demo_event 90 ''C2B_CONFIRMATION:T1'' EV_RECEIVED"
  let ?p = "unparseable_c2b\<lparr>c2_is_parseable := True,
           c2_transaction_id := Some ''T1'', c2_business_short_code := Some ''600000'',
           c2_amount := Some (Finite 1500), c2_bill_ref_number := Some ''3''\<rparr>"
  have token: "connection_callback_token c2b_gateway 70 DARAJA SANDBOX = ''chamacore-callback-token-v1chama''"
    using demo_token [of accepted unanswered nothing_parsed] by (simp add: c2b_gateway_def connection_callback_token_def)
  have bound: "c2b_bind c2b_gateway 70 ''body'' demo_params ''C2B_CONFIRMATION'' (event_session ?e) = (Inr (demo_connection, ?p), event_session ?e)"
    by (rule wp_computes)
      (simp add: c2b_bind_def demo_params_def get_connection_by_id_def find_row_Cons constant_time_equal_def token wp,
        simp add: c2b_gateway_def supports_def wp)
  have code: "short_code_matches c2b_gateway demo_connection ?p (event_session ?e) = (Inr True, event_session ?e)"
    by (rule wp_computes)
      (simp add: short_code_matches_def wp, simp add: c2b_gateway_def open_credentials_def credential_text_def wp)
  obtain e' t where "c2b_confirm c2b_gateway 70 ''body'' demo_params (event_session ?e) = (Inr e', t)"
    "pe_status e' = EV_DEDUPLICATED" "objs t = finished 90 EV_DEDUPLICATED 1000000 (objs (event_session ?e))"
    using c2b_redelivery_never_settles [OF _ _ bound _ _ _ _ code, of "''T1''" ?e]
    by (auto simp: CONFIRMATION_EVENT_PREFIX_def c2b_gateway_def payload_hash_def)
  then show ?thesis by (simp add: finished_def)
qed

text \<open>The timed-out demo intent, once more; the provider would accept a second charge.\<close>

theorem no_second_charge_while_open_witness:
  "attempts (objs (snd (initiate (with_charge (\<lambda>_ _ _. accepted) (demo_gateway timed_out unanswered nothing_parsed))
     True alice 10 80 70 timed_out_session))) = attempts (objs timed_out_session)"
proof -
  obtain a where a: "attempts (objs timed_out_session) = [a]" "pa_status a = PA_TIMEOUT" "pa_payment_intent_id a = 80"
    "intents (objs timed_out_session) = [moved PI_PROCESSING SRC_CLIENT (Some 23) demo_intent]"
    using timed_out_objs by blast
  have start: "clean timed_out_session" "pay_inv 4 (objs timed_out_session)"
    using payments.served_good [OF timed_out_served] by simp_all
  have x: "find_row pi_id 80 (intents (objs timed_out_session)) = Some (moved PI_PROCESSING SRC_CLIENT (Some 23) demo_intent)"
    by (simp add: a find_row_Cons)
  have last: "attempts_of (objs timed_out_session) 80 = [] @ [a]" "open_attempt a" by (simp_all add: attempts_of_def a open_attempt_def)
  from no_second_charge_while_open [OF start x last, of "demo_gateway timed_out unanswered nothing_parsed" "\<lambda>_ _ _. accepted" True alice 10 70]
  show ?thesis by (simp add: undecided_def unanswered_def)
qed

text \<open>
  A cipher that keeps its laws: the associated data go along with the plaintext and are compared.
\<close>

definition tagging_aead :: aead where
  "tagging_aead =
     \<lparr>ae_encrypt = (\<lambda>key nonce m aad. replicate (length aad) (CHR ''a'') @ ''z'' @ aad @ m),
      ae_decrypt = (\<lambda>key nonce x aad.
        let n = length (takeWhile (\<lambda>c. c = CHR ''a'') x); rest = drop (Suc n) x
        in if take n rest = aad then Some (drop n rest) else None)\<rparr>"

definition demo_seal_context :: seal_context where
  "demo_seal_context = \<lparr>sc_chama_id = 10, sc_provider_code = DARAJA, sc_environment = SANDBOX,
     sc_credential_version = 1, sc_connection_id = 70\<rparr>"

text \<open>A newer key became the current one; the old one is kept under its version.\<close>

definition rotated_ring :: key_ring where
  "rotated_ring = \<lparr>kr_key = ''B'' @ replicate 42 (CHR ''A'') @ ''='', kr_version = 2,
     kr_keys = [(''1'', replicate 43 (CHR ''A'') @ ''='')]\<rparr>"

theorem sealed_credentials_bound_witness:
  "\<exists>blob. seal tagging_aead demo_ring (replicate 12 (CHR ''n'')) [(''passkey'', JsStr ''s3cret'')] demo_seal_context = Inr blob \<and>
     open_sealed tagging_aead rotated_ring blob demo_seal_context = Inr [(''passkey'', JsStr ''s3cret'')] \<and>
     open_sealed tagging_aead rotated_ring blob (demo_seal_context\<lparr>sc_chama_id := 11\<rparr>) = Inl CredentialCipherError"
proof -
  have taken: "takeWhile (\<lambda>c. c = CHR ''a'') (replicate n (CHR ''a'') @ CHR ''z'' # xs) = replicate n (CHR ''a'')" for n xs
    by (induction n) simp_all
  have laws: "ae_decrypt tagging_aead key nonce (ae_encrypt tagging_aead key nonce m aad) aad = Some m"
    "aad' \<noteq> aad \<Longrightarrow> ae_decrypt tagging_aead key nonce (ae_encrypt tagging_aead key nonce m aad) aad' = None"
    for key nonce m aad aad' by (simp_all add: tagging_aead_def taken Let_def)
  have key: "current_key demo_ring = Some (replicate 32 (CHR 0x00))" by code_simp
  have kept: "key_for_version rotated_ring (kr_version demo_ring) = current_key demo_ring" by code_simp
  obtain blob where blob: "seal tagging_aead demo_ring (replicate 12 (CHR ''n'')) [(''passkey'', JsStr ''s3cret'')] demo_seal_context = Inr blob"
    by (simp add: seal_def key Let_def)
  have payload: "canonical (JsObj [(''passkey'', JsStr ''s3cret'')])" by simp
  have fit: "ids_fit demo_seal_context" "ids_fit (demo_seal_context\<lparr>sc_chama_id := 11\<rparr>)"
    by (simp_all add: ids_fit_def demo_seal_context_def)
  have "open_sealed tagging_aead rotated_ring blob c' =
      (if c' = demo_seal_context then Inr [(''passkey'', JsStr ''s3cret'')] else Inl CredentialCipherError)" if "ids_fit c'" for c'
    by (rule sealed_credentials_bound [OF _ _ blob _ payload fit(1) that kept]) (simp_all add: laws NONCE_BYTES_def)
  moreover have "demo_seal_context\<lparr>sc_chama_id := 11\<rparr> \<noteq> demo_seal_context" by (simp add: demo_seal_context_def)
  ultimately show ?thesis using blob fit by simp
qed

end
