(* ===== verification/Connections.thy ===== *)
theory Connections
  imports Payment_Webhooks
begin

text \<open>
  The lifecycle of provider connections (\<open>app/services/payment_connection.py\<close>): credentials are
  sealed before they are stored, a connection becomes ACTIVE by validation, and is disabled or
  deleted by the chairperson. Nonces and the answers of the two limiters are arguments.
\<close>

section \<open>Credentials and repositories\<close>

datatype provider_credentials =
    JengaCredentials string string string "string option"
  | DarajaCredentials string string string string

text \<open>\<open>_credential_payload\<close>: the fields that were given, in the order of the schema.\<close>

fun credential_payload :: "provider_credentials \<Rightarrow> credentials" where
  "credential_payload (JengaCredentials api_key merchant_code consumer_secret signing) =
     [(''api_key'', JsStr api_key), (''merchant_code'', JsStr merchant_code),
      (''consumer_secret'', JsStr consumer_secret)] @
     (case signing of None \<Rightarrow> [] | Some k \<Rightarrow> [(''signing_private_key'', JsStr k)])"
| "credential_payload (DarajaCredentials consumer_key consumer_secret short_code passkey) =
     [(''consumer_key'', JsStr consumer_key), (''consumer_secret'', JsStr consumer_secret),
      (''short_code'', JsStr short_code), (''passkey'', JsStr passkey)]"

definition get_by_provider_environment ::
  "uuid \<Rightarrow> provider_code \<Rightarrow> payment_environment \<Rightarrow> payment_connection option act" where
  "get_by_provider_environment chama_id code environment =
     select_first connections (\<lambda>c. pc_chama_id c = chama_id \<and> pc_provider_code c = code \<and>
       pc_environment c = environment)"

text \<open>Ordered by the stored values of provider and environment.\<close>

definition connections_of_chama :: "uuid \<Rightarrow> nat option \<Rightarrow> nat \<Rightarrow> payment_connection list act" where
  "connections_of_chama chama_id limit offset =
     bind (select_all connections (\<lambda>c. pc_chama_id c = chama_id)) (\<lambda>cs.
     ret (page limit offset
       (sort_key (\<lambda>c. provider_code_value (pc_provider_code c))
         (sort_key (\<lambda>c. environment_value (pc_environment c)) cs))))"

definition connection_check :: "db \<Rightarrow> payment_connection \<Rightarrow> string option" where
  "connection_check d c =
     (if list_ex (\<lambda>e. pc_id e = pc_id c) (connections d) then Some ''payment_connections_pkey''
      else if list_ex (\<lambda>e. pc_chama_id e = pc_chama_id c \<and> pc_provider_code e = pc_provider_code c \<and>
                            pc_environment e = pc_environment c) (connections d)
      then Some ''uq_payment_connections_chama_provider_environment'' else None)"

definition set_connection :: "uuid \<Rightarrow> (payment_connection \<Rightarrow> payment_connection) \<Rightarrow> unit act" where
  "set_connection i f = change (connections_update (upd_row pc_id i f))"

definition reload_connection :: "uuid \<Rightarrow> payment_connection act" where
  "reload_connection i =
     bind (get_connection_by_id i) (\<lambda>found.
     case found of None \<Rightarrow> raise AttributeError | Some c \<Rightarrow> ret c)"

section \<open>Shared steps\<close>

definition chairperson_chama :: "user \<Rightarrow> uuid \<Rightarrow> chama act" where
  "chairperson_chama actor chama_id =
     bind (get_chama_or_404 chama_id) (\<lambda>chama.
     bind (authorize_chama_write actor (ch_id chama)) (\<lambda>m.
     bind (require_role m CHAIRPERSON) (\<lambda>_.
     ret chama)))"

definition connection_adapter :: "gateway \<Rightarrow> provider_code \<Rightarrow> payment_environment \<Rightarrow> adapter act" where
  "connection_adapter gw code environment =
     (case gw_adapters gw code environment of
        None \<Rightarrow> raise (StateError ''This payment provider is not supported'')
      | Some a \<Rightarrow> ret a)"

definition connection_audit ::
  "payment_connection \<Rightarrow> user \<Rightarrow> connection_audit_action \<Rightarrow> connection_status option \<Rightarrow>
     connection_status option \<Rightarrow> unit act" where
  "connection_audit connection actor action previous_status new_status =
     change (\<lambda>d. d\<lparr>connection_audits := connection_audits d @
       [\<lparr>cu_connection_id = pc_id connection, cu_actor_user_id = us_id actor, cu_action = action,
         cu_previous_status = previous_status, cu_new_status = new_status,
         cu_credential_version = pc_credential_version connection\<rparr>]\<rparr>)"

definition business_audit :: "user \<Rightarrow> uuid \<Rightarrow> string \<Rightarrow> uuid \<Rightarrow> payload option \<Rightarrow> unit act" where
  "business_audit actor chama_id action connection_id payload =
     audit_record (Some (us_id actor)) (Some chama_id) action ''payment_connection'' (Some connection_id) payload True"

definition seal_for ::
  "gateway \<Rightarrow> string \<Rightarrow> credentials \<Rightarrow> uuid \<Rightarrow> provider_code \<Rightarrow> payment_environment \<Rightarrow> int \<Rightarrow> uuid \<Rightarrow> err + string"
where
  "seal_for gw nonce payload chama_id code environment version connection_id =
     seal (gw_aead gw) (gw_key_ring gw) nonce payload
       \<lparr>sc_chama_id = chama_id, sc_provider_code = code, sc_environment = environment,
        sc_credential_version = version, sc_connection_id = connection_id\<rparr>"

definition find_chama_connection :: "uuid \<Rightarrow> uuid \<Rightarrow> payment_connection act" where
  "find_chama_connection chama_id connection_id =
     bind (get_connection_in_chama chama_id connection_id) (\<lambda>found.
     case found of
       None \<Rightarrow> raise (StateError ''Payment connection not found in this Chama'')
     | Some c \<Rightarrow> ret c)"

section \<open>Creation\<close>

definition duplicate_connection :: err where
  "duplicate_connection = ConflictError ''This Chama already has a connection for this provider and environment''"

definition create_connection ::
  "gateway \<Rightarrow> string \<Rightarrow> user \<Rightarrow> uuid \<Rightarrow> provider_code \<Rightarrow> payment_environment \<Rightarrow> provider_credentials \<Rightarrow>
     payment_connection act" where
  "create_connection gw nonce actor chama_id code environment given =
     bind (chairperson_chama actor chama_id) (\<lambda>chama.
     bind (connection_adapter gw code environment) (\<lambda>adapter.
     bind (get_by_provider_environment (ch_id chama) code environment) (\<lambda>existing.
     bind (ensure (existing = None) duplicate_connection) (\<lambda>_.
     bind uuid4 (\<lambda>i.
     bind (lift (seal_for gw nonce (credential_payload given) (ch_id chama) code environment 1 i)) (\<lambda>blob.
     let connection =
       \<lparr>pc_id = i, pc_chama_id = ch_id chama, pc_provider_code = code, pc_environment = environment,
        pc_status = PC_PENDING_VALIDATION, pc_encrypted_credentials = blob, pc_encryption_key_version = 1,
        pc_credential_version = 1,
        pc_masked_account_identifier = ad_masked_account_identifier adapter (credential_payload given),
        pc_last_validated_at = None, pc_last_validation_error_code = None,
        pc_created_by_user_id = us_id actor, pc_updated_by_user_id = us_id actor\<rparr> in
     bind (insert_row connection_check (\<lambda>r d. d\<lparr>connections := connections d @ [r]\<rparr>) connection) (\<lambda>_.
     bind (connection_audit connection actor CA_CREATED None (Some PC_PENDING_VALIDATION)) (\<lambda>_.
     bind (business_audit actor (ch_id chama) PAYMENT_CONNECTION_CREATED i
       (Some [(''provider'', JStr (provider_code_value code)), (''environment'', JStr (environment_value environment))]))
       (\<lambda>_.
     bind (catch_integrity commit (bind rollback (\<lambda>_. raise duplicate_connection))) (\<lambda>_.
     reload_connection i))))))))))"

section \<open>Reads\<close>

definition list_connections :: "user \<Rightarrow> uuid \<Rightarrow> nat option \<Rightarrow> nat \<Rightarrow> payment_connection list act" where
  "list_connections actor chama_id limit offset =
     bind (intent_chama actor chama_id) (\<lambda>chama.
     connections_of_chama (ch_id chama) limit offset)"

definition get_connection :: "user \<Rightarrow> uuid \<Rightarrow> uuid \<Rightarrow> payment_connection act" where
  "get_connection actor chama_id connection_id =
     bind (intent_chama actor chama_id) (\<lambda>_.
     find_chama_connection chama_id connection_id)"

section \<open>Replacement\<close>

definition replace_connection ::
  "gateway \<Rightarrow> string \<Rightarrow> user \<Rightarrow> uuid \<Rightarrow> uuid \<Rightarrow> provider_credentials \<Rightarrow> payment_connection act" where
  "replace_connection gw nonce actor chama_id connection_id given =
     bind (chairperson_chama actor chama_id) (\<lambda>chama.
     bind (find_chama_connection (ch_id chama) connection_id) (\<lambda>connection.
     bind (connection_adapter gw (pc_provider_code connection) (pc_environment connection)) (\<lambda>adapter.
     let next_version = pc_credential_version connection + 1 in
     bind (lift (seal_for gw nonce (credential_payload given) (ch_id chama) (pc_provider_code connection)
       (pc_environment connection) next_version (pc_id connection))) (\<lambda>blob.
     bind (set_connection (pc_id connection) (\<lambda>c. c\<lparr>pc_encrypted_credentials := blob,
       pc_credential_version := next_version,
       pc_masked_account_identifier := ad_masked_account_identifier adapter (credential_payload given),
       pc_last_validation_error_code := None, pc_updated_by_user_id := us_id actor,
       pc_status := PC_PENDING_VALIDATION\<rparr>)) (\<lambda>_.
     bind (reload_connection (pc_id connection)) (\<lambda>renewed.
     bind (connection_audit renewed actor CA_CREDENTIALS_REPLACED (Some (pc_status connection))
       (Some PC_PENDING_VALIDATION)) (\<lambda>_.
     bind (business_audit actor (ch_id chama) PAYMENT_CONNECTION_CREDENTIALS_REPLACED (pc_id connection)
       (Some [(''credential_version'', JInt next_version)])) (\<lambda>_.
     bind commit (\<lambda>_.
     reload_connection (pc_id connection))))))))))"

section \<open>Validation\<close>

definition is_some_text :: "string option \<Rightarrow> bool" where
  "is_some_text x \<longleftrightarrow> x \<noteq> None \<and> x \<noteq> Some ''''"

text \<open>What a validation assigns: an outcome is the error code of a failure, or a success.\<close>

definition validated ::
  "int \<Rightarrow> user \<Rightarrow> string + string option \<Rightarrow> payment_connection \<Rightarrow> payment_connection" where
  "validated now actor outcome c =
     (case outcome of
        Inl code \<Rightarrow>
          c\<lparr>pc_status := (if pc_status c = PC_DISABLED then PC_DISABLED else PC_INVALID),
            pc_last_validated_at := Some now, pc_last_validation_error_code := Some code,
            pc_updated_by_user_id := us_id actor\<rparr>
      | Inr masked \<Rightarrow>
          c\<lparr>pc_status := (if pc_status c = PC_DISABLED then PC_DISABLED else PC_ACTIVE),
            pc_masked_account_identifier :=
              (if is_some_text masked then the masked else pc_masked_account_identifier c),
            pc_last_validated_at := Some now, pc_last_validation_error_code := None,
            pc_updated_by_user_id := us_id actor\<rparr>)"

definition validation_outcome :: "adapter \<Rightarrow> gateway \<Rightarrow> payment_connection \<Rightarrow> uuid \<Rightarrow> (string + string option) act" where
  "validation_outcome adapter gw connection chama_id =
     (case open_credentials gw connection chama_id of
        Inl CredentialCipherError \<Rightarrow> ret (Inl ''DECRYPT_FAILED'')
      | Inl e \<Rightarrow> raise e
      | Inr payload \<Rightarrow>
          (case ad_validate_credentials adapter payload (context_of connection chama_id) of
             Inl CredentialCipherError \<Rightarrow> ret (Inl ''DECRYPT_FAILED'')
           | Inl (UnknownProviderError _ _) \<Rightarrow> ret (Inl ''PROVIDER_UNSUPPORTED'')
           | Inl e \<Rightarrow> raise e
           | Inr result \<Rightarrow>
               if vr_valid result then ret (Inr (vr_masked_account_identifier result))
               else ret (Inl (if is_some_text (vr_error_code result) then the (vr_error_code result)
                              else ''VALIDATION_FAILED''))))"

definition validate_connection :: "gateway \<Rightarrow> bool \<Rightarrow> user \<Rightarrow> uuid \<Rightarrow> uuid \<Rightarrow> payment_connection act" where
  "validate_connection gw allowed actor chama_id connection_id =
     bind (chairperson_chama actor chama_id) (\<lambda>chama.
     bind (find_chama_connection (ch_id chama) connection_id) (\<lambda>connection.
     bind (ensure (pc_status connection \<noteq> PC_ACTIVE) (StateError ''Payment connection is already active'')) (\<lambda>_.
     bind (ensure allowed
       (RateLimitError ''Too many validation attempts for this connection; try again shortly'')) (\<lambda>_.
     bind (connection_adapter gw (pc_provider_code connection) (pc_environment connection)) (\<lambda>adapter.
     bind (asks utc_now) (\<lambda>now.
     bind (validation_outcome adapter gw connection (ch_id chama)) (\<lambda>outcome.
     bind (set_connection (pc_id connection) (validated now actor outcome)) (\<lambda>_.
     bind (reload_connection (pc_id connection)) (\<lambda>checked.
     bind (connection_audit checked actor (if pc_status connection = PC_DISABLED then CA_TESTED else CA_VALIDATED)
       None (Some (pc_status checked))) (\<lambda>_.
     bind (business_audit actor (ch_id chama) PAYMENT_CONNECTION_VALIDATED (pc_id connection)
       (Some [(''status'', JStr (connection_status_value (pc_status checked)))])) (\<lambda>_.
     bind (if pc_status checked = PC_ACTIVE
           then business_audit actor (ch_id chama) PAYMENT_CONNECTION_ENABLED (pc_id connection) None else ret ()) (\<lambda>_.
     bind commit (\<lambda>_.
     reload_connection (pc_id connection))))))))))))))"

section \<open>C2B registration\<close>

record c2b_register_out =
  co_accepted :: bool
  co_response_code :: string
  co_response_description :: string
  co_validation_url :: string
  co_confirmation_url :: string

definition c2b_url :: "gateway \<Rightarrow> payment_connection \<Rightarrow> string \<Rightarrow> string act" where
  "c2b_url gw connection kind =
     asks (\<lambda>s. rstrip_char (CHR ''/'') (cf_public_base_url (cfg s)) @ ''/'' @
       strip_char (CHR ''/'') (cf_api_v1_prefix (cfg s)) @ ''/payments/c2b/'' @ kind @ ''/'' @
       uuid_str (pc_id connection) @ ''?token='' @
       connection_callback_token gw (pc_id connection) (pc_provider_code connection) (pc_environment connection))"

definition register_call ::
  "adapter \<Rightarrow> gateway \<Rightarrow> payment_connection \<Rightarrow> uuid \<Rightarrow> string \<Rightarrow> string \<Rightarrow> string \<Rightarrow> c2b_register_result act" where
  "register_call adapter gw connection chama_id validation_url confirmation_url response_type =
     (case open_credentials gw connection chama_id of
        Inl CredentialCipherError \<Rightarrow> raise (StateError ''Connection credentials could not be decrypted'')
      | Inl e \<Rightarrow> raise e
      | Inr payload \<Rightarrow>
          (case map_of payload ''short_code'' of
             None \<Rightarrow> raise (StateError ''Connection credentials are missing the short code'')
           | Some short_code \<Rightarrow>
               (case ad_register_c2b_urls adapter payload
                       \<lparr>cr_short_code = short_code, cr_validation_url = validation_url,
                        cr_confirmation_url = confirmation_url, cr_response_type = response_type\<rparr>
                       (context_of connection chama_id) of
                  Inl CredentialCipherError \<Rightarrow> raise (StateError ''Connection credentials could not be decrypted'')
                | Inl KeyError \<Rightarrow> raise (StateError ''Connection credentials are missing the short code'')
                | Inl (ProviderIntegrationError code _) \<Rightarrow>
                    raise (StateError (''C2B Register-URL was rejected by the provider ('' @ code @
                      ''); the shortcode still answers the old URLs''))
                | Inl (ProviderTimeoutError code _) \<Rightarrow>
                    raise (StateError (''C2B Register-URL was rejected by the provider ('' @ code @
                      ''); the shortcode still answers the old URLs''))
                | Inl e \<Rightarrow> raise e
                | Inr result \<Rightarrow> ret result)))"

definition register_c2b_urls ::
  "gateway \<Rightarrow> bool \<Rightarrow> user \<Rightarrow> uuid \<Rightarrow> uuid \<Rightarrow> string \<Rightarrow> c2b_register_out act" where
  "register_c2b_urls gw allowed actor chama_id connection_id response_type =
     bind (chairperson_chama actor chama_id) (\<lambda>chama.
     bind (find_chama_connection (ch_id chama) connection_id) (\<lambda>connection.
     bind (ensure (pc_provider_code connection = DARAJA)
       (StateError ''C2B Register-URL activation is only supported for Daraja'')) (\<lambda>_.
     bind (ensure allowed
       (RateLimitError ''Too many register-url attempts for this connection; try again shortly'')) (\<lambda>_.
     bind (c2b_url gw connection ''validate'') (\<lambda>validation_url.
     bind (c2b_url gw connection ''confirm'') (\<lambda>confirmation_url.
     bind (connection_adapter gw (pc_provider_code connection) (pc_environment connection)) (\<lambda>adapter.
     bind (register_call adapter gw connection (ch_id chama) validation_url confirmation_url response_type) (\<lambda>result.
     bind (audit_record_commit (Some (us_id actor)) (Some (ch_id chama)) C2B_REGISTRATION ''payment_connection''
       (Some (pc_id connection)) (Some [(''accepted'', JBool (ce_accepted result))]) True) (\<lambda>_.
     ret \<lparr>co_accepted = ce_accepted result, co_response_code = or_empty (ce_response_code result),
          co_response_description = or_empty (ce_response_description result),
          co_validation_url = validation_url, co_confirmation_url = confirmation_url\<rparr>)))))))))"

section \<open>Disabling and deletion\<close>

definition disable_connection :: "user \<Rightarrow> uuid \<Rightarrow> uuid \<Rightarrow> payment_connection act" where
  "disable_connection actor chama_id connection_id =
     bind (chairperson_chama actor chama_id) (\<lambda>chama.
     bind (find_chama_connection (ch_id chama) connection_id) (\<lambda>connection.
     if pc_status connection = PC_DISABLED then ret connection
     else
       bind (set_connection (pc_id connection) (\<lambda>c. c\<lparr>pc_status := PC_DISABLED, pc_updated_by_user_id := us_id actor\<rparr>)) (\<lambda>_.
       bind (connection_audit connection actor CA_DISABLED (Some (pc_status connection)) (Some PC_DISABLED)) (\<lambda>_.
       bind (business_audit actor (ch_id chama) PAYMENT_CONNECTION_DISABLED (pc_id connection)
         (Some [(''previous_status'', JStr (connection_status_value (pc_status connection)))])) (\<lambda>_.
       bind commit (\<lambda>_.
       reload_connection (pc_id connection)))))))"

definition has_payment_history :: "uuid \<Rightarrow> bool act" where
  "has_payment_history connection_id =
     bind (scalar (\<lambda>d. length (filter (\<lambda>a. pa_connection_id a = connection_id) (attempts d)))) (\<lambda>n.
     bind (scalar (\<lambda>d. length (filter (\<lambda>e. pe_connection_id e = connection_id) (payment_events d)))) (\<lambda>m.
     ret (n \<noteq> 0 \<or> m \<noteq> 0)))"

text \<open>
  The foreign key of the audit rows cascades (\<open>ON DELETE CASCADE\<close>); SQLite does not enforce it
  unless told to, which no code does.
\<close>

definition delete_row :: "uuid \<Rightarrow> unit act" where
  "delete_row i =
     bind (asks is_sqlite) (\<lambda>lite.
     change (\<lambda>d. d\<lparr>connections := filter (\<lambda>c. pc_id c \<noteq> i) (connections d),
       connection_audits := (if lite then connection_audits d
         else filter (\<lambda>a. cu_connection_id a \<noteq> i) (connection_audits d))\<rparr>))"

definition delete_connection :: "user \<Rightarrow> uuid \<Rightarrow> uuid \<Rightarrow> unit act" where
  "delete_connection actor chama_id connection_id =
     bind (chairperson_chama actor chama_id) (\<lambda>chama.
     bind (find_chama_connection (ch_id chama) connection_id) (\<lambda>connection.
     bind (has_payment_history (pc_id connection)) (\<lambda>used.
     bind (ensure (\<not> used) (ConflictError
       ''This connection has payment history and cannot be deleted; disable it instead'')) (\<lambda>_.
     bind (connection_audit connection actor CA_DELETED (Some (pc_status connection)) None) (\<lambda>_.
     bind (business_audit actor (ch_id chama) PAYMENT_CONNECTION_DELETED (pc_id connection)
       (Some [(''status'', JStr (connection_status_value (pc_status connection)))])) (\<lambda>_.
     bind (delete_row (pc_id connection)) (\<lambda>_.
     commit)))))))"

end
