(* ===== verification/Platform.thy ===== *)
theory Platform
  imports Governance Strings
begin

text \<open>
  Platform administration (\<open>app/services/platform.py\<close>, the repositories \<open>user_platform_role\<close>
  and \<open>user\<close>): the holders of the global \<open>PLATFORM_ADMIN\<close> grant list and search accounts and
  Chamas, move a Chama along its lifecycle, activate and deactivate accounts and hand the grant
  on. Every operation opens with \<open>require_platform_admin\<close>. Responses leave out the time stamps
  of the server.
\<close>

section \<open>Repositories\<close>

text \<open>
  SQL's \<open>LIKE\<close>: \<open>%\<close> stands for any text, \<open>_\<close> for any character, a backslash takes the next
  character as it is. \<open>ilike\<close> compares without case.
\<close>

fun like_match :: "string \<Rightarrow> string \<Rightarrow> bool" where
  "like_match [] s \<longleftrightarrow> s = []"
| "like_match (p # ps) [] \<longleftrightarrow> p = CHR ''%'' \<and> like_match ps []"
| "like_match (p # ps) (c # s) \<longleftrightarrow>
     (if p = CHR ''%'' then like_match ps (c # s) \<or> like_match (p # ps) s
      else if p = CHR ''_'' then like_match ps s
      else if p = CHR 0x5C then (case ps of [] \<Rightarrow> False | q # qs \<Rightarrow> q = c \<and> like_match qs s)
      else p = c \<and> like_match ps s)"

definition ilike :: "string \<Rightarrow> string \<Rightarrow> bool" where
  "ilike value pattern \<longleftrightarrow> like_match (lower pattern) (lower value)"

definition search_pattern :: "string \<Rightarrow> string" where
  "search_pattern q = ''%'' @ strip q @ ''%''"

text \<open>The outer join gives an account at most one member row; a missing one matches nothing.\<close>

definition user_matches :: "string \<Rightarrow> member list \<Rightarrow> user \<Rightarrow> bool" where
  "user_matches pattern ms u \<longleftrightarrow>
     ilike (us_email u) pattern \<or>
     list_ex (\<lambda>m. us_member_id u = Some (mb_id m) \<and>
        (ilike (mb_phone_number m) pattern \<or> ilike (mb_government_id m) pattern)) ms"

definition search_accounts :: "string \<Rightarrow> nat \<Rightarrow> nat \<Rightarrow> user list act" where
  "search_accounts q limit offset =
     query (\<lambda>rs os. take limit (drop offset (rev (entities users (user_matches (search_pattern q) (members rs)) rs os))))"

definition get_user_by_id :: "uuid \<Rightarrow> user option act" where
  "get_user_by_id i = get_by_key users us_id i"

definition user_has_role :: "uuid \<Rightarrow> role_name \<Rightarrow> bool act" where
  "user_has_role user_id role = scalar (\<lambda>d. holds_platform_role d user_id role)"

definition list_grants_for_user :: "uuid \<Rightarrow> user_platform_role list act" where
  "list_grants_for_user user_id = select_all platform_roles (\<lambda>pr. pr_user_id pr = user_id)"

definition list_admin_user_ids :: "role_name \<Rightarrow> uuid list act" where
  "list_admin_user_ids role =
     scalar (\<lambda>d. map pr_user_id (filter (\<lambda>pr. pr_role pr = role) (platform_roles d)))"

definition get_grant :: "uuid \<Rightarrow> role_name \<Rightarrow> user_platform_role option act" where
  "get_grant user_id role = select_first platform_roles (\<lambda>pr. pr_user_id pr = user_id \<and> pr_role pr = role)"

definition platform_role_check :: "db \<Rightarrow> user_platform_role \<Rightarrow> string option" where
  "platform_role_check d pr =
     (if list_ex (\<lambda>e. pr_user_id e = pr_user_id pr \<and> pr_role e = pr_role pr) (platform_roles d)
      then Some ''uq_user_platform_roles_user_role'' else None)"

definition insert_grant :: "uuid \<Rightarrow> role_name \<Rightarrow> uuid option \<Rightarrow> int \<Rightarrow> unit act" where
  "insert_grant user_id role granted_by granted_at =
     insert_row platform_role_check (\<lambda>r d. d\<lparr>platform_roles := platform_roles d @ [r]\<rparr>)
       \<lparr>pr_user_id = user_id, pr_role = role, pr_granted_by_user_id = granted_by, pr_granted_at = granted_at\<rparr>"

section \<open>Responses\<close>

record platform_chama_out =
  pco_id :: uuid
  pco_name :: string
  pco_description :: "string option"
  pco_status :: chama_status
  pco_created_by_user_id :: uuid
  pco_owner_name :: "string option"
  pco_owner_email :: string
  pco_owner_phone :: "string option"
  pco_membership_count :: nat
  pco_active_member_count :: nat

record platform_user_out =
  puo_id :: uuid
  puo_email :: string
  puo_is_active :: bool
  puo_must_change_password :: bool
  puo_member_id :: "uuid option"
  puo_member_name :: "string option"
  puo_member_phone :: "string option"
  puo_platform_roles :: "role_name list"

record platform_stats_out =
  pst_total_chamas :: nat
  pst_active_chamas :: nat
  pst_pending_chamas :: nat
  pst_suspended_chamas :: nat
  pst_dissolved_chamas :: nat
  pst_total_users :: nat
  pst_total_members :: nat
  pst_platform_admins :: nat

text \<open>\<open>user.member\<close>, the relationship.\<close>

definition member_of :: "user \<Rightarrow> member option act" where
  "member_of u = (case us_member_id u of None \<Rightarrow> ret None | Some i \<Rightarrow> get_by_key members mb_id i)"

definition full_name :: "member \<Rightarrow> string" where
  "full_name m = mb_first_name m @ '' '' @ mb_last_name m"

definition chama_out :: "chama \<Rightarrow> platform_chama_out act" where
  "chama_out c =
     bind (get_user_by_id (ch_created_by_user_id c)) (\<lambda>found.
     case found of
       None \<Rightarrow> raise AttributeError
     | Some owner \<Rightarrow>
         bind (member_of owner) (\<lambda>m.
         bind (scalar (\<lambda>d. length (filter (\<lambda>s. ms_chama_id s = ch_id c) (memberships d)))) (\<lambda>n.
         bind (scalar (\<lambda>d. length (filter (\<lambda>s. ms_chama_id s = ch_id c \<and> ms_status s = MS_ACTIVE) (memberships d))))
           (\<lambda>active.
         ret \<lparr>pco_id = ch_id c, pco_name = ch_name c, pco_description = ch_description c, pco_status = ch_status c,
              pco_created_by_user_id = ch_created_by_user_id c, pco_owner_name = map_option full_name m,
              pco_owner_email = us_email owner, pco_owner_phone = map_option mb_phone_number m,
              pco_membership_count = n, pco_active_member_count = active\<rparr>))))"

definition user_out :: "user \<Rightarrow> platform_user_out act" where
  "user_out u =
     bind (member_of u) (\<lambda>m.
     bind (list_grants_for_user (us_id u)) (\<lambda>grants.
     ret \<lparr>puo_id = us_id u, puo_email = us_email u, puo_is_active = us_is_active u,
          puo_must_change_password = us_must_change_password u, puo_member_id = us_member_id u,
          puo_member_name = map_option full_name m, puo_member_phone = map_option mb_phone_number m,
          puo_platform_roles = map pr_role grants\<rparr>))"

text \<open>\<open>[f(x) for x in xs]\<close>.\<close>

fun collect :: "('a \<Rightarrow> 'b act) \<Rightarrow> 'a list \<Rightarrow> 'b list act" where
  "collect f [] = ret []"
| "collect f (x # xs) = bind (f x) (\<lambda>y. bind (collect f xs) (\<lambda>ys. ret (y # ys)))"

definition get_user_or_404 :: "uuid \<Rightarrow> user act" where
  "get_user_or_404 i =
     bind (get_user_by_id i) (\<lambda>found.
     case found of None \<Rightarrow> raise (NotFoundError ''User not found'') | Some u \<Rightarrow> ret u)"

definition reload_user :: "uuid \<Rightarrow> user act" where
  "reload_user i =
     bind (get_user_by_id i) (\<lambda>found. case found of None \<Rightarrow> raise ValueError | Some u \<Rightarrow> ret u)"

section \<open>The lifecycle of a Chama\<close>

definition TERMINAL_STATUSES :: "chama_status list" where
  "TERMINAL_STATUSES = [CH_DISSOLVED]"

definition ALLOWED_TRANSITIONS :: "chama_status \<Rightarrow> chama_status list" where
  "ALLOWED_TRANSITIONS st =
     (case st of
        CH_PENDING \<Rightarrow> [CH_ACTIVE, CH_SUSPENDED, CH_DISSOLVED]
      | CH_ACTIVE \<Rightarrow> [CH_SUSPENDED, CH_DISSOLVED]
      | CH_SUSPENDED \<Rightarrow> [CH_ACTIVE, CH_DISSOLVED]
      | CH_DISSOLVED \<Rightarrow> []
      | CH_INACTIVE \<Rightarrow> [CH_ACTIVE, CH_SUSPENDED, CH_DISSOLVED])"

definition canonical_status :: "chama_status \<Rightarrow> chama_status" where
  "canonical_status st = (if st = CH_INACTIVE then CH_SUSPENDED else st)"

definition list_chamas :: "user \<Rightarrow> chama_status option \<Rightarrow> string option \<Rightarrow> nat option \<Rightarrow> nat \<Rightarrow> platform_chama_out list act"
where
  "list_chamas actor status search limit offset =
     bind (require_platform_admin actor) (\<lambda>_.
     bind (select_all chamas (\<lambda>c.
       (case status of None \<Rightarrow> True | Some st \<Rightarrow> ch_status c = st) \<and>
       (case search of None \<Rightarrow> True
        | Some q \<Rightarrow> q = '''' \<or> ilike (ch_name c) (search_pattern q)))) (\<lambda>cs.
     collect chama_out (page limit offset (rev cs))))"

definition platform_get_chama :: "user \<Rightarrow> uuid \<Rightarrow> platform_chama_out act" where
  "platform_get_chama actor chama_id =
     bind (require_platform_admin actor) (\<lambda>_.
     bind (get_chama_or_404 chama_id) chama_out)"

definition update_chama_status ::
  "user \<Rightarrow> uuid \<Rightarrow> chama_status \<Rightarrow> string option \<Rightarrow> platform_chama_out act" where
  "update_chama_status actor chama_id status reason =
     bind (require_platform_admin actor) (\<lambda>_.
     bind (get_chama_or_404 chama_id) (\<lambda>chama.
     let current = canonical_status (ch_status chama); target = canonical_status status
     in if current = target then chama_out chama
        else
          bind (ensure (current \<notin> set TERMINAL_STATUSES) (StateError ''A dissolved Chama cannot change status'')) (\<lambda>_.
          bind (ensure (target \<in> set (ALLOWED_TRANSITIONS current))
            (StateError (''A Chama cannot move from '' @ chama_status_value current @ '' to '' @
               chama_status_value target))) (\<lambda>_.
          bind (change (chamas_update (upd_row ch_id (ch_id chama) (ch_status_update (\<lambda>_. status))))) (\<lambda>_.
          bind commit (\<lambda>_.
          bind (audit_record_commit (Some (us_id actor)) (Some (ch_id chama)) PLATFORM_CHAMA_STATUS_CHANGE ''chama''
            (Some (ch_id chama))
            (Some [(''from'', JStr (chama_status_value (ch_status chama))), (''to'', JStr (chama_status_value status)),
                   (''reason'', jstr_opt reason)]) True) (\<lambda>_.
          bind (reload_chama (ch_id chama)) chama_out)))))))"

section \<open>Accounts and grants\<close>

definition list_admins :: "user \<Rightarrow> platform_user_out list act" where
  "list_admins actor =
     bind (require_platform_admin actor) (\<lambda>_.
     bind (list_admin_user_ids PLATFORM_ADMIN) (\<lambda>ids.
     bind (collect get_user_by_id ids) (\<lambda>found.
     collect user_out (List.map_filter id found))))"

definition search_users :: "user \<Rightarrow> string \<Rightarrow> nat \<Rightarrow> nat \<Rightarrow> platform_user_out list act" where
  "search_users actor search limit offset =
     bind (require_platform_admin actor) (\<lambda>_.
     bind (search_accounts search limit offset) (collect user_out))"

definition platform_require_password_change :: "user \<Rightarrow> uuid \<Rightarrow> platform_user_out act" where
  "platform_require_password_change actor user_id =
     bind (require_platform_admin actor) (\<lambda>_.
     bind (get_user_or_404 user_id) (\<lambda>target.
     bind (change (users_update (upd_row us_id (us_id target) (us_must_change_password_update (\<lambda>_. True))))) (\<lambda>_.
     bind commit (\<lambda>_.
     bind (audit_record_commit (Some (us_id actor)) None PLATFORM_USER_PASSWORD_CHANGE_REQUIRED ''user''
       (Some (us_id target)) None True) (\<lambda>_.
     bind (reload_user (us_id target)) user_out)))))"

text \<open>The holders of a role whose account is active, in the order of their grants.\<close>

definition active_admins :: "uuid list act" where
  "active_admins =
     bind (list_admin_user_ids PLATFORM_ADMIN) (\<lambda>ids.
     asks (\<lambda>s. filter (\<lambda>i. case find_row us_id i (users (objs s)) of None \<Rightarrow> False | Some u \<Rightarrow> us_is_active u) ids))"

definition set_user_active :: "user \<Rightarrow> uuid \<Rightarrow> bool \<Rightarrow> platform_user_out act" where
  "set_user_active actor user_id is_active =
     bind (require_platform_admin actor) (\<lambda>_.
     bind (get_user_or_404 user_id) (\<lambda>target.
     bind (ensure (\<not> (us_id target = us_id actor \<and> \<not> is_active)) (StateError ''You cannot deactivate your own account''))
       (\<lambda>_.
     bind (if is_active then ret False else user_has_role (us_id target) PLATFORM_ADMIN) (\<lambda>admin.
     bind (if admin
           then bind active_admins (\<lambda>ids.
                ensure (ids \<noteq> [us_id target]) (StateError ''The last active PLATFORM_ADMIN cannot be deactivated''))
           else ret ()) (\<lambda>_.
     if us_is_active target = is_active then user_out target
     else
       bind (change (users_update (upd_row us_id (us_id target) (us_is_active_update (\<lambda>_. is_active))))) (\<lambda>_.
       bind commit (\<lambda>_.
       bind (audit_record_commit (Some (us_id actor)) None
         (if is_active then PLATFORM_USER_REACTIVATED else PLATFORM_USER_DEACTIVATED) ''user'' (Some (us_id target))
         None True) (\<lambda>_.
       bind (reload_user (us_id target)) user_out))))))))"

definition grant_to :: "user \<Rightarrow> user \<Rightarrow> platform_user_out act" where
  "grant_to actor target =
     bind (user_has_role (us_id target) PLATFORM_ADMIN) (\<lambda>held.
     bind (ensure (\<not> held) (ConflictError ''This user already holds PLATFORM_ADMIN'')) (\<lambda>_.
     bind (asks utc_now) (\<lambda>now.
     bind (insert_grant (us_id target) PLATFORM_ADMIN (Some (us_id actor)) now) (\<lambda>_.
     bind commit (\<lambda>_.
     bind (audit_record_commit (Some (us_id actor)) None PLATFORM_ADMIN_GRANTED ''user'' (Some (us_id target))
       (Some [(''role'', JStr (role_value PLATFORM_ADMIN))]) True) (\<lambda>_.
     user_out target))))))"

definition grant_platform_admin_by_email :: "user \<Rightarrow> string \<Rightarrow> platform_user_out act" where
  "grant_platform_admin_by_email actor email =
     bind (require_platform_admin actor) (\<lambda>_.
     bind (get_user_by_email email) (\<lambda>found.
     case found of
       None \<Rightarrow> raise (NotFoundError ''No account exists with this email'')
     | Some target \<Rightarrow> grant_to actor target))"

definition grant_platform_admin :: "user \<Rightarrow> uuid \<Rightarrow> role_name \<Rightarrow> platform_user_out act" where
  "grant_platform_admin actor user_id role =
     bind (require_platform_admin actor) (\<lambda>_.
     bind (ensure (role = PLATFORM_ADMIN) (StateError ''Only PLATFORM_ADMIN can be granted on this endpoint'')) (\<lambda>_.
     bind (get_user_or_404 user_id) (grant_to actor)))"

definition revoke_platform_admin :: "user \<Rightarrow> uuid \<Rightarrow> role_name \<Rightarrow> platform_user_out act" where
  "revoke_platform_admin actor user_id role =
     bind (require_platform_admin actor) (\<lambda>_.
     bind (get_user_or_404 user_id) (\<lambda>target.
     bind (get_grant user_id role) (\<lambda>found.
     case found of
       None \<Rightarrow> raise (NotFoundError ''This user does not hold PLATFORM_ADMIN'')
     | Some assignment \<Rightarrow>
         bind (ensure (user_id \<noteq> us_id actor) (StateError ''You cannot revoke your own PLATFORM_ADMIN grant'')) (\<lambda>_.
         bind (list_admin_user_ids role) (\<lambda>ids.
         bind (ensure (filter (\<lambda>i. i \<noteq> user_id) ids \<noteq> []) (StateError ''The last PLATFORM_ADMIN cannot be revoked'')) (\<lambda>_.
         bind (change (platform_roles_update (remove1 assignment))) (\<lambda>_.
         bind commit (\<lambda>_.
         bind (audit_record_commit (Some (us_id actor)) None PLATFORM_ADMIN_REVOKED ''user'' (Some user_id)
           (Some [(''role'', JStr (role_value role))]) True) (\<lambda>_.
         user_out target)))))))))"

section \<open>The dashboard\<close>

definition chama_count :: "chama_status option \<Rightarrow> nat act" where
  "chama_count status =
     scalar (\<lambda>d. length (filter (\<lambda>c. case status of None \<Rightarrow> True | Some st \<Rightarrow> ch_status c = st) (chamas d)))"

definition platform_stats :: "user \<Rightarrow> platform_stats_out act" where
  "platform_stats actor =
     bind (require_platform_admin actor) (\<lambda>_.
     bind (chama_count None) (\<lambda>total.
     bind (chama_count (Some CH_ACTIVE)) (\<lambda>active.
     bind (chama_count (Some CH_PENDING)) (\<lambda>pending.
     bind (chama_count (Some CH_SUSPENDED)) (\<lambda>suspended.
     bind (chama_count (Some CH_INACTIVE)) (\<lambda>inactive.
     bind (chama_count (Some CH_DISSOLVED)) (\<lambda>dissolved.
     bind (scalar (\<lambda>d. length (users d))) (\<lambda>user_count.
     bind (scalar (\<lambda>d. length (members d))) (\<lambda>member_count.
     bind (scalar (\<lambda>d. length (filter (\<lambda>pr. pr_role pr = PLATFORM_ADMIN) (platform_roles d)))) (\<lambda>admins.
     ret \<lparr>pst_total_chamas = total, pst_active_chamas = active, pst_pending_chamas = pending,
          pst_suspended_chamas = suspended + inactive, pst_dissolved_chamas = dissolved,
          pst_total_users = user_count, pst_total_members = member_count, pst_platform_admins = admins\<rparr>))))))))))"

end
