(* ===== verification/Auth.thy ===== *)
theory Auth
  imports Platform Json
begin

text \<open>
  Accounts and sessions (\<open>app/services/auth.py\<close>, \<open>app/core/security.py\<close>, the repository
  \<open>refresh_token\<close>, \<open>app/api/deps.py\<close> and the handlers of \<open>app/api/v1/auth.py\<close>): registration,
  sign-in by email, phone or government id, short-lived access tokens and single-use refresh
  tokens, password changes and the deactivation of an account. The libraries are the fields of
  \<open>crypto\<close>: password hashing (\<open>pwdlib\<close>, \<open>None\<close> for a hash of an unknown scheme), JWT
  encoding and decoding (at a given instant; \<open>None\<close> for a \<open>PyJWTError\<close>), SHA-256 and the source
  of random tokens. The limiters of the endpoints are those of \<open>Policies\<close> and answer before
  the handlers modelled here.
\<close>

section \<open>Credentials\<close>

record crypto =
  cr_hash :: "uuid \<Rightarrow> string \<Rightarrow> string"
  cr_verify :: "string \<Rightarrow> string \<Rightarrow> bool option"
  cr_jwt_encode :: "string \<Rightarrow> int \<Rightarrow> string"
  cr_jwt_decode :: "int \<Rightarrow> string \<Rightarrow> (string \<times> json) list option"
  cr_token :: "uuid \<Rightarrow> string"
  cr_sha256_hex :: "string \<Rightarrow> string"

definition hash_password :: "crypto \<Rightarrow> string \<Rightarrow> string act" where
  "hash_password lib plain_password = asks (\<lambda>s. cr_hash lib (next_uuid s) plain_password)"

definition verify_password :: "crypto \<Rightarrow> string \<Rightarrow> string \<Rightarrow> bool" where
  "verify_password lib plain_password hashed_password =
     (case cr_verify lib plain_password hashed_password of None \<Rightarrow> False | Some ok \<Rightarrow> ok)"

definition create_access_token :: "crypto \<Rightarrow> string \<Rightarrow> string act" where
  "create_access_token lib subject =
     asks (\<lambda>s. cr_jwt_encode lib subject (utc_now s + cf_jwt_expires_minutes (cfg s) * 60 * 1000000))"

definition decode_access_token :: "crypto \<Rightarrow> int \<Rightarrow> string \<Rightarrow> string option" where
  "decode_access_token lib now token =
     (case cr_jwt_decode lib now token of
        None \<Rightarrow> None
      | Some payload \<Rightarrow> (case jget ''sub'' payload of JsStr subject \<Rightarrow> Some subject | _ \<Rightarrow> None))"

definition generate_refresh_token :: "crypto \<Rightarrow> string act" where
  "generate_refresh_token lib = bind uuid4 (\<lambda>i. ret (cr_token lib i))"

text \<open>\<open>encode("ascii")\<close> raises \<open>UnicodeEncodeError\<close>, a \<open>ValueError\<close>, on anything else.\<close>

definition hash_refresh_token :: "crypto \<Rightarrow> string \<Rightarrow> string act" where
  "hash_refresh_token lib refresh_token =
     (if list_all (\<lambda>c. of_char c < (128 :: nat)) refresh_token then ret (cr_sha256_hex lib refresh_token)
      else raise ValueError)"

section \<open>Repositories\<close>

definition get_by_hash :: "string \<Rightarrow> refresh_token option act" where
  "get_by_hash token_hash = select_first refresh_tokens (\<lambda>t. rt_token_hash t = token_hash)"

definition refresh_token_check :: "db \<Rightarrow> refresh_token \<Rightarrow> string option" where
  "refresh_token_check d t =
     (if list_ex (\<lambda>e. rt_id e = rt_id t) (refresh_tokens d) then Some ''refresh_tokens_pkey''
      else if list_ex (\<lambda>e. rt_token_hash e = rt_token_hash t) (refresh_tokens d)
      then Some ''ix_refresh_tokens_token_hash'' else None)"

definition create_refresh_token :: "uuid \<Rightarrow> string \<Rightarrow> int \<Rightarrow> unit act" where
  "create_refresh_token user_id token_hash expires_at =
     bind uuid4 (\<lambda>i.
     insert_row refresh_token_check (\<lambda>r d. d\<lparr>refresh_tokens := refresh_tokens d @ [r]\<rparr>)
       \<lparr>rt_id = i, rt_user_id = user_id, rt_token_hash = token_hash, rt_expires_at = expires_at,
        rt_revoked_at = None\<rparr>)"

definition set_revoked :: "int \<Rightarrow> uuid \<Rightarrow> db \<Rightarrow> db" where
  "set_revoked revoked_at i = refresh_tokens_update (upd_row rt_id i (rt_revoked_at_update (\<lambda>_. Some revoked_at)))"

definition revoke_token :: "refresh_token \<Rightarrow> int \<Rightarrow> unit act" where
  "revoke_token t revoked_at = bind (change (set_revoked revoked_at (rt_id t))) (\<lambda>_. flush)"

definition revoke_all_for_user :: "uuid \<Rightarrow> int \<Rightarrow> nat act" where
  "revoke_all_for_user user_id revoked_at =
     bind (select_all refresh_tokens (\<lambda>t. rt_user_id t = user_id \<and> rt_revoked_at t = None)) (\<lambda>ts.
     bind (for_each ts (\<lambda>t. change (set_revoked revoked_at (rt_id t)))) (\<lambda>_.
     bind flush (\<lambda>_. ret (length ts))))"

text \<open>The lookups of an account through its member row.\<close>

definition user_of_member :: "(member \<Rightarrow> bool) \<Rightarrow> user option act" where
  "user_of_member P =
     query (\<lambda>rs os. first (entities users
       (\<lambda>u. list_ex (\<lambda>m. us_member_id u = Some (mb_id m) \<and> P m) (members rs)) rs os))"

definition get_by_phone :: "string \<Rightarrow> user option act" where
  "get_by_phone phone = (if phone = '''' then ret None else user_of_member (\<lambda>m. mb_phone_number m = phone))"

definition get_by_government_id :: "string \<Rightarrow> user option act" where
  "get_by_government_id government_id =
     (if government_id = '''' then ret None else user_of_member (\<lambda>m. mb_government_id m = government_id))"

definition get_by_member_id :: "uuid \<Rightarrow> user option act" where
  "get_by_member_id member_id = select_first users (\<lambda>u. us_member_id u = Some member_id)"

definition edit_user :: "uuid \<Rightarrow> (user \<Rightarrow> user) \<Rightarrow> db \<Rightarrow> db" where
  "edit_user i f = users_update (upd_row us_id i f)"

section \<open>The service\<close>

definition validate_password :: "string \<Rightarrow> string option \<Rightarrow> string option \<Rightarrow> unit act" where
  "validate_password password email phone =
     (let violations = password_violations password email phone
      in ensure (violations = []) (PasswordPolicyViolation violations))"

definition known_member :: "member_details \<Rightarrow> member option act" where
  "known_member details =
     bind (find_by_identity (md_phone_number details) (md_government_id details)) (\<lambda>existing.
     case existing of
       None \<Rightarrow>
         bind (phone_exists (md_phone_number details)) (\<lambda>taken.
         bind (ensure (\<not> taken) (ConflictError ''phone_number is already registered to another member'')) (\<lambda>_.
         bind (government_id_exists (md_government_id details)) (\<lambda>taken.
         bind (ensure (\<not> taken) (ConflictError ''government_id is already registered to another member'')) (\<lambda>_.
         ret None))))
     | Some m \<Rightarrow>
         bind (get_by_member_id (mb_id m)) (\<lambda>linked.
         bind (ensure (linked = None) (ConflictError ''This member identity is already linked to another account''))
           (\<lambda>_. ret (Some m))))"

definition register :: "crypto \<Rightarrow> string \<Rightarrow> string \<Rightarrow> member_details option \<Rightarrow> user act" where
  "register lib email password details =
     bind (get_user_by_email email) (\<lambda>taken.
     bind (ensure (taken = None) (ConflictError ''An account with this email already exists'')) (\<lambda>_.
     bind (case details of None \<Rightarrow> ret None | Some d \<Rightarrow> known_member d) (\<lambda>existing.
     bind (validate_password password (Some email) (map_option md_phone_number details)) (\<lambda>_.
     bind (case (details, existing) of
             (Some d, None) \<Rightarrow> bind (create_member d) (\<lambda>m. ret (Some m))
           | _ \<Rightarrow> ret existing) (\<lambda>identity.
     bind (hash_password lib password) (\<lambda>password_hash.
     bind (create_user email password_hash) (\<lambda>u.
     bind (case identity of
             None \<Rightarrow> ret ()
           | Some m \<Rightarrow> change (edit_user (us_id u) (us_member_id_update (\<lambda>_. Some (mb_id m))))) (\<lambda>_.
     bind commit (\<lambda>_.
     bind (audit_record_commit (Some (us_id u)) None AUTH_REGISTER ''user'' (Some (us_id u)) None True) (\<lambda>_.
     reload_user (us_id u)))))))))))"

definition authenticate :: "crypto \<Rightarrow> string \<Rightarrow> string \<Rightarrow> user option act" where
  "authenticate lib identifier password =
     (if identifier = '''' \<or> password = '''' then ret None
      else
        let identifier_norm = strip identifier
        in bind (get_user_by_email identifier_norm) (\<lambda>found.
           bind (case found of
                   Some u \<Rightarrow> ret (Some u)
                 | None \<Rightarrow>
                     bind (get_by_phone (normalize_ke_msisdn identifier_norm)) (\<lambda>found.
                     case found of Some u \<Rightarrow> ret (Some u) | None \<Rightarrow> get_by_phone identifier_norm)) (\<lambda>found.
           bind (case found of Some u \<Rightarrow> ret (Some u) | None \<Rightarrow> get_by_government_id identifier_norm) (\<lambda>found.
           ret (case found of
                  None \<Rightarrow> None
                | Some u \<Rightarrow>
                    if us_is_active u \<and> verify_password lib password (us_password_hash u) then Some u else None)))))"

definition link_member :: "user \<Rightarrow> string \<Rightarrow> string \<Rightarrow> user act" where
  "link_member u phone_number government_id =
     bind (ensure (us_member_id u = None) (ConflictError ''This account is already linked to a member'')) (\<lambda>_.
     bind (find_by_identity phone_number government_id) (\<lambda>found.
     case found of
       None \<Rightarrow> raise (NotFoundError ''No member matches these identity details'')
     | Some m \<Rightarrow>
         bind (get_by_member_id (mb_id m)) (\<lambda>existing.
         bind (ensure (existing = None) (ConflictError ''This member identity is already linked to another account''))
           (\<lambda>_.
         bind (change (edit_user (us_id u) (us_member_id_update (\<lambda>_. Some (mb_id m))))) (\<lambda>_.
         bind commit (\<lambda>_.
         bind (audit_record_commit (Some (us_id u)) None AUTH_MEMBER_LINK ''user'' (Some (us_id u)) None True) (\<lambda>_.
         reload_user (us_id u))))))))"

record token_pair =
  tk_access_token :: string
  tk_refresh_token :: string
  tk_must_change_password :: bool

definition issue_token :: "crypto \<Rightarrow> user \<Rightarrow> string act" where
  "issue_token lib u = create_access_token lib (uuid_str (us_id u))"

definition refresh_expiry :: "sess \<Rightarrow> int" where
  "refresh_expiry s = utc_now s + cf_refresh_token_expires_days (cfg s) * MICROS_PER_DAY"

definition open_refresh_token :: "crypto \<Rightarrow> uuid \<Rightarrow> string act" where
  "open_refresh_token lib user_id =
     bind (generate_refresh_token lib) (\<lambda>token.
     bind (hash_refresh_token lib token) (\<lambda>digest.
     bind (asks refresh_expiry) (\<lambda>expires_at.
     bind (create_refresh_token user_id digest expires_at) (\<lambda>_. ret token))))"

definition create_auth_session :: "crypto \<Rightarrow> user \<Rightarrow> token_pair act" where
  "create_auth_session lib u =
     bind (open_refresh_token lib (us_id u)) (\<lambda>token.
     bind commit (\<lambda>_.
     bind (issue_token lib u) (\<lambda>access.
     ret \<lparr>tk_access_token = access, tk_refresh_token = token,
          tk_must_change_password = us_must_change_password u\<rparr>)))"

definition change_password :: "crypto \<Rightarrow> user \<Rightarrow> string \<Rightarrow> string \<Rightarrow> user act" where
  "change_password lib u current_password new_password =
     bind (ensure (verify_password lib current_password (us_password_hash u))
       (StateError ''The current password is incorrect'')) (\<lambda>_.
     bind (ensure (\<not> verify_password lib new_password (us_password_hash u))
       (StateError ''The new password must be different from the current password'')) (\<lambda>_.
     bind (member_of u) (\<lambda>m.
     bind (validate_password new_password (Some (us_email u)) (map_option mb_phone_number m)) (\<lambda>_.
     bind (hash_password lib new_password) (\<lambda>password_hash.
     bind (change (edit_user (us_id u)
             (\<lambda>x. x\<lparr>us_must_change_password := False, us_password_hash := password_hash\<rparr>))) (\<lambda>_.
     bind (asks utc_now) (\<lambda>now.
     bind (revoke_all_for_user (us_id u) now) (\<lambda>_.
     bind (audit_record_commit (Some (us_id u)) None AUTH_PASSWORD_CHANGE ''user'' (Some (us_id u)) None True) (\<lambda>_.
     reload_user (us_id u))))))))))"

definition delete_account :: "crypto \<Rightarrow> user \<Rightarrow> string \<Rightarrow> unit act" where
  "delete_account lib u password =
     bind (ensure (verify_password lib password (us_password_hash u))
       (StateError ''The password provided is incorrect'')) (\<lambda>_.
     bind (user_has_role (us_id u) PLATFORM_ADMIN) (\<lambda>admin.
     bind (if admin
           then bind active_admins (\<lambda>ids.
                ensure (ids \<noteq> [us_id u]) (StateError ''The last active PLATFORM_ADMIN cannot delete their account''))
           else ret ()) (\<lambda>_.
     bind (change (edit_user (us_id u) (us_is_active_update (\<lambda>_. False)))) (\<lambda>_.
     bind (asks utc_now) (\<lambda>now.
     bind (revoke_all_for_user (us_id u) now) (\<lambda>_.
     bind commit (\<lambda>_.
     audit_record_commit (Some (us_id u)) None AUTH_ACCOUNT_DELETE ''user'' (Some (us_id u)) None True)))))))"

definition auth_require_password_change :: "user \<Rightarrow> string option \<Rightarrow> user act" where
  "auth_require_password_change u reason =
     (if us_must_change_password u then ret u
      else
        bind (change (edit_user (us_id u) (us_must_change_password_update (\<lambda>_. True)))) (\<lambda>_.
        bind commit (\<lambda>_.
        bind (audit_record_commit None None AUTH_PASSWORD_CHANGE_REQUIRED ''user'' (Some (us_id u))
          (case reason of None \<Rightarrow> None | Some r \<Rightarrow> if r = '''' then None else Some [(''reason'', JStr r)]) True) (\<lambda>_.
        reload_user (us_id u)))))"

definition rotate_refresh_token :: "crypto \<Rightarrow> string \<Rightarrow> token_pair act" where
  "rotate_refresh_token lib refresh_token =
     bind (hash_refresh_token lib refresh_token) (\<lambda>digest.
     bind (get_by_hash digest) (\<lambda>found.
     bind (asks utc_now) (\<lambda>now.
     case found of
       None \<Rightarrow> raise (StateError ''This refresh token is invalid or has already been used'')
     | Some t \<Rightarrow>
         bind (ensure (rt_revoked_at t = None) (StateError ''This refresh token is invalid or has already been used'')) (\<lambda>_.
         if rt_expires_at t \<le> now
         then bind (revoke_token t now) (\<lambda>_. bind commit (\<lambda>_. raise (StateError ''This refresh token has expired'')))
         else
           bind (get_user_by_id (rt_user_id t)) (\<lambda>owner.
           case owner of
             None \<Rightarrow> raise (StateError ''This refresh token is no longer valid'')
           | Some u \<Rightarrow>
               bind (ensure (us_is_active u) (StateError ''This refresh token is no longer valid'')) (\<lambda>_.
               bind (revoke_token t now) (\<lambda>_.
               bind (open_refresh_token lib (us_id u)) (\<lambda>token.
               bind commit (\<lambda>_.
               bind (audit_record_commit (Some (us_id u)) None AUTH_REFRESH ''user'' (Some (us_id u)) None True) (\<lambda>_.
               bind (issue_token lib u) (\<lambda>access.
               ret \<lparr>tk_access_token = access, tk_refresh_token = token,
                    tk_must_change_password = us_must_change_password u\<rparr>)))))))))))"

definition revoke_refresh_token :: "crypto \<Rightarrow> string \<Rightarrow> unit act" where
  "revoke_refresh_token lib refresh_token =
     bind (hash_refresh_token lib refresh_token) (\<lambda>digest.
     bind (get_by_hash digest) (\<lambda>found.
     case found of
       None \<Rightarrow> ret ()
     | Some t \<Rightarrow>
         if rt_revoked_at t \<noteq> None then ret ()
         else bind (asks utc_now) (\<lambda>now. bind (revoke_token t now) (\<lambda>_. commit))))"

section \<open>The handlers\<close>

text \<open>\<open>try: m except StateError as exc: raise HTTPException\<close>, with the code's answer.\<close>

definition on_state_error :: "(string \<Rightarrow> err) \<Rightarrow> 'a act \<Rightarrow> 'a act" where
  "on_state_error f m s = (case m s of (Inl (StateError msg), s') \<Rightarrow> (Inl (f msg), s') | r \<Rightarrow> r)"

definition login :: "crypto \<Rightarrow> string \<Rightarrow> string \<Rightarrow> token_pair act" where
  "login lib username password =
     bind (authenticate lib username password) (\<lambda>found.
     case found of
       None \<Rightarrow>
         bind (audit_record_commit None None AUTH_LOGIN_FAILED ''user'' None None False) (\<lambda>_.
         raise (Unauthorized ''Incorrect email or password''))
     | Some u \<Rightarrow>
         bind (create_auth_session lib u) (\<lambda>pair.
         bind (audit_record_commit (Some (us_id u)) None AUTH_LOGIN ''user'' (Some (us_id u)) None True) (\<lambda>_.
         ret pair)))"

definition refresh :: "crypto \<Rightarrow> string \<Rightarrow> token_pair act" where
  "refresh lib refresh_token = on_state_error Unauthorized (rotate_refresh_token lib refresh_token)"

definition logout :: "crypto \<Rightarrow> string \<Rightarrow> unit act" where
  "logout lib refresh_token =
     bind (revoke_refresh_token lib refresh_token) (\<lambda>_.
     audit_record_commit None None AUTH_LOGOUT ''refresh_token'' None None True)"

definition PASSWORD_CHANGE_EXEMPT_PATHS :: "string list" where
  "PASSWORD_CHANGE_EXEMPT_PATHS =
     [''/auth/change-password'', ''/auth/logout'', ''/auth/me'', ''/auth/delete-account'']"

definition INVALID_CREDENTIALS :: err where
  "INVALID_CREDENTIALS = Unauthorized ''Could not validate credentials''"

definition route_path :: "string \<Rightarrow> string \<Rightarrow> string" where
  "route_path api_v1_prefix path =
     (let pre = rstrip_char (CHR ''/'') api_v1_prefix
      in if prefix (pre @ ''/'') path then drop (length pre) path else path)"

definition get_current_user :: "crypto \<Rightarrow> string \<Rightarrow> string \<Rightarrow> user act" where
  "get_current_user lib path token =
     bind (asks utc_now) (\<lambda>now.
     case decode_access_token lib now token of
       None \<Rightarrow> raise INVALID_CREDENTIALS
     | Some subject \<Rightarrow>
         (case parse_uuid subject of
            None \<Rightarrow> raise INVALID_CREDENTIALS
          | Some i \<Rightarrow>
              bind (get_user_by_id i) (\<lambda>found.
              case found of
                None \<Rightarrow> raise INVALID_CREDENTIALS
              | Some u \<Rightarrow>
                  bind (ensure (us_is_active u) INVALID_CREDENTIALS) (\<lambda>_.
                  bind (asks (\<lambda>s. cf_api_v1_prefix (cfg s))) (\<lambda>api_v1_prefix.
                  bind (ensure (\<not> (us_must_change_password u \<and>
                                    route_path api_v1_prefix path \<notin> set PASSWORD_CHANGE_EXEMPT_PATHS))
                    (PasswordChangeRequiredError ''Password change is required'')) (\<lambda>_.
                  ret u))))))"

end
