(* ===== verification/Account_Facts.thy ===== *)
theory Account_Facts
  imports Auth Lifecycle
begin

text \<open>
  What the account and platform operations do to the database: each change they make, alone,
  keeps the accounts well formed, forgets no revoked refresh token, moves Chamas along their
  lifecycle and leaves an active administrator where there was one. Changes compose, so a
  request that commits after several of them is one step.
\<close>

section \<open>Well-formed accounts and steps\<close>

definition accounts_wf :: "db \<Rightarrow> bool" where
  "accounts_wf d \<longleftrightarrow>
     distinct (map us_id (users d)) \<and> distinct (map us_email (users d)) \<and>
     (\<forall>u \<in> set (users d). \<forall>i. us_member_id u = Some i \<longrightarrow> i \<in> mb_id ` set (members d)) \<and>
     (\<forall>u \<in> set (users d). \<forall>v \<in> set (users d). us_member_id u \<noteq> None \<longrightarrow> us_member_id u = us_member_id v \<longrightarrow>
        us_id u = us_id v) \<and>
     distinct (map (\<lambda>pr. (pr_user_id pr, pr_role pr)) (platform_roles d)) \<and>
     distinct (map rt_token_hash (refresh_tokens d))"

lemma accounts_wfD:
  assumes "accounts_wf d"
  shows "distinct (map us_id (users d))" and "distinct (map us_email (users d))"
    and "\<forall>u \<in> set (users d). \<forall>i. us_member_id u = Some i \<longrightarrow> i \<in> mb_id ` set (members d)"
    and "\<forall>u \<in> set (users d). \<forall>v \<in> set (users d). us_member_id u \<noteq> None \<longrightarrow> us_member_id u = us_member_id v \<longrightarrow>
        us_id u = us_id v"
    and "distinct (map (\<lambda>pr. (pr_user_id pr, pr_role pr)) (platform_roles d))"
    and "distinct (map rt_token_hash (refresh_tokens d))"
  using assms unfolding accounts_wf_def by blast+

definition administered :: "db \<Rightarrow> bool" where
  "administered d \<longleftrightarrow> (\<exists>u \<in> set (users d). us_is_active u \<and> holds_platform_role d (us_id u) PLATFORM_ADMIN)"

text \<open>A token that was revoked, by rotation, logout or otherwise.\<close>

definition token_used :: "string \<Rightarrow> db \<Rightarrow> bool" where
  "token_used digest d \<longleftrightarrow> (\<exists>t \<in> set (refresh_tokens d). rt_token_hash t = digest \<and> rt_revoked_at t \<noteq> None)"

definition moves_to :: "chama_status \<Rightarrow> chama_status \<Rightarrow> bool" where
  "moves_to a b \<longleftrightarrow> canonical_status b \<in> set (ALLOWED_TRANSITIONS (canonical_status a))"

definition same_chama :: "chama \<Rightarrow> chama \<Rightarrow> bool" where
  "same_chama c c' \<longleftrightarrow> c' = c\<lparr>ch_status := ch_status c'\<rparr>"

interpretation chama_life: status_table moves_to "\<lambda>st. st = CH_DISSOLVED" chamas ch_id ch_status same_chama
proof unfold_locales
  show "a = CH_DISSOLVED \<Longrightarrow> \<not> moves_to a b" for a b by (simp add: moves_to_def canonical_status_def ALLOWED_TRANSITIONS_def)
  show "same_chama r r" for r by (simp add: same_chama_def)
  show "same_chama p r" if "same_chama p q" "same_chama q r" for p q r
  proof -
    have "r = q\<lparr>ch_status := ch_status r\<rparr>" "q = p\<lparr>ch_status := ch_status q\<rparr>"
      using that by (simp_all add: same_chama_def)
    then have "r = p\<lparr>ch_status := ch_status q\<rparr>\<lparr>ch_status := ch_status r\<rparr>" by metis
    then show ?thesis by (simp add: same_chama_def)
  qed
qed

definition accounts_rel :: "db \<Rightarrow> db \<Rightarrow> bool" where
  "accounts_rel d d' \<longleftrightarrow>
     (administered d \<longrightarrow> administered d') \<and> (\<forall>digest. token_used digest d \<longrightarrow> token_used digest d') \<and>
     chama_life.follows d d'"

abbreviation accounts_step :: "db \<Rightarrow> db \<Rightarrow> bool" where
  "accounts_step d d' \<equiv> accounts_rel d d' \<and> accounts_wf d'"

lemma accounts_rel_refl: "accounts_rel d d"
  by (simp add: accounts_rel_def chama_life.follows_refl)

lemma accounts_rel_trans: "accounts_rel d d' \<Longrightarrow> accounts_rel d' d'' \<Longrightarrow> accounts_rel d d''"
  unfolding accounts_rel_def using chama_life.follows_trans by blast

lemma accounts_step_trans: "accounts_step d d' \<Longrightarrow> accounts_step d' d'' \<Longrightarrow> accounts_step d d''"
  using accounts_rel_trans by blast

lemma accounts_step_cong:
  assumes "users e = users d'" "members e = members d'" "platform_roles e = platform_roles d'"
    "refresh_tokens e = refresh_tokens d'" "chamas e = chamas d'"
  shows "accounts_step d e = accounts_step d d'"
proof -
  have "holds_platform_role e = holds_platform_role d'" by (intro ext) (simp add: holds_platform_role_def assms)
  then show ?thesis
    by (simp add: accounts_rel_def accounts_wf_def administered_def token_used_def chama_life.follows_def assms)
qed

lemma accounts_step_logged: "accounts_step d d' \<Longrightarrow> accounts_step d (log_db a n d')"
  using accounts_step_cong [of "log_db a n d'" d' d] by (simp add: log_db_def)

section \<open>Changes to accounts\<close>

lemma holds_platform_role_cong: "platform_roles e = platform_roles d \<Longrightarrow> holds_platform_role e = holds_platform_role d"
  by (intro ext) (simp add: holds_platform_role_def)

text \<open>Two rows of an account with the same key are the same row.\<close>

lemma same_user: "accounts_wf d \<Longrightarrow> u \<in> set (users d) \<Longrightarrow> v \<in> set (users d) \<Longrightarrow> us_id u = us_id v \<Longrightarrow> u = v"
  using accounts_wfD(1) [of d] unfolding distinct_map by (meson inj_onD)

lemma edit_user_step:
  assumes wf: "accounts_wf d" and keys: "\<And>v. us_id (f v) = us_id v" "\<And>v. us_email (f v) = us_email v"
    and u: "find_row us_id i (users d) = Some u"
    and link: "us_member_id (f u) = us_member_id u \<or>
      (\<exists>m \<in> set (members d). us_member_id (f u) = Some (mb_id m) \<and> (\<forall>v \<in> set (users d). us_member_id v \<noteq> Some (mb_id m)))"
    and alive: "administered d \<Longrightarrow> administered (edit_user i f d)"
  shows "accounts_step d (edit_user i f d)"
proof -
  let ?e = "edit_user i f d"
  have tabs: "members ?e = members d" "platform_roles ?e = platform_roles d" "refresh_tokens ?e = refresh_tokens d"
    "chamas ?e = chamas d" "users ?e = upd_row us_id i f (users d)"
    by (simp_all add: edit_user_def)
  have mem: "\<exists>v0 \<in> set (users d). us_id v = us_id v0 \<and> (v = v0 \<or> v0 = u \<and> v = f u)" if v: "v \<in> set (users ?e)" for v
  proof -
    consider v0 where "v0 \<in> set (users d)" "us_id v0 = i" "v = f v0" | "v \<in> set (users d)" "us_id v \<noteq> i"
      using v unfolding tabs set_upd_row by blast
    then show ?thesis
    proof cases
      case 1
      then have "v0 = u" using same_user [OF wf] find_row_SomeD [OF u] by metis
      then show ?thesis using 1 keys by blast
    qed blast
  qed
  have wfs: "distinct (map us_id (users ?e))" "distinct (map us_email (users ?e))"
    using accounts_wfD(1,2) [OF wf] keys by (simp_all add: tabs map_key_upd_row) (simp add: upd_row_def o_def keys if_distrib cong: if_cong)
  have u_in: "u \<in> set (users d)" using find_row_SomeD [OF u] by blast
  have refs: "i \<in> mb_id ` set (members d)" if "v \<in> set (users ?e)" "us_member_id v = Some i" for v i
    using mem [OF that(1)] that(2) link accounts_wfD(3) [OF wf] u_in by auto
  have once: "us_id v = us_id w"
    if vw: "v \<in> set (users ?e)" "w \<in> set (users ?e)" "us_member_id v \<noteq> None" "us_member_id v = us_member_id w" for v w
  proof -
    obtain v0 w0 where v0: "v0 \<in> set (users d)" "us_id v = us_id v0" "v = v0 \<or> v0 = u \<and> v = f u"
      and w0: "w0 \<in> set (users d)" "us_id w = us_id w0" "w = w0 \<or> w0 = u \<and> w = f u"
      using mem vw(1,2) by blast
    show ?thesis
    proof (cases "us_member_id (f u) = us_member_id u")
      case True
      then have "us_member_id v = us_member_id v0" "us_member_id w = us_member_id w0" using v0(3) w0(3) by auto
      then show ?thesis using accounts_wfD(4) [OF wf] v0 w0 vw(3,4) by metis
    next
      case False
      have "\<exists>m \<in> set (members d). us_member_id (f u) = Some (mb_id m) \<and>
          (\<forall>v \<in> set (users d). us_member_id v \<noteq> Some (mb_id m))"
        using link by (rule disjE) (use False in simp)
      then obtain m :: member where m: "us_member_id (f u) = Some (mb_id m)" "\<forall>v \<in> set (users d). us_member_id v \<noteq> Some (mb_id m)"
        by (elim bexE conjE)
      show ?thesis
      proof (cases "v = f u \<or> w = f u")
        case True
        then have "us_member_id v = Some (mb_id m)" using m(1) vw(4) by auto
        then show ?thesis using m(2) v0 w0 vw(4) by metis
      next
        case False
        then show ?thesis using accounts_wfD(4) [OF wf] v0 w0 vw(3,4) by metis
      qed
    qed
  qed
  have "accounts_wf ?e"
    unfolding accounts_wf_def
  proof (intro conjI ballI allI impI)
    show "distinct (map us_id (users ?e))" "distinct (map us_email (users ?e))" by (rule wfs)+
    show "j \<in> mb_id ` set (members ?e)" if "v \<in> set (users ?e)" "us_member_id v = Some j" for v j
      unfolding tabs by (rule refs [OF that])
    show "us_id v = us_id w" if "v \<in> set (users ?e)" "w \<in> set (users ?e)" "us_member_id v \<noteq> None"
      "us_member_id v = us_member_id w" for v w
      by (rule once [OF that])
  qed (use accounts_wfD(5,6) [OF wf] in \<open>simp_all add: tabs\<close>)
  then show ?thesis
    using alive by (simp add: accounts_rel_def tabs token_used_def chama_life.follows_refl)
qed

text \<open>An edit that leaves no account inactive keeps the administrators.\<close>

lemma administered_edit:
  assumes "administered d" and "\<And>v. us_id (f v) = us_id v"
    and "\<And>v. us_is_active v \<Longrightarrow> us_is_active (f v)"
  shows "administered (edit_user i f d)"
proof -
  obtain u where u: "u \<in> set (users d)" "us_is_active u" "holds_platform_role d (us_id u) PLATFORM_ADMIN"
    using assms(1) unfolding administered_def by blast
  let ?v = "if us_id u = i then f u else u"
  have "?v \<in> set (users (edit_user i f d))" using u(1) by (auto simp: edit_user_def set_upd_row)
  moreover have "us_is_active ?v" "us_id ?v = us_id u" using u(2) assms(2,3) by simp_all
  moreover have "holds_platform_role (edit_user i f d) = holds_platform_role d"
    by (rule holds_platform_role_cong) (simp add: edit_user_def)
  ultimately show ?thesis using u(3) unfolding administered_def by metis
qed

text \<open>Another active administrator is not affected by an edit.\<close>

lemma administered_by_other:
  assumes "v \<in> set (users d)" "us_is_active v" "holds_platform_role d (us_id v) PLATFORM_ADMIN" "us_id v \<noteq> i"
  shows "administered (edit_user i f d)"
proof -
  have "v \<in> set (users (edit_user i f d))" using assms(1,4) by (auto simp: edit_user_def set_upd_row)
  moreover have "holds_platform_role (edit_user i f d) = holds_platform_role d"
    by (rule holds_platform_role_cong) (simp add: edit_user_def)
  ultimately show ?thesis using assms(2,3) unfolding administered_def by metis
qed

lemma add_user_step:
  assumes wf: "accounts_wf d" and u: "user_check d u = None" "us_member_id u = None"
  shows "accounts_step d (d\<lparr>users := users d @ [u]\<rparr>)"
proof -
  let ?e = "d\<lparr>users := users d @ [u]\<rparr>"
  have fresh: "\<forall>v \<in> set (users d). us_id v \<noteq> us_id u \<and> us_email v \<noteq> us_email u"
    using u by (auto simp: user_check_def list_ex_iff split: if_splits)
  have "accounts_wf ?e"
    unfolding accounts_wf_def
  proof (intro conjI)
    show "distinct (map us_id (users ?e))" "distinct (map us_email (users ?e))"
      using accounts_wfD(1,2) [OF wf] fresh by auto
    show "\<forall>v \<in> set (users ?e). \<forall>i. us_member_id v = Some i \<longrightarrow> i \<in> mb_id ` set (members ?e)"
      using accounts_wfD(3) [OF wf] u(2) by simp
    show "\<forall>v \<in> set (users ?e). \<forall>w \<in> set (users ?e). us_member_id v \<noteq> None \<longrightarrow> us_member_id v = us_member_id w \<longrightarrow>
        us_id v = us_id w"
    proof (intro ballI impI)
      fix v w
      assume vw: "v \<in> set (users ?e)" "w \<in> set (users ?e)" "us_member_id v \<noteq> None" "us_member_id v = us_member_id w"
      then have "v \<in> set (users d)" "w \<in> set (users d)" using u(2) by auto
      then show "us_id v = us_id w" using accounts_wfD(4) [OF wf] vw(3,4) by blast
    qed
  qed (use accounts_wfD(5,6) [OF wf] in simp_all)
  moreover have "administered d \<Longrightarrow> administered ?e"
    using holds_platform_role_cong [of ?e d] by (auto simp: administered_def)
  ultimately show ?thesis by (simp add: accounts_rel_def token_used_def chama_life.follows_refl)
qed

lemma add_member_step:
  assumes wf: "accounts_wf d"
  shows "accounts_step d (d\<lparr>members := members d @ [m]\<rparr>)"
proof -
  let ?e = "d\<lparr>members := members d @ [m]\<rparr>"
  have "accounts_wf ?e" using accounts_wfD [OF wf] unfolding accounts_wf_def by auto
  moreover have "administered ?e = administered d"
    using holds_platform_role_cong [of ?e d] by (simp add: administered_def)
  ultimately show ?thesis by (simp add: accounts_rel_def token_used_def chama_life.follows_refl)
qed

section \<open>Changes to grants, tokens and Chamas\<close>

lemma add_grant_step:
  assumes wf: "accounts_wf d" and pr: "platform_role_check d pr = None"
  shows "accounts_step d (d\<lparr>platform_roles := platform_roles d @ [pr]\<rparr>)"
proof -
  let ?e = "d\<lparr>platform_roles := platform_roles d @ [pr]\<rparr>"
  have "accounts_wf ?e"
    unfolding accounts_wf_def
  proof (intro conjI)
    show "distinct (map (\<lambda>pr. (pr_user_id pr, pr_role pr)) (platform_roles ?e))"
      using accounts_wfD(5) [OF wf] pr by (auto simp: platform_role_check_def list_ex_iff split: if_splits)
  qed (use accounts_wfD(1-4,6) [OF wf] in simp_all)
  moreover have "administered d \<Longrightarrow> administered ?e"
    by (auto simp: administered_def holds_platform_role_def)
  ultimately show ?thesis by (simp add: accounts_rel_def token_used_def chama_life.follows_refl)
qed

lemma drop_grant_step:
  assumes wf: "accounts_wf d" and v: "v \<in> set (users d)" "us_is_active v"
    "holds_platform_role d (us_id v) PLATFORM_ADMIN" "pr_user_id pr \<noteq> us_id v"
  shows "accounts_step d (platform_roles_update (remove1 pr) d)"
proof -
  let ?e = "platform_roles_update (remove1 pr) d"
  have "distinct (map (\<lambda>pr. (pr_user_id pr, pr_role pr)) (remove1 pr (platform_roles d)))"
    using accounts_wfD(5) [OF wf] by (auto simp: distinct_map intro: inj_on_subset dest: set_remove1_subset [THEN subsetD])
  then have "accounts_wf ?e"
    using accounts_wfD [OF wf] unfolding accounts_wf_def by simp
  moreover have "administered ?e"
  proof -
    obtain g where g: "g \<in> set (platform_roles d)" "pr_user_id g = us_id v" "pr_role g = PLATFORM_ADMIN"
      using v(3) by (auto simp: holds_platform_role_def list_ex_iff)
    then have "g \<noteq> pr" using v(4) by auto
    then have "g \<in> set (remove1 pr (platform_roles d))" using g(1) by simp
    then have "holds_platform_role ?e (us_id v) PLATFORM_ADMIN" using g by (auto simp: holds_platform_role_def list_ex_iff)
    then show ?thesis using v(1,2) by (auto simp: administered_def)
  qed
  ultimately show ?thesis by (simp add: accounts_rel_def token_used_def chama_life.follows_refl)
qed

lemma revoke_step:
  assumes wf: "accounts_wf d"
  shows "accounts_step d (set_revoked now i d)"
proof -
  let ?e = "set_revoked now i d"
  have tabs: "users ?e = users d" "members ?e = members d" "platform_roles ?e = platform_roles d" "chamas ?e = chamas d"
    "refresh_tokens ?e = upd_row rt_id i (rt_revoked_at_update (\<lambda>_. Some now)) (refresh_tokens d)"
    by (simp_all add: set_revoked_def)
  have hashes: "map rt_token_hash (refresh_tokens ?e) = map rt_token_hash (refresh_tokens d)"
    unfolding tabs by (simp add: upd_row_def)
  have "accounts_wf ?e" using accounts_wfD [OF wf] unfolding accounts_wf_def hashes by (simp add: tabs)
  moreover have "administered ?e = administered d"
    using holds_platform_role_cong [of ?e d] by (simp add: administered_def tabs)
  moreover have "token_used k ?e" if used: "token_used k d" for k
  proof -
    obtain t where t: "t \<in> set (refresh_tokens d)" "rt_token_hash t = k" "rt_revoked_at t \<noteq> None"
      using used unfolding token_used_def by blast
    let ?t = "if rt_id t = i then t\<lparr>rt_revoked_at := Some now\<rparr> else t"
    have "?t \<in> set (refresh_tokens ?e)" unfolding tabs set_upd_row using t(1) by auto
    moreover have "rt_token_hash ?t = k" "rt_revoked_at ?t \<noteq> None" using t by auto
    ultimately show ?thesis unfolding token_used_def by blast
  qed
  ultimately show ?thesis by (simp add: accounts_rel_def tabs chama_life.follows_refl)
qed

lemma revoked_used:
  assumes "t \<in> set (refresh_tokens d)"
  shows "token_used (rt_token_hash t) (set_revoked now (rt_id t) d)"
  using assms unfolding token_used_def set_revoked_def
  by (intro bexI [of _ "t\<lparr>rt_revoked_at := Some now\<rparr>"]) (auto simp: set_upd_row)

lemma add_token_step:
  assumes wf: "accounts_wf d" and t: "refresh_token_check d t = None"
  shows "accounts_step d (d\<lparr>refresh_tokens := refresh_tokens d @ [t]\<rparr>)"
proof -
  let ?e = "d\<lparr>refresh_tokens := refresh_tokens d @ [t]\<rparr>"
  have "accounts_wf ?e"
    unfolding accounts_wf_def
  proof (intro conjI)
    show "distinct (map rt_token_hash (refresh_tokens ?e))"
      using accounts_wfD(6) [OF wf] t by (auto simp: refresh_token_check_def list_ex_iff split: if_splits)
  qed (use accounts_wfD(1-5) [OF wf] in simp_all)
  moreover have "administered ?e = administered d"
    using holds_platform_role_cong [of ?e d] by (simp add: administered_def)
  ultimately show ?thesis by (auto simp: accounts_rel_def token_used_def chama_life.follows_refl)
qed

lemma chama_status_step:
  assumes wf: "accounts_wf d" and c: "find_row ch_id i (chamas d) = Some c" and edge: "moves_to (ch_status c) st"
  shows "accounts_step d (chamas_update (upd_row ch_id i (ch_status_update (\<lambda>_. st))) d)"
proof -
  let ?e = "chamas_update (upd_row ch_id i (ch_status_update (\<lambda>_. st))) d"
  have path: "moves_to\<^sup>*\<^sup>* (ch_status c) st" using edge by (rule r_into_rtranclp)
  have "chama_life.follows d ?e"
    by (rule chama_life.follows_update [where f = "ch_status_update (\<lambda>_. st)", OF _ _ c]) (use path in \<open>simp_all add: same_chama_def\<close>)
  moreover have "accounts_wf ?e" using accounts_wfD [OF wf] unfolding accounts_wf_def by simp
  moreover have "administered ?e = administered d"
    using holds_platform_role_cong [of ?e d] by (simp add: administered_def)
  ultimately show ?thesis by (simp add: accounts_rel_def token_used_def)
qed

end
