(* ===== verification/Account_Life.thy ===== *)
theory Account_Life
  imports Account_Facts
begin

text \<open>
  The requests of the account and platform endpoints, each shown to commit only steps of
  \<open>Account_Facts\<close>. Most programs are safe in any state: \<open>safe\<close> composes along the program
  text. The few changes that rest on a check made before them (linking an identity,
  deactivating an account, dropping a grant, moving a Chama) are shown from a session at rest.
\<close>

section \<open>Safe programs\<close>

definition going :: "sess \<Rightarrow> sess \<Rightarrow> bool" where
  "going s t \<longleftrightarrow> grows (accounts_step (objs s)) s t \<and> accounts_step (objs s) (objs t)"

definition safe :: "'a act \<Rightarrow> bool" where
  "safe m \<longleftrightarrow> (\<forall>s t. going s t \<longrightarrow> wp m (\<lambda>_. going s) (\<lambda>_. going s) t)"

lemma wp_safe:
  assumes "safe m" and "going s t" and "\<And>x t'. going s t' \<Longrightarrow> Q x t'" and "\<And>e t'. going s t' \<Longrightarrow> R e t'"
  shows "wp m Q R t"
  using assms(1,2) unfolding safe_def by (blast intro: wp_mono assms(3,4))

lemma going_start: "accounts_wf (objs s) \<Longrightarrow> going s s"
  by (simp add: going_def accounts_rel_refl)

lemma going_wf: "going s t \<Longrightarrow> accounts_wf (objs t)"
  by (simp add: going_def)

lemma going_step:
  "going s t \<Longrightarrow> durable t' = durable t \<Longrightarrow> accounts_step (objs t) (objs t') \<Longrightarrow> going s t'"
  unfolding going_def grows_def using accounts_step_trans by metis

lemma going_same: "going s t \<Longrightarrow> durable t' = durable t \<Longrightarrow> objs t' = objs t \<Longrightarrow> going s t'"
  by (simp add: going_def grows_def)

lemma going_env [simp]:
  "going s (sync t) = going s t" "going s (t\<lparr>rows := a\<rparr>) = going s t" "going s (t\<lparr>next_uuid := u\<rparr>) = going s t"
  by (simp_all add: going_def grows_def)

lemma going_commit: "going s t \<Longrightarrow> going s (t\<lparr>rows := objs t, durable := objs t # durable t\<rparr>)"
  unfolding going_def by (auto intro: grows_Cons [of _ "objs t" t])

lemma safeI: "(\<And>s t. going s t \<Longrightarrow> wp m (\<lambda>_. going s) (\<lambda>_. going s) t) \<Longrightarrow> safe m"
  by (simp add: safe_def)

named_theorems safe \<open>programs that are safe in any state\<close>

lemma safe_bind [safe]: "safe m \<Longrightarrow> (\<And>x. safe (f x)) \<Longrightarrow> safe (bind m f)"
  by (rule safeI) (auto simp: wp_bind intro: wp_safe)

lemma safe_basic [safe]:
  "safe (ret x)" "safe (raise e)" "safe (ensure c e)" "safe (asks g)" "safe (query h)" "safe (scalar i)"
  "safe (select_all tab P)" "safe (select_first tab P)" "safe (get_by_key tab key k)" "safe uuid4" "safe flush"
  by (simp_all add: safe_def wp)

lemma safe_commit [safe]: "safe commit"
  by (rule safeI) (simp add: wp going_commit)

lemma safe_if [safe]: "(c \<Longrightarrow> safe m) \<Longrightarrow> (\<not> c \<Longrightarrow> safe n) \<Longrightarrow> safe (if c then m else n)"
  by simp

lemma safe_option [safe]: "safe m \<Longrightarrow> (\<And>x. safe (f x)) \<Longrightarrow> safe (case x of None \<Rightarrow> m | Some x \<Rightarrow> f x)"
  by (simp split: option.split)

lemma safe_for_each [safe]: "(\<And>x. safe (f x)) \<Longrightarrow> safe (for_each xs f)"
  by (induction xs) (simp_all add: safe)

lemma safe_collect [safe]: "(\<And>x. safe (f x)) \<Longrightarrow> safe (collect f xs)"
  by (induction xs) (simp_all add: safe)

lemma safe_on_state_error [safe]: "safe m \<Longrightarrow> safe (on_state_error f m)"
  unfolding safe_def wp_def on_state_error_def by (auto split: prod.splits sum.splits err.splits)

lemma safe_change:
  assumes "\<And>d. accounts_wf d \<Longrightarrow> accounts_step d (f d)"
  shows "safe (change f)"
proof (rule safeI)
  fix s t
  assume t: "going s t"
  show "wp (change f) (\<lambda>_. going s) (\<lambda>_. going s) t"
    unfolding wp by (rule going_step [OF t]) (simp_all add: assms [OF going_wf [OF t]])
qed

lemma safe_insert:
  assumes "\<And>d. accounts_wf d \<Longrightarrow> check d r = None \<Longrightarrow> accounts_step d (add r d)"
  shows "safe (insert_row check add r)"
proof (rule safeI)
  fix s t
  assume t: "going s t"
  show "wp (insert_row check add r) (\<lambda>_. going s) (\<lambda>_. going s) t"
  proof (cases "check (objs t) r")
    case None
    have "going s (t\<lparr>objs := add r (objs t)\<rparr>)"
      by (rule going_step [OF t]) (simp_all add: assms [OF going_wf [OF t] None])
    then have "going s (t\<lparr>objs := add r (objs t), rows := add r (objs t)\<rparr>)"
      by (rule going_same) simp_all
    with None show ?thesis by (simp add: wp)
  next
    case (Some c)
    with t show ?thesis by (simp add: wp)
  qed
qed

lemma safe_audit [safe]: "safe (audit_record a c k rt ri p b)" "safe (audit_record_commit a c k rt ri p b)"
proof -
  have "going s (logged ev n u t)" if "going s t" for s t ev n u
  proof (rule going_step [OF that])
    have "accounts_step (objs t) (objs t)" using going_wf [OF that] by (simp add: accounts_rel_refl)
    from accounts_step_logged [OF this, of ev n] show "accounts_step (objs t) (objs (logged ev n u t))"
      by (simp add: logged_def log_db_def)
  qed (simp add: logged_def)
  then show one: "safe (audit_record a c k rt ri p b)"
    by (intro safeI wp_audit_record) blast
  show "safe (audit_record_commit a c k rt ri p b)"
    unfolding audit_record_commit_def by (intro safe one)
qed

section \<open>The safe parts of the services\<close>

lemma safe_reads [safe]:
  "safe (get_user_by_id i)" "safe (get_user_by_email email)" "safe (user_has_role i r)" "safe (list_admin_user_ids r)"
  "safe (list_grants_for_user i)" "safe (member_of u)" "safe (get_user_or_404 i)" "safe (reload_user i)"
  "safe (reload_chama i)" "safe (get_chama_or_404 i)" "safe (require_platform_admin u)" "safe active_admins"
  "safe (get_by_hash h)" "safe (hash_refresh_token lib tok)" "safe (hash_password lib pw)"
  "safe (validate_password pw em phone)" "safe (issue_token lib u)" "safe (generate_refresh_token lib)"
  "safe (user_of_member P)" "safe (get_by_phone ph)" "safe (get_by_government_id g)" "safe (get_by_member_id i)"
  "safe (find_by_identity ph g)" "safe (phone_exists ph)" "safe (government_id_exists g)"
  unfolding get_user_by_id_def get_user_by_email_def user_has_role_def list_admin_user_ids_def list_grants_for_user_def
    member_of_def get_user_or_404_def reload_user_def reload_chama_def get_chama_or_404_def require_platform_admin_def
    is_platform_admin_def active_admins_def get_by_hash_def hash_refresh_token_def hash_password_def
    validate_password_def Let_def issue_token_def create_access_token_def generate_refresh_token_def
    user_of_member_def get_by_phone_def get_by_government_id_def get_by_member_id_def find_by_identity_def
    phone_exists_def government_id_exists_def
  by (intro safe)+

lemma safe_outputs [safe]: "safe (user_out u)" "safe (chama_out c)"
  unfolding user_out_def chama_out_def by (intro safe)+

lemma safe_tokens [safe]:
  "safe (revoke_token tok now)" "safe (revoke_all_for_user i now)" "safe (create_refresh_token i h e)"
  "safe (open_refresh_token lib i)" "safe (create_auth_session lib u)" "safe (rotate_refresh_token lib r)"
  "safe (refresh lib r)" "safe (revoke_refresh_token lib r)" "safe (logout lib r)"
proof -
  have rev: "safe (change (set_revoked now i))" for now i by (rule safe_change) (rule revoke_step)
  have ins: "safe (insert_row refresh_token_check (\<lambda>r d. d\<lparr>refresh_tokens := refresh_tokens d @ [r]\<rparr>) r)" for r
    by (rule safe_insert) (rule add_token_step)
  show one: "safe (revoke_token tok now)" for tok now unfolding revoke_token_def by (intro safe rev)
  show "safe (revoke_all_for_user i now)" unfolding revoke_all_for_user_def by (intro safe rev)
  have create: "safe (create_refresh_token i h e)" for i h e unfolding create_refresh_token_def by (intro safe ins)
  then show "safe (create_refresh_token i h e)" .
  have open': "safe (open_refresh_token lib i)" for i unfolding open_refresh_token_def by (intro safe create)
  then show "safe (open_refresh_token lib i)" .
  show "safe (create_auth_session lib u)" unfolding create_auth_session_def by (intro safe open')
  show rotate: "safe (rotate_refresh_token lib r)" unfolding rotate_refresh_token_def by (intro safe one open')
  show "safe (refresh lib r)" unfolding refresh_def by (intro safe rotate)
  show out: "safe (revoke_refresh_token lib r)" unfolding revoke_refresh_token_def by (intro safe one)
  show "safe (logout lib r)" unfolding logout_def by (intro safe out)
qed

lemma safe_login [safe]: "safe (authenticate lib i p)" "safe (login lib i p)"
proof -
  show "safe (authenticate lib i p)" unfolding authenticate_def Let_def by (intro safe)
  then show "safe (login lib i p)" unfolding login_def by (intro safe)
qed

text \<open>Edits that touch neither the identity nor the activity of an account.\<close>

lemma safe_edit:
  assumes "\<And>v. us_id (f v) = us_id v" "\<And>v. us_email (f v) = us_email v" "\<And>v. us_member_id (f v) = us_member_id v"
    and "\<And>v. us_is_active v \<Longrightarrow> us_is_active (f v)"
  shows "safe (change (edit_user i f))"
proof (rule safe_change)
  fix d
  assume wf: "accounts_wf d"
  show "accounts_step d (edit_user i f d)"
  proof (cases "find_row us_id i (users d)")
    case None
    then have "edit_user i f d = d" by (simp add: edit_user_def find_row_None_iff upd_row_absent)
    then show ?thesis using wf by (simp add: accounts_rel_refl)
  next
    case (Some u)
    show ?thesis
      by (rule edit_user_step [OF wf assms(1,2) Some]) (simp_all add: assms administered_edit)
  qed
qed

lemma edit_user_unfold: "users_update (upd_row us_id i f) = edit_user i f"
  by (simp add: edit_user_def)

lemma safe_passwords [safe]:
  "safe (change_password lib u old new)" "safe (platform_require_password_change actor i)"
  "safe (auth_require_password_change u reason)"
proof -
  show "safe (change_password lib u old new)"
    unfolding change_password_def by (intro safe safe_edit) simp_all
  show "safe (platform_require_password_change actor i)"
    unfolding platform_require_password_change_def edit_user_unfold by (intro safe safe_edit) simp_all
  show "safe (auth_require_password_change u reason)"
    unfolding auth_require_password_change_def by (intro safe safe_edit) simp_all
qed

lemma safe_grants [safe]:
  "safe (grant_to actor u)" "safe (grant_platform_admin actor i r)" "safe (grant_platform_admin_by_email actor email)"
proof -
  have ins: "safe (insert_grant i r g now)" for i r g now
    unfolding insert_grant_def by (rule safe_insert) (rule add_grant_step)
  show one: "safe (grant_to actor u)" for u unfolding grant_to_def by (intro safe ins)
  show "safe (grant_platform_admin actor i r)" unfolding grant_platform_admin_def by (intro safe one)
  show "safe (grant_platform_admin_by_email actor email)"
    unfolding grant_platform_admin_by_email_def by (intro safe one)
qed

section \<open>Identities\<close>

text \<open>A member that no account is linked to.\<close>

definition unlinked :: "member \<Rightarrow> db \<Rightarrow> bool" where
  "unlinked m d \<longleftrightarrow> m \<in> set (members d) \<and> (\<forall>v \<in> set (users d). us_member_id v \<noteq> Some (mb_id m))"

lemma wp_find_by_identity_clean:
  assumes "clean s" and "\<And>m. m \<in> set (members (objs s)) \<Longrightarrow> Q (Some m) s" and "Q None s"
  shows "wp (find_by_identity ph g) Q R s"
proof -
  let ?r = "first (filter (\<lambda>m. mb_phone_number m \<in> set (phone_variants ph) \<and> mb_government_id m = g) (members (objs s)))"
  have "Q ?r s" using assms(2,3) by (cases ?r) (auto dest: first_filter_SomeD)
  then show ?thesis using assms(1) by (simp add: find_by_identity_def wp)
qed

lemma wp_get_by_member_id_clean:
  assumes "clean s" and "\<forall>v \<in> set (users (objs s)). us_member_id v \<noteq> Some i \<Longrightarrow> Q None s" and "\<And>u. Q (Some u) s"
  shows "wp (get_by_member_id i) Q R s"
proof -
  let ?r = "first (filter (\<lambda>u. us_member_id u = Some i) (users (objs s)))"
  have "Q ?r s" using assms(2,3) by (cases ?r) (auto simp: filter_empty_conv)
  then show ?thesis using assms(1) by (simp add: get_by_member_id_def wp)
qed

lemma wp_known_member:
  assumes "clean s" and "Q None s" and "\<And>m. unlinked m (objs s) \<Longrightarrow> Q (Some m) s" and "\<And>e. R e s"
  shows "wp (known_member details) Q R s"
  unfolding known_member_def wp_bind
proof (rule wp_find_by_identity_clean [OF assms(1)])
  fix m
  assume m: "m \<in> set (members (objs s))"
  have "wp (get_by_member_id (mb_id m)) (\<lambda>linked.
      wp (bind (ensure (linked = None) (ConflictError ''This member identity is already linked to another account''))
        (\<lambda>_. ret (Some m))) Q R) R s"
    by (rule wp_get_by_member_id_clean [OF assms(1)])
       (use m assms(3,4) in \<open>simp_all add: wp unlinked_def\<close>)
  then show "wp (case Some m of None \<Rightarrow> bind (phone_exists (md_phone_number details)) (\<lambda>taken.
         bind (ensure (\<not> taken) (ConflictError ''phone_number is already registered to another member'')) (\<lambda>_.
         bind (government_id_exists (md_government_id details)) (\<lambda>taken.
         bind (ensure (\<not> taken) (ConflictError ''government_id is already registered to another member'')) (\<lambda>_.
         ret None))))
     | Some m \<Rightarrow>
         bind (get_by_member_id (mb_id m)) (\<lambda>linked.
         bind (ensure (linked = None) (ConflictError ''This member identity is already linked to another account''))
           (\<lambda>_. ret (Some m)))) Q R s" by (simp add: wp_bind)
qed (use assms in \<open>simp add: wp phone_exists_def government_id_exists_def\<close>)

lemma link_step:
  assumes wf: "accounts_wf d" and u: "find_row us_id i (users d) = Some u" and m: "unlinked m d"
  shows "accounts_step d (edit_user i (us_member_id_update (\<lambda>_. Some (mb_id m))) d)"
  by (rule edit_user_step [OF wf _ _ u]) (use m in \<open>auto simp: unlinked_def intro: administered_edit\<close>)

section \<open>Steps on which a check is needed\<close>

lemma wp_ensure_then: "(c \<Longrightarrow> wp m Q R s) \<Longrightarrow> (\<not> c \<Longrightarrow> R e s) \<Longrightarrow> wp (bind (ensure c e) (\<lambda>_. m)) Q R s"
  by (simp add: wp)

lemma wp_ret_then: "wp (f x) Q R s \<Longrightarrow> wp (bind (ret x) f) Q R s"
  by (simp add: wp)

lemma wp_either: "(c \<Longrightarrow> wp m Q R s) \<Longrightarrow> (\<not> c \<Longrightarrow> wp n Q R s) \<Longrightarrow> wp (if c then m else n) Q R s"
  by simp

lemma wp_change_then:
  assumes "going s t" and "accounts_step (objs t) (f (objs t))" and "safe k"
  shows "wp (bind (change f) (\<lambda>_. k)) (\<lambda>_. going s) (\<lambda>_. going s) t"
  unfolding wp_bind wp_change
  by (rule wp_safe [OF assms(3) going_step [OF assms(1)]]) (simp_all add: assms(2))

lemma wp_admin_then:
  assumes "clean s" and "us_is_active a \<Longrightarrow> holds_platform_role (objs s) (us_id a) PLATFORM_ADMIN \<Longrightarrow> wp m Q R s"
    and "\<And>e. R e s"
  shows "wp (bind (require_platform_admin a) (\<lambda>_. m)) Q R s"
  unfolding wp_bind wp_require_platform_admin using assms by simp

lemma wp_user_then:
  assumes "\<And>u. find_row us_id i (users (objs s)) = Some u \<Longrightarrow> wp (f u) Q R s" and "\<And>e. R e s"
  shows "wp (bind (get_user_or_404 i) f) Q R s"
  using assms by (simp add: wp get_user_or_404_def get_user_by_id_def split: option.split)

definition active_admin_ids :: "db \<Rightarrow> uuid list" where
  "active_admin_ids d =
     filter (\<lambda>i. case find_row us_id i (users d) of None \<Rightarrow> False | Some u \<Rightarrow> us_is_active u) (platform_admin_ids d)"

lemma wp_admin_reads:
  assumes "clean s"
  shows "wp (user_has_role i r) Q R s = Q (holds_platform_role (objs s) i r) s"
    and "wp active_admins Q' R s = Q' (active_admin_ids (objs s)) s"
  using assms
  by (simp_all add: user_has_role_def active_admins_def active_admin_ids_def list_admin_user_ids_def platform_admin_ids_def wp)

lemma wp_link_member:
  assumes clean: "clean s" and wf: "accounts_wf (objs s)" and u: "find_row us_id (us_id u) (users (objs s)) = Some u"
  shows "wp (link_member u ph g) (\<lambda>_. going s) (\<lambda>_. going s) s"
  unfolding link_member_def
proof (rule wp_ensure_then, subst wp_bind, rule wp_find_by_identity_clean [OF clean])
  note start = going_start [OF wf]
  fix m
  assume m: "m \<in> set (members (objs s))"
  let ?k = "bind commit (\<lambda>_. bind (audit_record_commit (Some (us_id u)) None AUTH_MEMBER_LINK ''user'' (Some (us_id u)) None True)
      (\<lambda>_. reload_user (us_id u)))"
  have "wp (bind (get_by_member_id (mb_id m)) (\<lambda>existing.
         bind (ensure (existing = None) (ConflictError ''This member identity is already linked to another account''))
           (\<lambda>_. bind (change (edit_user (us_id u) (us_member_id_update (\<lambda>_. Some (mb_id m))))) (\<lambda>_. ?k))))
      (\<lambda>_. going s) (\<lambda>_. going s) s"
    by (subst wp_bind, rule wp_get_by_member_id_clean [OF clean], rule wp_ensure_then, rule wp_change_then [OF start])
       (use m start in \<open>simp_all add: unlinked_def link_step [OF wf u] safe wp\<close>)
  then show "wp (case Some m of None \<Rightarrow> raise (NotFoundError ''No member matches these identity details'')
     | Some m \<Rightarrow> bind (get_by_member_id (mb_id m)) (\<lambda>existing.
         bind (ensure (existing = None) (ConflictError ''This member identity is already linked to another account''))
           (\<lambda>_. bind (change (edit_user (us_id u) (us_member_id_update (\<lambda>_. Some (mb_id m))))) (\<lambda>_. ?k))))
     (\<lambda>_. going s) (\<lambda>_. going s) s" by simp
qed (simp_all add: wp going_start [OF wf])

text \<open>Reads: from a session at rest they leave it as it is.\<close>

definition still :: "'a act \<Rightarrow> bool" where
  "still m \<longleftrightarrow> (\<forall>s. clean s \<longrightarrow> snd (m s) = s)"

named_theorems still \<open>programs that only read\<close>

lemma still_basic [still]:
  "still (ret x)" "still (raise e)" "still (ensure c e)" "still (asks g)" "still (query h)" "still (scalar i)"
  by (auto simp: still_def ret_def raise_def ensure_def asks_def query_def scalar_def)

lemma still_bind [still]: "still m \<Longrightarrow> (\<And>x. still (f x)) \<Longrightarrow> still (bind m f)"
  unfolding still_def bind_def by (auto split: prod.splits sum.splits)

lemma still_if [still]: "still m \<Longrightarrow> still n \<Longrightarrow> still (if c then m else n)"
  by simp

lemma still_reads [still]: "still (user_has_role i r)" "still active_admins"
  unfolding user_has_role_def active_admins_def list_admin_user_ids_def by (intro still)+

lemma wp_still:
  assumes "still m" and "clean s" and "\<And>x. wp (f x) Q R s" and "\<And>e. R e s"
  shows "wp (bind m f) Q R s"
proof (cases "m s")
  case (Pair r t)
  then have "t = s" using assms(1,2) unfolding still_def by (metis snd_conv)
  then show ?thesis using Pair assms(3,4) by (cases r) (simp_all add: wp_bind, simp_all add: wp_def)
qed

lemma wp_set_user_active:
  assumes clean: "clean s" and wf: "accounts_wf (objs s)" and a: "find_row us_id (us_id a) (users (objs s)) = Some a"
  shows "wp (set_user_active a i b) (\<lambda>_. going s) (\<lambda>_. going s) s"
  unfolding set_user_active_def edit_user_unfold
proof (rule wp_admin_then [OF clean], rule wp_user_then, rule wp_ensure_then, rule wp_still [OF _ clean],
    (intro still)[1], rule wp_still [OF _ clean], (intro still)[1], goal_cases)
  case (1 u x y)
  then have act: "us_is_active a" "holds_platform_role (objs s) (us_id a) PLATFORM_ADMIN"
    and u: "find_row us_id i (users (objs s)) = Some u" and own: "\<not> (us_id u = us_id a \<and> \<not> b)" by blast+
  have i: "us_id u = i" by (rule find_row_key [OF u])
  have step: "accounts_step (objs s) (edit_user (us_id u) (us_is_active_update (\<lambda>_. b)) (objs s))"
  proof (rule edit_user_step [OF wf])
    assume adm: "administered (objs s)"
    show "administered (edit_user (us_id u) (us_is_active_update (\<lambda>_. b)) (objs s))"
    proof (cases b)
      case True
      show ?thesis by (rule administered_edit [OF adm]) (simp_all add: True)
    next
      case False
      with own have "us_id a \<noteq> us_id u" by auto
      with find_row_SomeD [OF a] act show ?thesis by (intro administered_by_other) auto
    qed
  qed (simp_all add: i u)
  have out: "wp (user_out u) (\<lambda>_. going s) (\<lambda>_. going s) s"
    by (rule wp_safe [OF _ going_start [OF wf]]) (simp_all add: safe)
  show ?case
    by (rule wp_either, rule out, rule wp_change_then, rule going_start [OF wf], rule step, intro safe)
qed (simp_all add: going_start [OF wf])

text \<open>A grant is revoked by another administrator, who keeps the own one.\<close>

lemma wp_revoke_platform_admin:
  assumes clean: "clean s" and wf: "accounts_wf (objs s)" and a: "find_row us_id (us_id a) (users (objs s)) = Some a"
  shows "wp (revoke_platform_admin a i r) (\<lambda>_. going s) (\<lambda>_. going s) s"
proof -
  note start = going_start [OF wf]
  let ?P = "\<lambda>pr. pr_user_id pr = i \<and> pr_role pr = r"
  have get: "wp (get_grant i r) Q R s = Q (first (filter ?P (platform_roles (objs s)))) s"
    for Q :: "user_platform_role option \<Rightarrow> sess \<Rightarrow> bool" and R
    using clean by (simp add: get_grant_def wp)
  have ids: "still (list_admin_user_ids r)" unfolding list_admin_user_ids_def by (intro still)
  show ?thesis
    unfolding revoke_platform_admin_def
  proof (rule wp_admin_then [OF clean], rule wp_user_then, subst wp_bind, subst get, goal_cases)
    case (1 u)
    show ?case
    proof (cases "first (filter ?P (platform_roles (objs s)))")
      case None
      then show ?thesis by (simp add: wp start)
    next
      case (Some g)
      then have g: "pr_user_id g = i" using first_filter_SomeD [of ?P] by blast
      show ?thesis
        unfolding Some option.case
      proof (rule wp_ensure_then, rule wp_still [OF ids clean], rule wp_ensure_then, rule wp_change_then, rule start, goal_cases)
        case (1 x)
        then show ?case
          using find_row_SomeD [OF a] \<open>us_is_active a\<close> \<open>holds_platform_role (objs s) (us_id a) PLATFORM_ADMIN\<close> g
          by (intro drop_grant_step [OF wf, of a]) simp_all
      next
        case (2 x)
        show ?case by (intro safe)
      qed (rule start)+
    qed
  qed (rule start)+
qed

lemma other_in: "distinct xs \<Longrightarrow> x \<in> set xs \<Longrightarrow> xs \<noteq> [x] \<Longrightarrow> \<exists>y \<in> set xs. y \<noteq> x"
  by (cases xs) (auto simp: neq_Nil_conv)

lemma active_admin_ids_facts:
  assumes wf: "accounts_wf d"
  shows "distinct (active_admin_ids d)"
    and "i \<in> set (active_admin_ids d) \<longleftrightarrow>
      (\<exists>u. find_row us_id i (users d) = Some u \<and> us_is_active u \<and> holds_platform_role d i PLATFORM_ADMIN)"
proof -
  have "distinct (map pr_user_id (filter (\<lambda>pr. pr_role pr = PLATFORM_ADMIN) prs))"
    if "distinct (map (\<lambda>pr. (pr_user_id pr, pr_role pr)) prs)" for prs :: "user_platform_role list"
    using that by (induction prs) auto
  then show "distinct (active_admin_ids d)"
    using accounts_wfD(5) [OF wf] by (simp add: active_admin_ids_def platform_admin_ids_def)
  show "i \<in> set (active_admin_ids d) \<longleftrightarrow>
      (\<exists>u. find_row us_id i (users d) = Some u \<and> us_is_active u \<and> holds_platform_role d i PLATFORM_ADMIN)"
    by (auto simp: active_admin_ids_def platform_admin_ids_def holds_platform_role_def list_ex_iff split: option.splits)
qed

lemma close_account_step:
  assumes wf: "accounts_wf d" and u: "find_row us_id (us_id u) (users d) = Some u" and act: "us_is_active u"
    and other: "holds_platform_role d (us_id u) PLATFORM_ADMIN \<Longrightarrow> active_admin_ids d \<noteq> [us_id u]"
  shows "accounts_step d (edit_user (us_id u) (us_is_active_update (\<lambda>_. False)) d)"
proof (rule edit_user_step [OF wf])
  assume adm: "administered d"
  have "\<exists>v \<in> set (users d). us_is_active v \<and> holds_platform_role d (us_id v) PLATFORM_ADMIN \<and> us_id v \<noteq> us_id u"
  proof (cases "holds_platform_role d (us_id u) PLATFORM_ADMIN")
    case True
    then have "us_id u \<in> set (active_admin_ids d)" using active_admin_ids_facts(2) [OF wf] u act by blast
    then obtain j where j: "j \<in> set (active_admin_ids d)" "j \<noteq> us_id u"
      using other_in [OF active_admin_ids_facts(1) [OF wf]] other [OF True] by blast
    then obtain v where "find_row us_id j (users d) = Some v" "us_is_active v" "holds_platform_role d j PLATFORM_ADMIN"
      using active_admin_ids_facts(2) [OF wf] by blast
    then show ?thesis using j(2) find_row_SomeD [of us_id j "users d" v] by blast
  next
    case False
    then show ?thesis using adm unfolding administered_def by metis
  qed
  then show "administered (edit_user (us_id u) (us_is_active_update (\<lambda>_. False)) d)"
    by (elim bexE conjE) (rule administered_by_other)
qed (simp_all add: u)

lemma wp_delete_account:
  assumes clean: "clean s" and wf: "accounts_wf (objs s)" and u: "find_row us_id (us_id u) (users (objs s)) = Some u"
    and act: "us_is_active u"
  shows "wp (delete_account lib u pw) (\<lambda>_. going s) (\<lambda>_. going s) s"
proof -
  note start = going_start [OF wf]
  have edit: "wp (bind (change (edit_user (us_id u) (us_is_active_update (\<lambda>_. False)))) (\<lambda>_. k)) (\<lambda>_. going s) (\<lambda>_. going s) s"
    if "holds_platform_role (objs s) (us_id u) PLATFORM_ADMIN \<Longrightarrow> active_admin_ids (objs s) \<noteq> [us_id u]" "safe k" for k :: "unit act"
    by (rule wp_change_then, rule start, rule close_account_step [OF wf u act that(1)], assumption, rule that(2))
  show ?thesis
    unfolding delete_account_def
  proof (rule wp_ensure_then, subst wp_bind, subst wp_admin_reads(1) [OF clean], subst wp_bind, rule wp_either, goal_cases)
    case 1
    show ?case
      unfolding wp_bind [of active_admins] wp_admin_reads(2) [OF clean] wp_ensure
      using start by (auto intro!: edit safe)
  next
    case 2
    then show ?case unfolding wp_ret by (intro edit) (blast, intro safe)
  qed (rule start)
qed

text \<open>The lifecycle of a Chama.\<close>

lemma wp_update_chama_status:
  assumes clean: "clean s" and wf: "accounts_wf (objs s)"
  shows "wp (update_chama_status a cid st why) (\<lambda>_. going s) (\<lambda>_. going s) s"
  unfolding update_chama_status_def Let_def
proof (rule wp_admin_then [OF clean], subst wp_bind, subst wp_get_chama_or_404, goal_cases)
  case 1
  note start = going_start [OF wf]
  show ?case
  proof (cases "find_row ch_id cid (chamas (objs s))")
    case None
    then show ?thesis by (simp add: start)
  next
    case (Some c)
    then have id: "ch_id c = cid" by (rule find_row_key)
    show ?thesis
      unfolding Some option.case
    proof (rule wp_either, rule wp_safe [OF _ start], rule safe, assumption, assumption, rule wp_ensure_then,
        rule wp_ensure_then, rule wp_change_then, rule start, goal_cases)
      case 1
      then show ?case by (intro chama_status_step [OF wf]) (simp_all add: Some id moves_to_def)
    next
      case 2
      show ?case by (intro safe)
    qed (rule start)+
  qed
qed (rule going_start [OF wf])

text \<open>Registration: the identity that is linked is a new row, or one no account is linked to.\<close>

lemma wp_create_member_unlinked:
  assumes "going s t"
  shows "wp (create_member details) (\<lambda>m t'. going s t' \<and> unlinked m (objs t')) (\<lambda>_. going s) t"
proof -
  let ?m = "\<lparr>mb_id = next_uuid t, mb_first_name = md_first_name details, mb_last_name = md_last_name details,
     mb_phone_number = md_phone_number details, mb_government_id = md_government_id details\<rparr>"
  let ?e = "(objs t)\<lparr>members := members (objs t) @ [?m]\<rparr>"
  have "unlinked ?m ?e" if "member_check (objs t) ?m = None"
  proof -
    have "next_uuid t \<notin> mb_id ` set (members (objs t))"
      using that by (auto simp: member_check_def list_ex_iff split: if_splits)
    then show ?thesis
      using accounts_wfD(3) [OF going_wf [OF assms]] by (auto simp: unlinked_def)
  qed
  moreover have "going s (t\<lparr>objs := ?e, rows := ?e, next_uuid := Suc (next_uuid t)\<rparr>)"
    by (rule going_step [OF assms]) (simp_all add: add_member_step [OF going_wf [OF assms]])
  ultimately show ?thesis
    using assms by (auto simp: create_member_def wp Let_def split: option.split)
qed

lemma wp_register:
  assumes clean: "clean s" and wf: "accounts_wf (objs s)"
  shows "wp (register lib email pw details) (\<lambda>_. going s) (\<lambda>_. going s) s"
proof -
  note start = going_start [OF wf]
  let ?G = "\<lambda>_. going s"
  have finish: "wp (bind (hash_password lib pw) (\<lambda>password_hash.
     bind (create_user email password_hash) (\<lambda>u.
     bind (case identity of
             None \<Rightarrow> ret ()
           | Some m \<Rightarrow> change (edit_user (us_id u) (us_member_id_update (\<lambda>_. Some (mb_id m))))) (\<lambda>_. k u)))) ?G ?G t"
    if t: "going s t" and id: "\<And>m. identity = Some m \<Longrightarrow> unlinked m (objs t)" and k: "\<And>u. safe (k u)"
    for t identity and k :: "user \<Rightarrow> user act"
  proof -
    let ?u = "\<lparr>us_id = next_uuid t, us_email = lower email, us_password_hash = cr_hash lib (next_uuid t) pw,
        us_is_active = True, us_must_change_password = False, us_member_id = None\<rparr>"
    let ?e = "(objs t)\<lparr>users := users (objs t) @ [?u]\<rparr>"
    let ?t = "t\<lparr>objs := ?e, rows := ?e, next_uuid := Suc (next_uuid t)\<rparr>"
    have fine: "wp (bind (case identity of None \<Rightarrow> ret ()
        | Some m \<Rightarrow> change (edit_user (us_id ?u) (us_member_id_update (\<lambda>_. Some (mb_id m))))) (\<lambda>_. k ?u)) ?G ?G ?t"
      if check: "user_check (objs t) ?u = None"
    proof -
      have g: "going s ?t"
        by (rule going_step [OF t]) (simp_all add: add_user_step [OF going_wf [OF t] check])
      show ?thesis
      proof (cases identity)
        case None
        then show ?thesis using wp_safe [OF k g] by (simp add: wp)
      next
        case (Some m)
        have "find_row us_id (next_uuid t) (users (objs t)) = None"
          using check by (auto simp: user_check_def list_ex_iff find_row_None_iff split: if_splits)
        then have found: "find_row us_id (us_id ?u) (users (objs ?t)) = Some ?u"
          by (simp add: find_row_append find_row_Cons)
        have "unlinked m (objs ?t)" using id [OF Some] by (auto simp: unlinked_def)
        then have step: "accounts_step (objs ?t) (edit_user (us_id ?u) (us_member_id_update (\<lambda>_. Some (mb_id m))) (objs ?t))"
          by (rule link_step [OF going_wf [OF g] found])
        show ?thesis unfolding Some option.case by (rule wp_change_then, rule g, rule step, rule k)
      qed
    qed
    show ?thesis
      unfolding hash_password_def create_user_def Let_def wp_bind [of "asks _"] wp_asks wp_bind [of "bind uuid4 _"]
        wp_bind [of uuid4] wp_uuid4 wp_bind [of "insert_row _ _ _"] wp_insert_row wp_ret
      using fine t by (simp split: option.split)
  qed
  have by_email: "wp (get_user_by_email email) Q R s" if "\<And>r. Q r s" for Q :: "user option \<Rightarrow> sess \<Rightarrow> bool" and R
    using that clean by (simp add: get_user_by_email_def wp)
  show ?thesis
    unfolding register_def
  proof (subst wp_bind, rule by_email, rule wp_ensure_then, goal_cases)
    case (1 r)
    show ?case
    proof (cases details)
      case None
      show ?thesis
        unfolding None option.case prod.case option.map validate_password_def Let_def
        by (rule wp_ret_then, rule wp_ensure_then, rule wp_ret_then, rule finish [OF start], simp, intro safe, rule start)
    next
      case (Some d)
      show ?thesis
        unfolding Some option.case option.map
      proof (subst wp_bind, rule wp_known_member [OF clean], unfold validate_password_def Let_def, rule wp_ensure_then, goal_cases)
        case 1
        show ?case
          unfolding prod.case option.case wp_bind [of "bind (create_member _) _"] wp_bind [of "create_member _"] wp_ret
          by (rule wp_mono, rule wp_create_member_unlinked [OF start], elim conjE,
              rule finish [of _ "Some m" for m, unfolded option.case], assumption, simp, intro safe)
      next
        case (3 m)
        show ?case
          unfolding prod.case option.case
          by (rule wp_ensure_then, rule wp_ret_then, rule finish [of s "Some m", OF start])
             (use 3 start in \<open>simp_all add: safe\<close>)
      qed (rule start)+
    qed
  qed (rule start)
qed

end
