(* ===== verification/Account_Props.thy ===== *)
theory Account_Props
  imports Account_Life Demo
begin

text \<open>
  The properties of accounts, sessions and platform administration, over any sequence of their
  requests: what is signed in with which token, who administers the platform, which refresh
  tokens still work, whom an identity belongs to and where a Chama's lifecycle ends.
\<close>

section \<open>The service\<close>

datatype signed_op =
    Link_Identity string string
  | New_Password string string
  | Close_Account string
  | Move_Chama uuid chama_status "string option"
  | Force_New_Password uuid
  | Set_Account_Active uuid bool
  | Grant_Admin uuid role_name
  | Grant_Admin_By_Email string
  | Revoke_Admin uuid role_name

datatype account_op =
    Register string string "member_details option"
  | Login string string
  | Refresh string
  | Logout string
  | Signed_In string string signed_op

definition void :: "'a act \<Rightarrow> unit act" where
  "void m = bind m (\<lambda>_. ret ())"

fun run_signed :: "crypto \<Rightarrow> user \<Rightarrow> signed_op \<Rightarrow> unit act" where
  "run_signed lib u (Link_Identity ph g) = void (link_member u ph g)"
| "run_signed lib u (New_Password old new) = void (on_state_error StateError (change_password lib u old new))"
| "run_signed lib u (Close_Account pw) = void (on_state_error StateError (delete_account lib u pw))"
| "run_signed lib u (Move_Chama cid st why) = void (update_chama_status u cid st why)"
| "run_signed lib u (Force_New_Password i) = void (platform_require_password_change u i)"
| "run_signed lib u (Set_Account_Active i b) = void (set_user_active u i b)"
| "run_signed lib u (Grant_Admin i r) = void (grant_platform_admin u i r)"
| "run_signed lib u (Grant_Admin_By_Email email) = void (grant_platform_admin_by_email u email)"
| "run_signed lib u (Revoke_Admin i r) = void (revoke_platform_admin u i r)"

text \<open>
  A signed-in request carries its token and its path; the user is whom the token names. (The
  sender and the Chama that a run of a service carries along play no part.)
\<close>

fun run_accounts :: "crypto \<Rightarrow> user \<Rightarrow> uuid \<Rightarrow> account_op \<Rightarrow> unit act" where
  "run_accounts lib _ _ (Register email pw details) = void (register lib email pw details)"
| "run_accounts lib _ _ (Login i pw) = void (login lib i pw)"
| "run_accounts lib _ _ (Refresh r) = void (refresh lib r)"
| "run_accounts lib _ _ (Logout r) = void (logout lib r)"
| "run_accounts lib _ _ (Signed_In token path op) =
     bind (get_current_user lib path token) (\<lambda>u. run_signed lib u op)"

lemma wp_void: "wp m (\<lambda>_. P) R s \<Longrightarrow> wp (void m) (\<lambda>_. P) R s"
  by (simp add: void_def wp)

lemma safe_void: "safe m \<Longrightarrow> safe (void m)"
  unfolding void_def by (intro safe)

lemma wp_on_state_error: "wp m Q (\<lambda>_. P) s \<Longrightarrow> wp (on_state_error f m) Q (\<lambda>_. P) s"
  by (auto simp: wp_def on_state_error_def split: sum.splits prod.splits err.splits)

lemma wp_current_user:
  assumes "\<And>u. find_row us_id (us_id u) (users (objs s)) = Some u \<Longrightarrow> us_is_active u \<Longrightarrow> Q u s" and "\<And>e. R e s"
  shows "wp (get_current_user lib path token) Q R s"
proof (cases "Option.bind (decode_access_token lib (utc_now s) token) parse_uuid")
  case None
  then show ?thesis
    using assms(2) by (auto simp: get_current_user_def wp Option.bind_eq_None_conv split: option.split)
next
  case (Some i)
  then obtain sub where "decode_access_token lib (utc_now s) token = Some sub" "parse_uuid sub = Some i"
    by (auto simp: Option.bind_eq_Some_conv)
  then show ?thesis
    using assms(2) assms(1) [of "the (find_row us_id i (users (objs s)))"]
    by (auto simp: get_current_user_def get_user_by_id_def wp find_row_key split: option.split)
qed

lemma wp_run_signed:
  assumes clean: "clean s" and wf: "accounts_wf (objs s)"
    and u: "find_row us_id (us_id u) (users (objs s)) = Some u" "us_is_active u"
  shows "wp (run_signed lib u op) (\<lambda>_. going s) (\<lambda>_. going s) s"
proof -
  note start = going_start [OF wf]
  have safe_run: "wp (void m) (\<lambda>_. going s) (\<lambda>_. going s) s" if "safe m" for m :: "'b act"
    by (rule wp_safe [OF safe_void [OF that] start])
  show ?thesis
  proof (cases op)
    case (Link_Identity ph g)
    then show ?thesis using wp_void [OF wp_link_member [OF clean wf u(1)]] by simp
  next
    case (Close_Account pw)
    then show ?thesis using wp_void [OF wp_on_state_error [OF wp_delete_account [OF clean wf u]]] by simp
  next
    case (Move_Chama cid st why)
    then show ?thesis using wp_void [OF wp_update_chama_status [OF clean wf]] by simp
  next
    case (Set_Account_Active i b)
    then show ?thesis using wp_void [OF wp_set_user_active [OF clean wf u(1)]] by simp
  next
    case (Revoke_Admin i r)
    then show ?thesis using wp_void [OF wp_revoke_platform_admin [OF clean wf u(1)]] by simp
  qed (simp_all add: safe_run safe)
qed

lemma wp_run_accounts:
  assumes clean: "clean s" and wf: "accounts_wf (objs s)"
  shows "wp (run_accounts lib a c op) (\<lambda>_. going s) (\<lambda>_. going s) s"
proof (cases op)
  case (Register email pw details)
  then show ?thesis using wp_void [OF wp_register [OF clean wf]] by simp
next
  case (Login i pw)
  then show ?thesis using wp_safe [OF safe_void [OF safe_login(2)] going_start [OF wf]] by simp
next
  case (Refresh r)
  then show ?thesis using wp_safe [OF safe_void [OF safe_tokens(7)] going_start [OF wf]] by simp
next
  case (Logout r)
  then show ?thesis using wp_safe [OF safe_void [OF safe_tokens(9)] going_start [OF wf]] by simp
next
  case (Signed_In token path op')
  have "wp (get_current_user lib path token) (\<lambda>u. wp (run_signed lib u op') (\<lambda>_. going s) (\<lambda>_. going s)) (\<lambda>_. going s) s"
    by (rule wp_current_user, rule wp_run_signed [OF clean wf], assumption+, rule going_start [OF wf])
  then show ?thesis using Signed_In by (simp add: wp_bind)
qed

interpretation accounts: service "run_accounts lib" "\<lambda>_. True" accounts_wf accounts_rel
  for lib :: crypto
proof unfold_locales
  show "accounts_rel d d" for d by (rule accounts_rel_refl)
  show "accounts_rel d d' \<Longrightarrow> accounts_rel d' d'' \<Longrightarrow> accounts_rel d d''" for d d' d'' by (rule accounts_rel_trans)
  show "wp (run_accounts lib a c op) (\<lambda>_ t. grows (accounts_step (objs s)) s t) (\<lambda>_ t. grows (accounts_step (objs s)) s t) s"
    if "clean s" "accounts_wf (objs s)" for s op a c
    by (rule wp_mono [OF wp_run_accounts [OF that]]) (simp_all add: going_def)
qed

section \<open>Refresh tokens\<close>

definition ascii :: "string \<Rightarrow> bool" where
  "ascii s \<longleftrightarrow> list_all (\<lambda>c. of_char c < (128 :: nat)) s"

lemma wp_get_by_hash:
  "clean s \<Longrightarrow> wp (get_by_hash h) Q R s = Q (first (filter (\<lambda>t. rt_token_hash t = h) (refresh_tokens (objs s)))) s"
  by (simp add: get_by_hash_def wp)

lemma token_used_cong: "refresh_tokens e = refresh_tokens d \<Longrightarrow> token_used k e = token_used k d"
  by (simp add: token_used_def)

text \<open>A rotation that succeeded has used its token up, in the database it committed.\<close>

lemma wp_rotate_refresh_token:
  assumes clean: "clean s" and wf: "accounts_wf (objs s)"
  shows "wp (rotate_refresh_token lib r)
    (\<lambda>_ t. ascii r \<and> token_used (cr_sha256_hex lib r) (objs t) \<and> hd (durable t) = objs t) (\<lambda>_ _. True) s"
proof (cases "ascii r")
  case False
  then show ?thesis by (simp add: rotate_refresh_token_def wp hash_refresh_token_def ascii_def)
next
  case True
  let ?h = "cr_sha256_hex lib r" and ?Q = "\<lambda>_ t. ascii r \<and> token_used (cr_sha256_hex lib r) (objs t) \<and> hd (durable t) = objs t"
  let ?found = "first (filter (\<lambda>t. rt_token_hash t = ?h) (refresh_tokens (objs s)))"
  have hash: "hash_refresh_token lib r = ret ?h" using True by (simp add: hash_refresh_token_def ascii_def)
  show ?thesis
    unfolding rotate_refresh_token_def hash
  proof (rule wp_ret_then, subst wp_bind, subst wp_get_by_hash [OF clean], subst wp_bind, subst wp_asks, cases ?found, goal_cases)
    case 1
    then show ?case by (simp add: wp)
  next
    case (2 k)
    then have k: "k \<in> set (refresh_tokens (objs s))" "rt_token_hash k = ?h"
      using first_filter_SomeD [of "\<lambda>t. rt_token_hash t = ?h"] by blast+
    let ?t = "s\<lparr>objs := set_revoked (utc_now s) (rt_id k) (objs s), rows := set_revoked (utc_now s) (rt_id k) (objs s)\<rparr>"
    have t: "accounts_wf (objs ?t)" "token_used ?h (objs ?t)"
      using revoke_step [OF wf] revoked_used [OF k(1)] k(2) by auto
    have later: "wp (bind (open_refresh_token lib (us_id u)) (\<lambda>token.
               bind commit (\<lambda>_.
               bind (audit_record_commit (Some (us_id u)) None AUTH_REFRESH ''user'' (Some (us_id u)) None True) (\<lambda>_.
               bind (issue_token lib u) (\<lambda>access.
               ret \<lparr>tk_access_token = access, tk_refresh_token = token,
                    tk_must_change_password = us_must_change_password u\<rparr>))))) ?Q (\<lambda>_ _. True) ?t" for u
      unfolding wp_bind [of "open_refresh_token _ _"]
    proof (rule wp_safe [OF safe_tokens(4) going_start [OF t(1)]])
      fix x t'
      assume "going ?t t'"
      then have used: "token_used ?h (objs t')" using t(2) by (simp add: going_def accounts_rel_def)
      show "wp (bind commit (\<lambda>_.
               bind (audit_record_commit (Some (us_id u)) None AUTH_REFRESH ''user'' (Some (us_id u)) None True) (\<lambda>_.
               bind (issue_token lib u) (\<lambda>access.
               ret \<lparr>tk_access_token = access, tk_refresh_token = x,
                    tk_must_change_password = us_must_change_password u\<rparr>)))) ?Q (\<lambda>_ _. True) t'"
        unfolding wp_bind wp_commit
        by (rule wp_audit_commit) (use used True in \<open>simp add: issue_token_def create_access_token_def wp token_used_def\<close>)
    qed simp
    show ?case
      unfolding 2 option.case
    proof (rule wp_ensure_then, rule wp_either, goal_cases)
      case 2
      show ?case
        unfolding get_user_by_id_def wp_bind [of "get_by_key _ _ _"] wp_get_by_key
        using later by (simp add: wp_raise wp_bind [of "ensure _ _"] wp_ensure revoke_token_def
            wp_bind [of "bind (change _) _"] wp_bind [of "change _"] wp_change wp_flush split: option.split)
    qed (simp_all add: wp revoke_token_def)
  qed
qed

lemma used_token_refused:
  assumes clean: "clean s" and wf: "accounts_wf (objs s)" and "ascii r" and used: "token_used (cr_sha256_hex lib r) (objs s)"
  shows "refresh lib r s = (Inl (Unauthorized ''This refresh token is invalid or has already been used''), s)"
proof -
  let ?h = "cr_sha256_hex lib r"
  obtain k where k: "k \<in> set (refresh_tokens (objs s))" "rt_token_hash k = ?h" "rt_revoked_at k \<noteq> None"
    using used unfolding token_used_def by blast
  obtain y where y: "rt_revoked_at k = Some y" using k(3) by blast
  have same: "k' = k" if "k' \<in> set (refresh_tokens (objs s))" "rt_token_hash k' = ?h" for k'
    using accounts_wfD(6) [OF wf] that k(1,2) unfolding distinct_map by (metis inj_onD)
  have found: "first (filter (\<lambda>t. rt_token_hash t = ?h) (refresh_tokens (objs s))) = Some k"
  proof (cases "first (filter (\<lambda>t. rt_token_hash t = ?h) (refresh_tokens (objs s)))")
    case None
    then show ?thesis using k by (auto simp: filter_empty_conv)
  next
    case (Some k')
    then show ?thesis using same first_filter_SomeD [of "\<lambda>t. rt_token_hash t = ?h"] by blast
  qed
  have "hash_refresh_token lib r = ret ?h" using assms(3) by (simp add: hash_refresh_token_def ascii_def)
  then have "rotate_refresh_token lib r s = (Inl (StateError ''This refresh token is invalid or has already been used''), s)"
    using found clean y
    by (simp add: rotate_refresh_token_def bind_def ret_def get_by_hash_def select_first_def query_def asks_def
        ensure_def raise_def)
  then show ?thesis by (simp add: refresh_def on_state_error_def)
qed

section \<open>The properties\<close>

text \<open>
  C31. A refresh token is exchanged at most once: after an exchange that succeeded, and any further
  requests, presenting the same token again is refused and changes nothing.
\<close>

theorem refresh_token_single_use:
  assumes clean: "clean s" and wf: "accounts_wf (objs s)"
    and once: "refresh lib r s = (Inr pair, s1)"
    and later: "served (run_accounts lib) (\<lambda>_. True) (snd (request (refresh lib r) s)) t"
  shows "refresh lib r t = (Inl (Unauthorized ''This refresh token is invalid or has already been used''), t)"
proof -
  have rot: "rotate_refresh_token lib r s = (Inr pair, s1)"
    using once by (auto simp: refresh_def on_state_error_def split: prod.splits sum.splits err.splits)
  have s1: "ascii r" "token_used (cr_sha256_hex lib r) (objs s1)" "hd (durable s1) = objs s1"
    using wp_InrD [OF wp_rotate_refresh_token [OF clean wf] rot] by blast+
  let ?s = "snd (request (refresh lib r) s)"
  have run: "wp (refresh lib r) (\<lambda>_ t. grows (accounts_step (objs s)) s t) (\<lambda>_ t. grows (accounts_step (objs s)) s t) s"
    by (rule wp_safe [OF safe_tokens(7) going_start [OF wf]]) (simp_all add: going_def)
  have start: "clean ?s" "accounts_wf (objs ?s)"
    using request_grows [OF clean run] wf by auto
  have "objs ?s = objs s1" using request_closed(1) [where m = "refresh lib r", OF once] s1(3) by simp
  then have "token_used (cr_sha256_hex lib r) (objs ?s)" using s1(2) by simp
  moreover have t: "clean t \<and> accounts_wf (objs t) \<and> accounts_rel (objs ?s) (objs t)"
    by (rule accounts.served_good [OF later start])
  ultimately have "token_used (cr_sha256_hex lib r) (objs t)" by (simp add: accounts_rel_def)
  then show ?thesis using used_token_refused s1(1) t by blast
qed

text \<open>
  C32. Once there is an active administrator there always is one: no sequence of requests, by any
  users, deactivates, deletes or strips the last of them.
\<close>

theorem administrator_remains:
  assumes "served (run_accounts lib) (\<lambda>_. True) s t" and "clean s" and "accounts_wf (objs s)" and "administered (objs s)"
  shows "administered (objs t)"
  using accounts.served_rel [OF assms(1-3)] assms(4) by (simp add: accounts_rel_def)

text \<open>
  C33. Administrators change nothing of a Chama but its status, move it only along its lifecycle, and
  a dissolved Chama stays dissolved.
\<close>

theorem dissolved_is_final:
  assumes "served (run_accounts lib) (\<lambda>_. True) s t" and "clean s" and "accounts_wf (objs s)"
    and c: "find_row ch_id i (chamas (objs s)) = Some c"
  shows "\<exists>c'. find_row ch_id i (chamas (objs t)) = Some c' \<and> c' = c\<lparr>ch_status := ch_status c'\<rparr> \<and>
    moves_to\<^sup>*\<^sup>* (ch_status c) (ch_status c') \<and> (ch_status c = CH_DISSOLVED \<longrightarrow> c' = c)"
proof -
  have "chama_life.follows (objs s) (objs t)"
    using accounts.served_rel [OF assms(1-3)] by (simp add: accounts_rel_def)
  then obtain c' where c': "find_row ch_id i (chamas (objs t)) = Some c'" "same_chama c c'"
    "moves_to\<^sup>*\<^sup>* (ch_status c) (ch_status c')"
    using c unfolding chama_life.follows_def by blast
  have same: "c' = c\<lparr>ch_status := ch_status c'\<rparr>" using c'(2) by (simp add: same_chama_def)
  have "c' = c" if "ch_status c = CH_DISSOLVED"
  proof -
    have "ch_status c' = ch_status c" by (rule chama_life.final_lasts [OF c'(3) that])
    then show ?thesis using same by simp
  qed
  then show ?thesis using c' same by blast
qed

text \<open>
  C34. After any requests no two accounts have the same email and no member identity is linked to two accounts.
\<close>

theorem identity_linked_once:
  assumes "served (run_accounts lib) (\<lambda>_. True) s t" and "clean s" and "accounts_wf (objs s)"
  shows "distinct (map us_email (users (objs t))) \<and>
    distinct (map us_member_id (filter (\<lambda>u. us_member_id u \<noteq> None) (users (objs t))))"
proof -
  have wf: "accounts_wf (objs t)" by (rule accounts.served_inv [OF assms])
  let ?us = "filter (\<lambda>u. us_member_id u \<noteq> None) (users (objs t))"
  have "inj_on us_member_id (set ?us)"
  proof (rule inj_onI)
    fix u v
    assume uv: "u \<in> set ?us" "v \<in> set ?us" "us_member_id u = us_member_id v"
    then have in_users: "u \<in> set (users (objs t))" "v \<in> set (users (objs t))" by simp_all
    have "us_member_id u \<noteq> None" using uv(1) by simp
    then have "us_id u = us_id v" using accounts_wfD(4) [OF wf] in_users uv(3) by blast
    then show "u = v" by (rule same_user [OF wf in_users])
  qed
  moreover have "distinct (users (objs t))" using accounts_wfD(1) [OF wf] by (simp add: distinct_map)
  ultimately show ?thesis using accounts_wfD(2) [OF wf] by (simp add: distinct_map)
qed

lemma wp_for_each_revoked:
  "wp (for_each ts (\<lambda>k. change (set_revoked now (rt_id k)))) Q R s =
     Q () (s\<lparr>objs := (objs s)\<lparr>refresh_tokens := map (\<lambda>k. if rt_id k \<in> rt_id ` set ts
        then k\<lparr>rt_revoked_at := Some now\<rparr> else k) (refresh_tokens (objs s))\<rparr>\<rparr>)"
proof (induction ts arbitrary: s)
  case Nil
  then show ?case by (simp add: wp)
next
  case (Cons k ts)
  have two: "(\<lambda>x. if rt_id x \<in> rt_id ` set ts then x\<lparr>rt_revoked_at := Some now\<rparr> else x) \<circ>
      (\<lambda>x. if rt_id x = rt_id k then x\<lparr>rt_revoked_at := Some now\<rparr> else x) =
      (\<lambda>x. if rt_id x = rt_id k \<or> rt_id x \<in> rt_id ` set ts then x\<lparr>rt_revoked_at := Some now\<rparr> else x)"
    by (rule ext) simp
  show ?case
    unfolding for_each.simps wp_bind wp_change Cons.IH
    by (simp add: set_revoked_def upd_row_def two)
qed

lemma wp_revoke_all_for_user:
  "wp (revoke_all_for_user i now) Q R s =
     (let ks = entities refresh_tokens (\<lambda>k. rt_user_id k = i \<and> rt_revoked_at k = None) (rows (sync s)) (objs s);
          d = (objs s)\<lparr>refresh_tokens := map (\<lambda>k. if rt_id k \<in> rt_id ` set ks
            then k\<lparr>rt_revoked_at := Some now\<rparr> else k) (refresh_tokens (objs s))\<rparr>
      in Q (length ks) (s\<lparr>objs := d, rows := d\<rparr>))"
  by (cases "autoflush s")
     (simp_all add: revoke_all_for_user_def wp_bind wp_select_all wp_for_each_revoked wp_flush wp_ret Let_def sync_def)

text \<open>
  C35. A change of password that succeeds was made with the current password, and the new one
  differs from it and violates no rule; it stores the new hash, lifts the duty to change the
  password, changes no other account, and leaves the user no refresh token that still works, all in
  one commit.
\<close>

theorem change_password_effect:
  assumes clean: "clean s" and run: "change_password lib u old new s = (Inr u', t)"
  shows "verify_password lib old (us_password_hash u) \<and> \<not> verify_password lib new (us_password_hash u) \<and>
    password_violations new (Some (us_email u)) (map_option mb_phone_number
      (Option.bind (us_member_id u) (\<lambda>i. find_row mb_id i (members (objs s))))) = [] \<and>
    users (objs t) = upd_row us_id (us_id u)
      (\<lambda>v. v\<lparr>us_must_change_password := False, us_password_hash := cr_hash lib (next_uuid s) new\<rparr>) (users (objs s)) \<and>
    list_all (\<lambda>k. rt_user_id k = us_id u \<longrightarrow> rt_revoked_at k \<noteq> None) (refresh_tokens (objs t)) \<and>
    durable t = objs t # durable s"
proof -
  let ?post = "\<lambda>_ t. verify_password lib old (us_password_hash u) \<and> \<not> verify_password lib new (us_password_hash u) \<and>
    password_violations new (Some (us_email u)) (map_option mb_phone_number
      (Option.bind (us_member_id u) (\<lambda>i. find_row mb_id i (members (objs s))))) = [] \<and>
    users (objs t) = upd_row us_id (us_id u)
      (\<lambda>v. v\<lparr>us_must_change_password := False, us_password_hash := cr_hash lib (next_uuid s) new\<rparr>) (users (objs s)) \<and>
    list_all (\<lambda>k. rt_user_id k = us_id u \<longrightarrow> rt_revoked_at k \<noteq> None) (refresh_tokens (objs t)) \<and>
    durable t = objs t # durable s"
  have reload: "wp (reload_user i) (\<lambda>_. Q) (\<lambda>_ _. True) t" if "Q t" for i Q t
    using that by (simp add: reload_user_def get_user_by_id_def wp split: option.split)
  have mem: "wp (member_of u) Q R s = Q (Option.bind (us_member_id u) (\<lambda>i. find_row mb_id i (members (objs s)))) s"
    for Q :: "member option \<Rightarrow> sess \<Rightarrow> bool" and R
    by (simp add: member_of_def wp split: option.split)
  let ?ks = "filter (\<lambda>k. rt_user_id k = us_id u \<and> rt_revoked_at k = None) (refresh_tokens (objs s))"
  have revoked: "list_all (\<lambda>k. rt_user_id k = us_id u \<longrightarrow> rt_revoked_at k \<noteq> None)
      (map (\<lambda>k. if rt_id k \<in> rt_id ` set ?ks then k\<lparr>rt_revoked_at := Some now\<rparr> else k) (refresh_tokens (objs s)))" for now
    by (auto simp: list_all_iff)
  have "wp (change_password lib u old new) ?post (\<lambda>_ _. True) s"
    unfolding change_password_def
  proof (rule wp_ensure_then, rule wp_ensure_then, subst wp_bind, subst mem, unfold validate_password_def Let_def,
      rule wp_ensure_then, goal_cases)
    case 1
    let ?d = "edit_user (us_id u) (\<lambda>x. x\<lparr>us_must_change_password := False, us_password_hash := cr_hash lib (next_uuid s) new\<rparr>) (objs s)"
    have old: "refresh_tokens ?d = refresh_tokens (objs s)" "users ?d = upd_row us_id (us_id u)
        (\<lambda>v. v\<lparr>us_must_change_password := False, us_password_hash := cr_hash lib (next_uuid s) new\<rparr>) (users (objs s))"
      by (simp_all add: edit_user_def)
    have ents: "entities refresh_tokens P (rows (sync (s\<lparr>objs := ?d\<rparr>))) ?d = filter P (refresh_tokens (objs s))" for P
      by (subst entities_flushed) (use clean old in \<open>simp_all add: sync_def\<close>)
    show ?case
      unfolding hash_password_def wp_bind [of "asks _"] wp_asks wp_bind [of "change _"] wp_change
        wp_bind [of "revoke_all_for_user _ _"] wp_revoke_all_for_user Let_def wp_bind [of "audit_record_commit _ _ _ _ _ _ _"]
      by (rule wp_audit_commit, rule reload)
         (use 1 revoked old in \<open>simp add: ents\<close>)
  qed simp_all
  then show ?thesis using run by (rule wp_InrD)
qed

text \<open>It does succeed when its checks pass.\<close>

lemma change_password_succeeds:
  assumes "find_row us_id (us_id u) (users (objs s)) = Some u"
    and "verify_password lib old (us_password_hash u)" and "\<not> verify_password lib new (us_password_hash u)"
    and "password_violations new (Some (us_email u)) (map_option mb_phone_number
      (Option.bind (us_member_id u) (\<lambda>i. find_row mb_id i (members (objs s))))) = []"
  shows "wp (change_password lib u old new) (\<lambda>_ _. True) (\<lambda>_ _. False) s"
proof -
  have mem: "wp (member_of u) Q R s = Q (Option.bind (us_member_id u) (\<lambda>i. find_row mb_id i (members (objs s)))) s"
    for Q :: "member option \<Rightarrow> sess \<Rightarrow> bool" and R
    by (simp add: member_of_def wp split: option.split)
  show ?thesis
    unfolding change_password_def
  proof (rule wp_ensure_then, rule wp_ensure_then, subst wp_bind, subst mem, unfold validate_password_def Let_def,
      rule wp_ensure_then, goal_cases)
    case 1
    show ?case
      unfolding hash_password_def wp_bind [of "asks _"] wp_asks wp_bind [of "change _"] wp_change
        wp_bind [of "revoke_all_for_user _ _"] wp_revoke_all_for_user Let_def wp_bind [of "audit_record_commit _ _ _ _ _ _ _"]
      by (rule wp_audit_commit) (use assms(1) in \<open>simp add: reload_user_def get_user_by_id_def wp edit_user_def find_upd_row\<close>)
  qed (use assms in simp_all)
qed

section \<open>Witnesses\<close>

text \<open>
  Two accounts: an administrator and a user with one refresh token; a Chama that was dissolved.
  Hashing is a prefix, a token names its user.
\<close>

definition toy_crypto :: crypto where
  "toy_crypto =
     \<lparr>cr_hash = (\<lambda>_ p. ''h:'' @ p), cr_verify = (\<lambda>p h. Some (h = ''h:'' @ p)), cr_jwt_encode = (\<lambda>sub _. sub),
      cr_jwt_decode = (\<lambda>_ tok. Some [(''sub'', JsStr tok)]), cr_token = nat_str, cr_sha256_hex = (\<lambda>r. ''s:'' @ r)\<rparr>"

definition account :: "uuid \<Rightarrow> string \<Rightarrow> user" where
  "account i email =
     \<lparr>us_id = i, us_email = email, us_password_hash = ''h:old'', us_is_active = True,
      us_must_change_password = False, us_member_id = None\<rparr>"

definition old_token :: refresh_token where
  "old_token = \<lparr>rt_id = 71, rt_user_id = 52, rt_token_hash = ''s:r'', rt_expires_at = 2000000, rt_revoked_at = None\<rparr>"

definition accounts_session :: sess where
  "accounts_session = fresh_session False False demo_settings (DateTime 2026 3 1 0) 1000000 1000
     (empty_db\<lparr>users := [account 51 ''root@chama'', account 52 ''user@chama''],
               platform_roles := [\<lparr>pr_user_id = 51, pr_role = PLATFORM_ADMIN, pr_granted_by_user_id = None, pr_granted_at = 0\<rparr>],
               refresh_tokens := [old_token],
               chamas := [demo_chama\<lparr>ch_status := CH_DISSOLVED\<rparr>]\<rparr>)"

lemma accounts_session_facts:
  "clean accounts_session" "accounts_wf (objs accounts_session)" "administered (objs accounts_session)"
  "users (objs accounts_session) = [account 51 ''root@chama'', account 52 ''user@chama'']"
  "find_row ch_id 10 (chamas (objs accounts_session)) = Some (demo_chama\<lparr>ch_status := CH_DISSOLVED\<rparr>)"
proof -
  show "accounts_wf (objs accounts_session)"
    by (auto simp: accounts_wf_def accounts_session_def fresh_session_def empty_db_def account_def)
  show "administered (objs accounts_session)"
    by (simp add: administered_def accounts_session_def fresh_session_def empty_db_def account_def holds_platform_role_def)
qed (simp_all add: accounts_session_def fresh_session_def empty_db_def find_row_Cons demo_chama_def clean_def)

text \<open>A run: the user signs up, the administrator tries to close the own account and to revive the Chama.\<close>

definition account_run :: "account_op list" where
  "account_run =
     [Register ''new@chama'' ''Str0ng!pass'' None,
      Signed_In (uuid_str 51) ''/auth/delete-account'' (Close_Account ''old''),
      Signed_In (uuid_str 51) ''/platform/chamas'' (Move_Chama 10 CH_ACTIVE None)]"

definition after_run :: sess where
  "after_run = fold (\<lambda>op t. snd (request (run_accounts toy_crypto (account 51 ''root@chama'') 0 op) t)) account_run accounts_session"

lemma served_fold:
  "served run (\<lambda>_. True) s t \<Longrightarrow> served run (\<lambda>_. True) s (fold (\<lambda>op t. snd (request (run a c op) t)) ops t)"
  by (induction ops arbitrary: t) (auto intro: served.intros)

lemma after_run_served: "served (run_accounts toy_crypto) (\<lambda>_. True) accounts_session after_run"
  unfolding after_run_def by (intro served_fold served.intros)

theorem administrator_remains_witness: "administered (objs after_run)"
  by (rule administrator_remains [OF after_run_served accounts_session_facts(1-3)])

theorem dissolved_is_final_witness:
  "find_row ch_id 10 (chamas (objs after_run)) = Some (demo_chama\<lparr>ch_status := CH_DISSOLVED\<rparr>)"
  using dissolved_is_final [OF after_run_served accounts_session_facts(1,2,5)] by auto

theorem identity_linked_once_witness:
  "distinct (map us_email (users (objs after_run)))"
  using identity_linked_once [OF after_run_served accounts_session_facts(1,2)] by blast

text \<open>The refresh token is exchanged, and then presented again.\<close>

lemma wp_asks_ext: "wp (asks f) Q R = (\<lambda>s. Q (f s) s)"
  by (rule ext) (rule wp_asks)

lemma nat_str_1000: "nat_str 1000 = ''1000''"
  by code_simp

lemma audit_succeeds: "wp (audit_record_commit a c k rt ri p b) (\<lambda>_ _. True) R t"
  by (rule wp_audit_commit) simp

lemma first_exchange: "\<exists>pair s1. refresh toy_crypto ''r'' accounts_session = (Inr pair, s1)"
proof -
  have "wp (rotate_refresh_token toy_crypto ''r'') (\<lambda>_ _. True) (\<lambda>_ _. False) accounts_session"
    by (simp add: rotate_refresh_token_def hash_refresh_token_def toy_crypto_def wp get_by_hash_def accounts_session_def
        fresh_session_def empty_db_def old_token_def account_def sync_def find_row_Cons get_user_by_id_def revoke_token_def
        set_revoked_def upd_row_def open_refresh_token_def generate_refresh_token_def create_refresh_token_def
        refresh_token_check_def issue_token_def create_access_token_def audit_succeeds nat_str_1000 wp_asks_ext)
  then have "wp (refresh toy_crypto ''r'') (\<lambda>_ _. True) (\<lambda>_ _. False) accounts_session"
    unfolding refresh_def by (rule wp_on_state_error)
  then show ?thesis by (auto simp: wp_def split: prod.splits sum.splits)
qed

theorem refresh_token_single_use_witness:
  "fst (refresh toy_crypto ''r'' accounts_session) \<noteq> Inl (Unauthorized ''This refresh token is invalid or has already been used'') \<and>
   fst (refresh toy_crypto ''r'' (snd (request (refresh toy_crypto ''r'') accounts_session))) =
     Inl (Unauthorized ''This refresh token is invalid or has already been used'')"
proof -
  obtain pair s1 where once: "refresh toy_crypto ''r'' accounts_session = (Inr pair, s1)"
    using first_exchange by blast
  show ?thesis
    using refresh_token_single_use [OF accounts_session_facts(1,2) once served.start] once by simp
qed

theorem change_password_effect_witness:
  "\<exists>u' t. change_password toy_crypto (account 52 ''user@chama'') ''old'' ''Str0ng!pass'' accounts_session = (Inr u', t) \<and>
     users (objs t) = [account 51 ''root@chama'', (account 52 ''user@chama'')\<lparr>us_password_hash := ''h:Str0ng!pass''\<rparr>]"
proof -
  have u: "find_row us_id (us_id (account 52 ''user@chama'')) (users (objs accounts_session)) = Some (account 52 ''user@chama'')"
    by (simp add: accounts_session_facts find_row_Cons account_def)
  have ok: "password_violations ''Str0ng!pass'' (Some ''user@chama'') None = []" by code_simp
  have "wp (change_password toy_crypto (account 52 ''user@chama'') ''old'' ''Str0ng!pass'') (\<lambda>_ _. True) (\<lambda>_ _. False) accounts_session"
    by (rule change_password_succeeds [OF u])
       (use ok in \<open>simp_all add: account_def toy_crypto_def verify_password_def\<close>)
  then obtain u' t where run: "change_password toy_crypto (account 52 ''user@chama'') ''old'' ''Str0ng!pass'' accounts_session = (Inr u', t)"
    by (auto simp: wp_def split: prod.splits sum.splits)
  then show ?thesis
    using change_password_effect [OF accounts_session_facts(1) run]
    by (auto simp: accounts_session_facts(4) upd_row_def account_def toy_crypto_def)
qed

end
