(* ===== verification/Notifications.thy ===== *)
theory Notifications
  imports Lifecycle
begin

text \<open>
  The notification centre (\<open>app/services/notification.py\<close>, its repository and the handlers of
  \<open>app/api/v1/notifications.py\<close>, which commit): a user's own feed, the unread count, marking
  as read and deleting. How notifications come about is part of \<open>Audit_Trail\<close>.
\<close>

section \<open>The repository\<close>

definition get_for_user :: "uuid \<Rightarrow> uuid \<Rightarrow> notification option act" where
  "get_for_user user_id notification_id =
     select_first notifications (\<lambda>n. nt_id n = notification_id \<and> nt_user_id n = user_id)"

text \<open>The latest first, by id where two are of the same instant.\<close>

definition newest_first :: "notification list \<Rightarrow> notification list" where
  "newest_first ns = sort_key (\<lambda>n. - nt_created_at n) (sort_key nt_id ns)"

definition list_for_user :: "user \<Rightarrow> nat option \<Rightarrow> nat \<Rightarrow> bool \<Rightarrow> uuid option \<Rightarrow> notification list act" where
  "list_for_user u limit offset unread_only chama_id =
     bind (select_all notifications (\<lambda>n. nt_user_id n = us_id u \<and> (unread_only \<longrightarrow> \<not> nt_is_read n) \<and>
       (chama_id \<noteq> None \<longrightarrow> nt_chama_id n = chama_id))) (\<lambda>ns.
     ret (page limit offset (newest_first ns)))"

definition unread :: "uuid \<Rightarrow> notification \<Rightarrow> bool" where
  "unread user_id n \<longleftrightarrow> nt_user_id n = user_id \<and> \<not> nt_is_read n"

definition count_unread :: "user \<Rightarrow> nat act" where
  "count_unread u = scalar (\<lambda>d. length (filter (unread (us_id u)) (notifications d)))"

definition set_read :: "int \<Rightarrow> uuid \<Rightarrow> db \<Rightarrow> db" where
  "set_read read_at i =
     notifications_update (upd_row nt_id i (\<lambda>n. n\<lparr>nt_is_read := True, nt_read_at := Some read_at\<rparr>))"

section \<open>The service and its handlers\<close>

definition mark_read :: "user \<Rightarrow> uuid \<Rightarrow> unit act" where
  "mark_read u notification_id =
     bind (get_for_user (us_id u) notification_id) (\<lambda>found.
     case found of
       None \<Rightarrow> raise (NotFoundError ''Notification not found'')
     | Some n \<Rightarrow>
         if nt_is_read n then ret ()
         else bind (asks utc_now) (\<lambda>now. bind (change (set_read now (nt_id n))) (\<lambda>_. flush)))"

definition mark_all_read :: "user \<Rightarrow> nat act" where
  "mark_all_read u =
     bind (asks utc_now) (\<lambda>now.
     bind (select_all notifications (unread (us_id u))) (\<lambda>ns.
     bind (for_each ns (\<lambda>n. change (set_read now (nt_id n)))) (\<lambda>_.
     bind flush (\<lambda>_. ret (length ns)))))"

definition mark_notification_read :: "user \<Rightarrow> uuid \<Rightarrow> notification act" where
  "mark_notification_read actor notification_id =
     bind (mark_read actor notification_id) (\<lambda>_.
     bind commit (\<lambda>_.
     bind (get_by_key notifications nt_id notification_id) (\<lambda>found.
     case found of None \<Rightarrow> raise ValueError | Some n \<Rightarrow> ret n)))"

definition mark_all_notifications_read :: "user \<Rightarrow> nat act" where
  "mark_all_notifications_read actor =
     bind (mark_all_read actor) (\<lambda>updated. bind commit (\<lambda>_. ret updated))"

definition delete_notification :: "user \<Rightarrow> uuid \<Rightarrow> unit act" where
  "delete_notification actor notification_id =
     bind (get_for_user (us_id actor) notification_id) (\<lambda>found.
     case found of
       None \<Rightarrow> ret ()
     | Some n \<Rightarrow> bind (change (notifications_update (remove1 n))) (\<lambda>_. commit))"

section \<open>Effects\<close>

text \<open>A loop of assignments is one assignment to the whole table.\<close>

lemma wp_for_each_change:
  "wp (for_each xs (\<lambda>x. change (f x))) Q R s = Q () (s\<lparr>objs := fold f xs (objs s)\<rparr>)"
proof (induction xs arbitrary: s)
  case Nil
  then show ?case by (simp add: wp)
next
  case (Cons x xs)
  then show ?case by (simp add: wp)
qed

lemma fold_upd_rows:
  assumes "\<And>r. key (f r) = key r" and "\<And>r. f (f r) = f r"
  shows "fold (\<lambda>k. upd_row key k f) ks xs = map (\<lambda>r. if key r \<in> set ks then f r else r) xs"
  using assms by (induction ks arbitrary: xs) (auto simp: upd_row_def)

lemma set_read_fold:
  "fold (\<lambda>n. set_read now (nt_id n)) ns d = d\<lparr>notifications :=
     map (\<lambda>n. if nt_id n \<in> nt_id ` set ns then n\<lparr>nt_is_read := True, nt_read_at := Some now\<rparr> else n)
       (notifications d)\<rparr>"
proof -
  have "fold (\<lambda>n. set_read now (nt_id n)) ns d = d\<lparr>notifications :=
      fold (\<lambda>k. upd_row nt_id k (\<lambda>n. n\<lparr>nt_is_read := True, nt_read_at := Some now\<rparr>)) (map nt_id ns) (notifications d)\<rparr>"
    by (induction ns arbitrary: d) (simp_all add: set_read_def)
  then show ?thesis by (simp add: fold_upd_rows)
qed

lemma filter_map_other:
  "(\<And>x. x \<in> set xs \<Longrightarrow> P (f x) = P x) \<Longrightarrow> (\<And>x. x \<in> set xs \<Longrightarrow> P x \<Longrightarrow> f x = x) \<Longrightarrow>
     filter P (map f xs) = filter P xs"
  by (induction xs) simp_all

text \<open>Marking everything read empties the user's count and leaves the feeds of others alone.\<close>

lemma mark_all_read_effect:
  assumes clean: "clean s" and keys: "distinct (map nt_id (notifications (objs s)))"
  shows "wp (mark_all_notifications_read u) (\<lambda>n t.
      n = length (filter (unread (us_id u)) (notifications (objs s))) \<and>
      filter (unread (us_id u)) (notifications (objs t)) = [] \<and>
      filter (\<lambda>n. nt_user_id n \<noteq> us_id u) (notifications (objs t)) =
        filter (\<lambda>n. nt_user_id n \<noteq> us_id u) (notifications (objs s)) \<and>
      durable t = objs t # durable s) (\<lambda>_ _. False) s"
proof -
  let ?u = "us_id u" and ?ns = "notifications (objs s)"
  let ?read = "\<lambda>n. if nt_id n \<in> nt_id ` {x \<in> set ?ns. unread ?u x}
      then n\<lparr>nt_is_read := True, nt_read_at := Some (utc_now s)\<rparr> else n"
  have same: "n = m" if "n \<in> set ?ns" "m \<in> set ?ns" "nt_id n = nt_id m" for n m
    using keys that unfolding distinct_map by (meson inj_onD)
  have own: "?read n = n" if n: "n \<in> set ?ns" "nt_user_id n \<noteq> ?u" for n
  proof -
    have "nt_id n \<notin> nt_id ` {x \<in> set ?ns. unread ?u x}"
      using same [OF n(1)] n(2) by (auto simp: unread_def)
    then show ?thesis by simp
  qed
  have keep: "nt_user_id (?read n) = nt_user_id n" for n by simp
  have "\<not> unread ?u (?read n)" if "n \<in> set ?ns" for n
    using that by (auto simp: unread_def)
  then have none: "filter (unread ?u) (map ?read ?ns) = []" unfolding filter_empty_conv set_map by blast
  have rest: "filter (\<lambda>n. nt_user_id n \<noteq> ?u) (map ?read ?ns) = filter (\<lambda>n. nt_user_id n \<noteq> ?u) ?ns"
    by (rule filter_map_other) (use own in simp_all)
  show ?thesis
    using clean none rest
    by (simp add: mark_all_notifications_read_def mark_all_read_def wp wp_for_each_change set_read_fold)
qed

end
