(* ===== verification/Daraja.thy ===== *)
theory Daraja
  imports Providers Access Base64 Clock
begin

text \<open>
  The Safaricom Daraja adapter (\<open>app/providers/daraja/adapter.py\<close>, its \<open>c2b_schemas.py\<close> and
  \<open>app/providers/http.py\<close>): OAuth tokens with their cache, STK push, status query, callbacks and
  Register URL. What the provider answers to an HTTP request is a parameter, as are the clock
  readings of a call (one reading each) and \<open>str\<close> of a float, a list or a dictionary; the token
  cache of the adapter object is explicit state. Payloads are bytes: UTF-8 is decoded up to
  code point 255, the range of the texts of \<open>Json\<close>.
\<close>

section \<open>Transport\<close>

record http_request =
  hq_method :: string
  hq_url :: string
  hq_params :: "(string \<times> string) list"
  hq_headers :: "(string \<times> string) list"
  hq_json :: "json option"

datatype http_reply = Reply int string | Timed_Out | Unreachable

type_synonym token_cache = "string \<Rightarrow> (string \<times> rat) option"

type_synonym 'a call = "token_cache \<Rightarrow> (err + 'a) \<times> token_cache"

record daraja_env =
  de_http :: "http_request \<Rightarrow> http_reply"
  de_monotonic :: rat
  de_utc_now :: int
  de_str :: "json \<Rightarrow> string"
  de_environment :: payment_environment

definition cret :: "'a \<Rightarrow> 'a call" where
  "cret x c = (Inr x, c)"

definition cfail :: "err \<Rightarrow> 'a call" where
  "cfail e c = (Inl e, c)"

definition andThen :: "'a call \<Rightarrow> ('a \<Rightarrow> 'b call) \<Rightarrow> 'b call" where
  "andThen m f c = (case m c of (Inl e, c') \<Rightarrow> (Inl e, c') | (Inr x, c') \<Rightarrow> f x c')"

definition lift_call :: "err + 'a \<Rightarrow> 'a call" where
  "lift_call r = (case r of Inl e \<Rightarrow> cfail e | Inr x \<Rightarrow> cret x)"

definition http_call :: "daraja_env \<Rightarrow> http_request \<Rightarrow> (int \<times> string) call" where
  "http_call env r =
     (case de_http env r of
        Reply status body \<Rightarrow> cret (status, body)
      | Timed_Out \<Rightarrow> cfail (ProviderTimeoutError ''PROVIDER_TIMEOUT'' ''The payment provider did not respond in time'')
      | Unreachable \<Rightarrow> cfail (ProviderIntegrationError ''PROVIDER_UNREACHABLE'' ''The payment provider could not be reached''))"

section \<open>Python values\<close>

text \<open>\<open>str(value)\<close> and truth of a decoded JSON value.\<close>

fun py_str :: "daraja_env \<Rightarrow> json \<Rightarrow> string" where
  "py_str env JsNull = ''None''"
| "py_str env (JsBool b) = (if b then ''True'' else ''False'')"
| "py_str env (JsInt i) = int_str i"
| "py_str env (JsStr s) = s"
| "py_str env v = de_str env v"

text \<open>A float is zero when no digit of its mantissa is another one.\<close>

fun truthy :: "json \<Rightarrow> bool" where
  "truthy JsNull = False"
| "truthy (JsBool b) = b"
| "truthy (JsInt i) = (i \<noteq> 0)"
| "truthy (JsFloat t) =
     (list_ex (\<lambda>c. is_digit c \<and> c \<noteq> CHR ''0'') (takeWhile (\<lambda>c. c \<noteq> CHR ''e'' \<and> c \<noteq> CHR ''E'') t) \<or>
      \<not> list_ex is_digit t)"
| "truthy (JsStr s) = (s \<noteq> [])"
| "truthy (JsArr xs) = (xs \<noteq> [])"
| "truthy (JsObj kvs) = (kvs \<noteq> [])"

definition text_of :: "json \<Rightarrow> string option" where
  "text_of v = (case v of JsStr s \<Rightarrow> Some s | _ \<Rightarrow> None)"

text \<open>\<open>Decimal(text)\<close>; \<open>None\<close> is \<open>InvalidOperation\<close>.\<close>

definition scaled :: "string \<Rightarrow> string \<Rightarrow> int \<Rightarrow> rat" where
  "scaled whole part ex =
     (let v = of_nat (digits_value (whole @ part)); k = ex - int (length part)
      in if 0 \<le> k then v * 10 ^ nat k else v / 10 ^ nat (- k))"

definition parse_exponent :: "string \<Rightarrow> int option" where
  "parse_exponent s =
     (if s = [] then Some 0
      else if lower_char (hd s) \<noteq> CHR ''e'' then None
      else
        let neg = (take 1 (tl s) = ''-'');
            ds = (if take 1 (tl s) = ''-'' \<or> take 1 (tl s) = ''+'' then drop 1 (tl s) else tl s)
        in if ds \<noteq> [] \<and> list_all is_digit ds
           then Some ((if neg then - 1 else 1) * int (digits_value ds)) else None)"

definition parse_decimal :: "string \<Rightarrow> decimal option" where
  "parse_decimal text =
     (let s = filter (\<lambda>c. c \<noteq> CHR ''_'') (strip text);
          neg = (take 1 s = ''-'');
          body = (if take 1 s = ''-'' \<or> take 1 s = ''+'' then drop 1 s else s);
          whole = takeWhile is_digit body; rest = dropWhile is_digit body;
          part = (if take 1 rest = ''.'' then takeWhile is_digit (drop 1 rest) else []);
          rest = (if take 1 rest = ''.'' then dropWhile is_digit (drop 1 rest) else rest);
          word = lower body
      in if word \<in> {''inf'', ''infinity''} then Some (Infinite neg)
         else if (take 3 word = ''nan'' \<and> list_all is_digit (drop 3 word)) \<or>
            (take 4 word = ''snan'' \<and> list_all is_digit (drop 4 word))
         then Some NaN
         else if whole @ part = [] then None
         else map_option (\<lambda>ex. Finite ((if neg then - 1 else 1) * scaled whole part ex)) (parse_exponent rest))"

text \<open>\<open>raw.decode("utf-8")\<close>.\<close>

fun utf8_decode :: "string \<Rightarrow> string option" where
  "utf8_decode [] = Some []"
| "utf8_decode [c] = (if of_char c < (128 :: nat) then Some [c] else None)"
| "utf8_decode (c # d # cs) =
     (if of_char c < (128 :: nat) then map_option ((#) c) (utf8_decode (d # cs))
      else if of_char c \<in> {194, 195 :: nat} \<and> 128 \<le> (of_char d :: nat) \<and> of_char d < (192 :: nat)
      then map_option ((#) (char_of ((of_char c mod 32) * 64 + of_char d mod 64 :: nat))) (utf8_decode cs)
      else None)"

text \<open>\<open>response.json()\<close>, and the \<open>.get\<close> that follows.\<close>

definition response_json :: "err \<Rightarrow> string \<Rightarrow> err + (string \<times> json) list" where
  "response_json malformed body =
     (case loads body of
        None \<Rightarrow> Inl malformed
      | Some (JsObj kvs) \<Rightarrow> Inr kvs
      | Some _ \<Rightarrow> Inl AttributeError)"

definition safe_message :: "string \<Rightarrow> string" where
  "safe_message value = take 400 (join '' '' (split_words value))"

section \<open>Constants\<close>

definition SANDBOX_BASE_URL :: string where "SANDBOX_BASE_URL = ''https://sandbox.safaricom.co.ke''"

definition PRODUCTION_BASE_URL :: string where "PRODUCTION_BASE_URL = ''https://api.safaricom.co.ke''"

definition FAILURE_RESULT_CODES :: "(string \<times> string) list" where
  "FAILURE_RESULT_CODES =
     [(''1'', ''insufficient balance''),
      (''1032'', ''request cancelled by customer''),
      (''1034'', ''transaction rejected''),
      (''1037'', ''USSD timeout (no PIN)''),
      (''2001'', ''invalid transaction / PIN attempts exhausted'')]"

definition DARAJA_CAPABILITIES :: "string list" where
  "DARAJA_CAPABILITIES =
     [''STK_PUSH'', ''PAYMENT_STATUS_QUERY'', ''CALLBACKS'', ''C2B_VALIDATION'', ''C2B_CONFIRMATION'',
      ''C2B_REGISTER_URL'']"

definition TOKEN_CACHE_TTL_SECONDS :: rat where "TOKEN_CACHE_TTL_SECONDS = 50 * 60"

definition base_url :: "payment_environment \<Rightarrow> string" where
  "base_url environment = (if environment = SANDBOX then SANDBOX_BASE_URL else PRODUCTION_BASE_URL)"

definition daraja_spec :: provider_spec where
  "daraja_spec =
     \<lparr>sp_code = DARAJA, sp_name = ''Daraja'', sp_capabilities = DARAJA_CAPABILITIES,
      sp_supported_environments = [SANDBOX, PRODUCTION]\<rparr>"

section \<open>Credentials\<close>

definition DARAJA_REQUIRED :: "string list" where
  "DARAJA_REQUIRED = [''consumer_key'', ''consumer_secret'', ''short_code'', ''passkey'']"

definition daraja_credentials :: "credentials \<Rightarrow> err + credentials" where
  "daraja_credentials credentials =
     (if list_ex (\<lambda>k. map_of credentials k = None) DARAJA_REQUIRED
      then Inl (ProviderIntegrationError ''CREDENTIALS_INCOMPLETE'' ''Daraja credentials are missing required fields'')
      else if list_ex (\<lambda>kv. fst kv \<notin> set DARAJA_REQUIRED) credentials
      then Inl (ProviderIntegrationError ''CREDENTIALS_UNEXPECTED'' ''Daraja credentials contain unsupported fields'')
      else Inr (map (\<lambda>k. (k, jget k credentials)) DARAJA_REQUIRED))"

definition last4 :: "string \<Rightarrow> string" where
  "last4 s = drop (length s - 4) s"

definition masked_short_code :: "credentials \<Rightarrow> string" where
  "masked_short_code credentials =
     ''****'' @ last4 (case map_of credentials ''short_code'' of Some (JsStr s) \<Rightarrow> s | _ \<Rightarrow> '''')"

definition redact :: "string \<Rightarrow> string" where
  "redact value =
     (if value = '''' then ''****''
      else if length value \<le> 4 then ''****''
      else take 2 value @ ''****'' @ drop (length value - 2) value)"

definition forget_token :: "string \<Rightarrow> err \<Rightarrow> 'a call" where
  "forget_token consumer_key e c = (Inl e, c(consumer_key := None))"

definition cached_token :: "daraja_env \<Rightarrow> string \<Rightarrow> token_cache \<Rightarrow> string option" where
  "cached_token env consumer_key c =
     (case c consumer_key of
        None \<Rightarrow> None
      | Some (token, until) \<Rightarrow> if de_monotonic env < until then Some token else None)"

definition token_request :: "daraja_env \<Rightarrow> string \<Rightarrow> string \<Rightarrow> http_request" where
  "token_request env consumer_key consumer_secret =
     \<lparr>hq_method = ''GET'', hq_url = base_url (de_environment env) @ ''/oauth/v1/generate'',
      hq_params = [(''grant_type'', ''client_credentials'')],
      hq_headers = [(''Authorization'', ''Basic '' @ b64encode (consumer_key @ '':'' @ consumer_secret)),
                    (''Cache-Control'', ''no-cache'')],
      hq_json = None\<rparr>"

definition fetch_token :: "daraja_env \<Rightarrow> string \<Rightarrow> string \<Rightarrow> string call" where
  "fetch_token env consumer_key consumer_secret =
     andThen (http_call env (token_request env consumer_key consumer_secret)) (\<lambda>(status, body).
     if status \<noteq> 200
     then forget_token consumer_key (ProviderIntegrationError ''AUTH_FAILED'' ''Daraja OAuth token request failed'')
     else
       (case loads body of
          None \<Rightarrow> forget_token consumer_key
                    (ProviderIntegrationError ''AUTH_MALFORMED'' ''Daraja OAuth response was not JSON'')
        | Some (JsObj payload) \<Rightarrow>
            (case text_of (jget ''access_token'' payload) of
               Some (t # ts) \<Rightarrow>
                 (\<lambda>c. (Inr (t # ts), c(consumer_key \<mapsto> (t # ts, de_monotonic env + TOKEN_CACHE_TTL_SECONDS))))
             | _ \<Rightarrow> forget_token consumer_key
                      (ProviderIntegrationError ''AUTH_MALFORMED''
                        ''Daraja OAuth response did not include an access token''))
        | Some _ \<Rightarrow> cfail AttributeError))"

definition access_token :: "daraja_env \<Rightarrow> credentials \<Rightarrow> string call" where
  "access_token env shaped c =
     (let consumer_key = py_str env (jget ''consumer_key'' shaped);
          consumer_secret = py_str env (jget ''consumer_secret'' shaped)
      in case cached_token env consumer_key c of
           Some token \<Rightarrow> (Inr token, c)
         | None \<Rightarrow> fetch_token env consumer_key consumer_secret c)"

definition AUTH_REJECTED :: validation_result where
  "AUTH_REJECTED =
     \<lparr>vr_valid = False, vr_error_code = Some ''AUTH_FAILED'',
      vr_error_message_safe = Some ''Daraja rejected the consumer key or consumer secret'',
      vr_masked_account_identifier = None\<rparr>"

text \<open>A timeout is a \<open>ProviderIntegrationError\<close> by inheritance.\<close>

definition daraja_validate :: "daraja_env \<Rightarrow> credentials \<Rightarrow> validation_result call" where
  "daraja_validate env credentials =
     andThen (lift_call (daraja_credentials credentials)) (\<lambda>shaped c.
     case access_token env shaped c of
       (Inl (ProviderIntegrationError _ _), c') \<Rightarrow> (Inr AUTH_REJECTED, c')
     | (Inl (ProviderTimeoutError _ _), c') \<Rightarrow> (Inr AUTH_REJECTED, c')
     | (Inl e, c') \<Rightarrow> (Inl e, c')
     | (Inr token, c') \<Rightarrow>
         (Inr \<lparr>vr_valid = True, vr_error_code = None, vr_error_message_safe = None,
               vr_masked_account_identifier = Some (masked_short_code shaped)\<rparr>, c'))"

section \<open>Charges\<close>

text \<open>\<open>254(?:7\d{8}|11\d{7})\<close>, the whole number.\<close>

definition safaricom_number :: "string \<Rightarrow> bool" where
  "safaricom_number s \<longleftrightarrow>
     length s = 12 \<and> list_all is_digit s \<and> (take 4 s = ''2547'' \<or> take 5 s = ''25411'')"

definition daraja_phone :: "string \<Rightarrow> err + string" where
  "daraja_phone raw =
     (let digits = normalize_ke_msisdn raw
      in if safaricom_number digits then Inr digits
         else Inl (ProviderIntegrationError ''PHONE_FORMAT''
                ''Daraja STK Push requires a Safaricom number in the 07x or 011x range''))"

text \<open>An amount in cents; \<open>quantize(Decimal("1"))\<close> fails beyond the precision of the context.\<close>

definition require_integer_kes :: "money \<Rightarrow> err + string" where
  "require_integer_kes amount =
     (if quantize_checked 0 (dec_of_money amount) = None
      then Inl (ProviderIntegrationError ''AMOUNT_INVALID'' ''Daraja STK Push amount is invalid'')
      else if amount mod 100 \<noteq> 0
      then Inl (ProviderIntegrationError ''AMOUNT_NOT_INTEGER'' ''Daraja STK Push requires a whole-number KES amount'')
      else Inr (int_str (amount div 100)))"

definition stk_password :: "string \<Rightarrow> string \<Rightarrow> string \<Rightarrow> string" where
  "stk_password short_code passkey timestamp = b64encode (short_code @ passkey @ timestamp)"

definition bearer_post :: "daraja_env \<Rightarrow> string \<Rightarrow> string \<Rightarrow> (string \<times> json) list \<Rightarrow> http_request" where
  "bearer_post env path token body =
     \<lparr>hq_method = ''POST'', hq_url = base_url (de_environment env) @ path, hq_params = [],
      hq_headers = [(''Authorization'', ''Bearer '' @ token)], hq_json = Some (JsObj body)\<rparr>"

definition stk_body :: "daraja_env \<Rightarrow> credentials \<Rightarrow> attempt_request \<Rightarrow> string \<Rightarrow> string \<Rightarrow> (string \<times> json) list" where
  "stk_body env shaped r amount phone =
     (let short_code = py_str env (jget ''short_code'' shaped);
          timestamp = daraja_timestamp (de_utc_now env)
      in [(''BusinessShortCode'', JsStr short_code),
          (''Password'', JsStr (stk_password short_code (py_str env (jget ''passkey'' shaped)) timestamp)),
          (''Timestamp'', JsStr timestamp),
          (''TransactionType'', JsStr ''CustomerPayBillOnline''),
          (''Amount'', JsStr amount),
          (''PartyA'', JsStr phone),
          (''PartyB'', JsStr short_code),
          (''PhoneNumber'', JsStr phone),
          (''CallBackURL'', JsStr (rq_callback_url r)),
          (''AccountReference'', JsStr (take 12 (rq_charge_reference r))),
          (''TransactionDesc'', JsStr (if take 13 (rq_client_reference r) = '''' then ''ChamaCore payment''
                                     else take 13 (rq_client_reference r)))])"

text \<open>\<open>next((payload.get(key) for key in keys if ...), default)\<close>.\<close>

definition first_value :: "(json \<Rightarrow> bool) \<Rightarrow> string list \<Rightarrow> (string \<times> json) list \<Rightarrow> json option" where
  "first_value P keys payload = first (filter P (map (\<lambda>k. jget k payload) keys))"

definition stk_response_code :: "daraja_env \<Rightarrow> (string \<times> json) list \<Rightarrow> string" where
  "stk_response_code env payload =
     (case first_value (\<lambda>v. v \<noteq> JsNull \<and> strip (py_str env v) \<noteq> '''')
             [''ResponseCode'', ''errorCode'', ''ErrorCode''] payload of
        None \<Rightarrow> ''UNKNOWN'' | Some v \<Rightarrow> strip (py_str env v))"

definition stk_message :: "(string \<times> json) list \<Rightarrow> string" where
  "stk_message payload =
     (case first_value (\<lambda>v. case v of JsStr s \<Rightarrow> strip s \<noteq> '''' | _ \<Rightarrow> False)
             [''ResponseDescription'', ''CustomerMessage'', ''errorMessage'', ''ErrorMessage''] payload of
        Some (JsStr s) \<Rightarrow> s | _ \<Rightarrow> ''Daraja did not accept the STK Push request'')"

definition stk_result :: "daraja_env \<Rightarrow> (string \<times> json) list \<Rightarrow> attempt_result" where
  "stk_result env payload =
     (let code = stk_response_code env payload;
          merchant = jget ''MerchantRequestID'' payload;
          refused = \<lparr>ar_accepted = False, ar_provider_request_id = None, ar_provider_transaction_id = None,
            ar_normalized_status = PT_FAILED, ar_retryable = False, ar_error_code = Some (''DARAJA_'' @ code),
            ar_error_message_safe = Some (safe_message (stk_message payload))\<rparr>
      in case text_of (jget ''CheckoutRequestID'' payload) of
           Some (x # xs) \<Rightarrow>
             if code = ''0''
             then \<lparr>ar_accepted = True, ar_provider_request_id = Some (x # xs),
                   ar_provider_transaction_id = (if truthy merchant then Some (py_str env merchant) else None),
                   ar_normalized_status = PT_PENDING, ar_retryable = False, ar_error_code = None,
                   ar_error_message_safe = None\<rparr>
             else refused
         | _ \<Rightarrow> refused)"

definition daraja_charge :: "daraja_env \<Rightarrow> credentials \<Rightarrow> attempt_request \<Rightarrow> attempt_result call" where
  "daraja_charge env credentials r =
     andThen (lift_call (daraja_credentials credentials)) (\<lambda>shaped.
     andThen (lift_call (require_integer_kes (rq_amount r))) (\<lambda>amount.
     andThen (lift_call (daraja_phone (rq_customer_phone r))) (\<lambda>phone.
     andThen (access_token env shaped) (\<lambda>token.
     andThen (http_call env (bearer_post env ''/mpesa/stkpush/v1/processrequest'' token
       (stk_body env shaped r amount phone))) (\<lambda>(status, body).
     andThen (lift_call (response_json
       (ProviderIntegrationError ''RESPONSE_MALFORMED'' ''Daraja STK Push response was not JSON'') body)) (\<lambda>payload.
     cret (stk_result env payload)))))))"

section \<open>Status queries\<close>

text \<open>
  \<open>payload["CallbackMetadata"]["Item"]\<close>: a missing key or a value that has no keys gives nothing;
  the items are iterated, which a number or \<open>true\<close> does not allow.
\<close>

fun item_value :: "daraja_env \<Rightarrow> string \<Rightarrow> json list \<Rightarrow> string option" where
  "item_value env wanted [] = None"
| "item_value env wanted (x # xs) =
     (case x of
        JsObj kvs \<Rightarrow>
          if jget ''Name'' kvs = JsStr wanted
          then (let v = jget ''Value'' kvs in if v = JsNull then None else Some (py_str env v))
          else item_value env wanted xs
      | _ \<Rightarrow> item_value env wanted xs)"

definition metadata_value :: "daraja_env \<Rightarrow> (string \<times> json) list \<Rightarrow> string \<Rightarrow> err + string option" where
  "metadata_value env payload wanted =
     (case map_of payload ''CallbackMetadata'' of
        Some (JsObj m) \<Rightarrow>
          (case map_of m ''Item'' of
             None \<Rightarrow> Inr None
           | Some (JsArr xs) \<Rightarrow> Inr (item_value env wanted xs)
           | Some v \<Rightarrow>
               (case v of
                  JsInt _ \<Rightarrow> if truthy v then Inl TypeError else Inr None
                | JsFloat _ \<Rightarrow> if truthy v then Inl TypeError else Inr None
                | JsBool b \<Rightarrow> if b then Inl TypeError else Inr None
                | _ \<Rightarrow> Inr None))
      | _ \<Rightarrow> Inr None)"

definition query_body :: "daraja_env \<Rightarrow> credentials \<Rightarrow> string \<Rightarrow> (string \<times> json) list" where
  "query_body env shaped provider_request_id =
     (let short_code = py_str env (jget ''short_code'' shaped);
          timestamp = daraja_timestamp (de_utc_now env)
      in [(''BusinessShortCode'', JsStr short_code),
          (''Password'', JsStr (stk_password short_code (py_str env (jget ''passkey'' shaped)) timestamp)),
          (''Timestamp'', JsStr timestamp),
          (''CheckoutRequestID'', JsStr provider_request_id)])"

definition query_result :: "daraja_env \<Rightarrow> string \<Rightarrow> (string \<times> json) list \<Rightarrow> err + status_result" where
  "query_result env provider_request_id payload =
     (let code = py_str env (jget ''ResultCode'' payload)
      in if code = ''1037''
         then Inr \<lparr>sr_found = True, sr_provider_request_id = Some provider_request_id, sr_provider_transaction_id = None,
                   sr_normalized_status = PT_UNKNOWN, sr_raw_status = Some ''ResultCode 1037 (timeout)'',
                   sr_error_code = None, sr_error_message_safe = None\<rparr>
         else if code = ''0''
         then (case metadata_value env payload ''MpesaReceiptNumber'' of
                 Inl e \<Rightarrow> Inl e
               | Inr receipt \<Rightarrow>
                   Inr \<lparr>sr_found = True, sr_provider_request_id = Some provider_request_id,
                        sr_provider_transaction_id = receipt, sr_normalized_status = PT_SUCCEEDED,
                        sr_raw_status = Some ''ResultCode 0'', sr_error_code = None, sr_error_message_safe = None\<rparr>)
         else Inr \<lparr>sr_found = True, sr_provider_request_id = Some provider_request_id, sr_provider_transaction_id = None,
                   sr_normalized_status = PT_FAILED, sr_raw_status = Some (''ResultCode '' @ code),
                   sr_error_code = Some (''DARAJA_'' @ code),
                   sr_error_message_safe = Some (case map_of FAILURE_RESULT_CODES code of
                     None \<Rightarrow> ''Daraja reported a failed transaction'' | Some m \<Rightarrow> m)\<rparr>)"

definition daraja_query :: "daraja_env \<Rightarrow> credentials \<Rightarrow> string \<Rightarrow> status_result call" where
  "daraja_query env credentials provider_request_id =
     andThen (lift_call (daraja_credentials credentials)) (\<lambda>shaped.
     if provider_request_id = ''''
     then cfail (ProviderIntegrationError ''QUERY_REFERENCE_MISSING'' ''No provider request id is available to query Daraja'')
     else
       andThen (access_token env shaped) (\<lambda>token.
       andThen (http_call env (bearer_post env ''/mpesa/stkpushquery/v1/query'' token
         (query_body env shaped provider_request_id))) (\<lambda>(status, body).
       andThen (lift_call (response_json
         (ProviderIntegrationError ''RESPONSE_MALFORMED'' ''Daraja status query response was not JSON'') body)) (\<lambda>payload.
       lift_call (query_result env provider_request_id payload)))))"

section \<open>Callbacks\<close>

definition stk_callback :: "string \<Rightarrow> json option" where
  "stk_callback raw_payload =
     (case Option.bind (utf8_decode raw_payload) loads of
        Some (JsObj body) \<Rightarrow>
          (case map_of body ''Body'' of Some (JsObj b) \<Rightarrow> map_of b ''stkCallback'' | _ \<Rightarrow> None)
      | _ \<Rightarrow> None)"

definition daraja_callback_of ::
  "daraja_env \<Rightarrow> (string \<times> json) list \<Rightarrow> string \<Rightarrow> string option \<Rightarrow> string option \<Rightarrow> string option \<Rightarrow> parsed_callback"
where
  "daraja_callback_of env stk checkout amount receipt phone =
     (let code = py_str env (jget ''ResultCode'' stk); ok = (code = ''0'')
      in \<lparr>cb_provider_event_id = Some checkout, cb_provider_request_id = Some checkout,
          cb_provider_transaction_id = receipt, cb_amount = Option.bind amount parse_decimal,
          cb_currency = Some ''KES'', cb_payer_phone = phone,
          cb_normalized_status = Some (if ok then PT_SUCCEEDED else PT_FAILED),
          cb_raw_status = Some (''ResultCode '' @ code),
          cb_error_code = (if ok then None else Some (''DARAJA_'' @ code)),
          cb_error_message_safe = (if ok then None
            else Some (take 480 (case map_of stk ''ResultDesc'' of
              None \<Rightarrow> ''Daraja reported a failed transaction'' | Some v \<Rightarrow> py_str env v)))\<rparr>)"

definition daraja_parse_callback :: "daraja_env \<Rightarrow> string \<Rightarrow> err + parsed_callback" where
  "daraja_parse_callback env raw_payload =
     (case stk_callback raw_payload of
        None \<Rightarrow> Inr nothing_parsed
      | Some (JsObj stk) \<Rightarrow>
          (case text_of (jget ''CheckoutRequestID'' stk) of
             Some (x # xs) \<Rightarrow>
               (case (metadata_value env stk ''Amount'', metadata_value env stk ''MpesaReceiptNumber'',
                      metadata_value env stk ''PhoneNumber'') of
                  (Inr amount, Inr receipt, Inr phone) \<Rightarrow>
                    Inr (daraja_callback_of env stk (x # xs) amount receipt phone)
                | _ \<Rightarrow> Inl TypeError)
           | _ \<Rightarrow> Inr nothing_parsed)
      | Some _ \<Rightarrow> Inl AttributeError)"

text \<open>No signature exists to verify.\<close>

definition daraja_verify_callback :: "string \<Rightarrow> (string \<times> string) list \<Rightarrow> bool \<times> string option" where
  "daraja_verify_callback raw_payload headers = (True, None)"

section \<open>Paybill payments\<close>

text \<open>\<open>C2BCallbackBody\<close>: every field a text of limited length, \<open>null\<close> or absent.\<close>

definition C2B_FIELDS :: "(string \<times> nat) list" where
  "C2B_FIELDS =
     [(''TransactionType'', 32), (''TransID'', 64), (''TransTime'', 32), (''TransAmount'', 32),
      (''BusinessShortCode'', 16), (''BillRefNumber'', 64), (''InvoiceNumber'', 64), (''OrgAccountBalance'', 32),
      (''ThirdPartyTransID'', 64), (''MSISDN'', 32), (''FirstName'', 128), (''MiddleName'', 128), (''LastName'', 128)]"

definition c2b_body_valid :: "(string \<times> json) list \<Rightarrow> bool" where
  "c2b_body_valid payload \<longleftrightarrow>
     list_all (\<lambda>(k, most). case jget k payload of JsNull \<Rightarrow> True | JsStr s \<Rightarrow> length s \<le> most | _ \<Rightarrow> False) C2B_FIELDS"

definition c2b_amount :: "string option \<Rightarrow> decimal option" where
  "c2b_amount raw = (case raw of None \<Rightarrow> None | Some s \<Rightarrow> if s = '''' then None else parse_decimal s)"

definition parse_c2b :: "string \<Rightarrow> c2b_payload" where
  "parse_c2b raw_payload =
     (case Option.bind (utf8_decode raw_payload) loads of
        Some (JsObj payload) \<Rightarrow>
          (let field = (\<lambda>k. text_of (jget k payload))
           in if \<not> c2b_body_valid payload \<or> field ''TransID'' \<in> {None, Some ''''} \<or>
                 field ''BusinessShortCode'' \<in> {None, Some ''''}
              then unparseable_c2b
              else \<lparr>c2_is_parseable = True, c2_transaction_type = field ''TransactionType'',
                    c2_transaction_id = field ''TransID'', c2_transaction_time = field ''TransTime'',
                    c2_amount = c2b_amount (field ''TransAmount''),
                    c2_business_short_code = field ''BusinessShortCode'', c2_bill_ref_number = field ''BillRefNumber'',
                    c2_invoice_number = field ''InvoiceNumber'',
                    c2_org_account_balance = c2b_amount (field ''OrgAccountBalance''),
                    c2_third_party_trans_id = field ''ThirdPartyTransID'', c2_msisdn = field ''MSISDN'',
                    c2_first_name = field ''FirstName'', c2_middle_name = field ''MiddleName'',
                    c2_last_name = field ''LastName''\<rparr>)
      | _ \<Rightarrow> unparseable_c2b)"

definition register_result :: "daraja_env \<Rightarrow> (string \<times> json) list \<Rightarrow> err + c2b_register_result" where
  "register_result env payload =
     (let code = (case map_of payload ''ResponseCode'' of None \<Rightarrow> '''' | Some v \<Rightarrow> py_str env v);
          description = jget ''ResponseDescription'' payload
      in if code \<noteq> ''0''
         then Inl (ProviderIntegrationError (''C2B_REGISTER_FAILED_'' @ (if code = '''' then ''UNKNOWN'' else code))
                (safe_message (if truthy description then py_str env description else ''Daraja rejected Register URL'')))
         else Inr \<lparr>ce_accepted = True, ce_response_code = Some code,
                   ce_response_description = (if truthy description then Some (py_str env description) else None)\<rparr>)"

definition daraja_register_urls :: "daraja_env \<Rightarrow> credentials \<Rightarrow> c2b_register_request \<Rightarrow> c2b_register_result call" where
  "daraja_register_urls env credentials r =
     andThen (lift_call (daraja_credentials credentials)) (\<lambda>shaped.
     andThen (access_token env shaped) (\<lambda>token.
     andThen (http_call env (bearer_post env ''/mpesa/c2b/v1/registerurl'' token
       [(''ShortCode'', JsStr (py_str env (cr_short_code r))), (''ResponseType'', JsStr (cr_response_type r)),
        (''ConfirmationURL'', JsStr (cr_confirmation_url r)), (''ValidationURL'', JsStr (cr_validation_url r)),
        (''CommandID'', JsStr ''RegisterURL'')])) (\<lambda>(status, body).
     andThen (lift_call (response_json
       (ProviderIntegrationError ''C2B_REGISTER_MALFORMED'' ''Daraja Register URL response was not JSON'') body)) (\<lambda>payload.
     lift_call (register_result env payload)))))"

definition normalize_provider_status :: "string \<Rightarrow> provider_tx_status" where
  "normalize_provider_status raw =
     (let code = strip raw
      in if code = ''0'' then PT_SUCCEEDED
         else if map_of FAILURE_RESULT_CODES code \<noteq> None then PT_FAILED
         else PT_UNKNOWN)"

text \<open>The adapter as the port the payment services call, at a state of its token cache.\<close>

definition daraja_adapter :: "daraja_env \<Rightarrow> token_cache \<Rightarrow> adapter" where
  "daraja_adapter env c =
     \<lparr>ad_spec = daraja_spec,
      ad_validate_credentials = (\<lambda>credentials _. fst (daraja_validate env credentials c)),
      ad_create_payment_attempt = (\<lambda>credentials r _. fst (daraja_charge env credentials r c)),
      ad_query_payment_status = (\<lambda>credentials i _ _. fst (daraja_query env credentials i c)),
      ad_parse_callback = daraja_parse_callback env,
      ad_verify_callback = daraja_verify_callback,
      ad_masked_account_identifier = masked_short_code,
      ad_decrypted_credentials = (\<lambda>credentials _. daraja_credentials credentials),
      ad_parse_c2b_validation = (\<lambda>raw. Inr (parse_c2b raw)),
      ad_parse_c2b_confirmation = (\<lambda>raw. Inr (parse_c2b raw)),
      ad_register_c2b_urls = (\<lambda>credentials r _. fst (daraja_register_urls env credentials r c))\<rparr>"

end
