(* ===== verification/Daraja_Props.thy ===== *)
theory Daraja_Props
  imports Daraja
begin

text \<open>
  The properties of the Daraja adapter: what a charge it reports as accepted has asked for, how
  long a token is used, which callbacks it lets through, and how it reads a status reply that
  carries no result.
\<close>

section \<open>Calls\<close>

lemma andThen_Inr:
  "andThen m f c = (Inr y, d) \<longleftrightarrow> (\<exists>x e. m c = (Inr x, e) \<and> f x e = (Inr y, d))"
  by (auto simp: andThen_def split: prod.split sum.split)

lemma lift_call_Inr [simp]: "lift_call r c = (Inr y, d) \<longleftrightarrow> r = Inr y \<and> d = c"
  by (auto simp: lift_call_def cfail_def cret_def split: sum.split)

lemma http_call_Inr [simp]: "http_call env r c = (Inr y, d) \<longleftrightarrow> de_http env r = Reply (fst y) (snd y) \<and> d = c"
  by (cases y) (auto simp: http_call_def cfail_def cret_def split: http_reply.split)

lemma response_json_Inr [simp]: "response_json e body = Inr payload \<longleftrightarrow> loads body = Some (JsObj payload)"
  by (auto simp: response_json_def split: option.split json.split)

section \<open>Tokens\<close>

text \<open>A token that was fetched is used again until its time is over, without a request.\<close>

lemma token_reused:
  assumes "fetch_token env k sec c = (Inr token, c')" and "de_monotonic env' < de_monotonic env + TOKEN_CACHE_TTL_SECONDS"
  shows "cached_token env' k c' = Some token"
  using assms
  by (auto simp: fetch_token_def andThen_Inr forget_token_def cfail_def cached_token_def
      split: if_splits option.splits json.splits list.splits)

text \<open>A failed fetch leaves no token of the key behind, or touches no other entry.\<close>

lemma failed_fetch_forgets:
  "fetch_token env k sec c = (Inl e, c') \<Longrightarrow> c' = c \<or> c' = c(k := None)"
  by (auto simp: fetch_token_def andThen_def http_call_def forget_token_def cfail_def cret_def
      split: if_splits option.splits json.splits list.splits http_reply.splits prod.splits sum.splits)

section \<open>The properties\<close>

text \<open>The code of a reply is \<open>0\<close> because a field of the reply says so, and no field before it is filled.\<close>

lemma response_code_zero:
  assumes "stk_response_code env payload = ''0''"
  shows "\<exists>i < 3. \<exists>v. map_of payload ([''ResponseCode'', ''errorCode'', ''ErrorCode''] ! i) = Some v \<and>
      v \<noteq> JsNull \<and> strip (py_str env v) = ''0'' \<and>
      (\<forall>j < i. \<forall>u. map_of payload ([''ResponseCode'', ''errorCode'', ''ErrorCode''] ! j) = Some u \<longrightarrow>
         u = JsNull \<or> strip (py_str env u) = [])"
proof -
  let ?given = "\<lambda>v. v \<noteq> JsNull \<and> strip (py_str env v) \<noteq> []"
  have get: "?given (jget k payload) \<Longrightarrow> map_of payload k = Some (jget k payload)" for k
    by (auto simp: jget_def split: option.splits)
  have none: "\<not> ?given (jget k payload) \<Longrightarrow> map_of payload k = Some u \<Longrightarrow> u = JsNull \<or> strip (py_str env u) = []" for k u
    by (simp add: jget_def)
  consider "?given (jget ''ResponseCode'' payload)"
    | "\<not> ?given (jget ''ResponseCode'' payload)" "?given (jget ''errorCode'' payload)"
    | "\<not> ?given (jget ''ResponseCode'' payload)" "\<not> ?given (jget ''errorCode'' payload)" "?given (jget ''ErrorCode'' payload)"
    using assms by (force simp: stk_response_code_def first_value_def)
  then show ?thesis
  proof cases
    case 1
    then show ?thesis using assms get [OF 1] by (intro exI [of _ 0]) (auto simp: stk_response_code_def first_value_def)
  next
    case 2
    then show ?thesis using assms get [OF 2(2)] none [OF 2(1)]
      by (intro exI [of _ 1]) (auto simp: stk_response_code_def first_value_def)
  next
    case 3
    then show ?thesis using assms get [OF 3(3)] none [OF 3(1)] none [OF 3(2)]
      by (intro exI [of _ 2]) (auto simp: stk_response_code_def first_value_def less_Suc_eq numeral_2_eq_2)
  qed
qed

text \<open>What the body of an STK push says.\<close>

lemma stk_body_fields:
  "map_of (stk_body env shaped r amount phone) ''Amount'' = Some (JsStr amount)"
  "map_of (stk_body env shaped r amount phone) ''PartyA'' = Some (JsStr phone)"
  "map_of (stk_body env shaped r amount phone) ''PhoneNumber'' = Some (JsStr phone)"
  "map_of (stk_body env shaped r amount phone) ''PartyB'' = Some (JsStr (py_str env (jget ''short_code'' shaped)))"
  "map_of (stk_body env shaped r amount phone) ''BusinessShortCode'' = Some (JsStr (py_str env (jget ''short_code'' shaped)))"
  "map_of (stk_body env shaped r amount phone) ''TransactionType'' = Some (JsStr ''CustomerPayBillOnline'')"
  "map_of (stk_body env shaped r amount phone) ''CallBackURL'' = Some (JsStr (rq_callback_url r))"
  by (simp_all add: stk_body_def Let_def)

lemma daraja_credentials_keep: "daraja_credentials cs = Inr shaped \<Longrightarrow> k \<in> set DARAJA_REQUIRED \<Longrightarrow> jget k shaped = jget k cs"
  by (auto simp: daraja_credentials_def DARAJA_REQUIRED_def jget_def split: if_splits)

text \<open>
  C39. A charge that the adapter reports as accepted was for a whole number of shillings. One HTTP
  request was answered: an STK push to the host of the environment, whose Amount is this number in
  decimal digits, whose PartyA and PhoneNumber are the canonical form of the customer's number, a
  Safaricom number, and whose PartyB and BusinessShortCode are the short code of the credentials.
  The answer is a JSON object: the first filled of its three code fields says 0, and its
  CheckoutRequestID, a non-empty text, is the request id the adapter hands on; the money counts as
  pending only.
\<close>

theorem daraja_charge_accepted:
  assumes run: "daraja_charge env credentials r c = (Inr res, c')" and acc: "ar_accepted res"
  shows "\<exists>q body status reply payload i v x.
    rq_amount r mod 100 = 0 \<and>
    hq_method q = ''POST'' \<and>
    hq_url q = (if de_environment env = SANDBOX then ''https://sandbox.safaricom.co.ke'' else ''https://api.safaricom.co.ke'') @
      ''/mpesa/stkpush/v1/processrequest'' \<and>
    hq_json q = Some (JsObj body) \<and>
    map_of body ''TransactionType'' = Some (JsStr ''CustomerPayBillOnline'') \<and>
    map_of body ''Amount'' = Some (JsStr (int_str (rq_amount r div 100))) \<and>
    map_of body ''PartyA'' = Some (JsStr (normalize_ke_msisdn (rq_customer_phone r))) \<and>
    map_of body ''PhoneNumber'' = Some (JsStr (normalize_ke_msisdn (rq_customer_phone r))) \<and>
    map_of body ''PartyB'' = Some (JsStr (py_str env (jget ''short_code'' credentials))) \<and>
    map_of body ''BusinessShortCode'' = Some (JsStr (py_str env (jget ''short_code'' credentials))) \<and>
    map_of body ''CallBackURL'' = Some (JsStr (rq_callback_url r)) \<and>
    length (normalize_ke_msisdn (rq_customer_phone r)) = 12 \<and>
    list_all is_digit (normalize_ke_msisdn (rq_customer_phone r)) \<and>
    (take 4 (normalize_ke_msisdn (rq_customer_phone r)) = ''2547'' \<or>
     take 5 (normalize_ke_msisdn (rq_customer_phone r)) = ''25411'') \<and>
    de_http env q = Reply status reply \<and> loads reply = Some (JsObj payload) \<and>
    i < 3 \<and> map_of payload ([''ResponseCode'', ''errorCode'', ''ErrorCode''] ! i) = Some v \<and>
    v \<noteq> JsNull \<and> strip (py_str env v) = ''0'' \<and>
    (\<forall>j < i. \<forall>u. map_of payload ([''ResponseCode'', ''errorCode'', ''ErrorCode''] ! j) = Some u \<longrightarrow>
       u = JsNull \<or> strip (py_str env u) = []) \<and>
    map_of payload ''CheckoutRequestID'' = Some (JsStr x) \<and> x \<noteq> [] \<and>
    ar_provider_request_id res = Some x \<and> ar_normalized_status res = PT_PENDING"
proof -
  obtain shaped amount phone token status reply payload where
    run': "daraja_credentials credentials = Inr shaped" "require_integer_kes (rq_amount r) = Inr amount"
      "daraja_phone (rq_customer_phone r) = Inr phone"
      "de_http env (bearer_post env ''/mpesa/stkpush/v1/processrequest'' token (stk_body env shaped r amount phone)) =
        Reply status reply"
      "loads reply = Some (JsObj payload)" "res = stk_result env payload"
    using run by (auto simp: daraja_charge_def andThen_Inr cret_def)
  have amount: "amount = int_str (rq_amount r div 100)" "rq_amount r mod 100 = 0"
    using run'(2) by (auto simp: require_integer_kes_def split: if_splits)
  have phone: "phone = normalize_ke_msisdn (rq_customer_phone r)" "safaricom_number phone"
    using run'(3) by (auto simp: daraja_phone_def Let_def split: if_splits)
  have code: "stk_response_code env payload = ''0''"
    using acc unfolding run'(6) by (auto simp: stk_result_def Let_def split: option.splits list.splits if_splits)
  obtain x where x: "map_of payload ''CheckoutRequestID'' = Some (JsStr x)" "x \<noteq> []" "ar_provider_request_id res = Some x"
    "ar_normalized_status res = PT_PENDING"
    using acc unfolding run'(6)
    by (auto simp: stk_result_def Let_def text_of_def jget_def split: option.splits list.splits if_splits json.splits)
  have short: "jget ''short_code'' shaped = jget ''short_code'' credentials"
    by (rule daraja_credentials_keep [OF run'(1)]) (simp add: DARAJA_REQUIRED_def)
  let ?q = "bearer_post env ''/mpesa/stkpush/v1/processrequest'' token (stk_body env shaped r amount phone)"
  have q: "hq_method ?q = ''POST''" "hq_json ?q = Some (JsObj (stk_body env shaped r amount phone))"
    "hq_url ?q = (if de_environment env = SANDBOX then ''https://sandbox.safaricom.co.ke'' else ''https://api.safaricom.co.ke'') @
      ''/mpesa/stkpush/v1/processrequest''"
    by (simp_all add: bearer_post_def base_url_def SANDBOX_BASE_URL_def PRODUCTION_BASE_URL_def)
  from phone have number: "length phone = 12" "list_all is_digit phone" "take 4 phone = ''2547'' \<or> take 5 phone = ''25411''"
    by (simp_all add: safaricom_number_def)
  from response_code_zero [OF code] obtain i v where zero: "i < 3"
    "map_of payload ([''ResponseCode'', ''errorCode'', ''ErrorCode''] ! i) = Some v" "v \<noteq> JsNull" "strip (py_str env v) = ''0''"
    "\<forall>j < i. \<forall>u. map_of payload ([''ResponseCode'', ''errorCode'', ''ErrorCode''] ! j) = Some u \<longrightarrow>
       u = JsNull \<or> strip (py_str env u) = []" by blast
  note fields = stk_body_fields [of env shaped r amount phone, unfolded short]
  show ?thesis
    unfolding amount(1) [symmetric] phone(1) [symmetric]
    by (rule exI [of _ ?q], rule exI [of _ "stk_body env shaped r amount phone"], rule exI [of _ status],
        rule exI [of _ reply], rule exI [of _ payload], rule exI [of _ i], rule exI [of _ v], rule exI [of _ x],
        intro conjI q fields number run'(4,5) zero x amount(2))
qed

text \<open>
  C40. A status reply that is a JSON object without a result code, such as the error object the
  provider sends while a transaction is still being processed, is read as a failed transaction
  with the code DARAJA_None, although it says nothing about the outcome.
\<close>

theorem query_without_result_fails:
  assumes shaped: "daraja_credentials credentials = Inr shaped" and i: "i \<noteq> ''''"
    and token: "access_token env shaped c = (Inr token, c')"
    and reply: "de_http env (bearer_post env ''/mpesa/stkpushquery/v1/query'' token (query_body env shaped i)) = Reply status body"
    and body: "loads body = Some (JsObj payload)" and none: "map_of payload ''ResultCode'' = None"
  shows "\<exists>res. daraja_query env credentials i c = (Inr res, c') \<and> sr_normalized_status res = PT_FAILED \<and>
    sr_error_code res = Some ''DARAJA_None'' \<and> sr_provider_transaction_id res = None"
proof -
  have "py_str env (jget ''ResultCode'' payload) = ''None''" using none by (simp add: jget_def)
  then have "\<exists>res. query_result env i payload = Inr res \<and> sr_normalized_status res = PT_FAILED \<and>
      sr_error_code res = Some ''DARAJA_None'' \<and> sr_provider_transaction_id res = None"
    by (simp add: query_result_def Let_def)
  then obtain res where res: "query_result env i payload = Inr res" "sr_normalized_status res = PT_FAILED"
    "sr_error_code res = Some ''DARAJA_None''" "sr_provider_transaction_id res = None" by blast
  have "daraja_query env credentials i c = (Inr res, c')"
    using i unfolding daraja_query_def
    by (simp add: andThen_def lift_call_def shaped cret_def token http_call_def reply response_json_def body res(1))
  then show ?thesis using res by blast
qed

text \<open>A callback is let through only with the request id it refers to, and succeeds on code 0 alone.\<close>

lemma parsed_callback_names_request:
  assumes "daraja_parse_callback env raw = Inr p" and "is_parseable p"
  shows "cb_provider_request_id p = cb_provider_event_id p \<and> cb_provider_event_id p \<notin> {None, Some ''''} \<and>
    (\<exists>stk. stk_callback raw = Some (JsObj stk) \<and>
       (cb_normalized_status p = Some PT_SUCCEEDED \<longleftrightarrow> py_str env (jget ''ResultCode'' stk) = ''0''))"
  using assms
  by (auto simp: daraja_parse_callback_def is_parseable_def nothing_parsed_def daraja_callback_of_def Let_def
      split: option.splits json.splits list.splits sum.splits prod.splits if_splits)

section \<open>Witnesses\<close>

text \<open>A provider that grants tokens, accepts charges and is still processing when asked.\<close>

definition token_reply :: json where
  "token_reply = JsObj [(''access_token'', JsStr ''tok'')]"

definition accepted_reply :: json where
  "accepted_reply = JsObj [(''CheckoutRequestID'', JsStr ''ws_1''), (''ResponseCode'', JsStr ''0'')]"

definition processing_reply :: json where
  "processing_reply = JsObj [(''errorCode'', JsStr ''500.001.1001''), (''errorMessage'', JsStr ''being processed'')]"

definition toy_env :: daraja_env where
  "toy_env =
     \<lparr>de_http = (\<lambda>r. Reply 200 (dumps (if hq_method r = ''GET'' then token_reply
        else if hq_url r = SANDBOX_BASE_URL @ ''/mpesa/stkpush/v1/processrequest'' then accepted_reply else processing_reply))),
      de_monotonic = 0, de_utc_now = 0, de_str = (\<lambda>_. ''''), de_environment = SANDBOX\<rparr>"

definition toy_credentials :: credentials where
  "toy_credentials =
     [(''consumer_key'', JsStr ''k''), (''consumer_secret'', JsStr ''s''), (''short_code'', JsStr ''600000''),
      (''passkey'', JsStr ''p'')]"

definition toy_request :: attempt_request where
  "toy_request =
     \<lparr>rq_amount = 150000, rq_currency = ''KES'', rq_customer_phone = ''0712345678'', rq_client_reference = ''C1'',
      rq_charge_reference = ''1'', rq_callback_url = ''https://example.org/cb''\<rparr>"

lemma toy_replies:
  "loads (dumps token_reply) = Some token_reply" "loads (dumps accepted_reply) = Some accepted_reply"
  "loads (dumps processing_reply) = Some processing_reply"
  by (rule loads_dumps, simp add: token_reply_def accepted_reply_def processing_reply_def)+

lemma toy_shaped: "daraja_credentials toy_credentials = Inr toy_credentials"
  by (simp add: daraja_credentials_def toy_credentials_def DARAJA_REQUIRED_def jget_def)

lemma toy_token: "\<exists>c'. access_token toy_env toy_credentials (\<lambda>_. None) = (Inr ''tok'', c')"
proof -
  have "loads (dumps (JsObj [(''access_token'', JsStr ''tok'')])) = Some (JsObj [(''access_token'', JsStr ''tok'')])"
    using toy_replies(1) by (simp only: token_reply_def)
  then show ?thesis
    by (simp add: access_token_def Let_def cached_token_def fetch_token_def andThen_def http_call_def cret_def token_request_def
        toy_env_def token_reply_def text_of_def jget_def)
qed

lemma toy_phone: "normalize_ke_msisdn ''0712345678'' = ''254712345678''"
  by code_simp

lemma toy_charge:
  "\<exists>res c'. daraja_charge toy_env toy_credentials toy_request (\<lambda>_. None) = (Inr res, c') \<and> ar_accepted res"
proof -
  obtain c' where token: "access_token toy_env toy_credentials (\<lambda>_. None) = (Inr ''tok'', c')"
    using toy_token by blast
  have amount: "require_integer_kes (rq_amount toy_request) = Inr (int_str 1500)"
    by (simp add: require_integer_kes_def toy_request_def quantize_checked_def quantize_def dec_of_money_def
        DECIMAL_PRECISION_def round_half_up_def)
  have phone: "daraja_phone (rq_customer_phone toy_request) = Inr ''254712345678''"
    by (simp add: daraja_phone_def toy_request_def toy_phone Let_def safaricom_number_def is_digit_iff)
  have reply: "de_http toy_env (bearer_post toy_env ''/mpesa/stkpush/v1/processrequest'' t b) = Reply 200 (dumps accepted_reply)"
    for t b
    by (simp add: toy_env_def bearer_post_def base_url_def)
  have strip: "strip ''0'' = ''0''" by code_simp
  have "ar_accepted (stk_result toy_env [(''CheckoutRequestID'', JsStr ''ws_1''), (''ResponseCode'', JsStr ''0'')])"
    by (simp add: stk_result_def Let_def jget_def text_of_def stk_response_code_def first_value_def strip)
  then show ?thesis
    using toy_replies(2)
    by (simp add: daraja_charge_def andThen_def lift_call_def toy_shaped cret_def amount phone token http_call_def reply
        response_json_def accepted_reply_def)
qed

theorem daraja_charge_accepted_witness:
  "\<exists>res c' (q :: http_request) body. daraja_charge toy_env toy_credentials toy_request (\<lambda>_. None) = (Inr res, c') \<and>
     hq_json q = Some (JsObj body) \<and> map_of body ''Amount'' = Some (JsStr ''1500'') \<and>
     map_of body ''PartyA'' = Some (JsStr ''254712345678'') \<and> map_of body ''PartyB'' = Some (JsStr ''600000'') \<and>
     ar_normalized_status res = PT_PENDING"
proof -
  obtain res c' where run: "daraja_charge toy_env toy_credentials toy_request (\<lambda>_. None) = (Inr res, c')" "ar_accepted res"
    using toy_charge by blast
  have "int_str 1500 = ''1500''" by code_simp
  then have concrete: "int_str (rq_amount toy_request div 100) = ''1500''"
    "normalize_ke_msisdn (rq_customer_phone toy_request) = ''254712345678''"
    "py_str toy_env (jget ''short_code'' toy_credentials) = ''600000''"
    by (simp_all add: toy_request_def toy_phone toy_credentials_def jget_def)
  from daraja_charge_accepted [OF run] obtain q :: http_request and body where
    "hq_json q = Some (JsObj body)" "map_of body ''Amount'' = Some (JsStr ''1500'')"
    "map_of body ''PartyA'' = Some (JsStr ''254712345678'')" "map_of body ''PartyB'' = Some (JsStr ''600000'')"
    "ar_normalized_status res = PT_PENDING"
    unfolding concrete by (elim exE conjE) (rule that, assumption+)
  with run(1) show ?thesis
    by (intro exI [of _ res] exI [of _ c'] exI [of _ q] exI [of _ body] conjI)
qed

theorem query_without_result_fails_witness:
  "\<exists>res c'. daraja_query toy_env toy_credentials ''ws_1'' (\<lambda>_. None) = (Inr res, c') \<and>
     sr_error_code res = Some ''DARAJA_None''"
proof -
  obtain c' where token: "access_token toy_env toy_credentials (\<lambda>_. None) = (Inr ''tok'', c')"
    using toy_token by blast
  have reply: "de_http toy_env (bearer_post toy_env ''/mpesa/stkpushquery/v1/query'' ''tok'' b) =
      Reply 200 (dumps processing_reply)" for b
    by (simp add: toy_env_def bearer_post_def base_url_def)
  let ?payload = "[(''errorCode'', JsStr ''500.001.1001''), (''errorMessage'', JsStr ''being processed'')]"
  have body: "loads (dumps processing_reply) = Some (JsObj ?payload)"
    using toy_replies(3) by (simp only: processing_reply_def)
  have "\<exists>res. daraja_query toy_env toy_credentials ''ws_1'' (\<lambda>_. None) = (Inr res, c') \<and>
      sr_normalized_status res = PT_FAILED \<and> sr_error_code res = Some ''DARAJA_None'' \<and>
      sr_provider_transaction_id res = None"
    by (rule query_without_result_fails [OF toy_shaped _ token reply body]) simp_all
  then show ?thesis by blast
qed

end
