(* ===== verification/Jenga.thy ===== *)
theory Jenga
  imports Daraja
begin

text \<open>
  The Jenga adapter (\<open>app/providers/jenga/adapter.py\<close>): merchant authentication, M-Pesa STK
  push, order status and callbacks. Transport, \<open>str\<close> of compound JSON values and payloads are
  those of \<open>Daraja\<close>; no token is kept between calls. SHA-256 and the RSA signature of
  \<open>cryptography\<close> are parameters: the latter gets the PEM text and the message and gives the
  signature, \<open>ValueError\<close> for a key it cannot load, or another error. A reference that the
  provider sends as a number is stored as its text.
\<close>

record jenga_env =
  je_net :: daraja_env
  je_sha256 :: "string \<Rightarrow> string"
  je_sign :: "string \<Rightarrow> string \<Rightarrow> err + string"
  je_attempt_signature :: bool

text \<open>A step that may raise, and the next one.\<close>

definition steps :: "err + 'a \<Rightarrow> ('a \<Rightarrow> err + 'b) \<Rightarrow> err + 'b" where
  "steps r f = (case r of Inl e \<Rightarrow> Inl e | Inr x \<Rightarrow> f x)"

definition jenga_str :: "jenga_env \<Rightarrow> json \<Rightarrow> string" where
  "jenga_str env v = py_str (je_net env) v"

definition jenga_http :: "jenga_env \<Rightarrow> http_request \<Rightarrow> err + (int \<times> string)" where
  "jenga_http env r = fst (http_call (je_net env) r (\<lambda>_. None))"

section \<open>Constants\<close>

definition JENGA_SANDBOX_URL :: string where "JENGA_SANDBOX_URL = ''https://uat.finserve.africa''"

definition JENGA_PRODUCTION_URL :: string where "JENGA_PRODUCTION_URL = ''https://api.finserve.africa''"

definition JENGA_CAPABILITIES :: "string list" where
  "JENGA_CAPABILITIES = [''PAYMENT_REQUEST'', ''PAYMENT_STATUS_QUERY'', ''CALLBACKS'']"

definition jenga_url :: "jenga_env \<Rightarrow> string" where
  "jenga_url env = (if de_environment (je_net env) = SANDBOX then JENGA_SANDBOX_URL else JENGA_PRODUCTION_URL)"

definition jenga_spec :: provider_spec where
  "jenga_spec =
     \<lparr>sp_code = JENGA, sp_name = ''Jenga'', sp_capabilities = JENGA_CAPABILITIES,
      sp_supported_environments = [SANDBOX, PRODUCTION]\<rparr>"

section \<open>Credentials\<close>

definition JENGA_REQUIRED :: "string list" where
  "JENGA_REQUIRED = [''api_key'', ''merchant_code'', ''consumer_secret'']"

definition JENGA_ALLOWED :: "string list" where
  "JENGA_ALLOWED = JENGA_REQUIRED @ [''signing_private_key'']"

definition jenga_credentials :: "credentials \<Rightarrow> err + credentials" where
  "jenga_credentials credentials =
     (if list_ex (\<lambda>k. map_of credentials k = None) JENGA_REQUIRED
      then Inl (ProviderIntegrationError ''CREDENTIALS_INCOMPLETE'' ''Jenga credentials are missing required fields'')
      else if list_ex (\<lambda>kv. fst kv \<notin> set JENGA_ALLOWED) credentials
      then Inl (ProviderIntegrationError ''CREDENTIALS_UNEXPECTED'' ''Jenga credentials contain unsupported fields'')
      else Inr (filter (\<lambda>kv. fst kv \<in> set JENGA_ALLOWED) credentials))"

definition masked_merchant :: "credentials \<Rightarrow> string" where
  "masked_merchant credentials =
     ''****'' @ last4 (case map_of credentials ''merchant_code'' of Some (JsStr s) \<Rightarrow> s | _ \<Rightarrow> '''')"

definition jenga_redact :: "string \<Rightarrow> string" where
  "jenga_redact value =
     (if value = '''' then ''****''
      else if length value \<le> 4 then ''****''
      else take 2 value @ ''****'' @ drop (length value - 2) value)"

definition merchant_request :: "jenga_env \<Rightarrow> credentials \<Rightarrow> http_request" where
  "merchant_request env shaped =
     \<lparr>hq_method = ''POST'', hq_url = jenga_url env @ ''/authentication/api/v3/authenticate/merchant'', hq_params = [],
      hq_headers = [(''Api-Key'', jenga_str env (jget ''api_key'' shaped))],
      hq_json = Some (JsObj [(''merchantCode'', JsStr (jenga_str env (jget ''merchant_code'' shaped))),
                             (''consumerSecret'', JsStr (jenga_str env (jget ''consumer_secret'' shaped)))])\<rparr>"

definition jenga_token :: "jenga_env \<Rightarrow> credentials \<Rightarrow> err + string" where
  "jenga_token env shaped =
     steps (jenga_http env (merchant_request env shaped)) (\<lambda>(status, body).
     if status \<noteq> 200
     then Inl (ProviderIntegrationError ''AUTH_FAILED'' ''Jenga authentication request failed'')
     else
       steps (response_json (ProviderIntegrationError ''AUTH_MALFORMED''
         ''Jenga authentication response was not JSON'') body) (\<lambda>payload.
       if jget ''status'' payload = JsBool False
       then Inl (ProviderIntegrationError ''AUTH_FAILED'' ''Jenga rejected the merchant credentials'')
       else
         (case text_of (jget ''token'' payload) of
            Some (t # ts) \<Rightarrow> Inr (t # ts)
          | _ \<Rightarrow> Inl (ProviderIntegrationError ''AUTH_MALFORMED''
                   ''Jenga authentication response did not include a token''))))"

definition MERCHANT_REJECTED :: validation_result where
  "MERCHANT_REJECTED =
     \<lparr>vr_valid = False, vr_error_code = Some ''AUTH_FAILED'',
      vr_error_message_safe = Some ''Jenga rejected the API key, merchant code, or consumer secret'',
      vr_masked_account_identifier = None\<rparr>"

definition jenga_validate :: "jenga_env \<Rightarrow> credentials \<Rightarrow> err + validation_result" where
  "jenga_validate env credentials =
     steps (jenga_credentials credentials) (\<lambda>shaped.
     case jenga_token env shaped of
       Inl (ProviderIntegrationError _ _) \<Rightarrow> Inr MERCHANT_REJECTED
     | Inl (ProviderTimeoutError _ _) \<Rightarrow> Inr MERCHANT_REJECTED
     | Inl e \<Rightarrow> Inl e
     | Inr token \<Rightarrow>
         Inr \<lparr>vr_valid = True, vr_error_code = None, vr_error_message_safe = None,
              vr_masked_account_identifier = Some (masked_merchant shaped)\<rparr>)"

text \<open>\<open>_signature\<close>: no header without a signing key.\<close>

definition jenga_signature :: "jenga_env \<Rightarrow> credentials \<Rightarrow> string \<Rightarrow> err + string option" where
  "jenga_signature env shaped message =
     (let pem = jget ''signing_private_key'' shaped
      in if \<not> truthy pem then Inr None
         else
           (case pem of
              JsStr text \<Rightarrow>
                (case je_sign env text message of
                   Inl ValueError \<Rightarrow> Inl (ProviderIntegrationError ''SIGNING_KEY_INVALID''
                                          ''The Jenga signing private key could not be loaded'')
                 | Inl e \<Rightarrow> Inl e
                 | Inr signature \<Rightarrow> Inr (Some (b64encode signature)))
            | _ \<Rightarrow> Inl AttributeError))"

section \<open>Charges\<close>

definition jenga_reference :: "jenga_env \<Rightarrow> string \<Rightarrow> string" where
  "jenga_reference env value = take 16 (je_sha256 env value)"

definition short_text :: "nat \<Rightarrow> string \<Rightarrow> string" where
  "short_text limit value = take limit (join '' '' (split_words value))"

definition jenga_phone :: "string \<Rightarrow> err + string" where
  "jenga_phone raw =
     (let digits = digits_of raw;
          digits = (if take 1 digits = ''0'' then ''254'' @ drop 1 digits
                    else if take 1 digits = ''7'' \<or> take 1 digits = ''1'' then ''254'' @ digits else digits)
      in if safaricom_number digits then Inr digits
         else Inl (ProviderIntegrationError ''PHONE_FORMAT''
                ''Jenga STK Push requires a Safaricom number in the 07x or 011x range''))"

text \<open>\<open>str\<close> of an amount with two decimal places.\<close>

definition money_text :: "money \<Rightarrow> string" where
  "money_text amount = int_str (amount div 100) @ ''.'' @ two_digits (amount mod 100)"

definition jenga_body :: "jenga_env \<Rightarrow> attempt_request \<Rightarrow> string \<Rightarrow> (string \<times> json) list" where
  "jenga_body env r phone =
     [(''order'', JsObj
         [(''orderReference'', JsStr (rq_client_reference r)),
          (''orderAmount'', JsStr (money_text (rq_amount r))),
          (''orderCurrency'', JsStr (rq_currency r)),
          (''source'', JsStr ''APICHECKOUT''),
          (''countryCode'', JsStr ''KE''),
          (''description'', JsStr (short_text 120 (rq_charge_reference r @ '' chama payment'')))]),
      (''customer'', JsObj
         [(''name'', JsStr (short_text 120 ''chama member'')),
          (''email'', JsStr (short_text 120 ''member@chamacore.invalid'')),
          (''phoneNumber'', JsStr phone),
          (''identityNumber'', JsStr (short_text 50 (rq_client_reference r)))]),
      (''payment'', JsObj
         [(''paymentReference'', JsStr (jenga_reference env (rq_client_reference r))),
          (''paymentCurrency'', JsStr (rq_currency r)),
          (''channel'', JsStr ''MOBILE''),
          (''service'', JsStr ''MPESA''),
          (''provider'', JsStr ''JENGA''),
          (''callbackUrl'', JsStr (rq_callback_url r)),
          (''details'', JsObj [(''msisdn'', JsStr phone), (''paymentAmount'', JsStr (money_text (rq_amount r)))])])]"

text \<open>\<open>_canonical_stk_request\<close> of that body.\<close>

definition canonical_stk_request :: "attempt_request \<Rightarrow> string \<Rightarrow> string" where
  "canonical_stk_request r phone =
     concat [rq_client_reference r, money_text (rq_amount r), rq_currency r, phone, money_text (rq_amount r),
       rq_currency r]"

definition jenga_headers :: "jenga_env \<Rightarrow> credentials \<Rightarrow> string \<Rightarrow> string \<Rightarrow> err + (string \<times> string) list" where
  "jenga_headers env shaped token message =
     (let bearer = (''Authorization'', ''Bearer '' @ token)
      in if \<not> je_attempt_signature env then Inr [bearer]
         else
           steps (jenga_signature env shaped message) (\<lambda>signature.
           Inr (case signature of None \<Rightarrow> [bearer] | Some g \<Rightarrow> [bearer, (''Signature'', g)])))"

text \<open>\<open>v != 0\<close>: \<open>False\<close> and a zero float equal zero.\<close>

definition nonzero :: "json \<Rightarrow> bool" where
  "nonzero v =
     (case v of JsInt i \<Rightarrow> i \<noteq> 0 | JsBool b \<Rightarrow> b | JsFloat t \<Rightarrow> truthy v | _ \<Rightarrow> True)"

text \<open>\<open>payload.get(key) or {}\<close>, on which \<open>.get\<close> is called next.\<close>

definition sub_object :: "string \<Rightarrow> (string \<times> json) list \<Rightarrow> err + (string \<times> json) list" where
  "sub_object key payload =
     (let v = jget key payload
      in if \<not> truthy v then Inr []
         else (case v of JsObj kvs \<Rightarrow> Inr kvs | _ \<Rightarrow> Inl AttributeError))"

text \<open>The first true value of several keys.\<close>

definition first_true :: "string list \<Rightarrow> (string \<times> json) list \<Rightarrow> json option" where
  "first_true keys payload = first_value truthy keys payload"

definition jenga_charge_result :: "jenga_env \<Rightarrow> attempt_request \<Rightarrow> (string \<times> json) list \<Rightarrow> err + attempt_result" where
  "jenga_charge_result env r payload =
     (let code = map_of payload ''code''
      in if jget ''status'' payload = JsBool False \<or> (case code of None \<Rightarrow> False | Some v \<Rightarrow> nonzero v)
         then Inr \<lparr>ar_accepted = False, ar_provider_request_id = None, ar_provider_transaction_id = None,
                   ar_normalized_status = PT_FAILED, ar_retryable = False,
                   ar_error_code = Some (''JENGA_'' @ (case code of None \<Rightarrow> ''UNKNOWN'' | Some v \<Rightarrow> jenga_str env v)),
                   ar_error_message_safe = Some (safe_message (case map_of payload ''message'' of
                     None \<Rightarrow> ''Jenga did not accept the STK Push request'' | Some v \<Rightarrow> jenga_str env v))\<rparr>
         else
           steps (sub_object ''data'' payload) (\<lambda>d.
           let order_reference = (case first_true [''orderReference'', ''paymentReference''] d of
                 None \<Rightarrow> '''' | Some v \<Rightarrow> jenga_str env v)
           in Inr \<lparr>ar_accepted = True,
                   ar_provider_request_id =
                     Some (if order_reference = '''' then rq_client_reference r else order_reference),
                   ar_provider_transaction_id =
                     map_option (jenga_str env) (first_true [''transactionId'', ''checkoutRequestID''] d),
                   ar_normalized_status = PT_PENDING, ar_retryable = False, ar_error_code = None,
                   ar_error_message_safe = None\<rparr>))"

definition jenga_post :: "jenga_env \<Rightarrow> (string \<times> string) list \<Rightarrow> (string \<times> json) list \<Rightarrow> http_request" where
  "jenga_post env headers body =
     \<lparr>hq_method = ''POST'', hq_url = jenga_url env @ ''/api-checkout/mpesa-stk-push/v3.0/init'', hq_params = [],
      hq_headers = headers, hq_json = Some (JsObj body)\<rparr>"

definition jenga_charge :: "jenga_env \<Rightarrow> credentials \<Rightarrow> attempt_request \<Rightarrow> err + attempt_result" where
  "jenga_charge env credentials r =
     steps (jenga_credentials credentials) (\<lambda>shaped.
     steps (jenga_token env shaped) (\<lambda>token.
     steps (jenga_phone (rq_customer_phone r)) (\<lambda>phone.
     steps (jenga_headers env shaped token (canonical_stk_request r phone)) (\<lambda>headers.
     steps (jenga_http env (jenga_post env headers (jenga_body env r phone))) (\<lambda>(status, body).
     steps (response_json (ProviderIntegrationError ''RESPONSE_MALFORMED''
       ''Jenga STK Push response was not JSON'') body) (\<lambda>payload.
     jenga_charge_result env r payload))))))"

section \<open>Status\<close>

definition jenga_status :: "string \<Rightarrow> provider_tx_status" where
  "jenga_status raw =
     (let code = upper (strip raw)
      in if code \<in> {''SUCCESS'', ''PAID'', ''SUCCEEDED'', ''2''} then PT_SUCCEEDED
         else if code \<in> {''FAILED'', ''CANCELLED'', ''EXPIRED'', ''CANCELLED1'', ''1''} then PT_FAILED
         else PT_UNKNOWN)"

text \<open>
  The loop over \<open>data.get("invoices") or []\<close>: characters of a text and keys of a dictionary are
  no dictionaries; a number cannot be iterated.
\<close>

fun external_reference_in :: "jenga_env \<Rightarrow> json list \<Rightarrow> string option" where
  "external_reference_in env [] = None"
| "external_reference_in env (x # xs) =
     (case x of
        JsObj kvs \<Rightarrow>
          if truthy (jget ''externalReference'' kvs) then Some (jenga_str env (jget ''externalReference'' kvs))
          else external_reference_in env xs
      | _ \<Rightarrow> external_reference_in env xs)"

definition external_reference :: "jenga_env \<Rightarrow> json \<Rightarrow> err + string option" where
  "external_reference env v =
     (if \<not> truthy v then Inr None
      else
        (case v of
           JsArr xs \<Rightarrow> Inr (external_reference_in env xs)
         | JsStr _ \<Rightarrow> Inr None
         | JsObj _ \<Rightarrow> Inr None
         | _ \<Rightarrow> Inl TypeError))"

definition some_text :: "string \<Rightarrow> string option" where
  "some_text s = (if s = '''' then None else Some s)"

definition jenga_query_result :: "jenga_env \<Rightarrow> string \<Rightarrow> (string \<times> json) list \<Rightarrow> err + status_result" where
  "jenga_query_result env order_reference payload =
     (if jget ''status'' payload = JsBool False
      then Inr \<lparr>sr_found = False, sr_provider_request_id = Some order_reference, sr_provider_transaction_id = None,
                sr_normalized_status = PT_UNKNOWN,
                sr_raw_status = Some (safe_message (case map_of payload ''message'' of
                  None \<Rightarrow> ''Jenga did not find the order'' | Some v \<Rightarrow> jenga_str env v)),
                sr_error_code = Some ''JENGA_NOT_FOUND'',
                sr_error_message_safe = Some ''Jenga could not find the order; status is unknown''\<rparr>
      else
        steps (sub_object ''data'' payload) (\<lambda>d.
        steps (sub_object ''order'' d) (\<lambda>order.
        let order_status = (case map_of order ''orderStatus'' of None \<Rightarrow> '''' | Some v \<Rightarrow> jenga_str env v)
        in steps (external_reference env (jget ''invoices'' d)) (\<lambda>receipt.
           Inr \<lparr>sr_found = True, sr_provider_request_id = Some order_reference, sr_provider_transaction_id = receipt,
                sr_normalized_status = jenga_status order_status, sr_raw_status = some_text order_status,
                sr_error_code = None, sr_error_message_safe = None\<rparr>))))"

definition jenga_query :: "jenga_env \<Rightarrow> credentials \<Rightarrow> string \<Rightarrow> string \<Rightarrow> err + status_result" where
  "jenga_query env credentials provider_request_id client_reference =
     steps (jenga_credentials credentials) (\<lambda>shaped.
     let order_reference = (if provider_request_id = '''' then client_reference else provider_request_id)
     in steps (jenga_token env shaped) (\<lambda>token.
        steps (jenga_http env
          \<lparr>hq_method = ''GET'', hq_url = jenga_url env @ ''/api-checkout/mpesa-stk-push/v3.0/status/order/'' @ order_reference,
           hq_params = [], hq_headers = [(''Authorization'', ''Bearer '' @ token)], hq_json = None\<rparr>) (\<lambda>(status, body).
        steps (response_json (ProviderIntegrationError ''RESPONSE_MALFORMED''
          ''Jenga status query response was not JSON'') body) (\<lambda>payload.
        jenga_query_result env order_reference payload))))"

section \<open>Callbacks\<close>

definition jenga_callback_of :: "jenga_env \<Rightarrow> (string \<times> json) list \<Rightarrow> string \<Rightarrow> string \<Rightarrow> parsed_callback" where
  "jenga_callback_of env payload order_reference event_id =
     (let status_raw = upper (case map_of payload ''status'' of None \<Rightarrow> '''' | Some v \<Rightarrow> jenga_str env v);
          transaction_id = jget ''transactionId'' payload;
          currency = jget ''currency'' payload;
          phone = jget ''phoneNumber'' payload
      in \<lparr>cb_provider_event_id = Some event_id, cb_provider_request_id = Some order_reference,
          cb_provider_transaction_id = (if truthy transaction_id then Some (jenga_str env transaction_id) else None),
          cb_amount = Option.bind (map_of payload ''amount'') (\<lambda>v. parse_decimal (jenga_str env v)),
          cb_currency = Some (upper (if truthy currency then jenga_str env currency else ''KES'')),
          cb_payer_phone = (if phone = JsNull then None else Some (jenga_str env phone)),
          cb_normalized_status = Some (jenga_status status_raw), cb_raw_status = some_text status_raw,
          cb_error_code = None, cb_error_message_safe = None\<rparr>)"

definition jenga_parse_callback :: "jenga_env \<Rightarrow> string \<Rightarrow> err + parsed_callback" where
  "jenga_parse_callback env raw_payload =
     (case Option.bind (utf8_decode raw_payload) loads of
        None \<Rightarrow> Inr nothing_parsed
      | Some (JsObj payload) \<Rightarrow>
          (case (text_of (jget ''orderReference'' payload), first_true [''transactionId'', ''paymentReference''] payload) of
             (Some (x # xs), Some event_id) \<Rightarrow> 
               if jenga_str env event_id = '''' then Inr nothing_parsed
               else Inr (jenga_callback_of env payload (x # xs) (jenga_str env event_id))
           | _ \<Rightarrow> Inr nothing_parsed)
      | Some _ \<Rightarrow> Inl AttributeError)"

definition jenga_verify_callback :: "string \<Rightarrow> (string \<times> string) list \<Rightarrow> bool \<times> string option" where
  "jenga_verify_callback raw_payload headers = (True, None)"

text \<open>The adapter as the port; what it does not offer is the port's own answer.\<close>

definition jenga_adapter :: "jenga_env \<Rightarrow> adapter" where
  "jenga_adapter env =
     \<lparr>ad_spec = jenga_spec,
      ad_validate_credentials = (\<lambda>credentials _. jenga_validate env credentials),
      ad_create_payment_attempt = (\<lambda>credentials r _. jenga_charge env credentials r),
      ad_query_payment_status = (\<lambda>credentials i reference _. jenga_query env credentials i reference),
      ad_parse_callback = jenga_parse_callback env,
      ad_verify_callback = jenga_verify_callback,
      ad_masked_account_identifier = masked_merchant,
      ad_decrypted_credentials = (\<lambda>credentials _. jenga_credentials credentials),
      ad_parse_c2b_validation = (\<lambda>raw. Inr unparseable_c2b),
      ad_parse_c2b_confirmation = (\<lambda>raw. Inr unparseable_c2b),
      ad_register_c2b_urls = (\<lambda>_ _ _. Inl (NotImplementedError ''Jenga does not support C2B Register URL''))\<rparr>"

section \<open>Facts\<close>

lemma steps_Inr [simp]: "steps r f = Inr y \<longleftrightarrow> (\<exists>x. r = Inr x \<and> f x = Inr y)"
  by (cases r) (simp_all add: steps_def)

lemma jenga_http_Inr [simp]: "jenga_http env r = Inr y \<longleftrightarrow> de_http (je_net env) r = Reply (fst y) (snd y)"
  by (cases y) (auto simp: jenga_http_def http_call_def cfail_def cret_def split: http_reply.split)

text \<open>
  An accepted charge was asked for with the amount and the number of the request; its money is
  pending, and it has a reference to ask for.
\<close>

lemma jenga_charge_accepted:
  assumes "jenga_charge env credentials r = Inr res" and "ar_accepted res"
  shows "\<exists>phone headers status body. jenga_phone (rq_customer_phone r) = Inr phone \<and> safaricom_number phone \<and>
    de_http (je_net env) (jenga_post env headers (jenga_body env r phone)) = Reply status body \<and>
    ar_normalized_status res = PT_PENDING \<and> ar_provider_request_id res \<noteq> None"
  using assms
  by (auto simp: jenga_charge_def jenga_charge_result_def jenga_phone_def Let_def split: if_splits)

text \<open>
  The HTTP status of the reply to a charge is not looked at: a JSON object that has neither
  \<open>code\<close> nor \<open>status\<close> \<open>false\<close>, such as the error page of a gateway, is an accepted charge.
\<close>

lemma jenga_error_page_accepted:
  assumes "jenga_credentials credentials = Inr shaped" "jenga_token env shaped = Inr token"
    "jenga_phone (rq_customer_phone r) = Inr phone"
    "jenga_headers env shaped token (canonical_stk_request r phone) = Inr headers"
    and reply: "de_http (je_net env) (jenga_post env headers (jenga_body env r phone)) = Reply 500 body"
    and page: "loads body = Some (JsObj payload)" "map_of payload ''code'' = None" "map_of payload ''data'' = None"
      "jget ''status'' payload \<noteq> JsBool False"
  shows "\<exists>res. jenga_charge env credentials r = Inr res \<and> ar_accepted res \<and>
    ar_provider_request_id res = Some (rq_client_reference r)"
proof -
  have "jenga_http env (jenga_post env headers (jenga_body env r phone)) = Inr (500, body)" using reply by simp
  moreover have "jget ''data'' payload = JsNull" using page(3) by (simp add: jget_def)
  ultimately show ?thesis using assms(1-4) page
    by (auto simp: jenga_charge_def steps_def response_json_def jenga_charge_result_def Let_def sub_object_def
        first_true_def first_value_def jget_def simp del: jenga_http_Inr)
qed

text \<open>Both adapters accept the same numbers, and read them alike.\<close>

lemma jenga_phone_agrees: "jenga_phone raw = Inr p \<longleftrightarrow> daraja_phone raw = Inr p"
  by (auto simp: jenga_phone_def daraja_phone_def Let_def normalize_ke_msisdn_def split: if_splits)

end
