(* ===== verification/Statements.thy ===== *)
theory Statements
  imports Ledger_Facts Clock Json
begin

text \<open>
  Statements (\<open>app/services/statement.py\<close>, \<open>app/repositories/statement.py\<close>): the report of a
  period, for a whole Chama or for one member. Nothing is written. A date is a \<open>datetime\<close> at
  midnight; instants are read in UTC, the time zone of the database. Rendering the statement as
  PDF is left to the library that does it.
\<close>

record statement_line =
  sl_posted_on :: datetime
  sl_reference :: string
  sl_description :: string
  sl_debit :: money
  sl_credit :: money
  sl_running_balance :: money

record contribution_line =
  cl_period :: string
  cl_amount :: money
  cl_paid_on :: "datetime option"
  cl_share_units :: int

record statement =
  st_chama_name :: string
  st_chama_status :: string
  st_scope_label :: string
  st_member_name :: "string option"
  st_member_number :: "int option"
  st_period_from :: datetime
  st_period_to :: datetime
  st_generated_at :: string
  st_currency :: string
  st_contributions :: "contribution_line list"
  st_lines :: "statement_line list"
  st_total_debit :: money
  st_total_credit :: money
  st_closing_balance :: money

definition CHAMA_WIDE_ROLES :: "role_name list" where
  "CHAMA_WIDE_ROLES = [CHAIRPERSON, TREASURER, SECRETARY]"

section \<open>The repository\<close>

text \<open>
  The window \<open>[start, end)\<close>; SQLite compares whole seconds. The end is the midnight after the
  last day, which the calendar does not have after 9999-12-31.
\<close>

definition in_window :: "bool \<Rightarrow> int \<Rightarrow> int \<Rightarrow> int \<Rightarrow> bool" where
  "in_window sqlite start until t =
     (let t' = (if sqlite then t - t mod 1000000 else t) in start \<le> t' \<and> t' < until)"

definition date_of :: "datetime \<Rightarrow> datetime" where
  "date_of d = DateTime (dt_year d) (dt_month d) (dt_day d) 0"

definition WINDOW_REVERSED :: string where
  "WINDOW_REVERSED = [CHR 0x27] @ ''to'' @ [CHR 0x27] @ '' must be on or after '' @ [CHR 0x27] @ ''from'' @ [CHR 0x27]"

definition window_bounds :: "datetime option \<Rightarrow> datetime option \<Rightarrow> (int \<times> int \<times> datetime \<times> datetime) act" where
  "window_bounds date_from date_to =
     bind (asks local_now) (\<lambda>now.
     let start_day = (case date_from of None \<Rightarrow> DateTime 1970 1 1 0 | Some d \<Rightarrow> d);
         end_day = (case date_to of None \<Rightarrow> date_of now | Some d \<Rightarrow> d)
     in bind (ensure (\<not> end_day < start_day) (AppError WINDOW_REVERSED)) (\<lambda>_.
        bind (ensure (end_day \<noteq> DateTime 9999 12 31 0) OverflowError) (\<lambda>_.
        ret (instant start_day, instant end_day + MICROS_PER_DAY, start_day, end_day))))"

text \<open>
  Confirmed contributions with the units of their share. The statement orders nothing; the rows
  come in the order of the table here.
\<close>

definition contribution_in_window ::
  "bool \<Rightarrow> db \<Rightarrow> uuid \<Rightarrow> int \<Rightarrow> int \<Rightarrow> uuid list option \<Rightarrow> contribution \<Rightarrow> bool"
where
  "contribution_in_window sqlite d chama_id start until membership_ids c \<longleftrightarrow>
     list_ex (\<lambda>m. ms_id m = cn_membership_id c \<and> ms_chama_id m = chama_id) (memberships d) \<and>
     cn_status c = CN_CONFIRMED \<and>
     (case membership_ids of None \<Rightarrow> True | Some is \<Rightarrow> cn_membership_id c \<in> set is) \<and>
     (case cn_confirmed_at c of None \<Rightarrow> False | Some t \<Rightarrow> in_window sqlite start until (instant t))"

definition units_of_contribution :: "db \<Rightarrow> uuid \<Rightarrow> int list" where
  "units_of_contribution d contribution_id =
     (case filter (\<lambda>x. sh_contribution_id x = contribution_id) (shares d) of
        [] \<Rightarrow> [0] | xs \<Rightarrow> map sh_units xs)"

definition contributions_in_window ::
  "uuid \<Rightarrow> int \<Rightarrow> int \<Rightarrow> uuid list option \<Rightarrow> (contribution \<times> int) list act"
where
  "contributions_in_window chama_id start until membership_ids =
     bind (asks is_sqlite) (\<lambda>sqlite.
     query (\<lambda>rs os. concat (map (\<lambda>c. map (Pair c) (units_of_contribution rs (cn_id c)))
       (entities contributions (contribution_in_window sqlite rs chama_id start until membership_ids) rs os))))"

text \<open>\<open>session.expunge_all()\<close>: what was not flushed is gone, later reads see the rows.\<close>

definition expunge_all :: "unit act" where
  "expunge_all s = (Inr (), s\<lparr>objs := rows s\<rparr>)"

definition account_code_of :: "db \<Rightarrow> ledger_entry \<Rightarrow> string" where
  "account_code_of d e =
     (case find_row la_id (le_account_id e) (ledger_accounts d) of None \<Rightarrow> '''' | Some a \<Rightarrow> la_code a)"

definition ledger_rows :: "bool \<Rightarrow> uuid \<Rightarrow> int \<Rightarrow> int \<Rightarrow> db \<Rightarrow> (ledger_transaction \<times> ledger_entry) list" where
  "ledger_rows sqlite chama_id start until d =
     sort_key (\<lambda>(t, e). (lt_created_at t, lt_id t, le_id e))
       (concat (map (\<lambda>t. map (Pair t) (entries_of (lt_id t) d))
         (filter (\<lambda>t. lt_chama_id t = chama_id \<and> in_window sqlite start until (lt_created_at t))
           (ledger_transactions d))))"

definition ledger_entries_in_window ::
  "uuid \<Rightarrow> int \<Rightarrow> int \<Rightarrow> (ledger_transaction \<times> ledger_entry \<times> string) list act"
where
  "ledger_entries_in_window chama_id start until =
     bind (asks is_sqlite) (\<lambda>sqlite.
     bind (query (\<lambda>rs os. map (\<lambda>(t, e). (t, e, account_code_of os e)) (ledger_rows sqlite chama_id start until rs)))
       (\<lambda>results.
     bind expunge_all (\<lambda>_. ret results)))"

section \<open>The service\<close>

definition full_name :: "member \<Rightarrow> string" where
  "full_name m = mb_first_name m @ '' '' @ mb_last_name m"

text \<open>\<open>membership.member\<close>, whose names are read.\<close>

definition member_of :: "membership \<Rightarrow> member act" where
  "member_of m =
     bind (get_by_key members mb_id (ms_member_id m)) (\<lambda>found.
     case found of None \<Rightarrow> raise AttributeError | Some x \<Rightarrow> ret x)"

type_synonym scope = "uuid list option \<times> string \<times> string option \<times> int option"

definition resolve_scope :: "user \<Rightarrow> chama \<Rightarrow> uuid option \<Rightarrow> scope act" where
  "resolve_scope actor c membership_id =
     bind (authorize_chama_access actor (ch_id c)) (\<lambda>own.
     bind (has_any_role own CHAMA_WIDE_ROLES) (\<lambda>is_chama_wide.
     bind (member_of own) (\<lambda>own_member.
     case membership_id of
       None \<Rightarrow>
         if is_chama_wide then ret (None, ''Chama-wide statement'', None, None)
         else ret (Some [ms_id own], ''Member statement'', Some (full_name own_member),
                   Some (ms_membership_number own))
     | Some i \<Rightarrow>
         bind (ensure (is_chama_wide \<or> i = ms_id own)
           (PermissionDeniedError ''You may only download your own statement'')) (\<lambda>_.
         bind (if i = ms_id own then ret own else get_target_membership (ch_id c) i) (\<lambda>target.
         bind (member_of target) (\<lambda>target_member.
         ret (Some [ms_id target], ''Member statement: '' @ full_name target_member,
              Some (full_name target_member), Some (ms_membership_number target))))))))"

text \<open>The first eight characters of a UUID.\<close>

definition uuid_prefix :: "uuid \<Rightarrow> string" where
  "uuid_prefix i = hex4 (i div 16 ^ 28) @ hex4 (i div 16 ^ 24 mod 65536)"

definition instant_date :: "int \<Rightarrow> datetime" where
  "instant_date t =
     (let ordinal = t div MICROS_PER_DAY
      in DateTime (ordinal_year ordinal) (ordinal_month ordinal) (ordinal_day ordinal) 0)"

fun statement_lines :: "money \<Rightarrow> (ledger_transaction \<times> ledger_entry) list \<Rightarrow> statement_line list" where
  "statement_lines running [] = []"
| "statement_lines running ((t, e) # rest) =
     (let running' = running + le_debit e - le_credit e
      in \<lparr>sl_posted_on = instant_date (lt_created_at t), sl_reference = uuid_prefix (lt_id t),
          sl_description = (case lt_description t of None \<Rightarrow> lt_source_type t
            | Some x \<Rightarrow> if x = '''' then lt_source_type t else x),
          sl_debit = le_debit e, sl_credit = le_credit e, sl_running_balance = running'\<rparr>
         # statement_lines running' rest)"

text \<open>\<open>strftime("%Y-%m-%d %H:%M:%S")\<close>.\<close>

definition datetime_text :: "datetime \<Rightarrow> string" where
  "datetime_text d =
     (let second = dt_micros d div 1000000
      in int_str (dt_year d) @ ''-'' @ two_digits (dt_month d) @ ''-'' @ two_digits (dt_day d) @ '' '' @
         two_digits (second div 3600) @ '':'' @ two_digits (second div 60 mod 60) @ '':'' @
         two_digits (second mod 60))"

text \<open>
  \<open>build\<close>. The loop over the ledger reads the transaction and the entry of each line; for the
  statement of a member the code drops the account code first and keeps every line.
\<close>

definition build_statement ::
  "user \<Rightarrow> uuid \<Rightarrow> datetime option \<Rightarrow> datetime option \<Rightarrow> uuid option \<Rightarrow> statement act"
where
  "build_statement actor chama_id date_from date_to membership_id =
     bind (get_chama_or_404 chama_id) (\<lambda>c.
     bind (resolve_scope actor c membership_id) (\<lambda>(scope_ids, scope_label, member_name, member_number).
     bind (window_bounds date_from date_to) (\<lambda>(start, until, from_day, to_day).
     bind (contributions_in_window (ch_id c) start until scope_ids) (\<lambda>paid.
     bind (ledger_entries_in_window (ch_id c) start until) (\<lambda>ledger.
     bind (asks local_now) (\<lambda>now.
     let ls = statement_lines 0 (map (\<lambda>(t, e, code). (t, e)) ledger)
     in ret \<lparr>st_chama_name = ch_name c, st_chama_status = chama_status_value (ch_status c),
             st_scope_label = scope_label, st_member_name = member_name, st_member_number = member_number,
             st_period_from = from_day, st_period_to = to_day, st_generated_at = datetime_text now,
             st_currency = ''KES'',
             st_contributions = map (\<lambda>(x, units). \<lparr>cl_period = cn_period x, cl_amount = cn_amount x,
               cl_paid_on = cn_payment_date x, cl_share_units = units\<rparr>) paid,
             st_lines = ls, st_total_debit = sum_list (map sl_debit ls),
             st_total_credit = sum_list (map sl_credit ls),
             st_closing_balance = (if ls = [] then 0 else sl_running_balance (last ls))\<rparr>))))))"

section \<open>Facts\<close>

lemma statement_lines_sums:
  "map sl_debit (statement_lines r xs) = map (\<lambda>x. le_debit (snd x)) xs"
  "map sl_credit (statement_lines r xs) = map (\<lambda>x. le_credit (snd x)) xs"
  "statement_lines r xs = [] \<longleftrightarrow> xs = []"
  by (induction r xs rule: statement_lines.induct) (simp_all add: Let_def)

lemma statement_lines_last:
  "xs \<noteq> [] \<Longrightarrow> sl_running_balance (last (statement_lines r xs)) =
     r + sum_list (map (\<lambda>x. le_debit (snd x) - le_credit (snd x)) xs)"
  by (induction r xs rule: statement_lines.induct) (auto simp: Let_def statement_lines_sums)

lemma sum_list_sort_key: "sum_list (map f (sort_key k xs)) = (sum_list (map f xs) :: int)"
  by (metis mset_map mset_sort sum_mset_sum_list)

text \<open>Every transaction is in the window with all its entries or with none.\<close>

lemma ledger_rows_balance:
  assumes inv: "ledger_inv d"
  shows "sum_list (map (\<lambda>x. le_debit (snd x) - le_credit (snd x)) (ledger_rows lite cid a b d)) = 0"
proof -
  let ?ts = "filter (\<lambda>t. lt_chama_id t = cid \<and> in_window lite a b (lt_created_at t)) (ledger_transactions d)"
  have zero: "sum_list (map (\<lambda>e. le_debit e - le_credit e) (entries_of (lt_id t) d)) = 0" if "t \<in> set ?ts" for t
    using inv that by (auto simp: ledger_inv_def tx_wf_def balance_guard_def Let_def sum_list_diff)
  have "sum_list (map (\<lambda>x. le_debit (snd x) - le_credit (snd x)) (concat (map (\<lambda>t. map (Pair t) (entries_of (lt_id t) d)) ts))) = 0"
    if "set ts \<subseteq> set ?ts" for ts
    using that by (induction ts) (simp_all add: o_def zero)
  from this [of ?ts] show ?thesis by (simp only: ledger_rows_def sum_list_sort_key subset_refl)
qed

definition whole_ledger :: "sess \<Rightarrow> uuid \<Rightarrow> statement \<Rightarrow> statement_line list" where
  "whole_ledger s chama_id st =
     statement_lines 0 (ledger_rows (is_sqlite s) chama_id (instant (st_period_from st))
       (instant (st_period_to st) + MICROS_PER_DAY) (objs s))"

lemma whole_ledger_balances:
  assumes "ledger_inv (objs s)"
  shows "sum_list (map sl_debit (whole_ledger s cid st)) = sum_list (map sl_credit (whole_ledger s cid st))"
    and "whole_ledger s cid st \<noteq> [] \<Longrightarrow> sl_running_balance (last (whole_ledger s cid st)) = 0"
  using ledger_rows_balance [OF assms]
  by (simp_all add: whole_ledger_def statement_lines_sums statement_lines_last sum_list_diff)

lemma wp_member_of [wp]:
  "wp (member_of m) Q R s =
     (case find_row mb_id (ms_member_id m) (members (objs s)) of None \<Rightarrow> R AttributeError s | Some x \<Rightarrow> Q x s)"
  by (simp add: member_of_def wp split: option.split)

lemma wp_resolve_scope:
  assumes "clean s" and "\<And>m x. access_ok actor (ch_id c) (objs s) m \<Longrightarrow> Q x s" and "\<And>e. R e s"
  shows "wp (resolve_scope actor c membership_id) Q R s"
  unfolding resolve_scope_def wp_bind
  by (rule wp_authorize_chama_access)
     (use assms in \<open>auto simp: wp has_any_role_def split: option.split\<close>)

lemma wp_window_bounds [wp]:
  "wp (window_bounds date_from date_to) Q R s =
     (let start_day = (case date_from of None \<Rightarrow> DateTime 1970 1 1 0 | Some d \<Rightarrow> d);
          end_day = (case date_to of None \<Rightarrow> date_of (local_now s) | Some d \<Rightarrow> d)
      in if end_day < start_day then R (AppError WINDOW_REVERSED) s
         else if end_day = DateTime 9999 12 31 0 then R OverflowError s
         else Q (instant start_day, instant end_day + MICROS_PER_DAY, start_day, end_day) s)"
  by (simp add: window_bounds_def wp Let_def)

lemma wp_statement_ledger:
  assumes "clean s"
  shows "wp (ledger_entries_in_window cid a b) Q R s =
     Q (map (\<lambda>(t, e). (t, e, account_code_of (objs s) e)) (ledger_rows (is_sqlite s) cid a b (objs s))) s"
  using assms by (simp add: ledger_entries_in_window_def wp expunge_all_def wp_def ret_def bind_def asks_def query_def)

lemma wp_build_statement:
  assumes clean: "clean s" and bad: "\<And>e. R e s"
    and ok: "\<And>c m st. find_row ch_id cid (chamas (objs s)) = Some c \<Longrightarrow> access_ok actor cid (objs s) m \<Longrightarrow> st_lines st = whole_ledger s cid st \<Longrightarrow>
      st_total_debit st = sum_list (map sl_debit (st_lines st)) \<Longrightarrow>
      st_total_credit st = sum_list (map sl_credit (st_lines st)) \<Longrightarrow>
      st_closing_balance st = (if st_lines st = [] then 0 else sl_running_balance (last (st_lines st))) \<Longrightarrow>
      Q st s"
  shows "wp (build_statement actor cid date_from date_to mid) Q R s"
proof (cases "find_row ch_id cid (chamas (objs s))")
  case None
  then show ?thesis by (simp add: build_statement_def wp bad)
next
  case (Some c)
  then have c: "ch_id c = cid" by (auto dest: find_row_SomeD)
  show ?thesis
    unfolding build_statement_def wp_bind wp_get_chama_or_404 Some option.case
    by (rule wp_resolve_scope [OF clean])
       (auto simp: wp clean bad c Let_def contributions_in_window_def wp_statement_ledger o_def split_beta
          whole_ledger_def intro!: ok [OF Some])
qed

end
