(* ===== verification/Calendar_Facts.thy ===== *)
theory Calendar_Facts
  imports Clock
begin

text \<open>
  The calendar computed from an ordinal is the inverse of \<open>toordinal\<close>, and the first days of the
  months divide the time line: what the periods, the time stamps and the monthly reports rest on.
\<close>

lemma div_parts: "0 \<le> r \<Longrightarrow> r < k \<Longrightarrow> (k * q + r) div k = (q :: int)"
  by simp

lemma days_before_year_parts:
  assumes "0 \<le> b" "b \<le> 3" "0 \<le> c" "c \<le> 24" "0 \<le> d" "d \<le> 3"
  shows "days_before_year (400 * a + 100 * b + 4 * c + d + 1) = 146097 * a + 36524 * b + 1461 * c + 365 * d"
proof -
  let ?y = "400 * a + 100 * b + 4 * c + d"
  have eqs: "?y = 4 * (100 * a + 25 * b + c) + d" "?y = 100 * (4 * a + b) + (4 * c + d)"
    "?y = 400 * a + (100 * b + (4 * c + d))" by simp_all
  have "?y div 4 = 100 * a + 25 * b + c" unfolding eqs(1) by (rule div_parts) (use assms in auto)
  moreover have "?y div 100 = 4 * a + b" unfolding eqs(2) by (rule div_parts) (use assms in auto)
  moreover have "?y div 400 = a" unfolding eqs(3) by (rule div_parts) (use assms in auto)
  ultimately show ?thesis by (simp add: days_before_year_def)
qed

lemma div_pred: 
  assumes "0 < k"
  shows "(y :: int) div k = (y - 1) div k + (if y mod k = 0 then 1 else 0)"
proof (cases "y mod k = 0")
  case True
  have "y - 1 = k * (y div k) + y mod k - 1" by simp
  also have "\<dots> = k * (y div k - 1) + (k - 1)" unfolding True by (simp add: algebra_simps)
  finally have "(y - 1) div k = (k * (y div k - 1) + (k - 1)) div k" by (rule arg_cong)
  also have "\<dots> = y div k - 1" by (rule div_parts) (use assms in auto)
  finally have "(y - 1) div k = y div k - 1" .
  with True show ?thesis by simp
next
  case False
  have "0 \<le> y mod k" "y mod k < k" using assms by simp_all
  with False have r: "0 \<le> y mod k - 1" "y mod k - 1 < k" by auto
  have "y - 1 = k * (y div k) + (y mod k - 1)" by simp
  then have "(y - 1) div k = (k * (y div k) + (y mod k - 1)) div k" by (rule arg_cong)
  also have "\<dots> = y div k" by (rule div_parts [OF r])
  finally have "(y - 1) div k = y div k" .
  with False show ?thesis by simp
qed

lemma days_in_year: "days_before_year (y + 1) = days_before_year y + (if is_leap y then 366 else 365)"
proof -
  have 4: "y div 4 = (y - 1) div 4 + (if y mod 4 = 0 then 1 else 0)" by (rule div_pred) simp
  have 100: "y div 100 = (y - 1) div 100 + (if y mod 100 = 0 then 1 else 0)" by (rule div_pred) simp
  have 400: "y div 400 = (y - 1) div 400 + (if y mod 400 = 0 then 1 else 0)" by (rule div_pred) simp
  have "y mod 4 = y mod 100 mod 4" "y mod 100 = y mod 400 mod 100" by (simp_all add: mod_mod_cancel)
  then have imp: "y mod 100 = 0 \<Longrightarrow> y mod 4 = 0" "y mod 400 = 0 \<Longrightarrow> y mod 100 = 0" by auto
  have "days_before_year (y + 1) = y * 365 + y div 4 - y div 100 + y div 400"
    by (simp only: days_before_year_def add_diff_cancel_right')
  also have "\<dots> = days_before_year y + (365 + (if y mod 4 = 0 then 1 else 0) - (if y mod 100 = 0 then 1 else 0) +
      (if y mod 400 = 0 then 1 else 0))"
    unfolding days_before_year_def 4 100 400 left_diff_distrib by linarith
  finally have eq: "days_before_year (y + 1) = days_before_year y + (365 + (if y mod 4 = 0 then 1 else 0) -
      (if y mod 100 = 0 then 1 else 0) + (if y mod 400 = 0 then 1 else 0))" .
  show ?thesis using imp unfolding eq is_leap_def
    by (cases "y mod 4 = 0"; cases "y mod 100 = 0"; cases "y mod 400 = 0") simp_all
qed

lemma days_in_months: "days_before_month y 12 = (if is_leap y then 366 else 365)"
  by (simp add: numeral_eq_Suc days_in_month_def)

lemma days_before_month_Suc: "days_before_month y n < days_before_month y (Suc n)"
  using days_in_month_bounds [of y "int n + 1"] by simp

lemma days_before_month_mono: "n \<le> m \<Longrightarrow> days_before_month y n \<le> days_before_month y m"
  by (rule lift_Suc_mono_le) (rule less_imp_le [OF days_before_month_Suc])

section \<open>The year of a day\<close>

lemma days_in_year_bounds:
  "days_before_year y + 365 \<le> days_before_year (y + 1)" "days_before_year (y + 1) \<le> days_before_year y + 366"
  by (simp_all add: days_in_year)

lemma ordinal_year_bounds:
  "days_before_year (ordinal_year n) < n \<and> n \<le> days_before_year (ordinal_year n + 1)"
proof -
  define a r1 where ar: "a = (n - 1) div 146097" "r1 = (n - 1) mod 146097"
  define b r2 where br: "b = r1 div 36524" "r2 = r1 mod 36524"
  define c r3 where cr: "c = r2 div 1461" "r3 = r2 mod 1461"
  define e r4 where er: "e = r3 div 365" "r4 = r3 mod 365"
  have eqs: "n - 1 = 146097 * a + r1" "r1 = 36524 * b + r2" "r2 = 1461 * c + r3" "r3 = 365 * e + r4"
    by (simp_all add: ar br cr er)
  have ranges: "0 \<le> r1" "r1 < 146097" "0 \<le> r2" "r2 < 36524" "0 \<le> r3" "r3 < 1461" "0 \<le> r4" "r4 < 365"
    by (simp_all add: ar br cr er)
  have "0 \<le> b" "0 \<le> c" "0 \<le> e" using ranges by (simp_all add: br cr er pos_imp_zdiv_nonneg_iff)
  moreover have "b < 5" "c < 25" "e < 5" using eqs ranges by linarith+
  ultimately have small: "0 \<le> b" "b \<le> 4" "0 \<le> c" "c \<le> 24" "0 \<le> e" "e \<le> 4" by linarith+
  have year: "ordinal_year n = 400 * a + 100 * b + 4 * c + e + (if e = 4 \<or> b = 4 then 0 else 1)"
    by (simp add: ordinal_year_def Let_def ar br cr er)
  consider "b = 4" | "b \<le> 3" "e = 4" | "b \<le> 3" "e \<le> 3" using small by linarith
  then show ?thesis
  proof cases
    case 1
    then have "r2 = 0" using eqs(2) ranges by linarith
    then have 0: "c = 0" "e = 0" by (simp_all add: cr er)
    have y: "ordinal_year n = 400 * a + 100 * 3 + 4 * 24 + 3 + 1" using 1 0 year by simp
    have y': "ordinal_year n + 1 = 400 * (a + 1) + 100 * 0 + 4 * 0 + 0 + 1" using y by simp
    have n: "n = 146097 * a + 146097" using 1 0 eqs \<open>r2 = 0\<close> ranges by linarith
    show ?thesis unfolding y' unfolding y
      using n days_before_year_parts [of 3 24 3 a] days_before_year_parts [of 0 0 0 "a + 1"] by simp
  next
    case 2
    then have r4: "r4 = 0" using eqs(4) ranges by linarith
    then have "c \<noteq> 24" using 2 eqs ranges by linarith
    then have c: "c + 1 \<le> 24" using small by linarith
    have y: "ordinal_year n = 400 * a + 100 * b + 4 * c + 3 + 1" using 2 year by simp
    have y': "ordinal_year n + 1 = 400 * a + 100 * b + 4 * (c + 1) + 0 + 1" using y by simp
    have n: "n = 146097 * a + 36524 * b + 1461 * c + 1461" using 2 r4 eqs by linarith
    show ?thesis unfolding y' unfolding y
      using n 2 c small days_before_year_parts [of b c 3 a] days_before_year_parts [of b "c + 1" 0 a] by simp
  next
    case 3
    have y: "ordinal_year n = 400 * a + 100 * b + 4 * c + e + 1" using 3 year by simp
    have n: "n = 146097 * a + 36524 * b + 1461 * c + 365 * e + r4 + 1" using eqs by linarith
    have "days_before_year (ordinal_year n) = 146097 * a + 36524 * b + 1461 * c + 365 * e"
      unfolding y by (rule days_before_year_parts) (use 3 small in auto)
    then show ?thesis using n ranges days_in_year_bounds(1) [of "ordinal_year n"] by linarith
  qed
qed

section \<open>The month of a day\<close>

lemma steps_below:
  fixes f :: "nat \<Rightarrow> int"
  assumes "\<And>n. f n < f (Suc n)" and "f 0 < x" and "x \<le> f k"
  defines "m \<equiv> length (filter (\<lambda>i. f i < x) [0..<k])"
  shows "1 \<le> m \<and> m \<le> k \<and> f (m - 1) < x \<and> x \<le> f m"
  using assms(3) unfolding m_def
proof (induction k)
  case 0
  then show ?case using assms(2) by simp
next
  case (Suc k)
  show ?case
  proof (cases "x \<le> f k")
    case True
    then show ?thesis using Suc.IH by auto
  next
    case False
    have "f i < x" if "i \<le> k" for i
      using lift_Suc_mono_le [of f i k] assms(1) that False less_imp_le by (metis not_le order.strict_trans1)
    then have "filter (\<lambda>i. f i < x) [0..<Suc k] = [0..<Suc k]" by (auto simp: filter_id_conv simp del: upt_Suc)
    then show ?thesis using False Suc.prems by simp
  qed
qed

lemma ordinal_month_bounds:
  "1 \<le> ordinal_month n \<and> ordinal_month n \<le> 12 \<and>
   days_before_year (ordinal_year n) + days_before_month (ordinal_year n) (nat (ordinal_month n - 1)) < n \<and>
   n \<le> days_before_year (ordinal_year n) + days_before_month (ordinal_year n) (nat (ordinal_month n))"
proof -
  let ?y = "ordinal_year n"
  let ?m = "length (filter (\<lambda>m. days_before_month ?y m < n - days_before_year ?y) [0..<12])"
  have "1 \<le> ?m \<and> ?m \<le> 12 \<and> days_before_month ?y (?m - 1) < n - days_before_year ?y \<and>
      n - days_before_year ?y \<le> days_before_month ?y ?m"
    by (rule steps_below)
       (use ordinal_year_bounds [of n] in \<open>auto simp: days_before_month_Suc days_in_months days_in_year
         simp del: days_before_month.simps(2)\<close>)
  moreover have "ordinal_month n = int ?m" by (simp add: ordinal_month_def Let_def)
  ultimately obtain m where m: "ordinal_month n = int m" "1 \<le> m" "m \<le> 12"
    "days_before_month ?y (m - 1) < n - days_before_year ?y" "n - days_before_year ?y \<le> days_before_month ?y m"
    by blast
  have "nat (int m - 1) = m - 1" by simp
  with m show ?thesis by (simp only: nat_int) linarith
qed

section \<open>Months on the time line\<close>

text \<open>The ordinal of the first day of month \<open>i\<close>, counted from January of year 0.\<close>

definition month_first :: "int \<Rightarrow> int" where
  "month_first i = days_before_year (i div 12) + days_before_month (i div 12) (nat (i mod 12)) + 1"

definition month_index :: "int \<Rightarrow> int" where
  "month_index n = ordinal_year n * 12 + ordinal_month n - 1"

lemma month_first_at:
  assumes "0 \<le> m" "m \<le> 12"
  shows "month_first (y * 12 + m) = days_before_year y + days_before_month y (nat m) + 1"
proof (cases "m = 12")
  case True
  then have "(y * 12 + m) div 12 = y + 1" "(y * 12 + m) mod 12 = 0" by simp_all
  then show ?thesis using True by (simp add: month_first_def days_in_year days_in_months del: days_before_month.simps(2))
next
  case False
  then have "(y * 12 + m) div 12 = y" "(y * 12 + m) mod 12 = m" using assms by simp_all
  then show ?thesis by (simp only: month_first_def)
qed

lemma month_first_Suc: "month_first i < month_first (i + 1)"
proof -
  have i: "i = i div 12 * 12 + i mod 12" "0 \<le> i mod 12" "i mod 12 < 12" by simp_all
  then have 1: "i + 1 = i div 12 * 12 + (i mod 12 + 1)" by linarith
  have nat: "nat (i mod 12 + 1) = Suc (nat (i mod 12))" by (simp add: nat_add_distrib)
  have "month_first (i + 1) = days_before_year (i div 12) + days_before_month (i div 12) (Suc (nat (i mod 12))) + 1"
    unfolding nat [symmetric] by (subst 1, rule month_first_at) (use i in auto)
  then show ?thesis using days_before_month_Suc [of "i div 12" "nat (i mod 12)"] by (simp add: month_first_def)
qed

lemma month_first_mono:
  assumes "i \<le> j"
  shows "month_first i \<le> month_first j"
proof -
  have "month_first i \<le> month_first (i + int k)" for k
  proof (induction k)
    case (Suc k)
    then show ?case using month_first_Suc [of "i + int k"] by (simp add: algebra_simps)
  qed simp
  from this [of "nat (j - i)"] assms show ?thesis by simp
qed

lemma month_index_bounds: "month_first (month_index n) \<le> n \<and> n < month_first (month_index n + 1)"
proof -
  have m: "1 \<le> ordinal_month n" "ordinal_month n \<le> 12" using ordinal_month_bounds [of n] by simp_all
  have "month_first (month_index n) = month_first (ordinal_year n * 12 + (ordinal_month n - 1))"
    "month_first (month_index n + 1) = month_first (ordinal_year n * 12 + ordinal_month n)"
    by (simp_all add: month_index_def algebra_simps)
  then show ?thesis using m ordinal_month_bounds [of n]
      month_first_at [of "ordinal_month n - 1" "ordinal_year n"] month_first_at [of "ordinal_month n" "ordinal_year n"]
    by simp
qed

lemma month_index_between:
  assumes "month_first i \<le> n" and "n < month_first j"
  shows "i \<le> month_index n \<and> month_index n < j"
proof (rule ccontr)
  assume "\<not> (i \<le> month_index n \<and> month_index n < j)"
  then consider "month_index n + 1 \<le> i" | "j \<le> month_index n" by linarith
  then show False using assms month_index_bounds [of n] by cases (auto dest: month_first_mono)
qed

lemma toordinal_ordinal:
  "toordinal (DateTime (ordinal_year n) (ordinal_month n) (ordinal_day n) x) = n"
  by (simp add: toordinal_def ordinal_day_def Let_def)

end
