(* ===== verification/Analytics.thy ===== *)
theory Analytics
  imports Ledger_Facts Calendar_Facts
begin

text \<open>
  Collection analytics (\<open>app/services/analytics.py\<close>): the money that came in month by month over
  the last twelve months, for the whole Chama or for the member who asks, read from the cash
  account of the ledger. Reversals count against the month they are posted in. The server reads
  months in UTC.
\<close>

section \<open>The cash flow of a category\<close>

text \<open>
  The two source models: who a contribution, or a payment of a registration fee, belongs to.
\<close>

datatype collection = Contributions | Registration_Fees

fun category_source :: "collection \<Rightarrow> string" where
  "category_source Contributions = CONTRIBUTION_SOURCE_TYPE"
| "category_source Registration_Fees = REGISTRATION_FEE_PAYMENT_SOURCE_TYPE"

fun source_members :: "collection \<Rightarrow> db \<Rightarrow> (uuid \<times> uuid) list" where
  "source_members Contributions d = map (\<lambda>c. (cn_id c, cn_membership_id c)) (contributions d)"
| "source_members Registration_Fees d = map (\<lambda>p. (fp_id p, fp_membership_id p)) (fee_payments d)"

definition original_of :: "db \<Rightarrow> ledger_transaction \<Rightarrow> ledger_transaction option" where
  "original_of d t =
     (case lt_reverses_transaction_id t of
        None \<Rightarrow> None | Some r \<Rightarrow> find_row lt_id r (ledger_transactions d))"

definition source_id_of :: "db \<Rightarrow> ledger_transaction \<Rightarrow> uuid option" where
  "source_id_of d t =
     (if lt_source_type t = REVERSAL_SOURCE_TYPE then map_option lt_source_id (original_of d t)
      else Some (lt_source_id t))"

definition flow_transaction ::
  "db \<Rightarrow> uuid \<Rightarrow> int \<Rightarrow> int \<Rightarrow> collection \<Rightarrow> uuid option \<Rightarrow> ledger_transaction \<Rightarrow> bool"
where
  "flow_transaction d chama_id start until category membership_id t \<longleftrightarrow>
     lt_chama_id t = chama_id \<and> start \<le> lt_created_at t \<and> lt_created_at t < until \<and>
     (lt_source_type t = category_source category \<or>
      lt_source_type t = REVERSAL_SOURCE_TYPE \<and>
        map_option lt_source_type (original_of d t) = Some (category_source category)) \<and>
     (case membership_id of
        None \<Rightarrow> True
      | Some m \<Rightarrow> list_ex (\<lambda>(i, owner). Some i = source_id_of d t \<and> owner = m) (source_members category d))"

definition cash_entry :: "db \<Rightarrow> ledger_transaction \<Rightarrow> ledger_entry \<Rightarrow> bool" where
  "cash_entry d t e \<longleftrightarrow>
     le_transaction_id e = lt_id t \<and> le_chama_id e = lt_chama_id t \<and>
     list_ex (\<lambda>a. la_id a = le_account_id e \<and> la_chama_id a = le_chama_id e \<and> la_code a = CASH_CODE)
       (ledger_accounts d)"

text \<open>Year and month (\<open>extract\<close>) with the amount of one joined row.\<close>

definition year_month :: "int \<Rightarrow> int \<times> int" where
  "year_month t = (ordinal_year (t div MICROS_PER_DAY), ordinal_month (t div MICROS_PER_DAY))"

definition flow_rows ::
  "db \<Rightarrow> uuid \<Rightarrow> int \<Rightarrow> int \<Rightarrow> collection \<Rightarrow> uuid option \<Rightarrow> ((int \<times> int) \<times> money) list"
where
  "flow_rows d chama_id start until category membership_id =
     concat (map (\<lambda>t. map (\<lambda>e. (year_month (lt_created_at t), le_debit e - le_credit e))
         (filter (cash_entry d t) (ledger_entries d)))
       (filter (flow_transaction d chama_id start until category membership_id) (ledger_transactions d)))"

definition monthly_cash_flow ::
  "uuid \<Rightarrow> int \<Rightarrow> int \<Rightarrow> collection \<Rightarrow> uuid option \<Rightarrow> db \<Rightarrow> ((int \<times> int) \<times> money) list"
where
  "monthly_cash_flow chama_id start until category membership_id d =
     (let xs = flow_rows d chama_id start until category membership_id
      in map (\<lambda>k. (k, sum_list (map snd (filter (\<lambda>x. fst x = k) xs)))) (sort (remdups (map fst xs))))"

section \<open>The report\<close>

record analytics_month =
  am_month :: string
  am_contributions :: money
  am_registration_fees :: money
  am_total_collected :: money

record collection_analytics =
  ca_currency :: string
  ca_scope :: string
  ca_months :: "analytics_month list"

definition month_start :: "int \<Rightarrow> datetime" where
  "month_start t = DateTime (fst (year_month t)) (snd (year_month t)) 1 0"

definition amount_in :: "((int \<times> int) \<times> money) list \<Rightarrow> datetime \<Rightarrow> money" where
  "amount_in flows d = (case map_of flows (dt_year d, dt_month d) of None \<Rightarrow> 0 | Some v \<Rightarrow> v)"

definition analytics_row :: "((int \<times> int) \<times> money) list \<Rightarrow> ((int \<times> int) \<times> money) list \<Rightarrow> datetime \<Rightarrow> analytics_month" where
  "analytics_row paid fees d =
     \<lparr>am_month = int_str (dt_year d) @ ''-'' @ two_digits (dt_month d),
      am_contributions = amount_in paid d, am_registration_fees = amount_in fees d,
      am_total_collected = amount_in paid d + amount_in fees d\<rparr>"

definition collections :: "user \<Rightarrow> uuid \<Rightarrow> collection_analytics act" where
  "collections actor chama_id =
     bind (get_chama_or_404 chama_id) (\<lambda>c.
     bind (authorize_chama_access actor (ch_id c)) (\<lambda>m.
     bind (has_any_role m LEADERSHIP_ROLES) (\<lambda>group_scope.
     bind (asks utc_now) (\<lambda>now.
     let membership_id = (if group_scope then None else Some (ms_id m));
         this_month = month_start now;
         start = instant (month_offset this_month (- 11));
         until = instant (month_offset this_month 1)
     in bind (scalar (monthly_cash_flow (ch_id c) start until Contributions membership_id)) (\<lambda>paid.
        bind (scalar (monthly_cash_flow (ch_id c) start until Registration_Fees membership_id)) (\<lambda>fees.
        ret \<lparr>ca_currency = ''KES'', ca_scope = (if group_scope then ''group'' else ''member''),
             ca_months = map (\<lambda>offset. analytics_row paid fees (month_offset this_month offset)) [- 11..0]\<rparr>))))))"

section \<open>The twelve months\<close>

definition month_key :: "int \<Rightarrow> int \<times> int" where
  "month_key i = (i div 12, i mod 12 + 1)"

lemma month_key_inject: "month_key i = month_key j \<Longrightarrow> i = j"
proof -
  assume "month_key i = month_key j"
  then have "i div 12 = j div 12" "i mod 12 = j mod 12" by (simp_all add: month_key_def)
  then have "12 * (i div 12) + i mod 12 = 12 * (j div 12) + j mod 12" by (simp only:)
  then show "i = j" by simp
qed

lemma year_month_key: "year_month t = month_key (month_index (t div MICROS_PER_DAY))"
proof -
  let ?n = "t div MICROS_PER_DAY"
  have m: "1 \<le> ordinal_month ?n" "ordinal_month ?n \<le> 12" using ordinal_month_bounds [of ?n] by simp_all
  have "month_index ?n = 12 * ordinal_year ?n + (ordinal_month ?n - 1)" by (simp add: month_index_def)
  moreover have "(12 * ordinal_year ?n + (ordinal_month ?n - 1)) div 12 = ordinal_year ?n"
    by (rule div_parts) (use m in auto)
  moreover have "(12 * ordinal_year ?n + (ordinal_month ?n - 1)) mod 12 = ordinal_month ?n - 1"
    using m by (simp add: mod_pos_pos_trivial)
  ultimately show ?thesis by (simp add: month_key_def year_month_def)
qed

lemma month_offset_month_start:
  "month_offset (month_start now) k =
     (let i = month_index (now div MICROS_PER_DAY) + k in DateTime (fst (month_key i)) (snd (month_key i)) 1 0)"
  by (simp add: month_offset_def month_start_def year_month_def month_index_def month_key_def Let_def algebra_simps)

lemma instant_month: "instant (DateTime (fst (month_key i)) (snd (month_key i)) 1 0) = month_first i * MICROS_PER_DAY"
  by (simp add: instant_def toordinal_def month_key_def month_first_def)

lemma day_window:
  "a * MICROS_PER_DAY \<le> t \<longleftrightarrow> a \<le> t div MICROS_PER_DAY" "t < b * MICROS_PER_DAY \<longleftrightarrow> t div MICROS_PER_DAY < b"
proof -
  have t: "t = 86400000000 * (t div 86400000000) + t mod 86400000000" "0 \<le> t mod 86400000000"
    "t mod 86400000000 < 86400000000" by simp_all
  then have "a * 86400000000 \<le> t \<longleftrightarrow> a \<le> t div 86400000000" for a by linarith
  then show "a * MICROS_PER_DAY \<le> t \<longleftrightarrow> a \<le> t div MICROS_PER_DAY"
    "t < b * MICROS_PER_DAY \<longleftrightarrow> t div MICROS_PER_DAY < b"
    unfolding MICROS_PER_DAY_def by (auto simp: not_le [symmetric])
qed

text \<open>The window of the report is cut into its twelve months: each row falls into one of them.\<close>

definition report_window :: "int \<Rightarrow> int \<times> int" where
  "report_window now =
     (instant (month_offset (month_start now) (- 11)), instant (month_offset (month_start now) 1))"

definition report_keys :: "int \<Rightarrow> (int \<times> int) list" where
  "report_keys now = map (\<lambda>k. month_key (month_index (now div MICROS_PER_DAY) + k)) [- 11..0]"

lemma report_keys_distinct: "distinct (report_keys now)"
  by (auto simp: report_keys_def distinct_map inj_on_def dest: month_key_inject)

lemma report_window_now: "fst (report_window now) \<le> now \<and> now < snd (report_window now)"
proof -
  let ?n = "now div MICROS_PER_DAY"
  have "month_first (month_index ?n - 11) \<le> month_first (month_index ?n)" by (rule month_first_mono) simp
  then have "month_first (month_index ?n - 11) \<le> ?n" "?n < month_first (month_index ?n + 1)"
    using month_index_bounds [of ?n] by simp_all
  then show ?thesis by (simp add: report_window_def month_offset_month_start instant_month day_window Let_def)
qed

lemma in_report:
  assumes "fst (report_window now) \<le> t" and "t < snd (report_window now)"
  shows "year_month t \<in> set (report_keys now)"
proof -
  let ?e = "month_index (now div MICROS_PER_DAY)" and ?i = "month_index (t div MICROS_PER_DAY)"
  have "month_first (?e - 11) \<le> t div MICROS_PER_DAY" "t div MICROS_PER_DAY < month_first (?e + 1)"
    using assms by (simp_all add: report_window_def month_offset_month_start instant_month day_window Let_def)
  then have "?e - 11 \<le> ?i" "?i < ?e + 1" using month_index_between by blast+
  then have "?i - ?e \<in> set [- 11..0]" by simp
  moreover have "year_month t = month_key (?e + (?i - ?e))" by (simp add: year_month_key)
  ultimately show ?thesis unfolding report_keys_def by (auto intro!: image_eqI [where x = "?i - ?e"])
qed

lemma flow_rows_in_report:
  assumes "x \<in> set (flow_rows d cid (fst (report_window now)) (snd (report_window now)) category mid)"
  shows "fst x \<in> set (report_keys now)"
  using assms by (auto simp: flow_rows_def flow_transaction_def intro: in_report)

definition flow_total :: "uuid \<Rightarrow> int \<Rightarrow> collection \<Rightarrow> uuid option \<Rightarrow> db \<Rightarrow> money" where
  "flow_total chama_id now category membership_id d =
     sum_list (map snd (flow_rows d chama_id (fst (report_window now)) (snd (report_window now)) category membership_id))"

lemma amounts_add_up:
  fixes cid now category mid d
  defines "flows \<equiv> monthly_cash_flow cid (fst (report_window now)) (snd (report_window now)) category mid d"
  shows "sum_list (map (\<lambda>k. amount_in flows (month_offset (month_start now) k)) [- 11..0]) = flow_total cid now category mid d"
proof -
  let ?xs = "flow_rows d cid (fst (report_window now)) (snd (report_window now)) category mid"
  let ?group = "\<lambda>k. sum_list (map snd (filter (\<lambda>x. fst x = k) ?xs))"
  have none: "k \<notin> fst ` set ?xs \<Longrightarrow> ?group k = 0" for k
    by (subst filter_False) auto
  have "(case map_of flows k of None \<Rightarrow> 0 | Some v \<Rightarrow> v) = ?group k" for k
    using none [of k] by (auto simp: flows_def monthly_cash_flow_def Let_def map_of_map_restrict restrict_map_def)
  then have "sum_list (map (\<lambda>k. amount_in flows (month_offset (month_start now) k)) [- 11..0]) =
      sum_list (map ?group (report_keys now))"
    by (simp add: amount_in_def month_offset_month_start report_keys_def Let_def o_def del: upto.simps)
  also have "\<dots> = sum_list (map snd ?xs)"
    by (rule sum_list_by_key [OF report_keys_distinct]) (auto dest: flow_rows_in_report)
  finally show ?thesis by (simp add: flow_total_def)
qed

end
