(* ===== verification/Report_Props.thy ===== *)
theory Report_Props
  imports Statements Analytics Ledger_Props
begin

text \<open>
  The properties of the reports: the closing figure of a statement and whose postings it lists, and
  that the monthly analytics account for every posting of their window once.
\<close>

text \<open>
  C37. The lines of a statement are all ledger entries of the Chama in its period, so its debits
  equal its credits and its closing balance is zero, whatever happened in the period; building it
  writes nothing.
\<close>

theorem statement_balances:
  assumes "ledger_ok s" and "clean s"
    and "build_statement actor chama_id date_from date_to membership_id s = (Inr st, t)"
  shows "st_total_debit st = st_total_credit st \<and> st_closing_balance st = 0 \<and>
    st_lines st = whole_ledger s chama_id st \<and> t = s"
proof -
  have inv: "ledger_inv (objs s)" using assms(1) by (simp add: ledger_ok_def)
  have "wp (build_statement actor chama_id date_from date_to membership_id)
    (\<lambda>st t. st_total_debit st = st_total_credit st \<and> st_closing_balance st = 0 \<and>
      st_lines st = whole_ledger s chama_id st \<and> t = s) (\<lambda>_ _. True) s"
    using assms(2)
    by (rule wp_build_statement)
       (simp_all add: whole_ledger_balances [OF inv])
  from wp_InrD [OF this assms(3)] show ?thesis .
qed

text \<open>
  C36. An ordinary member, whom the ledger service refuses to show the ledger, gets every ledger
  entry of the Chama in the period from their own statement: its lines are not narrowed to the
  accounts or the postings of the member.
\<close>

theorem member_statement_shows_ledger:
  assumes "clean s"
    and plain: "\<And>m. access_ok actor chama_id (objs s) m \<Longrightarrow> \<not> list_ex (holds_role (objs s) (ms_id m)) LEADERSHIP_ROLES"
    and run: "build_statement actor chama_id date_from date_to membership_id s = (Inr st, t)"
  shows "st_lines st = whole_ledger s chama_id st \<and>
    (\<exists>msg. list_by_chama actor chama_id s = (Inl (PermissionDeniedError msg), s))"
proof -
  let ?P = "\<lambda>st :: statement. st_lines st = whole_ledger s chama_id st"
  have "wp (build_statement actor chama_id date_from date_to membership_id)
    (\<lambda>st t. ?P st \<and> (\<exists>c. find_row ch_id chama_id (chamas (objs s)) = Some c)) (\<lambda>_ _. True) s"
    using assms(1) by (rule wp_build_statement) auto
  from wp_InrD [OF this run] obtain c where lines: "?P st" and c: "find_row ch_id chama_id (chamas (objs s)) = Some c"
    by blast
  have "wp (list_by_chama actor chama_id) (\<lambda>_ _. False)
    (\<lambda>e t. t = s \<and> (\<exists>msg. e = PermissionDeniedError msg)) s"
    unfolding list_by_chama_def authorize_ledger_read_def wp_bind wp_get_chama_or_404 c option.case
    by (rule wp_authorize_chama_access)
       (use assms(1) plain c in \<open>auto simp: wp dest: find_row_SomeD\<close>)
  then show ?thesis using lines
    by (cases "list_by_chama actor chama_id s"; cases "fst (list_by_chama actor chama_id s)") (auto simp: wp_def)
qed

text \<open>
  What the monthly figures of a category are meant to be, over the ledger alone: the cash that came
  in by the postings of the category and went out again by the postings that reverse one of them.
\<close>

fun collects :: "collection \<Rightarrow> db \<Rightarrow> uuid option \<Rightarrow> ledger_transaction \<Rightarrow> bool" where
  "collects Contributions d mid u \<longleftrightarrow> lt_source_type u = CONTRIBUTION_SOURCE_TYPE \<and>
     (\<forall>m. mid = Some m \<longrightarrow> (\<exists>c \<in> set (contributions d). cn_id c = lt_source_id u \<and> cn_membership_id c = m))"
| "collects Registration_Fees d mid u \<longleftrightarrow> lt_source_type u = REGISTRATION_FEE_PAYMENT_SOURCE_TYPE \<and>
     (\<forall>m. mid = Some m \<longrightarrow> (\<exists>p \<in> set (fee_payments d). fp_id p = lt_source_id u \<and> fp_membership_id p = m))"

definition reverses :: "db \<Rightarrow> ledger_transaction \<Rightarrow> ledger_transaction \<Rightarrow> bool" where
  "reverses d t u \<longleftrightarrow> lt_source_type t = REVERSAL_SOURCE_TYPE \<and>
     (\<exists>r. lt_reverses_transaction_id t = Some r \<and> find_row lt_id r (ledger_transactions d) = Some u)"

definition cash_moved :: "db \<Rightarrow> ledger_transaction \<Rightarrow> money" where
  "cash_moved d t = (\<Sum>e \<leftarrow> ledger_entries d.
     if le_transaction_id e = lt_id t \<and> le_chama_id e = lt_chama_id t \<and>
        (\<exists>a \<in> set (ledger_accounts d). la_id a = le_account_id e \<and> la_chama_id a = le_chama_id e \<and> la_code a = CASH_CODE)
     then le_debit e - le_credit e else 0)"

definition collected :: "uuid \<Rightarrow> int \<Rightarrow> collection \<Rightarrow> uuid option \<Rightarrow> db \<Rightarrow> money" where
  "collected chama_id now category mid d = (\<Sum>t \<leftarrow> ledger_transactions d.
     if lt_chama_id t = chama_id \<and> fst (report_window now) \<le> lt_created_at t \<and> lt_created_at t < snd (report_window now) \<and>
        (collects category d mid t \<or> (\<exists>u. reverses d t u \<and> collects category d mid u))
     then cash_moved d t else 0)"

lemma collects_iff:
  "collects category d mid u \<longleftrightarrow> lt_source_type u = category_source category \<and>
     (case mid of None \<Rightarrow> True
      | Some m \<Rightarrow> (lt_source_id u, m) \<in> set (source_members category d))"
  by (cases category) (auto simp: image_iff split: option.splits intro: bexI [rotated])

lemma list_ex_owner:
  "list_ex (\<lambda>(i, owner). Some i = k \<and> owner = m) xs \<longleftrightarrow> (\<exists>i. k = Some i \<and> (i, m) \<in> set xs)"
  by (auto simp: list_ex_iff)

lemma category_no_reversal: "category_source category \<noteq> REVERSAL_SOURCE_TYPE"
  by (cases category) (simp_all add: source_type_defs)

lemma flow_transaction_iff:
  "flow_transaction d chama_id start until category mid t \<longleftrightarrow>
     lt_chama_id t = chama_id \<and> start \<le> lt_created_at t \<and> lt_created_at t < until \<and>
     (collects category d mid t \<or> (\<exists>u. reverses d t u \<and> collects category d mid u))"
  using category_no_reversal [of category]
  by (auto simp: flow_transaction_def collects_iff reverses_def original_of_def source_id_of_def list_ex_owner
      split: option.splits)

lemma sum_list_concat_map: "sum_list (concat (map f xs)) = (\<Sum>x \<leftarrow> xs. sum_list (f x))"
  by (induction xs) simp_all

lemma flow_total_collected: "flow_total chama_id now category mid d = collected chama_id now category mid d"
proof -
  have cash: "(\<Sum>e \<leftarrow> ledger_entries d. if cash_entry d t e then le_debit e - le_credit e else 0) = cash_moved d t" for t
    by (simp add: cash_moved_def cash_entry_def list_ex_iff)
  show ?thesis
    by (simp add: flow_total_def flow_rows_def map_concat o_def sum_list_concat_map sum_list_filter_if cash
        flow_transaction_iff collected_def)
qed

text \<open>
  C38. The twelve months of the collection analytics account for every posting of their window
  exactly once: the monthly figures of a category add up to the cash moved by the postings of the
  category and by the postings that reverse one, over the window, of the whole Chama for a leader
  and of the member's own sources otherwise.
\<close>

theorem collections_account_for_window:
  assumes "clean s" and "collections actor chama_id s = (Inr r, t)"
  shows "\<exists>m. access_ok actor chama_id (objs s) m \<and> t = s \<and> length (ca_months r) = 12 \<and>
    (let mid = (if list_ex (holds_role (objs s) (ms_id m)) LEADERSHIP_ROLES then None else Some (ms_id m));
         paid = collected chama_id (utc_now s) Contributions mid (objs s);
         fees = collected chama_id (utc_now s) Registration_Fees mid (objs s)
     in sum_list (map am_contributions (ca_months r)) = paid \<and>
        sum_list (map am_registration_fees (ca_months r)) = fees \<and>
        sum_list (map am_total_collected (ca_months r)) = paid + fees)"
proof -
  let ?Q = "\<lambda>r t. \<exists>m. access_ok actor chama_id (objs s) m \<and> t = s \<and> length (ca_months r) = 12 \<and>
    (let mid = (if list_ex (holds_role (objs s) (ms_id m)) LEADERSHIP_ROLES then None else Some (ms_id m));
         paid = collected chama_id (utc_now s) Contributions mid (objs s);
         fees = collected chama_id (utc_now s) Registration_Fees mid (objs s)
     in sum_list (map am_contributions (ca_months r)) = paid \<and>
        sum_list (map am_registration_fees (ca_months r)) = fees \<and>
        sum_list (map am_total_collected (ca_months r)) = paid + fees)"
  have "wp (collections actor chama_id) ?Q (\<lambda>_ _. True) s"
    unfolding collections_def
    by (rule wp_chama_read [OF assms(1)])
       (auto simp: wp assms(1) analytics_row_def o_def Let_def sum_list_addf amounts_add_up [unfolded report_window_def fst_conv snd_conv]
        flow_total_collected
         simp del: upto.simps dest!: find_row_SomeD)
  from wp_InrD [OF this assms(2)] show ?thesis .
qed

section \<open>The demo Chama\<close>

definition open_session :: sess where
  "open_session = demo_session\<lparr>utc_now := 63908006400000000\<rparr>"

definition booked :: ledger_transaction where
  "booked = new_tx open_session treasurer 10 CONTRIBUTION_SOURCE_TYPE 77 (Some ''c'') None"

definition booked_session :: sess where
  "booked_session = posted booked (entries_from 10 1000 63908006400000000 1001 [dl 11 150000, cl 13 150000]) 1003 open_session"

lemma open_simps [simp]:
  "objs open_session = demo_db" "rows open_session = demo_db" "durable open_session = [demo_db]"
  "autoflush open_session = False" "is_sqlite open_session = False" "next_uuid open_session = 1000"
  "local_now open_session = DateTime 2026 3 1 0" "utc_now open_session = 63908006400000000"
  "sync open_session = open_session"
  by (simp_all add: open_session_def sync_def)

lemma booked_runs: "demo_post open_session = (Inr booked, booked_session)"
  by (rule wp_computes)
     (simp add: demo_post_def ledger_run normalize_two_lines booked_def new_tx_def booked_session_def
       posted_def add_posting_def del: normalize_lines.simps)

lemma booked_simps [simp]:
  "objs booked_session = add_posting booked (entries_from 10 1000 63908006400000000 1001 [dl 11 150000, cl 13 150000]) demo_db"
  "rows booked_session = objs booked_session" "sync booked_session = booked_session"
  "is_sqlite booked_session = False" "local_now booked_session = DateTime 2026 3 1 0" "clean booked_session"
  by (simp_all add: booked_session_def posted_saved)

lemma ledger_ok_booked: "ledger_ok booked_session"
proof -
  have "ledger_ok open_session"
    by (simp add: ledger_ok_def ledger_flushed_def ledger_fresh_def ledger_inv_def reversals_wf_def map_filter_def)
  from wp_post_keeps [OF this]
  have "wp demo_post (\<lambda>_ t. ledger_ok t \<and> immutable_guard (objs open_session) (objs t))
    (\<lambda>_ t. ledger_ok t \<and> immutable_guard (objs open_session) (objs t)) open_session"
    unfolding demo_post_def .
  from wp_InrD [OF this booked_runs] show ?thesis by simp
qed

definition bobs_statement :: "statement act" where
  "bobs_statement = build_statement bob 10 (Some (DateTime 2026 1 1 0)) None None"

lemma booked_tables [simp]:
  "members (objs booked_session) = members demo_db" "membership_roles (objs booked_session) = membership_roles demo_db"
  "memberships (objs booked_session) = memberships demo_db" "chamas (objs booked_session) = [demo_chama]"
  by (simp_all add: add_posting_def)

lemma bob_is_no_leader: "\<not> list_ex (holds_role (objs booked_session) 44) xs"
  by (simp add: holds_role_def list_ex_iff del: booked_simps(1))

lemma bobs_period:
  "wp bobs_statement (\<lambda>st _. st_period_from st = DateTime 2026 1 1 0 \<and> st_period_to st = DateTime 2026 3 1 0)
     (\<lambda>_ _. False) booked_session"
  unfolding bobs_statement_def
  by (simp add: build_statement_def resolve_scope_def wp find_row_Cons get_chama_or_404_def authorize_chama_access_def
      access_ok_def has_any_role_def Let_def contributions_in_window_def entities_def wp_statement_ledger
      bob_is_no_leader demo_db_def empty_db_def demo_member_def date_of_def less_datetime_def less_eq_datetime_def
      del: booked_simps(1))

lemma bobs_statement_runs:
  obtains st t where "bobs_statement booked_session = (Inr st, t)" "st_period_from st = DateTime 2026 1 1 0"
    "st_period_to st = DateTime 2026 3 1 0"
  using bobs_period by (auto simp: wp_def split: sum.splits prod.splits)

lemma demo_window:
  "instant (DateTime 2026 1 1 0) \<le> 63908006400000000"
  "63908006400000000 < instant (DateTime 2026 3 1 0) + MICROS_PER_DAY"
  by (simp_all add: instant_def toordinal_def days_before_year_def MICROS_PER_DAY_def numeral_eq_Suc
      days_in_month_def is_leap_def)

lemma booked_created [simp]: "lt_created_at booked = 63908006400000000" "lt_id booked = 1000" "lt_chama_id booked = 10"
  by (simp_all add: booked_def)

lemma bobs_lines:
  assumes "st_period_from st = DateTime 2026 1 1 0" and "st_period_to st = DateTime 2026 3 1 0"
  shows "map (\<lambda>l. (sl_debit l, sl_credit l)) (whole_ledger booked_session 10 st) = [(150000, 0), (0, 150000)]"
  using demo_window
  by (simp add: whole_ledger_def assms ledger_rows_def in_window_def add_posting_def entries_of_def entries_from.simps
      insort_key_def Let_def del: booked_tables)

theorem statement_balances_witness:
  "\<exists>st. bobs_statement booked_session = (Inr st, booked_session) \<and>
     map (\<lambda>l. (sl_debit l, sl_credit l)) (st_lines st) = [(150000, 0), (0, 150000)] \<and>
     st_total_debit st = st_total_credit st \<and> st_closing_balance st = 0"
proof -
  obtain st t where run: "bobs_statement booked_session = (Inr st, t)"
    and period: "st_period_from st = DateTime 2026 1 1 0" "st_period_to st = DateTime 2026 3 1 0"
    by (rule bobs_statement_runs)
  have "clean booked_session" by simp
  from statement_balances [OF ledger_ok_booked this run [unfolded bobs_statement_def]] run bobs_lines [OF period]
  show ?thesis by (auto simp del: booked_simps(1))
qed

theorem member_statement_shows_ledger_witness:
  "\<exists>st t msg. bobs_statement booked_session = (Inr st, t) \<and>
     map (\<lambda>l. (sl_debit l, sl_credit l)) (st_lines st) = [(150000, 0), (0, 150000)] \<and>
     list_by_chama bob 10 booked_session = (Inl (PermissionDeniedError msg), booked_session)"
proof -
  obtain st t where run: "bobs_statement booked_session = (Inr st, t)"
    and period: "st_period_from st = DateTime 2026 1 1 0" "st_period_to st = DateTime 2026 3 1 0"
    by (rule bobs_statement_runs)
  have clean: "clean booked_session" by simp
  have "access_ok bob 10 (objs booked_session) m \<Longrightarrow>
      \<not> list_ex (holds_role (objs booked_session) (ms_id m)) LEADERSHIP_ROLES" for m
    using bob_is_no_leader by (auto simp: access_ok_def simp del: booked_simps(1))
  from member_statement_shows_ledger [OF clean this run [unfolded bobs_statement_def]] run bobs_lines [OF period]
  show ?thesis by (auto simp del: booked_simps(1))
qed

lemma treasurers_flow: "collected 10 63908006400000000 Contributions None (objs booked_session) = 150000"
  using report_window_now [of 63908006400000000]
  by (simp add: flow_total_collected [symmetric] flow_total_def flow_rows_def flow_transaction_def cash_entry_def booked_def new_tx_def add_posting_def
      entries_from.simps source_type_defs account_code_defs del: booked_tables)

lemma collections_run: "returns (collections treasurer 10) booked_session"
  unfolding returns_wp
  by (simp add: collections_def wp find_row_Cons get_chama_or_404_def authorize_chama_access_def access_ok_def
      has_any_role_def Let_def entities_def del: booked_simps(1) upto.simps)

theorem collections_account_for_window_witness:
  "sum_list (map am_contributions (ca_months (result_of (collections treasurer 10) booked_session))) = 150000"
proof -
  have clean: "clean booked_session" by simp
  have leader: "access_ok treasurer 10 (objs booked_session) m \<Longrightarrow>
      list_ex (holds_role (objs booked_session) (ms_id m)) LEADERSHIP_ROLES" for m
    by (auto simp: access_ok_def holds_role_def LEADERSHIP_ROLES_def simp del: booked_simps(1))
  have "utc_now booked_session = 63908006400000000" by (simp add: booked_session_def posted_saved)
  with collections_account_for_window [OF clean returnsD [OF collections_run]] leader treasurers_flow
  show ?thesis by (auto simp: Let_def simp del: booked_simps(1))
qed

end
