(* ===== verification/Spec2Isabelle.thy ===== *)
theory Spec2Isabelle
  imports Ledger_Props Loan_Props Payout_Props Contribution_Props Fees_Props Governance_Props
    Payment_Props Connections Account_Props Notifications Daraja_Props Jenga Report_Props
begin

text \<open>
  Chama Core keeps the books of savings groups (Chamas): members pay monthly contributions that
  buy shares, borrow against them, and are paid out; every movement of money is a balanced
  transaction of an immutable double-entry ledger. Members can pay by mobile money through the
  providers Daraja (M-Pesa) and Jenga. The program is a FastAPI application over SQLAlchemy; its
  rules are in \<open>app/services\<close>, over the repositories of \<open>app/repositories\<close>, the tables of
  \<open>app/models\<close> and the provider ports of \<open>app/providers\<close>. This library models these layers and
  proves what they promise.

  \<^bold>\<open>How a request is modelled.\<close> \<open>Models\<close> has one record per mapped class and the record \<open>db\<close> of all
  tables, each the list of its rows in insertion order, which stands for the order of
  \<open>created_at\<close>. \<open>Session\<close> is the SQLAlchemy session: \<open>objs\<close> (the objects, pending changes
  included), \<open>rows\<close> (what was flushed and statements see) and \<open>durable\<close> (the committed databases,
  latest first). A service method is a function from the session to an error or a result and the
  new session; \<open>request\<close> closes the session and drops what was not committed, so a crash at any
  moment leaves the head of \<open>durable\<close>. The flag \<open>autoflush\<close> is free: the production factory turns it
  off (\<open>app/db/session.py\<close>) and some findings depend on it; objects do not expire at a commit. The
  calculus \<open>wp\<close> (weakest preconditions, total correctness) carries the proofs. A constraint of a
  table is a check at its insertion that raises \<open>IntegrityError\<close>. Provider transactions are an
  exception: for an outcome that the same request commits, their unique keys are checked where the
  attributes are assigned, and a status answer that decides nothing, which the request never
  flushes, is not checked. Foreign keys to the acting user are not checked: the row was read when
  the request was authenticated.

  \<^bold>\<open>The theories.\<close>
  \<^item> \<open>Prelude\<close>, \<open>Decimals\<close>, \<open>Calendar\<close>, \<open>Calendar_Facts\<close>, \<open>Clock\<close>, \<open>Strings\<close>, \<open>Json\<close>, \<open>Base64\<close>: tables
    and their laws; \<open>Decimal\<close> with \<open>quantize\<close>; datetimes, whole-month arithmetic and the inverse of
    \<open>toordinal\<close>; text, UUIDs, JSON with its round trip, Base64 with its round trip.
  \<^item> \<open>Enums\<close>, \<open>Models\<close>, \<open>Session\<close>: \<open>app/models\<close>, \<open>app/db/session.py\<close>, \<open>app/core/errors.py\<close>.
  \<^item> \<open>Access\<close>, \<open>Audit_Trail\<close>, \<open>Notifications\<close>: \<open>services/access.py\<close> (who may read and write a Chama),
    \<open>services/audit.py\<close> and \<open>services/notification.py\<close> (the trail, the fan-out, the feed).
  \<^item> \<open>Ledger\<close>, \<open>Ledger_Facts\<close>, \<open>Ledger_Props\<close>, \<open>Finance\<close>: \<open>services/ledger.py\<close>, \<open>services/finance.py\<close>
    and \<open>db/ledger_guards.py\<close>. The invariant \<open>ledger_inv\<close> (balanced transactions, accounts of the
    same Chama, one posting per source, one reversal per transaction) is kept in every committed
    database. \<open>Finance\<close> computes cash and share value and has the double posting the services share.
  \<^item> \<open>Contribution\<close>, \<open>Loan\<close>, \<open>Payout\<close>, \<open>Fees\<close>, \<open>Governance\<close>: \<open>services/contribution.py\<close>,
    \<open>share.py\<close>, \<open>settlement.py\<close>, \<open>loan.py\<close>, \<open>payout.py\<close>, \<open>registration_fee.py\<close>, \<open>chama.py\<close>,
    \<open>membership.py\<close>, \<open>role.py\<close>. Each has a theory \<open>_Facts\<close> with one rule per handler (for loans also
    \<open>Loan_Life\<close>) and a theory \<open>_Props\<close> with the invariants over any sequence of requests, the
    effect of the operations and the state machine of the status.
  \<^item> \<open>Policies\<close>: phone numbers, passwords, periods and the rate limiter of \<open>app/core\<close>, which is shown
    to implement \<open>fixed_windows\<close>, a specification that knows only the calls of one key.
  \<^item> \<open>Providers\<close>, \<open>Cipher\<close>: the port of \<open>app/providers/base.py\<close> as a record of functions, the
    registry, and the sealed credentials of \<open>core/credential_cipher.py\<close>.
  \<^item> \<open>Payment_Intents\<close>, \<open>Payment_Webhooks\<close>, \<open>C2B\<close>, \<open>Connections\<close>: the four payment services.
    \<open>Payment_Life\<close> states the abstract collection machine \<open>charge\<close> of a payment intent,
    \<open>Payment_Facts\<close> and \<open>Callback_Facts\<close> show that every request and every callback makes one of its
    steps, \<open>Payment_Props\<close> draws the conclusions, \<open>Payment_Demo\<close> has the data of the witnesses.
  \<^item> \<open>Daraja\<close>, \<open>Daraja_Props\<close>, \<open>Jenga\<close>: the two adapters as implementations of the port.
  \<^item> \<open>Auth\<close>, \<open>Platform\<close>, \<open>Account_Facts\<close>, \<open>Account_Life\<close>, \<open>Account_Props\<close>: \<open>services/auth.py\<close>,
    \<open>core/security.py\<close>, \<open>api/deps.py\<close>, \<open>api/v1/auth.py\<close> and \<open>services/platform.py\<close>: accounts, tokens
    and platform administrators over any sequence of their requests.
  \<^item> \<open>Statements\<close>, \<open>Analytics\<close>, \<open>Report_Props\<close>: \<open>services/statement.py\<close> and \<open>services/analytics.py\<close>,
    the reports read from the ledger. \<open>collected\<close> states over the ledger alone what the monthly
    figures are meant to add up to.
  \<^item> \<open>Demo\<close>: a small Chama on which the witnesses run.

  \<^bold>\<open>Interfaces.\<close> \<open>keyed_table\<close> (Prelude) is what the services need of a table, interpreted for the
  tables of the model. \<open>audit_sink\<close> (Audit_Trail) is what they need of the log: it succeeds, touches
  only its own tables and commits nothing. \<open>status_machine\<close> and \<open>status_table\<close> (Lifecycle) state a
  lifecycle: an operation that follows the edges keeps final statuses; interpreted for the
  statuses of contributions, loans, payouts, fees and Chamas. \<open>service\<close> (Lifecycle) lifts what one
  request commits to any sequence of requests of any users, with the clocks moving in between;
  interpreted for contributions, loans (twice), payouts, fees, governance, payments and accounts.

  \<^bold>\<open>How the components rest on each other.\<close> Confirming a contribution, disbursing and repaying a
  loan, completing a payout, paying a fee and undoing these go through \<open>post_transaction\<close> and
  \<open>reverse_transaction\<close>, whose rules are the only thing their proofs use of the ledger. A settled
  payment calls the settlement of its contribution in the same request. The reports use the ledger
  invariant alone.

  \<^bold>\<open>Bounds, fuel and termination.\<close> Money is whole cents, share units whole ten-thousandths, as the
  columns \<open>Numeric(18, 2)\<close> and \<open>Numeric(18, 4)\<close> keep them; decimals are rationals,
  infinite or NaN, rounded where the code rounds, except that the amount of a paybill payment is
  rounded to cents where it is stored and not when the database writes it; \<open>quantize\<close> fails beyond the 28 digits of the context. The JSON reader takes one unit
  of fuel more than the text has characters and uses at most one per character, which the round
  trip \<open>loads_dumps\<close> shows to be enough for written values. The search for a client reference is a
  \<open>partial_function\<close>, since it has no bound of its own; that it ends, and within how many tries, is a
  property. The allocation of a membership number retries five times, as the code does
  (\<open>MAX_NUMBER_RETRIES\<close>). All other loops are structural recursions.

  \<^bold>\<open>Parameters.\<close> Libraries and the outside world enter as arguments: password hashes, JWT, SHA-256
  and HMAC, AES-GCM, RSA signatures, random tokens and nonces, the clocks, the HTTP transport, the
  answers of the rate limiters where they are process memory of another layer (the limiter itself
  is in \<open>Policies\<close>), and \<open>str\<close> of a float or of a compound JSON value. What a theorem needs of them
  (that AES-GCM opens what it sealed and rejects other associated data) is a hypothesis, shown
  satisfiable by its witness. \<open>uuid4\<close> yields a value never used before. Text is ASCII, bytes and
  decoded payloads are characters up to code point 255.

  \<^bold>\<open>Not modelled.\<close> Routing and schemas of the HTTP interface beyond the handlers named above: they
  pass validated values on; schema limits matter in one finding only. Metrics, logging and
  configuration: counters and settings without influence on a result; the settings the services
  read are fields of the session. Migrations and scripts: they create the tables and constraints
  that are modelled. The PDF layout of a statement, and the repository method
  \<open>shares_in_window\<close> that nothing calls. The prefixes \<open>urn:\<close> and \<open>uuid:\<close>, and braces, when a UUID is
  read from text. \<open>updated_at\<close>, and time stamps of the server that no modelled query reads.
  Concurrent transactions: requests follow each other; the races the code handles (a unique key
  taken between check and insertion) appear as the handlers of \<open>IntegrityError\<close>. Row locks are
  therefore without effect here.
\<close>

end
